(* ===== verification/Prelude.thy ===== *)
theory Prelude
  imports Main "HOL-Library.Word" "HOL-Library.AList" "HOL-Library.Multiset"
    "HOL-Library.List_Lexorder" "HOL-Library.Char_ord"
begin

text \<open>
  Shared vocabulary of the development: Go errors as values, results, time stamps and
  durations, Go maps as association lists, and the generic lemmas the components use.

  An error carries the kind that \<^verbatim>\<open>errorutil\<close> gives it and the format string of the
  statement that creates it; the values interpolated into the message are left out. So every
  early return of the source is a value of its own.
\<close>

named_theorems go_defs "definitions of the model that component proofs unfold"

section \<open>Errors and results\<close>

datatype go_error =
    Plain string \<comment> \<open>\<open>fmt.Errorf\<close> and \<open>errors.New\<close>\<close>
  | NotFound string
  | InvalidArgument string
  | FailedPrecondition string
  | PermissionDenied string
  | Unauthenticated string
  | Internal string
  | Conflict string
  | Aborted string
  | ResourceExhausted string
  | Wrapped string go_error \<comment> \<open>\<open>fmt.Errorf("...: %w", err)\<close>\<close>
  | Joined "go_error list" \<comment> \<open>\<open>errors.Join\<close>\<close>
  | Panic string \<comment> \<open>a run-time panic\<close>

type_synonym 'a result = "go_error + 'a"

definition is_ok :: "'a result \<Rightarrow> bool" where
  "is_ok r = (case r of Inl _ \<Rightarrow> False | Inr _ \<Rightarrow> True)"

lemma is_ok_simps [simp]: "is_ok (Inr x)" "\<not> is_ok (Inl e)"
  by (simp_all add: is_ok_def)

lemma is_ok_iff: "is_ok r \<longleftrightarrow> (\<exists>x. r = Inr x)"
  by (cases r) simp_all

text \<open>
  \<open>errorutil.IsNotFound\<close> looks through wrapped errors, as \<open>errors.As\<close> does.
\<close>

fun IsNotFound :: "go_error \<Rightarrow> bool" where
  "IsNotFound (NotFound _) = True"
| "IsNotFound (Wrapped _ e) = IsNotFound e"
| "IsNotFound _ = False"

fun IsConflict :: "go_error \<Rightarrow> bool" where
  "IsConflict (Conflict _) = True"
| "IsConflict (Wrapped _ e) = IsConflict e"
| "IsConflict _ = False"

text \<open>\<open>errors.Join\<close> of a list of errors is nil when the list is empty.\<close>

definition errors_Join :: "go_error list \<Rightarrow> unit result" where
  "errors_Join errs = (if errs = [] then Inr () else Inl (Joined errs))"

lemma errors_Join_ok [simp]: "errors_Join errs = Inr u \<longleftrightarrow> errs = []"
  by (simp add: errors_Join_def)

text \<open>
  \<open>if err != nil { return err }\<close> between two steps, the check of a condition, and a loop that stops
  at the first error.
\<close>

definition bind_result :: "'a result \<Rightarrow> ('a \<Rightarrow> 'b result) \<Rightarrow> 'b result" where
  "bind_result r f = (case r of Inl err \<Rightarrow> Inl err | Inr x \<Rightarrow> f x)"

definition check_that :: "bool \<Rightarrow> go_error \<Rightarrow> unit result" where
  "check_that c err = (if c then Inr () else Inl err)"

definition map_error :: "(go_error \<Rightarrow> go_error) \<Rightarrow> 'a result \<Rightarrow> 'a result" where
  "map_error f r = (case r of Inl err \<Rightarrow> Inl (f err) | Inr x \<Rightarrow> Inr x)"

fun check_each :: "('a \<Rightarrow> unit result) \<Rightarrow> 'a list \<Rightarrow> unit result" where
  "check_each f [] = Inr ()"
| "check_each f (x # xs) = (case f x of Inl err \<Rightarrow> Inl err | Inr _ \<Rightarrow> check_each f xs)"

lemma bind_result_simps [simp]:
  "bind_result (Inl err) f = Inl err" "bind_result (Inr x) f = f x"
  by (simp_all add: bind_result_def)

lemma bind_result_ok: "bind_result r f = Inr y \<longleftrightarrow> (\<exists>x. r = Inr x \<and> f x = Inr y)"
  by (cases r) simp_all

lemma check_that_ok [simp]: "check_that c err = Inr u \<longleftrightarrow> c" "check_that True err = Inr ()"
    "check_that False err = Inl err"
  by (simp_all add: check_that_def)

lemma map_error_simps [simp]: "map_error f (Inl err) = Inl (f err)" "map_error f (Inr x) = Inr x"
    "map_error f r = Inr x \<longleftrightarrow> r = Inr x"
  by (simp_all add: map_error_def split: sum.split)

lemma check_each_ok: "check_each f xs = Inr u \<longleftrightarrow> (\<forall>x\<in>set xs. f x = Inr ())"
  by (induction xs) (auto split: sum.splits)

section \<open>Time\<close>

text \<open>
  A \<open>time.Time\<close> is the number of nanoseconds since Go's zero time, so the zero value of the
  type is 0. A \<open>time.Duration\<close> is a signed 64 bit number of nanoseconds, and \<open>Time.Sub\<close>
  saturates at its ends.
\<close>

type_synonym time = int
type_synonym duration = int

definition max_duration :: duration where "max_duration = 2 ^ 63 - 1"
definition min_duration :: duration where "min_duration = - (2 ^ 63)"

definition time_Sub :: "time \<Rightarrow> time \<Rightarrow> duration" where
  "time_Sub t u = max min_duration (min max_duration (t - u))"

definition Second :: duration where "Second = 1000000000"
definition Minute :: duration where "Minute = 60 * 1000000000"
definition Hour :: duration where "Hour = 60 * Minute"

text \<open>\<open>AsTime\<close> of a missing timestamp is the start of the Unix epoch.\<close>

definition unix_epoch :: time where
  "unix_epoch = 62135596800 * 1000000000"

definition AsTime :: "time option \<Rightarrow> time" where
  "AsTime t = (case t of None \<Rightarrow> unix_epoch | Some t \<Rightarrow> t)"

lemma time_Sub_less [simp]:
  "min_duration < d \<Longrightarrow> d \<le> max_duration \<Longrightarrow> time_Sub t u < d \<longleftrightarrow> t - u < d"
  by (auto simp: time_Sub_def)

lemma time_Sub_greater [simp]:
  "min_duration \<le> d \<Longrightarrow> d < max_duration \<Longrightarrow> d < time_Sub t u \<longleftrightarrow> d < t - u"
  by (auto simp: time_Sub_def)

section \<open>Go maps\<close>

text \<open>
  A Go map is an association list. A loop over a map visits the entries in the order of the
  list. Go leaves that order open, so a statement about every list with distinct keys is a
  statement about every order the run time may choose.
\<close>

type_synonym ('k, 'v) gomap = "('k \<times> 'v) list"

definition map_keys :: "('k, 'v) gomap \<Rightarrow> 'k list" where
  "map_keys m = map fst m"

definition has_key :: "('k, 'v) gomap \<Rightarrow> 'k \<Rightarrow> bool" where
  "has_key m k = (k \<in> set (map_keys m))"

lemma has_key_iff: "has_key m k \<longleftrightarrow> (\<exists>v. map_of m k = Some v)"
  unfolding has_key_def map_keys_def set_map using map_of_eq_None_iff [of m k] by auto

lemma has_key_simps [simp]:
  "\<not> has_key [] k"
  "has_key (x # m) k \<longleftrightarrow> fst x = k \<or> has_key m k"
  by (auto simp: has_key_def map_keys_def)

lemma has_keyI: "(k, v) \<in> set m \<Longrightarrow> has_key m k"
  unfolding has_key_def map_keys_def by force

lemma has_key_update [simp]: "has_key (AList.update k v m) k' \<longleftrightarrow> k' = k \<or> has_key m k'"
  by (auto simp: has_key_iff update_conv')

text \<open>
  \<open>map_get\<close> is the read of a key whose value type has the zero value \<open>d\<close>; \<open>map_append\<close> is
  \<open>m[k] = append(m[k], v)\<close>. A loop whose result may depend on the order of the keys takes the
  order as an argument: a function that lists the keys of a map in any order.
\<close>

definition map_get :: "'v \<Rightarrow> ('k, 'v) gomap \<Rightarrow> 'k \<Rightarrow> 'v" where
  "map_get d m k = (case map_of m k of None \<Rightarrow> d | Some v \<Rightarrow> v)"

definition map_append :: "'k \<Rightarrow> 'v \<Rightarrow> ('k, 'v list) gomap \<Rightarrow> ('k, 'v list) gomap" where
  "map_append k v m = AList.update k (map_get [] m k @ [v]) m"

type_synonym 'k map_order = "'k list \<Rightarrow> 'k list"

definition is_order :: "'k map_order \<Rightarrow> bool" where
  "is_order ord = (\<forall>ks. mset (ord ks) = mset ks)"

lemma is_order_set [simp]: "is_order ord \<Longrightarrow> set (ord ks) = set ks"
  unfolding is_order_def by (metis set_mset_mset)

lemma is_order_distinct [simp]: "is_order ord \<Longrightarrow> distinct (ord ks) = distinct ks"
  unfolding is_order_def by (metis mset_eq_imp_distinct_iff)

lemma map_get_update [simp]: "map_get d (AList.update k v m) k' = (if k' = k then v else map_get d m k')"
  by (simp add: map_get_def update_conv')

lemma map_keys_Nil [simp]: "map_keys [] = []" and map_get_Nil [simp]: "map_get d [] k = d"
  by (simp_all add: map_keys_def map_get_def)

lemma map_keys_update:
  "set (map_keys (AList.update k v m)) = insert k (set (map_keys m))"
  "distinct (map_keys m) \<Longrightarrow> distinct (map_keys (AList.update k v m))"
  unfolding map_keys_def by (auto simp: dom_update intro: distinct_update)

lemma update_new: "k \<notin> fst ` set m \<Longrightarrow> AList.update k v m = m @ [(k, v)]"
  by (induction m) auto

lemma map_get_fold_append:
  "map_get [] (fold (\<lambda>x. map_append (key x) (val x)) xs m) k =
     map_get [] m k @ map val (filter (\<lambda>x. key x = k) xs)"
  by (induction xs arbitrary: m) (auto simp: map_append_def)

lemma map_keys_fold_append:
  "set (map_keys (fold (\<lambda>x. map_append (key x) (val x)) xs m)) = set (map_keys m) \<union> key ` set xs"
  "distinct (map_keys m) \<Longrightarrow> distinct (map_keys (fold (\<lambda>x. map_append (key x) (val x)) xs m))"
  by (induction xs arbitrary: m) (auto simp: map_append_def map_keys_update)

text \<open>Collecting the groups of some keys collects the elements with one of these keys.\<close>

lemma mset_concat_groups:
  "distinct ks \<Longrightarrow>
   mset (concat (map (\<lambda>k. filter (\<lambda>x. key x = k) xs) ks)) = mset (filter (\<lambda>x. key x \<in> set ks) xs)"
proof (induction ks)
  case (Cons k ks)
  have "mset (filter (\<lambda>x. key x \<in> set (k # ks)) xs) =
      mset (filter (\<lambda>x. key x = k) xs) + mset (filter (\<lambda>x. key x \<in> set ks) xs)"
    using Cons.prems by (induction xs) auto
  with Cons show ?case by simp
qed simp

text \<open>A field of a query that is not set matches every value.\<close>

definition matches_field :: "'a option \<Rightarrow> 'a \<Rightarrow> bool" where
  "matches_field q x = (case q of None \<Rightarrow> True | Some y \<Rightarrow> y = x)"

section \<open>Lists\<close>

text \<open>\<open>lo.Uniq\<close> keeps the first occurrence of every value.\<close>

fun lo_Uniq :: "'a list \<Rightarrow> 'a list" where
  "lo_Uniq [] = []"
| "lo_Uniq (x # xs) = x # filter (\<lambda>y. y \<noteq> x) (lo_Uniq xs)"

lemma set_lo_Uniq [simp]: "set (lo_Uniq xs) = set xs"
  by (induction xs) auto

lemma distinct_lo_Uniq [simp]: "distinct (lo_Uniq xs)"
  by (induction xs) (auto intro: distinct_filter)

lemma find_SomeD: "find P xs = Some x \<Longrightarrow> x \<in> set xs \<and> P x"
  by (auto simp: find_Some_iff)

lemma fold_collect:
  "fold (\<lambda>x acc. if P x then acc @ [f x] else acc) xs acc = acc @ map f (filter P xs)"
  by (induction xs arbitrary: acc) auto

text \<open>\<open>slices.IndexFunc\<close>, with None for -1, and the first result of \<open>lo.Difference\<close>.\<close>

fun index_func :: "('a \<Rightarrow> bool) \<Rightarrow> 'a list \<Rightarrow> nat option" where
  "index_func P [] = None"
| "index_func P (x # xs) = (if P x then Some 0 else map_option Suc (index_func P xs))"

lemma index_func_SomeD: "index_func P xs = Some i \<Longrightarrow> i < length xs \<and> P (xs ! i)"
  by (induction xs arbitrary: i) (auto split: if_splits)

lemma index_func_None: "index_func P xs = None \<longleftrightarrow> (\<forall>x\<in>set xs. \<not> P x)"
  by (induction xs) auto

definition lo_Difference :: "'a list \<Rightarrow> 'a list \<Rightarrow> 'a list" where
  "lo_Difference xs ys = filter (\<lambda>x. x \<notin> set ys) xs"

text \<open>\<open>sortUniq\<close> of \<^verbatim>\<open>pkg/repository/token.go\<close>.\<close>

definition sortUniq :: "'a::linorder list \<Rightarrow> 'a list" where
  "sortUniq s = lo_Uniq (sort s)"

lemma set_sortUniq [simp]: "set (sortUniq s) = set s"
  by (simp add: sortUniq_def)

lemma sorted_lo_Uniq: "sorted xs \<Longrightarrow> sorted (lo_Uniq xs)"
  by (induction xs) (auto simp: sorted_wrt_filter)

lemma sortUniq_sorted [simp]: "sorted (sortUniq s)" "distinct (sortUniq s)"
  by (simp_all add: sortUniq_def sorted_lo_Uniq)

lemma split_first:
  "xs @ c # ys = xs' @ c # ys' \<Longrightarrow> c \<notin> set xs \<Longrightarrow> c \<notin> set xs' \<Longrightarrow> xs = xs' \<and> ys = ys'"
proof (induction xs arbitrary: xs')
  case Nil
  then show ?case by (cases xs') auto
next
  case (Cons x xs)
  then show ?case by (cases xs') auto
qed

lemma filter_key_unique:
  assumes "distinct (map f xs)" and "x \<in> set xs"
  shows "filter (\<lambda>y. f y = f x) xs = [x]"
  using assms
proof (induction xs)
  case (Cons a xs)
  show ?case
  proof (cases "x = a")
    case True
    have "f a \<notin> f ` set xs" using Cons.prems(1) by simp
    with True have "\<forall>y\<in>set xs. f y \<noteq> f x" by (metis imageI)
    then have "filter (\<lambda>y. f y = f x) xs = []" by (simp add: filter_empty_conv)
    with True show ?thesis by simp
  next
    case False
    with Cons.prems have "x \<in> set xs" "f a \<noteq> f x" by auto
    with Cons show ?thesis by simp
  qed
qed simp

lemma find_append:
  "find P (xs @ ys) = (case find P xs of None \<Rightarrow> find P ys | Some x \<Rightarrow> Some x)"
  by (induction xs) auto

section \<open>Sorting\<close>

text \<open>\<open>sort.SliceStable\<close>: a stable sort, for a comparison that is a strict weak order.\<close>

fun insert_stable :: "('a \<Rightarrow> 'a \<Rightarrow> bool) \<Rightarrow> 'a \<Rightarrow> 'a list \<Rightarrow> 'a list" where
  "insert_stable lt x [] = [x]"
| "insert_stable lt x (y # ys) = (if lt y x then y # insert_stable lt x ys else x # y # ys)"

definition SliceStable :: "('a \<Rightarrow> 'a \<Rightarrow> bool) \<Rightarrow> 'a list \<Rightarrow> 'a list" where
  "SliceStable lt xs = foldr (insert_stable lt) xs []"

definition strict_weak_order :: "('a \<Rightarrow> 'a \<Rightarrow> bool) \<Rightarrow> bool" where
  "strict_weak_order lt \<longleftrightarrow>
     (\<forall>x. \<not> lt x x) \<and> (\<forall>x y z. lt x y \<longrightarrow> lt y z \<longrightarrow> lt x z) \<and> (\<forall>x y z. lt x z \<longrightarrow> lt x y \<or> lt y z)"

lemma set_insert_stable [simp]: "set (insert_stable lt x xs) = insert x (set xs)"
  by (induction xs) auto

lemma set_SliceStable [simp]: "set (SliceStable lt xs) = set xs"
  by (induction xs) (auto simp: SliceStable_def)

lemma sorted_insert_stable:
  assumes "strict_weak_order lt" and "sorted_wrt (\<lambda>x y. \<not> lt y x) xs"
  shows "sorted_wrt (\<lambda>x y. \<not> lt y x) (insert_stable lt x xs)"
  using assms(2)
proof (induction xs)
  case (Cons y ys)
  have asym: "\<not> lt x y" if "lt y x" using that assms(1) unfolding strict_weak_order_def by blast
  have "\<not> lt z x" if "\<not> lt y x" "\<not> lt z y" for z
    using that assms(1) unfolding strict_weak_order_def by blast
  with Cons asym show ?case by auto
qed simp

lemma sorted_SliceStable: "strict_weak_order lt \<Longrightarrow> sorted_wrt (\<lambda>x y. \<not> lt y x) (SliceStable lt xs)"
  by (induction xs) (simp_all add: SliceStable_def sorted_insert_stable)

text \<open>Elements that are not ordered keep their order.\<close>

lemma insert_stable_front: "\<forall>y\<in>set xs. \<not> lt y x \<Longrightarrow> insert_stable lt x xs = x # xs"
  by (cases xs) simp_all

lemma filter_insert_stable:
  assumes "\<And>y. P y \<Longrightarrow> P x \<Longrightarrow> \<not> lt y x" 
  shows "filter P (insert_stable lt x xs) = (if P x then x # filter P xs else filter P xs)"
  by (induction xs) (use assms in auto)

lemma filter_SliceStable:
  assumes "\<And>x y. P x \<Longrightarrow> P y \<Longrightarrow> \<not> lt x y"
  shows "filter P (SliceStable lt xs) = filter P xs"
  by (induction xs) (simp_all add: SliceStable_def filter_insert_stable assms)

section \<open>Strings\<close>

text \<open>\<open>strings.ToLower\<close> and \<open>strings.ToUpper\<close> on ASCII text.\<close>

definition ascii_lower :: "char \<Rightarrow> char" where
  "ascii_lower c =
     (let n = of_char c :: nat in if 65 \<le> n \<and> n \<le> 90 then char_of (n + 32) else c)"

definition ToLower :: "string \<Rightarrow> string" where
  "ToLower s = map ascii_lower s"

definition ToUpper :: "string \<Rightarrow> string" where
  "ToUpper s = map (\<lambda>c. let n = of_char c :: nat in if 97 \<le> n \<and> n \<le> 122 then char_of (n - 32) else c) s"

text \<open>
  Strings are compared byte by byte, which is the order of the library's list and character
  orders. \<open>itoa\<close> is the decimal text of a number, \<open>format_strings\<close> that of a slice of strings
  under the verb \<open>%s\<close>, and \<open>strings_Join\<close> is \<open>strings.Join\<close>.
\<close>

fun itoa :: "nat \<Rightarrow> string" where
  "itoa n = (if n < 10 then [char_of (48 + n)] else itoa (n div 10) @ [char_of (48 + n mod 10)])"

declare itoa.simps [simp del]

lemma char_of_digits:
  "char_of (48 :: nat) = CHR ''0''" "char_of (49 :: nat) = CHR ''1''" "char_of (50 :: nat) = CHR ''2''"
  "char_of (51 :: nat) = CHR ''3''" "char_of (52 :: nat) = CHR ''4''" "char_of (53 :: nat) = CHR ''5''"
  "char_of (54 :: nat) = CHR ''6''" "char_of (55 :: nat) = CHR ''7''" "char_of (56 :: nat) = CHR ''8''"
  "char_of (57 :: nat) = CHR ''9''"
  by (simp_all add: char_of_def bit_Suc_0_iff)

fun strings_Join :: "string list \<Rightarrow> string \<Rightarrow> string" where
  "strings_Join [] sep = ''''"
| "strings_Join [s] sep = s"
| "strings_Join (s # t # ss) sep = s @ sep @ strings_Join (t # ss) sep"

definition format_strings :: "string list \<Rightarrow> string" where
  "format_strings ss = ''['' @ strings_Join ss '' '' @ '']''"

end
