(* ===== verification/ProvisioningEvents.thy ===== *)
theory ProvisioningEvents
  imports Prelude
begin

text \<open>
  The data of a machine's provisioning history: \<^verbatim>\<open>pkg/db/metal/base.go\<close> and
  \<^verbatim>\<open>pkg/db/metal/provisioning-event.go\<close>. A container holds the events of a machine, the
  newest first.
\<close>

section \<open>Entities\<close>

text \<open>Go embeds \<open>Base\<close> in the entities; the records of the entities extend this one.\<close>

record Base =
  b_ID :: string
  b_Name :: string
  b_Description :: string
  b_Created :: time
  b_Changed :: time
  b_Generation :: "64 word"

section \<open>Events and containers\<close>

datatype ProvisioningEventType =
    EvAlive | EvCrashed | EvPXEBooting | EvPlannedReboot | EvPreparing | EvRegistering
  | EvWaiting | EvInstalling | EvBootingNewKernel | EvPhonedHome | EvMachineReclaim
  | EvOther string \<comment> \<open>any other string\<close>

datatype MachineLiveliness =
  LivelinessAlive | LivelinessDead | LivelinessUnknown | LivelinessOther string

record ProvisioningEvent =
  ev_Time :: time
  ev_Event :: ProvisioningEventType
  ev_Message :: string

record ProvisioningEventContainer = Base +
  ec_Liveliness :: MachineLiveliness
  ec_Events :: "ProvisioningEvent list"
  ec_LastEventTime :: "time option"
  ec_LastErrorEvent :: "ProvisioningEvent option"
  ec_CrashLoop :: bool
  ec_FailedMachineReclaim :: bool

definition AllProvisioningEventTypes :: "ProvisioningEventType list" where
  "AllProvisioningEventTypes =
     [EvAlive, EvCrashed, EvPlannedReboot, EvPXEBooting, EvPreparing, EvRegistering,
      EvWaiting, EvInstalling, EvBootingNewKernel, EvPhonedHome, EvMachineReclaim]"

text \<open>\<open>ProvisioningEventsByID\<close>: a later container with the same id replaces an earlier one.\<close>

definition ProvisioningEventsByID ::
  "ProvisioningEventContainer list \<Rightarrow> (string, ProvisioningEventContainer) gomap" where
  "ProvisioningEventsByID pecs = fold (\<lambda>f res. AList.update (b_ID f) f res) pecs []"

text \<open>\<open>TrimEvents\<close>: slicing with a negative bound panics.\<close>

definition TrimEvents ::
  "int \<Rightarrow> ProvisioningEventContainer \<Rightarrow> ProvisioningEventContainer result" where
  "TrimEvents maxCount p =
     (if int (length (ec_Events p)) > maxCount
      then if maxCount < 0 then Inl (Panic ''slice bounds out of range'')
           else Inr (p\<lparr>ec_Events := take (nat maxCount) (ec_Events p)\<rparr>)
      else Inr p)"

fun validate_order :: "time \<Rightarrow> ProvisioningEvent list \<Rightarrow> unit result" where
  "validate_order lastEventTime [] = Inr ()"
| "validate_order lastEventTime (e # es) =
     (if ev_Time e > lastEventTime
      then Inl (Plain ''provisioning event container for machine %s is not chronologically sorted'')
      else validate_order (ev_Time e) es)"

definition Validate :: "ProvisioningEventContainer option \<Rightarrow> unit result" where
  "Validate oc =
     (case oc of
        None \<Rightarrow> Inr ()
      | Some c \<Rightarrow>
          (case ec_Events c of
             [] \<Rightarrow> Inr ()
           | e0 # _ \<Rightarrow>
               (let lastEventTime = ev_Time e0 in
                case ec_LastEventTime c of
                  None \<Rightarrow> Inl (Plain ''last event time not up to date in provisioning event container for machine %s'')
                | Some t \<Rightarrow>
                    if lastEventTime > t
                    then Inl (Plain ''last event time not up to date in provisioning event container for machine %s'')
                    else validate_order lastEventTime (ec_Events c))))"

section \<open>Facts\<close>

text \<open>The loop of \<open>Validate\<close> accepts exactly the histories sorted by falling time.\<close>

abbreviation newer_first :: "ProvisioningEvent list \<Rightarrow> bool" where
  "newer_first \<equiv> sorted_wrt (\<lambda>e f. ev_Time f \<le> ev_Time e)"

lemma validate_order_ok:
  "validate_order t es = Inr u \<longleftrightarrow> newer_first es \<and> (\<forall>e\<in>set es. ev_Time e \<le> t)"
  by (induction t es rule: validate_order.induct) (auto split: if_splits)

definition chronological :: "ProvisioningEventContainer \<Rightarrow> bool" where
  "chronological c \<longleftrightarrow>
     newer_first (ec_Events c) \<and>
     (case ec_LastEventTime c of
        None \<Rightarrow> ec_Events c = []
      | Some t \<Rightarrow> (\<forall>e\<in>set (ec_Events c). ev_Time e \<le> t))"

lemma Validate_chronological: "Validate (Some c) = Inr u \<longleftrightarrow>
   newer_first (ec_Events c) \<and>
   (ec_Events c \<noteq> [] \<longrightarrow> (\<exists>t. ec_LastEventTime c = Some t \<and> (\<forall>e\<in>set (ec_Events c). ev_Time e \<le> t)))"
  by (cases "ec_Events c")
     (auto simp: Validate_def Let_def validate_order_ok split: option.splits if_splits
           dest: order_trans)

lemma chronological_Validate: "chronological c \<Longrightarrow> Validate (Some c) = Inr ()"
  unfolding Validate_chronological chronological_def by (auto split: option.splits)

lemma newer_first_take: "newer_first es \<Longrightarrow> newer_first (take n es)"
  by (rule sorted_wrt_take)

lemma ProvisioningEventsByID_lookup:
  "map_of (ProvisioningEventsByID pecs) i = find (\<lambda>f. b_ID f = i) (rev pecs)"
proof -
  have "map_of (fold (\<lambda>f res. AList.update (b_ID f) f res) pecs m) i =
        (case find (\<lambda>f. b_ID f = i) (rev pecs) of None \<Rightarrow> map_of m i | Some f \<Rightarrow> Some f)" for m
    by (induction pecs arbitrary: m)
       (auto simp: update_conv' find_append split: option.splits)
  then show ?thesis by (auto simp: ProvisioningEventsByID_def split: option.splits)
qed

end
