(* ===== verification/FsmLibrary.thy ===== *)
theory FsmLibrary
  imports Prelude
begin

text \<open>
  The interface of the third-party state machine library \<^verbatim>\<open>github.com/looplab/fsm\<close>, as
  far as \<^verbatim>\<open>pkg/fsm\<close> relies on it. The library is not part of the repository: \<open>NewFSM\<close>
  followed by \<open>Event\<close> is the parameter \<open>fsm_event\<close> of the model, a function of the table of
  event descriptions, the current state and the name of the event. The locale states the
  documented behaviour of \<open>Event\<close>.
\<close>

record ('e, 's) EventDesc =
  d_Name :: 'e
  d_Src :: "'s list"
  d_Dst :: 's

datatype 's fsm_outcome =
    Entered 's \<comment> \<open>the state changed, the \<open>enter_\<close> callback of the new state runs\<close>
  | NoTransitionError \<comment> \<open>source and destination are the same\<close>
  | InvalidEventError \<comment> \<open>the event is inappropriate in the current state\<close>
  | UnknownEventError \<comment> \<open>no description names the event\<close>

type_synonym ('e, 's) fsm_lib = "('e, 's) EventDesc list \<Rightarrow> 's \<Rightarrow> 'e \<Rightarrow> 's fsm_outcome"

definition desc_matches :: "'s \<Rightarrow> 'e \<Rightarrow> ('e, 's) EventDesc \<Rightarrow> bool" where
  "desc_matches cur ev d \<longleftrightarrow> d_Name d = ev \<and> cur \<in> set (d_Src d)"

text \<open>
  A transition is keyed by event and source state, and a later description replaces an
  earlier one with the same key.
\<close>

locale looplab_fsm =
  fixes fsm_event :: "('e, 's) fsm_lib"
  assumes unknown_event:
    "ev \<notin> d_Name ` set table \<Longrightarrow> fsm_event table cur ev = UnknownEventError"
    and invalid_event:
    "ev \<in> d_Name ` set table \<Longrightarrow> \<not> (\<exists>d\<in>set table. desc_matches cur ev d) \<Longrightarrow>
       fsm_event table cur ev = InvalidEventError"
    and transition:
    "desc_matches cur ev d \<Longrightarrow> \<not> (\<exists>d'\<in>set later. desc_matches cur ev d') \<Longrightarrow> d_Dst d \<noteq> cur \<Longrightarrow>
       fsm_event (earlier @ d # later) cur ev = Entered (d_Dst d)"
    and no_transition:
    "desc_matches cur ev d \<Longrightarrow> \<not> (\<exists>d'\<in>set later. desc_matches cur ev d') \<Longrightarrow> d_Dst d = cur \<Longrightarrow>
       fsm_event (earlier @ d # later) cur ev = NoTransitionError"
begin

text \<open>The laws determine the outcome: the last matching description decides.\<close>

lemma outcome_of_last_match:
  "fsm_event table cur ev =
     (case find (desc_matches cur ev) (rev table) of
        Some d \<Rightarrow> if d_Dst d = cur then NoTransitionError else Entered (d_Dst d)
      | None \<Rightarrow> if ev \<in> d_Name ` set table then InvalidEventError else UnknownEventError)"
proof (cases "find (desc_matches cur ev) (rev table)")
  case None
  then have "\<not> (\<exists>d\<in>set table. desc_matches cur ev d)"
    by (auto simp: find_None_iff)
  with None show ?thesis
    by (auto simp: unknown_event invalid_event)
next
  case (Some d)
  then obtain i where i: "i < length (rev table)" "desc_matches cur ev (rev table ! i)"
    "d = rev table ! i" "\<forall>j<i. \<not> desc_matches cur ev (rev table ! j)"
    by (auto simp: List.find_Some_iff)
  have "rev table = take i (rev table) @ d # drop (Suc i) (rev table)"
    using i by (simp add: id_take_nth_drop)
  then have "rev (rev table) = rev (take i (rev table) @ d # drop (Suc i) (rev table))"
    by (rule arg_cong)
  then have table: "table = rev (drop (Suc i) (rev table)) @ d # rev (take i (rev table))"
    by simp
  have "\<not> (\<exists>d'\<in>set (rev (take i (rev table))). desc_matches cur ev d')"
    using i by (auto simp: in_set_conv_nth)
  then have "fsm_event (rev (drop (Suc i) (rev table)) @ d # rev (take i (rev table))) cur ev =
      (if d_Dst d = cur then NoTransitionError else Entered (d_Dst d))"
    using i transition no_transition by simp
  with Some table show ?thesis by simp
qed

end

text \<open>
  A function with the documented behaviour: it builds the transition map and looks the pair
  of event and state up. The witnesses instantiate the parameter with it.
\<close>

definition transition_map :: "('e, 's) EventDesc list \<Rightarrow> ('e \<times> 's \<rightharpoonup> 's)" where
  "transition_map table =
     fold (\<lambda>d m. fold (\<lambda>s m. m((d_Name d, s) \<mapsto> d_Dst d)) (d_Src d) m) table Map.empty"

definition table_fsm :: "('e, 's) fsm_lib" where
  "table_fsm table cur ev =
     (case transition_map table (ev, cur) of
        Some dst \<Rightarrow> if dst = cur then NoTransitionError else Entered dst
      | None \<Rightarrow> if ev \<in> set (map d_Name table) then InvalidEventError else UnknownEventError)"

lemma fold_sources:
  "fold (\<lambda>s m. m((n, s) \<mapsto> dst)) srcs m (ev, cur) =
     (if n = ev \<and> cur \<in> set srcs then Some dst else m (ev, cur))"
  by (induction srcs arbitrary: m) auto

lemma transition_map_lookup:
  "transition_map table (ev, cur) =
     map_option d_Dst (find (desc_matches cur ev) (rev table))"
proof -
  have "fold (\<lambda>d m. fold (\<lambda>s m. m((d_Name d, s) \<mapsto> d_Dst d)) (d_Src d) m) table m (ev, cur) =
        (case find (desc_matches cur ev) (rev table) of None \<Rightarrow> m (ev, cur) | Some d \<Rightarrow> Some (d_Dst d))"
    for m
    by (induction table arbitrary: m)
       (auto simp: fold_sources find_append desc_matches_def split: option.splits)
  then show ?thesis
    by (auto simp: transition_map_def split: option.splits)
qed

interpretation table_lookup: looplab_fsm table_fsm
proof
  fix table :: "('e, 's) EventDesc list" and cur ev
  show "ev \<notin> d_Name ` set table \<Longrightarrow> table_fsm table cur ev = UnknownEventError"
    by (auto simp: table_fsm_def transition_map_lookup desc_matches_def find_None_iff
        dest!: find_SomeD split: option.splits)
  show "ev \<in> d_Name ` set table \<Longrightarrow> \<not> (\<exists>d\<in>set table. desc_matches cur ev d) \<Longrightarrow>
       table_fsm table cur ev = InvalidEventError"
    by (auto simp: table_fsm_def transition_map_lookup find_None_iff
        dest!: find_SomeD split: option.splits)
next
  fix cur ev and d :: "('e, 's) EventDesc" and later earlier
  assume m: "desc_matches cur ev d" "\<not> (\<exists>d'\<in>set later. desc_matches cur ev d')"
  then have "find (desc_matches cur ev) (rev (earlier @ d # later)) = Some d"
    by (auto simp: find_append find_None_iff split: option.splits dest!: find_SomeD)
  then have "table_fsm (earlier @ d # later) cur ev =
      (if d_Dst d = cur then NoTransitionError else Entered (d_Dst d))"
    by (simp only: table_fsm_def transition_map_lookup option.map option.case)
  then show "d_Dst d \<noteq> cur \<Longrightarrow> table_fsm (earlier @ d # later) cur ev = Entered (d_Dst d)"
    and "d_Dst d = cur \<Longrightarrow> table_fsm (earlier @ d # later) cur ev = NoTransitionError"
    by simp_all
qed

end
