(* ===== verification/ProvisioningFSM.thy ===== *)
theory ProvisioningFSM
  imports ProvisioningEvents FsmLibrary
begin

text \<open>
  The provisioning state machine: \<^verbatim>\<open>pkg/fsm/states\<close> (what every state does with the event
  container when it is entered), \<^verbatim>\<open>pkg/fsm/events.go\<close> (the transition table and the
  callbacks) and \<^verbatim>\<open>pkg/fsm/fsm.go\<close> (\<open>HandleProvisioningEvent\<close>). The Go code mutates a
  clone of the container through a pointer; the model returns the new container.
\<close>

section \<open>States\<close>

datatype StateName =
    StInitial | StAlive | StCrashing | StPXEBooting | StPreparing | StRegistering | StWaiting
  | StInstalling | StBootingNewKernel | StPhonedHome | StPlannedReboot | StMachineReclaim
  | SelfTransitionState

fun StateName_String :: "StateName \<Rightarrow> string" where
  "StateName_String StInitial = ''State Initial''"
| "StateName_String StAlive = ''State Alive''"
| "StateName_String StCrashing = ''State Crashing''"
| "StateName_String StPXEBooting = ''State PXE Booting''"
| "StateName_String StPreparing = ''State Preparing''"
| "StateName_String StRegistering = ''State Registering''"
| "StateName_String StWaiting = ''State Waiting''"
| "StateName_String StInstalling = ''State Installing''"
| "StateName_String StBootingNewKernel = ''State Booting New Kernel''"
| "StateName_String StPhonedHome = ''State Phoned Home''"
| "StateName_String StPlannedReboot = ''State Planned Reboot''"
| "StateName_String StMachineReclaim = ''State Machine Reclaim''"
| "StateName_String SelfTransitionState = ''self_transition''"

definition failedMachineReclaimThreshold :: duration where
  "failedMachineReclaimThreshold = 5 * Minute"

definition swallowBufferedPhonedHomeThreshold :: duration where
  "swallowBufferedPhonedHomeThreshold = 5 * Minute"

text \<open>The library's \<open>fsm.Event\<close>, the argument of the callbacks.\<close>

record FsmEvent =
  e_Event :: ProvisioningEventType
  e_Src :: StateName
  e_Dst :: StateName

type_synonym container = ProvisioningEventContainer

definition updateTimeAndLiveliness :: "ProvisioningEvent \<Rightarrow> container \<Rightarrow> container" where
  "updateTimeAndLiveliness event c =
     c\<lparr>ec_LastEventTime := Some (ev_Time event), ec_Liveliness := LivelinessAlive\<rparr>"

definition appendEventToContainer :: "ProvisioningEvent \<Rightarrow> container \<Rightarrow> container" where
  "appendEventToContainer event c =
     (let c = updateTimeAndLiveliness event c in c\<lparr>ec_Events := event # ec_Events c\<rparr>)"

definition swallowBufferedPhonedHome :: "ProvisioningEvent \<Rightarrow> container \<Rightarrow> FsmEvent \<Rightarrow> bool" where
  "swallowBufferedPhonedHome event c e =
     (e_Event e = EvPhonedHome \<and>
      (case ec_LastEventTime c of
         None \<Rightarrow> False
       | Some t \<Rightarrow> time_Sub (ev_Time event) t < swallowBufferedPhonedHomeThreshold))"

section \<open>Entering a state\<close>

type_synonym callback = "ProvisioningEvent \<Rightarrow> FsmEvent \<Rightarrow> container \<Rightarrow> container result"

definition AliveState_OnTransition :: callback where
  "AliveState_OnTransition event e c = Inr (updateTimeAndLiveliness event c)"

definition BootingNewKernelState_OnTransition :: callback where
  "BootingNewKernelState_OnTransition event e c = Inr (appendEventToContainer event c)"

definition CrashState_OnTransition :: callback where
  "CrashState_OnTransition event e c =
     Inr (appendEventToContainer event
            (c\<lparr>ec_CrashLoop := True, ec_LastErrorEvent := Some event\<rparr>))"

definition InitialState_OnTransition :: callback where
  "InitialState_OnTransition event e c =
     Inl (Plain ''unexpected transition back to initial state'')"

definition InstallingState_OnTransition :: callback where
  "InstallingState_OnTransition event e c = Inr (appendEventToContainer event c)"

definition MachineReclaimState_OnTransition :: callback where
  "MachineReclaimState_OnTransition event e c =
     Inr (appendEventToContainer event (c\<lparr>ec_CrashLoop := False\<rparr>))"

definition PhonedHomeState_OnTransition :: callback where
  "PhonedHomeState_OnTransition event e c =
     (case e_Src e of
        StPhonedHome \<Rightarrow> Inr (updateTimeAndLiveliness event c)
      | StMachineReclaim \<Rightarrow>
          (case ec_LastEventTime c of
             None \<Rightarrow> Inr c
           | Some t \<Rightarrow>
               if time_Sub (ev_Time event) t > failedMachineReclaimThreshold
               then Inr ((updateTimeAndLiveliness event c)\<lparr>ec_FailedMachineReclaim := True\<rparr>)
               else Inr c)
      | _ \<Rightarrow> Inr (appendEventToContainer event (c\<lparr>ec_CrashLoop := False\<rparr>)))"

definition PlannedRebootState_OnTransition :: callback where
  "PlannedRebootState_OnTransition event e c =
     Inr (appendEventToContainer event (c\<lparr>ec_CrashLoop := False\<rparr>))"

definition PreparingState_OnTransition :: callback where
  "PreparingState_OnTransition event e c =
     (if swallowBufferedPhonedHome event c e then Inr c
      else Inr (appendEventToContainer event (c\<lparr>ec_FailedMachineReclaim := False\<rparr>)))"

definition PXEBootingState_OnTransition :: callback where
  "PXEBootingState_OnTransition event e c =
     (if swallowBufferedPhonedHome event c e then Inr c
      else
        (let c = c\<lparr>ec_FailedMachineReclaim := False\<rparr> in
         if e_Src e = StPXEBooting then Inr (updateTimeAndLiveliness event c)
         else Inr (appendEventToContainer event c)))"

definition RegisteringState_OnTransition :: callback where
  "RegisteringState_OnTransition event e c =
     (if swallowBufferedPhonedHome event c e then Inr c
      else Inr (appendEventToContainer event c))"

definition WaitingState_OnTransition :: callback where
  "WaitingState_OnTransition event e c =
     (if swallowBufferedPhonedHome event c e then Inr c
      else Inr (appendEventToContainer event c))"

text \<open>\<open>AllStates\<close>, from the name of a state to its \<open>OnTransition\<close>.\<close>

definition AllStates :: "(StateName, callback) gomap" where
  "AllStates =
     [(StAlive, AliveState_OnTransition),
      (StCrashing, CrashState_OnTransition),
      (StInitial, InitialState_OnTransition),
      (StPXEBooting, PXEBootingState_OnTransition),
      (StPreparing, PreparingState_OnTransition),
      (StRegistering, RegisteringState_OnTransition),
      (StWaiting, WaitingState_OnTransition),
      (StInstalling, InstallingState_OnTransition),
      (StBootingNewKernel, BootingNewKernelState_OnTransition),
      (StPhonedHome, PhonedHomeState_OnTransition),
      (StPlannedReboot, PlannedRebootState_OnTransition),
      (StMachineReclaim, MachineReclaimState_OnTransition)]"

definition AllStateNames :: "StateName list" where
  "AllStateNames = map_keys AllStates"

section \<open>The transition table\<close>

abbreviation transition_desc ::
  "ProvisioningEventType \<Rightarrow> StateName list \<Rightarrow> StateName \<Rightarrow> (ProvisioningEventType, StateName) EventDesc" where
  "transition_desc n srcs dst \<equiv> \<lparr>d_Name = n, d_Src = srcs, d_Dst = dst\<rparr>"

definition Events :: "(ProvisioningEventType, StateName) EventDesc list" where
  "Events =
     [transition_desc EvPXEBooting
        [StPlannedReboot, StMachineReclaim, StCrashing, StInitial] StPXEBooting,
      transition_desc EvPXEBooting [StPXEBooting] SelfTransitionState,
      transition_desc EvPreparing
        [StPXEBooting, StPlannedReboot, StMachineReclaim, StCrashing, StInitial] StPreparing,
      transition_desc EvRegistering [StPreparing, StInitial] StRegistering,
      transition_desc EvWaiting [StRegistering, StInitial] StWaiting,
      transition_desc EvInstalling [StRegistering, StWaiting, StInitial] StInstalling,
      transition_desc EvBootingNewKernel [StInstalling, StInitial] StBootingNewKernel,
      transition_desc EvPhonedHome
        [StBootingNewKernel, StMachineReclaim, StInitial] StPhonedHome,
      transition_desc EvPhonedHome
        [StPlannedReboot, StPhonedHome, StPXEBooting, StPreparing, StRegistering, StWaiting]
        SelfTransitionState,
      transition_desc EvPlannedReboot AllStateNames StPlannedReboot,
      transition_desc EvPlannedReboot [StPlannedReboot] SelfTransitionState,
      transition_desc EvMachineReclaim AllStateNames StMachineReclaim,
      transition_desc EvMachineReclaim [StMachineReclaim] SelfTransitionState,
      transition_desc EvAlive
        [StPXEBooting, StPreparing, StRegistering, StWaiting, StInstalling,
         StBootingNewKernel, StInitial] StAlive,
      transition_desc EvCrashed
        [StPXEBooting, StPreparing, StRegistering, StWaiting, StInstalling,
         StBootingNewKernel, StInitial] StCrashing]"

text \<open>
  \<open>eventCallbacks\<close>: the callback \<open>enter_<dst>\<close>. Entering the artificial state runs the
  callback of the state the machine came from. A state with no callback runs none.
\<close>

definition eventCallbacks :: "ProvisioningEvent \<Rightarrow> FsmEvent \<Rightarrow> container \<Rightarrow> container result" where
  "eventCallbacks event e c =
     (if e_Dst e = SelfTransitionState
      then (case map_of AllStates (e_Src e) of
              Some state \<Rightarrow> state event e c
            | None \<Rightarrow> Inr c)
      else (case map_of AllStates (e_Dst e) of
              Some state \<Rightarrow> state event e c
            | None \<Rightarrow> Inr c))"

section \<open>Handling an event\<close>

definition getEventDestination :: "ProvisioningEventType \<Rightarrow> StateName" where
  "getEventDestination event =
     (case find (\<lambda>d. d_Name d = event \<and> d_Dst d \<noteq> SelfTransitionState) Events of
        Some d \<Rightarrow> d_Dst d
      | None \<Rightarrow> StInitial)"

definition initialStateFromEventContainer :: "container \<Rightarrow> StateName" where
  "initialStateFromEventContainer c =
     getEventDestination (case ec_Events c of [] \<Rightarrow> EvOther '''' | e # _ \<Rightarrow> ev_Event e)"

text \<open>
  \<open>HandleProvisioningEvent\<close> returns the new container and the event, whose message the code
  overwrites through the pointer when the event is unexpected. The parameter \<open>fsm\<close> stands for
  the library.
\<close>

definition unexpected_message :: "StateName \<Rightarrow> string \<Rightarrow> string" where
  "unexpected_message cur msg =
     (if msg = ''''
      then ''[unexpectedly received in '' @ ToLower (StateName_String cur) @ '']''
      else ''[unexpectedly received in '' @ ToLower (StateName_String cur) @ '']: '' @ msg)"

definition handle_unexpected ::
  "StateName \<Rightarrow> ProvisioningEvent \<Rightarrow> container \<Rightarrow> container \<times> ProvisioningEvent" where
  "handle_unexpected cur event c =
     (let event = event\<lparr>ev_Message := unexpected_message cur (ev_Message event)\<rparr>;
          c = c\<lparr>ec_LastEventTime := Some (ev_Time event), ec_Liveliness := LivelinessAlive,
                ec_LastErrorEvent := Some event\<rparr>
      in case ev_Event event of
           EvPXEBooting \<Rightarrow> (c\<lparr>ec_CrashLoop := True, ec_Events := event # ec_Events c\<rparr>, event)
         | EvPreparing \<Rightarrow> (c\<lparr>ec_CrashLoop := True, ec_Events := event # ec_Events c\<rparr>, event)
         | EvAlive \<Rightarrow> (c, event)
         | _ \<Rightarrow> (c\<lparr>ec_Events := event # ec_Events c\<rparr>, event))"

definition HandleProvisioningEvent ::
  "(ProvisioningEventType, StateName) fsm_lib \<Rightarrow> container option \<Rightarrow> ProvisioningEvent option \<Rightarrow>
   (container \<times> ProvisioningEvent) result" where
  "HandleProvisioningEvent fsm ec event =
     (case ec of
        None \<Rightarrow> Inl (Plain ''provisioning event container must not be nil'')
      | Some c \<Rightarrow>
          (case event of
             None \<Rightarrow> Inl (Plain ''provisioning event must not be nil'')
           | Some ev \<Rightarrow>
               (let cur = initialStateFromEventContainer c;
                    internal = ''internal error while calculating provisioning event container for machine %s: %w''
                in case fsm Events cur (ev_Event ev) of
                     Entered dst \<Rightarrow>
                       (case eventCallbacks ev \<lparr>e_Event = ev_Event ev, e_Src = cur, e_Dst = dst\<rparr> c of
                          Inr c' \<Rightarrow> Inr (c', ev)
                        | Inl err \<Rightarrow> Inl (Wrapped internal err))
                   | InvalidEventError \<Rightarrow> Inr (handle_unexpected cur ev c)
                   | NoTransitionError \<Rightarrow> Inl (Wrapped internal (Plain ''no transition''))
                   | UnknownEventError \<Rightarrow> Inl (Wrapped internal (Plain ''event %s does not exist'')))))"

text \<open>
  \<open>SendEvent\<close> of \<^verbatim>\<open>pkg/repository/machine.go\<close>, from the stored container (or a fresh one
  for a machine without a history) to the one that is written back.
\<close>

definition new_container :: "string \<Rightarrow> container" where
  "new_container machineID =
     \<lparr>b_ID = machineID, b_Name = '''', b_Description = '''', b_Created = 0, b_Changed = 0,
      b_Generation = 0, ec_Liveliness = LivelinessAlive, ec_Events = [],
      ec_LastEventTime = None, ec_LastErrorEvent = None, ec_CrashLoop = False,
      ec_FailedMachineReclaim = False\<rparr>"

text \<open>The container that \<open>Register\<close> stores for a machine without a history.\<close>

definition registered_container :: "string \<Rightarrow> time \<Rightarrow> ProvisioningEventContainer" where
  "registered_container i now =
     (new_container i)\<lparr>ec_Liveliness := LivelinessOther '''',
       ec_Events := [\<lparr>ev_Time = now, ev_Event = EvAlive, ev_Message = ''machine registered''\<rparr>]\<rparr>"

definition next_container ::
  "(ProvisioningEventType, StateName) fsm_lib \<Rightarrow> string \<Rightarrow> container option \<Rightarrow>
   ProvisioningEvent \<Rightarrow> container result" where
  "next_container fsm machineID stored ev =
     (let ec = (case stored of None \<Rightarrow> new_container machineID | Some c \<Rightarrow> c) in
      case HandleProvisioningEvent fsm (Some ec) (Some ev) of
        Inl err \<Rightarrow> Inl err
      | Inr (newEC, _) \<Rightarrow>
          (case Validate (Some newEC) of
             Inl err \<Rightarrow> Inl err
           | Inr _ \<Rightarrow> TrimEvents 100 newEC))"

end
