(* ===== verification/ProvisioningProps.thy ===== *)
theory ProvisioningProps
  imports ProvisioningFSM
begin

text \<open>
  Properties of the provisioning state machine. The locale instantiates the library interface
  at the machine's events and states; its lemmas hold for every library with the documented
  behaviour.
\<close>

section \<open>Evaluating the table\<close>

lemma getEventDestination_simps [simp]:
  "getEventDestination EvAlive = StAlive"
  "getEventDestination EvCrashed = StCrashing"
  "getEventDestination EvPXEBooting = StPXEBooting"
  "getEventDestination EvPlannedReboot = StPlannedReboot"
  "getEventDestination EvPreparing = StPreparing"
  "getEventDestination EvRegistering = StRegistering"
  "getEventDestination EvWaiting = StWaiting"
  "getEventDestination EvInstalling = StInstalling"
  "getEventDestination EvBootingNewKernel = StBootingNewKernel"
  "getEventDestination EvPhonedHome = StPhonedHome"
  "getEventDestination EvMachineReclaim = StMachineReclaim"
  "getEventDestination (EvOther s) = StInitial"
  by (simp_all add: getEventDestination_def Events_def)

lemma AllStates_lookup [simp]:
  "map_of AllStates StInitial = Some InitialState_OnTransition"
  "map_of AllStates StAlive = Some AliveState_OnTransition"
  "map_of AllStates StCrashing = Some CrashState_OnTransition"
  "map_of AllStates StPXEBooting = Some PXEBootingState_OnTransition"
  "map_of AllStates StPreparing = Some PreparingState_OnTransition"
  "map_of AllStates StRegistering = Some RegisteringState_OnTransition"
  "map_of AllStates StWaiting = Some WaitingState_OnTransition"
  "map_of AllStates StInstalling = Some InstallingState_OnTransition"
  "map_of AllStates StBootingNewKernel = Some BootingNewKernelState_OnTransition"
  "map_of AllStates StPhonedHome = Some PhonedHomeState_OnTransition"
  "map_of AllStates StPlannedReboot = Some PlannedRebootState_OnTransition"
  "map_of AllStates StMachineReclaim = Some MachineReclaimState_OnTransition"
  "map_of AllStates SelfTransitionState = None"
  by (simp_all add: AllStates_def)

definition known_event :: "ProvisioningEventType \<Rightarrow> bool" where
  "known_event e \<longleftrightarrow> e \<in> set AllProvisioningEventTypes"

lemma known_event_simps [simp]:
  "known_event EvAlive" "known_event EvCrashed" "known_event EvPXEBooting"
  "known_event EvPlannedReboot" "known_event EvPreparing" "known_event EvRegistering"
  "known_event EvWaiting" "known_event EvInstalling" "known_event EvBootingNewKernel"
  "known_event EvPhonedHome" "known_event EvMachineReclaim" "\<not> known_event (EvOther s)"
  by (simp_all add: known_event_def AllProvisioningEventTypes_def)

text \<open>The states in which the table expects an event.\<close>

fun expected_in :: "ProvisioningEventType \<Rightarrow> StateName list" where
  "expected_in EvAlive = [StPXEBooting, StPreparing, StRegistering, StWaiting, StInstalling,
     StBootingNewKernel, StInitial]"
| "expected_in EvCrashed = [StPXEBooting, StPreparing, StRegistering, StWaiting, StInstalling,
     StBootingNewKernel, StInitial]"
| "expected_in EvPXEBooting =
     [StPlannedReboot, StMachineReclaim, StCrashing, StInitial, StPXEBooting]"
| "expected_in EvPreparing =
     [StPXEBooting, StPlannedReboot, StMachineReclaim, StCrashing, StInitial]"
| "expected_in EvRegistering = [StPreparing, StInitial]"
| "expected_in EvWaiting = [StRegistering, StInitial]"
| "expected_in EvInstalling = [StRegistering, StWaiting, StInitial]"
| "expected_in EvBootingNewKernel = [StInstalling, StInitial]"
| "expected_in EvPhonedHome = [StBootingNewKernel, StMachineReclaim, StInitial,
     StPlannedReboot, StPhonedHome, StPXEBooting, StPreparing, StRegistering, StWaiting]"
| "expected_in EvPlannedReboot = AllStateNames"
| "expected_in EvMachineReclaim = AllStateNames"
| "expected_in (EvOther s) = []"

text \<open>The callback an expected event runs: of the source state after a self transition.\<close>

fun entered_state :: "ProvisioningEventType \<Rightarrow> StateName \<Rightarrow> StateName" where
  "entered_state EvPhonedHome cur =
     (if cur \<in> {StBootingNewKernel, StMachineReclaim, StInitial} then StPhonedHome else cur)"
| "entered_state e cur = getEventDestination e"

lemma set_AllStateNames: "set AllStateNames = - {SelfTransitionState}"
proof -
  have "x \<in> set AllStateNames \<longleftrightarrow> x \<noteq> SelfTransitionState" for x
    by (cases x) (simp_all add: AllStateNames_def AllStates_def map_keys_def)
  then show ?thesis by auto
qed

lemma getEventDestination_not_self [simp]: "getEventDestination e \<noteq> SelfTransitionState"
  by (cases e) simp_all

lemma initialState_not_self [simp]: "initialStateFromEventContainer c \<noteq> SelfTransitionState"
  by (simp add: initialStateFromEventContainer_def)

lemma event_names: "ev \<in> d_Name ` set Events \<longleftrightarrow> known_event ev"
  by (cases ev) (simp_all add: Events_def)

text \<open>What handling an event may do to a container: the history grows by at most this event.\<close>

definition container_step :: "container \<Rightarrow> ProvisioningEvent \<Rightarrow> container \<Rightarrow> bool" where
  "container_step c ev c' \<longleftrightarrow>
     Base.truncate c' = Base.truncate c \<and>
     (ec_Events c' = ec_Events c \<or>
      ec_Events c' = ev # ec_Events c \<and> ev_Event ev \<noteq> EvAlive \<and>
      ec_LastEventTime c' = Some (ev_Time ev)) \<and>
     (ec_LastEventTime c' = ec_LastEventTime c \<or> ec_LastEventTime c' = Some (ev_Time ev))"

lemmas transition_defs =
  AliveState_OnTransition_def BootingNewKernelState_OnTransition_def CrashState_OnTransition_def
  InstallingState_OnTransition_def MachineReclaimState_OnTransition_def
  PhonedHomeState_OnTransition_def PlannedRebootState_OnTransition_def
  PreparingState_OnTransition_def PXEBootingState_OnTransition_def
  RegisteringState_OnTransition_def WaitingState_OnTransition_def
  appendEventToContainer_def updateTimeAndLiveliness_def

lemma handle_unexpected_step:
  "handle_unexpected cur ev c = (c', ev') \<Longrightarrow>
     container_step c ev' c' \<and> ev_Event ev' = ev_Event ev \<and> ev_Time ev' = ev_Time ev"
  by (cases "ev_Event ev")
     (auto simp: handle_unexpected_def Let_def container_step_def Base.truncate_def)

text \<open>The crash loop flag after an expected event.\<close>

fun crash_loop_after :: "ProvisioningEventType \<Rightarrow> StateName \<Rightarrow> bool \<Rightarrow> bool" where
  "crash_loop_after EvCrashed cur b = True"
| "crash_loop_after EvPlannedReboot cur b = False"
| "crash_loop_after EvMachineReclaim cur b = False"
| "crash_loop_after EvPhonedHome cur b =
     (b \<and> cur \<notin> {StBootingNewKernel, StInitial, StPlannedReboot})"
| "crash_loop_after e cur b = b"

lemma callback_step:
  assumes "cur \<in> set (expected_in (ev_Event ev))"
    and "map_of AllStates (entered_state (ev_Event ev) cur) = Some cb"
  shows "\<exists>c'. cb ev \<lparr>e_Event = ev_Event ev, e_Src = cur, e_Dst = dst\<rparr> c = Inr c' \<and>
    container_step c ev c' \<and>
    ec_CrashLoop c' = crash_loop_after (ev_Event ev) cur (ec_CrashLoop c)"
proof (cases "ev_Event ev")
  case EvPhonedHome
  with assms show ?thesis
    by (auto simp: transition_defs container_step_def Base.truncate_def Let_def
        split: option.splits)
qed (use assms in \<open>auto simp: transition_defs container_step_def Base.truncate_def Let_def
        swallowBufferedPhonedHome_def\<close>)

locale provisioning_fsm = looplab_fsm fsm
  for fsm :: "(ProvisioningEventType, StateName) fsm_lib"
begin

lemma fsm_unexpected:
  "known_event ev \<Longrightarrow> cur \<notin> set (expected_in ev) \<Longrightarrow> fsm Events cur ev = InvalidEventError"
  by (rule invalid_event; cases ev)
     (auto simp: event_names Events_def desc_matches_def set_AllStateNames)

lemma fsm_unknown: "\<not> known_event ev \<Longrightarrow> fsm Events cur ev = UnknownEventError"
  by (rule unknown_event) (simp add: event_names)

lemma fsm_expected:
  assumes "cur \<in> set (expected_in ev)"
  shows "\<exists>dst. fsm Events cur ev = Entered dst \<and>
    (if dst = SelfTransitionState then cur else dst) = entered_state ev cur \<and>
    entered_state ev cur \<noteq> StInitial"
proof (cases ev)
  case EvPlannedReboot
  with assms show ?thesis
    by (auto simp: outcome_of_last_match Events_def desc_matches_def set_AllStateNames)
next
  case EvMachineReclaim
  with assms show ?thesis
    by (auto simp: outcome_of_last_match Events_def desc_matches_def set_AllStateNames)
qed (use assms in \<open>auto simp: outcome_of_last_match Events_def desc_matches_def\<close>)

lemma handle_expected:
  assumes "initialStateFromEventContainer c \<in> set (expected_in (ev_Event ev))"
  shows "\<exists>c'. HandleProvisioningEvent fsm (Some c) (Some ev) = Inr (c', ev) \<and>
    container_step c ev c' \<and>
    ec_CrashLoop c' =
      crash_loop_after (ev_Event ev) (initialStateFromEventContainer c) (ec_CrashLoop c)"
proof -
  let ?cur = "initialStateFromEventContainer c"
  obtain dst where dst: "fsm Events ?cur (ev_Event ev) = Entered dst"
    "(if dst = SelfTransitionState then ?cur else dst) = entered_state (ev_Event ev) ?cur"
    using fsm_expected [OF assms] by auto
  have "entered_state (ev_Event ev) ?cur \<noteq> SelfTransitionState"
    using dst(2) by (auto split: if_splits)
  then obtain cb where cb: "map_of AllStates (entered_state (ev_Event ev) ?cur) = Some cb"
    by (cases "entered_state (ev_Event ev) ?cur") simp_all
  from callback_step [OF assms cb, of dst c] dst cb show ?thesis
    by (auto simp: HandleProvisioningEvent_def eventCallbacks_def split: if_splits)
qed

lemma handle_not_expected:
  "known_event (ev_Event ev) \<Longrightarrow>
   initialStateFromEventContainer c \<notin> set (expected_in (ev_Event ev)) \<Longrightarrow>
   HandleProvisioningEvent fsm (Some c) (Some ev) =
     Inr (handle_unexpected (initialStateFromEventContainer c) ev c)"
  by (simp add: HandleProvisioningEvent_def fsm_unexpected)

lemma handle_unknown:
  "\<not> known_event (ev_Event ev) \<Longrightarrow> \<not> is_ok (HandleProvisioningEvent fsm (Some c) (Some ev))"
  by (simp add: HandleProvisioningEvent_def fsm_unknown)

lemma handle_is_ok:
  "is_ok (HandleProvisioningEvent fsm (Some c) (Some ev)) \<longleftrightarrow> known_event (ev_Event ev)"
  by (metis handle_expected handle_not_expected handle_unknown is_ok_simps(1))

lemma handle_step:
  assumes "HandleProvisioningEvent fsm (Some c) (Some ev) = Inr (c', ev')"
  shows "container_step c ev' c' \<and> ev_Event ev' = ev_Event ev \<and> ev_Time ev' = ev_Time ev"
proof (cases "initialStateFromEventContainer c \<in> set (expected_in (ev_Event ev))")
  case True
  with handle_expected assms show ?thesis by fastforce
next
  case False
  have "known_event (ev_Event ev)"
    using assms handle_is_ok by (metis is_ok_simps(1))
  with False assms show ?thesis
    using handle_not_expected handle_unexpected_step by fastforce
qed

end

section \<open>Histories over time\<close>

definition no_alive :: "container \<Rightarrow> bool" where
  "no_alive c \<longleftrightarrow> (\<forall>e\<in>set (ec_Events c). ev_Event e \<noteq> EvAlive)"

definition history_ok :: "container \<Rightarrow> bool" where
  "history_ok c \<longleftrightarrow> chronological c \<and> no_alive c \<and> length (ec_Events c) \<le> 100"

definition last_time_le :: "container \<Rightarrow> time \<Rightarrow> bool" where
  "last_time_le c t \<longleftrightarrow> (\<forall>t'. ec_LastEventTime c = Some t' \<longrightarrow> t' \<le> t)"

text \<open>
  Writing a container back stamps its \<open>Created\<close>, \<open>Changed\<close> and \<open>Generation\<close> fields; the rest
  of the document is stored as it is.
\<close>

definition stored_as :: "container \<Rightarrow> container \<Rightarrow> bool" where
  "stored_as c c' \<longleftrightarrow>
     c' = c\<lparr>b_Created := b_Created c', b_Changed := b_Changed c', b_Generation := b_Generation c'\<rparr>"

text \<open>
  The stored histories a machine can reach: the registration creates a container for a machine without
  one, and events of the API's types arrive one after the other, with the clock never running backwards.
\<close>

inductive reachable_history ::
  "(ProvisioningEventType, StateName) fsm_lib \<Rightarrow> string \<Rightarrow> container option \<Rightarrow> time \<Rightarrow> bool"
  for fsm machineID where
  fresh: "reachable_history fsm machineID None t"
| registered: "reachable_history fsm machineID None t \<Longrightarrow> t \<le> now \<Longrightarrow>
    stored_as (registered_container machineID now) c \<Longrightarrow> reachable_history fsm machineID (Some c) now"
| sent: "reachable_history fsm machineID stored t \<Longrightarrow> t \<le> ev_Time ev \<Longrightarrow>
    next_container fsm machineID stored ev = Inr c \<Longrightarrow> stored_as c c' \<Longrightarrow>
    reachable_history fsm machineID (Some c') (ev_Time ev)"

lemma history_ok_new [simp]: "history_ok (new_container i)"
  by (simp add: history_ok_def new_container_def chronological_def no_alive_def)

lemma last_time_le_new [simp]: "last_time_le (new_container i) t"
  by (simp add: last_time_le_def new_container_def)

lemma last_time_le_mono: "last_time_le c t \<Longrightarrow> t \<le> u \<Longrightarrow> last_time_le c u"
  by (auto simp: last_time_le_def)

lemma stored_as_history:
  assumes "stored_as c c'"
  shows "history_ok c' \<longleftrightarrow> history_ok c" "last_time_le c' t \<longleftrightarrow> last_time_le c t"
proof -
  note eq = assms [unfolded stored_as_def]
  have "ec_Events c' = ec_Events c" "ec_LastEventTime c' = ec_LastEventTime c"
    using arg_cong [OF eq, of ec_Events] arg_cong [OF eq, of ec_LastEventTime] by simp_all
  then show "history_ok c' \<longleftrightarrow> history_ok c" "last_time_le c' t \<longleftrightarrow> last_time_le c t"
    by (auto simp: history_ok_def no_alive_def chronological_def last_time_le_def
        split: option.splits)
qed

lemma container_step_chronological:
  assumes "container_step c ev c'" "chronological c" "no_alive c" "last_time_le c (ev_Time ev)"
  shows "chronological c' \<and> no_alive c' \<and> last_time_le c' (ev_Time ev)"
  using assms
  by (auto simp: container_step_def chronological_def no_alive_def last_time_le_def
      split: option.splits) (meson order_trans)+

lemma TrimEvents_history:
  assumes "chronological c" "no_alive c"
  shows "\<exists>c'. TrimEvents 100 c = Inr c' \<and> history_ok c' \<and> ec_LastEventTime c' = ec_LastEventTime c"
proof -
  have "set (take n es) \<subseteq> set es" for n and es :: "ProvisioningEvent list"
    by (rule set_take_subset)
  with assms show ?thesis
    by (fastforce simp: TrimEvents_def history_ok_def chronological_def no_alive_def
        newer_first_take split: option.splits)
qed

context provisioning_fsm
begin

lemma next_container_unknown:
  "\<not> known_event (ev_Event ev) \<Longrightarrow> \<not> is_ok (next_container fsm i stored ev)"
  by (auto simp: next_container_def Let_def split: sum.splits dest: handle_unknown)
     (metis handle_unknown is_ok_simps(1))

end

text \<open>
  The invariant of the stored histories. Only the registration leaves an Alive event, as the oldest one;
  before the first event after it the container has no time of a last event.
\<close>

definition just_registered :: "container \<Rightarrow> bool" where
  "just_registered c \<longleftrightarrow> ec_LastEventTime c = None \<and> ec_Events c \<noteq> []"

definition registration_only :: "ProvisioningEvent list \<Rightarrow> bool" where
  "registration_only es \<longleftrightarrow> (\<forall>e\<in>set (butlast es). ev_Event e \<noteq> EvAlive) \<and>
     (es \<noteq> [] \<longrightarrow> ev_Event (last es) = EvAlive \<longrightarrow> ev_Message (last es) = ''machine registered'')"

definition history_inv :: "container \<Rightarrow> time \<Rightarrow> bool" where
  "history_inv c t \<longleftrightarrow> newer_first (ec_Events c) \<and> length (ec_Events c) \<le> 100 \<and> registration_only (ec_Events c) \<and>
     (\<forall>e\<in>set (ec_Events c). ev_Time e \<le> t) \<and> last_time_le c t \<and>
     (case ec_LastEventTime c of
        None \<Rightarrow> ec_Events c = [] \<or> (\<exists>e. ec_Events c = [e] \<and> ev_Event e = EvAlive)
      | Some u \<Rightarrow> \<forall>e\<in>set (ec_Events c). ev_Time e \<le> u)"

lemma registration_only_Cons: "registration_only es \<Longrightarrow> ev_Event e \<noteq> EvAlive \<Longrightarrow> registration_only (e # es)"
  by (auto simp: registration_only_def)

lemma registration_only_take:
  assumes "registration_only es"
  shows "registration_only (take n es)"
proof (cases "length es \<le> n")
  case False
  then have "take n es = take n (butlast es)" by (simp add: butlast_conv_take)
  then have "set (take n es) \<subseteq> set (butlast es)" by (simp add: set_take_subset)
  with assms have "\<forall>e\<in>set (take n es). ev_Event e \<noteq> EvAlive" by (auto simp: registration_only_def)
  then show ?thesis unfolding registration_only_def by (meson in_set_butlastD last_in_set)
qed (simp add: assms)

lemma history_inv_new: "history_inv (new_container i) t"
  by (simp add: history_inv_def new_container_def registration_only_def last_time_le_def)

lemma history_inv_registered: "history_inv (registered_container i t) t"
  by (simp add: history_inv_def registered_container_def new_container_def registration_only_def last_time_le_def)

lemma stored_as_fields:
  assumes "stored_as c c'"
  shows "ec_Events c' = ec_Events c" "ec_LastEventTime c' = ec_LastEventTime c"
  using arg_cong [OF assms [unfolded stored_as_def], of ec_Events]
    arg_cong [OF assms [unfolded stored_as_def], of ec_LastEventTime] by simp_all

lemma history_inv_stored:
  assumes "stored_as c c'"
  shows "history_inv c' t = history_inv c t"
  by (simp only: history_inv_def last_time_le_def stored_as_fields [OF assms])

lemma just_registered_stored: "stored_as (registered_container i now) c \<Longrightarrow> just_registered c"
  by (simp add: just_registered_def stored_as_fields) (simp add: registered_container_def new_container_def)

lemma history_inv_step:
  assumes "container_step c ev c'" "history_inv c t" "t \<le> ev_Time ev"
    and "just_registered c \<Longrightarrow> ec_LastEventTime c' = Some (ev_Time ev)"
  shows "newer_first (ec_Events c') \<and> registration_only (ec_Events c') \<and>
    (\<forall>e\<in>set (ec_Events c'). ev_Time e \<le> ev_Time ev) \<and> last_time_le c' (ev_Time ev) \<and>
    (case ec_LastEventTime c' of None \<Rightarrow> ec_Events c' = [] | Some u \<Rightarrow> \<forall>e\<in>set (ec_Events c'). ev_Time e \<le> u)"
proof -
  from assms(2,3) have le: "\<forall>e\<in>set (ec_Events c). ev_Time e \<le> ev_Time ev" "last_time_le c (ev_Time ev)"
    by (auto simp: history_inv_def last_time_le_def dest: order_trans)
  from assms(1) consider "ec_Events c' = ec_Events c" "ec_LastEventTime c' = ec_LastEventTime c"
    | "ec_Events c' = ec_Events c" "ec_LastEventTime c' = Some (ev_Time ev)"
    | "ec_Events c' = ev # ec_Events c" "ev_Event ev \<noteq> EvAlive" "ec_LastEventTime c' = Some (ev_Time ev)"
    by (auto simp: container_step_def)
  then show ?thesis
  proof cases
    case 1
    with assms(2,4) le show ?thesis
      by (auto simp: history_inv_def last_time_le_def just_registered_def split: option.splits)
  qed (use assms(2) le in \<open>auto simp: history_inv_def last_time_le_def registration_only_Cons\<close>)
qed

text \<open>
  Which events become the newest entry of the history: not Alive, not another PXE Booting while PXE booting,
  and Phoned Home neither after Phoned Home or Machine Reclaim, nor while PXE booting, nor while preparing,
  registering or waiting within five minutes of the last event.
\<close>

definition recorded :: "container \<Rightarrow> ProvisioningEvent \<Rightarrow> bool" where
  "recorded c ev \<longleftrightarrow>
     (let cur = initialStateFromEventContainer c in
      case ev_Event ev of
        EvAlive \<Rightarrow> False
      | EvPXEBooting \<Rightarrow> cur \<noteq> StPXEBooting
      | EvPhonedHome \<Rightarrow>
          cur \<notin> {StPhonedHome, StMachineReclaim, StPXEBooting} \<and>
          (cur \<in> {StPreparing, StRegistering, StWaiting} \<longrightarrow>
             (case ec_LastEventTime c of None \<Rightarrow> True | Some t \<Rightarrow> time_Sub (ev_Time ev) t \<ge> 5 * Minute))
      | _ \<Rightarrow> True)"

text \<open>An event that is not expected in the state of the machine is recorded with a remark.\<close>

definition noted :: "container \<Rightarrow> ProvisioningEvent \<Rightarrow> ProvisioningEvent" where
  "noted c ev =
     (let cur = initialStateFromEventContainer c in
      if cur \<in> set (expected_in (ev_Event ev)) then ev
      else ev\<lparr>ev_Message := unexpected_message cur (ev_Message ev)\<rparr>)"

lemma callback_events:
  assumes "initialStateFromEventContainer c \<in> set (expected_in (ev_Event ev))"
    and "map_of AllStates (entered_state (ev_Event ev) (initialStateFromEventContainer c)) = Some cb"
    and "cb ev \<lparr>e_Event = ev_Event ev, e_Src = initialStateFromEventContainer c, e_Dst = dst\<rparr> c = Inr c'"
  shows "ec_Events c' = (if recorded c ev then ev # ec_Events c else ec_Events c)"
proof (cases "ev_Event ev")
  case EvPhonedHome
  with assms show ?thesis
    by (cases "initialStateFromEventContainer c"; cases "ec_LastEventTime c")
      (auto simp: transition_defs Let_def recorded_def swallowBufferedPhonedHome_def
        swallowBufferedPhonedHomeThreshold_def split: if_splits)
qed (use assms in \<open>auto simp: transition_defs Let_def recorded_def swallowBufferedPhonedHome_def\<close>)

lemma callback_time:
  assumes "cur = StAlive" and "cur \<in> set (expected_in (ev_Event ev))"
    and "map_of AllStates (entered_state (ev_Event ev) cur) = Some cb"
    and "cb ev \<lparr>e_Event = ev_Event ev, e_Src = cur, e_Dst = dst\<rparr> c = Inr c'"
  shows "ec_LastEventTime c' = Some (ev_Time ev)"
  using assms by (cases "ev_Event ev") (auto simp: transition_defs Let_def)

context provisioning_fsm
begin

lemma handle_recorded:
  assumes "known_event (ev_Event ev)"
  shows "\<exists>c'. HandleProvisioningEvent fsm (Some c) (Some ev) = Inr (c', noted c ev) \<and>
    container_step c (noted c ev) c' \<and>
    ec_Events c' = (if recorded c ev then noted c ev # ec_Events c else ec_Events c) \<and>
    (initialStateFromEventContainer c = StAlive \<longrightarrow> ec_LastEventTime c' = Some (ev_Time ev))"
proof (cases "initialStateFromEventContainer c \<in> set (expected_in (ev_Event ev))")
  case True
  let ?cur = "initialStateFromEventContainer c"
  from fsm_expected [OF True] obtain dst where dst: "fsm Events ?cur (ev_Event ev) = Entered dst"
    "(if dst = SelfTransitionState then ?cur else dst) = entered_state (ev_Event ev) ?cur" by auto
  then have "entered_state (ev_Event ev) ?cur \<noteq> SelfTransitionState" by (auto split: if_splits)
  then obtain cb where cb: "map_of AllStates (entered_state (ev_Event ev) ?cur) = Some cb"
    by (cases "entered_state (ev_Event ev) ?cur") simp_all
  from callback_step [OF True cb, of dst c] obtain c' where
    c': "cb ev \<lparr>e_Event = ev_Event ev, e_Src = ?cur, e_Dst = dst\<rparr> c = Inr c'" "container_step c ev c'" by auto
  have "HandleProvisioningEvent fsm (Some c) (Some ev) = Inr (c', ev)"
    using dst cb c' by (auto simp: HandleProvisioningEvent_def eventCallbacks_def split: if_splits)
  with True c' callback_events [OF True cb c'(1)] callback_time [OF _ True cb c'(1)] show ?thesis
    by (simp add: noted_def Let_def)
next
  case False
  obtain c' ev' where h: "handle_unexpected (initialStateFromEventContainer c) ev c = (c', ev')" by fastforce
  then have "ev' = noted c ev" using False by (cases "ev_Event ev") (auto simp: handle_unexpected_def noted_def Let_def)
  moreover from h have "ec_LastEventTime c' = Some (ev_Time ev)"
    by (cases "ev_Event ev") (auto simp: handle_unexpected_def Let_def)
  moreover from h False assms have "ec_Events c' = (if recorded c ev then ev' # ec_Events c else ec_Events c)"
    by (cases "ev_Event ev") (auto simp: handle_unexpected_def recorded_def Let_def)
  ultimately show ?thesis using handle_not_expected [OF assms False] h handle_unexpected_step [OF h] by auto
qed

lemma next_container_history:
  assumes known: "known_event (ev_Event ev)" and "t \<le> ev_Time ev"
    and inv: "history_inv (case stored of None \<Rightarrow> new_container i | Some c \<Rightarrow> c) t"
  shows "\<exists>c'. next_container fsm i stored ev = Inr c' \<and> history_inv c' (ev_Time ev) \<and> \<not> just_registered c' \<and>
    (let c = (case stored of None \<Rightarrow> new_container i | Some c \<Rightarrow> c)
     in ec_Events c' = take 100 (if recorded c ev then noted c ev # ec_Events c else ec_Events c))"
proof -
  define c where "c = (case stored of None \<Rightarrow> new_container i | Some c \<Rightarrow> c)"
  from handle_recorded [OF known] obtain c1 where
    h: "HandleProvisioningEvent fsm (Some c) (Some ev) = Inr (c1, noted c ev)" and step: "container_step c (noted c ev) c1"
    and ev: "ec_Events c1 = (if recorded c ev then noted c ev # ec_Events c else ec_Events c)"
    and alive: "initialStateFromEventContainer c = StAlive \<longrightarrow> ec_LastEventTime c1 = Some (ev_Time ev)" by blast
  have time: "ev_Time (noted c ev) = ev_Time ev" by (simp add: noted_def Let_def)
  have "just_registered c \<Longrightarrow> initialStateFromEventContainer c = StAlive"
    using inv by (auto simp: c_def [symmetric] just_registered_def history_inv_def initialStateFromEventContainer_def)
  with history_inv_step [OF step inv [folded c_def]] assms(2) alive time have
    c1: "newer_first (ec_Events c1)" "registration_only (ec_Events c1)" "\<forall>e\<in>set (ec_Events c1). ev_Time e \<le> ev_Time ev"
    "last_time_le c1 (ev_Time ev)"
    "case ec_LastEventTime c1 of None \<Rightarrow> ec_Events c1 = [] | Some u \<Rightarrow> \<forall>e\<in>set (ec_Events c1). ev_Time e \<le> u"
    by auto
  then have "Validate (Some c1) = Inr ()" by (auto simp: Validate_chronological split: option.splits)
  moreover have "\<exists>c2. TrimEvents 100 c1 = Inr c2 \<and> ec_Events c2 = take 100 (ec_Events c1) \<and>
      ec_LastEventTime c2 = ec_LastEventTime c1"
    by (cases "length (ec_Events c1) > 100") (simp_all add: TrimEvents_def)
  then obtain c2 where c2: "TrimEvents 100 c1 = Inr c2" "ec_Events c2 = take 100 (ec_Events c1)"
    "ec_LastEventTime c2 = ec_LastEventTime c1" by blast
  moreover from this have "history_inv c2 (ev_Time ev)" "\<not> just_registered c2"
    using c1 c2 by (auto simp: history_inv_def just_registered_def registration_only_take newer_first_take last_time_le_def
        dest: in_set_takeD split: option.splits)
  ultimately show ?thesis using h ev by (simp add: next_container_def c_def [symmetric] Let_def)
qed

lemma reachable_inv:
  "reachable_history fsm i stored t \<Longrightarrow> history_inv (case stored of None \<Rightarrow> new_container i | Some c \<Rightarrow> c) t"
proof (induction rule: reachable_history.induct)
  case (fresh t)
  then show ?case by (simp add: history_inv_new)
next
  case (registered t now c)
  then show ?case by (simp add: history_inv_stored history_inv_registered)
next
  case (sent stored t ev c1 c2)
  have "known_event (ev_Event ev)"
    using sent.hyps(3) next_container_unknown by (metis is_ok_simps(1))
  from next_container_history [OF this sent.hyps(2) sent.IH] sent.hyps show ?case
    by (auto simp: history_inv_stored)
qed

lemma reachable_registered:
  "reachable_history fsm i stored t \<Longrightarrow> stored = Some c \<Longrightarrow> just_registered c \<Longrightarrow>
     \<exists>now. stored_as (registered_container i now) c"
proof (induction arbitrary: c rule: reachable_history.induct)
  case (sent stored t ev c1 c2)
  have "known_event (ev_Event ev)"
    using sent.hyps(3) next_container_unknown by (metis is_ok_simps(1))
  from next_container_history [OF this sent.hyps(2) reachable_inv [OF sent.hyps(1)]] sent.hyps(3) have "\<not> just_registered c1"
    by auto
  with sent.hyps(4) sent.prems show ?case by (auto simp: just_registered_def stored_as_fields)
qed auto

end

section \<open>The regular lifecycle\<close>

fun send_events ::
  "(ProvisioningEventType, StateName) fsm_lib \<Rightarrow> string \<Rightarrow> container option \<Rightarrow>
   ProvisioningEvent list \<Rightarrow> container option result" where
  "send_events fsm i stored [] = Inr stored"
| "send_events fsm i stored (ev # evs) =
     (case next_container fsm i stored ev of
        Inl err \<Rightarrow> Inl err
      | Inr c \<Rightarrow> send_events fsm i (Some c) evs)"

definition regular_lifecycle :: "ProvisioningEventType list" where
  "regular_lifecycle =
     [EvPXEBooting, EvPreparing, EvRegistering, EvWaiting, EvInstalling, EvBootingNewKernel,
      EvPhonedHome]"

definition next_regular :: "ProvisioningEventType \<Rightarrow> StateName \<Rightarrow> bool" where
  "next_regular e cur \<longleftrightarrow>
     (e, cur) \<in> set (zip regular_lifecycle
       [StInitial, StPXEBooting, StPreparing, StRegistering, StWaiting, StInstalling,
        StBootingNewKernel])"

lemma next_regular_callback:
  assumes "next_regular (ev_Event ev) cur"
  shows "cur \<in> set (expected_in (ev_Event ev)) \<and>
    entered_state (ev_Event ev) cur = getEventDestination (ev_Event ev) \<and>
    (\<exists>cb. map_of AllStates (getEventDestination (ev_Event ev)) = Some cb \<and>
      (\<forall>dst c. ec_FailedMachineReclaim c = False \<longrightarrow> ec_CrashLoop c = False \<longrightarrow>
        cb ev \<lparr>e_Event = ev_Event ev, e_Src = cur, e_Dst = dst\<rparr> c =
          Inr (appendEventToContainer ev c)))"
  using assms
  by (cases "ev_Event ev")
     (auto simp: next_regular_def regular_lifecycle_def transition_defs Let_def
        swallowBufferedPhonedHome_def)

definition clean_history :: "container \<Rightarrow> bool" where
  "clean_history c \<longleftrightarrow> history_ok c \<and> \<not> ec_CrashLoop c \<and> \<not> ec_FailedMachineReclaim c \<and>
     ec_LastErrorEvent c = None"

context provisioning_fsm
begin

lemma handle_regular:
  assumes "next_regular (ev_Event ev) (initialStateFromEventContainer c)"
    and "\<not> ec_CrashLoop c" "\<not> ec_FailedMachineReclaim c"
  shows "HandleProvisioningEvent fsm (Some c) (Some ev) = Inr (appendEventToContainer ev c, ev)"
proof -
  let ?cur = "initialStateFromEventContainer c"
  note r = next_regular_callback [OF assms(1)]
  obtain dst where dst: "fsm Events ?cur (ev_Event ev) = Entered dst"
    "(if dst = SelfTransitionState then ?cur else dst) = entered_state (ev_Event ev) ?cur"
    using r fsm_expected by blast
  with r assms(2,3) show ?thesis
    by (auto simp: HandleProvisioningEvent_def eventCallbacks_def split: if_splits)
qed

lemma next_container_regular:
  assumes r: "next_regular (ev_Event ev) (initialStateFromEventContainer ec)"
    and ec: "ec = (case stored of None \<Rightarrow> new_container i | Some c \<Rightarrow> c)"
    and clean: "clean_history ec" "last_time_le ec (ev_Time ev)" "length (ec_Events ec) < 100"
  shows "next_container fsm i stored ev = Inr (appendEventToContainer ev ec)"
    "clean_history (appendEventToContainer ev ec)"
    "last_time_le (appendEventToContainer ev ec) (ev_Time ev)"
proof -
  let ?c = "appendEventToContainer ev ec"
  have h: "HandleProvisioningEvent fsm (Some ec) (Some ev) = Inr (?c, ev)"
    using handle_regular r clean by (simp add: clean_history_def)
  have "container_step ec ev ?c"
    using handle_step [OF h] by simp
  then have c: "chronological ?c" "no_alive ?c" "last_time_le ?c (ev_Time ev)"
    using container_step_chronological clean by (auto simp: clean_history_def history_ok_def)
  show "last_time_le ?c (ev_Time ev)" by (rule c)
  show "clean_history ?c"
    using c clean by (auto simp: clean_history_def history_ok_def appendEventToContainer_def
        updateTimeAndLiveliness_def)
  show "next_container fsm i stored ev = Inr ?c"
    using h c chronological_Validate [of ?c] clean(3)
    by (simp add: next_container_def ec [symmetric] TrimEvents_def appendEventToContainer_def
        updateTimeAndLiveliness_def)
qed

lemma send_regular:
  assumes "successively (\<lambda>e f. next_regular (ev_Event f) (getEventDestination (ev_Event e))) (e0 # evs)"
    and "sorted (map ev_Time (e0 # evs))"
    and "clean_history c" "ec_Events c = e0 # es" "last_time_le c (ev_Time e0)"
    and "length es + length evs < 100"
  shows "\<exists>c'. send_events fsm i (Some c) evs = Inr (Some c') \<and> clean_history c' \<and>
    ec_Events c' = rev evs @ e0 # es"
  using assms
proof (induction evs arbitrary: c e0 es)
  case Nil
  then show ?case by simp
next
  case (Cons e1 evs)
  let ?c = "appendEventToContainer e1 c"
  have st: "initialStateFromEventContainer c = getEventDestination (ev_Event e0)"
    using Cons.prems by (simp add: initialStateFromEventContainer_def)
  have "last_time_le c (ev_Time e1)"
    using Cons.prems last_time_le_mono by fastforce
  then have step: "next_container fsm i (Some c) e1 = Inr ?c" "clean_history ?c"
    "last_time_le ?c (ev_Time e1)"
    using next_container_regular [where ev = e1 and ec = c and stored = "Some c" and i = i] Cons.prems st by auto
  have "\<exists>c'. send_events fsm i (Some ?c) evs = Inr (Some c') \<and> clean_history c' \<and>
      ec_Events c' = rev evs @ e1 # e0 # es"
    using Cons.prems step
    by (intro Cons.IH) (auto simp: appendEventToContainer_def updateTimeAndLiveliness_def
        successively_Cons)
  with step show ?case by simp
qed

end

interpretation provisioning_table: provisioning_fsm table_fsm
  by unfold_locales

section \<open>Properties\<close>

text \<open>
  C1: \<open>HandleProvisioningEvent\<close> returns a container for an event exactly when its type is one of
  \<open>AllProvisioningEventTypes\<close>, whatever the history; an event of another type is rejected and
  nothing is persisted.
\<close>

theorem handle_accepts_known_events:
  assumes "provisioning_fsm fsm"
  shows "is_ok (HandleProvisioningEvent fsm (Some c) (Some ev)) \<longleftrightarrow>
    ev_Event ev \<in> set AllProvisioningEventTypes"
  using provisioning_fsm.handle_is_ok [OF assms] by (simp add: known_event_def)

theorem handle_accepts_known_events_witness:
  "is_ok (HandleProvisioningEvent table_fsm (Some (new_container ''m1''))
     (Some \<lparr>ev_Time = 5, ev_Event = EvWaiting, ev_Message = ''''\<rparr>)) \<and>
   \<not> is_ok (HandleProvisioningEvent table_fsm (Some (new_container ''m1''))
     (Some \<lparr>ev_Time = 5, ev_Event = EvOther ''Rebooting'', ev_Message = ''''\<rparr>))"
  using handle_accepts_known_events [OF provisioning_table.provisioning_fsm_axioms]
  by (simp add: AllProvisioningEventTypes_def)

text \<open>
  C2: in every history a machine can reach through its registration and \<open>SendEvent\<close>, while the clock does
  not run backwards, the container passes its own \<open>Validate\<close>, except for the one that the registration
  stores, until the first event. It holds at most 100 events, the newest first, and no Alive event
  but that of the registration, which can only be the oldest one.
\<close>

theorem reachable_history_valid:
  assumes "provisioning_fsm fsm" and "reachable_history fsm machineID (Some c) t"
  shows "(Validate (Some c) = Inr () \<longleftrightarrow> \<not> (\<exists>now. stored_as (registered_container machineID now) c)) \<and>
    length (ec_Events c) \<le> 100 \<and> sorted_wrt (\<lambda>e f. ev_Time f \<le> ev_Time e) (ec_Events c) \<and>
    (\<forall>e\<in>set (ec_Events c). ev_Time e \<le> t) \<and>
    (\<forall>n<length (ec_Events c). ev_Event (ec_Events c ! n) = EvAlive \<longrightarrow>
       n = length (ec_Events c) - 1 \<and> ev_Message (ec_Events c ! n) = ''machine registered'')"
proof (intro conjI)
  from provisioning_fsm.reachable_inv [OF assms] have inv: "history_inv c t" by simp
  have "just_registered c \<longleftrightarrow> (\<exists>now. stored_as (registered_container machineID now) c)"
    using provisioning_fsm.reachable_registered [OF assms]
    using just_registered_stored by blast
  with inv show "Validate (Some c) = Inr () \<longleftrightarrow> \<not> (\<exists>now. stored_as (registered_container machineID now) c)"
    by (auto simp: Validate_chronological history_inv_def just_registered_def split: option.splits)
  show "\<forall>n<length (ec_Events c). ev_Event (ec_Events c ! n) = EvAlive \<longrightarrow>
      n = length (ec_Events c) - 1 \<and> ev_Message (ec_Events c ! n) = ''machine registered''"
  proof (intro allI impI)
    fix n assume n: "n < length (ec_Events c)" and alive: "ev_Event (ec_Events c ! n) = EvAlive"
    have "n = length (ec_Events c) - 1"
    proof (rule ccontr)
      assume "n \<noteq> length (ec_Events c) - 1"
      with n have "n < length (butlast (ec_Events c))" by simp
      then have "ec_Events c ! n \<in> set (butlast (ec_Events c))" by (metis nth_butlast nth_mem)
      with inv alive show False by (auto simp: history_inv_def registration_only_def)
    qed
    with inv alive n show "n = length (ec_Events c) - 1 \<and> ev_Message (ec_Events c ! n) = ''machine registered''"
      by (auto simp: history_inv_def registration_only_def last_conv_nth)
  qed
qed (use provisioning_fsm.reachable_inv [OF assms] in \<open>auto simp: history_inv_def\<close>)

text \<open>A machine that is registered, then sends an event, and one that only registered.\<close>

theorem reachable_history_valid_witness:
  "\<exists>c. next_container table_fsm ''m1'' (Some (registered_container ''m1'' 3))
      \<lparr>ev_Time = 5, ev_Event = EvPXEBooting, ev_Message = ''''\<rparr> = Inr c \<and>
    Validate (Some c) = Inr () \<and> map ev_Event (ec_Events c) = [EvPXEBooting, EvAlive] \<and>
    Validate (Some (registered_container ''m1'' 3)) \<noteq> Inr ()"
proof -
  let ?ev = "\<lparr>ev_Time = 5, ev_Event = EvPXEBooting, ev_Message = ''''\<rparr>" and ?r = "registered_container ''m1'' 3"
  have r: "reachable_history table_fsm ''m1'' (Some ?r) 3"
    by (rule reachable_history.registered [OF reachable_history.fresh [of _ _ 0]]) (simp_all add: stored_as_def)
  have ev: "map ev_Event (ec_Events ?r) = [EvAlive]" "recorded ?r ?ev" "ev_Event (noted ?r ?ev) = EvPXEBooting"
    by (simp_all add: registered_container_def recorded_def initialStateFromEventContainer_def noted_def Let_def)
  obtain c where c: "next_container table_fsm ''m1'' (Some ?r) ?ev = Inr c" "\<not> just_registered c"
    "map ev_Event (ec_Events c) = [EvPXEBooting, EvAlive]"
    using provisioning_table.next_container_history [OF _ _ provisioning_table.reachable_inv [OF r], of ?ev] ev
    by (auto simp: Let_def take_map [symmetric])
  have "reachable_history table_fsm ''m1'' (Some c) (ev_Time ?ev)"
    by (rule reachable_history.sent [OF r _ c(1)]) (simp_all add: stored_as_def)
  note valid = conjunct1 [OF reachable_history_valid [OF provisioning_table.provisioning_fsm_axioms this]]
  have "\<not> stored_as (registered_container ''m1'' now) c" for now
    using c(2) just_registered_stored by blast
  with valid have "Validate (Some c) = Inr ()" by blast
  moreover have "stored_as ?r ?r" by (simp add: stored_as_def)
  then have "Validate (Some ?r) \<noteq> Inr ()"
    using reachable_history_valid [OF provisioning_table.provisioning_fsm_axioms r] by blast
  ultimately show ?thesis using c(1,3) by (intro exI [of _ c] conjI)
qed

text \<open>
  C3: a machine never gets stuck: in every history it can reach while the clock does not run backwards, and
  also right after its registration, \<open>SendEvent\<close> accepts every event of a known type. The container it writes
  back passes \<open>Validate\<close> and has the event as its newest entry, up to 100 entries, with a remark when
  the event is not expected. Not recorded are only Alive, a PXE Booting that repeats itself, and a Phoned
  Home after another one, after a Machine Reclaim, while PXE booting, or within five minutes of the
  last event while preparing, registering or waiting.
\<close>

theorem send_event_never_stuck:
  assumes "provisioning_fsm fsm" and "reachable_history fsm machineID stored t"
    and "t \<le> ev_Time ev" and "ev_Event ev \<in> set AllProvisioningEventTypes"
  shows "\<exists>c'. next_container fsm machineID stored ev = Inr c' \<and> Validate (Some c') = Inr () \<and>
    (let c = (case stored of None \<Rightarrow> new_container machineID | Some c \<Rightarrow> c)
     in ec_Events c' = take 100 (if recorded c ev then noted c ev # ec_Events c else ec_Events c))"
proof -
  have "known_event (ev_Event ev)" using assms(4) by (simp add: known_event_def)
  from provisioning_fsm.next_container_history [OF assms(1) this assms(3) provisioning_fsm.reachable_inv [OF assms(1,2)]]
  obtain c' where "next_container fsm machineID stored ev = Inr c'" "history_inv c' (ev_Time ev)" "\<not> just_registered c'"
    "let c = (case stored of None \<Rightarrow> new_container machineID | Some c \<Rightarrow> c)
     in ec_Events c' = take 100 (if recorded c ev then noted c ev # ec_Events c else ec_Events c)" by blast
  moreover from this(2,3) have "Validate (Some c') = Inr ()"
    by (auto simp: Validate_chronological history_inv_def just_registered_def split: option.splits)
  ultimately show ?thesis by blast
qed

text \<open>A Phoned Home of a machine that has only registered is recorded.\<close>

theorem send_event_never_stuck_witness:
  "\<exists>c. next_container table_fsm ''m1'' (Some (registered_container ''m1'' 3))
     \<lparr>ev_Time = 7, ev_Event = EvPhonedHome, ev_Message = ''hi''\<rparr> = Inr c \<and>
     map ev_Event (ec_Events c) = [EvPhonedHome, EvAlive]"
proof -
  let ?ev = "\<lparr>ev_Time = 7, ev_Event = EvPhonedHome, ev_Message = ''hi''\<rparr>" and ?r = "registered_container ''m1'' 3"
  have r: "reachable_history table_fsm ''m1'' (Some ?r) 3"
    by (rule reachable_history.registered [OF reachable_history.fresh [of _ _ 0]]) (simp_all add: stored_as_def)
  have ev: "map ev_Event (ec_Events ?r) = [EvAlive]" "recorded ?r ?ev" "ev_Event (noted ?r ?ev) = EvPhonedHome"
    by (simp_all add: registered_container_def recorded_def initialStateFromEventContainer_def noted_def Let_def)
  from send_event_never_stuck [OF provisioning_table.provisioning_fsm_axioms r, of ?ev] ev show ?thesis
    by (auto simp: AllProvisioningEventTypes_def Let_def take_map [symmetric])
qed

text \<open>
  C4: the crash loop flag after an event. An event that the table expects in the machine's state
  sets it for Crashed, clears it for Planned Reboot, Machine Reclaim and for a Phoned Home after
  Booting New Kernel, Planned Reboot or an empty history, and keeps it otherwise; an unexpected
  event sets it for PXE Booting and Preparing and keeps it otherwise.
\<close>

theorem crash_loop_flag:
  assumes "provisioning_fsm fsm"
    and "HandleProvisioningEvent fsm (Some c) (Some ev) = Inr (c', ev')"
  shows "ec_CrashLoop c' \<longleftrightarrow>
    (let cur = initialStateFromEventContainer c in
     if cur \<in> set (expected_in (ev_Event ev))
     then crash_loop_after (ev_Event ev) cur (ec_CrashLoop c)
     else ec_CrashLoop c \<or> ev_Event ev \<in> {EvPXEBooting, EvPreparing})"
proof (cases "initialStateFromEventContainer c \<in> set (expected_in (ev_Event ev))")
  case True
  with provisioning_fsm.handle_expected [OF assms(1) True] assms(2) show ?thesis by auto
next
  case False
  have "known_event (ev_Event ev)"
    using provisioning_fsm.handle_is_ok [OF assms(1)] assms(2) by (metis is_ok_simps(1))
  with provisioning_fsm.handle_not_expected [OF assms(1) _ False] assms(2)
  have "(c', ev') = handle_unexpected (initialStateFromEventContainer c) ev c" by simp
  with False show ?thesis
    by (cases "ev_Event ev") (auto simp: handle_unexpected_def Let_def)
qed

theorem crash_loop_flag_witness:
  "\<exists>c' ev'. HandleProvisioningEvent table_fsm
      (Some ((new_container ''m1'')\<lparr>ec_Events :=
         [\<lparr>ev_Time = 5, ev_Event = EvPhonedHome, ev_Message = ''''\<rparr>]\<rparr>))
      (Some \<lparr>ev_Time = 9, ev_Event = EvPXEBooting, ev_Message = ''''\<rparr>) = Inr (c', ev') \<and>
    ec_CrashLoop c'"
proof -
  let ?c = "(new_container ''m1'')\<lparr>ec_Events :=
         [\<lparr>ev_Time = 5, ev_Event = EvPhonedHome, ev_Message = ''''\<rparr>]\<rparr>"
  let ?ev = "\<lparr>ev_Time = 9, ev_Event = EvPXEBooting, ev_Message = ''''\<rparr>"
  have "is_ok (HandleProvisioningEvent table_fsm (Some ?c) (Some ?ev))"
    by (simp only: provisioning_table.handle_is_ok) simp
  then obtain c' ev' where h: "HandleProvisioningEvent table_fsm (Some ?c) (Some ?ev) = Inr (c', ev')"
    by (auto simp: is_ok_iff)
  from crash_loop_flag [OF provisioning_table.provisioning_fsm_axioms h] h show ?thesis
    by (auto simp: initialStateFromEventContainer_def)
qed

text \<open>
  A machine that sends the events of a regular provisioning, in order and with the clock not
  running backwards, ends in the state Phoned Home with its full history, newest first, and is
  flagged neither as crash looping nor with an error.
\<close>

theorem regular_provisioning_clean:
  assumes "provisioning_fsm fsm"
    and "map ev_Event evs = regular_lifecycle" and "sorted (map ev_Time evs)"
  shows "\<exists>c. send_events fsm machineID None evs = Inr (Some c) \<and> ec_Events c = rev evs \<and>
    initialStateFromEventContainer c = StPhonedHome \<and> \<not> ec_CrashLoop c \<and>
    \<not> ec_FailedMachineReclaim c \<and> ec_LastErrorEvent c = None"
proof -
  from assms(2) obtain e0 es where evs: "evs = e0 # es"
    by (cases evs) (auto simp: regular_lifecycle_def)
  let ?n = "new_container machineID" and ?c = "appendEventToContainer e0 (new_container machineID)"
  have n: "clean_history ?n" "initialStateFromEventContainer ?n = StInitial"
    by (simp_all add: clean_history_def) (simp_all add: new_container_def
        initialStateFromEventContainer_def)
  have "next_regular (ev_Event e0) StInitial" "ec_Events ?n = []"
    using assms(2) evs by (auto simp: next_regular_def regular_lifecycle_def new_container_def)
  then have first: "next_container fsm machineID None e0 = Inr ?c" "clean_history ?c"
    "last_time_le ?c (ev_Time e0)"
    using provisioning_fsm.next_container_regular [OF assms(1), where ev = e0 and ec = ?n and stored = None and i = machineID] n
    by auto
  have "successively (\<lambda>e f. next_regular (ev_Event f) (getEventDestination (ev_Event e))) evs"
    using assms(2) by (auto simp: regular_lifecycle_def next_regular_def Cons_eq_map_conv)
  moreover have "ec_Events ?c = [e0]"
    by (simp add: appendEventToContainer_def updateTimeAndLiveliness_def new_container_def)
  moreover have "length es < 100"
    using arg_cong [OF assms(2), of length] evs by (simp add: regular_lifecycle_def)
  ultimately obtain c where "send_events fsm machineID (Some ?c) es = Inr (Some c)"
    "clean_history c" "ec_Events c = rev es @ [e0]"
    using provisioning_fsm.send_regular [OF assms(1), where ?e0.0 = e0 and evs = es and c = ?c and es = "[]" and i = machineID] first assms(3) evs
    by auto
  then show ?thesis
    using first evs assms(2)
    by (auto simp: clean_history_def initialStateFromEventContainer_def regular_lifecycle_def
        Cons_eq_map_conv)
qed

definition example_lifecycle :: "ProvisioningEvent list" where
  "example_lifecycle =
     map (\<lambda>(t, e). \<lparr>ev_Time = t, ev_Event = e, ev_Message = ''''\<rparr>)
       (zip [10, 20, 30, 30, 50, 60, 70] regular_lifecycle)"

theorem regular_provisioning_clean_witness:
  "\<exists>c. send_events table_fsm ''m1'' None example_lifecycle = Inr (Some c) \<and> \<not> ec_CrashLoop c"
  using regular_provisioning_clean [OF provisioning_table.provisioning_fsm_axioms,
      of example_lifecycle "''m1''"]
  by (auto simp: example_lifecycle_def regular_lifecycle_def)

end
