(* ===== verification/FilesystemData.thy ===== *)
theory FilesystemData
  imports ProvisioningEvents
begin

text \<open>
  The data of filesystem layouts, \<^verbatim>\<open>pkg/db/metal/filesystem.go\<close>, which machine allocations refer to.
\<close>

type_synonym Format = string
type_synonym GPTType = string
type_synonym RaidLevel = string
type_synonym LVMType = string

record Filesystem =
  fs_Path :: "string option"
  fs_Device :: string
  fs_Format :: Format
  fs_Label :: "string option"
  fs_MountOptions :: "string list"
  fs_CreateOptions :: "string list"

record DiskPartition =
  dp_Number :: "8 word"
  dp_Label :: "string option"
  dp_Size :: "64 word"
  dp_GPTType :: "GPTType option"

record Disk =
  dk_Device :: string
  dk_Partitions :: "DiskPartition list"

record Raid =
  rd_ArrayName :: string
  rd_Devices :: "string list"
  rd_Level :: RaidLevel
  rd_CreateOptions :: "string list"
  rd_Spares :: int

record VolumeGroup =
  vg_Name :: string
  vg_Devices :: "string list"
  vg_Tags :: "string list"

record LogicalVolume =
  lv_Name :: string
  lv_VolumeGroup :: string
  lv_Size :: "64 word"
  lv_LVMType :: LVMType

record FilesystemLayoutConstraints =
  fc_Sizes :: "string list"
  fc_Images :: "(string, string) gomap"

record FilesystemLayout = Base +
  fl_Filesystems :: "Filesystem list"
  fl_Disks :: "Disk list"
  fl_Raid :: "Raid list"
  fl_VolumeGroups :: "VolumeGroup list"
  fl_LogicalVolumes :: "LogicalVolume list"
  fl_Constraints :: FilesystemLayoutConstraints

end
