(* ===== verification/MachineData.thy ===== *)
theory MachineData
  imports FilesystemData
begin

text \<open>
  The machine entity of \<^verbatim>\<open>pkg/db/metal/machine.go\<close> with its hardware and network interfaces
  (\<^verbatim>\<open>nic.go\<close>). A neighbor of an interface is an interface whose own
  neighbors are never set, so the interfaces extend the record of their neighbors.
\<close>

datatype NetworkType =
    NetworkTypeExternal | NetworkTypeUnderlay | NetworkTypeSuper | NetworkTypeSuperNamespaced
  | NetworkTypeChild | NetworkTypeChildShared | NetworkTypeOther string

datatype NATType = NATTypeInvalid | NATTypeNone | NATTypeIPv4Masquerade | NATTypeOther string

datatype Role = RoleMachine | RoleFirewall | RoleOther string

datatype MState = AvailableState | TaintedState | LockedState | StateOther string

section \<open>Network interfaces and hardware\<close>

type_synonym SwitchPortStatus = string
type_synonym BGPState = string

record SwitchBGPPortState =
  bgp_Neighbor :: string
  bgp_PeerGroup :: string
  bgp_VrfName :: string
  bgp_BgpState :: BGPState
  bgp_BgpTimerUpEstablished :: "64 word"
  bgp_SentPrefixCounter :: "64 word"
  bgp_AcceptedPrefixCounter :: "64 word"

record NicState =
  ns_Desired :: "SwitchPortStatus option"
  ns_Actual :: SwitchPortStatus

record BareNic =
  nic_MacAddress :: string
  nic_Name :: string
  nic_Identifier :: string
  nic_Vrf :: string
  nic_Hostname :: string
  nic_State :: "NicState option"
  nic_BGPPortState :: "SwitchBGPPortState option"

record Nic = BareNic +
  nic_Neighbors :: "BareNic list"

record BlockDevice =
  bd_Name :: string
  bd_Size :: "64 word"

record MetalCPU =
  cpu_Vendor :: string
  cpu_Model :: string
  cpu_Cores :: "32 word"
  cpu_Threads :: "32 word"

record MetalGPU =
  gpu_Vendor :: string
  gpu_Model :: string

record MachineHardware =
  hw_Memory :: "64 word"
  hw_Nics :: "Nic list"
  hw_Disks :: "BlockDevice list"
  hw_MetalCPUs :: "MetalCPU list"
  hw_MetalGPUs :: "MetalGPU list"

record Fru =
  fru_ChassisPartNumber :: string
  fru_ChassisPartSerial :: string
  fru_BoardMfg :: string
  fru_BoardMfgSerial :: string
  fru_BoardPartNumber :: string
  fru_ProductManufacturer :: string
  fru_ProductPartNumber :: string
  fru_ProductSerial :: string

text \<open>The readings are numbers of type \<^verbatim>\<open>float32\<close>, which the code only copies: here their bits.\<close>

type_synonym float32 = "32 word"

record PowerMetric =
  pw_AverageConsumedWatts :: float32
  pw_IntervalInMin :: float32
  pw_MaxConsumedWatts :: float32
  pw_MinConsumedWatts :: float32

record PowerSupply =
  ps_Health :: string
  ps_State :: string

record IPMI =
  ipmi_Address :: string
  ipmi_MacAddress :: string
  ipmi_User :: string
  ipmi_Password :: string
  ipmi_Interface :: string
  ipmi_Fru :: Fru
  ipmi_BMCVersion :: string
  ipmi_PowerState :: string
  ipmi_PowerMetric :: "PowerMetric option"
  ipmi_PowerSupplies :: "PowerSupply list"
  ipmi_LastUpdated :: time

record BIOS =
  bios_Version :: string
  bios_Vendor :: string
  bios_Date :: string

section \<open>Allocations\<close>

text \<open>The boolean fields of a network that the code keeps for backward compatibility are included.\<close>

record MachineNetwork =
  mn_NetworkID :: string
  mn_Prefixes :: "string list"
  mn_IPs :: "string list"
  mn_DestinationPrefixes :: "string list"
  mn_Vrf :: "64 word"
  mn_PrivatePrimary :: bool
  mn_Private :: bool
  mn_ASN :: "32 word"
  mn_Nat :: bool
  mn_Underlay :: bool
  mn_Shared :: bool
  mn_ProjectID :: string
  mn_NetworkType :: NetworkType
  mn_NATType :: NATType

type_synonym Protocol = string

record EgressRule =
  er_Protocol :: Protocol
  er_Ports :: "int list"
  er_To :: "string list"
  er_Comment :: string

record IngressRule =
  ir_Protocol :: Protocol
  ir_Ports :: "int list"
  ir_To :: "string list"
  ir_From :: "string list"
  ir_Comment :: string

record FirewallRules =
  fw_Egress :: "EgressRule list"
  fw_Ingress :: "IngressRule list"

record MachineVPN =
  vpn_ControlPlaneAddress :: string
  vpn_AuthKey :: string
  vpn_Connected :: bool
  vpn_IPs :: "string list"

record MachineAllocation =
  ma_Creator :: string
  ma_Created :: time
  ma_Name :: string
  ma_Description :: string
  ma_Project :: string
  ma_ImageID :: string
  ma_FilesystemLayoutID :: string
  ma_FilesystemLayout :: "FilesystemLayout option"
  ma_MachineNetworks :: "MachineNetwork list"
  ma_Hostname :: string
  ma_SSHPubKeys :: "string list"
  ma_UserData :: string
  ma_ConsolePassword :: string
  ma_Succeeded :: bool
  ma_Role :: Role
  ma_VPN :: "MachineVPN option"
  ma_UUID :: string
  ma_FirewallRules :: "FirewallRules option"
  ma_DNSServers :: "string list"
  ma_NTPServers :: "string list"
  ma_Labels :: "(string, string) gomap"
  ma_PlacementLabels :: "(string, string) gomap"

section \<open>Machines\<close>

record MachineState =
  ms_Value :: MState
  ms_Description :: string
  ms_Issuer :: string
  ms_MetalHammerVersion :: string

type_synonym LEDState = string

record ChassisIdentifyLEDState =
  led_Value :: LEDState
  led_Description :: string

record Machine = Base +
  m_Allocation :: "MachineAllocation option"
  m_PartitionID :: string
  m_SizeID :: string
  m_RackID :: string
  m_RoomID :: string
  m_Waiting :: bool
  m_PreAllocated :: bool
  m_Hardware :: MachineHardware
  m_State :: MachineState
  m_LEDState :: ChassisIdentifyLEDState
  m_Tags :: "string list"
  m_IPMI :: IPMI
  m_BIOS :: BIOS

text \<open>The zero value of the struct with an id, as the code creates it for a first event.\<close>

definition zero_IPMI :: IPMI where
  "zero_IPMI = \<lparr>ipmi_Address = '''', ipmi_MacAddress = '''', ipmi_User = '''',
     ipmi_Password = '''', ipmi_Interface = '''',
     ipmi_Fru = \<lparr>fru_ChassisPartNumber = '''', fru_ChassisPartSerial = '''', fru_BoardMfg = '''',
       fru_BoardMfgSerial = '''', fru_BoardPartNumber = '''', fru_ProductManufacturer = '''',
       fru_ProductPartNumber = '''', fru_ProductSerial = ''''\<rparr>,
     ipmi_BMCVersion = '''', ipmi_PowerState = '''', ipmi_PowerMetric = None,
     ipmi_PowerSupplies = [], ipmi_LastUpdated = 0\<rparr>"

definition zero_hardware :: MachineHardware where
  "zero_hardware = \<lparr>hw_Memory = 0, hw_Nics = [], hw_Disks = [], hw_MetalCPUs = [], hw_MetalGPUs = []\<rparr>"

definition machine_with_id :: "string \<Rightarrow> Machine" where
  "machine_with_id i =
     \<lparr>b_ID = i, b_Name = '''', b_Description = '''', b_Created = 0, b_Changed = 0,
      b_Generation = 0, m_Allocation = None, m_PartitionID = '''', m_SizeID = '''',
      m_RackID = '''', m_RoomID = '''', m_Waiting = False, m_PreAllocated = False,
      m_Hardware = zero_hardware,
      m_State = \<lparr>ms_Value = AvailableState, ms_Description = '''', ms_Issuer = '''', ms_MetalHammerVersion = ''''\<rparr>,
      m_LEDState = \<lparr>led_Value = '''', led_Description = ''''\<rparr>,
      m_Tags = [], m_IPMI = zero_IPMI, m_BIOS = \<lparr>bios_Version = '''', bios_Vendor = '''', bios_Date = ''''\<rparr>\<rparr>"

end
