(* ===== verification/Issues.thy ===== *)
theory Issues
  imports MachineData
begin

text \<open>
  Machine issues, \<^verbatim>\<open>pkg/issues\<close>: the issue types with their specifications, the evaluation of
  every type on a machine, and \<open>Find\<close>, which evaluates all types on all machines under the
  filters of a configuration. An issue object of the code keeps the details text of its last
  evaluation; the model returns it with the verdict. The current time is an argument.
\<close>

section \<open>Severities and types\<close>

datatype Severity = SeverityMinor | SeverityMajor | SeverityCritical | SeverityOther string

definition AllSevereties :: "Severity list" where
  "AllSevereties = [SeverityMinor, SeverityMajor, SeverityCritical]"

definition SeverityFromString :: "string \<Rightarrow> Severity result" where
  "SeverityFromString input =
     (if input = ''critical'' then Inr SeverityCritical
      else if input = ''major'' then Inr SeverityMajor
      else if input = ''minor'' then Inr SeverityMinor
      else Inl (Plain ''unknown issue severity: %s''))"

text \<open>Reading a key that is not in the map yields 0.\<close>

fun severity_rank :: "Severity \<Rightarrow> nat" where
  "severity_rank SeverityCritical = 10"
| "severity_rank SeverityMajor = 5"
| "severity_rank SeverityMinor = 0"
| "severity_rank (SeverityOther _) = 0"

definition LowerThan :: "Severity \<Rightarrow> Severity \<Rightarrow> bool" where
  "LowerThan s t = (severity_rank s < severity_rank t)"

datatype IssueType =
    TypeNoPartition | TypeLivelinessDead | TypeLivelinessUnknown | TypeLivelinessNotAvailable
  | TypeFailedMachineReclaim | TypeCrashLoop | TypeLastEventError | TypeBMCWithoutMAC
  | TypeBMCWithoutIP | TypeBMCInfoOutdated | TypeASNUniqueness | TypeNonDistinctBMCIP
  | TypeNoEventContainer | TypeOther string

definition AllIssueTypes :: "IssueType list" where
  "AllIssueTypes =
     [TypeNoPartition, TypeLivelinessDead, TypeLivelinessUnknown, TypeLivelinessNotAvailable,
      TypeFailedMachineReclaim, TypeCrashLoop, TypeLastEventError, TypeBMCWithoutMAC,
      TypeBMCWithoutIP, TypeBMCInfoOutdated, TypeASNUniqueness, TypeNonDistinctBMCIP,
      TypeNoEventContainer]"

text \<open>The constants of the API's enumeration that the conversions name.\<close>

datatype MachineIssueType =
    MACHINE_ISSUE_TYPE_UNSPECIFIED
  | MACHINE_ISSUE_TYPE_ASN_UNIQUENESS | MACHINE_ISSUE_TYPE_BMC_INFO_OUTDATED
  | MACHINE_ISSUE_TYPE_BMC_WITHOUT_IP | MACHINE_ISSUE_TYPE_BMC_WITHOUT_MAC
  | MACHINE_ISSUE_TYPE_CRASH_LOOP | MACHINE_ISSUE_TYPE_FAILED_MACHINE_RECLAIM
  | MACHINE_ISSUE_TYPE_LAST_EVENT_ERROR | MACHINE_ISSUE_TYPE_LIVELINESS_DEAD
  | MACHINE_ISSUE_TYPE_LIVELINESS_NOT_AVAILABLE | MACHINE_ISSUE_TYPE_LIVELINESS_UNKNOWN
  | MACHINE_ISSUE_TYPE_NO_EVENT_CONTAINER | MACHINE_ISSUE_TYPE_NO_PARTITION
  | MACHINE_ISSUE_TYPE_BMC_NON_DISTINCT_IP
  | MACHINE_ISSUE_TYPE_NUMBER int \<comment> \<open>a number outside the enumeration\<close>

fun ToAPIV2Type :: "IssueType \<Rightarrow> MachineIssueType result" where
  "ToAPIV2Type TypeASNUniqueness = Inr MACHINE_ISSUE_TYPE_ASN_UNIQUENESS"
| "ToAPIV2Type TypeBMCInfoOutdated = Inr MACHINE_ISSUE_TYPE_BMC_INFO_OUTDATED"
| "ToAPIV2Type TypeBMCWithoutIP = Inr MACHINE_ISSUE_TYPE_BMC_WITHOUT_IP"
| "ToAPIV2Type TypeBMCWithoutMAC = Inr MACHINE_ISSUE_TYPE_BMC_WITHOUT_MAC"
| "ToAPIV2Type TypeCrashLoop = Inr MACHINE_ISSUE_TYPE_CRASH_LOOP"
| "ToAPIV2Type TypeFailedMachineReclaim = Inr MACHINE_ISSUE_TYPE_FAILED_MACHINE_RECLAIM"
| "ToAPIV2Type TypeLastEventError = Inr MACHINE_ISSUE_TYPE_LAST_EVENT_ERROR"
| "ToAPIV2Type TypeLivelinessDead = Inr MACHINE_ISSUE_TYPE_LIVELINESS_DEAD"
| "ToAPIV2Type TypeLivelinessNotAvailable = Inr MACHINE_ISSUE_TYPE_LIVELINESS_NOT_AVAILABLE"
| "ToAPIV2Type TypeLivelinessUnknown = Inr MACHINE_ISSUE_TYPE_LIVELINESS_UNKNOWN"
| "ToAPIV2Type TypeNoEventContainer = Inr MACHINE_ISSUE_TYPE_NO_EVENT_CONTAINER"
| "ToAPIV2Type TypeNoPartition = Inr MACHINE_ISSUE_TYPE_NO_PARTITION"
| "ToAPIV2Type TypeNonDistinctBMCIP = Inr MACHINE_ISSUE_TYPE_BMC_NON_DISTINCT_IP"
| "ToAPIV2Type (TypeOther _) = Inl (Plain ''unknown issue type: %s'')"

fun FromAPIV2Type :: "MachineIssueType \<Rightarrow> IssueType result" where
  "FromAPIV2Type MACHINE_ISSUE_TYPE_ASN_UNIQUENESS = Inr TypeASNUniqueness"
| "FromAPIV2Type MACHINE_ISSUE_TYPE_BMC_INFO_OUTDATED = Inr TypeBMCInfoOutdated"
| "FromAPIV2Type MACHINE_ISSUE_TYPE_BMC_NON_DISTINCT_IP = Inr TypeNonDistinctBMCIP"
| "FromAPIV2Type MACHINE_ISSUE_TYPE_BMC_WITHOUT_IP = Inr TypeBMCWithoutIP"
| "FromAPIV2Type MACHINE_ISSUE_TYPE_BMC_WITHOUT_MAC = Inr TypeBMCWithoutMAC"
| "FromAPIV2Type MACHINE_ISSUE_TYPE_CRASH_LOOP = Inr TypeCrashLoop"
| "FromAPIV2Type MACHINE_ISSUE_TYPE_FAILED_MACHINE_RECLAIM = Inr TypeFailedMachineReclaim"
| "FromAPIV2Type MACHINE_ISSUE_TYPE_LAST_EVENT_ERROR = Inr TypeLastEventError"
| "FromAPIV2Type MACHINE_ISSUE_TYPE_LIVELINESS_DEAD = Inr TypeLivelinessDead"
| "FromAPIV2Type MACHINE_ISSUE_TYPE_LIVELINESS_NOT_AVAILABLE = Inr TypeLivelinessNotAvailable"
| "FromAPIV2Type MACHINE_ISSUE_TYPE_LIVELINESS_UNKNOWN = Inr TypeLivelinessUnknown"
| "FromAPIV2Type MACHINE_ISSUE_TYPE_NO_EVENT_CONTAINER = Inr TypeNoEventContainer"
| "FromAPIV2Type MACHINE_ISSUE_TYPE_NO_PARTITION = Inr TypeNoPartition"
| "FromAPIV2Type MACHINE_ISSUE_TYPE_UNSPECIFIED = Inl (Plain ''unknown issue type: %s'')"
| "FromAPIV2Type (MACHINE_ISSUE_TYPE_NUMBER _) = Inl (Plain ''unknown issue type: %s'')"

section \<open>Issues\<close>

text \<open>The structs that implement the interface \<open>issue\<close>.\<close>

datatype issue =
    issueNoPartition | issueLivelinessDead | issueLivelinessUnknown
  | issueLivelinessNotAvailable | issueFailedMachineReclaim | issueCrashLoop
  | issueLastEventError | issueBMCWithoutMAC | issueBMCWithoutIP | issueBMCInfoOutdated
  | issueASNUniqueness | issueNonDistinctBMCIP | issueNoEventContainer

fun NewIssueFromType :: "IssueType \<Rightarrow> issue result" where
  "NewIssueFromType TypeNoPartition = Inr issueNoPartition"
| "NewIssueFromType TypeLivelinessDead = Inr issueLivelinessDead"
| "NewIssueFromType TypeLivelinessUnknown = Inr issueLivelinessUnknown"
| "NewIssueFromType TypeLivelinessNotAvailable = Inr issueLivelinessNotAvailable"
| "NewIssueFromType TypeFailedMachineReclaim = Inr issueFailedMachineReclaim"
| "NewIssueFromType TypeCrashLoop = Inr issueCrashLoop"
| "NewIssueFromType TypeLastEventError = Inr issueLastEventError"
| "NewIssueFromType TypeBMCWithoutMAC = Inr issueBMCWithoutMAC"
| "NewIssueFromType TypeBMCWithoutIP = Inr issueBMCWithoutIP"
| "NewIssueFromType TypeBMCInfoOutdated = Inr issueBMCInfoOutdated"
| "NewIssueFromType TypeASNUniqueness = Inr issueASNUniqueness"
| "NewIssueFromType TypeNonDistinctBMCIP = Inr issueNonDistinctBMCIP"
| "NewIssueFromType TypeNoEventContainer = Inr issueNoEventContainer"
| "NewIssueFromType (TypeOther _) = Inl (Plain ''unknown issue type: %s'')"

record spec =
  spec_Type :: IssueType
  spec_Severity :: Severity
  spec_Description :: string
  spec_RefURL :: string

text \<open>One definition per implementation of the method \<open>Spec\<close>.\<close>

definition issueASNUniqueness_Spec :: spec where
  "issueASNUniqueness_Spec =
     \<lparr>spec_Type = TypeASNUniqueness, spec_Severity = SeverityMinor,
     spec_Description = ''The ASN is not unique (only impact on firewalls)'',
     spec_RefURL = ''https://metal-stack.io/docs/troubleshooting/#asn-not-unique''\<rparr>"

definition issueBMCInfoOutdated_Spec :: spec where
  "issueBMCInfoOutdated_Spec =
     \<lparr>spec_Type = TypeBMCInfoOutdated, spec_Severity = SeverityMajor,
     spec_Description = ''BMC has not been updated from either metal-hammer or metal-bmc'',
     spec_RefURL = ''https://metal-stack.io/docs/troubleshooting/#bmc-info-outdated''\<rparr>"

definition issueBMCWithoutIP_Spec :: spec where
  "issueBMCWithoutIP_Spec =
     \<lparr>spec_Type = TypeBMCWithoutIP, spec_Severity = SeverityMajor,
     spec_Description = ''BMC has no ip address'',
     spec_RefURL = ''https://metal-stack.io/docs/troubleshooting/#bmc-without-ip''\<rparr>"

definition issueBMCWithoutMAC_Spec :: spec where
  "issueBMCWithoutMAC_Spec =
     \<lparr>spec_Type = TypeBMCWithoutMAC, spec_Severity = SeverityMajor,
     spec_Description = ''BMC has no mac address'',
     spec_RefURL = ''https://metal-stack.io/docs/troubleshooting/#bmc-without-mac''\<rparr>"

definition issueCrashLoop_Spec :: spec where
  "issueCrashLoop_Spec =
     \<lparr>spec_Type = TypeCrashLoop, spec_Severity = SeverityMajor,
     spec_Description = ''machine is in a provisioning crash loop ('' @
       [CHR 0xE2, CHR 0xAD, CHR 0x95] @ '')'',
     spec_RefURL = ''https://metal-stack.io/docs/troubleshooting/#crashloop''\<rparr>"

definition issueFailedMachineReclaim_Spec :: spec where
  "issueFailedMachineReclaim_Spec =
     \<lparr>spec_Type = TypeFailedMachineReclaim,
     spec_Severity = SeverityCritical,
     spec_Description = ''machine phones home but not allocated'',
     spec_RefURL = ''https://metal-stack.io/docs/troubleshooting/#failed-machine-reclaim''\<rparr>"

definition issueLastEventError_Spec :: spec where
  "issueLastEventError_Spec =
     \<lparr>spec_Type = TypeLastEventError, spec_Severity = SeverityMinor,
     spec_Description = ''the machine had an error during the provisioning lifecycle'',
     spec_RefURL = ''https://metal-stack.io/docs/troubleshooting/#last-event-error''\<rparr>"

definition issueLivelinessDead_Spec :: spec where
  "issueLivelinessDead_Spec =
     \<lparr>spec_Type = TypeLivelinessDead, spec_Severity = SeverityMajor,
     spec_Description = ''the machine is not sending events anymore'',
     spec_RefURL = ''https://metal-stack.io/docs/troubleshooting/#liveliness-dead''\<rparr>"

definition issueLivelinessNotAvailable_Spec :: spec where
  "issueLivelinessNotAvailable_Spec =
     \<lparr>spec_Type = TypeLivelinessNotAvailable,
     spec_Severity = SeverityMinor,
     spec_Description = ''the machine liveliness is not available'',
     spec_RefURL = ''https://metal-stack.io/docs/troubleshooting/#liveliness-not-available''\<rparr>"

definition issueLivelinessUnknown_Spec :: spec where
  "issueLivelinessUnknown_Spec =
     \<lparr>spec_Type = TypeLivelinessUnknown,
     spec_Severity = SeverityMajor,
     spec_Description = ''the machine is not sending LLDP alive messages anymore'',
     spec_RefURL = ''https://metal-stack.io/docs/troubleshooting/#liveliness-unknown''\<rparr>"

definition issueNoEventContainer_Spec :: spec where
  "issueNoEventContainer_Spec =
     \<lparr>spec_Type = TypeNoEventContainer, spec_Severity = SeverityMajor,
     spec_Description = ''machine has no event container'',
     spec_RefURL = ''https://metal-stack.io/docs/troubleshooting/#no-event-container''\<rparr>"

definition issueNoPartition_Spec :: spec where
  "issueNoPartition_Spec =
     \<lparr>spec_Type = TypeNoPartition, spec_Severity = SeverityMajor,
     spec_Description = ''machine with no partition'',
     spec_RefURL = ''https://metal-stack.io/docs/troubleshooting/#no-partition''\<rparr>"

definition issueNonDistinctBMCIP_Spec :: spec where
  "issueNonDistinctBMCIP_Spec =
     \<lparr>spec_Type = TypeNonDistinctBMCIP,
     spec_Severity = SeverityMajor,
     spec_Description = ''BMC IP address is not distinct'',
     spec_RefURL = ''https://metal-stack.io/docs/troubleshooting/#bmc-no-distinct-ip''\<rparr>"

fun Spec :: "issue \<Rightarrow> spec" where
  "Spec issueASNUniqueness = issueASNUniqueness_Spec"
| "Spec issueBMCInfoOutdated = issueBMCInfoOutdated_Spec"
| "Spec issueBMCWithoutIP = issueBMCWithoutIP_Spec"
| "Spec issueBMCWithoutMAC = issueBMCWithoutMAC_Spec"
| "Spec issueCrashLoop = issueCrashLoop_Spec"
| "Spec issueFailedMachineReclaim = issueFailedMachineReclaim_Spec"
| "Spec issueLastEventError = issueLastEventError_Spec"
| "Spec issueLivelinessDead = issueLivelinessDead_Spec"
| "Spec issueLivelinessNotAvailable = issueLivelinessNotAvailable_Spec"
| "Spec issueLivelinessUnknown = issueLivelinessUnknown_Spec"
| "Spec issueNoEventContainer = issueNoEventContainer_Spec"
| "Spec issueNoPartition = issueNoPartition_Spec"
| "Spec issueNonDistinctBMCIP = issueNonDistinctBMCIP_Spec"

lemmas issue_specs [simp] =
  issueASNUniqueness_Spec_def
  issueBMCInfoOutdated_Spec_def
  issueBMCWithoutIP_Spec_def
  issueBMCWithoutMAC_Spec_def
  issueCrashLoop_Spec_def
  issueFailedMachineReclaim_Spec_def
  issueLastEventError_Spec_def
  issueLivelinessDead_Spec_def
  issueLivelinessNotAvailable_Spec_def
  issueLivelinessUnknown_Spec_def
  issueNoEventContainer_Spec_def
  issueNoPartition_Spec_def
  issueNonDistinctBMCIP_Spec_def

text \<open>Details are a text, or a text with the duration it prints.\<close>

datatype issue_details = Details string | DetailsAgo string duration

record Config =
  cfg_Machines :: "Machine list"
  cfg_EventContainers :: "ProvisioningEventContainer list"
  cfg_Severity :: Severity
  cfg_Only :: "IssueType list"
  cfg_Omit :: "IssueType list"
  cfg_LastErrorThreshold :: duration

record Issue =
  i_Type :: IssueType
  i_Severity :: Severity
  i_Description :: string
  i_RefURL :: string
  i_Details :: issue_details

record MachineWithIssues =
  mi_Machine :: Machine
  mi_Issues :: "Issue list"

type_synonym MachineIssuesMap = "(string, MachineWithIssues) gomap"

definition DefaultLastErrorThreshold :: duration where
  "DefaultLastErrorThreshold = 7 * 24 * Hour"

section \<open>Evaluation\<close>

definition first_event :: "ProvisioningEventContainer \<Rightarrow> ProvisioningEventType" where
  "first_event ec = (case ec_Events ec of [] \<Rightarrow> EvOther '''' | e # _ \<Rightarrow> ev_Event e)"

definition isNoFirewall :: "Machine \<Rightarrow> bool" where
  "isNoFirewall m =
     (case m_Allocation m of None \<Rightarrow> True | Some a \<Rightarrow> ma_Role a \<noteq> RoleFirewall)"

definition machine_networks :: "Machine \<Rightarrow> MachineNetwork list" where
  "machine_networks m = (case m_Allocation m of None \<Rightarrow> [] | Some a \<Rightarrow> ma_MachineNetworks a)"

type_synonym asn_map = "(32 word, Machine list) gomap"

definition own_asns :: "Machine \<Rightarrow> asn_map" where
  "own_asns m =
     fold (\<lambda>n asns. if mn_ASN n = 0 then asns else AList.update (mn_ASN n) [] asns)
       (machine_networks m) []"

definition add_overlap :: "Machine \<Rightarrow> MachineNetwork \<Rightarrow> asn_map \<Rightarrow> asn_map" where
  "add_overlap other n asns =
     (if mn_ASN n = 0 then asns
      else (case map_of asns (mn_ASN n) of
              None \<Rightarrow> asns
            | Some ms \<Rightarrow> AList.update (mn_ASN n) (ms @ [other]) asns))"

definition collect_overlaps :: "Machine \<Rightarrow> Machine list \<Rightarrow> asn_map \<Rightarrow> asn_map" where
  "collect_overlaps m machines asns =
     fold (\<lambda>other asns.
        if b_ID other = b_ID m then asns
        else if isNoFirewall other then asns
        else fold (add_overlap other) (machine_networks other) asns) machines asns"

definition overlap_texts :: "asn_map \<Rightarrow> string list" where
  "overlap_texts asns =
     concat (map (\<lambda>asn.
        (case map_of asns asn of
           None \<Rightarrow> []
         | Some ms \<Rightarrow>
             if ms = [] then []
             else [''- ASN ('' @ itoa (unat asn) @ '') not unique, shared with '' @
                   format_strings (map b_ID ms)]))
       (sort (map_keys asns)))"

definition evaluate_NoPartition :: "Machine \<Rightarrow> bool" where
  "evaluate_NoPartition m = (m_PartitionID m = '''')"

definition evaluate_NoEventContainer :: "ProvisioningEventContainer \<Rightarrow> bool" where
  "evaluate_NoEventContainer ec = (b_ID ec = '''')"

definition evaluate_BMCWithoutMAC :: "Machine \<Rightarrow> bool" where
  "evaluate_BMCWithoutMAC m = (ipmi_MacAddress (m_IPMI m) = '''')"

definition evaluate_BMCWithoutIP :: "Machine \<Rightarrow> bool" where
  "evaluate_BMCWithoutIP m = (ipmi_Address (m_IPMI m) = '''')"

definition evaluate_LivelinessDead :: "ProvisioningEventContainer \<Rightarrow> bool" where
  "evaluate_LivelinessDead ec = (ec_Liveliness ec = LivelinessDead)"

definition evaluate_LivelinessUnknown :: "ProvisioningEventContainer \<Rightarrow> bool" where
  "evaluate_LivelinessUnknown ec = (ec_Liveliness ec = LivelinessUnknown)"

definition evaluate_ASNUniqueness :: "Machine \<Rightarrow> Config \<Rightarrow> bool \<times> issue_details" where
  "evaluate_ASNUniqueness m c =
     (if isNoFirewall m then (False, Details '''')
      else
        (let overlaps = overlap_texts (collect_overlaps m (cfg_Machines c) (own_asns m))
         in if overlaps = [] then (False, Details '''')
            else (True, Details (strings_Join (sort overlaps) [CHR 0x0A]))))"

definition evaluate_BMCInfoOutdated :: "time \<Rightarrow> Machine \<Rightarrow> bool \<times> issue_details" where
  "evaluate_BMCInfoOutdated now m =
     (if ipmi_LastUpdated (m_IPMI m) = 0 then (True, Details ''machine ipmi has never been set'')
      else
        (let lastUpdated = time_Sub now (ipmi_LastUpdated (m_IPMI m))
         in if lastUpdated > 20 * Minute then (True, DetailsAgo ''last updated %s ago'' lastUpdated)
            else (False, Details '''')))"

definition evaluate_CrashLoop :: "ProvisioningEventContainer \<Rightarrow> bool" where
  "evaluate_CrashLoop ec =
     (if ec_CrashLoop ec then (if first_event ec = EvWaiting then False else True) else False)"

definition evaluate_FailedMachineReclaim :: "Machine \<Rightarrow> ProvisioningEventContainer \<Rightarrow> bool" where
  "evaluate_FailedMachineReclaim m ec =
     (if ec_FailedMachineReclaim ec then True
      else if m_Allocation m = None \<and> first_event ec = EvPhonedHome then True
      else False)"

definition evaluate_LastEventError ::
  "time \<Rightarrow> ProvisioningEventContainer \<Rightarrow> Config \<Rightarrow> bool \<times> issue_details" where
  "evaluate_LastEventError now ec c =
     (if cfg_LastErrorThreshold c = 0 then (False, Details '''')
      else (case ec_LastErrorEvent ec of
              None \<Rightarrow> (False, Details '''')
            | Some ev \<Rightarrow>
                (let timeSince = time_Sub now (ev_Time ev)
                 in if timeSince < cfg_LastErrorThreshold c
                    then (True, DetailsAgo ''occurred %s ago'' timeSince)
                    else (False, Details ''''))))"

definition evaluate_LivelinessNotAvailable :: "ProvisioningEventContainer \<Rightarrow> bool" where
  "evaluate_LivelinessNotAvailable ec =
     (ec_Liveliness ec \<notin> {LivelinessAlive, LivelinessDead, LivelinessUnknown})"

definition evaluate_NonDistinctBMCIP :: "Machine \<Rightarrow> Config \<Rightarrow> bool \<times> issue_details" where
  "evaluate_NonDistinctBMCIP m c =
     (let bmcIP = ipmi_Address (m_IPMI m) in
      if bmcIP = '''' then (False, Details '''')
      else
        (let overlaps =
           fold (\<lambda>other overlaps.
              if b_ID other = b_ID m then overlaps
              else if ipmi_Address (m_IPMI other) = '''' then overlaps
              else if bmcIP = ipmi_Address (m_IPMI other) then overlaps @ [b_ID other]
              else overlaps) (cfg_Machines c) []
         in if overlaps = [] then (False, Details '''')
            else (True, Details (''BMC IP ('' @ bmcIP @ '') not unique, shared with '' @
                                 format_strings overlaps))))"

fun Evaluate ::
  "time \<Rightarrow> issue \<Rightarrow> Machine \<Rightarrow> ProvisioningEventContainer \<Rightarrow> Config \<Rightarrow> bool \<times> issue_details" where
  "Evaluate now issueNoPartition m ec c = (evaluate_NoPartition m, Details '''')"
| "Evaluate now issueLivelinessDead m ec c = (evaluate_LivelinessDead ec, Details '''')"
| "Evaluate now issueLivelinessUnknown m ec c = (evaluate_LivelinessUnknown ec, Details '''')"
| "Evaluate now issueLivelinessNotAvailable m ec c = (evaluate_LivelinessNotAvailable ec, Details '''')"
| "Evaluate now issueFailedMachineReclaim m ec c = (evaluate_FailedMachineReclaim m ec, Details '''')"
| "Evaluate now issueCrashLoop m ec c = (evaluate_CrashLoop ec, Details '''')"
| "Evaluate now issueLastEventError m ec c = evaluate_LastEventError now ec c"
| "Evaluate now issueBMCWithoutMAC m ec c = (evaluate_BMCWithoutMAC m, Details '''')"
| "Evaluate now issueBMCWithoutIP m ec c = (evaluate_BMCWithoutIP m, Details '''')"
| "Evaluate now issueBMCInfoOutdated m ec c = evaluate_BMCInfoOutdated now m"
| "Evaluate now issueASNUniqueness m ec c = evaluate_ASNUniqueness m c"
| "Evaluate now issueNonDistinctBMCIP m ec c = evaluate_NonDistinctBMCIP m c"
| "Evaluate now issueNoEventContainer m ec c = (evaluate_NoEventContainer ec, Details '''')"

section \<open>Finding issues\<close>

definition toIssue :: "issue \<Rightarrow> issue_details \<Rightarrow> Issue" where
  "toIssue i d =
     \<lparr>i_Type = spec_Type (Spec i), i_Severity = spec_Severity (Spec i),
      i_Description = spec_Description (Spec i), i_RefURL = spec_RefURL (Spec i),
      i_Details = d\<rparr>"

definition All :: "Issue list" where
  "All = concat (map (\<lambda>t. case NewIssueFromType t of Inl _ \<Rightarrow> [] | Inr i \<Rightarrow> [toIssue i (Details '''')])
           AllIssueTypes)"

definition includeIssue :: "Config \<Rightarrow> IssueType \<Rightarrow> bool" where
  "includeIssue c t =
     (case NewIssueFromType t of
        Inl _ \<Rightarrow> False
      | Inr i \<Rightarrow>
          if LowerThan (spec_Severity (Spec i)) (cfg_Severity c) then False
          else if t \<in> set (cfg_Omit c) then False
          else if cfg_Only c \<noteq> [] then t \<in> set (cfg_Only c)
          else True)"

definition add_issue :: "MachineIssuesMap \<Rightarrow> Machine \<Rightarrow> Issue \<Rightarrow> MachineIssuesMap" where
  "add_issue mim m i =
     (let mwi = (case map_of mim (b_ID m) of
                   None \<Rightarrow> \<lparr>mi_Machine = m, mi_Issues = []\<rparr>
                 | Some mwi \<Rightarrow> mwi)
      in AList.update (b_ID m) (mwi\<lparr>mi_Issues := mi_Issues mwi @ [i]\<rparr>) mim)"

fun find_types ::
  "time \<Rightarrow> Config \<Rightarrow> Machine \<Rightarrow> ProvisioningEventContainer \<Rightarrow> IssueType list \<Rightarrow> MachineIssuesMap \<Rightarrow>
   MachineIssuesMap result" where
  "find_types now c m ec [] res = Inr res"
| "find_types now c m ec (t # ts) res =
     (if \<not> includeIssue c t then find_types now c m ec ts res
      else (case NewIssueFromType t of
              Inl err \<Rightarrow> Inl err
            | Inr i \<Rightarrow>
                (let (b, d) = Evaluate now i m ec c
                 in find_types now c m ec ts (if b then add_issue res m (toIssue i d) else res))))"

fun find_machines ::
  "time \<Rightarrow> Config \<Rightarrow> (string, ProvisioningEventContainer) gomap \<Rightarrow> Machine list \<Rightarrow> MachineIssuesMap \<Rightarrow>
   MachineIssuesMap result" where
  "find_machines now c ecs [] res = Inr res"
| "find_machines now c ecs (m # ms) res =
     (case map_of ecs (b_ID m) of
        None \<Rightarrow>
          find_machines now c ecs ms
            (if includeIssue c TypeNoEventContainer
             then add_issue res m (toIssue issueNoEventContainer (Details ''''))
             else res)
      | Some ec \<Rightarrow>
          (case find_types now c m ec AllIssueTypes res of
             Inl err \<Rightarrow> Inl err
           | Inr res \<Rightarrow> find_machines now c ecs ms res))"

text \<open>\<open>Find\<close> also stores the default threshold in the caller's configuration.\<close>

definition Find :: "time \<Rightarrow> Config \<Rightarrow> Config \<times> MachineIssuesMap result" where
  "Find now c =
     (let c = (if cfg_LastErrorThreshold c = 0
               then c\<lparr>cfg_LastErrorThreshold := DefaultLastErrorThreshold\<rparr> else c);
          ecs = ProvisioningEventsByID (cfg_EventContainers c)
      in (c, find_machines now c ecs (cfg_Machines c) []))"

text \<open>\<open>Get\<close> on a list whose entries may lack their machine (\<open>None\<close>).\<close>

definition Get :: "MachineWithIssues option list \<Rightarrow> string \<Rightarrow> MachineWithIssues option" where
  "Get mis i =
     (case find (\<lambda>m. case m of None \<Rightarrow> False | Some m \<Rightarrow> b_ID (mi_Machine m) = i) mis of
        None \<Rightarrow> None | Some m \<Rightarrow> m)"

definition ToList :: "MachineIssuesMap \<Rightarrow> MachineWithIssues list" where
  "ToList mim = sort_key (\<lambda>m. b_ID (mi_Machine m)) (map snd mim)"

end
