(* ===== verification/IssuesProps.thy ===== *)
theory IssuesProps
  imports Issues
begin

text \<open>
  Properties of the issue evaluation: what \<open>Find\<close> reports, its filters, the two evaluations
  that compare machines with each other, and the conversion to the API's enumeration.
\<close>

section \<open>Types and their specifications\<close>

lemma NewIssueFromType_Spec: "NewIssueFromType t = Inr i \<Longrightarrow> spec_Type (Spec i) = t"
  by (cases t) auto

lemma AllIssueTypes_known: "t \<in> set AllIssueTypes \<longleftrightarrow> is_ok (NewIssueFromType t)"
  by (cases t) (simp_all add: AllIssueTypes_def)

definition severity_of :: "IssueType \<Rightarrow> Severity" where
  "severity_of t = (case NewIssueFromType t of Inl _ \<Rightarrow> SeverityMinor | Inr i \<Rightarrow> spec_Severity (Spec i))"

lemma includeIssue_iff:
  "includeIssue c t \<longleftrightarrow> t \<in> set AllIssueTypes \<and> \<not> LowerThan (severity_of t) (cfg_Severity c) \<and>
     t \<notin> set (cfg_Omit c) \<and> (cfg_Only c = [] \<or> t \<in> set (cfg_Only c))"
  by (auto simp: includeIssue_def severity_of_def AllIssueTypes_known split: sum.splits)

definition has_issue ::
  "time \<Rightarrow> Config \<Rightarrow> Machine \<Rightarrow> ProvisioningEventContainer \<Rightarrow> IssueType \<Rightarrow> bool" where
  "has_issue now c m ec t =
     (case NewIssueFromType t of Inl _ \<Rightarrow> False | Inr i \<Rightarrow> fst (Evaluate now i m ec c))"

section \<open>What Find reports\<close>

definition reported :: "MachineIssuesMap \<Rightarrow> string \<Rightarrow> Issue list" where
  "reported mim i = (case map_of mim i of None \<Rightarrow> [] | Some mwi \<Rightarrow> mi_Issues mwi)"

lemma reported_Nil [simp]: "reported [] i = []"
  by (simp add: reported_def)

lemma reported_add_issue [simp]:
  "reported (add_issue mim m x) i = (if i = b_ID m then reported mim i @ [x] else reported mim i)"
  by (simp add: reported_def add_issue_def Let_def update_conv' split: option.splits)

lemma toIssue_type [simp]: "NewIssueFromType t = Inr i \<Longrightarrow> i_Type (toIssue i d) = t"
  by (simp add: toIssue_def NewIssueFromType_Spec)

lemma find_types_reported:
  assumes "set ts \<subseteq> set AllIssueTypes"
  shows "\<exists>res'. find_types now c m ec ts res = Inr res' \<and>
    (\<forall>i. i \<noteq> b_ID m \<longrightarrow> reported res' i = reported res i) \<and>
    map i_Type (reported res' (b_ID m)) =
      map i_Type (reported res (b_ID m)) @ filter (\<lambda>t. includeIssue c t \<and> has_issue now c m ec t) ts \<and>
    (\<forall>x\<in>set (reported res' (b_ID m)). x \<in> set (reported res (b_ID m)) \<or>
       (includeIssue c (i_Type x) \<and> i_Severity x = severity_of (i_Type x)))"
  using assms
proof (induction ts arbitrary: res)
  case Nil
  then show ?case by simp
next
  case (Cons t ts)
  from Cons.prems obtain i where i: "NewIssueFromType t = Inr i"
    by (auto simp: AllIssueTypes_known is_ok_iff)
  obtain b d where e: "Evaluate now i m ec c = (b, d)" by force
  have sev: "i_Severity (toIssue i d) = severity_of t"
    by (simp add: toIssue_def severity_of_def i)
  let ?res = "if includeIssue c t \<and> b then add_issue res m (toIssue i d) else res"
  have step: "find_types now c m ec (t # ts) res = find_types now c m ec ts ?res"
    by (simp add: i e)
  from Cons.prems have "set ts \<subseteq> set AllIssueTypes" by simp
  from Cons.IH [OF this, of ?res] obtain res' where r: "find_types now c m ec ts ?res = Inr res'"
    "\<forall>i. i \<noteq> b_ID m \<longrightarrow> reported res' i = reported ?res i"
    "map i_Type (reported res' (b_ID m)) =
      map i_Type (reported ?res (b_ID m)) @ filter (\<lambda>t. includeIssue c t \<and> has_issue now c m ec t) ts"
    "\<forall>x\<in>set (reported res' (b_ID m)). x \<in> set (reported ?res (b_ID m)) \<or>
       (includeIssue c (i_Type x) \<and> i_Severity x = severity_of (i_Type x))"
    by auto
  have h: "has_issue now c m ec t \<longleftrightarrow> b"
    by (simp add: has_issue_def i e)
  show ?case
    unfolding step using r h i sev by (cases "includeIssue c t \<and> b") auto
qed

definition expected_issues :: "time \<Rightarrow> Config \<Rightarrow> Machine \<Rightarrow> IssueType list" where
  "expected_issues now c m =
     (case find (\<lambda>ec. b_ID ec = b_ID m) (rev (cfg_EventContainers c)) of
        None \<Rightarrow> if includeIssue c TypeNoEventContainer then [TypeNoEventContainer] else []
      | Some ec \<Rightarrow> filter (\<lambda>t. includeIssue c t \<and> has_issue now c m ec t) AllIssueTypes)"

lemma find_machines_reported:
  assumes "ecs = ProvisioningEventsByID (cfg_EventContainers c)"
  shows "\<exists>res'. find_machines now c ecs ms res = Inr res' \<and>
    (\<forall>i. map i_Type (reported res' i) = map i_Type (reported res i) @
       concat (map (expected_issues now c) (filter (\<lambda>m. b_ID m = i) ms))) \<and>
    (\<forall>i. \<forall>x\<in>set (reported res' i). x \<in> set (reported res i) \<or>
       (includeIssue c (i_Type x) \<and> i_Severity x = severity_of (i_Type x)))"
proof (induction ms arbitrary: res)
  case Nil
  then show ?case by simp
next
  case (Cons m ms)
  let ?find = "find (\<lambda>ec. b_ID ec = b_ID m) (rev (cfg_EventContainers c))"
  have lookup: "map_of ecs (b_ID m) = ?find"
    by (simp add: assms ProvisioningEventsByID_lookup)
  show ?case
  proof (cases ?find)
    case None
    let ?x = "toIssue issueNoEventContainer (Details '''')"
    let ?res = "if includeIssue c TypeNoEventContainer then add_issue res m ?x else res"
    have x: "i_Type ?x = TypeNoEventContainer" "i_Severity ?x = severity_of TypeNoEventContainer"
      by (simp_all add: toIssue_def severity_of_def)
    have "find_machines now c ecs (m # ms) res = find_machines now c ecs ms ?res"
      by (simp add: lookup None)
    moreover from Cons.IH [of ?res] obtain res' where
      r: "find_machines now c ecs ms ?res = Inr res'"
      "\<forall>i. map i_Type (reported res' i) = map i_Type (reported ?res i) @
         concat (map (expected_issues now c) (filter (\<lambda>m. b_ID m = i) ms))"
      "\<forall>i. \<forall>x\<in>set (reported res' i). x \<in> set (reported ?res i) \<or>
         (includeIssue c (i_Type x) \<and> i_Severity x = severity_of (i_Type x))"
      by auto
    moreover have "map i_Type (reported res' i) = map i_Type (reported res i) @
        concat (map (expected_issues now c) (filter (\<lambda>m. b_ID m = i) (m # ms)))" for i
      using r(2) None x by (cases "i = b_ID m") (simp_all add: expected_issues_def)
    moreover have "y \<in> set (reported res i) \<or>
        (includeIssue c (i_Type y) \<and> i_Severity y = severity_of (i_Type y))"
      if "y \<in> set (reported res' i)" for i y
    proof -
      from r(3) [rule_format, OF that]
      have "y \<in> set (reported ?res i) \<or>
          (includeIssue c (i_Type y) \<and> i_Severity y = severity_of (i_Type y))" .
      moreover have "y = ?x \<and> includeIssue c TypeNoEventContainer"
        if "y \<in> set (reported ?res i)" "y \<notin> set (reported res i)"
        using that by (simp split: if_splits)
      ultimately show ?thesis using x by metis
    qed
    ultimately show ?thesis by simp
  next
    case (Some ec)
    from find_types_reported [of AllIssueTypes now c m ec res] obtain res1 where
      r1: "find_types now c m ec AllIssueTypes res = Inr res1"
      "\<forall>i. i \<noteq> b_ID m \<longrightarrow> reported res1 i = reported res i"
      "map i_Type (reported res1 (b_ID m)) = map i_Type (reported res (b_ID m)) @
         filter (\<lambda>t. includeIssue c t \<and> has_issue now c m ec t) AllIssueTypes"
      "\<forall>x\<in>set (reported res1 (b_ID m)). x \<in> set (reported res (b_ID m)) \<or>
         (includeIssue c (i_Type x) \<and> i_Severity x = severity_of (i_Type x))"
      by auto
    from Cons.IH [of res1] obtain res2 where
      r2: "find_machines now c ecs ms res1 = Inr res2"
      "\<forall>i. map i_Type (reported res2 i) = map i_Type (reported res1 i) @
         concat (map (expected_issues now c) (filter (\<lambda>m. b_ID m = i) ms))"
      "\<forall>i. \<forall>x\<in>set (reported res2 i). x \<in> set (reported res1 i) \<or>
         (includeIssue c (i_Type x) \<and> i_Severity x = severity_of (i_Type x))"
      by auto
    have "map i_Type (reported res2 i) = map i_Type (reported res i) @
        concat (map (expected_issues now c) (filter (\<lambda>m. b_ID m = i) (m # ms)))" for i
      using r1 r2 Some by (cases "i = b_ID m") (auto simp: expected_issues_def)
    moreover have "x \<in> set (reported res i) \<or>
        (includeIssue c (i_Type x) \<and> i_Severity x = severity_of (i_Type x))"
      if "x \<in> set (reported res2 i)" for i x
      using r1 r2 that by (cases "i = b_ID m") fastforce+
    ultimately show ?thesis
      using r1(1) r2(1) by (simp add: lookup Some)
  qed
qed

text \<open>The configuration the evaluation runs with.\<close>

definition with_default_threshold :: "Config \<Rightarrow> Config" where
  "with_default_threshold c = (if cfg_LastErrorThreshold c = 0
     then c\<lparr>cfg_LastErrorThreshold := DefaultLastErrorThreshold\<rparr> else c)"

lemma with_default_threshold_simps [simp]:
  "cfg_Machines (with_default_threshold c) = cfg_Machines c"
  "cfg_EventContainers (with_default_threshold c) = cfg_EventContainers c"
  "cfg_Severity (with_default_threshold c) = cfg_Severity c"
  "cfg_Only (with_default_threshold c) = cfg_Only c"
  "cfg_Omit (with_default_threshold c) = cfg_Omit c"
  by (simp_all add: with_default_threshold_def)

lemma Find_eq:
  "Find now c = (with_default_threshold c,
     find_machines now (with_default_threshold c)
       (ProvisioningEventsByID (cfg_EventContainers c)) (cfg_Machines c) [])"
  by (simp add: Find_def Let_def with_default_threshold_def)

section \<open>Comparing machines\<close>

definition asns_of :: "Machine \<Rightarrow> 32 word set" where
  "asns_of m = mn_ASN ` set (machine_networks m) - {0}"

lemma own_asns_lookup: "map_of (own_asns m) a = (if a \<in> asns_of m then Some [] else None)"
proof -
  have lookup: "map_of (fold (\<lambda>n asns. if mn_ASN n = 0 then asns else AList.update (mn_ASN n) [] asns) ns asns) a =
        (if a \<in> mn_ASN ` set ns - {0} then Some [] else map_of asns a)"
    for ns and asns :: asn_map
    by (induction ns arbitrary: asns) (auto simp: update_conv')
  show ?thesis unfolding own_asns_def asns_of_def lookup by simp
qed

lemma add_overlaps_lookup:
  "map_of (fold (add_overlap other) ns asns) a =
     map_option (\<lambda>ms. ms @ replicate (length (filter (\<lambda>n. mn_ASN n = a \<and> a \<noteq> 0) ns)) other)
       (map_of asns a)"
proof (induction ns arbitrary: asns)
  case Nil
  then show ?case by (simp add: option.map_ident)
next
  case (Cons n ns)
  show ?case
    using Cons.IH [of "add_overlap other n asns"]
    by (auto simp: add_overlap_def update_conv' replicate_app_Cons_same
        split: option.splits)
qed

lemma collect_overlaps_lookup:
  "map_of (collect_overlaps m machines asns) a =
     map_option (\<lambda>ms. ms @ concat (map (\<lambda>other.
        if b_ID other = b_ID m \<or> isNoFirewall other then []
        else replicate (length (filter (\<lambda>n. mn_ASN n = a \<and> a \<noteq> 0) (machine_networks other))) other)
        machines)) (map_of asns a)"
proof (induction machines arbitrary: asns)
  case Nil
  then show ?case by (simp add: collect_overlaps_def option.map_ident)
next
  case (Cons other machines)
  let ?asns = "if b_ID other = b_ID m \<or> isNoFirewall other then asns
    else fold (add_overlap other) (machine_networks other) asns"
  have "collect_overlaps m (other # machines) asns = collect_overlaps m machines ?asns"
    by (simp add: collect_overlaps_def)
  then show ?case
    using Cons.IH [of ?asns]
    by (auto simp: add_overlaps_lookup option.map_comp comp_def)
qed

lemma overlap_texts_empty:
  "overlap_texts asns = [] \<longleftrightarrow> (\<forall>a ms. map_of asns a = Some ms \<longrightarrow> ms = [])"
proof -
  have key: "a \<in> set (map_keys asns)" if "map_of asns a = Some ms" for a ms
    using map_of_SomeD [OF that] by (force simp: map_keys_def)
  have "overlap_texts asns = [] \<longleftrightarrow>
      (\<forall>a\<in>set (map_keys asns). case map_of asns a of None \<Rightarrow> True | Some ms \<Rightarrow> ms = [])"
    by (auto simp: overlap_texts_def split: option.splits if_splits)
  also have "\<dots> \<longleftrightarrow> (\<forall>a ms. map_of asns a = Some ms \<longrightarrow> ms = [])"
    using key by (force split: option.splits)
  finally show ?thesis .
qed

lemma evaluate_ASNUniqueness_iff:
  "fst (evaluate_ASNUniqueness m c) \<longleftrightarrow>
     \<not> isNoFirewall m \<and>
     (\<exists>other\<in>set (cfg_Machines c). b_ID other \<noteq> b_ID m \<and> \<not> isNoFirewall other \<and>
        asns_of m \<inter> asns_of other \<noteq> {})"
proof (cases "isNoFirewall m")
  case True
  then show ?thesis by (simp add: evaluate_ASNUniqueness_def)
next
  case False
  let ?asns = "collect_overlaps m (cfg_Machines c) (own_asns m)"
  define f where "f a other = (if b_ID other = b_ID m \<or> isNoFirewall other then []
      else replicate (length (filter (\<lambda>n. mn_ASN n = a \<and> a \<noteq> 0) (machine_networks other))) other)"
    for a other
  have collected: "map_of ?asns a =
      (if a \<in> asns_of m then Some (concat (map (f a) (cfg_Machines c))) else None)" for a
    by (simp add: collect_overlaps_lookup own_asns_lookup f_def [abs_def])
  have "f a other = [] \<longleftrightarrow> b_ID other = b_ID m \<or> isNoFirewall other \<or> a \<notin> asns_of other" for a other
    by (auto simp: f_def asns_of_def filter_empty_conv)
  then have empty: "concat (map (f a) (cfg_Machines c)) = [] \<longleftrightarrow>
      \<not> (\<exists>other\<in>set (cfg_Machines c). b_ID other \<noteq> b_ID m \<and> \<not> isNoFirewall other \<and> a \<in> asns_of other)"
    for a
    unfolding concat_eq_Nil_conv by auto
  have "fst (evaluate_ASNUniqueness m c) \<longleftrightarrow> overlap_texts ?asns \<noteq> []"
    using False by (simp add: evaluate_ASNUniqueness_def Let_def)
  also have "\<dots> \<longleftrightarrow> (\<exists>a\<in>asns_of m. \<exists>other\<in>set (cfg_Machines c). b_ID other \<noteq> b_ID m \<and>
      \<not> isNoFirewall other \<and> a \<in> asns_of other)"
  proof -
    have "overlap_texts ?asns = [] \<longleftrightarrow>
        (\<forall>a. a \<in> asns_of m \<longrightarrow> concat (map (f a) (cfg_Machines c)) = [])"
      unfolding overlap_texts_empty collected by simp
    then show ?thesis unfolding empty by blast
  qed
  finally show ?thesis
    using False by blast
qed

lemma evaluate_NonDistinctBMCIP_iff:
  "fst (evaluate_NonDistinctBMCIP m c) \<longleftrightarrow>
     ipmi_Address (m_IPMI m) \<noteq> '''' \<and>
     (\<exists>other\<in>set (cfg_Machines c). b_ID other \<noteq> b_ID m \<and>
        ipmi_Address (m_IPMI other) = ipmi_Address (m_IPMI m))"
proof -
  let ?ip = "ipmi_Address (m_IPMI m)"
  let ?P = "\<lambda>other. b_ID other \<noteq> b_ID m \<and>
      ipmi_Address (m_IPMI other) \<noteq> '''' \<and> ?ip = ipmi_Address (m_IPMI other)"
  have "(\<lambda>other overlaps.
          if b_ID other = b_ID m then overlaps
          else if ipmi_Address (m_IPMI other) = '''' then overlaps
          else if ?ip = ipmi_Address (m_IPMI other) then overlaps @ [b_ID other]
          else overlaps) = (\<lambda>other overlaps. if ?P other then overlaps @ [b_ID other] else overlaps)"
    by (intro ext) simp
  note overlaps = this fold_collect [of ?P]
  have "fst (evaluate_NonDistinctBMCIP m c) \<longleftrightarrow> ?ip \<noteq> '''' \<and>
      filter (\<lambda>other. b_ID other \<noteq> b_ID m \<and>
        ipmi_Address (m_IPMI other) \<noteq> '''' \<and> ?ip = ipmi_Address (m_IPMI other)) (cfg_Machines c) \<noteq> []"
    by (simp add: evaluate_NonDistinctBMCIP_def Let_def overlaps)
  also have "\<dots> \<longleftrightarrow> ?ip \<noteq> '''' \<and> (\<exists>other\<in>set (cfg_Machines c). b_ID other \<noteq> b_ID m \<and>
        ipmi_Address (m_IPMI other) = ?ip)"
    unfolding filter_empty_conv by metis
  finally show ?thesis .
qed

lemma Find_reported:
  "\<exists>res. snd (Find now c) = Inr res \<and>
    (\<forall>i. map i_Type (reported res i) =
       concat (map (expected_issues now (with_default_threshold c))
         (filter (\<lambda>m. b_ID m = i) (cfg_Machines c)))) \<and>
    (\<forall>i. \<forall>x\<in>set (reported res i).
       includeIssue (with_default_threshold c) (i_Type x) \<and> i_Severity x = severity_of (i_Type x))"
  using find_machines_reported [OF refl, where c = "with_default_threshold c" and now = now
      and ms = "cfg_Machines c" and res = "[]"]
  by (simp only: Find_eq snd_conv with_default_threshold_simps reported_Nil list.map
      append_Nil list.set empty_iff simp_thms)

section \<open>Properties\<close>

text \<open>A configuration with one machine and its event container.\<close>

definition example_machine :: Machine where
  "example_machine = (machine_with_id ''m1'')\<lparr>m_PartitionID := ''p1''\<rparr>"

definition example_config :: Config where
  "example_config =
     \<lparr>cfg_Machines = [example_machine],
      cfg_EventContainers = [\<lparr>b_ID = ''m1'', b_Name = '''', b_Description = '''', b_Created = 0,
        b_Changed = 0, b_Generation = 0, ec_Liveliness = LivelinessAlive, ec_Events = [],
        ec_LastEventTime = None, ec_LastErrorEvent = None, ec_CrashLoop = False,
        ec_FailedMachineReclaim = False\<rparr>],
      cfg_Severity = SeverityMinor, cfg_Only = [],
      cfg_Omit = [TypeBMCInfoOutdated], cfg_LastErrorThreshold = 0\<rparr>"

text \<open>
  C5: Find never fails, and for machines with distinct ids the issues it reports for
  a machine are, in the order of AllIssueTypes, exactly the types that the configuration includes
  and that evaluate to true on the machine and its last event container; a machine without an
  event container gets the type no-event-container (when included) and nothing else.\<close>

theorem find_reports_exactly:
  assumes "distinct (map b_ID (cfg_Machines c))" and "m \<in> set (cfg_Machines c)"
  shows "\<exists>res. snd (Find now c) = Inr res \<and>
    map i_Type (reported res (b_ID m)) = expected_issues now (with_default_threshold c) m"
  using Find_reported [of now c] filter_key_unique [OF assms] by force

theorem find_reports_exactly_witness:
  "\<exists>res. snd (Find 5 example_config) = Inr res \<and>
    map i_Type (reported res ''m1'') = [TypeBMCWithoutMAC, TypeBMCWithoutIP]"
proof -
  have "expected_issues 5 (with_default_threshold example_config) example_machine =
      [TypeBMCWithoutMAC, TypeBMCWithoutIP]"
    by code_simp
  with find_reports_exactly [of example_config example_machine 5] show ?thesis
    by (simp add: example_config_def example_machine_def machine_with_id_def)
qed

text \<open>
  Every issue Find reports respects the filters of the configuration: its type
  is a known one, is listed in Only when Only is not empty, is not listed in Omit, and carries
  the severity of its type, which is not below the configured one. This needs nothing of the
  machine list.\<close>

theorem find_respects_filters:
  assumes "snd (Find now c) = Inr res" and "x \<in> set (reported res i)"
  shows "i_Type x \<in> set AllIssueTypes \<and> i_Type x \<notin> set (cfg_Omit c) \<and>
    (cfg_Only c = [] \<or> i_Type x \<in> set (cfg_Only c)) \<and>
    i_Severity x = severity_of (i_Type x) \<and> \<not> LowerThan (i_Severity x) (cfg_Severity c)"
proof -
  have "includeIssue (with_default_threshold c) (i_Type x) \<and> i_Severity x = severity_of (i_Type x)"
    using Find_reported [of now c] assms by force
  then show ?thesis by (simp add: includeIssue_iff)
qed

theorem find_respects_filters_witness:
  "\<exists>res x. snd (Find 5 example_config) = Inr res \<and> x \<in> set (reported res ''m1'') \<and>
    i_Type x \<notin> set (cfg_Omit example_config)"
proof -
  let ?res = "projr (snd (Find 5 example_config))"
  have "snd (Find 5 example_config) = Inr ?res" "reported ?res ''m1'' \<noteq> []"
    by code_simp+
  moreover from this have "hd (reported ?res ''m1'') \<in> set (reported ?res ''m1'')" by simp
  ultimately show ?thesis
    using find_respects_filters [of 5 example_config ?res "hd (reported ?res ''m1'')" "''m1''"] by blast
qed

text \<open>
  A machine has the ASN uniqueness issue exactly when it is a firewall and some
  other firewall of the configuration shares a non-zero ASN with it; the maps and loops that
  collect the overlaps lose none and invent none.\<close>

theorem asn_uniqueness_iff:
  "fst (Evaluate now issueASNUniqueness m ec c) \<longleftrightarrow>
     \<not> isNoFirewall m \<and>
     (\<exists>other\<in>set (cfg_Machines c). b_ID other \<noteq> b_ID m \<and> \<not> isNoFirewall other \<and>
        asns_of m \<inter> asns_of other \<noteq> {})"
  by (simp add: evaluate_ASNUniqueness_iff)

text \<open>
  The conversion of an issue type to the API's enumeration succeeds exactly on
  the known types, and the conversion back inverts it.\<close>

theorem api_type_roundtrip:
  "ToAPIV2Type t = Inr a \<longleftrightarrow> FromAPIV2Type a = Inr t"
  by (cases t; cases a) auto

end
