(* ===== verification/RackSpreading.thy ===== *)
theory RackSpreading
  imports MachineData
begin

text \<open>
  The choice of a machine for an allocation, \<^verbatim>\<open>pkg/repository/machine-rack-spreading.go\<close>: the
  candidates are spread across the racks that are least occupied by machines with the requested
  tags and by machines of the project. Every loop over a map visits the keys in an order of its own:
  the argument \<open>ord\<close> has that of each loop, by its number in the run. The random number generator is the
  argument \<open>rand\<close>.
\<close>

section \<open>The code\<close>

definition MaxInt :: nat where
  "MaxInt = 2 ^ 63 - 1"

type_synonym groupedMachines = "(string, Machine list) gomap"

definition groupByRack :: "Machine list \<Rightarrow> groupedMachines" where
  "groupByRack machines = fold (\<lambda>m. map_append (m_RackID m) m) machines []"

definition groupByTags :: "Machine list \<Rightarrow> groupedMachines" where
  "groupByTags machines = fold (\<lambda>m groups. fold (\<lambda>t. map_append t m) (m_Tags m) groups) machines []"

definition getMachines :: "string map_order \<Rightarrow> groupedMachines \<Rightarrow> Machine list" where
  "getMachines ord g = concat (map (map_get [] g) (ord (map_keys g)))"

definition filter_groups :: "groupedMachines \<Rightarrow> string list \<Rightarrow> groupedMachines" where
  "filter_groups g keys =
     fold (\<lambda>k result. case map_of g k of None \<Rightarrow> result | Some ms \<Rightarrow> AList.update k ms result) keys []"

definition complete_racks ::
  "string map_order \<Rightarrow> groupedMachines \<Rightarrow> groupedMachines \<Rightarrow> groupedMachines" where
  "complete_racks ord allRacks occupiedRacks =
     fold (\<lambda>i occ. if has_key occ i then occ else AList.update i [] occ)
       (ord (map_keys allRacks)) occupiedRacks"

definition elect_step ::
  "groupedMachines \<Rightarrow> groupedMachines \<Rightarrow> string \<Rightarrow> string list \<times> nat \<Rightarrow> string list \<times> nat" where
  "elect_step allRacks occupiedRacks i = (\<lambda>(winners, least).
     if \<not> has_key allRacks i then (winners, least)
     else if length (map_get [] occupiedRacks i) < least
     then ([i], length (map_get [] occupiedRacks i))
     else if length (map_get [] occupiedRacks i) = least then (winners @ [i], least)
     else (winners, least))"

definition electRacks ::
  "(nat \<Rightarrow> string map_order) \<Rightarrow> groupedMachines \<Rightarrow> groupedMachines \<Rightarrow> string list" where
  "electRacks ord allRacks occupiedRacks =
     (let occ = complete_racks (ord 0) allRacks occupiedRacks
      in fst (fold (elect_step allRacks occ) (ord 1 (map_keys occ)) ([], MaxInt)))"

definition intersect :: "'a list \<Rightarrow> 'a list \<Rightarrow> 'a list" where
  "intersect a b = filter (\<lambda>x. x \<in> set b) a"

definition spreadAcrossRacks ::
  "(nat \<Rightarrow> string map_order) \<Rightarrow> Machine list \<Rightarrow> Machine list \<Rightarrow> string list \<Rightarrow> Machine list" where
  "spreadAcrossRacks ord allMachines projectMachines tags =
     (let allRacks = groupByRack allMachines;
          projectRacks = groupByRack projectMachines;
          leastOccupiedByProjectRacks = electRacks ord allRacks projectRacks;
          taggedMachines = getMachines (ord 2) (filter_groups (groupByTags projectMachines) tags);
          taggedRacks = groupByRack taggedMachines;
          leastOccupiedByTagsRacks = electRacks (\<lambda>n. ord (n + 3)) allRacks taggedRacks;
          intersection = intersect leastOccupiedByTagsRacks leastOccupiedByProjectRacks;
          c = getMachines (ord 5) (filter_groups allRacks intersection)
      in if length c > 0 then c
         else getMachines (ord 6) (filter_groups allRacks leastOccupiedByTagsRacks))"

definition randomIndex :: "(nat \<Rightarrow> nat) \<Rightarrow> nat \<Rightarrow> nat" where
  "randomIndex rand n = (if n = 0 then 0 else rand n)"

definition selectMachine ::
  "(nat \<Rightarrow> nat) \<Rightarrow> (nat \<Rightarrow> string map_order) \<Rightarrow> Machine list \<Rightarrow> Machine list \<Rightarrow> string list \<Rightarrow> Machine result" where
  "selectMachine rand ord allMachines projectMachines tags =
     (let spreadCandidates = spreadAcrossRacks ord allMachines projectMachines tags
      in if length spreadCandidates = 0 then Inl (Plain ''no machine available'')
         else Inr (spreadCandidates ! randomIndex rand (length spreadCandidates)))"

section \<open>Groups\<close>

lemma groupByRack_keys:
  "set (map_keys (groupByRack ms)) = m_RackID ` set ms"
  "distinct (map_keys (groupByRack ms))"
  by (simp_all add: groupByRack_def map_keys_fold_append)

lemma groupByRack_get: "map_get [] (groupByRack ms) r = filter (\<lambda>m. m_RackID m = r) ms"
  using map_get_fold_append [of m_RackID "\<lambda>m. m" ms "[]" r]
  by (simp add: groupByRack_def)

lemma map_of_groupByRack:
  "map_of (groupByRack ms) r =
     (if r \<in> m_RackID ` set ms then Some (filter (\<lambda>m. m_RackID m = r) ms) else None)"
  using groupByRack_keys(1) [of ms] groupByRack_get [of ms r] has_key_iff [of "groupByRack ms" r]
  by (auto simp: has_key_def map_get_def split: option.splits)

lemma groupByTags_flat:
  "groupByTags ms = fold (\<lambda>x. map_append (snd x) (fst x)) (concat (map (\<lambda>m. map (Pair m) (m_Tags m)) ms)) []"
proof -
  have inner: "fold (\<lambda>x. map_append (snd x) (fst x)) (map (Pair m) ts) g = fold (\<lambda>t. map_append t m) ts g"
    for m :: Machine and ts :: "string list" and g
    by (induction ts arbitrary: g) auto
  have "fold (\<lambda>m groups. fold (\<lambda>t. map_append t m) (m_Tags m) groups) ms g =
      fold (\<lambda>x. map_append (snd x) (fst x)) (concat (map (\<lambda>m. map (Pair m) (m_Tags m)) ms)) g" for g
    by (induction ms arbitrary: g) (simp_all add: inner)
  then show ?thesis by (simp add: groupByTags_def)
qed

lemma filter_groups_lookup:
  "map_of (filter_groups g keys) k = (if k \<in> set keys then map_of g k else None)"
proof -
  have "map_of (fold (\<lambda>k result. case map_of g k of None \<Rightarrow> result | Some ms \<Rightarrow> AList.update k ms result)
      keys r) k = (if k \<in> set keys \<and> map_of g k \<noteq> None then map_of g k else map_of r k)" for r
    by (induction keys arbitrary: r) (auto simp: update_conv' split: option.splits)
  from this [of "[]"] show ?thesis unfolding filter_groups_def by (simp split: option.splits)
qed

lemma filter_groups_keys:
  "set (map_keys (filter_groups g keys)) = set keys \<inter> set (map_keys g)"
  "distinct (map_keys (filter_groups g keys))"
proof -
  show "set (map_keys (filter_groups g keys)) = set keys \<inter> set (map_keys g)"
    using filter_groups_lookup [of g keys] has_key_iff [of g] has_key_iff [of "filter_groups g keys"]
    by (auto simp: has_key_def split: if_splits)
  have "distinct (map_keys (fold (\<lambda>k result. case map_of g k of None \<Rightarrow> result
      | Some ms \<Rightarrow> AList.update k ms result) keys r))" if "distinct (map_keys r)" for r
    using that by (induction keys arbitrary: r) (auto simp: map_keys_update split: option.splits)
  then show "distinct (map_keys (filter_groups g keys))"
    by (simp add: filter_groups_def)
qed

lemma filter_groups_get:
  "k \<in> set keys \<Longrightarrow> map_get [] (filter_groups g keys) k = map_get [] g k"
  by (simp add: map_get_def filter_groups_lookup)

lemma getMachines_filter:
  assumes "is_order ord"
  shows "mset (getMachines ord (filter_groups (groupByRack ms) ks)) =
    mset (filter (\<lambda>m. m_RackID m \<in> set ks) ms)"
proof -
  let ?g = "filter_groups (groupByRack ms) ks"
  let ?ks = "ord (map_keys ?g)"
  have keys: "set ?ks = set ks \<inter> m_RackID ` set ms" "distinct ?ks"
    using assms by (simp_all add: filter_groups_keys groupByRack_keys)
  have "map (map_get [] ?g) ?ks = map (\<lambda>k. filter (\<lambda>m. m_RackID m = k) ms) ?ks"
    using keys by (auto simp: filter_groups_get groupByRack_get)
  then have "mset (getMachines ord ?g) = mset (filter (\<lambda>m. m_RackID m \<in> set ?ks) ms)"
    using mset_concat_groups [OF keys(2), of m_RackID ms] by (simp only: getMachines_def)
  also have "filter (\<lambda>m. m_RackID m \<in> set ?ks) ms = filter (\<lambda>m. m_RackID m \<in> set ks) ms"
    by (rule filter_cong) (auto simp: keys)
  finally show ?thesis .
qed

section \<open>The election\<close>

lemma complete_racks_lookup:
  "is_order ord \<Longrightarrow> map_get [] (complete_racks ord g occ) i = map_get [] occ i"
  "is_order ord \<Longrightarrow> set (map_keys (complete_racks ord g occ)) = set (map_keys g) \<union> set (map_keys occ)"
proof -
  have get: "map_get [] (fold (\<lambda>i occ. if has_key occ i then occ else AList.update i [] occ) ks occ) i =
      map_get [] occ i" for ks and occ :: groupedMachines
    by (induction ks arbitrary: occ)
       (auto simp: map_get_def has_key_iff update_conv' split: option.splits)
  have keys: "set (map_keys (fold (\<lambda>i occ. if has_key occ i then occ else AList.update i [] occ) ks occ)) =
      set ks \<union> set (map_keys occ)" for ks and occ :: groupedMachines
    by (induction ks arbitrary: occ) (auto simp: map_keys_update has_key_def)
  show "is_order ord \<Longrightarrow> map_get [] (complete_racks ord g occ) i = map_get [] occ i"
    by (simp add: complete_racks_def get)
  show "is_order ord \<Longrightarrow> set (map_keys (complete_racks ord g occ)) = set (map_keys g) \<union> set (map_keys occ)"
    by (simp add: complete_racks_def keys)
qed

lemma elect_fold:
  assumes "\<And>i. length (map_get [] occ i) \<le> b"
  shows "\<exists>w least. fold (elect_step g occ) ks ([], b) = (w, least) \<and>
    set w = {i \<in> set ks. has_key g i \<and> length (map_get [] occ i) = least} \<and>
    (\<forall>i\<in>set ks. has_key g i \<longrightarrow> least \<le> length (map_get [] occ i)) \<and> least \<le> b \<and>
    ((\<exists>i\<in>set ks. has_key g i) \<longrightarrow> w \<noteq> []) \<and> (least < b \<longrightarrow> w \<noteq> [])"
proof (induction ks rule: rev_induct)
  case Nil
  then show ?case by simp
next
  case (snoc k ks)
  then obtain w least where ih: "fold (elect_step g occ) ks ([], b) = (w, least)"
    "set w = {i \<in> set ks. has_key g i \<and> length (map_get [] occ i) = least}"
    "\<forall>i\<in>set ks. has_key g i \<longrightarrow> least \<le> length (map_get [] occ i)" "least \<le> b"
    "(\<exists>i\<in>set ks. has_key g i) \<longrightarrow> w \<noteq> []" "least < b \<longrightarrow> w \<noteq> []"
    by blast
  let ?n = "length (map_get [] occ k)"
  consider "\<not> has_key g k" | "has_key g k" "?n < least" | "has_key g k" "?n = least"
    | "has_key g k" "least < ?n" by linarith
  then show ?case
  proof cases
    case 1
    with ih(1) have "fold (elect_step g occ) (ks @ [k]) ([], b) = (w, least)"
      by (simp add: elect_step_def)
    moreover have "set w = {i \<in> set (ks @ [k]). has_key g i \<and> length (map_get [] occ i) = least}"
      using 1 ih(2) by auto
    ultimately show ?thesis using 1 ih by (intro exI [of _ w] exI [of _ least]) auto
  next
    case 2
    with ih(1) have "fold (elect_step g occ) (ks @ [k]) ([], b) = ([k], ?n)"
      by (simp add: elect_step_def)
    moreover have "set [k] = {i \<in> set (ks @ [k]). has_key g i \<and> length (map_get [] occ i) = ?n}"
      using 2 ih(3) by fastforce
    ultimately show ?thesis using 2 ih(3) assms by fastforce
  next
    case 3
    with ih(1) have "fold (elect_step g occ) (ks @ [k]) ([], b) = (w @ [k], least)"
      by (simp add: elect_step_def)
    moreover have "set (w @ [k]) = {i \<in> set (ks @ [k]). has_key g i \<and> length (map_get [] occ i) = least}"
      using 3 ih(2) by auto
    ultimately show ?thesis using 3 ih by (intro exI [of _ "w @ [k]"] exI [of _ least]) auto
  next
    case 4
    with assms [of k] ih have "w \<noteq> []" by simp
    moreover have "fold (elect_step g occ) (ks @ [k]) ([], b) = (w, least)"
      using 4 ih(1) by (simp add: elect_step_def)
    moreover have "set w = {i \<in> set (ks @ [k]). has_key g i \<and> length (map_get [] occ i) = least}"
      using 4 ih(2) by auto
    ultimately show ?thesis using 4 ih by (intro exI [of _ w] exI [of _ least]) auto
  qed
qed

text \<open>The racks with the fewest machines among the racks of the candidates.\<close>

definition least_racks :: "Machine list \<Rightarrow> (string \<Rightarrow> nat) \<Rightarrow> string set" where
  "least_racks ms n = {r \<in> m_RackID ` set ms. \<forall>r'\<in>m_RackID ` set ms. n r \<le> n r'}"

lemma least_racks_nonempty: "ms \<noteq> [] \<Longrightarrow> least_racks ms n \<noteq> {}"
proof -
  assume "ms \<noteq> []"
  then obtain r where "is_arg_min n (\<lambda>r. r \<in> m_RackID ` set ms) r"
    using ex_is_arg_min_if_finite [of "m_RackID ` set ms" n] by auto
  then have "r \<in> least_racks ms n"
    by (auto simp: is_arg_min_linorder least_racks_def)
  then show ?thesis by blast
qed

lemma electRacks_set:
  assumes ord: "\<And>n. is_order (ord n)" and n: "\<And>r. length (filter (\<lambda>m. m_RackID m = r) ps) \<le> MaxInt"
  shows "set (electRacks ord (groupByRack ms) (groupByRack ps)) =
    least_racks ms (\<lambda>r. length (filter (\<lambda>m. m_RackID m = r) ps))"
proof -
  let ?n = "\<lambda>r. length (filter (\<lambda>m. m_RackID m = r) ps)"
  let ?g = "groupByRack ms"
  let ?occ = "complete_racks (ord 0) ?g (groupByRack ps)"
  have get: "map_get [] ?occ r = filter (\<lambda>m. m_RackID m = r) ps" for r
    using ord by (simp add: complete_racks_lookup groupByRack_get)
  have key: "has_key ?g r \<longleftrightarrow> r \<in> m_RackID ` set ms" for r
    by (simp add: has_key_def groupByRack_keys)
  obtain w least where f: "fold (elect_step ?g ?occ) (ord 1 (map_keys ?occ)) ([], MaxInt) = (w, least)"
    and w: "set w = {i \<in> set (ord 1 (map_keys ?occ)). has_key ?g i \<and> length (map_get [] ?occ i) = least}"
    and l: "\<forall>i\<in>set (ord 1 (map_keys ?occ)). has_key ?g i \<longrightarrow> least \<le> length (map_get [] ?occ i)"
    and ne: "(\<exists>i\<in>set (ord 1 (map_keys ?occ)). has_key ?g i) \<longrightarrow> w \<noteq> []"
    using elect_fold [of ?occ MaxInt ?g "ord 1 (map_keys ?occ)"] n get by auto
  have keys: "set (ord 1 (map_keys ?occ)) = m_RackID ` set ms \<union> m_RackID ` set ps"
    using ord by (simp add: complete_racks_lookup groupByRack_keys)
  have w': "set w = {r \<in> m_RackID ` set ms. ?n r = least}"
    unfolding w key get keys by blast
  have l': "\<forall>r\<in>m_RackID ` set ms. least \<le> ?n r"
    using l unfolding key get keys by blast
  have "set w = least_racks ms ?n"
  proof (cases "ms = []")
    case True
    then show ?thesis using w' by (simp add: least_racks_def)
  next
    case False
    then have "w \<noteq> []" using ne unfolding key keys by (cases ms) auto
    then obtain r where "r \<in> m_RackID ` set ms" "?n r = least"
      using w' by (metis (mono_tags, lifting) list.set_intros(1) mem_Collect_eq neq_Nil_conv)
    then show ?thesis
      unfolding w' least_racks_def using l' by (auto intro: antisym)
  qed
  then show ?thesis unfolding electRacks_def Let_def f by simp
qed

section \<open>The tagged machines\<close>

text \<open>How often the machines of a rack carry one of the requested tags.\<close>

definition tag_hits :: "Machine list \<Rightarrow> string list \<Rightarrow> string \<Rightarrow> nat" where
  "tag_hits ps tags r =
     (\<Sum>t\<in>set tags. \<Sum>m\<leftarrow>filter (\<lambda>m. m_RackID m = r) ps. count_list (m_Tags m) t)"

lemma groupByTags_rack_count:
  "length (filter (\<lambda>m. m_RackID m = r) (map_get [] (groupByTags ps) t)) =
     (\<Sum>m\<leftarrow>filter (\<lambda>m. m_RackID m = r) ps. count_list (m_Tags m) t)"
proof -
  have "map_get [] (groupByTags ps) t =
      map fst (filter (\<lambda>x. snd x = t) (concat (map (\<lambda>m. map (Pair m) (m_Tags m)) ps)))"
    unfolding groupByTags_flat by (simp only: map_get_fold_append map_get_Nil append_Nil)
  moreover have pairs: "filter (\<lambda>x. snd x = t) (map (Pair m) ts) = replicate (count_list ts t) (m, t)"
    for m :: Machine and ts
    by (induction ts) auto
  moreover have "length (filter (\<lambda>m. m_RackID m = r) (map fst (filter (\<lambda>x. snd x = t)
      (concat (map (\<lambda>m. map (Pair m) (m_Tags m)) ps))))) =
      (\<Sum>m\<leftarrow>filter (\<lambda>m. m_RackID m = r) ps. count_list (m_Tags m) t)"
    by (induction ps) (auto simp: pairs)
  ultimately show ?thesis by simp
qed

lemma tagged_rack_count:
  assumes "is_order ord"
  shows "length (filter (\<lambda>m. m_RackID m = r)
    (getMachines ord (filter_groups (groupByTags ps) tags))) = tag_hits ps tags r"
proof -
  let ?g = "filter_groups (groupByTags ps) tags"
  let ?ks = "ord (map_keys ?g)"
  let ?f = "\<lambda>t. length (filter (\<lambda>m. m_RackID m = r) (map_get [] (groupByTags ps) t))"
  have keys: "set ?ks = set tags \<inter> set (map_keys (groupByTags ps))" "distinct ?ks"
    using assms by (simp_all add: filter_groups_keys)
  have "length (filter (\<lambda>m. m_RackID m = r) (getMachines ord ?g)) =
      (\<Sum>t\<leftarrow>?ks. length (filter (\<lambda>m. m_RackID m = r) (map_get [] ?g t)))"
    unfolding getMachines_def by (simp add: filter_concat length_concat comp_def)
  also have "\<dots> = (\<Sum>t\<leftarrow>?ks. ?f t)"
    using keys(1) by (intro arg_cong [where f = sum_list] map_cong) (auto simp: filter_groups_get)
  also have "\<dots> = sum ?f (set ?ks)"
    using keys(2) by (simp add: sum_list_distinct_conv_sum_set)
  also have "\<dots> = sum ?f (set tags)"
  proof (rule sum.mono_neutral_left)
    show "\<forall>t\<in>set tags - set ?ks. ?f t = 0"
    proof
      fix t assume "t \<in> set tags - set ?ks"
      then have "\<not> has_key (groupByTags ps) t" using keys(1) by (simp add: has_key_def)
      then show "?f t = 0" by (auto simp: has_key_iff map_get_def split: option.splits)
    qed
  qed (use keys(1) in auto)
  finally show ?thesis by (simp add: tag_hits_def groupByTags_rack_count)
qed

section \<open>Properties\<close>

text \<open>The racks preferred for the tags, and those of them also preferred for the project.\<close>

definition tag_racks :: "Machine list \<Rightarrow> Machine list \<Rightarrow> string list \<Rightarrow> string set" where
  "tag_racks ms ps tags = least_racks ms (tag_hits ps tags)"

definition project_racks :: "Machine list \<Rightarrow> Machine list \<Rightarrow> string set" where
  "project_racks ms ps = least_racks ms (\<lambda>r. length (filter (\<lambda>m. m_RackID m = r) ps))"

definition preferred_racks :: "Machine list \<Rightarrow> Machine list \<Rightarrow> string list \<Rightarrow> string set" where
  "preferred_racks ms ps tags =
     (let both = tag_racks ms ps tags \<inter> project_racks ms ps
      in if both \<noteq> {} then both else tag_racks ms ps tags)"

lemma spread_mset:
  assumes "\<And>n. is_order (ord n)" and "length projectMachines \<le> MaxInt"
    and "\<And>r. tag_hits projectMachines tags r \<le> MaxInt"
  shows "mset (spreadAcrossRacks ord allMachines projectMachines tags) =
    mset (filter (\<lambda>m. m_RackID m \<in> preferred_racks allMachines projectMachines tags) allMachines)"
proof -
  let ?all = "groupByRack allMachines"
  let ?tagged = "getMachines (ord 2) (filter_groups (groupByTags projectMachines) tags)"
  let ?P = "electRacks ord ?all (groupByRack projectMachines)"
  let ?T = "electRacks (\<lambda>n. ord (n + 3)) ?all (groupByRack ?tagged)"
  let ?pick = "\<lambda>R. filter (\<lambda>m. m_RackID m \<in> R) allMachines"
  let ?B = "tag_racks allMachines projectMachines tags \<inter> project_racks allMachines projectMachines"
  have P: "set ?P = project_racks allMachines projectMachines"
    unfolding project_racks_def using assms(1)
    by (rule electRacks_set) (rule order_trans [OF length_filter_le assms(2)])
  have T: "set ?T = tag_racks allMachines projectMachines tags"
    using electRacks_set [of "\<lambda>n. ord (n + 3)" ?tagged allMachines] assms(1) assms(3)
    by (simp add: tagged_rack_count [OF assms(1)] tag_racks_def)
  have both: "set (intersect ?T ?P) = ?B"
    by (auto simp: intersect_def P T)
  have in_racks: "R \<subseteq> m_RackID ` set allMachines \<Longrightarrow> ?pick R = [] \<longleftrightarrow> R = {}" for R
    by (auto simp: filter_empty_conv)
  have sub: "?B \<subseteq> m_RackID ` set allMachines"
    "tag_racks allMachines projectMachines tags \<subseteq> m_RackID ` set allMachines"
    by (auto simp: tag_racks_def least_racks_def)
  let ?c = "getMachines (ord 5) (filter_groups ?all (intersect ?T ?P))"
  have c: "mset ?c = mset (?pick ?B)"
    using getMachines_filter [OF assms(1)] by (simp only: both)
  then have "?c = [] \<longleftrightarrow> ?B = {}"
    using in_racks [OF sub(1)] by (metis mset_zero_iff)
  moreover have rest: "mset (getMachines (ord 6) (filter_groups ?all ?T)) =
      mset (?pick (tag_racks allMachines projectMachines tags))"
    using getMachines_filter [OF assms(1)] by (simp only: T)
  moreover have "spreadAcrossRacks ord allMachines projectMachines tags =
      (if ?c \<noteq> [] then ?c else getMachines (ord 6) (filter_groups ?all ?T))"
    by (simp add: spreadAcrossRacks_def Let_def)
  ultimately have "mset (spreadAcrossRacks ord allMachines projectMachines tags) =
      mset (?pick (if ?B \<noteq> {} then ?B else tag_racks allMachines projectMachines tags))"
    using c by simp
  then show ?thesis by (simp only: preferred_racks_def Let_def)
qed

lemma preferred_racks_usable:
  "ms \<noteq> [] \<Longrightarrow> \<exists>m\<in>set ms. m_RackID m \<in> preferred_racks ms ps tags"
  using least_racks_nonempty [of ms "tag_hits ps tags"]
  by (auto simp: preferred_racks_def tag_racks_def project_racks_def least_racks_def Let_def)

text \<open>
  C6: the candidates are the machines in the racks that are least occupied both by the
  requested tags and by the project; when no rack is, tags have precedence and the candidates are
  the machines in the racks least occupied by the tags. This holds for every order in which each
  loop visits its map, each machine is a candidate once, and there is a candidate when there is a
  machine. The counts are Go ints, so they must not exceed the largest of them.
\<close>

theorem spread_least_occupied:
  assumes "\<And>n. is_order (ord n)" and "length projectMachines \<le> MaxInt"
    and "\<And>r. tag_hits projectMachines tags r \<le> MaxInt"
  shows "mset (spreadAcrossRacks ord allMachines projectMachines tags) =
    mset (filter (\<lambda>m. m_RackID m \<in>
      (let both = tag_racks allMachines projectMachines tags \<inter> project_racks allMachines projectMachines
       in if both \<noteq> {} then both else tag_racks allMachines projectMachines tags)) allMachines) \<and>
    (allMachines \<noteq> [] \<longrightarrow> spreadAcrossRacks ord allMachines projectMachines tags \<noteq> [])"
proof -
  note mset = spread_mset [of ord projectMachines tags allMachines, OF assms]
  have "spreadAcrossRacks ord allMachines projectMachines tags \<noteq> []" if ms: "allMachines \<noteq> []"
  proof -
    have "filter (\<lambda>m. m_RackID m \<in> preferred_racks allMachines projectMachines tags) allMachines \<noteq> []"
      using preferred_racks_usable [OF ms] by (simp add: filter_empty_conv)
    with mset show ?thesis by (metis mset_zero_iff)
  qed
  with mset show ?thesis unfolding preferred_racks_def by blast
qed

definition rack_machine :: "string \<Rightarrow> string \<Rightarrow> string list \<Rightarrow> Machine" where
  "rack_machine i r ts = (machine_with_id i)\<lparr>m_RackID := r, m_Tags := ts\<rparr>"

lemma is_order_id [simp]: "is_order (\<lambda>ks. ks)" and is_order_rev [simp]: "is_order rev"
  by (simp_all add: is_order_def)

theorem spread_least_occupied_witness:
  "spreadAcrossRacks (\<lambda>n. if even n then rev else (\<lambda>ks. ks))
     [rack_machine ''m1'' ''r1'' [], rack_machine ''m2'' ''r2'' [], rack_machine ''m3'' ''r1'' []]
     [rack_machine ''p1'' ''r1'' [''web'']] [''web''] \<noteq> [] \<and>
   map b_ID (spreadAcrossRacks (\<lambda>n. if even n then rev else (\<lambda>ks. ks))
     [rack_machine ''m1'' ''r1'' [], rack_machine ''m2'' ''r2'' [], rack_machine ''m3'' ''r1'' []]
     [rack_machine ''p1'' ''r1'' [''web'']] [''web'']) = [''m2'']"
proof
  show "spreadAcrossRacks (\<lambda>n. if even n then rev else (\<lambda>ks. ks))
     [rack_machine ''m1'' ''r1'' [], rack_machine ''m2'' ''r2'' [], rack_machine ''m3'' ''r1'' []]
     [rack_machine ''p1'' ''r1'' [''web'']] [''web''] \<noteq> []"
    by (rule spread_least_occupied [THEN conjunct2, rule_format])
       (simp_all add: MaxInt_def tag_hits_def rack_machine_def)
qed (simp add: spreadAcrossRacks_def electRacks_def complete_racks_def elect_step_def
    groupByRack_def groupByTags_def filter_groups_def getMachines_def intersect_def
    rack_machine_def machine_with_id_def map_append_def map_get_def map_keys_def MaxInt_def)

text \<open>
  Selecting a machine fails exactly when there are none, and otherwise returns one of the
  given machines in a preferred rack, whatever the random number generator draws.
\<close>

theorem select_machine_total:
  assumes "\<And>n. is_order (ord n)" and "length projectMachines \<le> MaxInt"
    and "\<And>r. tag_hits projectMachines tags r \<le> MaxInt"
    and "\<And>n. 0 < n \<Longrightarrow> rand n < n"
  shows "case selectMachine rand ord allMachines projectMachines tags of
      Inl _ \<Rightarrow> allMachines = []
    | Inr m \<Rightarrow> m \<in> set allMachines \<and> m_RackID m \<in> preferred_racks allMachines projectMachines tags"
proof -
  let ?c = "spreadAcrossRacks ord allMachines projectMachines tags"
  have "set ?c = {m \<in> set allMachines. m_RackID m \<in> preferred_racks allMachines projectMachines tags}"
    using spread_mset [of ord projectMachines tags allMachines, OF assms(1-3)] by (metis mset_eq_setD set_filter)
  moreover from this have "?c = [] \<longleftrightarrow> allMachines = []"
    using preferred_racks_usable [of allMachines projectMachines tags] by (auto simp flip: set_empty)
  moreover have "?c \<noteq> [] \<Longrightarrow> ?c ! randomIndex rand (length ?c) \<in> set ?c"
    using assms(4) by (simp add: randomIndex_def)
  ultimately show ?thesis
    by (auto simp: selectMachine_def Let_def)
qed

theorem select_machine_total_witness:
  "is_ok (selectMachine (\<lambda>n. n - 1) (\<lambda>_. rev) [rack_machine ''m1'' ''r1'' []] [] [''web''])"
  using select_machine_total [of "\<lambda>_. rev" "[]" "[''web'']" "\<lambda>n. n - 1" "[rack_machine ''m1'' ''r1'' []]"]
  by (auto simp: tag_hits_def is_ok_def split: sum.splits)

end
