(* ===== verification/Tokens.thy ===== *)
theory Tokens
  imports Prelude
begin

text \<open>
  The token and role types of the API, the projects and tenants of a user
  (\<^verbatim>\<open>pkg/repository/api/project.go\<close>), and the service permission tables that the API package
  generates. The tables are not part of this repository: the model takes them as an argument.
\<close>

section \<open>Roles\<close>

text \<open>The enumerations of the API; the last constructor is a number outside of the enumeration.\<close>

datatype TokenType =
    TOKEN_TYPE_UNSPECIFIED | TOKEN_TYPE_API | TOKEN_TYPE_USER | TOKEN_TYPE_NUMBER int

datatype AdminRole =
    ADMIN_ROLE_UNSPECIFIED | ADMIN_ROLE_EDITOR | ADMIN_ROLE_VIEWER | ADMIN_ROLE_NUMBER int

datatype InfraRole =
    INFRA_ROLE_UNSPECIFIED | INFRA_ROLE_EDITOR | INFRA_ROLE_VIEWER | INFRA_ROLE_NUMBER int

datatype MachineRole =
    MACHINE_ROLE_UNSPECIFIED | MACHINE_ROLE_EDITOR | MACHINE_ROLE_VIEWER | MACHINE_ROLE_NUMBER int

datatype TenantRole =
    TENANT_ROLE_UNSPECIFIED | TENANT_ROLE_OWNER | TENANT_ROLE_EDITOR | TENANT_ROLE_VIEWER
  | TENANT_ROLE_GUEST | TENANT_ROLE_NUMBER int

datatype ProjectRole =
    PROJECT_ROLE_UNSPECIFIED | PROJECT_ROLE_OWNER | PROJECT_ROLE_EDITOR | PROJECT_ROLE_VIEWER
  | PROJECT_ROLE_NUMBER int

section \<open>Tokens\<close>

record MethodPermission =
  mp_Subject :: string
  mp_Methods :: "string list"

type_synonym Labels = "(string, string) gomap"

record Meta =
  meta_Labels :: "Labels option"
  meta_CreatedAt :: "time option"
  meta_UpdatedAt :: "time option"
  meta_Generation :: "64 word"

definition empty_Meta :: Meta where
  "empty_Meta = \<lparr>meta_Labels = None, meta_CreatedAt = None, meta_UpdatedAt = None, meta_Generation = 0\<rparr>"

record Token =
  t_Uuid :: string
  t_User :: string
  t_Meta :: "Meta option"
  t_Description :: string
  t_Permissions :: "MethodPermission list"
  t_Expires :: "time option"
  t_IssuedAt :: "time option"
  t_TokenType :: TokenType
  t_ProjectRoles :: "(string, ProjectRole) gomap"
  t_TenantRoles :: "(string, TenantRole) gomap"
  t_AdminRole :: "AdminRole option"
  t_InfraRole :: "InfraRole option"
  t_MachineRoles :: "(string, MachineRole) gomap"

definition empty_Token :: Token where
  "empty_Token =
     \<lparr>t_Uuid = '''', t_User = '''', t_Meta = None, t_Description = '''', t_Permissions = [],
      t_Expires = None, t_IssuedAt = None, t_TokenType = TOKEN_TYPE_UNSPECIFIED,
      t_ProjectRoles = [], t_TenantRoles = [], t_AdminRole = None, t_InfraRole = None,
      t_MachineRoles = []\<rparr>"

text \<open>What a lookup of the projects and tenants of a user returns.\<close>

record ProjectsAndTenants =
  pat_ProjectRoles :: "(string, ProjectRole) gomap"
  pat_TenantRoles :: "(string, TenantRole) gomap"

type_synonym ProjectsAndTenantsGetter = "string \<Rightarrow> ProjectsAndTenants result"

section \<open>Service permissions\<close>

type_synonym methods = "(string, bool) gomap"

record ServicePermissions =
  sp_Methods :: methods
  vis_Public :: methods
  vis_Self :: methods
  vis_Admin :: methods
  vis_Infra :: methods
  vis_Machine :: methods
  vis_Project :: methods
  vis_Tenant :: methods
  roles_Admin :: "(AdminRole, methods) gomap"
  roles_Infra :: "(InfraRole, methods) gomap"
  roles_Machine :: "(MachineRole, methods) gomap"
  roles_Tenant :: "(TenantRole, methods) gomap"
  roles_Project :: "(ProjectRole, methods) gomap"

end
