(* ===== verification/Permissions.thy ===== *)
theory Permissions
  imports Tokens
begin

text \<open>
  Authorization, \<^verbatim>\<open>pkg/request\<close>: the permissions of a token, a map from a method to the set of
  subjects (projects, tenants, machines) it may be called on, and the check of a request against
  them. The argument \<open>sp\<close> is the table of service permissions, \<open>patg\<close> the lookup of the
  projects and tenants of a user.
\<close>

definition AnySubject :: string where
  "AnySubject = ''*''"

type_synonym tokenPermissions = "(string, string list) gomap"

definition allow :: "string \<Rightarrow> string \<Rightarrow> tokenPermissions \<Rightarrow> tokenPermissions" where
  "allow method subject tp = AList.update method (List.insert subject (map_get [] tp method)) tp"

definition allow_methods :: "string list \<Rightarrow> string \<Rightarrow> tokenPermissions \<Rightarrow> tokenPermissions" where
  "allow_methods methods subject tp = fold (\<lambda>method. allow method subject) methods tp"

section \<open>Token permissions\<close>

definition public_permissions :: "ServicePermissions \<Rightarrow> tokenPermissions" where
  "public_permissions sp = allow_methods (map_keys (vis_Public sp)) AnySubject []"

text \<open>For a user token the code stores the roles of the database in the token.\<close>

definition normalize_user_token :: "ProjectsAndTenants \<Rightarrow> Token \<Rightarrow> Token" where
  "normalize_user_token pat token =
     (if t_TokenType token = TOKEN_TYPE_USER
      then token\<lparr>t_ProjectRoles := pat_ProjectRoles pat, t_TenantRoles := pat_TenantRoles pat,
                 t_AdminRole := None, t_Permissions := []\<rparr>
      else token)"

definition add_viewer_methods :: "string list \<Rightarrow> tokenPermissions \<Rightarrow> tokenPermissions" where
  "add_viewer_methods methods tp = fold (\<lambda>method. AList.update method [AnySubject]) methods tp"

definition add_infra_role ::
  "ServicePermissions \<Rightarrow> InfraRole option \<Rightarrow> tokenPermissions \<Rightarrow> tokenPermissions" where
  "add_infra_role sp role tp =
     (case role of
        None \<Rightarrow> tp
      | Some r \<Rightarrow> allow_methods (map_keys (map_get [] (roles_Infra sp) r)) AnySubject tp)"

text \<open>The loops over machine, tenant and project roles have the same shape.\<close>

definition add_roles ::
  "('r, methods) gomap \<Rightarrow> (string, 'r) gomap \<Rightarrow> tokenPermissions \<Rightarrow> tokenPermissions" where
  "add_roles role_methods roles tp =
     fold (\<lambda>(subject, role). allow_methods (map_keys (map_get [] role_methods role)) subject) roles tp"

definition add_permissions :: "MethodPermission list \<Rightarrow> tokenPermissions \<Rightarrow> tokenPermissions" where
  "add_permissions permissions tp =
     fold (\<lambda>p. allow_methods (mp_Methods p) (mp_Subject p)) permissions tp"

definition expand_any ::
  "('r, methods) gomap \<Rightarrow> (string, 'r) gomap \<Rightarrow> string \<Rightarrow> string list \<Rightarrow> string list" where
  "expand_any role_methods roles method subjects =
     fold (\<lambda>(s, role) ss. if has_key (map_get [] role_methods role) method then List.insert s ss else ss)
       roles (removeAll AnySubject subjects)"

definition reduce_any ::
  "ServicePermissions \<Rightarrow> ProjectsAndTenants \<Rightarrow> tokenPermissions \<Rightarrow> tokenPermissions" where
  "reduce_any sp pat tp =
     map (\<lambda>(method, subjects).
       (method,
        if AnySubject \<notin> set subjects then subjects
        else
          (let subjects =
             (if map_get False (vis_Project sp) method
              then expand_any (roles_Project sp) (pat_ProjectRoles pat) method subjects else subjects)
           in if map_get False (vis_Tenant sp) method
              then expand_any (roles_Tenant sp) (pat_TenantRoles pat) method subjects else subjects))) tp"

definition restrict_subjects ::
  "ServicePermissions \<Rightarrow> ProjectsAndTenants \<Rightarrow> tokenPermissions \<Rightarrow> tokenPermissions" where
  "restrict_subjects sp pat tp =
     map (\<lambda>(method, subjects).
       (method,
        if map_get False (vis_Project sp) method
        then filter (\<lambda>s. s = AnySubject \<or> s = '''' \<or> has_key (pat_ProjectRoles pat) s) subjects
        else if map_get False (vis_Tenant sp) method
        then filter (\<lambda>s. s = AnySubject \<or> s = '''' \<or> has_key (pat_TenantRoles pat) s) subjects
        else subjects)) tp"

definition add_user_methods :: "ServicePermissions \<Rightarrow> TokenType \<Rightarrow> tokenPermissions \<Rightarrow> tokenPermissions" where
  "add_user_methods sp type tp =
     (if type = TOKEN_TYPE_USER
      then allow_methods (map_keys (vis_Self sp)) AnySubject
             (allow_methods (map_keys (vis_Public sp)) AnySubject tp)
      else tp)"

definition role_permissions ::
  "ServicePermissions \<Rightarrow> string list \<Rightarrow> ProjectsAndTenants \<Rightarrow> Token \<Rightarrow> tokenPermissions" where
  "role_permissions sp viewerMethods pat token =
     (let tp = (if t_AdminRole token = Some ADMIN_ROLE_VIEWER then add_viewer_methods viewerMethods [] else []);
          tp = add_infra_role sp (t_InfraRole token) tp;
          tp = add_roles (roles_Machine sp) (t_MachineRoles token) tp;
          tp = add_permissions (t_Permissions token) tp;
          tp = add_roles (roles_Tenant sp) (t_TenantRoles token) tp;
          tp = add_roles (roles_Project sp) (t_ProjectRoles token) tp;
          tp = (if t_AdminRole token = None then reduce_any sp pat tp else tp);
          tp = restrict_subjects sp pat tp
      in add_user_methods sp (t_TokenType token) tp)"

text \<open>
  \<open>getTokenPermissions\<close> for a token also returns the token, which the code changes through the
  pointer. Without a token there are the public permissions.
\<close>

definition getTokenPermissions ::
  "ServicePermissions \<Rightarrow> string list \<Rightarrow> ProjectsAndTenantsGetter \<Rightarrow> Token \<Rightarrow>
   Token \<times> tokenPermissions result" where
  "getTokenPermissions sp viewerMethods patg token =
     (if t_User token = '''' then (token, Inr (public_permissions sp))
      else
        (case patg (t_User token) of
           Inl err \<Rightarrow> (token, Inl err)
         | Inr pat \<Rightarrow>
             (let token = normalize_user_token pat token
              in (token,
                  case t_AdminRole token of
                    None \<Rightarrow> Inr (role_permissions sp viewerMethods pat token)
                  | Some ADMIN_ROLE_EDITOR \<Rightarrow>
                      Inr (fold (\<lambda>method. AList.update method [AnySubject]) (map_keys (sp_Methods sp)) [])
                  | Some ADMIN_ROLE_VIEWER \<Rightarrow> Inr (role_permissions sp viewerMethods pat token)
                  | Some _ \<Rightarrow> Inl (Plain ''given admin role:%s is not valid'')))))"

definition TokenPermissions ::
  "ServicePermissions \<Rightarrow> string list \<Rightarrow> ProjectsAndTenantsGetter \<Rightarrow> Token option \<Rightarrow>
   tokenPermissions result" where
  "TokenPermissions sp viewerMethods patg token =
     (case token of
        None \<Rightarrow> Inr (public_permissions sp)
      | Some t \<Rightarrow> snd (getTokenPermissions sp viewerMethods patg t))"

definition adminViewerMethods :: "ServicePermissions \<Rightarrow> string list" where
  "adminViewerMethods sp =
     map_keys (map_get [] (roles_Tenant sp) TENANT_ROLE_VIEWER) @
     map_keys (map_get [] (roles_Project sp) PROJECT_ROLE_VIEWER) @
     map_keys (map_get [] (roles_Admin sp) ADMIN_ROLE_VIEWER) @
     map_keys (map_get [] (roles_Infra sp) INFRA_ROLE_VIEWER) @
     map_keys (map_get [] (roles_Machine sp) MACHINE_ROLE_VIEWER) @
     map_keys (vis_Public sp) @ map_keys (vis_Self sp)"

section \<open>Authorization\<close>

text \<open>
  \<open>authorize\<close> checks a method and its subject. The branch for nil permissions is not reachable:
  \<open>getTokenPermissions\<close> returns a map or an error.
\<close>

definition authorize ::
  "ServicePermissions \<Rightarrow> ProjectsAndTenantsGetter \<Rightarrow> Token option \<Rightarrow> string \<Rightarrow> string \<Rightarrow> unit result" where
  "authorize sp patg token method subject =
     (if \<not> has_key (sp_Methods sp) method
      then Inl (PermissionDenied ''requested procedure %q is not known'')
      else
        (case TokenPermissions sp (adminViewerMethods sp) patg token of
           Inl err \<Rightarrow> Inl (Internal ''%w'')
         | Inr permissions \<Rightarrow>
             (case map_of permissions method of
                None \<Rightarrow> Inl (PermissionDenied
                  ''access to:%q is not allowed because it is not part of the token permissions'')
              | Some subjects \<Rightarrow>
                  if AnySubject \<in> set subjects then Inr ()
                  else if subject \<notin> set subjects
                  then Inl (PermissionDenied
                    ''access to:%q with subject:%q is not allowed because it is not part of the token permissions, allowed subjects are:%q'')
                  else Inr ())))"

text \<open>
  \<open>Authorize\<close> determines the subject of a request. The scope of a request and the subject it
  carries come from the API package: the argument tells for each of the scopes project, tenant
  and machine, in the order of the code, whether the request has it and the subject found in it.
\<close>

record request_scopes =
  rs_Procedure :: string
  rs_IsProjectScope :: bool
  rs_Project :: "string option"
  rs_IsTenantScope :: bool
  rs_Tenant :: "string option"
  rs_IsMachineScope :: bool
  rs_Machine :: "string option"

definition scope_subject :: "bool \<Rightarrow> string option \<Rightarrow> go_error \<Rightarrow> string \<Rightarrow> string result" where
  "scope_subject scoped found err subject =
     (if scoped then (case found of Some s \<Rightarrow> Inr s | None \<Rightarrow> Inl err) else Inr subject)"

definition request_subject :: "request_scopes \<Rightarrow> string result" where
  "request_subject req =
     (case scope_subject (rs_IsProjectScope req) (rs_Project req)
             (InvalidArgument ''no project found in project scoped request'') '''' of
        Inl err \<Rightarrow> Inl err
      | Inr subject \<Rightarrow>
          (case scope_subject (rs_IsTenantScope req) (rs_Tenant req)
                  (InvalidArgument ''no tenant found in tenant scoped request'') subject of
             Inl err \<Rightarrow> Inl err
           | Inr subject \<Rightarrow>
               scope_subject (rs_IsMachineScope req) (rs_Machine req)
                 (InvalidArgument ''no machine uuid found in machine scoped request'') subject))"

definition Authorize ::
  "ServicePermissions \<Rightarrow> ProjectsAndTenantsGetter \<Rightarrow> Token option \<Rightarrow> request_scopes \<Rightarrow> unit result" where
  "Authorize sp patg token req =
     (case request_subject req of
        Inl err \<Rightarrow> Inl err
      | Inr subject \<Rightarrow> authorize sp patg token (rs_Procedure req) subject)"

end
