(* ===== verification/PermissionsProps.thy ===== *)
theory PermissionsProps
  imports Permissions
begin

text \<open>
  Properties of the authorization: which subjects a token may call a method on, in terms of its
  roles, its permissions and the memberships of its user.
\<close>

section \<open>Subjects of a method\<close>

definition allows :: "tokenPermissions \<Rightarrow> string \<Rightarrow> string \<Rightarrow> bool" where
  "allows tp m s = (s \<in> set (map_get [] tp m))"

lemma allows_Nil [simp]: "\<not> allows [] m s"
  by (simp add: allows_def)

lemma allows_allow [simp]: "allows (allow m' s' tp) m s \<longleftrightarrow> m = m' \<and> s = s' \<or> allows tp m s"
  by (auto simp: allows_def allow_def)

lemma allows_allow_methods [simp]:
  "allows (allow_methods ms s' tp) m s \<longleftrightarrow> m \<in> set ms \<and> s = s' \<or> allows tp m s"
proof -
  have "allows (fold (\<lambda>m. allow m s') ms tp) m s \<longleftrightarrow> m \<in> set ms \<and> s = s' \<or> allows tp m s" for tp
    by (induction ms arbitrary: tp) auto
  then show ?thesis by (simp add: allow_methods_def)
qed

lemma allows_add_roles [simp]:
  "allows (add_roles rm roles tp) m s \<longleftrightarrow>
     (\<exists>r. (s, r) \<in> set roles \<and> has_key (map_get [] rm r) m) \<or> allows tp m s"
proof -
  have "allows (fold (\<lambda>(s', r). allow_methods (map_keys (map_get [] rm r)) s') roles tp) m s \<longleftrightarrow>
      (\<exists>r. (s, r) \<in> set roles \<and> m \<in> set (map_keys (map_get [] rm r))) \<or> allows tp m s" for tp
    by (induction roles arbitrary: tp) auto
  then show ?thesis by (simp add: add_roles_def has_key_def)
qed

lemma allows_add_permissions [simp]:
  "allows (add_permissions ps tp) m s \<longleftrightarrow>
     (\<exists>p\<in>set ps. s = mp_Subject p \<and> m \<in> set (mp_Methods p)) \<or> allows tp m s"
proof -
  have "allows (fold (\<lambda>p. allow_methods (mp_Methods p) (mp_Subject p)) ps tp) m s \<longleftrightarrow>
      (\<exists>p\<in>set ps. s = mp_Subject p \<and> m \<in> set (mp_Methods p)) \<or> allows tp m s" for tp
    by (induction ps arbitrary: tp) auto
  then show ?thesis by (simp add: add_permissions_def)
qed

lemma allows_add_infra_role [simp]:
  "allows (add_infra_role sp role tp) m s \<longleftrightarrow>
     s = AnySubject \<and> (\<exists>r. role = Some r \<and> has_key (map_get [] (roles_Infra sp) r) m) \<or> allows tp m s"
  by (auto simp: add_infra_role_def has_key_def split: option.splits)

lemma fold_update_any_get:
  "map_get [] (fold (\<lambda>m. AList.update m [AnySubject]) ms tp) m =
     (if m \<in> set ms then [AnySubject] else map_get [] tp m)"
  by (induction ms arbitrary: tp) auto

lemma allows_add_viewer_methods [simp]:
  "allows (add_viewer_methods ms []) m s \<longleftrightarrow> s = AnySubject \<and> m \<in> set ms"
  by (simp add: allows_def add_viewer_methods_def fold_update_any_get)

lemma set_expand_any:
  "set (expand_any rm roles m ss) =
     (set ss - {AnySubject}) \<union> {s. \<exists>r. (s, r) \<in> set roles \<and> has_key (map_get [] rm r) m}"
proof -
  have "set (fold (\<lambda>(s, r) ss. if has_key (map_get [] rm r) m then List.insert s ss else ss) roles ss) =
      set ss \<union> {s. \<exists>r. (s, r) \<in> set roles \<and> has_key (map_get [] rm r) m}" for ss
    by (induction roles arbitrary: ss) (auto split: if_splits)
  then show ?thesis by (simp add: expand_any_def)
qed

lemma map_get_map_entries:
  "f m [] = [] \<Longrightarrow> map_get [] (map (\<lambda>(k, v). (k, f k v)) tp) m = f m (map_get [] tp m)"
  by (induction tp) (auto simp: map_get_def split: option.splits)

text \<open>Whether a role or permission of the token gives a method on a subject.\<close>

definition granted :: "ServicePermissions \<Rightarrow> string list \<Rightarrow> Token \<Rightarrow> string \<Rightarrow> string \<Rightarrow> bool" where
  "granted sp vm t m s \<longleftrightarrow>
     (s = AnySubject \<and> t_AdminRole t = Some ADMIN_ROLE_VIEWER \<and> m \<in> set vm) \<or>
     (s = AnySubject \<and> (\<exists>r. t_InfraRole t = Some r \<and> has_key (map_get [] (roles_Infra sp) r) m)) \<or>
     (\<exists>r. (s, r) \<in> set (t_MachineRoles t) \<and> has_key (map_get [] (roles_Machine sp) r) m) \<or>
     (\<exists>p\<in>set (t_Permissions t). s = mp_Subject p \<and> m \<in> set (mp_Methods p)) \<or>
     (\<exists>r. (s, r) \<in> set (t_TenantRoles t) \<and> has_key (map_get [] (roles_Tenant sp) r) m) \<or>
     (\<exists>r. (s, r) \<in> set (t_ProjectRoles t) \<and> has_key (map_get [] (roles_Project sp) r) m)"

definition granted_permissions :: "ServicePermissions \<Rightarrow> string list \<Rightarrow> Token \<Rightarrow> tokenPermissions" where
  "granted_permissions sp vm t =
     add_roles (roles_Project sp) (t_ProjectRoles t)
       (add_roles (roles_Tenant sp) (t_TenantRoles t)
         (add_permissions (t_Permissions t)
           (add_roles (roles_Machine sp) (t_MachineRoles t)
             (add_infra_role sp (t_InfraRole t)
               (if t_AdminRole t = Some ADMIN_ROLE_VIEWER then add_viewer_methods vm [] else [])))))"

lemma allows_granted: "allows (granted_permissions sp vm t) m s \<longleftrightarrow> granted sp vm t m s"
  by (auto simp: granted_permissions_def granted_def)

lemma role_permissions_eq:
  "role_permissions sp vm pat t =
     add_user_methods sp (t_TokenType t) (restrict_subjects sp pat
       (if t_AdminRole t = None then reduce_any sp pat (granted_permissions sp vm t)
        else granted_permissions sp vm t))"
  by (simp add: role_permissions_def granted_permissions_def Let_def)

lemma allows_add_user_methods:
  "allows (add_user_methods sp ty tp) m s \<longleftrightarrow>
     ty = TOKEN_TYPE_USER \<and> s = AnySubject \<and> (has_key (vis_Public sp) m \<or> has_key (vis_Self sp) m) \<or>
     allows tp m s"
  by (auto simp: add_user_methods_def has_key_def)

abbreviation project_method :: "ServicePermissions \<Rightarrow> string \<Rightarrow> bool" where
  "project_method sp m \<equiv> map_get False (vis_Project sp) m"

abbreviation tenant_method :: "ServicePermissions \<Rightarrow> string \<Rightarrow> bool" where
  "tenant_method sp m \<equiv> map_get False (vis_Tenant sp) m"

lemma allows_restrict_subjects:
  "allows (restrict_subjects sp pat tp) m s \<longleftrightarrow> allows tp m s \<and>
     (project_method sp m \<longrightarrow> s = AnySubject \<or> s = '''' \<or> has_key (pat_ProjectRoles pat) s) \<and>
     (\<not> project_method sp m \<and> tenant_method sp m \<longrightarrow>
        s = AnySubject \<or> s = '''' \<or> has_key (pat_TenantRoles pat) s)"
  unfolding allows_def restrict_subjects_def
  by (subst map_get_map_entries) auto

lemma allows_reduce_any:
  "allows (reduce_any sp pat tp) m s \<longleftrightarrow>
     (if \<not> allows tp m AnySubject \<or> \<not> project_method sp m \<and> \<not> tenant_method sp m then allows tp m s
      else (if project_method sp m \<and> tenant_method sp m
            then s \<noteq> AnySubject \<and> (allows tp m s \<or>
                   (\<exists>r. (s, r) \<in> set (pat_ProjectRoles pat) \<and> has_key (map_get [] (roles_Project sp) r) m)) \<or>
                 (\<exists>r. (s, r) \<in> set (pat_TenantRoles pat) \<and> has_key (map_get [] (roles_Tenant sp) r) m)
            else s \<noteq> AnySubject \<and> allows tp m s \<or>
              (if project_method sp m
               then \<exists>r. (s, r) \<in> set (pat_ProjectRoles pat) \<and> has_key (map_get [] (roles_Project sp) r) m
               else \<exists>r. (s, r) \<in> set (pat_TenantRoles pat) \<and> has_key (map_get [] (roles_Tenant sp) r) m)))"
  unfolding allows_def reduce_any_def
  by (subst map_get_map_entries) (auto simp: set_expand_any Let_def)

section \<open>Memberships\<close>

text \<open>A method that belongs to projects or to tenants, and the memberships it depends on.\<close>

definition scoped_method :: "ServicePermissions \<Rightarrow> string \<Rightarrow> bool" where
  "scoped_method sp m = (project_method sp m \<noteq> tenant_method sp m)"

definition member_of :: "ServicePermissions \<Rightarrow> ProjectsAndTenants \<Rightarrow> string \<Rightarrow> string \<Rightarrow> bool" where
  "member_of sp pat m s =
     (if project_method sp m then has_key (pat_ProjectRoles pat) s else has_key (pat_TenantRoles pat) s)"

definition membership_allows ::
  "ServicePermissions \<Rightarrow> ProjectsAndTenants \<Rightarrow> string \<Rightarrow> string \<Rightarrow> bool" where
  "membership_allows sp pat m s =
     (if project_method sp m
      then \<exists>r. (s, r) \<in> set (pat_ProjectRoles pat) \<and> has_key (map_get [] (roles_Project sp) r) m
      else \<exists>r. (s, r) \<in> set (pat_TenantRoles pat) \<and> has_key (map_get [] (roles_Tenant sp) r) m)"

definition open_to_users :: "ServicePermissions \<Rightarrow> string \<Rightarrow> bool" where
  "open_to_users sp m = (has_key (vis_Public sp) m \<or> has_key (vis_Self sp) m)"

lemma membership_allows_member: "membership_allows sp pat m s \<Longrightarrow> member_of sp pat m s"
  by (auto simp: membership_allows_def member_of_def intro: has_keyI split: if_splits)

lemma allows_role_permissions:
  assumes "scoped_method sp m"
  shows "allows (role_permissions sp vm pat t) m s \<longleftrightarrow>
    t_TokenType t = TOKEN_TYPE_USER \<and> s = AnySubject \<and> open_to_users sp m \<or>
    (if t_AdminRole t = None
     then s \<noteq> AnySubject \<and> granted sp vm t m s \<and> (s = '''' \<or> member_of sp pat m s) \<or>
       granted sp vm t m AnySubject \<and> membership_allows sp pat m s
     else granted sp vm t m s \<and> (s = AnySubject \<or> s = '''' \<or> member_of sp pat m s))"
proof -
  let ?g = "granted_permissions sp vm t"
  have reduced: "allows (reduce_any sp pat ?g) m s \<longleftrightarrow>
      (if granted sp vm t m AnySubject then s \<noteq> AnySubject \<and> granted sp vm t m s \<or> membership_allows sp pat m s
       else granted sp vm t m s)"
    using assms by (auto simp: allows_reduce_any allows_granted scoped_method_def membership_allows_def)
  have restricted: "allows (restrict_subjects sp pat tp) m s \<longleftrightarrow>
      allows tp m s \<and> (s = AnySubject \<or> s = '''' \<or> member_of sp pat m s)" for tp
    using assms by (auto simp: allows_restrict_subjects scoped_method_def member_of_def)
  show ?thesis
    unfolding role_permissions_eq allows_add_user_methods restricted
    using reduced membership_allows_member [of sp pat m s]
    by (auto simp: allows_granted open_to_users_def split: if_splits)
qed

lemma authorize_ok_iff:
  "authorize sp patg token m s = Inr () \<longleftrightarrow>
     has_key (sp_Methods sp) m \<and>
     (\<exists>tp. TokenPermissions sp (adminViewerMethods sp) patg token = Inr tp \<and>
       (allows tp m AnySubject \<or> allows tp m s))"
  by (auto simp: authorize_def allows_def map_get_def split: sum.splits option.splits)

lemma getTokenPermissions_user:
  assumes "t_User t \<noteq> ''''" and "patg (t_User t) = Inr pat"
    and "t_AdminRole (normalize_user_token pat t) = None"
  shows "getTokenPermissions sp vm patg t =
    (normalize_user_token pat t, Inr (role_permissions sp vm pat (normalize_user_token pat t)))"
  using assms by (simp add: getTokenPermissions_def Let_def)

lemma normalize_user_token_type [simp]: "t_TokenType (normalize_user_token pat t) = t_TokenType t"
  by (simp add: normalize_user_token_def)

section \<open>Properties\<close>

text \<open>Small tables and memberships, for the concrete instances.\<close>

definition example_sp :: ServicePermissions where
  "example_sp =
     (let m = (\<lambda>names. map (\<lambda>n. (n, True)) names)
      in \<lparr>sp_Methods = m [''/Project/Get'', ''/Project/Delete'', ''/Tenant/Get'', ''/Version/Get'',
            ''/Token/Create'', ''/Event/Send''],
          vis_Public = m [''/Version/Get''], vis_Self = m [''/Token/Create''], vis_Admin = [],
          vis_Infra = [], vis_Machine = m [''/Event/Send''],
          vis_Project = m [''/Project/Get'', ''/Project/Delete''], vis_Tenant = m [''/Tenant/Get''],
          roles_Admin = [], roles_Infra = [],
          roles_Machine = [(MACHINE_ROLE_EDITOR, m [''/Event/Send''])],
          roles_Tenant = [(TENANT_ROLE_OWNER, m [''/Tenant/Get''])],
          roles_Project = [(PROJECT_ROLE_OWNER, m [''/Project/Get'', ''/Project/Delete'']),
            (PROJECT_ROLE_VIEWER, m [''/Project/Get''])]\<rparr>)"

definition example_pat :: ProjectsAndTenants where
  "example_pat =
     \<lparr>pat_ProjectRoles = [(''p1'', PROJECT_ROLE_OWNER), (''p2'', PROJECT_ROLE_VIEWER)],
      pat_TenantRoles = [(''alice'', TENANT_ROLE_OWNER)]\<rparr>"

definition example_user_token :: Token where
  "example_user_token = empty_Token\<lparr>t_User := ''alice'', t_TokenType := TOKEN_TYPE_USER\<rparr>"

text \<open>An API token with a wildcard permission.\<close>

definition example_api_token :: Token where
  "example_api_token = empty_Token\<lparr>t_User := ''alice'', t_TokenType := TOKEN_TYPE_API,
     t_Permissions := [\<lparr>mp_Subject = ''*'', mp_Methods = [''/Project/Get'']\<rparr>]\<rparr>"

text \<open>
  C14: isolation of projects and tenants. When a request of a token without an admin role is
  authorized for a method of projects (or of tenants) on a subject, then the user of the token is
  a member of that project (tenant) according to the database, whatever roles, permissions and
  wildcards the token carries. Methods open to every user are excepted, and so is the empty
  subject; no project or tenant may be named by the wildcard.
\<close>

theorem membership_required:
  assumes "authorize sp patg (Some t) m s = Inr ()"
    and "t_User t \<noteq> ''''" and "patg (t_User t) = Inr pat"
    and "t_TokenType t = TOKEN_TYPE_USER \<or> t_AdminRole t = None"
    and "scoped_method sp m" and "\<not> open_to_users sp m"
    and "s \<noteq> ''''" and "\<not> member_of sp pat m AnySubject"
  shows "member_of sp pat m s"
proof -
  have "t_AdminRole (normalize_user_token pat t) = None"
    using assms(4) by (auto simp: normalize_user_token_def)
  with assms show ?thesis
    using membership_allows_member [of sp pat m]
    by (auto simp: authorize_ok_iff TokenPermissions_def getTokenPermissions_user allows_role_permissions)
qed

theorem membership_required_witness:
  "authorize example_sp (\<lambda>_. Inr example_pat) (Some example_api_token) ''/Project/Get'' ''p2'' = Inr () \<and>
   member_of example_sp example_pat ''/Project/Get'' ''p2''"
proof -
  have auth: "authorize example_sp (\<lambda>_. Inr example_pat) (Some example_api_token) ''/Project/Get'' ''p2'' = Inr ()"
    by code_simp
  have "scoped_method example_sp ''/Project/Get''" "\<not> open_to_users example_sp ''/Project/Get''"
    "\<not> member_of example_sp example_pat ''/Project/Get'' AnySubject"
    by code_simp+
  with membership_required [OF auth, of example_pat] auth show ?thesis
    by (simp add: example_api_token_def empty_Token_def)
qed

text \<open>
  C15: a user token is authorized for a method of projects (tenants) exactly when the role its
  user has in that project (tenant) now contains the method, provided the tables are consistent:
  no role of another kind contains the method. The token has no roles for machines; methods open to every
  user are excepted, and no project or tenant is named by the wildcard.
\<close>

theorem user_token_follows_memberships:
  assumes "t_User t \<noteq> ''''" and "patg (t_User t) = Inr pat"
    and "t_TokenType t = TOKEN_TYPE_USER" and "t_MachineRoles t = []"
    and "scoped_method sp m" and "\<not> open_to_users sp m"
    and "s \<noteq> AnySubject" and "\<not> member_of sp pat m AnySubject"
    and "\<And>r. project_method sp m \<Longrightarrow> \<not> has_key (map_get [] (roles_Tenant sp) r) m"
    and "\<And>r. tenant_method sp m \<Longrightarrow> \<not> has_key (map_get [] (roles_Project sp) r) m"
  shows "authorize sp patg (Some t) m s = Inr () \<longleftrightarrow>
    has_key (sp_Methods sp) m \<and> membership_allows sp pat m s"
proof -
  let ?t = "normalize_user_token pat t"
  let ?vm = "adminViewerMethods sp"
  have t: "t_AdminRole ?t = None" "t_Permissions ?t = []" "t_MachineRoles ?t = []"
    "t_ProjectRoles ?t = pat_ProjectRoles pat" "t_TenantRoles ?t = pat_TenantRoles pat"
    using assms(3,4) by (simp_all add: normalize_user_token_def)
  have g: "granted sp ?vm ?t m s \<longleftrightarrow> membership_allows sp pat m s"
    using assms(5,7,9,10) by (auto simp: granted_def t membership_allows_def scoped_method_def)
  have any: "\<not> membership_allows sp pat m AnySubject"
    using assms(8) membership_allows_member by blast
  have "allows (role_permissions sp ?vm pat ?t) m AnySubject \<longleftrightarrow> False"
    using any assms(6) by (simp add: allows_role_permissions [OF assms(5)] t)
  moreover have "allows (role_permissions sp ?vm pat ?t) m s \<longleftrightarrow> membership_allows sp pat m s"
    using assms(6,7) g membership_allows_member [of sp pat m s]
    by (auto simp: allows_role_permissions [OF assms(5)] t)
  ultimately show ?thesis
    using assms(1,2) t(1) by (simp add: authorize_ok_iff TokenPermissions_def getTokenPermissions_user)
qed

theorem user_token_follows_memberships_witness:
  "authorize example_sp (\<lambda>_. Inr example_pat) (Some example_user_token) ''/Project/Delete'' ''p1'' = Inr () \<and>
   authorize example_sp (\<lambda>_. Inr example_pat) (Some example_user_token) ''/Project/Delete'' ''p2'' \<noteq> Inr ()"
proof -
  let ?m = "''/Project/Delete''"
  have facts: "scoped_method example_sp ?m" "\<not> open_to_users example_sp ?m"
    "\<not> member_of example_sp example_pat ?m AnySubject"
    by code_simp+
  have tables: "\<not> has_key (map_get [] (roles_Tenant example_sp) r) ?m" "\<not> tenant_method example_sp ?m" for r
    by (simp_all add: example_sp_def map_get_def)
  have "authorize example_sp (\<lambda>_. Inr example_pat) (Some example_user_token) ?m s = Inr () \<longleftrightarrow>
      has_key (sp_Methods example_sp) ?m \<and> membership_allows example_sp example_pat ?m s"
    if "s \<noteq> AnySubject" for s
    by (rule user_token_follows_memberships)
       (use that facts tables in \<open>simp_all add: example_user_token_def empty_Token_def\<close>)
  from this [of "''p1''"] this [of "''p2''"] show ?thesis
    by (simp add: AnySubject_def membership_allows_def example_sp_def example_pat_def map_get_def)
qed

text \<open>
  An API token with the admin role editor is authorized for a method on any subject exactly
  when the method is known, and a request without a token exactly when it is known and public.
\<close>

theorem admin_editor_and_anonymous:
  assumes "t_User t \<noteq> ''''" and "is_ok (patg (t_User t))"
    and "t_TokenType t \<noteq> TOKEN_TYPE_USER" and "t_AdminRole t = Some ADMIN_ROLE_EDITOR"
  shows "(authorize sp patg (Some t) m s = Inr () \<longleftrightarrow> has_key (sp_Methods sp) m) \<and>
    (authorize sp patg None m s = Inr () \<longleftrightarrow> has_key (sp_Methods sp) m \<and> has_key (vis_Public sp) m)"
proof
  from assms(2) obtain pat where "patg (t_User t) = Inr pat" by (auto simp: is_ok_iff)
  then show "authorize sp patg (Some t) m s = Inr () \<longleftrightarrow> has_key (sp_Methods sp) m"
    using assms by (auto simp: authorize_ok_iff TokenPermissions_def getTokenPermissions_def normalize_user_token_def
        allows_def fold_update_any_get has_key_def)
  show "authorize sp patg None m s = Inr () \<longleftrightarrow> has_key (sp_Methods sp) m \<and> has_key (vis_Public sp) m"
    by (auto simp: authorize_ok_iff TokenPermissions_def getTokenPermissions_def public_permissions_def has_key_def)
qed

theorem admin_editor_and_anonymous_witness:
  "authorize example_sp (\<lambda>_. Inr example_pat)
     (Some (empty_Token\<lparr>t_User := ''root'', t_AdminRole := Some ADMIN_ROLE_EDITOR\<rparr>))
     ''/Project/Delete'' ''p7'' = Inr () \<and>
   authorize example_sp (\<lambda>_. Inr example_pat) None ''/Project/Delete'' ''p7'' \<noteq> Inr ()"
  using admin_editor_and_anonymous [of "empty_Token\<lparr>t_User := ''root'', t_AdminRole := Some ADMIN_ROLE_EDITOR\<rparr>"
      "\<lambda>_. Inr example_pat" example_sp "''/Project/Delete''" "''p7''"]
  by (simp add: empty_Token_def example_sp_def)

end
