(* ===== verification/Labels.thy ===== *)
theory Labels
  imports Tokens
begin

text \<open>
  Labels and tags: the updates of \<^verbatim>\<open>pkg/repository/common.go\<close> and the tag lists of
  \<^verbatim>\<open>pkg/tags/tags.go\<close>. A tag \<open>key=value\<close> is a label, a tag without \<open>=\<close> a pure label. A nil map
  reads as an empty one.
\<close>

section \<open>Strings\<close>

text \<open>\<open>strings.Cut\<close> with the separator \<open>=\<close>: the text before and after it, and whether it occurs.\<close>

fun Cut :: "string \<Rightarrow> string \<times> string \<times> bool" where
  "Cut [] = ('''', '''', False)"
| "Cut (c # cs) =
     (if c = CHR ''='' then ('''', cs, True)
      else (let (before, after, found) = Cut cs in (c # before, after, found)))"

lemma Cut_eq:
  "Cut l = (if CHR ''='' \<in> set l
     then (takeWhile (\<lambda>c. c \<noteq> CHR ''='') l, tl (dropWhile (\<lambda>c. c \<noteq> CHR ''='') l), True)
     else (l, '''', False))"
  by (induction l) auto

lemma Cut_tag [simp]: "CHR ''='' \<notin> set k \<Longrightarrow> Cut (k @ CHR ''='' # v) = (k, v, True)"
  by (induction k) auto

section \<open>Label updates\<close>

record LabelPatch =
  lp_Remove :: "string list"
  lp_Update :: "Labels option"

datatype LabelStrategy =
    StrategyPatch "LabelPatch option" | StrategyReplace "Labels option" | StrategyNone

definition label_tag :: "string \<times> string \<Rightarrow> string" where
  "label_tag kv = fst kv @ ''='' @ snd kv"

fun split_tags :: "string list \<Rightarrow> Labels \<times> string list \<Rightarrow> Labels \<times> string list" where
  "split_tags [] acc = acc"
| "split_tags (l # ls) (tagMap, pureLabels) =
     (let (key, value, ok) = Cut l
      in split_tags ls (if ok then (AList.update key value tagMap, pureLabels)
                        else (tagMap, pureLabels @ [l])))"

definition remove_tag :: "string \<Rightarrow> Labels \<times> string list \<Rightarrow> Labels \<times> string list" where
  "remove_tag r = (\<lambda>(tagMap, pureLabels). (AList.delete r tagMap, filter (\<lambda>l. l \<noteq> r) pureLabels))"

definition set_tag :: "string \<times> string \<Rightarrow> Labels \<times> string list \<Rightarrow> Labels \<times> string list" where
  "set_tag kv = (\<lambda>(tagMap, pureLabels).
     (AList.update (fst kv) (snd kv) tagMap,
      if fst kv \<in> set pureLabels then filter (\<lambda>l. l \<noteq> fst kv) pureLabels else pureLabels))"

definition patch_tags :: "LabelPatch \<Rightarrow> string list \<Rightarrow> Labels \<times> string list" where
  "patch_tags p existingTags =
     (let acc = split_tags existingTags ([], []);
          acc = fold remove_tag (lp_Remove p) acc
      in case lp_Update p of None \<Rightarrow> acc | Some labels \<Rightarrow> fold set_tag labels acc)"

definition updateLabelsOnSlice :: "LabelStrategy option \<Rightarrow> string list \<Rightarrow> string list" where
  "updateLabelsOnSlice rq existingTags =
     (case rq of
        None \<Rightarrow> existingTags
      | Some (StrategyPatch None) \<Rightarrow> existingTags
      | Some (StrategyPatch (Some p)) \<Rightarrow>
          (let (tagMap, pureLabels) = patch_tags p existingTags
           in sort (map label_tag tagMap @ pureLabels))
      | Some (StrategyReplace None) \<Rightarrow> existingTags
      | Some (StrategyReplace (Some labels)) \<Rightarrow> sort (map label_tag labels)
      | Some StrategyNone \<Rightarrow> existingTags)"

definition maps_Copy :: "Labels \<Rightarrow> Labels \<Rightarrow> Labels" where
  "maps_Copy dst src = fold (\<lambda>(k, v). AList.update k v) src dst"

definition updateLabelsOnMap :: "LabelStrategy option \<Rightarrow> Labels \<Rightarrow> Labels" where
  "updateLabelsOnMap rq existingLabels =
     (case rq of
        None \<Rightarrow> existingLabels
      | Some (StrategyPatch None) \<Rightarrow> existingLabels
      | Some (StrategyPatch (Some p)) \<Rightarrow>
          (let result = maps_Copy [] existingLabels;
               result = fold AList.delete (lp_Remove p) result
           in case lp_Update p of None \<Rightarrow> result | Some labels \<Rightarrow> maps_Copy result labels)
      | Some (StrategyReplace None) \<Rightarrow> existingLabels
      | Some (StrategyReplace (Some labels)) \<Rightarrow> maps_Copy [] labels
      | Some StrategyNone \<Rightarrow> existingLabels)"

section \<open>Tags\<close>

definition NewTag :: "string \<Rightarrow> string \<Rightarrow> string" where
  "NewTag key value = key @ ''='' @ value"

definition Has :: "string list \<Rightarrow> string \<Rightarrow> bool" where
  "Has tags tag = (tag \<in> set tags)"

fun HasPrefix_string :: "string \<Rightarrow> string \<Rightarrow> bool" where
  "HasPrefix_string s [] = True"
| "HasPrefix_string [] (p # ps) = False"
| "HasPrefix_string (c # cs) (p # ps) = (c = p \<and> HasPrefix_string cs ps)"

definition HasPrefix :: "string list \<Rightarrow> string \<Rightarrow> bool" where
  "HasPrefix tags p = (find (\<lambda>t. HasPrefix_string t p) tags \<noteq> None)"

definition Add :: "string list \<Rightarrow> string \<Rightarrow> string list" where
  "Add tags tag = tags @ [tag]"

definition Remove :: "string list \<Rightarrow> string \<Rightarrow> string list \<times> bool" where
  "Remove tags tag =
     (let removed = (tag \<in> set tags)
      in (if removed then filter (\<lambda>t. t \<noteq> tag) tags else tags, removed))"

definition Values :: "string list \<Rightarrow> string \<Rightarrow> string list" where
  "Values tags p = map (drop (length p)) (filter (\<lambda>t. HasPrefix_string t p) tags)"

definition Unique :: "string list \<Rightarrow> string list" where
  "Unique tags = sort (lo_Uniq tags)"

definition ToLabels :: "string list \<Rightarrow> Labels" where
  "ToLabels tags =
     fold (\<lambda>l result. let (key, value, _) = Cut l in AList.update key value result) tags []"

definition ToTags :: "Labels \<Rightarrow> string list" where
  "ToTags labels = map label_tag labels"

section \<open>Maps\<close>

lemma map_of_maps_Copy:
  "map_of (maps_Copy dst src) k =
     (case map_of (rev src) k of None \<Rightarrow> map_of dst k | Some v \<Rightarrow> Some v)"
proof -
  have "map_of (fold (\<lambda>(k, v). AList.update k v) src dst) k =
      (case map_of (rev src) k of None \<Rightarrow> map_of dst k | Some v \<Rightarrow> Some v)"
    by (induction src arbitrary: dst) (auto simp: update_conv' map_add_Some_iff split: option.splits)
  then show ?thesis by (simp add: maps_Copy_def)
qed

lemma map_of_fold_delete: "map_of (fold AList.delete ks m) k = (if k \<in> set ks then None else map_of m k)"
  by (induction ks arbitrary: m) (auto simp: delete_conv')

lemma map_of_rev_distinct: "distinct (map_keys m) \<Longrightarrow> map_of (rev m) = map_of m"
  by (subst map_of_inject_set) (simp_all add: map_keys_def rev_map [symmetric])

section \<open>Properties\<close>

text \<open>
  A patch of labels removes the listed keys and then sets the given ones, so that an update
  of a removed key wins; every other label is kept.
\<close>

theorem patch_labels:
  assumes "distinct (map_keys existingLabels)" and "distinct (map_keys updates)"
  shows "map_of (updateLabelsOnMap
      (Some (StrategyPatch (Some \<lparr>lp_Remove = removes, lp_Update = Some updates\<rparr>))) existingLabels) k =
    (case map_of updates k of
       Some v \<Rightarrow> Some v
     | None \<Rightarrow> if k \<in> set removes then None else map_of existingLabels k)"
  using assms
  by (auto simp: updateLabelsOnMap_def Let_def map_of_maps_Copy map_of_fold_delete
      map_of_rev_distinct split: option.splits)

theorem patch_labels_witness:
  "map_of (updateLabelsOnMap (Some (StrategyPatch (Some
     \<lparr>lp_Remove = [''a'', ''b''], lp_Update = Some [(''a'', ''2'')]\<rparr>)))
     [(''a'', ''1''), (''b'', ''1''), (''c'', ''1'')]) ''b'' = None"
  using patch_labels [of "[(''a'', ''1''), (''b'', ''1''), (''c'', ''1'')]" "[(''a'', ''2'')]"
      "[''a'', ''b'']" "''b''"]
  by (simp add: map_keys_def)

lemma split_tags_eq:
  "split_tags ls (m, ps) =
     (fold (\<lambda>l result. let (key, value, _) = Cut l in AList.update key value result)
        (filter (\<lambda>l. CHR ''='' \<in> set l) ls) m,
      ps @ filter (\<lambda>l. CHR ''='' \<notin> set l) ls)"
  by (induction ls arbitrary: m ps) (auto simp: Cut_eq)

lemma fold_remove_tag:
  "fold remove_tag rs (m, ps) = (fold AList.delete rs m, filter (\<lambda>l. l \<notin> set rs) ps)"
  by (induction rs arbitrary: m ps) (auto simp: remove_tag_def intro: filter_cong)

lemma fold_set_tag:
  "fold set_tag us (m, ps) = (maps_Copy m us, filter (\<lambda>l. l \<notin> set (map_keys us)) ps)"
proof (induction us arbitrary: m ps)
  case (Cons u us)
  have "set_tag u (m, ps) = (AList.update (fst u) (snd u) m, filter (\<lambda>l. l \<noteq> fst u) ps)"
    by (auto simp: set_tag_def filter_id_conv intro: sym [OF filter_True])
  then show ?case
    by (auto simp: Cons.IH maps_Copy_def map_keys_def split_beta intro: filter_cong)
qed (simp add: maps_Copy_def)

lemma map_keys_distinct_steps:
  "distinct (map_keys m) \<Longrightarrow> distinct (map_keys (fold AList.delete rs m))"
  "distinct (map_keys m) \<Longrightarrow> distinct (map_keys (maps_Copy m us))"
  "distinct (map_keys (ToLabels ls))"
proof -
  show "distinct (map_keys m) \<Longrightarrow> distinct (map_keys (fold AList.delete rs m))"
    by (induction rs arbitrary: m) (auto simp: map_keys_def distinct_delete)
  have "distinct (map_keys m) \<Longrightarrow> distinct (map_keys (fold (\<lambda>(k, v). AList.update k v) us m))"
    by (induction us arbitrary: m) (auto simp: map_keys_update)
  then show "distinct (map_keys m) \<Longrightarrow> distinct (map_keys (maps_Copy m us))"
    by (simp add: maps_Copy_def)
  have "distinct (map_keys m) \<Longrightarrow>
      distinct (map_keys (fold (\<lambda>l result. let (key, value, _) = Cut l in AList.update key value result) ls m))"
    for m :: Labels
    by (induction ls arbitrary: m) (auto simp: map_keys_update split_beta)
  then show "distinct (map_keys (ToLabels ls))"
    by (simp add: ToLabels_def)
qed

lemma label_tags_of_map:
  "distinct (map_keys m) \<Longrightarrow> set (map label_tag m) = label_tag ` {(k, v). map_of m k = Some v}"
  by (auto simp: map_keys_def)

text \<open>
  The same patch on a list of tags gives a sorted list with the labels of the patched map
  and the pure labels that the patch neither removes nor turns into a label with a value.
\<close>

theorem patch_tags_on_slice:
  assumes "distinct (map_keys updates)"
    and "result = updateLabelsOnSlice
      (Some (StrategyPatch (Some \<lparr>lp_Remove = removes, lp_Update = Some updates\<rparr>))) existingTags"
  shows "sorted result \<and> set result =
    label_tag ` {(k, v). (case map_of updates k of
        Some w \<Rightarrow> v = w
      | None \<Rightarrow> k \<notin> set removes \<and>
          map_of (ToLabels (filter (\<lambda>l. CHR ''='' \<in> set l) existingTags)) k = Some v)} \<union>
    {l \<in> set existingTags. CHR ''='' \<notin> set l \<and> l \<notin> set removes \<and> \<not> has_key updates l}"
proof -
  let ?m = "ToLabels (filter (\<lambda>l. CHR ''='' \<in> set l) existingTags)"
  let ?tagMap = "maps_Copy (fold AList.delete removes ?m) updates"
  let ?pure = "filter (\<lambda>l. l \<notin> set (map_keys updates)) (filter (\<lambda>l. l \<notin> set removes)
      (filter (\<lambda>l. CHR ''='' \<notin> set l) existingTags))"
  have "patch_tags \<lparr>lp_Remove = removes, lp_Update = Some updates\<rparr> existingTags = (?tagMap, ?pure)"
    by (simp add: patch_tags_def split_tags_eq fold_remove_tag fold_set_tag ToLabels_def)
  then have r: "result = sort (map label_tag ?tagMap @ ?pure)"
    by (simp add: assms(2) updateLabelsOnSlice_def)
  have "map_of ?tagMap k = Some v \<longleftrightarrow> (case map_of updates k of Some w \<Rightarrow> v = w
      | None \<Rightarrow> k \<notin> set removes \<and> map_of ?m k = Some v)" for k v
    using assms(1)
    by (auto simp: map_of_maps_Copy map_of_fold_delete map_of_rev_distinct split: option.splits)
  moreover have "set (map label_tag ?tagMap) = label_tag ` {(k, v). map_of ?tagMap k = Some v}"
    by (intro label_tags_of_map map_keys_distinct_steps)
  ultimately show ?thesis
    unfolding r by (auto simp: has_key_def)
qed

theorem patch_tags_on_slice_witness:
  "sorted (updateLabelsOnSlice (Some (StrategyPatch (Some
     \<lparr>lp_Remove = [''a''], lp_Update = Some [(''p'', ''1'')]\<rparr>))) [''p'', ''q'', ''a=1''])"
  using patch_tags_on_slice [of "[(''p'', ''1'')]", OF _ refl, of "[''a'']" "[''p'', ''q'', ''a=1'']"]
  by (simp add: map_keys_def)

end
