(* ===== verification/Repository.thy ===== *)
theory Repository
  imports Prelude
begin

text \<open>
  The generic store of \<^verbatim>\<open>pkg/repository/store.go\<close>: its operations fetch an entity, check that it
  is in the scope of the caller, validate the request and only then call the repository of the
  entity. A repository is a record of actions; an action is a function from the state of the
  world to a result and the state after it.
\<close>

section \<open>Actions\<close>

type_synonym ('st, 'a) action = "'st \<Rightarrow> 'a result \<times> 'st"

definition return :: "'a \<Rightarrow> ('st, 'a) action" where
  "return x st = (Inr x, st)"

definition fail :: "go_error \<Rightarrow> ('st, 'a) action" where
  "fail err st = (Inl err, st)"

text \<open>\<open>on_error\<close> runs an action and maps its error, \<open>bind_action\<close> continues with its value.\<close>

definition on_error :: "(go_error \<Rightarrow> go_error) \<Rightarrow> ('st, 'a) action \<Rightarrow> ('st, 'a) action" where
  "on_error f a st = (case a st of (Inl err, st) \<Rightarrow> (Inl (f err), st) | (Inr x, st) \<Rightarrow> (Inr x, st))"

definition bind_action :: "('st, 'a) action \<Rightarrow> ('a \<Rightarrow> ('st, 'b) action) \<Rightarrow> ('st, 'b) action" where
  "bind_action a f st = (case a st of (Inl err, st) \<Rightarrow> (Inl err, st) | (Inr x, st) \<Rightarrow> f x st)"

definition lift_result :: "'a result \<Rightarrow> ('st, 'a) action" where
  "lift_result r st = (r, st)"

text \<open>An action that leaves the state as it is.\<close>

definition reads_only :: "('st, 'a) action \<Rightarrow> bool" where
  "reads_only a \<longleftrightarrow> (\<forall>st. snd (a st) = st)"

lemma action_simps [simp]:
  "return x st = (Inr x, st)"
  "fail err st = (Inl err, st)"
  "lift_result r st = (r, st)"
  by (simp_all add: return_def fail_def lift_result_def)

lemma bind_action_ok:
  "bind_action a f st = (Inr y, st'') \<longleftrightarrow> (\<exists>x st'. a st = (Inr x, st') \<and> f x st' = (Inr y, st''))"
  by (auto simp: bind_action_def split: prod.splits sum.splits)

lemma on_error_ok: "on_error g a st = (Inr x, st') \<longleftrightarrow> a st = (Inr x, st')"
  by (auto simp: on_error_def split: prod.splits sum.splits)

lemma on_error_state [simp]: "snd (on_error g a st) = snd (a st)"
  by (auto simp: on_error_def split: prod.splits sum.splits)

lemma reads_onlyD: "reads_only a \<Longrightarrow> snd (a st) = st"
  by (simp add: reads_only_def)

section \<open>The store\<close>

text \<open>
  The optimistic locking strategy of an update, and its update meta. The conversions of errors
  are functions of the API package.
\<close>

datatype LockingStrategy =
    OPTIMISTIC_LOCKING_STRATEGY_UNSPECIFIED | OPTIMISTIC_LOCKING_STRATEGY_CLIENT
  | OPTIMISTIC_LOCKING_STRATEGY_SERVER | OPTIMISTIC_LOCKING_STRATEGY_NUMBER int

record UpdateMeta =
  um_UpdatedAt :: "time option"
  um_LockingStrategy :: LockingStrategy

record errorutil =
  eu_Convert :: "go_error \<Rightarrow> go_error"
  eu_WrapInvalidArgument :: "go_error \<Rightarrow> go_error"
  eu_WrapInternal :: "go_error \<Rightarrow> go_error"

text \<open>Error conversions that keep every error, for the witnesses.\<close>

definition plain_errorutil :: errorutil where
  "plain_errorutil = \<lparr>eu_Convert = (\<lambda>e. e), eu_WrapInvalidArgument = (\<lambda>e. e), eu_WrapInternal = (\<lambda>e. e)\<rparr>"

record ('st, 'e, 'm, 'c, 'u, 'q) repository =
  rp_validateCreate :: "'c \<Rightarrow> ('st, 'c) action" \<comment> \<open>returns the request, which it may change\<close>
  rp_create :: "'c \<Rightarrow> ('st, 'e) action"
  rp_get :: "string \<Rightarrow> ('st, 'e) action"
  rp_find :: "'q \<Rightarrow> ('st, 'e) action"
  rp_list :: "'q \<Rightarrow> ('st, 'e list) action"
  rp_matchScope :: "'e \<Rightarrow> bool"
  rp_validateUpdate :: "'u \<Rightarrow> 'e \<Rightarrow> ('st, 'u) action" \<comment> \<open>returns the request, which it may change\<close>
  rp_update :: "'e \<Rightarrow> 'u \<Rightarrow> ('st, 'e) action"
  rp_validateDelete :: "'e \<Rightarrow> ('st, unit) action"
  rp_delete :: "'e \<Rightarrow> ('st, string option) action" \<comment> \<open>the id of the deletion task, if any\<close>
  rp_convertToProto :: "'e \<Rightarrow> ('st, 'm) action"
  rp_updateMeta :: "'u \<Rightarrow> UpdateMeta option"
  rp_SetChanged :: "time \<Rightarrow> 'e \<Rightarrow> 'e"
  rp_setDeletionTask :: "string \<Rightarrow> 'm \<Rightarrow> 'm"

definition protoConversionError :: "errorutil \<Rightarrow> go_error \<Rightarrow> go_error" where
  "protoConversionError eu err = eu_WrapInternal eu (Wrapped ''error during proto conversion: %w'' err)"

definition setUpdateMeta ::
  "('st, 'e, 'm, 'c, 'u, 'q) repository \<Rightarrow> 'u \<Rightarrow> 'e \<Rightarrow> 'e result" where
  "setUpdateMeta rp u e =
     (case rp_updateMeta rp u of
        None \<Rightarrow> Inl (InvalidArgument ''update meta must be set'')
      | Some meta \<Rightarrow>
          (case um_LockingStrategy meta of
             OPTIMISTIC_LOCKING_STRATEGY_UNSPECIFIED \<Rightarrow> Inr (rp_SetChanged rp (AsTime (um_UpdatedAt meta)) e)
           | OPTIMISTIC_LOCKING_STRATEGY_CLIENT \<Rightarrow> Inr (rp_SetChanged rp (AsTime (um_UpdatedAt meta)) e)
           | _ \<Rightarrow> Inr e))"

definition store_Create ::
  "errorutil \<Rightarrow> ('st, 'e, 'm, 'c, 'u, 'q) repository \<Rightarrow> 'c \<Rightarrow> ('st, 'm) action" where
  "store_Create eu rp c =
     bind_action (on_error (eu_WrapInvalidArgument eu) (rp_validateCreate rp c)) (\<lambda>c.
     bind_action (on_error (eu_Convert eu) (rp_create rp c)) (\<lambda>e.
     on_error (protoConversionError eu) (rp_convertToProto rp e)))"

text \<open>The entity with an id, if it is in the scope.\<close>

definition get_in_scope ::
  "errorutil \<Rightarrow> ('st, 'e, 'm, 'c, 'u, 'q) repository \<Rightarrow> string \<Rightarrow> ('st, 'e) action" where
  "get_in_scope eu rp i =
     bind_action (on_error (eu_Convert eu) (rp_get rp i)) (\<lambda>e.
     if \<not> rp_matchScope rp e then fail (NotFound ''%T with id %q not found'') else return e)"

definition store_Get ::
  "errorutil \<Rightarrow> ('st, 'e, 'm, 'c, 'u, 'q) repository \<Rightarrow> string \<Rightarrow> ('st, 'm) action" where
  "store_Get eu rp i =
     bind_action (get_in_scope eu rp i) (\<lambda>e.
     on_error (protoConversionError eu) (rp_convertToProto rp e))"

definition store_Find ::
  "errorutil \<Rightarrow> ('st, 'e, 'm, 'c, 'u, 'q) repository \<Rightarrow> 'q \<Rightarrow> ('st, 'm) action" where
  "store_Find eu rp q =
     bind_action (on_error (eu_Convert eu) (rp_find rp q)) (\<lambda>e.
     on_error (protoConversionError eu) (rp_convertToProto rp e))"

fun convert_all ::
  "errorutil \<Rightarrow> ('st, 'e, 'm, 'c, 'u, 'q) repository \<Rightarrow> 'e list \<Rightarrow> ('st, 'm list) action" where
  "convert_all eu rp [] = return []"
| "convert_all eu rp (e # es) =
     bind_action (on_error (protoConversionError eu) (rp_convertToProto rp e)) (\<lambda>m.
     bind_action (convert_all eu rp es) (\<lambda>ms. return (m # ms)))"

definition store_List ::
  "errorutil \<Rightarrow> ('st, 'e, 'm, 'c, 'u, 'q) repository \<Rightarrow> 'q \<Rightarrow> ('st, 'm list) action" where
  "store_List eu rp q =
     bind_action (on_error (eu_Convert eu) (rp_list rp q)) (convert_all eu rp)"

definition store_Delete ::
  "errorutil \<Rightarrow> ('st, 'e, 'm, 'c, 'u, 'q) repository \<Rightarrow> string \<Rightarrow> ('st, 'm) action" where
  "store_Delete eu rp i =
     bind_action (get_in_scope eu rp i) (\<lambda>e.
     bind_action (on_error (eu_WrapInvalidArgument eu) (rp_validateDelete rp e)) (\<lambda>_.
     bind_action (on_error (eu_Convert eu) (rp_delete rp e)) (\<lambda>deleteInfo.
     bind_action (on_error (protoConversionError eu) (rp_convertToProto rp e)) (\<lambda>converted.
     return (case deleteInfo of None \<Rightarrow> converted | Some task \<Rightarrow> rp_setDeletionTask rp task converted)))))"

definition store_Update ::
  "errorutil \<Rightarrow> ('st, 'e, 'm, 'c, 'u, 'q) repository \<Rightarrow> string \<Rightarrow> 'u \<Rightarrow> ('st, 'm) action" where
  "store_Update eu rp i u =
     bind_action (get_in_scope eu rp i) (\<lambda>e.
     bind_action (on_error (eu_WrapInvalidArgument eu) (rp_validateUpdate rp u e)) (\<lambda>u.
     bind_action (lift_result (setUpdateMeta rp u e)) (\<lambda>e.
     bind_action (on_error (eu_Convert eu) (rp_update rp e u)) (\<lambda>e.
     on_error (protoConversionError eu) (rp_convertToProto rp e)))))"

section \<open>The contract\<close>

text \<open>
  What the store relies on: reading an entity and validating a request change nothing that
  \<open>view\<close> shows of the state.
\<close>

locale scoped_repository =
  fixes rp :: "('st, 'e, 'm, 'c, 'u, 'q) repository" and view :: "'st \<Rightarrow> 'v"
  assumes get_reads: "view (snd (rp_get rp i st)) = view st"
    and validateCreate_reads: "view (snd (rp_validateCreate rp c st)) = view st"
    and validateUpdate_reads: "view (snd (rp_validateUpdate rp u e st)) = view st"
    and validateDelete_reads: "view (snd (rp_validateDelete rp e st)) = view st"
begin

lemma get_in_scope_reads: "view (snd (get_in_scope eu rp i st)) = view st"
  using get_reads [of i st]
  by (auto simp: get_in_scope_def bind_action_def on_error_def split: prod.splits sum.splits)

lemma get_in_scope_ok:
  "get_in_scope eu rp i st = (Inr e, st') \<longleftrightarrow> rp_get rp i st = (Inr e, st') \<and> rp_matchScope rp e"
  by (auto simp: get_in_scope_def bind_action_ok on_error_ok)

text \<open>Deleting or updating fails without a change unless the entity is found, in scope and valid.\<close>

lemma delete_changes_only_validated:
  assumes "view (snd (store_Delete eu rp i st)) \<noteq> view st"
  obtains e st' st'' where "rp_get rp i st = (Inr e, st')" "rp_matchScope rp e"
    "rp_validateDelete rp e st' = (Inr (), st'')"
proof (cases "get_in_scope eu rp i st")
  case (Pair r st')
  show thesis
  proof (cases r)
    case (Inl err)
    with Pair assms get_in_scope_reads [of eu i st] show thesis
      by (simp add: store_Delete_def bind_action_def)
  next
    case (Inr e)
    obtain v st'' where v: "rp_validateDelete rp e st' = (v, st'')" by force
    have "is_ok v"
    proof (rule ccontr)
      assume "\<not> is_ok v"
      then obtain err where "v = Inl err" by (cases v) simp_all
      with Pair Inr v have "snd (store_Delete eu rp i st) = st''"
        by (simp add: store_Delete_def bind_action_def on_error_def)
      moreover have "view st'' = view st"
        using validateDelete_reads [of e st'] get_in_scope_reads [of eu i st] v Pair by simp
      ultimately show False using assms by simp
    qed
    then have "v = Inr ()" by (simp add: is_ok_iff)
    with Pair Inr v show thesis using that get_in_scope_ok [of eu i st e st'] by blast
  qed
qed

lemma update_changes_only_validated:
  assumes "view (snd (store_Update eu rp i u st)) \<noteq> view st"
  obtains e st' u' st'' where "rp_get rp i st = (Inr e, st')" "rp_matchScope rp e"
    "rp_validateUpdate rp u e st' = (Inr u', st'')"
proof (cases "get_in_scope eu rp i st")
  case (Pair r st')
  show thesis
  proof (cases r)
    case (Inl err)
    with Pair assms get_in_scope_reads [of eu i st] show thesis
      by (simp add: store_Update_def bind_action_def)
  next
    case (Inr e)
    obtain v st'' where v: "rp_validateUpdate rp u e st' = (v, st'')" by force
    have "is_ok v"
    proof (rule ccontr)
      assume "\<not> is_ok v"
      then obtain err where "v = Inl err" by (cases v) simp_all
      with Pair Inr v have "snd (store_Update eu rp i u st) = st''"
        by (simp add: store_Update_def bind_action_def on_error_def)
      moreover have "view st'' = view st"
        using validateUpdate_reads [of u e st'] get_in_scope_reads [of eu i st] v Pair by simp
      ultimately show False using assms by simp
    qed
    then obtain u' where "v = Inr u'" by (auto simp: is_ok_iff)
    with Pair Inr v show thesis using that get_in_scope_ok [of eu i st e st'] by blast
  qed
qed

end

end
