(* ===== verification/TokenValidation.thy ===== *)
theory TokenValidation
  imports PermissionsProps Labels Repository
begin

text \<open>
  The validation of token requests, \<^verbatim>\<open>pkg/repository/token-validation.go\<close>, and the compaction of
  permission lists of \<^verbatim>\<open>pkg/repository/token.go\<close>.
\<close>

section \<open>Permissions by visibility\<close>

text \<open>The last constructor is a message whose oneof is not set.\<close>

datatype PermissionsByVisibility =
    Perm_Admin "string list" | Perm_Infra "string list" | Perm_Machine string "string list"
  | Perm_Project string "string list" | Perm_Public "string list" | Perm_Self "string list"
  | Perm_Tenant string "string list" | Perm_Unset

fun perm_methods :: "PermissionsByVisibility \<Rightarrow> string list" where
  "perm_methods (Perm_Admin ms) = ms"
| "perm_methods (Perm_Infra ms) = ms"
| "perm_methods (Perm_Machine u ms) = ms"
| "perm_methods (Perm_Project p ms) = ms"
| "perm_methods (Perm_Public ms) = ms"
| "perm_methods (Perm_Self ms) = ms"
| "perm_methods (Perm_Tenant t ms) = ms"
| "perm_methods Perm_Unset = []"

fun with_methods :: "string list \<Rightarrow> PermissionsByVisibility \<Rightarrow> PermissionsByVisibility" where
  "with_methods ms (Perm_Admin _) = Perm_Admin ms"
| "with_methods ms (Perm_Infra _) = Perm_Infra ms"
| "with_methods ms (Perm_Machine u _) = Perm_Machine u ms"
| "with_methods ms (Perm_Project p _) = Perm_Project p ms"
| "with_methods ms (Perm_Public _) = Perm_Public ms"
| "with_methods ms (Perm_Self _) = Perm_Self ms"
| "with_methods ms (Perm_Tenant t _) = Perm_Tenant t ms"
| "with_methods ms Perm_Unset = Perm_Unset"

text \<open>The predicates of \<open>slices.IndexFunc\<close>: same visibility and, where it has one, same subject.\<close>

fun same_target :: "PermissionsByVisibility \<Rightarrow> PermissionsByVisibility \<Rightarrow> bool" where
  "same_target (Perm_Admin _) (Perm_Admin _) = True"
| "same_target (Perm_Infra _) (Perm_Infra _) = True"
| "same_target (Perm_Machine u _) (Perm_Machine v _) = (v = u)"
| "same_target (Perm_Project p _) (Perm_Project q _) = (q = p)"
| "same_target (Perm_Public _) (Perm_Public _) = True"
| "same_target (Perm_Self _) (Perm_Self _) = True"
| "same_target (Perm_Tenant s _) (Perm_Tenant t _) = (t = s)"
| "same_target _ _ = False"

definition compact_step ::
  "PermissionsByVisibility \<Rightarrow> PermissionsByVisibility list \<Rightarrow> PermissionsByVisibility list" where
  "compact_step p res =
     (if p = Perm_Unset then res
      else
        (case index_func (same_target p) res of
           None \<Rightarrow> res @ [with_methods (sortUniq (perm_methods p)) p]
         | Some idx \<Rightarrow>
             res[idx := with_methods (sortUniq (perm_methods (res ! idx) @ perm_methods p)) (res ! idx)]))"

definition compactPermissions :: "PermissionsByVisibility list \<Rightarrow> PermissionsByVisibility list" where
  "compactPermissions perms = fold compact_step perms []"

text \<open>A permission without a visibility leaves a nil entry in the result.\<close>

fun flattenPermission :: "PermissionsByVisibility \<Rightarrow> MethodPermission option" where
  "flattenPermission (Perm_Admin ms) = Some \<lparr>mp_Subject = '''', mp_Methods = ms\<rparr>"
| "flattenPermission (Perm_Infra ms) = Some \<lparr>mp_Subject = '''', mp_Methods = ms\<rparr>"
| "flattenPermission (Perm_Machine u ms) = Some \<lparr>mp_Subject = u, mp_Methods = ms\<rparr>"
| "flattenPermission (Perm_Project p ms) = Some \<lparr>mp_Subject = p, mp_Methods = ms\<rparr>"
| "flattenPermission (Perm_Public ms) = Some \<lparr>mp_Subject = '''', mp_Methods = ms\<rparr>"
| "flattenPermission (Perm_Self ms) = Some \<lparr>mp_Subject = '''', mp_Methods = ms\<rparr>"
| "flattenPermission (Perm_Tenant t ms) = Some \<lparr>mp_Subject = t, mp_Methods = ms\<rparr>"
| "flattenPermission Perm_Unset = None"

definition flattenPermissions :: "PermissionsByVisibility list \<Rightarrow> MethodPermission option list" where
  "flattenPermissions perms = map flattenPermission perms"

text \<open>The first use of a permission list dereferences its entries.\<close>

definition deref_permissions :: "MethodPermission option list \<Rightarrow> MethodPermission list result" where
  "deref_permissions perms =
     (case those perms of
        None \<Rightarrow> Inl (Panic ''invalid memory address or nil pointer dereference'')
      | Some ps \<Rightarrow> Inr ps)"

section \<open>Admin roles\<close>

definition hasAdminRole :: "string \<Rightarrow> ProjectsAndTenants \<Rightarrow> AdminRole option" where
  "hasAdminRole providerTenant pat =
     (case map_of (pat_TenantRoles pat) providerTenant of
        Some TENANT_ROLE_OWNER \<Rightarrow> Some ADMIN_ROLE_EDITOR
      | Some TENANT_ROLE_EDITOR \<Rightarrow> Some ADMIN_ROLE_VIEWER
      | Some TENANT_ROLE_VIEWER \<Rightarrow> Some ADMIN_ROLE_VIEWER
      | _ \<Rightarrow> None)"

definition isAdminRoleRequestAllowed ::
  "string \<Rightarrow> ProjectsAndTenants \<Rightarrow> AdminRole option \<Rightarrow> unit result" where
  "isAdminRoleRequestAllowed providerTenant pat requestedRole =
     (case requestedRole of
        None \<Rightarrow> Inr ()
      | Some requested \<Rightarrow>
          (case hasAdminRole providerTenant pat of
             None \<Rightarrow> Inl (Plain
               ''requested adminrole %q is not allowed because you are not member of provider tenant'')
           | Some role \<Rightarrow>
               if role = ADMIN_ROLE_VIEWER \<and> requested = ADMIN_ROLE_EDITOR
               then Inl (Plain ''your provider tenant membership only allows %q, but you requested %q'')
               else Inr ()))"

section \<open>Token requests\<close>

text \<open>The checks of the requested roles and methods, before the permissions are compared.\<close>

definition check_requested_roles :: "ServicePermissions \<Rightarrow> Token \<Rightarrow> Token \<Rightarrow> unit result" where
  "check_requested_roles sp current requested =
     (if lo_Difference (map_keys (t_TenantRoles requested)) (map_keys (t_TenantRoles current)) \<noteq> [] \<and>
         AnySubject \<notin> set (map_keys (t_TenantRoles current))
      then Inl (Plain ''requested tenant roles are not allowed: %v'')
      else if TENANT_ROLE_UNSPECIFIED \<in> snd ` set (t_TenantRoles requested)
      then Inl (Plain ''requested tenant role: %q is not allowed'')
      else if lo_Difference (map_keys (t_ProjectRoles requested)) (map_keys (t_ProjectRoles current)) \<noteq> [] \<and>
         AnySubject \<notin> set (map_keys (t_ProjectRoles current))
      then Inl (Plain ''requested project roles are not allowed: %v'')
      else if PROJECT_ROLE_UNSPECIFIED \<in> snd ` set (t_ProjectRoles requested)
      then Inl (Plain ''requested project role: %q is not allowed'')
      else if list_ex (\<lambda>p. list_ex (\<lambda>m. \<not> has_key (sp_Methods sp) m) (mp_Methods p)) (t_Permissions requested)
      then Inl (Plain ''unknown method %q'')
      else if lo_Difference (map_keys (t_MachineRoles requested)) (map_keys (t_MachineRoles current)) \<noteq> [] \<and>
         AnySubject \<notin> set (map_keys (t_MachineRoles current))
      then Inl (Plain ''requested machine roles are not allowed: %v'')
      else Inr ())"

definition requested_permissions_token :: "Token \<Rightarrow> Token \<Rightarrow> Token" where
  "requested_permissions_token current requested =
     empty_Token
       \<lparr>t_User := t_User current, t_Permissions := t_Permissions requested,
        t_ProjectRoles := t_ProjectRoles requested, t_TenantRoles := t_TenantRoles requested,
        t_MachineRoles := t_MachineRoles requested,
        t_AdminRole := (if t_AdminRole requested = Some ADMIN_ROLE_UNSPECIFIED then None
                        else t_AdminRole requested),
        t_InfraRole := (if t_InfraRole requested = Some INFRA_ROLE_UNSPECIFIED then None
                        else t_InfraRole requested)\<rparr>"

fun check_methods :: "tokenPermissions \<Rightarrow> tokenPermissions \<Rightarrow> string list \<Rightarrow> unit result" where
  "check_methods currentPermissions requestedPermissions [] = Inr ()"
| "check_methods currentPermissions requestedPermissions (method # methods) =
     (case map_of requestedPermissions method of
        None \<Rightarrow> check_methods currentPermissions requestedPermissions methods
      | Some subjects \<Rightarrow>
          (case map_of currentPermissions method of
             None \<Rightarrow> Inl (Plain ''the following method %q is not allowed'')
           | Some currentSubjects \<Rightarrow>
               if AnySubject \<in> set currentSubjects
               then check_methods currentPermissions requestedPermissions methods
               else if AnySubject \<in> set subjects
               then check_methods currentPermissions requestedPermissions methods
               else if list_ex (\<lambda>s. s \<notin> set currentSubjects) subjects
               then Inl (Plain ''method %q is not allowed on subject %q with your current user permissions'')
               else check_methods currentPermissions requestedPermissions methods))"

text \<open>
  \<open>validateTokenRequest\<close> returns the current token too: the computation of its permissions
  stores the roles of the database in a user token, and the role checks read them from there.
\<close>

definition validateTokenRequest ::
  "ServicePermissions \<Rightarrow> ProjectsAndTenantsGetter \<Rightarrow> Token \<Rightarrow> Token \<Rightarrow> Token \<times> unit result" where
  "validateTokenRequest sp patg currentToken requestedToken =
     (let vm = adminViewerMethods sp
      in case getTokenPermissions sp vm patg currentToken of
           (current, Inl err) \<Rightarrow> (current, Inl err)
         | (current, Inr currentPermissions) \<Rightarrow>
             (current,
              case check_requested_roles sp current requestedToken of
                Inl err \<Rightarrow> Inl err
              | Inr _ \<Rightarrow>
                  (case TokenPermissions sp vm patg
                          (Some (requested_permissions_token current requestedToken)) of
                     Inl err \<Rightarrow> Inl err
                   | Inr requestedPermissions \<Rightarrow>
                       check_methods currentPermissions requestedPermissions
                         (sort (map_keys requestedPermissions)))))"

section \<open>Requested permissions\<close>

text \<open>What the validation uses besides the tables: the provider tenant and lookups in the store.\<close>

record token_env =
  te_sp :: ServicePermissions
  te_patg :: ProjectsAndTenantsGetter
  te_providerTenant :: string
  te_getProject :: "string \<Rightarrow> unit result"
  te_getTenant :: "string \<Rightarrow> unit result"

definition errorVisibility :: "ServicePermissions \<Rightarrow> string \<Rightarrow> go_error" where
  "errorVisibility sp method =
     (if list_ex (\<lambda>vis. has_key vis method)
           [vis_Admin sp, vis_Infra sp, vis_Machine sp, vis_Project sp, vis_Public sp, vis_Self sp,
            vis_Tenant sp]
      then Plain ''requested method %q is of visibility %q, not of visibility %q''
      else Plain ''requested method %q is not contained in the api'')"

definition check_visibility :: "ServicePermissions \<Rightarrow> methods \<Rightarrow> string list \<Rightarrow> unit result" where
  "check_visibility sp vis ms =
     (case find (\<lambda>m. \<not> has_key vis m) ms of
        None \<Rightarrow> Inr ()
      | Some m \<Rightarrow> Inl (errorVisibility sp m))"

text \<open>The check of the project or tenant of a permission, given its lookup and the memberships.\<close>

definition check_subject ::
  "bool \<Rightarrow> (string \<Rightarrow> unit result) \<Rightarrow> (string, 'r) gomap \<Rightarrow> string \<Rightarrow> string \<Rightarrow> string \<Rightarrow> unit result" where
  "check_subject isAdmin lookup memberships missing unavailable subject =
     (if subject = AnySubject then Inr ()
      else if isAdmin
      then (case lookup subject of
              Inl err \<Rightarrow> if IsNotFound err then Inl (Plain missing) else Inl err
            | Inr _ \<Rightarrow> Inr ())
      else if \<not> has_key memberships subject then Inl (Plain unavailable)
      else Inr ())"

definition and_then :: "unit result \<Rightarrow> unit result \<Rightarrow> unit result" where
  "and_then r s = (case r of Inl err \<Rightarrow> Inl err | Inr _ \<Rightarrow> s)"

fun validatePermission ::
  "token_env \<Rightarrow> ProjectsAndTenants \<Rightarrow> PermissionsByVisibility \<Rightarrow> unit result" where
  "validatePermission env pat (Perm_Admin ms) =
     (if hasAdminRole (te_providerTenant env) pat = None
      then Inl (Plain ''admin api permission are only allowed for admins'')
      else check_visibility (te_sp env) (vis_Admin (te_sp env)) ms)"
| "validatePermission env pat (Perm_Infra ms) =
     check_visibility (te_sp env) (vis_Infra (te_sp env)) ms"
| "validatePermission env pat (Perm_Machine u ms) =
     check_visibility (te_sp env) (vis_Machine (te_sp env)) ms"
| "validatePermission env pat (Perm_Project project ms) =
     and_then
       (check_subject (hasAdminRole (te_providerTenant env) pat \<noteq> None) (te_getProject env)
          (pat_ProjectRoles pat)
          ''requesting method for project %q but this does not exist in the database''
          ''requesting method for project %q but available projects are: %v'' project)
       (check_visibility (te_sp env) (vis_Project (te_sp env)) ms)"
| "validatePermission env pat (Perm_Public ms) =
     check_visibility (te_sp env) (vis_Public (te_sp env)) ms"
| "validatePermission env pat (Perm_Self ms) =
     check_visibility (te_sp env) (vis_Self (te_sp env)) ms"
| "validatePermission env pat (Perm_Tenant login ms) =
     and_then
       (check_subject (hasAdminRole (te_providerTenant env) pat \<noteq> None) (te_getTenant env)
          (pat_TenantRoles pat)
          ''requesting method for tenant %q but this does not exist in the database''
          ''requesting method for tenant %q but available tenants are: %v'' login)
       (check_visibility (te_sp env) (vis_Tenant (te_sp env)) ms)"
| "validatePermission env pat Perm_Unset = Inr ()"

fun validatePermissions ::
  "token_env \<Rightarrow> PermissionsByVisibility list \<Rightarrow> ProjectsAndTenants \<Rightarrow> unit result" where
  "validatePermissions env [] pat = Inr ()"
| "validatePermissions env (p # ps) pat =
     and_then (validatePermission env pat p) (validatePermissions env ps pat)"

section \<open>Creating a token\<close>

record TokenCreateRequest =
  tcr_User :: "string option" \<comment> \<open>of the admin request that carries the request\<close>
  tcr_Description :: string
  tcr_Permissions :: "PermissionsByVisibility list"
  tcr_ProjectRoles :: "(string, ProjectRole) gomap"
  tcr_TenantRoles :: "(string, TenantRole) gomap"
  tcr_AdminRole :: "AdminRole option"
  tcr_InfraRole :: "InfraRole option"
  tcr_MachineRoles :: "(string, MachineRole) gomap"
  tcr_Expires :: "duration option"
  tcr_Labels :: "Labels option"

definition requested_token :: "string \<Rightarrow> TokenCreateRequest \<Rightarrow> MethodPermission list \<Rightarrow> Token" where
  "requested_token user rq permissions =
     empty_Token
       \<lparr>t_User := user, t_ProjectRoles := tcr_ProjectRoles rq, t_TenantRoles := tcr_TenantRoles rq,
        t_AdminRole := tcr_AdminRole rq, t_InfraRole := tcr_InfraRole rq,
        t_MachineRoles := tcr_MachineRoles rq, t_Permissions := permissions,
        t_TokenType := TOKEN_TYPE_API\<rparr>"

text \<open>The token that stands for everything the user may do now.\<close>

definition user_token :: "string \<Rightarrow> ProjectsAndTenants \<Rightarrow> AdminRole option \<Rightarrow> Token \<Rightarrow> Token" where
  "user_token user pat adminRole sessionToken =
     empty_Token
       \<lparr>t_User := user, t_ProjectRoles := pat_ProjectRoles pat, t_TenantRoles := pat_TenantRoles pat,
        t_AdminRole := adminRole, t_InfraRole := t_InfraRole sessionToken,
        t_MachineRoles := t_MachineRoles sessionToken\<rparr>"

definition validate_both ::
  "token_env \<Rightarrow> Token \<Rightarrow> Token \<Rightarrow> Token \<Rightarrow> Token \<times> unit result" where
  "validate_both env sessionToken userToken requestedToken =
     (case validateTokenRequest (te_sp env) (te_patg env) sessionToken requestedToken of
        (sessionToken, Inl err) \<Rightarrow> (sessionToken, Inl (PermissionDenied ''%w''))
      | (sessionToken, Inr _) \<Rightarrow>
          (sessionToken,
           case snd (validateTokenRequest (te_sp env) (te_patg env) userToken requestedToken) of
             Inl err \<Rightarrow> Inl (PermissionDenied ''%w'')
           | Inr _ \<Rightarrow> Inr ()))"

text \<open>An admin whose session has no admin role acts with the role that the request asks for.\<close>

definition elevate_session ::
  "token_env \<Rightarrow> ProjectsAndTenants \<Rightarrow> AdminRole option \<Rightarrow> Token \<Rightarrow> Token result" where
  "elevate_session env pat requestedRole sessionToken =
     (if hasAdminRole (te_providerTenant env) pat \<noteq> None \<and>
         (t_AdminRole sessionToken = None \<or> t_AdminRole sessionToken = Some ADMIN_ROLE_UNSPECIFIED)
      then (case isAdminRoleRequestAllowed (te_providerTenant env) pat requestedRole of
              Inl err \<Rightarrow> Inl (PermissionDenied ''%w'')
            | Inr _ \<Rightarrow> Inr (sessionToken\<lparr>t_AdminRole := requestedRole, t_TokenType := TOKEN_TYPE_API\<rparr>))
      else Inr sessionToken)"

text \<open>
  \<open>validateCreate\<close> also returns the session token and the request, both of which it changes.
\<close>

definition validateCreate ::
  "token_env \<Rightarrow> string option \<Rightarrow> Token option \<Rightarrow> TokenCreateRequest \<Rightarrow>
   Token option \<times> TokenCreateRequest \<times> unit result" where
  "validateCreate env scope session rq =
     (case scope of
        None \<Rightarrow> (session, rq, Inl (FailedPrecondition ''tokens cannot be created unscoped''))
      | Some user \<Rightarrow>
     (case session of
        None \<Rightarrow> (session, rq, Inl (Unauthenticated ''no token found in request''))
      | Some sessionToken \<Rightarrow>
     (if t_TokenType sessionToken \<noteq> TOKEN_TYPE_API \<and> t_TokenType sessionToken \<noteq> TOKEN_TYPE_USER
      then (session, rq, Inl (FailedPrecondition ''invalid token type for token creation: %q''))
      else
     (case te_patg env user of
        Inl err \<Rightarrow> (session, rq, Inl (Internal ''%w''))
      | Inr pat \<Rightarrow>
     (case elevate_session env pat (tcr_AdminRole rq) sessionToken of
        Inl err \<Rightarrow> (session, rq, Inl err)
      | Inr sessionToken \<Rightarrow>
     (let role = hasAdminRole (te_providerTenant env) pat
      in if role = None \<and> tcr_User rq \<noteq> None
      then (Some sessionToken, rq, Inl (PermissionDenied ''only admins can specify token user''))
      else
     (let rq = rq\<lparr>tcr_Permissions := compactPermissions (tcr_Permissions rq)\<rparr>
      in case validatePermissions env (tcr_Permissions rq) pat of
        Inl err \<Rightarrow> (Some sessionToken, rq, Inl (PermissionDenied ''invalid permissions requested: %w''))
      | Inr _ \<Rightarrow>
     (case deref_permissions (flattenPermissions (tcr_Permissions rq)) of
        Inl err \<Rightarrow> (Some sessionToken, rq, Inl err)
      | Inr permissions \<Rightarrow>
          (let (sessionToken, result) =
             validate_both env sessionToken (user_token user pat role sessionToken)
               (requested_token user rq permissions)
           in (Some sessionToken, rq, result))))))))))"

section \<open>Updating a token\<close>

record TokenUpdateRequest =
  tur_UpdateMeta :: "UpdateMeta option"
  tur_Description :: "string option"
  tur_Permissions :: "PermissionsByVisibility list"
  tur_ProjectRoles :: "(string, ProjectRole) gomap option"
  tur_TenantRoles :: "(string, TenantRole) gomap option"
  tur_AdminRole :: "AdminRole option"
  tur_InfraRole :: "InfraRole option"
  tur_MachineRoles :: "(string, MachineRole) gomap option"
  tur_Labels :: "LabelStrategy option"

definition the_map :: "('k, 'v) gomap option \<Rightarrow> ('k, 'v) gomap" where
  "the_map m = (case m of None \<Rightarrow> [] | Some m \<Rightarrow> m)"

definition validateUpdate ::
  "token_env \<Rightarrow> string option \<Rightarrow> Token option \<Rightarrow> TokenUpdateRequest \<Rightarrow> Token \<Rightarrow>
   Token option \<times> TokenUpdateRequest \<times> unit result" where
  "validateUpdate env scope session rq tokenToUpdate =
     (case scope of
        None \<Rightarrow> (session, rq, Inl (FailedPrecondition ''tokens cannot be updated unscoped''))
      | Some user \<Rightarrow>
     (if (case tur_UpdateMeta rq of None \<Rightarrow> False | Some meta \<Rightarrow> um_UpdatedAt meta \<noteq> None)
      then (session, rq, Inl (InvalidArgument
        ''optimistic locking is not yet implemented, please do not provide updated_at in update meta''))
      else
     (case session of
        None \<Rightarrow> (session, rq, Inl (Unauthenticated ''no token found in request''))
      | Some sessionToken \<Rightarrow>
     (case te_patg env user of
        Inl err \<Rightarrow> (session, rq, Inl (Internal ''%w''))
      | Inr pat \<Rightarrow>
     (let rq = rq\<lparr>tur_Permissions := compactPermissions (tur_Permissions rq)\<rparr>
      in case validatePermissions env (tur_Permissions rq) pat of
        Inl err \<Rightarrow> (session, rq, Inl (PermissionDenied ''invalid permissions requested: %w''))
      | Inr _ \<Rightarrow>
     (case deref_permissions (flattenPermissions (tur_Permissions rq)) of
        Inl err \<Rightarrow> (session, rq, Inl err)
      | Inr permissions \<Rightarrow>
          (let (sessionToken, result) = validate_both env sessionToken
             (user_token (t_User sessionToken) pat (hasAdminRole (te_providerTenant env) pat) sessionToken)
             (empty_Token
                \<lparr>t_User := t_User tokenToUpdate, t_ProjectRoles := the_map (tur_ProjectRoles rq),
                 t_TenantRoles := the_map (tur_TenantRoles rq), t_AdminRole := tur_AdminRole rq,
                 t_InfraRole := tur_InfraRole rq, t_MachineRoles := the_map (tur_MachineRoles rq),
                 t_Permissions := permissions, t_TokenType := TOKEN_TYPE_API\<rparr>)
           in (Some sessionToken, rq, result))))))))"

end
