(* ===== verification/Redis.thy ===== *)
theory Redis
  imports Prelude
begin

text \<open>
  The interface of the redis server behind \<^verbatim>\<open>github.com/redis/go-redis\<close>, as far as the token
  store, the invite stores and the rate limiter rely on it. The server is not part of the
  repository: its commands are a record of functions on a state \<open>'st\<close> that the model takes as an
  argument, and the locale states their documented effect on the keys. A command may fail; the
  expiry of a key is a step of the server that may happen between two operations.
\<close>

datatype redis_cmd =
    CmdSet string string duration | CmdDel string | CmdIncr string | CmdExpire string duration

record 'st redis =
  r_Get :: "string \<Rightarrow> 'st \<Rightarrow> string option result" \<comment> \<open>None is \<open>redis.Nil\<close>\<close>
  r_Scan :: "string \<Rightarrow> 'st \<Rightarrow> string list result" \<comment> \<open>the keys that match a pattern\<close>
  r_Del :: "string \<Rightarrow> 'st \<Rightarrow> ('st \<times> nat) result" \<comment> \<open>with the number of deleted keys\<close>
  r_Exec :: "redis_cmd list \<Rightarrow> 'st \<Rightarrow> 'st result" \<comment> \<open>a transaction\<close>

text \<open>A single \<open>SET\<close> is a transaction of one command.\<close>

definition r_Set :: "'st redis \<Rightarrow> string \<Rightarrow> string \<Rightarrow> duration \<Rightarrow> 'st \<Rightarrow> 'st result" where
  "r_Set r k v ttl st = r_Exec r [CmdSet k v ttl] st"

text \<open>The effect of a command on the keys; \<open>INCR\<close> of a missing key counts from 0.\<close>

definition decimal :: "string \<Rightarrow> nat option" where
  "decimal s =
     (if s = '''' then None
      else fold (\<lambda>c n. case n of
          None \<Rightarrow> None
        | Some n \<Rightarrow>
            if of_char c \<ge> (48::nat) \<and> of_char c \<le> (57::nat)
            then Some (10 * n + (of_char c - 48)) else None) s (Some 0))"

fun redis_effect :: "redis_cmd \<Rightarrow> (string \<rightharpoonup> string) \<Rightarrow> (string \<rightharpoonup> string)" where
  "redis_effect (CmdSet k v ttl) m = m(k \<mapsto> v)"
| "redis_effect (CmdDel k) m = m(k := None)"
| "redis_effect (CmdIncr k) m =
     (case m k of
        None \<Rightarrow> m(k \<mapsto> itoa 1)
      | Some s \<Rightarrow> (case decimal s of None \<Rightarrow> m | Some n \<Rightarrow> m(k \<mapsto> itoa (n + 1))))"
| "redis_effect (CmdExpire k d) m = m"

text \<open>A pattern that ends in the wildcard and has no other special character matches a prefix.\<close>

definition plain_pattern :: "string \<Rightarrow> bool" where
  "plain_pattern p = list_all (\<lambda>c. c \<notin> set ''*?[]'' \<and> c \<noteq> CHR 0x5C) p"

locale redis_server =
  fixes r :: "'st redis" and view :: "'st \<Rightarrow> (string \<rightharpoonup> string)"
  assumes get: "r_Get r k st = Inr v \<Longrightarrow> v = view st k"
    and exec: "r_Exec r cmds st = Inr st' \<Longrightarrow> view st' = fold redis_effect cmds (view st)"
    and del: "r_Del r k st = Inr (st', n) \<Longrightarrow>
      view st' = (view st)(k := None) \<and> n = (if view st k = None then 0 else 1)"
    and scan: "r_Scan r (p @ ''*'') st = Inr ks \<Longrightarrow> plain_pattern p \<Longrightarrow>
      set ks = {k \<in> dom (view st). \<exists>rest. k = p @ rest} \<and> distinct ks"
begin

lemma set_view: "r_Set r k v ttl st = Inr st' \<Longrightarrow> view st' = (view st)(k \<mapsto> v)"
  using exec [of "[CmdSet k v ttl]" st st'] by (simp add: r_Set_def)

lemma get_after_set:
  "r_Set r k v ttl st = Inr st' \<Longrightarrow> r_Get r k' st' = Inr x \<Longrightarrow> x = (if k' = k then Some v else view st k')"
  using get [of k' st' x] set_view [of k v ttl st st'] by simp

end

section \<open>A table\<close>

text \<open>A server whose commands always succeed: the witnesses instantiate the parameter with it.\<close>

type_synonym redis_table = "(string, string) gomap"

fun has_prefix :: "string \<Rightarrow> string \<Rightarrow> bool" where
  "has_prefix s [] = True"
| "has_prefix [] (p # ps) = False"
| "has_prefix (c # cs) (p # ps) = (c = p \<and> has_prefix cs ps)"

lemma has_prefix_iff: "has_prefix s p \<longleftrightarrow> (\<exists>rest. s = p @ rest)"
  by (induction s p rule: has_prefix.induct) auto

fun table_cmd :: "redis_cmd \<Rightarrow> redis_table \<Rightarrow> redis_table" where
  "table_cmd (CmdSet k v ttl) m = AList.update k v m"
| "table_cmd (CmdDel k) m = AList.delete k m"
| "table_cmd (CmdIncr k) m =
     (case map_of m k of
        None \<Rightarrow> AList.update k (itoa 1) m
      | Some s \<Rightarrow> (case decimal s of None \<Rightarrow> m | Some n \<Rightarrow> AList.update k (itoa (n + 1)) m))"
| "table_cmd (CmdExpire k d) m = m"

definition table_redis :: "redis_table redis" where
  "table_redis =
     \<lparr>r_Get = (\<lambda>k m. Inr (map_of m k)),
      r_Scan = (\<lambda>p m. Inr (remdups (filter (\<lambda>k. has_prefix k (butlast p)) (map_keys m)))),
      r_Del = (\<lambda>k m. Inr (AList.delete k m, if map_of m k = None then 0 else 1)),
      r_Exec = (\<lambda>cmds m. Inr (fold table_cmd cmds m))\<rparr>"

lemma map_of_table_cmd: "map_of (table_cmd cmd m) = redis_effect cmd (map_of m)"
  by (cases cmd) (auto simp: update_conv' delete_conv' split: option.splits)

interpretation redis_table: redis_server table_redis map_of
proof
  fix cmds and m m' :: redis_table
  have "map_of (fold table_cmd cmds m) = fold redis_effect cmds (map_of m)"
    by (induction cmds arbitrary: m) (simp_all add: map_of_table_cmd)
  then show "r_Exec table_redis cmds m = Inr m' \<Longrightarrow> map_of m' = fold redis_effect cmds (map_of m)"
    by (auto simp: table_redis_def)
next
  fix k and m m' :: redis_table and n
  show "r_Del table_redis k m = Inr (m', n) \<Longrightarrow>
      map_of m' = (map_of m)(k := None) \<and> n = (if map_of m k = None then 0 else 1)"
    by (auto simp: table_redis_def delete_conv')
next
  fix p ks and m :: redis_table
  show "r_Scan table_redis (p @ ''*'') m = Inr ks \<Longrightarrow> plain_pattern p \<Longrightarrow>
      set ks = {k \<in> dom (map_of m). \<exists>rest. k = p @ rest} \<and> distinct ks"
    unfolding table_redis_def has_prefix_iff map_keys_def dom_map_of_conv_image_fst
    by (auto simp: image_iff) (metis fst_conv)
qed (simp add: table_redis_def)

end
