(* ===== verification/TokenStore.thy ===== *)
theory TokenStore
  imports Redis Tokens
begin

text \<open>
  The token store, \<^verbatim>\<open>pkg/token/token-store.go\<close> and \<^verbatim>\<open>pkg/token/token-store-model.go\<close>: the
  conversion between a token of the API and the form in which it is stored, and the operations
  of the store. The names of the role enumerations come from the API package and the JSON codec
  from the standard library; both are arguments. The struct field \<open>TokenType\<close> is an \<open>int32\<close> that
  is converted there and back, the model keeps the enumeration.
\<close>

section \<open>The stored form\<close>

text \<open>\<open>String\<close> of an enumeration value and the generated map from names to values.\<close>

record role_names =
  rn_Project :: "ProjectRole \<Rightarrow> string"
  rv_Project :: "string \<Rightarrow> ProjectRole"
  rn_Tenant :: "TenantRole \<Rightarrow> string"
  rv_Tenant :: "string \<Rightarrow> TenantRole"
  rn_Admin :: "AdminRole \<Rightarrow> string"
  rv_Admin :: "string \<Rightarrow> AdminRole"
  rn_Infra :: "InfraRole \<Rightarrow> string"
  rv_Infra :: "string \<Rightarrow> InfraRole"
  rn_Machine :: "MachineRole \<Rightarrow> string"
  rv_Machine :: "string \<Rightarrow> MachineRole"

record stored_token =
  st_Uuid :: string
  st_User :: string
  st_Description :: string
  st_Permissions :: "MethodPermission list"
  st_Expires :: "time option"
  st_IssuedAt :: "time option"
  st_TokenType :: TokenType
  st_ProjectRoles :: "(string, string) gomap"
  st_TenantRoles :: "(string, string) gomap"
  st_AdminRole :: "string option"
  st_InfraRole :: "string option"
  st_MachineRoles :: "(string, string) gomap"
  st_Labels :: "Labels option"
  st_UpdatedAt :: "time option"

definition convert_roles :: "('r \<Rightarrow> 's) \<Rightarrow> (string, 'r) gomap \<Rightarrow> (string, 's) gomap" where
  "convert_roles f roles = fold (\<lambda>(k, role). AList.update k (f role)) roles []"

definition toInternal :: "role_names \<Rightarrow> Token \<Rightarrow> stored_token" where
  "toInternal rn t =
     \<lparr>st_Uuid = t_Uuid t, st_User = t_User t, st_Description = t_Description t,
      st_Permissions = map (\<lambda>p. \<lparr>mp_Subject = mp_Subject p, mp_Methods = mp_Methods p\<rparr>) (t_Permissions t),
      st_Expires = t_Expires t, st_IssuedAt = t_IssuedAt t, st_TokenType = t_TokenType t,
      st_ProjectRoles = convert_roles (rn_Project rn) (t_ProjectRoles t),
      st_TenantRoles = convert_roles (rn_Tenant rn) (t_TenantRoles t),
      st_AdminRole = map_option (rn_Admin rn) (t_AdminRole t),
      st_InfraRole = map_option (rn_Infra rn) (t_InfraRole t),
      st_MachineRoles = convert_roles (rn_Machine rn) (t_MachineRoles t),
      st_Labels = (case t_Meta t of None \<Rightarrow> None | Some m \<Rightarrow> meta_Labels m),
      st_UpdatedAt = (case t_Meta t of None \<Rightarrow> None | Some m \<Rightarrow> meta_UpdatedAt m)\<rparr>"

text \<open>
  The tags of the fields are \<open>omitempty\<close>: the codec leaves a field out that is empty, so that a label map that is
  there without an entry is written, and read back, like one that is nil. For the other fields the model
  does not distinguish an empty value from a missing one.
\<close>

definition omitempty :: "stored_token \<Rightarrow> stored_token" where
  "omitempty t = t\<lparr>st_Labels := (case st_Labels t of Some [] \<Rightarrow> None | labels \<Rightarrow> labels)\<rparr>"

definition toExternal :: "role_names \<Rightarrow> stored_token \<Rightarrow> Token" where
  "toExternal rn t =
     \<lparr>t_Uuid = st_Uuid t, t_User = st_User t,
      t_Meta = Some \<lparr>meta_Labels = st_Labels t, meta_CreatedAt = st_IssuedAt t,
                     meta_UpdatedAt = st_UpdatedAt t, meta_Generation = 0\<rparr>,
      t_Description = st_Description t,
      t_Permissions = map (\<lambda>p. \<lparr>mp_Subject = mp_Subject p, mp_Methods = mp_Methods p\<rparr>) (st_Permissions t),
      t_Expires = st_Expires t, t_IssuedAt = st_IssuedAt t, t_TokenType = st_TokenType t,
      t_ProjectRoles = convert_roles (rv_Project rn) (st_ProjectRoles t),
      t_TenantRoles = convert_roles (rv_Tenant rn) (st_TenantRoles t),
      t_AdminRole = map_option (rv_Admin rn) (st_AdminRole t),
      t_InfraRole = map_option (rv_Infra rn) (st_InfraRole t),
      t_MachineRoles = convert_roles (rv_Machine rn) (st_MachineRoles t)\<rparr>"

section \<open>The store\<close>

record token_codec =
  tc_names :: role_names
  tc_Marshal :: "stored_token \<Rightarrow> string result"
  tc_Unmarshal :: "string \<Rightarrow> stored_token result"

definition token_prefix :: string where
  "token_prefix = ''tokenstore_''"

definition key :: "string \<Rightarrow> string \<Rightarrow> string" where
  "key userid tokenid = token_prefix @ userid @ '':'' @ tokenid"

definition match :: "string \<Rightarrow> string" where
  "match userid = token_prefix @ userid @ '':'' @ ''*''"

text \<open>\<open>Set\<close> gives a token without metadata an empty one and returns the token.\<close>

definition Set ::
  "token_codec \<Rightarrow> 'st redis \<Rightarrow> time \<Rightarrow> Token \<Rightarrow> 'st \<Rightarrow> Token \<times> 'st result" where
  "Set tc r now token st =
     (let token = (if t_Meta token = None then token\<lparr>t_Meta := Some empty_Meta\<rparr> else token)
      in (token,
          case tc_Marshal tc (omitempty (toInternal (tc_names tc) token)) of
            Inl err \<Rightarrow> Inl (Internal ''unable to encode token: %w'')
          | Inr encoded \<Rightarrow>
              r_Set r (key (t_User token) (t_Uuid token)) encoded (time_Sub (AsTime (t_Expires token)) now) st))"

definition decode_token :: "token_codec \<Rightarrow> string \<Rightarrow> Token result" where
  "decode_token tc encoded =
     (case tc_Unmarshal tc encoded of
        Inl err \<Rightarrow> Inl (Internal ''unable to decode token: %w'')
      | Inr t \<Rightarrow> Inr (toExternal (tc_names tc) t))"

definition Get :: "token_codec \<Rightarrow> 'st redis \<Rightarrow> string \<Rightarrow> string \<Rightarrow> 'st \<Rightarrow> Token result" where
  "Get tc r userid tokenid st =
     (case r_Get r (key userid tokenid) st of
        Inl err \<Rightarrow> Inl (Internal ''unable to get token: %w'')
      | Inr None \<Rightarrow> Inl (NotFound ''token not found'')
      | Inr (Some encoded) \<Rightarrow> decode_token tc encoded)"

fun read_tokens ::
  "token_codec \<Rightarrow> 'st redis \<Rightarrow> 'st \<Rightarrow> string list \<Rightarrow> Token list result" where
  "read_tokens tc r st [] = Inr []"
| "read_tokens tc r st (k # ks) =
     (case r_Get r k st of
        Inl err \<Rightarrow> Inl (Internal ''unable to get token: %w'')
      | Inr None \<Rightarrow> Inl (Internal ''unable to get token: %w'')
      | Inr (Some encoded) \<Rightarrow>
          (case decode_token tc encoded of
             Inl err \<Rightarrow> Inl err
           | Inr t \<Rightarrow>
               (case read_tokens tc r st ks of
                  Inl err \<Rightarrow> Inl err
                | Inr ts \<Rightarrow> Inr (t # ts))))"

definition list_pattern :: "token_codec \<Rightarrow> 'st redis \<Rightarrow> string \<Rightarrow> 'st \<Rightarrow> Token list result" where
  "list_pattern tc r pattern st =
     (case r_Scan r pattern st of
        Inl err \<Rightarrow> Inl (Internal ''unable to iterate tokens: %w'')
      | Inr ks \<Rightarrow> read_tokens tc r st ks)"

definition List_user :: "token_codec \<Rightarrow> 'st redis \<Rightarrow> string \<Rightarrow> 'st \<Rightarrow> Token list result" where
  "List_user tc r userid st = list_pattern tc r (match userid) st"

definition AdminList :: "token_codec \<Rightarrow> 'st redis \<Rightarrow> 'st \<Rightarrow> Token list result" where
  "AdminList tc r st = list_pattern tc r (token_prefix @ ''*'') st"

definition Revoke :: "'st redis \<Rightarrow> string \<Rightarrow> string \<Rightarrow> 'st \<Rightarrow> 'st result" where
  "Revoke r userid tokenid st =
     (case r_Del r (key userid tokenid) st of
        Inl err \<Rightarrow> Inl (Internal ''unable to revoke token: %w'')
      | Inr (st', res) \<Rightarrow> if res = 0 then Inl (NotFound ''token not found'') else Inr st')"

end
