(* ===== verification/TokenRepository.thy ===== *)
theory TokenRepository
  imports TokenValidation TokenStore Repository
begin

text \<open>
  The token repository, \<^verbatim>\<open>pkg/repository/token.go\<close>, on top of the token store, with the creation
  of tokens of \<^verbatim>\<open>pkg/token/jwt.go\<close>. The state of the world is the state of the redis server and
  the token of the session in the context of the request. The current time, the generated UUID,
  the fetch of the private key and the signature are arguments.
\<close>

section \<open>New tokens\<close>

definition DefaultExpiration :: duration where
  "DefaultExpiration = Hour * 8"

definition MaxTokenExpiration :: duration where
  "MaxTokenExpiration = 365 * 24 * Hour"

record Claims =
  cl_ExpiresAt :: time
  cl_IssuedAt :: time
  cl_NotBefore :: time
  cl_ID :: string
  cl_Subject :: string
  cl_Issuer :: string
  cl_Audience :: "string list"
  cl_Type :: TokenType

record signer =
  sg_now :: time
  sg_NewV7 :: "string result"
  sg_LatestPrivate :: "unit result"
  sg_SignedString :: "Claims \<Rightarrow> string result"
  sg_issuer :: string

definition NewJWT ::
  "signer \<Rightarrow> TokenType \<Rightarrow> string \<Rightarrow> duration \<Rightarrow> (string \<times> Token) result" where
  "NewJWT sg tokenType subject expires =
     (let expires = (if expires = 0 then DefaultExpiration else expires)
      in if expires > MaxTokenExpiration then Inl (Plain ''expires: %q exceeds maximum: %q'')
      else
        (case sg_NewV7 sg of
           Inl err \<Rightarrow> Inl err
         | Inr i \<Rightarrow>
             (let issuedAt = sg_now sg;
                  expiresAt = issuedAt + expires;
                  claims = \<lparr>cl_ExpiresAt = expiresAt, cl_IssuedAt = issuedAt, cl_NotBefore = issuedAt,
                    cl_ID = i, cl_Subject = subject, cl_Issuer = sg_issuer sg,
                    cl_Audience = [sg_issuer sg], cl_Type = tokenType\<rparr>
              in case sg_SignedString sg claims of
                   Inl err \<Rightarrow> Inl (Wrapped ''unable to sign ES512 JWT: %w'' err)
                 | Inr res \<Rightarrow>
                     Inr (res, empty_Token\<lparr>t_Uuid := cl_ID claims, t_User := subject,
                       t_Expires := Some expiresAt, t_IssuedAt := Some issuedAt,
                       t_TokenType := tokenType\<rparr>))))"

definition IsAdminToken :: "Token \<Rightarrow> bool" where
  "IsAdminToken token = (t_AdminRole token \<noteq> None)"

section \<open>The repository\<close>

record TokenWithSecret =
  tws_Token :: Token
  tws_Secret :: string

record TokenQuery =
  tq_Uuid :: "string option"
  tq_User :: "string option"
  tq_Description :: "string option"
  tq_TokenType :: "TokenType option"
  tq_Labels :: "Labels option"

record 'st token_world =
  tw_redis :: 'st
  tw_session :: "Token option"

record 'st token_repository =
  tr_env :: token_env
  tr_scope :: "string option"
  tr_tc :: token_codec
  tr_redis :: "'st redis"
  tr_signer :: signer

definition tokens_Get ::
  "'st token_repository \<Rightarrow> string \<Rightarrow> string \<Rightarrow> ('st token_world, Token) action" where
  "tokens_Get t user i w = (Get (tr_tc t) (tr_redis t) user i (tw_redis w), w)"

text \<open>Writing a token also stores its metadata in it; the action returns the token.\<close>

definition tokens_Set :: "'st token_repository \<Rightarrow> Token \<Rightarrow> ('st token_world, Token) action" where
  "tokens_Set t tok w =
     (case Set (tr_tc t) (tr_redis t) (sg_now (tr_signer t)) tok (tw_redis w) of
        (tok, Inl err) \<Rightarrow> (Inl err, w)
      | (tok, Inr st) \<Rightarrow> (Inr tok, w\<lparr>tw_redis := st\<rparr>))"

definition tokens_Revoke ::
  "'st token_repository \<Rightarrow> string \<Rightarrow> string \<Rightarrow> ('st token_world, unit) action" where
  "tokens_Revoke t user i w =
     (case Revoke (tr_redis t) user i (tw_redis w) of
        Inl err \<Rightarrow> (Inl err, w)
      | Inr st \<Rightarrow> (Inr (), w\<lparr>tw_redis := st\<rparr>))"

definition scoped :: "'st token_repository \<Rightarrow> go_error \<Rightarrow> (string \<Rightarrow> ('st token_world, 'a) action) \<Rightarrow>
   ('st token_world, 'a) action" where
  "scoped t err f = (case tr_scope t of None \<Rightarrow> fail err | Some user \<Rightarrow> f user)"

definition tok_get :: "'st token_repository \<Rightarrow> string \<Rightarrow> ('st token_world, TokenWithSecret) action" where
  "tok_get t i =
     scoped t (FailedPrecondition ''tokens cannot be retrieved unscoped'') (\<lambda>user.
     bind_action (tokens_Get t user i) (\<lambda>res.
     return \<lparr>tws_Token = res, tws_Secret = ''''\<rparr>))"

definition tok_matchScope :: "'st token_repository \<Rightarrow> TokenWithSecret \<Rightarrow> bool" where
  "tok_matchScope t e =
     (case tr_scope t of None \<Rightarrow> True | Some user \<Rightarrow> t_User (tws_Token e) = user)"

definition meta_label_map :: "Token \<Rightarrow> Labels" where
  "meta_label_map tok =
     (case t_Meta tok of
        None \<Rightarrow> []
      | Some m \<Rightarrow> (case meta_Labels m of None \<Rightarrow> [] | Some labels \<Rightarrow> labels))"

definition query_matches :: "TokenQuery \<Rightarrow> Token \<Rightarrow> bool" where
  "query_matches q tok =
     (matches_field (tq_Description q) (t_Description tok) \<and>
      matches_field (tq_TokenType q) (t_TokenType tok) \<and>
      matches_field (tq_User q) (t_User tok) \<and>
      matches_field (tq_Uuid q) (t_Uuid tok) \<and>
      (case tq_Labels q of
         None \<Rightarrow> True
       | Some labels \<Rightarrow> lo_Difference (ToTags labels) (ToTags (meta_label_map tok)) = []))"

definition tok_list ::
  "'st token_repository \<Rightarrow> TokenQuery option \<Rightarrow> ('st token_world, TokenWithSecret list) action" where
  "tok_list t query w =
     (case (case tr_scope t of
              None \<Rightarrow> AdminList (tr_tc t) (tr_redis t) (tw_redis w)
            | Some user \<Rightarrow> List_user (tr_tc t) (tr_redis t) user (tw_redis w)) of
        Inl err \<Rightarrow> (Inl err, w)
      | Inr tokens \<Rightarrow>
          (Inr (filter (\<lambda>e. tok_matchScope t e \<and>
                  (case query of None \<Rightarrow> True | Some q \<Rightarrow> query_matches q (tws_Token e)))
             (map (\<lambda>tok. \<lparr>tws_Token = tok, tws_Secret = ''''\<rparr>) tokens)), w))"

definition tok_find ::
  "'st token_repository \<Rightarrow> errorutil \<Rightarrow> TokenQuery option \<Rightarrow> ('st token_world, TokenWithSecret) action" where
  "tok_find t eu query =
     (if query = None then fail (InvalidArgument ''query must be specified'')
      else
        bind_action (on_error (eu_Convert eu) (tok_list t query)) (\<lambda>toks.
        case toks of
          [] \<Rightarrow> fail (NotFound ''unable to find a token by the specified query'')
        | [tok] \<Rightarrow> return tok
        | _ \<Rightarrow> fail (Internal ''found multiple tokens by the specified query'')))"

text \<open>The copy of the requested roles and permissions into a new token.\<close>

definition with_request :: "TokenCreateRequest \<Rightarrow> MethodPermission list \<Rightarrow> Token \<Rightarrow> Token" where
  "with_request req permissions tok =
     tok\<lparr>t_Description := tcr_Description req, t_Permissions := permissions,
        t_ProjectRoles := tcr_ProjectRoles req, t_TenantRoles := tcr_TenantRoles req,
        t_AdminRole := tcr_AdminRole req, t_InfraRole := tcr_InfraRole req,
        t_MachineRoles := tcr_MachineRoles req\<rparr>"

definition meta_of :: "Token \<Rightarrow> Meta" where
  "meta_of tok = (case t_Meta tok of None \<Rightarrow> empty_Meta | Some m \<Rightarrow> m)"

definition expires_duration :: "duration option \<Rightarrow> duration" where
  "expires_duration d = (case d of None \<Rightarrow> 0 | Some d \<Rightarrow> d)"

definition tok_create ::
  "'st token_repository \<Rightarrow> TokenCreateRequest \<Rightarrow> ('st token_world, TokenWithSecret) action" where
  "tok_create t req =
     scoped t (FailedPrecondition ''tokens cannot be created unscoped'') (\<lambda>user.
     let user = (case tcr_User req of None \<Rightarrow> user | Some u \<Rightarrow> u) in
     bind_action (on_error (\<lambda>_. Internal ''%w'') (lift_result (sg_LatestPrivate (tr_signer t)))) (\<lambda>_.
     bind_action (on_error (\<lambda>_. Internal ''%w'')
       (lift_result (NewJWT (tr_signer t) TOKEN_TYPE_API user (expires_duration (tcr_Expires req)))))
       (\<lambda>(secret, tok).
     bind_action (lift_result (deref_permissions (flattenPermissions (tcr_Permissions req)))) (\<lambda>permissions.
     let tok = with_request req permissions tok;
         tok = tok\<lparr>t_Meta := Some ((meta_of tok)\<lparr>meta_Generation := 1,
           meta_CreatedAt := t_IssuedAt tok, meta_Labels := tcr_Labels req\<rparr>)\<rparr> in
     bind_action (tokens_Set t tok) (\<lambda>tok.
     return \<lparr>tws_Token = tok, tws_Secret = secret\<rparr>)))))"

definition tok_delete ::
  "'st token_repository \<Rightarrow> TokenWithSecret \<Rightarrow> ('st token_world, string option) action" where
  "tok_delete t e =
     scoped t (FailedPrecondition ''tokens cannot be revoked unscoped'') (\<lambda>user.
     bind_action (tokens_Revoke t user (t_Uuid (tws_Token e))) (\<lambda>_. return None))"

text \<open>The fields that an update request sets; the others keep their value.\<close>

definition apply_update :: "TokenUpdateRequest \<Rightarrow> MethodPermission list \<Rightarrow> Token \<Rightarrow> Token" where
  "apply_update req permissions tok =
     (let tok = (case tur_Description req of None \<Rightarrow> tok | Some d \<Rightarrow> tok\<lparr>t_Description := d\<rparr>);
          tok = (case tur_AdminRole req of
                   None \<Rightarrow> tok
                 | Some r \<Rightarrow> tok\<lparr>t_AdminRole := if r = ADMIN_ROLE_UNSPECIFIED then None else Some r\<rparr>);
          tok = (if tur_Permissions req = [] then tok else tok\<lparr>t_Permissions := permissions\<rparr>);
          tok = (case tur_ProjectRoles req of None \<Rightarrow> tok | Some m \<Rightarrow> tok\<lparr>t_ProjectRoles := m\<rparr>);
          tok = (case tur_TenantRoles req of None \<Rightarrow> tok | Some m \<Rightarrow> tok\<lparr>t_TenantRoles := m\<rparr>);
          tok = (case tur_InfraRole req of None \<Rightarrow> tok | Some r \<Rightarrow> tok\<lparr>t_InfraRole := Some r\<rparr>)
      in case tur_MachineRoles req of None \<Rightarrow> tok | Some m \<Rightarrow> tok\<lparr>t_MachineRoles := m\<rparr>)"

definition touch_meta :: "time \<Rightarrow> LabelStrategy option \<Rightarrow> Token \<Rightarrow> Token" where
  "touch_meta now labels tok =
     (let meta = (meta_of tok)\<lparr>meta_Generation := meta_Generation (meta_of tok) + 1,
                               meta_UpdatedAt := Some now\<rparr>
      in tok\<lparr>t_Meta := Some
           (if labels = None then meta
            else meta\<lparr>meta_Labels := Some (updateLabelsOnMap labels
                   (case meta_Labels meta of None \<Rightarrow> [] | Some l \<Rightarrow> l))\<rparr>)\<rparr>)"

definition tok_update ::
  "'st token_repository \<Rightarrow> TokenWithSecret \<Rightarrow> TokenUpdateRequest \<Rightarrow> ('st token_world, TokenWithSecret) action" where
  "tok_update t tokenToUpdate req =
     scoped t (FailedPrecondition ''tokens cannot be updated unscoped'') (\<lambda>user.
     if t_TokenType (tws_Token tokenToUpdate) \<noteq> TOKEN_TYPE_API
     then fail (FailedPrecondition ''only updating API tokens is currently supported'')
     else
       bind_action (lift_result (deref_permissions (flattenPermissions (tur_Permissions req)))) (\<lambda>permissions.
       let tok = touch_meta (sg_now (tr_signer t)) (tur_Labels req)
                   (apply_update req permissions (tws_Token tokenToUpdate)) in
       bind_action (tokens_Set t tok) (\<lambda>tok.
       return \<lparr>tws_Token = tok, tws_Secret = ''''\<rparr>)))"

section \<open>Tokens without a permission check\<close>

definition unscoped :: "'st token_repository \<Rightarrow> ('st token_world, 'a) action \<Rightarrow> ('st token_world, 'a) action" where
  "unscoped t a =
     (if tr_scope t \<noteq> None
      then fail (FailedPrecondition ''tokens without permission check can only be created unscoped'')
      else a)"

definition CreateUserTokenWithoutPermissionCheck ::
  "'st token_repository \<Rightarrow> string \<Rightarrow> duration option \<Rightarrow> ('st token_world, TokenWithSecret) action" where
  "CreateUserTokenWithoutPermissionCheck t subject expiration =
     unscoped t
       (let expires = (case expiration of None \<Rightarrow> DefaultExpiration | Some d \<Rightarrow> d) in
        bind_action (on_error (\<lambda>_. Internal ''unable to fetch signing certificate: %w'')
          (lift_result (sg_LatestPrivate (tr_signer t)))) (\<lambda>_.
        bind_action (on_error (\<lambda>_. Internal ''unable to create console token: %w'')
          (lift_result (NewJWT (tr_signer t) TOKEN_TYPE_USER subject expires))) (\<lambda>(secret, tok).
        bind_action (tokens_Set t tok) (\<lambda>tok.
        return \<lparr>tws_Token = tok, tws_Secret = secret\<rparr>))))"

definition CreateApiTokenWithoutPermissionCheck ::
  "'st token_repository \<Rightarrow> string \<Rightarrow> TokenCreateRequest \<Rightarrow> ('st token_world, TokenWithSecret) action" where
  "CreateApiTokenWithoutPermissionCheck t subject req =
     unscoped t
       (let expires = (case tcr_Expires req of None \<Rightarrow> DefaultExpiration | Some d \<Rightarrow> d) in
        bind_action (on_error (\<lambda>_. Internal ''%w'') (lift_result (sg_LatestPrivate (tr_signer t)))) (\<lambda>_.
        bind_action (on_error (\<lambda>_. Internal ''%w'')
          (lift_result (NewJWT (tr_signer t) TOKEN_TYPE_API subject expires))) (\<lambda>(secret, tok).
        bind_action (lift_result (deref_permissions (flattenPermissions (tcr_Permissions req)))) (\<lambda>permissions.
        bind_action (tokens_Set t (with_request req permissions tok)) (\<lambda>tok.
        return \<lparr>tws_Token = tok, tws_Secret = secret\<rparr>)))))"

section \<open>Refreshing a token\<close>

definition full_user_token ::
  "string \<Rightarrow> ProjectsAndTenants \<Rightarrow> AdminRole option \<Rightarrow> Token \<Rightarrow> Token" where
  "full_user_token user pat role tok =
     empty_Token
       \<lparr>t_User := user, t_Permissions := t_Permissions tok, t_ProjectRoles := pat_ProjectRoles pat,
        t_TenantRoles := pat_TenantRoles pat, t_AdminRole := role, t_InfraRole := t_InfraRole tok,
        t_MachineRoles := t_MachineRoles tok\<rparr>"

definition refreshed_token :: "Token \<Rightarrow> Token \<Rightarrow> Token" where
  "refreshed_token currentToken newToken =
     (let tok = newToken
           \<lparr>t_Description := t_Description currentToken, t_Permissions := t_Permissions currentToken,
            t_ProjectRoles := t_ProjectRoles currentToken, t_TenantRoles := t_TenantRoles currentToken,
            t_AdminRole := t_AdminRole currentToken, t_InfraRole := t_InfraRole currentToken,
            t_MachineRoles := t_MachineRoles currentToken\<rparr>;
          meta = (meta_of tok)\<lparr>meta_Generation := 1, meta_CreatedAt := t_IssuedAt tok\<rparr>
      in tok\<lparr>t_Meta := Some (case t_Meta currentToken of
                None \<Rightarrow> meta | Some m \<Rightarrow> meta\<lparr>meta_Labels := meta_Labels m\<rparr>)\<rparr>)"

text \<open>The validation of the session token changes it; the second check builds on the result.\<close>

definition validate_session ::
  "'st token_repository \<Rightarrow> Token \<Rightarrow> ('st token_world, Token) action" where
  "validate_session t requested w =
     (case tw_session w of
        None \<Rightarrow> (Inl (Unauthenticated ''no token found in request''), w)
      | Some tok \<Rightarrow>
          (case validateTokenRequest (te_sp (tr_env t)) (te_patg (tr_env t)) tok requested of
             (tok, Inl err) \<Rightarrow> (Inl (PermissionDenied ''%w''), w\<lparr>tw_session := Some tok\<rparr>)
           | (tok, Inr _) \<Rightarrow> (Inr tok, w\<lparr>tw_session := Some tok\<rparr>)))"

definition Refresh ::
  "'st token_repository \<Rightarrow> string \<Rightarrow> ('st token_world, TokenWithSecret) action" where
  "Refresh t uuid =
     scoped t (FailedPrecondition ''tokens cannot be refreshed unscoped'') (\<lambda>user.
     bind_action (tokens_Get t user uuid) (\<lambda>currentToken.
     bind_action (validate_session t currentToken) (\<lambda>tok.
     bind_action (on_error (\<lambda>_. Internal ''%w'') (lift_result (te_patg (tr_env t) user))) (\<lambda>pat.
     bind_action (on_error (\<lambda>_. PermissionDenied ''%w'') (lift_result
       (snd (validateTokenRequest (te_sp (tr_env t)) (te_patg (tr_env t))
          (full_user_token user pat (hasAdminRole (te_providerTenant (tr_env t)) pat) tok)
          currentToken)))) (\<lambda>_.
     bind_action (on_error (\<lambda>_. Internal ''%w'') (lift_result (sg_LatestPrivate (tr_signer t)))) (\<lambda>_.
     let expires = time_Sub (AsTime (t_Expires currentToken)) (AsTime (t_IssuedAt currentToken)) in
     bind_action (on_error (\<lambda>_. Internal ''%w'')
       (lift_result (NewJWT (tr_signer t) TOKEN_TYPE_API user expires))) (\<lambda>(secret, newToken).
     bind_action (tokens_Set t (refreshed_token currentToken newToken)) (\<lambda>newToken.
     return \<lparr>tws_Token = newToken, tws_Secret = secret\<rparr>))))))))"

section \<open>The repository as the store sees it\<close>

definition tok_validateCreate ::
  "'st token_repository \<Rightarrow> TokenCreateRequest \<Rightarrow> ('st token_world, TokenCreateRequest) action" where
  "tok_validateCreate t req w =
     (case validateCreate (tr_env t) (tr_scope t) (tw_session w) req of
        (session, req, Inl err) \<Rightarrow> (Inl err, w\<lparr>tw_session := session\<rparr>)
      | (session, req, Inr _) \<Rightarrow> (Inr req, w\<lparr>tw_session := session\<rparr>))"

definition tok_validateUpdate ::
  "'st token_repository \<Rightarrow> TokenUpdateRequest \<Rightarrow> TokenWithSecret \<Rightarrow> ('st token_world, TokenUpdateRequest) action" where
  "tok_validateUpdate t req e w =
     (case validateUpdate (tr_env t) (tr_scope t) (tw_session w) req (tws_Token e) of
        (session, req, Inl err) \<Rightarrow> (Inl err, w\<lparr>tw_session := session\<rparr>)
      | (session, req, Inr _) \<Rightarrow> (Inr req, w\<lparr>tw_session := session\<rparr>))"

definition token_operations ::
  "errorutil \<Rightarrow> 'st token_repository \<Rightarrow>
   ('st token_world, TokenWithSecret, TokenWithSecret, TokenCreateRequest, TokenUpdateRequest,
    TokenQuery option) repository" where
  "token_operations eu t =
     \<lparr>rp_validateCreate = tok_validateCreate t, rp_create = tok_create t, rp_get = tok_get t,
      rp_find = tok_find t eu, rp_list = tok_list t, rp_matchScope = tok_matchScope t,
      rp_validateUpdate = tok_validateUpdate t, rp_update = tok_update t,
      rp_validateDelete = (\<lambda>e. return ()), rp_delete = tok_delete t,
      rp_convertToProto = return,
      rp_updateMeta = tur_UpdateMeta,
      rp_SetChanged = (\<lambda>_ e. e), rp_setDeletionTask = (\<lambda>_ e. e)\<rparr>"

interpretation token_repo: scoped_repository "token_operations eu t" tw_redis
proof
  show "tw_redis (snd (rp_get (token_operations eu t) i w)) = tw_redis w" for i w
    by (auto simp: token_operations_def tok_get_def scoped_def tokens_Get_def bind_action_def
        split: option.splits sum.splits)
  show "tw_redis (snd (rp_validateCreate (token_operations eu t) c w)) = tw_redis w" for c w
    by (auto simp: token_operations_def tok_validateCreate_def split: prod.splits sum.splits)
  show "tw_redis (snd (rp_validateUpdate (token_operations eu t) u e w)) = tw_redis w" for u e w
    by (auto simp: token_operations_def tok_validateUpdate_def split: prod.splits sum.splits)
qed (simp add: token_operations_def)

end
