(* ===== verification/TokenValidationProps.thy ===== *)
theory TokenValidationProps
  imports TokenValidation
begin

text \<open>
  Properties of the token validation: compaction keeps the meaning of a permission list, and a
  validated request gives the new token no more than the token and the user that request it have.
\<close>

section \<open>Compaction\<close>

text \<open>A permission without its methods stands for its visibility and subject.\<close>

abbreviation target :: "PermissionsByVisibility \<Rightarrow> PermissionsByVisibility" where
  "target \<equiv> with_methods []"

definition perm_grants :: "PermissionsByVisibility list \<Rightarrow> (PermissionsByVisibility \<times> string) set" where
  "perm_grants ps = (\<Union>p\<in>set ps. {target p} \<times> set (perm_methods p))"

lemma same_target_iff: "same_target p q \<longleftrightarrow> p \<noteq> Perm_Unset \<and> target q = target p"
  by (cases p; cases q) auto

lemma with_methods_simps [simp]:
  "with_methods ms (with_methods ns p) = with_methods ms p"
  "with_methods ms p = Perm_Unset \<longleftrightarrow> p = Perm_Unset"
  "p \<noteq> Perm_Unset \<Longrightarrow> perm_methods (with_methods ms p) = ms"
  by (cases p; simp)+

lemma perm_grants_simps [simp]:
  "perm_grants [] = {}"
  "perm_grants (p # ps) = {target p} \<times> set (perm_methods p) \<union> perm_grants ps"
  "perm_grants (ps @ qs) = perm_grants ps \<union> perm_grants qs"
  by (auto simp: perm_grants_def)

definition compact :: "PermissionsByVisibility list \<Rightarrow> bool" where
  "compact ps \<longleftrightarrow> distinct (map target ps) \<and>
     (\<forall>p\<in>set ps. p \<noteq> Perm_Unset \<and> sorted (perm_methods p) \<and> distinct (perm_methods p))"

lemma compact_step_new:
  assumes "p \<noteq> Perm_Unset" and "index_func (same_target p) res = None"
  shows "compact_step p res = res @ [with_methods (sortUniq (perm_methods p)) p]"
    and "target p \<notin> target ` set res"
proof -
  show "compact_step p res = res @ [with_methods (sortUniq (perm_methods p)) p]"
    using assms by (simp add: compact_step_def)
  show "target p \<notin> target ` set res"
    using assms by (auto simp: index_func_None same_target_iff)
qed

lemma compact_step_known:
  assumes "p \<noteq> Perm_Unset" and "index_func (same_target p) res = Some i"
  obtains xs q ys where "res = xs @ q # ys" "target q = target p"
    "compact_step p res = xs @ with_methods (sortUniq (perm_methods q @ perm_methods p)) q # ys"
proof -
  from index_func_SomeD [OF assms(2)] have i: "i < length res" "target (res ! i) = target p"
    by (auto simp: same_target_iff)
  show thesis
  proof (rule that)
    show "res = take i res @ res ! i # drop (Suc i) res" by (rule id_take_nth_drop [OF i(1)])
    show "compact_step p res = take i res @
        with_methods (sortUniq (perm_methods (res ! i) @ perm_methods p)) (res ! i) # drop (Suc i) res"
      using assms i(1) by (simp add: compact_step_def upd_conv_take_nth_drop)
  qed (rule i(2))
qed

lemma compact_step_correct:
  assumes "compact res"
  shows "compact (compact_step p res) \<and> perm_grants (compact_step p res) = perm_grants res \<union> perm_grants [p]"
proof (cases "p = Perm_Unset")
  case True
  with assms show ?thesis by (simp add: compact_step_def)
next
  case False
  show ?thesis
  proof (cases "index_func (same_target p) res")
    case None
    from compact_step_new [OF False None] assms False show ?thesis
      by (auto simp: compact_def)
  next
    case (Some i)
    from compact_step_known [OF False Some] obtain xs q ys where *: "res = xs @ q # ys"
      "target q = target p"
      "compact_step p res = xs @ with_methods (sortUniq (perm_methods q @ perm_methods p)) q # ys" .
    from assms have "q \<noteq> Perm_Unset" by (simp add: compact_def *(1))
    with * assms show ?thesis by (auto simp: compact_def)
  qed
qed

lemma compactPermissions_correct:
  "compact (compactPermissions ps) \<and> perm_grants (compactPermissions ps) = perm_grants ps"
proof -
  have "compact (fold compact_step ps res) \<and>
      perm_grants (fold compact_step ps res) = perm_grants res \<union> perm_grants ps" if "compact res" for res
    using that
  proof (induction ps arbitrary: res)
    case (Cons p ps)
    from compact_step_correct [OF Cons.prems, of p] Cons.IH [of "compact_step p res"]
    show ?case by auto
  qed simp
  from this [of "[]"] show ?thesis by (simp add: compactPermissions_def compact_def)
qed

lemma flattenPermission_None: "flattenPermission p = None \<longleftrightarrow> p = Perm_Unset"
  by (cases p) auto

lemma flatten_compact_defined:
  "None \<notin> set (flattenPermissions (compactPermissions ps))"
proof
  assume "None \<in> set (flattenPermissions (compactPermissions ps))"
  then obtain p where "p \<in> set (compactPermissions ps)" "flattenPermission p = None"
    by (auto simp: flattenPermissions_def)
  then show False
    using compactPermissions_correct [of ps] by (auto simp: compact_def flattenPermission_None)
qed

lemma those_defined: "None \<notin> set xs \<Longrightarrow> those xs \<noteq> None"
proof (induction xs)
  case (Cons x xs)
  then show ?case by (cases x) simp_all
qed simp

text \<open>
  C16: compacting a permission list keeps, for every visibility and subject, exactly the
  methods it grants, leaves one entry for each of them with sorted methods that occur once, and
  the flat list made from it has no nil entry, so that reading it does not panic.
\<close>

theorem compact_permissions_equivalent:
  "perm_grants (compactPermissions ps) = perm_grants ps \<and>
   distinct (map target (compactPermissions ps)) \<and>
   list_all (\<lambda>p. sorted (perm_methods p) \<and> distinct (perm_methods p)) (compactPermissions ps) \<and>
   is_ok (deref_permissions (flattenPermissions (compactPermissions ps)))"
  using compactPermissions_correct [of ps] those_defined [OF flatten_compact_defined [of ps]]
  by (auto simp: compact_def list_all_iff deref_permissions_def)

section \<open>No escalation\<close>

lemma check_methods_ok:
  "check_methods cur req ms = Inr () \<longleftrightarrow>
     (\<forall>m\<in>set ms. has_key req m \<longrightarrow> has_key cur m \<and>
        (allows cur m AnySubject \<or> allows req m AnySubject \<or> (\<forall>s. allows req m s \<longrightarrow> allows cur m s)))"
  by (induction ms)
     (auto simp: has_key_iff allows_def map_get_def list_ex_iff split: option.splits if_splits)

lemma allows_has_key: "allows tp m s \<Longrightarrow> has_key tp m"
  by (cases "map_of tp m") (simp_all add: allows_def map_get_def has_key_iff)

lemma validateTokenRequest_okD:
  assumes "validateTokenRequest sp patg current requested = (current', Inr ())"
  obtains cp rp where "getTokenPermissions sp (adminViewerMethods sp) patg current = (current', Inr cp)"
    "check_requested_roles sp current' requested = Inr ()"
    "TokenPermissions sp (adminViewerMethods sp) patg
       (Some (requested_permissions_token current' requested)) = Inr rp"
    "\<And>m s. allows rp m s \<Longrightarrow> allows cp m AnySubject \<or> allows rp m AnySubject \<or> allows cp m s"
proof -
  from assms obtain cp where cp: "getTokenPermissions sp (adminViewerMethods sp) patg current = (current', Inr cp)"
    and roles: "check_requested_roles sp current' requested = Inr ()"
    by (auto simp: validateTokenRequest_def Let_def split: prod.splits sum.splits)
  from assms obtain rp where rp: "TokenPermissions sp (adminViewerMethods sp) patg
       (Some (requested_permissions_token current' requested)) = Inr rp"
    and "check_methods cp rp (sort (map_keys rp)) = Inr ()"
    by (auto simp: validateTokenRequest_def Let_def cp roles split: sum.splits)
  then have "allows cp m AnySubject \<or> allows rp m AnySubject \<or> allows cp m s" if "allows rp m s" for m s
    using that allows_has_key [OF that] by (auto simp: check_methods_ok has_key_def)
  with cp roles rp show thesis by (rule that)
qed

lemma getTokenPermissions_user_of: "t_User (fst (getTokenPermissions sp vm patg t)) = t_User t"
  by (auto simp: getTokenPermissions_def normalize_user_token_def Let_def split: sum.splits)

text \<open>The token that the repository stores for a validated request.\<close>

definition issued_from :: "Token \<Rightarrow> string \<Rightarrow> Token \<Rightarrow> bool" where
  "issued_from requested user t \<longleftrightarrow> t_User t = user \<and> t_TokenType t = TOKEN_TYPE_API \<and>
     t_Permissions t = t_Permissions requested \<and> t_ProjectRoles t = t_ProjectRoles requested \<and>
     t_TenantRoles t = t_TenantRoles requested \<and> t_AdminRole t = t_AdminRole requested \<and>
     t_InfraRole t = t_InfraRole requested \<and> t_MachineRoles t = t_MachineRoles requested"

lemma role_permissions_cong:
  assumes "t_Permissions t = t_Permissions u" "t_ProjectRoles t = t_ProjectRoles u"
    "t_TenantRoles t = t_TenantRoles u" "t_AdminRole t = t_AdminRole u" "t_InfraRole t = t_InfraRole u"
    "t_MachineRoles t = t_MachineRoles u" "t_TokenType t \<noteq> TOKEN_TYPE_USER" "t_TokenType u \<noteq> TOKEN_TYPE_USER"
  shows "role_permissions sp vm pat t = role_permissions sp vm pat u"
  using assms by (simp add: role_permissions_def add_user_methods_def)

lemma no_escalation:
  assumes "validateTokenRequest sp patg current requested = (current', Inr ())"
    and "t_User current \<noteq> ''''" and "patg (t_User current) = Inr pat"
    and "t_AdminRole requested = None" and "t_InfraRole requested \<noteq> Some INFRA_ROLE_UNSPECIFIED"
    and "issued_from requested (t_User current) new"
    and "scoped_method sp m" and "\<not> member_of sp pat m AnySubject"
    and "authorize sp patg (Some new) m s = Inr ()"
  shows "authorize sp patg (Some current) m s = Inr ()"
proof -
  let ?vm = "adminViewerMethods sp"
  from assms(1) obtain cp rp where
    cp: "getTokenPermissions sp ?vm patg current = (current', Inr cp)"
    and rp: "TokenPermissions sp ?vm patg (Some (requested_permissions_token current' requested)) = Inr rp"
    and sub: "\<And>m s. allows rp m s \<Longrightarrow> allows cp m AnySubject \<or> allows rp m AnySubject \<or> allows cp m s"
    by (rule validateTokenRequest_okD) blast
  let ?r = "requested_permissions_token current' requested"
  have user: "t_User current' = t_User current"
    using getTokenPermissions_user_of [of sp ?vm patg current] by (simp add: cp)
  have r: "normalize_user_token pat ?r = ?r" "t_AdminRole ?r = None" "t_User ?r = t_User current"
    using assms(4) user
    by (simp_all add: normalize_user_token_def requested_permissions_token_def empty_Token_def)
  have new: "normalize_user_token pat new = new" "t_AdminRole new = None" "t_User new = t_User current"
    using assms(4,6) by (simp_all add: issued_from_def normalize_user_token_def)
  have same: "role_permissions sp ?vm pat new = role_permissions sp ?vm pat ?r"
    using assms(4-6)
    by (intro role_permissions_cong)
       (simp_all add: issued_from_def requested_permissions_token_def empty_Token_def)
  have "rp = role_permissions sp ?vm pat new"
    using rp assms(2,3) r same by (simp add: TokenPermissions_def getTokenPermissions_user)
  moreover have "t_TokenType new = TOKEN_TYPE_API"
    using assms(6) by (simp add: issued_from_def)
  ultimately have any: "\<not> allows rp m AnySubject"
    using assms(7,8) new(2) membership_allows_member by (auto simp: allows_role_permissions)
  have "TokenPermissions sp ?vm patg (Some new) = Inr rp"
    using \<open>rp = _\<close> new assms(2,3) by (simp add: TokenPermissions_def getTokenPermissions_user)
  then have "has_key (sp_Methods sp) m" "allows rp m s"
    using assms(9) any by (auto simp: authorize_ok_iff)
  with sub any show ?thesis
    by (auto simp: authorize_ok_iff TokenPermissions_def cp)
qed

text \<open>
  C17: no escalation. When the validation accepts a request without an admin role, then a
  token issued from it to the same user can call a method of projects or tenants on a subject
  only if the token that made the request can, at the same memberships. The request does not ask for the
  unspecified role for infrastructure, and no project or tenant of the user is named by the wildcard.
\<close>

theorem validated_token_no_escalation:
  assumes "validateTokenRequest sp patg current requested = (current', Inr ())"
    and "t_User current \<noteq> ''''" and "patg (t_User current) = Inr pat"
    and "t_AdminRole requested = None" and "t_InfraRole requested \<noteq> Some INFRA_ROLE_UNSPECIFIED"
    and "issued_from requested (t_User current) new"
    and "scoped_method sp m" and "\<not> member_of sp pat m AnySubject"
    and "authorize sp patg (Some new) m s = Inr ()"
  shows "authorize sp patg (Some current) m s = Inr ()"
  using assms by (rule no_escalation)

theorem validated_token_no_escalation_witness:
  "\<exists>current'. validateTokenRequest example_sp (\<lambda>_. Inr example_pat) example_user_token example_api_token =
     (current', Inr ()) \<and>
   authorize example_sp (\<lambda>_. Inr example_pat) (Some example_user_token) ''/Project/Get'' ''p2'' = Inr ()"
proof -
  let ?v = "validateTokenRequest example_sp (\<lambda>_. Inr example_pat) example_user_token example_api_token"
  have "snd ?v = Inr ()" by code_simp
  then have v: "?v = (fst ?v, Inr ())" by (metis prod.collapse)
  have "authorize example_sp (\<lambda>_. Inr example_pat) (Some example_api_token) ''/Project/Get'' ''p2'' = Inr ()"
    "scoped_method example_sp ''/Project/Get''"
    "\<not> member_of example_sp example_pat ''/Project/Get'' AnySubject"
    by code_simp+
  moreover have "issued_from example_api_token (t_User example_user_token) example_api_token"
    "t_User example_user_token \<noteq> ''''" "t_AdminRole example_api_token = None"
    "t_InfraRole example_api_token \<noteq> Some INFRA_ROLE_UNSPECIFIED"
    by (simp_all add: issued_from_def example_api_token_def example_user_token_def empty_Token_def)
  ultimately have "authorize example_sp (\<lambda>_. Inr example_pat) (Some example_user_token) ''/Project/Get'' ''p2'' = Inr ()"
    using validated_token_no_escalation [OF v, of example_pat example_api_token] by simp
  with v show ?thesis by blast
qed

end
