(* ===== verification/TokenStoreProps.thy ===== *)
theory TokenStoreProps
  imports TokenStore PermissionsProps
begin

text \<open>
  Properties of the token store: what is read back after a write, what a revocation leaves, and
  that the stored form keeps everything the authorization looks at.
\<close>

section \<open>The stored form\<close>

text \<open>A role whose name the generated maps know.\<close>

definition known_names :: "role_names \<Rightarrow> Token \<Rightarrow> bool" where
  "known_names rn t \<longleftrightarrow>
     (\<forall>r\<in>snd ` set (t_ProjectRoles t). rv_Project rn (rn_Project rn r) = r) \<and>
     (\<forall>r\<in>snd ` set (t_TenantRoles t). rv_Tenant rn (rn_Tenant rn r) = r) \<and>
     (\<forall>r\<in>snd ` set (t_MachineRoles t). rv_Machine rn (rn_Machine rn r) = r) \<and>
     (\<forall>r. t_AdminRole t = Some r \<longrightarrow> rv_Admin rn (rn_Admin rn r) = r) \<and>
     (\<forall>r. t_InfraRole t = Some r \<longrightarrow> rv_Infra rn (rn_Infra rn r) = r)"

text \<open>A Go map has every key once.\<close>

definition proper_maps :: "Token \<Rightarrow> bool" where
  "proper_maps t \<longleftrightarrow> distinct (map_keys (t_ProjectRoles t)) \<and> distinct (map_keys (t_TenantRoles t)) \<and>
     distinct (map_keys (t_MachineRoles t))"

lemma convert_roles_map:
  assumes "distinct (map_keys roles)"
  shows "convert_roles f roles = map (\<lambda>(k, r). (k, f r)) roles"
proof -
  have "fold (\<lambda>(k, r). AList.update k (f r)) roles acc = acc @ map (\<lambda>(k, r). (k, f r)) roles"
    if "distinct (map_keys roles)" "set (map_keys roles) \<inter> set (map_keys acc) = {}"
    for acc and roles :: "(string \<times> 'a) list"
    using that
  proof (induction roles arbitrary: acc)
    case (Cons x roles)
    obtain k r where x: "x = (k, r)" by (cases x)
    with Cons.prems have "k \<notin> fst ` set acc" by (auto simp: map_keys_def)
    then have "AList.update k (f r) acc = acc @ [(k, f r)]" by (rule update_new)
    with Cons x show ?case by (auto simp: map_keys_def)
  qed simp
  from this [of roles "[]"] assms show ?thesis by (simp add: convert_roles_def)
qed

lemma convert_roles_inverse:
  assumes "distinct (map_keys roles)" and "\<forall>r\<in>snd ` set roles. g (f r) = r"
  shows "convert_roles g (convert_roles f roles) = roles"
proof -
  have "map_keys (map (\<lambda>(k, r). (k, f r)) roles) = map_keys roles"
    by (simp add: map_keys_def comp_def split_beta)
  moreover have "map (\<lambda>x. (fst x, g (f (snd x)))) roles = roles"
    using assms(2) by (intro map_idI) auto
  ultimately show ?thesis
    using assms(1) by (simp add: convert_roles_map comp_def split_beta)
qed

definition reloaded :: "Token \<Rightarrow> Token" where
  "reloaded t = t\<lparr>t_Meta := Some
     \<lparr>meta_Labels = (case t_Meta t of None \<Rightarrow> None | Some m \<Rightarrow>
        (case meta_Labels m of Some [] \<Rightarrow> None | labels \<Rightarrow> labels)),
      meta_CreatedAt = t_IssuedAt t,
      meta_UpdatedAt = (case t_Meta t of None \<Rightarrow> None | Some m \<Rightarrow> meta_UpdatedAt m),
      meta_Generation = 0\<rparr>\<rparr>"

lemma toExternal_toInternal:
  assumes "known_names rn t" and "proper_maps t"
  shows "toExternal rn (omitempty (toInternal rn t)) = reloaded t"
proof -
  have roles: "convert_roles (rv_Project rn) (convert_roles (rn_Project rn) (t_ProjectRoles t)) = t_ProjectRoles t"
    "convert_roles (rv_Tenant rn) (convert_roles (rn_Tenant rn) (t_TenantRoles t)) = t_TenantRoles t"
    "convert_roles (rv_Machine rn) (convert_roles (rn_Machine rn) (t_MachineRoles t)) = t_MachineRoles t"
    using assms by (simp_all add: known_names_def proper_maps_def convert_roles_inverse)
  have single: "map_option (rv_Admin rn) (map_option (rn_Admin rn) (t_AdminRole t)) = t_AdminRole t"
    "map_option (rv_Infra rn) (map_option (rn_Infra rn) (t_InfraRole t)) = t_InfraRole t"
    using assms(1) by (cases "t_AdminRole t"; cases "t_InfraRole t"; simp add: known_names_def)+
  have perms: "map ((\<lambda>p. \<lparr>mp_Subject = mp_Subject p, mp_Methods = mp_Methods p\<rparr>) \<circ>
      (\<lambda>p. \<lparr>mp_Subject = mp_Subject p, mp_Methods = mp_Methods p\<rparr>)) ps = ps" for ps :: "MethodPermission list"
    by (induction ps) simp_all
  show ?thesis
    by (simp add: toExternal_def toInternal_def omitempty_def reloaded_def roles single perms split: option.split)
qed

lemma reloaded_simps [simp]:
  "t_User (reloaded t) = t_User t" "t_Uuid (reloaded t) = t_Uuid t"
  "t_TokenType (reloaded t) = t_TokenType t"
  by (simp_all add: reloaded_def)

lemma authorize_reloaded: "authorize sp patg (Some (reloaded t)) m s = authorize sp patg (Some t) m s"
proof -
  have norm: "normalize_user_token pat (reloaded t) = (normalize_user_token pat t)\<lparr>t_Meta := t_Meta (reloaded t)\<rparr>"
    for pat
    by (simp add: normalize_user_token_def reloaded_def)
  have rp: "role_permissions sp vm pat (t\<lparr>t_Meta := x\<rparr>) = role_permissions sp vm pat t" for vm pat t x
    by (simp add: role_permissions_def)
  have "TokenPermissions sp vm patg (Some (reloaded t)) = TokenPermissions sp vm patg (Some t)" for vm
    unfolding TokenPermissions_def getTokenPermissions_def reloaded_simps option.case norm rp Let_def
    by (simp split: sum.splits)
  then show ?thesis by (simp add: authorize_def)
qed

section \<open>Keys\<close>

lemma key_inject:
  assumes "key u t = key u' t'" and "CHR '':'' \<notin> set t" and "CHR '':'' \<notin> set t'"
  shows "u = u' \<and> t = t'"
proof -
  have "rev t @ CHR '':'' # rev u = rev t' @ CHR '':'' # rev u'"
    using arg_cong [OF assms(1), of rev] by (simp add: key_def)
  moreover have "CHR '':'' \<notin> set (rev t)" "CHR '':'' \<notin> set (rev t')" using assms by simp_all
  ultimately have "rev t = rev t' \<and> rev u = rev u'"
    by (rule split_first)
  then show ?thesis by simp
qed

lemma match_key: "plain_pattern u \<Longrightarrow> match u = (token_prefix @ u @ '':'') @ ''*'' \<and> plain_pattern (token_prefix @ u @ '':'')"
  by (simp add: match_def plain_pattern_def token_prefix_def)

section \<open>Properties\<close>

text \<open>
  C18: a token that was stored is read back with everything but its metadata unchanged, and is
  authorized for the same requests; of the metadata the time of the last update and the labels are kept,
  where a label map without an entry is nil afterwards, the creation time is the one of the token and the
  generation is lost. The roles must be ones the enumerations know, every key of a map occurs once, and the JSON codec must
  decode what it has encoded of this token once the empty fields are left out, as it does for text
  in UTF-8.
\<close>

theorem stored_token_read_back:
  assumes "redis_server r view"
    and "\<And>x. tc_Marshal tc (omitempty (toInternal (tc_names tc) t)) = Inr x \<Longrightarrow>
      tc_Unmarshal tc x = Inr (omitempty (toInternal (tc_names tc) t))"
    and "known_names (tc_names tc) t" and "proper_maps t"
    and "Set tc r now t st = (t', Inr st')" and "is_ok (r_Get r (key (t_User t) (t_Uuid t)) st')"
  shows "Get tc r (t_User t) (t_Uuid t) st' = Inr (reloaded t) \<and>
    (\<forall>sp patg m s. authorize sp patg (Some (reloaded t)) m s = authorize sp patg (Some t) m s)"
proof -
  let ?rn = "tc_names tc"
  let ?k = "key (t_User t) (t_Uuid t)"
  have internal: "toInternal ?rn (t\<lparr>t_Meta := Some empty_Meta\<rparr>) = toInternal ?rn t" if "t_Meta t = None"
    using that by (simp add: toInternal_def empty_Meta_def)
  from assms(5) obtain encoded ttl where e: "tc_Marshal tc (omitempty (toInternal ?rn t)) = Inr encoded"
    and set: "r_Set r ?k encoded ttl st = Inr st'"
    by (auto simp: Set_def Let_def internal split: sum.splits if_splits)
  from assms(6) obtain v where v: "r_Get r ?k st' = Inr v" by (auto simp: is_ok_iff)
  have "v = Some encoded"
    using redis_server.get_after_set [OF assms(1) set v] by simp
  moreover have "decode_token tc encoded = Inr (reloaded t)"
    using assms(2) [OF e] toExternal_toInternal [OF assms(3,4)] by (simp add: decode_token_def)
  ultimately have "Get tc r (t_User t) (t_Uuid t) st' = Inr (reloaded t)"
    using v by (simp add: Get_def)
  then show ?thesis by (simp add: authorize_reloaded)
qed

section \<open>A codec\<close>

text \<open>
  A codec for the examples that encodes every stored token: texts and lists with their length before them,
  as a printer and a reader that returns what is left of the input.
\<close>

type_synonym 'a coder = "('a \<Rightarrow> string) \<times> (string \<Rightarrow> ('a \<times> string) option)"

definition codes :: "'a coder \<Rightarrow> bool" where
  "codes c \<longleftrightarrow> (\<forall>x rest. snd c (fst c x @ rest) = Some (x, rest))"

fun read_nat :: "string \<Rightarrow> (nat \<times> string) option" where
  "read_nat [] = None"
| "read_nat (c # cs) = (if c = CHR ''1'' then map_option (map_prod Suc id) (read_nat cs) else Some (0, cs))"

fun read_many :: "(string \<Rightarrow> ('a \<times> string) option) \<Rightarrow> nat \<Rightarrow> string \<Rightarrow> ('a list \<times> string) option" where
  "read_many rd 0 cs = Some ([], cs)"
| "read_many rd (Suc n) cs =
     (case rd cs of
        None \<Rightarrow> None
      | Some (x, cs) \<Rightarrow> map_option (map_prod (Cons x) id) (read_many rd n cs))"

definition nat_coder :: "nat coder" where
  "nat_coder = (\<lambda>n. replicate n CHR ''1'' @ ''0'', read_nat)"

definition char_coder :: "char coder" where
  "char_coder = (\<lambda>c. [c], \<lambda>cs. case cs of [] \<Rightarrow> None | c # cs \<Rightarrow> Some (c, cs))"

definition pair_coder :: "'a coder \<Rightarrow> 'b coder \<Rightarrow> ('a \<times> 'b) coder" where
  "pair_coder c d =
     (\<lambda>(x, y). fst c x @ fst d y,
      \<lambda>cs. case snd c cs of None \<Rightarrow> None | Some (x, cs) \<Rightarrow> map_option (map_prod (Pair x) id) (snd d cs))"

definition list_coder :: "'a coder \<Rightarrow> 'a list coder" where
  "list_coder c =
     (\<lambda>xs. fst nat_coder (length xs) @ concat (map (fst c) xs),
      \<lambda>cs. case read_nat cs of None \<Rightarrow> None | Some (n, cs) \<Rightarrow> read_many (snd c) n cs)"

definition via_coder :: "('a \<Rightarrow> 'b) \<Rightarrow> ('b \<Rightarrow> 'a) \<Rightarrow> 'b coder \<Rightarrow> 'a coder" where
  "via_coder f g c = (\<lambda>x. fst c (f x), \<lambda>cs. map_option (map_prod g id) (snd c cs))"

lemma codes_nat: "codes nat_coder"
proof -
  have "read_nat (replicate n CHR ''1'' @ CHR ''0'' # rest) = Some (n, rest)" for n rest
    by (induction n) simp_all
  then show ?thesis by (simp add: codes_def nat_coder_def)
qed

lemma codes_char: "codes char_coder"
  by (simp add: codes_def char_coder_def)

lemma codes_pair: "codes c \<Longrightarrow> codes d \<Longrightarrow> codes (pair_coder c d)"
  by (simp add: codes_def pair_coder_def)

lemma codes_list:
  assumes "codes c"
  shows "codes (list_coder c)"
proof -
  have "read_many (snd c) (length xs) (concat (map (fst c) xs) @ rest) = Some (xs, rest)" for xs rest
    using assms by (induction xs) (simp_all add: codes_def)
  then show ?thesis using codes_nat by (simp add: codes_def list_coder_def nat_coder_def)
qed

lemma codes_via: "(\<And>x. g (f x) = x) \<Longrightarrow> codes c \<Longrightarrow> codes (via_coder f g c)"
  by (simp add: codes_def via_coder_def)

abbreviation string_coder :: "string coder" where
  "string_coder \<equiv> list_coder char_coder"

definition option_coder :: "'a coder \<Rightarrow> 'a option coder" where
  "option_coder c = via_coder (case_option [] (\<lambda>x. [x])) (\<lambda>xs. case xs of [] \<Rightarrow> None | x # _ \<Rightarrow> Some x) (list_coder c)"

definition int_coder :: "int coder" where
  "int_coder = via_coder (\<lambda>i. (nat i, nat (- i))) (\<lambda>(m, n). int m - int n) (pair_coder nat_coder nat_coder)"

fun TokenType_code :: "TokenType \<Rightarrow> nat \<times> int" where
  "TokenType_code TOKEN_TYPE_UNSPECIFIED = (0, 0)"
| "TokenType_code TOKEN_TYPE_API = (1, 0)"
| "TokenType_code TOKEN_TYPE_USER = (2, 0)"
| "TokenType_code (TOKEN_TYPE_NUMBER n) = (3, n)"

definition TokenType_decode :: "nat \<times> int \<Rightarrow> TokenType" where
  "TokenType_decode = (\<lambda>(k, n).
     if k = 0 then TOKEN_TYPE_UNSPECIFIED else if k = 1 then TOKEN_TYPE_API
     else if k = 2 then TOKEN_TYPE_USER else TOKEN_TYPE_NUMBER n)"

definition permission_coder :: "MethodPermission coder" where
  "permission_coder = via_coder (\<lambda>p. (mp_Subject p, mp_Methods p)) (\<lambda>(s, ms). \<lparr>mp_Subject = s, mp_Methods = ms\<rparr>)
     (pair_coder string_coder (list_coder string_coder))"

abbreviation map_coder :: "(string \<times> string) list coder" where
  "map_coder \<equiv> list_coder (pair_coder string_coder string_coder)"

definition stored_coder :: "stored_token coder" where
  "stored_coder =
     via_coder (\<lambda>t. ((st_Uuid t, st_User t, st_Description t, st_Permissions t, TokenType_code (st_TokenType t)),
          (st_Expires t, st_IssuedAt t, st_UpdatedAt t), (st_ProjectRoles t, st_TenantRoles t, st_MachineRoles t),
          st_AdminRole t, st_InfraRole t, st_Labels t))
       (\<lambda>((uuid, user, desc, perms, ty), (ex, iss, upd), (ps, ts, ms), adm, inf, ls).
          \<lparr>st_Uuid = uuid, st_User = user, st_Description = desc, st_Permissions = perms, st_Expires = ex, st_IssuedAt = iss,
           st_TokenType = TokenType_decode ty, st_ProjectRoles = ps, st_TenantRoles = ts, st_AdminRole = adm,
           st_InfraRole = inf, st_MachineRoles = ms, st_Labels = ls, st_UpdatedAt = upd\<rparr>)
       (pair_coder (pair_coder string_coder (pair_coder string_coder (pair_coder string_coder
            (pair_coder (list_coder permission_coder) (pair_coder nat_coder int_coder)))))
         (pair_coder (pair_coder (option_coder int_coder) (pair_coder (option_coder int_coder) (option_coder int_coder)))
           (pair_coder (pair_coder map_coder (pair_coder map_coder map_coder))
             (pair_coder (option_coder string_coder) (pair_coder (option_coder string_coder) (option_coder map_coder))))))"

lemma codes_option: "codes c \<Longrightarrow> codes (option_coder c)"
  unfolding option_coder_def by (rule codes_via [OF _ codes_list]) (simp_all split: option.split)

lemma codes_int: "codes int_coder"
  unfolding int_coder_def by (rule codes_via [OF _ codes_pair [OF codes_nat codes_nat]]) simp

lemma codes_permission: "codes permission_coder"
  unfolding permission_coder_def
  by (rule codes_via [OF _ codes_pair [OF codes_list [OF codes_char] codes_list [OF codes_list [OF codes_char]]]]) simp

lemma TokenType_decode: "TokenType_decode (TokenType_code ty) = ty"
  by (cases ty) (simp_all add: TokenType_decode_def)

lemma codes_stored: "codes stored_coder"
  unfolding stored_coder_def
  by (rule codes_via)
    (simp_all add: TokenType_decode codes_pair codes_list codes_option codes_int codes_nat codes_char codes_permission)

text \<open>Names that know one role, and the codec.\<close>

definition example_names :: role_names where
  "example_names =
     \<lparr>rn_Project = (\<lambda>r. if r = PROJECT_ROLE_OWNER then ''PROJECT_ROLE_OWNER'' else ''''),
      rv_Project = (\<lambda>n. if n = ''PROJECT_ROLE_OWNER'' then PROJECT_ROLE_OWNER else PROJECT_ROLE_UNSPECIFIED),
      rn_Tenant = (\<lambda>r. ''''), rv_Tenant = (\<lambda>n. TENANT_ROLE_UNSPECIFIED),
      rn_Admin = (\<lambda>r. ''''), rv_Admin = (\<lambda>n. ADMIN_ROLE_UNSPECIFIED),
      rn_Infra = (\<lambda>r. ''''), rv_Infra = (\<lambda>n. INFRA_ROLE_UNSPECIFIED),
      rn_Machine = (\<lambda>r. ''''), rv_Machine = (\<lambda>n. MACHINE_ROLE_UNSPECIFIED)\<rparr>"

definition example_codec :: token_codec where
  "example_codec =
     \<lparr>tc_names = example_names,
      tc_Marshal = (\<lambda>s. Inr (fst stored_coder s)),
      tc_Unmarshal = (\<lambda>x. case snd stored_coder x of Some (s, []) \<Rightarrow> Inr s | _ \<Rightarrow> Inl (Plain ''invalid character''))\<rparr>"

lemma example_codec_decodes: "tc_Marshal example_codec s = Inr x \<Longrightarrow> tc_Unmarshal example_codec x = Inr s"
proof -
  have "snd stored_coder (fst stored_coder s @ []) = Some (s, [])" using codes_stored unfolding codes_def by blast
  then show "tc_Marshal example_codec s = Inr x \<Longrightarrow> tc_Unmarshal example_codec x = Inr s" by (auto simp: example_codec_def)
qed

text \<open>The token of the example has a label map without an entry, which is nil when the token is read back.\<close>

definition stored_example :: Token where
  "stored_example = empty_Token\<lparr>t_Uuid := ''0190'', t_User := ''alice'', t_TokenType := TOKEN_TYPE_API,
     t_Meta := Some (empty_Meta\<lparr>meta_Labels := Some []\<rparr>),
     t_IssuedAt := Some 7, t_ProjectRoles := [(''p1'', PROJECT_ROLE_OWNER)]\<rparr>"

definition example_encoded :: string where
  "example_encoded = fst stored_coder (omitempty (toInternal example_names stored_example))"

theorem stored_token_read_back_witness:
  "\<exists>t st. Set example_codec table_redis 0 stored_example [] = (t, Inr st) \<and>
     Get example_codec table_redis ''alice'' ''0190'' st = Inr (reloaded stored_example) \<and>
     t_Meta (reloaded stored_example) = Some (empty_Meta\<lparr>meta_CreatedAt := Some 7\<rparr>)"
proof -
  obtain t st where s: "Set example_codec table_redis 0 stored_example [] = (t, Inr st)"
    by (simp add: Set_def Let_def example_codec_def r_Set_def table_redis_def)
  have "known_names (tc_names example_codec) stored_example" "proper_maps stored_example"
    by (simp_all add: known_names_def proper_maps_def example_codec_def example_names_def
        stored_example_def empty_Token_def map_keys_def)
  from stored_token_read_back [OF redis_table.redis_server_axioms example_codec_decodes this s] s
  have "Get example_codec table_redis ''alice'' ''0190'' st = Inr (reloaded stored_example)"
    by (auto simp: table_redis_def is_ok_def stored_example_def empty_Token_def)
  with s show ?thesis by (auto simp: reloaded_def stored_example_def empty_Token_def empty_Meta_def)
qed

text \<open>
  After a token is revoked it cannot be read any more, and no other token is affected:
  revoking removes the key of this user and token only. Token ids are UUIDs and contain no colon.
\<close>

theorem revoked_token_gone:
  assumes "redis_server r view" and "Revoke r u i st = Inr st'"
    and "is_ok (r_Get r (key u i) st')" and "CHR '':'' \<notin> set i" and "CHR '':'' \<notin> set i'"
  shows "Get tc r u i st' = Inl (NotFound ''token not found'') \<and>
    ((u', i') \<noteq> (u, i) \<longrightarrow> view st' (key u' i') = view st (key u' i'))"
proof -
  from assms(2) have del: "view st' = (view st)(key u i := None)"
    using redis_server.del [OF assms(1)] by (auto simp: Revoke_def split: sum.splits if_splits prod.splits)
  from assms(3) obtain v where v: "r_Get r (key u i) st' = Inr v" by (auto simp: is_ok_iff)
  then have "v = None"
    using redis_server.get [OF assms(1) v] del by simp
  with v have "Get tc r u i st' = Inl (NotFound ''token not found'')" by (simp add: Get_def)
  moreover have "view st' (key u' i') = view st (key u' i')" if "(u', i') \<noteq> (u, i)"
    using del key_inject [of u' i' u i] assms(4,5) that by auto
  ultimately show ?thesis by blast
qed

theorem revoked_token_gone_witness:
  "\<exists>st. Revoke table_redis ''alice'' ''0190'' [(key ''alice'' ''0190'', ''token''), (key ''bob'' ''0191'', ''x'')] = Inr st \<and>
     map_of st (key ''bob'' ''0191'') = Some ''x''"
proof -
  let ?st = "[(key ''alice'' ''0190'', ''token''), (key ''bob'' ''0191'', ''x'')]"
  have r: "Revoke table_redis ''alice'' ''0190'' ?st = Inr [(key ''bob'' ''0191'', ''x'')]"
    by (simp add: Revoke_def table_redis_def key_def token_prefix_def)
  have "is_ok (r_Get table_redis k st)" for k st by (simp add: table_redis_def)
  with revoked_token_gone [OF redis_table.redis_server_axioms r, of "''0191''" undefined "''bob''"] r
  show ?thesis by (simp add: key_def token_prefix_def)
qed

end
