(* ===== verification/TokenRepositoryProps.thy ===== *)
theory TokenRepositoryProps
  imports TokenRepository TokenValidationProps TokenStoreProps
begin

text \<open>
  Properties of the token repository: its scope, the life time of tokens, and the bound on what
  a created token may do.
\<close>

section \<open>Validated creation\<close>

lemma validate_both_ok:
  "validate_both env session user requested = (session', Inr ()) \<Longrightarrow>
     validateTokenRequest (te_sp env) (te_patg env) session requested = (session', Inr ()) \<and>
     snd (validateTokenRequest (te_sp env) (te_patg env) user requested) = Inr ()"
  by (auto simp: validate_both_def split: prod.splits sum.splits)

lemma validateCreate_okD:
  assumes "validateCreate env (Some user) (Some session) rq = (session', rq', Inr ())"
    and "te_patg env user = Inr pat" and "hasAdminRole (te_providerTenant env) pat = None"
  obtains permissions session'' where
    "rq' = rq\<lparr>tcr_Permissions := compactPermissions (tcr_Permissions rq)\<rparr>"
    "tcr_User rq = None"
    "deref_permissions (flattenPermissions (tcr_Permissions rq')) = Inr permissions"
    "validateTokenRequest (te_sp env) (te_patg env) session (requested_token user rq' permissions) = (session'', Inr ())"
    "snd (validateTokenRequest (te_sp env) (te_patg env) (user_token user pat None session)
       (requested_token user rq' permissions)) = Inr ()"
proof -
  let ?rq = "rq\<lparr>tcr_Permissions := compactPermissions (tcr_Permissions rq)\<rparr>"
  let ?perms = "deref_permissions (flattenPermissions (tcr_Permissions ?rq))"
  have el: "elevate_session env pat (tcr_AdminRole rq) session = Inr session"
    using assms(3) by (simp add: elevate_session_def)
  have ty: "\<not> (t_TokenType session \<noteq> TOKEN_TYPE_API \<and> t_TokenType session \<noteq> TOKEN_TYPE_USER)"
    using assms(1) by (simp add: validateCreate_def split: if_splits)
  have user: "tcr_User rq = None"
    using assms(1) ty by (simp add: validateCreate_def assms(2,3) el Let_def split: if_splits)
  have valid: "validatePermissions env (tcr_Permissions ?rq) pat = Inr ()"
    using assms(1) ty user
    by (cases "validatePermissions env (tcr_Permissions ?rq) pat")
       (simp_all add: validateCreate_def assms(2,3) el Let_def split: if_splits)
  obtain permissions where p: "?perms = Inr permissions"
    using assms(1) ty user valid
    by (cases ?perms) (simp_all add: validateCreate_def assms(2,3) el Let_def split: if_splits)
  obtain session'' r where b: "validate_both env session (user_token user pat None session)
      (requested_token user ?rq permissions) = (session'', r)" by force
  have "rq' = ?rq \<and> r = Inr ()"
    using assms(1) ty user valid p b
    by (simp add: validateCreate_def assms(2,3) el Let_def split: if_splits)
  with validate_both_ok [of env session _ _ session''] b p user show thesis
    by (intro that) auto
qed

lemma scoped_Some [simp]: "tr_scope t = Some user \<Longrightarrow> scoped t err f = f user"
  by (simp add: scoped_def)

lemma NewJWT_ok:
  assumes "NewJWT sg ty subject d = Inr (secret, tok)"
  shows "t_User tok = subject \<and> t_TokenType tok = ty \<and> t_IssuedAt tok = Some (sg_now sg) \<and>
    t_Expires tok = Some (sg_now sg + (if d = 0 then DefaultExpiration else d)) \<and>
    (if d = 0 then DefaultExpiration else d) \<le> MaxTokenExpiration"
  using assms by (auto simp: NewJWT_def Let_def split: if_splits sum.splits)

lemma tokens_Set_ok:
  "tokens_Set t tok w = (Inr tok', w') \<Longrightarrow> t_Meta tok \<noteq> None \<Longrightarrow> tok' = tok"
  by (auto simp: tokens_Set_def Set_def Let_def split: sum.splits prod.splits)

lemma tok_create_issued:
  assumes "tok_create t rq w = (Inr e, w')" and "tr_scope t = Some user" and "tcr_User rq = None"
    and "deref_permissions (flattenPermissions (tcr_Permissions rq)) = Inr permissions"
  shows "issued_from (requested_token user rq permissions) user (tws_Token e)"
proof -
  from assms obtain secret tok w1 w2 tok' where
    jwt: "NewJWT (tr_signer t) TOKEN_TYPE_API user (expires_duration (tcr_Expires rq)) = Inr (secret, tok)"
    and set: "tokens_Set t ((with_request rq permissions tok)\<lparr>t_Meta := Some ((meta_of (with_request rq permissions tok))
        \<lparr>meta_Generation := 1, meta_CreatedAt := t_IssuedAt (with_request rq permissions tok),
         meta_Labels := tcr_Labels rq\<rparr>)\<rparr>) w1 = (Inr tok', w2)"
    and e: "e = \<lparr>tws_Token = tok', tws_Secret = secret\<rparr>"
    by (auto simp: tok_create_def bind_action_ok on_error_ok Let_def)
  from NewJWT_ok [OF jwt] tokens_Set_ok [OF set] show ?thesis
    by (simp add: e issued_from_def with_request_def requested_token_def empty_Token_def)
qed

section \<open>The wildcard of an admin viewer\<close>

definition wildcard_permission :: "string \<Rightarrow> MethodPermission" where
  "wildcard_permission m = \<lparr>mp_Subject = AnySubject, mp_Methods = [m]\<rparr>"

lemma viewer_permissions:
  assumes "t_AdminRole t = Some ADMIN_ROLE_VIEWER" and "t_TokenType t \<noteq> TOKEN_TYPE_USER" and "t_User t \<noteq> ''''"
    and "patg (t_User t) = Inr pat"
  shows "getTokenPermissions sp vm patg t = (t, Inr (role_permissions sp vm pat t))"
    and "granted sp vm t k AnySubject \<Longrightarrow> allows (role_permissions sp vm pat t) k AnySubject"
  using assms
  by (simp_all add: getTokenPermissions_def normalize_user_token_def role_permissions_eq allows_restrict_subjects
      allows_granted add_user_methods_def)

lemma keys_restricted: "has_key (restrict_subjects sp pat tp) k = has_key tp k"
  by (induction tp) (auto simp: restrict_subjects_def)

lemma keys_viewer: "has_key (fold (\<lambda>m. AList.update m [AnySubject]) vm tp) k \<longleftrightarrow> k \<in> set vm \<or> has_key tp k"
  by (induction vm arbitrary: tp) auto

text \<open>A request for a method on the wildcard is accepted from an admin viewer with a role that has the method.\<close>

lemma wildcard_validated:
  assumes current: "t_AdminRole cur = Some ADMIN_ROLE_VIEWER" "t_TokenType cur \<noteq> TOKEN_TYPE_USER" "t_User cur \<noteq> ''''"
      "patg (t_User cur) = Inr pat"
    and role: "(p, r) \<in> set (t_ProjectRoles cur)" "has_key (map_get [] (roles_Project sp) r) m" "has_key (pat_ProjectRoles pat) p"
    and wanted: "has_key (sp_Methods sp) m" "project_method sp m"
    and requested: "t_AdminRole req = Some ADMIN_ROLE_VIEWER" "t_Permissions req = [wildcard_permission m]"
      "t_ProjectRoles req = []" "t_TenantRoles req = []" "t_MachineRoles req = []" "t_InfraRole req = None"
  shows "validateTokenRequest sp patg cur req = (cur, Inr ())"
proof -
  let ?vm = "adminViewerMethods sp" and ?req = "requested_permissions_token cur req"
  let ?cp = "role_permissions sp ?vm pat cur" and ?rp = "role_permissions sp ?vm pat ?req"
  have r: "t_AdminRole ?req = Some ADMIN_ROLE_VIEWER" "t_TokenType ?req \<noteq> TOKEN_TYPE_USER" "t_User ?req = t_User cur"
    "t_Permissions ?req = [wildcard_permission m]" "t_ProjectRoles ?req = []" "t_TenantRoles ?req = []"
    "t_MachineRoles ?req = []" "t_InfraRole ?req = None"
    using requested by (simp_all add: requested_permissions_token_def empty_Token_def)
  have keys: "has_key ?rp k \<longleftrightarrow> k \<in> set ?vm \<or> k = m" for k
    using r by (auto simp: role_permissions_def keys_restricted add_user_methods_def add_roles_def add_infra_role_def
        add_permissions_def allow_methods_def allow_def add_viewer_methods_def keys_viewer wildcard_permission_def Let_def)
  have "granted sp ?vm ?req k AnySubject" if "has_key ?rp k" for k
    using that r unfolding keys by (auto simp: granted_def wildcard_permission_def)
  with r current have any: "allows ?rp k AnySubject" if "has_key ?rp k" for k
    using that viewer_permissions(2) [of ?req patg pat sp ?vm k] by simp
  have "has_key ?cp k" if "k \<in> set ?vm" for k
    using viewer_permissions(2) [of cur patg pat sp ?vm k] that current
    by (intro allows_has_key [of _ _ AnySubject]) (simp add: granted_def)
  moreover have "has_key ?cp m"
    using current(1,2) role wanted
    by (intro allows_has_key [of _ _ p])
      (auto simp: role_permissions_eq add_user_methods_def allows_restrict_subjects allows_granted granted_def)
  ultimately have known: "has_key ?cp k" if "has_key ?rp k" for k
    using that unfolding keys by blast
  have "check_methods ?cp ?rp (sort (map_keys ?rp)) = Inr ()"
    using any known by (auto simp: check_methods_ok)
  moreover have "check_requested_roles sp cur req = Inr ()"
    using requested wanted by (simp add: check_requested_roles_def lo_Difference_def map_keys_def wildcard_permission_def)
  moreover have "TokenPermissions sp ?vm patg (Some ?req) = Inr ?rp"
    using viewer_permissions(1) [of ?req patg pat sp ?vm] r current by (simp add: TokenPermissions_def)
  ultimately show ?thesis
    using viewer_permissions(1) [of cur patg pat sp ?vm] current by (simp add: validateTokenRequest_def Let_def)
qed

text \<open>A request for a method on the wildcard of the projects with the admin role of a viewer.\<close>

definition wildcard_request :: "string \<Rightarrow> TokenCreateRequest" where
  "wildcard_request m =
     \<lparr>tcr_User = None, tcr_Description = '''', tcr_Permissions = [Perm_Project AnySubject [m]], tcr_ProjectRoles = [],
      tcr_TenantRoles = [], tcr_AdminRole = Some ADMIN_ROLE_VIEWER, tcr_InfraRole = None, tcr_MachineRoles = [],
      tcr_Expires = None, tcr_Labels = None\<rparr>"

lemma wildcard_request_accepted:
  assumes pat: "te_patg env user = Inr pat" and viewer: "hasAdminRole (te_providerTenant env) pat = Some ADMIN_ROLE_VIEWER"
    and session: "t_User session = user" "user \<noteq> ''''" "t_TokenType session = TOKEN_TYPE_USER" "t_AdminRole session = None"
      "t_ProjectRoles session = pat_ProjectRoles pat"
    and wanted: "has_key (sp_Methods (te_sp env)) m" "has_key (vis_Project (te_sp env)) m" "project_method (te_sp env) m"
    and role: "(p, r) \<in> set (pat_ProjectRoles pat)" "has_key (map_get [] (roles_Project (te_sp env)) r) m"
  shows "\<exists>session'. validateCreate env (Some user) (Some session) (wildcard_request m) = (Some session', wildcard_request m, Inr ())"
proof -
  let ?rq = "wildcard_request m"
  let ?s = "session\<lparr>t_AdminRole := Some ADMIN_ROLE_VIEWER, t_TokenType := TOKEN_TYPE_API\<rparr>"
  let ?u = "user_token user pat (Some ADMIN_ROLE_VIEWER) ?s"
  let ?t = "requested_token user ?rq [wildcard_permission m]"
  have el: "elevate_session env pat (tcr_AdminRole ?rq) session = Inr ?s"
    using viewer session by (simp add: elevate_session_def isAdminRoleRequestAllowed_def wildcard_request_def)
  have rq: "?rq\<lparr>tcr_Permissions := compactPermissions (tcr_Permissions ?rq)\<rparr> = ?rq"
    by (simp add: wildcard_request_def compactPermissions_def compact_step_def sortUniq_def)
  have valid: "validatePermissions env (tcr_Permissions ?rq) pat = Inr ()"
    using wanted by (simp add: wildcard_request_def and_then_def check_subject_def check_visibility_def)
  have perms: "deref_permissions (flattenPermissions (tcr_Permissions ?rq)) = Inr [wildcard_permission m]"
    by (simp add: wildcard_request_def deref_permissions_def flattenPermissions_def wildcard_permission_def)
  have requested: "t_AdminRole ?t = Some ADMIN_ROLE_VIEWER" "t_Permissions ?t = [wildcard_permission m]" "t_ProjectRoles ?t = []"
    "t_TenantRoles ?t = []" "t_MachineRoles ?t = []" "t_InfraRole ?t = None"
    by (simp_all add: requested_token_def wildcard_request_def empty_Token_def)
  have member: "has_key (pat_ProjectRoles pat) p" using role(1) by (rule has_keyI)
  have "validateTokenRequest (te_sp env) (te_patg env) ?s ?t = (?s, Inr ())"
    by (rule wildcard_validated [OF _ _ _ _ _ role(2) member wanted(1,3) requested]) (simp_all add: session pat role)
  moreover have "validateTokenRequest (te_sp env) (te_patg env) ?u ?t = (?u, Inr ())"
    by (rule wildcard_validated [OF _ _ _ _ _ role(2) member wanted(1,3) requested])
      (simp_all add: user_token_def empty_Token_def session pat role)
  ultimately show ?thesis
    using session(3) perms valid
    by (simp add: validateCreate_def pat el viewer rq Let_def validate_both_def)
qed

section \<open>Concrete instances\<close>

text \<open>
  Alice is a member of two projects; Bob owns a project and is a viewer of the provider tenant;
  the user pixie has no memberships.
\<close>

definition bob_pat :: ProjectsAndTenants where
  "bob_pat =
     \<lparr>pat_ProjectRoles = [(''p3'', PROJECT_ROLE_OWNER)],
      pat_TenantRoles = [(''bob'', TENANT_ROLE_OWNER), (''metal'', TENANT_ROLE_VIEWER)]\<rparr>"

definition example_patg :: ProjectsAndTenantsGetter where
  "example_patg u =
     (if u = ''alice'' then Inr example_pat else if u = ''bob'' then Inr bob_pat
      else Inr \<lparr>pat_ProjectRoles = [], pat_TenantRoles = []\<rparr>)"

definition example_env :: token_env where
  "example_env =
     \<lparr>te_sp = example_sp, te_patg = example_patg, te_providerTenant = ''metal'',
      te_getProject = (\<lambda>_. Inr ()), te_getTenant = (\<lambda>_. Inr ())\<rparr>"

definition example_signer :: signer where
  "example_signer =
     \<lparr>sg_now = 7, sg_NewV7 = Inr ''0190'', sg_LatestPrivate = Inr (),
      sg_SignedString = (\<lambda>_. Inr ''jwt''), sg_issuer = ''metal''\<rparr>"

definition example_repository :: "string \<Rightarrow> redis_table token_repository" where
  "example_repository user =
     \<lparr>tr_env = example_env, tr_scope = Some user,
      tr_tc = \<lparr>tc_names = example_names, tc_Marshal = (\<lambda>_. Inr ''token''),
               tc_Unmarshal = (\<lambda>_. Inl (Plain ''unsupported''))\<rparr>,
      tr_redis = table_redis, tr_signer = example_signer\<rparr>"

definition example_request :: "PermissionsByVisibility list \<Rightarrow> AdminRole option \<Rightarrow> TokenCreateRequest" where
  "example_request perms role =
     \<lparr>tcr_User = None, tcr_Description = '''', tcr_Permissions = perms, tcr_ProjectRoles = [],
      tcr_TenantRoles = [], tcr_AdminRole = role, tcr_InfraRole = None, tcr_MachineRoles = [],
      tcr_Expires = None, tcr_Labels = None\<rparr>"

text \<open>A session after its request was authorized, which stores the roles of the database in it.\<close>

definition example_session :: "Token \<Rightarrow> Token" where
  "example_session t = fst (getTokenPermissions example_sp (adminViewerMethods example_sp) example_patg t)"

abbreviation example_create ::
  "string \<Rightarrow> Token \<Rightarrow> PermissionsByVisibility list \<Rightarrow> AdminRole option \<Rightarrow>
   TokenWithSecret result \<times> redis_table token_world" where
  "example_create user session perms role \<equiv>
     store_Create plain_errorutil (token_operations plain_errorutil (example_repository user))
       (example_request perms role) \<lparr>tw_redis = [], tw_session = Some session\<rparr>"

abbreviation example_authorize :: "Token \<Rightarrow> string \<Rightarrow> string \<Rightarrow> unit result" where
  "example_authorize t m s \<equiv> authorize example_sp example_patg (Some t) m s"

definition alice_session :: Token where
  "alice_session = example_session example_user_token"

definition bob_session :: Token where
  "bob_session = example_session (empty_Token\<lparr>t_User := ''bob'', t_TokenType := TOKEN_TYPE_USER\<rparr>)"

definition pixie_session :: Token where
  "pixie_session = example_session (empty_Token\<lparr>t_User := ''pixie'', t_TokenType := TOKEN_TYPE_API,
     t_MachineRoles := [(''m1'', MACHINE_ROLE_EDITOR)]\<rparr>)"

section \<open>Properties\<close>

text \<open>
  Scope of the token repository. For a scope with a user, reading returns only tokens of
  that user, and so does listing, whatever keys the pattern of the scan matches in the server;
  a deletion or an update that changes the server has found a token of that user before.
\<close>

theorem token_scope:
  assumes "tr_scope t = Some user"
  shows "(\<forall>i e w'. store_Get eu (token_operations eu t) i w = (Inr e, w') \<longrightarrow> t_User (tws_Token e) = user) \<and>
    (\<forall>q es w'. store_List eu (token_operations eu t) q w = (Inr es, w') \<longrightarrow> (\<forall>e\<in>set es. t_User (tws_Token e) = user)) \<and>
    (\<forall>i. tw_redis (snd (store_Delete eu (token_operations eu t) i w)) \<noteq> tw_redis w \<longrightarrow>
      (\<exists>e w'. tok_get t i w = (Inr e, w') \<and> t_User (tws_Token e) = user)) \<and>
    (\<forall>i u. tw_redis (snd (store_Update eu (token_operations eu t) i u w)) \<noteq> tw_redis w \<longrightarrow>
      (\<exists>e w'. tok_get t i w = (Inr e, w') \<and> t_User (tws_Token e) = user))"
proof -
  let ?rp = "token_operations eu t"
  have ops: "rp_get ?rp = tok_get t" "rp_matchScope ?rp = tok_matchScope t" "rp_list ?rp = tok_list t"
    "rp_convertToProto ?rp = return"
    by (simp_all add: token_operations_def)
  have scope: "tok_matchScope t e \<longleftrightarrow> t_User (tws_Token e) = user" for e
    using assms by (simp add: tok_matchScope_def)
  have convert: "convert_all eu ?rp es w = (Inr es, w)" for es w
    by (induction es) (simp_all add: ops bind_action_def on_error_def)
  show ?thesis
  proof (intro conjI allI impI ballI)
    fix i e w' assume "store_Get eu ?rp i w = (Inr e, w')"
    then show "t_User (tws_Token e) = user"
      by (auto simp: store_Get_def bind_action_ok on_error_ok token_repo.get_in_scope_ok ops scope)
  next
    fix q es w' e assume "store_List eu ?rp q w = (Inr es, w')" "e \<in> set es"
    then show "t_User (tws_Token e) = user"
      by (auto simp: store_List_def bind_action_ok on_error_ok convert ops tok_list_def scope
          split: sum.splits)
  next
    fix i assume "tw_redis (snd (store_Delete eu ?rp i w)) \<noteq> tw_redis w"
    then show "\<exists>e w'. tok_get t i w = (Inr e, w') \<and> t_User (tws_Token e) = user"
      by (rule token_repo.delete_changes_only_validated) (auto simp: ops scope)
  next
    fix i u assume "tw_redis (snd (store_Update eu ?rp i u w)) \<noteq> tw_redis w"
    then show "\<exists>e w'. tok_get t i w = (Inr e, w') \<and> t_User (tws_Token e) = user"
      by (rule token_repo.update_changes_only_validated) (auto simp: ops scope)
  qed
qed

theorem token_scope_witness:
  "\<exists>e. fst (store_Get plain_errorutil (token_operations plain_errorutil
       ((example_repository ''alice'')\<lparr>tr_tc := example_codec\<rparr>))
       ''0190'' \<lparr>tw_redis = [(key ''alice'' ''0190'', example_encoded)], tw_session = None\<rparr>) = Inr e \<and>
     t_User (tws_Token e) = ''alice''"
proof -
  let ?t = "(example_repository ''alice'')\<lparr>tr_tc := example_codec\<rparr>"
  let ?w = "\<lparr>tw_redis = [(key ''alice'' ''0190'', example_encoded)], tw_session = None\<rparr>"
  let ?g = "store_Get plain_errorutil (token_operations plain_errorutil ?t) ''0190'' ?w"
  have "is_ok (fst ?g)" by code_simp
  then obtain e w' where g: "?g = (Inr e, w')" by (metis is_ok_iff prod.collapse)
  have "tr_scope ?t = Some ''alice''" by (simp add: example_repository_def)
  from token_scope [OF this, of plain_errorutil ?w] g have "t_User (tws_Token e) = ''alice''" by blast
  with g show ?thesis by simp
qed

text \<open>
  Life time of tokens. A new token is issued now, for the requested duration or, when none
  is given, for eight hours; a duration above the maximum of 365 days gives no token.
\<close>

theorem new_token_life_time:
  "case NewJWT sg ty subject d of
     Inl _ \<Rightarrow> d > MaxTokenExpiration \<or> (\<exists>err. sg_NewV7 sg = Inl err) \<or>
       (\<exists>claims err. sg_SignedString sg claims = Inl err)
   | Inr (secret, tok) \<Rightarrow>
       (\<exists>issued expires. t_IssuedAt tok = Some issued \<and> t_Expires tok = Some expires \<and>
         issued = sg_now sg \<and> expires - issued = (if d = 0 then 8 * Hour else d) \<and>
         expires - issued \<le> 365 * 24 * Hour)"
proof (cases "NewJWT sg ty subject d")
  case (Inl err)
  then show ?thesis
    by (auto simp: NewJWT_def Let_def DefaultExpiration_def MaxTokenExpiration_def Hour_def Minute_def
        split: if_splits sum.splits)
next
  case (Inr r)
  then show ?thesis
    using NewJWT_ok [of sg ty subject d "fst r" "snd r"]
    by (cases r) (auto simp: DefaultExpiration_def MaxTokenExpiration_def)
qed

text \<open>
  C19: a token created through the store by a user without an admin role, without asking for
  one, can call a method of projects or tenants on a subject only if both the session token that
  requested it and the user itself, by its memberships, can. The request does not ask for the
  unspecified role for infrastructure, and no project or tenant of the user is named by the wildcard.
\<close>

theorem created_token_bounded:
  assumes "store_Create eu (token_operations eu t) rq w = (Inr e, w')"
    and "tr_scope t = Some user" and "user \<noteq> ''''" and "te_patg (tr_env t) user = Inr pat"
    and "hasAdminRole (te_providerTenant (tr_env t)) pat = None"
    and "tw_session w = Some session" and "t_User session = user"
    and "tcr_AdminRole rq = None" and "tcr_InfraRole rq \<noteq> Some INFRA_ROLE_UNSPECIFIED"
    and "scoped_method (te_sp (tr_env t)) m" and "\<not> member_of (te_sp (tr_env t)) pat m AnySubject"
    and "authorize (te_sp (tr_env t)) (te_patg (tr_env t)) (Some (tws_Token e)) m s = Inr ()"
  shows "authorize (te_sp (tr_env t)) (te_patg (tr_env t)) (Some session) m s = Inr () \<and>
    authorize (te_sp (tr_env t)) (te_patg (tr_env t)) (Some (user_token user pat None session)) m s = Inr ()"
proof -
  let ?env = "tr_env t"
  from assms(1) obtain rq' w1 w2 where v: "tok_validateCreate t rq w = (Inr rq', w1)"
    and c: "tok_create t rq' w1 = (Inr e, w2)"
    by (auto simp: store_Create_def bind_action_ok on_error_ok token_operations_def)
  from v obtain session' where "validateCreate ?env (Some user) (Some session) rq = (session', rq', Inr ())"
    using assms(2,6) by (auto simp: tok_validateCreate_def split: prod.splits sum.splits)
  then obtain permissions session'' where
    rq': "rq' = rq\<lparr>tcr_Permissions := compactPermissions (tcr_Permissions rq)\<rparr>" "tcr_User rq = None"
    and p: "deref_permissions (flattenPermissions (tcr_Permissions rq')) = Inr permissions"
    and s1: "validateTokenRequest (te_sp ?env) (te_patg ?env) session (requested_token user rq' permissions) = (session'', Inr ())"
    and s2: "snd (validateTokenRequest (te_sp ?env) (te_patg ?env) (user_token user pat None session)
       (requested_token user rq' permissions)) = Inr ()"
    by (rule validateCreate_okD [OF _ assms(4,5)])
  let ?r = "requested_token user rq' permissions"
  let ?u = "user_token user pat None session"
  from s2 obtain u' where s2': "validateTokenRequest (te_sp ?env) (te_patg ?env) ?u ?r = (u', Inr ())"
    by (metis prod.collapse)
  have issued: "issued_from ?r user (tws_Token e)"
    by (rule tok_create_issued [OF c assms(2) _ p]) (simp add: rq')
  have r: "t_AdminRole ?r = None" "t_InfraRole ?r \<noteq> Some INFRA_ROLE_UNSPECIFIED" and u: "t_User ?u = user"
    using assms(8,9) by (simp_all add: requested_token_def rq' user_token_def)
  have "authorize (te_sp ?env) (te_patg ?env) (Some session) m s = Inr ()"
    by (rule no_escalation [OF s1]) (use assms r issued in simp_all)
  moreover have "authorize (te_sp ?env) (te_patg ?env) (Some ?u) m s = Inr ()"
    by (rule no_escalation [OF s2']) (use assms r u issued in simp_all)
  ultimately show ?thesis ..
qed

theorem created_token_bounded_witness:
  "\<exists>e. fst (example_create ''alice'' alice_session [Perm_Project ''p1'' [''/Project/Get'']] None) = Inr e \<and>
     example_authorize (tws_Token e) ''/Project/Get'' ''p1'' = Inr () \<and>
     example_authorize alice_session ''/Project/Get'' ''p1'' = Inr ()"
proof -
  let ?c = "example_create ''alice'' alice_session [Perm_Project ''p1'' [''/Project/Get'']] None"
  have ok: "is_ok (fst ?c)" by code_simp
  then obtain e w' where e: "?c = (Inr e, w')" by (metis is_ok_iff prod.collapse)
  have "example_authorize (tws_Token (projr (fst ?c))) ''/Project/Get'' ''p1'' = Inr ()" by code_simp
  then have a: "example_authorize (tws_Token e) ''/Project/Get'' ''p1'' = Inr ()" by (simp add: e)
  have facts: "scoped_method example_sp ''/Project/Get''"
    "\<not> member_of example_sp example_pat ''/Project/Get'' AnySubject"
    "hasAdminRole ''metal'' example_pat = None" "t_User alice_session = ''alice''"
    by code_simp+
  have "example_authorize alice_session ''/Project/Get'' ''p1'' = Inr ()"
    using created_token_bounded [OF e, of "''alice''" example_pat alice_session "''/Project/Get''" "''p1''"]
      a facts
    by (simp add: example_repository_def example_env_def example_patg_def example_request_def)
  with a show ?thesis by (simp add: e)
qed

text \<open>
  C20: an admin viewer can escalate. Let a user be a viewer of the provider tenant and have a role in one
  project that has a method of projects which admin viewers do not have. Then the request of the user's session for the method on the wildcard
  of the projects with the admin role viewer is accepted, because the validation skips the wildcard, as its subjects
  are said to be computed at the time of a request; but for tokens with an admin role they are not reduced
  to the memberships. A token created for the request can call the method on every project,
  while the session of the user and a token with all of its own roles can call it on its own projects only. The
  session has no roles for machines and infrastructure; no project or tenant is named by the wildcard.
\<close>

theorem admin_viewer_wildcard_escalation:
  assumes scope: "tr_scope t = Some user" "user \<noteq> ''''" "te_patg (tr_env t) user = Inr pat"
    and viewer: "hasAdminRole (te_providerTenant (tr_env t)) pat = Some ADMIN_ROLE_VIEWER"
    and session: "tw_session w = Some session" "t_User session = user" "t_TokenType session = TOKEN_TYPE_USER"
      "t_AdminRole session = None" "t_ProjectRoles session = pat_ProjectRoles pat"
      "t_InfraRole session = None" "t_MachineRoles session = []"
    and wanted: "has_key (sp_Methods (te_sp (tr_env t))) m" "has_key (vis_Project (te_sp (tr_env t))) m"
      "project_method (te_sp (tr_env t)) m" "scoped_method (te_sp (tr_env t)) m" "\<not> open_to_users (te_sp (tr_env t)) m"
      "m \<notin> set (adminViewerMethods (te_sp (tr_env t)))"
    and role: "(p, r) \<in> set (pat_ProjectRoles pat)" "has_key (map_get [] (roles_Project (te_sp (tr_env t))) r) m"
    and names: "\<not> has_key (pat_ProjectRoles pat) AnySubject" "\<not> has_key (pat_TenantRoles pat) AnySubject"
  shows "fst (tok_validateCreate t (wildcard_request m) w) = Inr (wildcard_request m) \<and>
    (\<forall>eu e w'. store_Create eu (token_operations eu t) (wildcard_request m) w = (Inr e, w') \<longrightarrow>
       (\<forall>s. authorize (te_sp (tr_env t)) (te_patg (tr_env t)) (Some (tws_Token e)) m s = Inr ())) \<and>
    (\<forall>s. authorize (te_sp (tr_env t)) (te_patg (tr_env t)) (Some session) m s = Inr () \<longrightarrow>
       s = '''' \<or> has_key (pat_ProjectRoles pat) s) \<and>
    (\<forall>s. authorize (te_sp (tr_env t)) (te_patg (tr_env t)) (Some (user_token user pat (Some ADMIN_ROLE_VIEWER) session)) m s = Inr () \<longrightarrow>
       s = '''' \<or> has_key (pat_ProjectRoles pat) s)"
proof (intro conjI allI impI)
  let ?sp = "te_sp (tr_env t)" and ?patg = "te_patg (tr_env t)"
  from wildcard_request_accepted [OF scope(3) viewer session(2) scope(2) session(3-5) wanted(1-3) role] obtain session'
    where "validateCreate (tr_env t) (Some user) (Some session) (wildcard_request m) = (Some session', wildcard_request m, Inr ())" by blast
  then have validated: "tok_validateCreate t (wildcard_request m) w = (Inr (wildcard_request m), w\<lparr>tw_session := Some session'\<rparr>)"
    by (simp add: tok_validateCreate_def scope session)
  then show "fst (tok_validateCreate t (wildcard_request m) w) = Inr (wildcard_request m)" by simp
  fix eu e w' s assume "store_Create eu (token_operations eu t) (wildcard_request m) w = (Inr e, w')"
  with validated obtain w1 where c: "tok_create t (wildcard_request m) (w\<lparr>tw_session := Some session'\<rparr>) = (Inr e, w1)"
    by (auto simp: store_Create_def bind_action_ok on_error_ok token_operations_def)
  have "issued_from (requested_token user (wildcard_request m) [wildcard_permission m]) user (tws_Token e)"
    by (rule tok_create_issued [OF c scope(1)])
      (simp_all add: wildcard_request_def deref_permissions_def flattenPermissions_def wildcard_permission_def)
  then have e: "t_AdminRole (tws_Token e) = Some ADMIN_ROLE_VIEWER" "t_TokenType (tws_Token e) \<noteq> TOKEN_TYPE_USER"
    "t_User (tws_Token e) = user" "t_Permissions (tws_Token e) = [wildcard_permission m]"
    by (simp_all add: issued_from_def requested_token_def wildcard_request_def)
  then show "authorize ?sp ?patg (Some (tws_Token e)) m s = Inr ()"
    using viewer_permissions [of "tws_Token e" ?patg pat ?sp "adminViewerMethods ?sp"] scope wanted(1)
    by (simp add: authorize_ok_iff TokenPermissions_def granted_def wildcard_permission_def)
next
  fix s assume "authorize (te_sp (tr_env t)) (te_patg (tr_env t)) (Some session) m s = Inr ()"
  then show "s = '''' \<or> has_key (pat_ProjectRoles pat) s"
    using scope session wanted names(1) membership_allows_member [of "te_sp (tr_env t)" pat m]
    by (auto simp: authorize_ok_iff TokenPermissions_def getTokenPermissions_user normalize_user_token_def
        allows_role_permissions member_of_def)
next
  let ?u = "user_token user pat (Some ADMIN_ROLE_VIEWER) session"
  fix s assume "authorize (te_sp (tr_env t)) (te_patg (tr_env t)) (Some ?u) m s = Inr ()"
  moreover have u: "t_AdminRole ?u = Some ADMIN_ROLE_VIEWER" "t_TokenType ?u \<noteq> TOKEN_TYPE_USER" "t_User ?u = user"
    by (simp_all add: user_token_def empty_Token_def)
  moreover have "\<not> granted (te_sp (tr_env t)) (adminViewerMethods (te_sp (tr_env t))) ?u m AnySubject"
    using wanted(6) names session(6,7) by (auto simp: granted_def user_token_def empty_Token_def intro: has_keyI)
  ultimately show "s = '''' \<or> has_key (pat_ProjectRoles pat) s"
    using viewer_permissions(1) [of ?u "te_patg (tr_env t)" pat] scope wanted(3,4) names(1)
    by (auto simp: authorize_ok_iff TokenPermissions_def allows_role_permissions member_of_def)
qed

theorem admin_viewer_wildcard_escalation_witness:
  "\<exists>e. fst (example_create ''bob'' bob_session [Perm_Project ''*'' [''/Project/Delete'']]
        (Some ADMIN_ROLE_VIEWER)) = Inr e \<and>
     example_authorize (tws_Token e) ''/Project/Delete'' ''p1'' = Inr () \<and>
     example_authorize bob_session ''/Project/Delete'' ''p1'' \<noteq> Inr ()"
proof -
  let ?t = "example_repository ''bob''"
  let ?c = "fst (example_create ''bob'' bob_session [Perm_Project ''*'' [''/Project/Delete'']] (Some ADMIN_ROLE_VIEWER))"
  have "is_ok ?c" by code_simp
  then obtain e w' where e: "example_create ''bob'' bob_session [Perm_Project ''*'' [''/Project/Delete'']]
      (Some ADMIN_ROLE_VIEWER) = (Inr e, w')" by (metis is_ok_iff prod.collapse)
  have rq: "example_request [Perm_Project ''*'' [''/Project/Delete'']] (Some ADMIN_ROLE_VIEWER) = wildcard_request ''/Project/Delete''"
    by (simp add: example_request_def wildcard_request_def AnySubject_def)
  have "hasAdminRole ''metal'' bob_pat = Some ADMIN_ROLE_VIEWER" "t_User bob_session = ''bob''"
    "t_TokenType bob_session = TOKEN_TYPE_USER" "t_AdminRole bob_session = None"
    "t_ProjectRoles bob_session = pat_ProjectRoles bob_pat" "t_InfraRole bob_session = None" "t_MachineRoles bob_session = []"
    "has_key (sp_Methods example_sp) ''/Project/Delete''" "has_key (vis_Project example_sp) ''/Project/Delete''"
    "project_method example_sp ''/Project/Delete''" "scoped_method example_sp ''/Project/Delete''"
    "\<not> open_to_users example_sp ''/Project/Delete''" "''/Project/Delete'' \<notin> set (adminViewerMethods example_sp)"
    "(''p3'', PROJECT_ROLE_OWNER) \<in> set (pat_ProjectRoles bob_pat)"
    "has_key (map_get [] (roles_Project example_sp) PROJECT_ROLE_OWNER) ''/Project/Delete''"
    "\<not> has_key (pat_ProjectRoles bob_pat) AnySubject" "\<not> has_key (pat_TenantRoles bob_pat) AnySubject"
    "\<not> has_key (pat_ProjectRoles bob_pat) ''p1''"
    by code_simp+
  with admin_viewer_wildcard_escalation [of ?t "''bob''" bob_pat "\<lparr>tw_redis = [], tw_session = Some bob_session\<rparr>" bob_session
      "''/Project/Delete''" "''p3''" PROJECT_ROLE_OWNER] e
  show ?thesis unfolding rq by (fastforce simp: example_repository_def example_env_def example_patg_def)
qed

text \<open>
  A machine token can escalate too. A token for the machine m1 may create a token with
  the permission to call a machine method on the wildcard, which is never reduced for machine
  methods, and the new token is authorized for the machine m2.
\<close>

theorem machine_wildcard_escalation:
  "\<exists>e. fst (example_create ''pixie'' pixie_session [Perm_Machine ''*'' [''/Event/Send'']] None) = Inr e \<and>
     example_authorize (tws_Token e) ''/Event/Send'' ''m2'' = Inr () \<and>
     example_authorize pixie_session ''/Event/Send'' ''m2'' \<noteq> Inr ()"
proof -
  let ?c = "fst (example_create ''pixie'' pixie_session [Perm_Machine ''*'' [''/Event/Send'']] None)"
  have "is_ok ?c" by code_simp
  then have "?c = Inr (projr ?c)" by (metis is_ok_iff sum.sel(2))
  moreover have "example_authorize (tws_Token (projr ?c)) ''/Event/Send'' ''m2'' = Inr ()"
    by code_simp
  moreover have "example_authorize pixie_session ''/Event/Send'' ''m2'' \<noteq> Inr ()"
    by code_simp
  ultimately show ?thesis by blast
qed

end
