(* ===== verification/Netip.thy ===== *)
theory Netip
  imports Prelude
begin

unbundle bit_operations_syntax

text \<open>
  What the repository uses of Go's \<^verbatim>\<open>net/netip\<close>: addresses with their zone, prefixes, parsing,
  printing, masking and the overlap of prefixes. An IPv4 address has 32 bits, an IPv6 address 128;
  a prefix is an address and a number of bits, whose host bits may be set.
\<close>

section \<open>Addresses and prefixes\<close>

datatype Addr = V4 "32 word" | V6 "128 word" string

record Prefix_bits =
  px_Addr :: Addr
  px_Bits :: nat

fun Is4 :: "Addr \<Rightarrow> bool" where
  "Is4 (V4 _) = True"
| "Is4 (V6 _ _) = False"

definition Is6 :: "Addr \<Rightarrow> bool" where
  "Is6 a = (\<not> Is4 a)"

fun BitLen :: "Addr \<Rightarrow> nat" where
  "BitLen (V4 _) = 32"
| "BitLen (V6 _ _) = 128"

section \<open>Text\<close>

fun split_on :: "char \<Rightarrow> string \<Rightarrow> string list" where
  "split_on c [] = [[]]"
| "split_on c (x # xs) =
     (if x = c then [] # split_on c xs
      else (case split_on c xs of [] \<Rightarrow> [[x]] | y # ys \<Rightarrow> (x # y) # ys))"

definition digit :: "char \<Rightarrow> nat option" where
  "digit c = (let n = of_char c :: nat in if 48 \<le> n \<and> n \<le> 57 then Some (n - 48) else None)"

definition hex_digit :: "char \<Rightarrow> nat option" where
  "hex_digit c =
     (let n = of_char c :: nat
      in if 48 \<le> n \<and> n \<le> 57 then Some (n - 48)
         else if 97 \<le> n \<and> n \<le> 102 then Some (n - 87)
         else if 65 \<le> n \<and> n \<le> 70 then Some (n - 55)
         else None)"

text \<open>A decimal without sign and without leading zeros, as \<open>strconv.Atoi\<close> reads it.\<close>

fun read_digits :: "string \<Rightarrow> nat \<Rightarrow> nat option" where
  "read_digits [] acc = Some acc"
| "read_digits (c # cs) acc =
     (case digit c of None \<Rightarrow> None | Some d \<Rightarrow> read_digits cs (10 * acc + d))"

definition read_decimal :: "string \<Rightarrow> nat option" where
  "read_decimal s =
     (if s = [] \<or> (length s > 1 \<and> hd s = CHR ''0'') then None else read_digits s 0)"

definition read_octet :: "string \<Rightarrow> nat option" where
  "read_octet s = (case read_decimal s of None \<Rightarrow> None | Some n \<Rightarrow> if n \<le> 255 then Some n else None)"

fun read_octets :: "string list \<Rightarrow> nat list option" where
  "read_octets [] = Some []"
| "read_octets (s # ss) =
     (case read_octet s of
        None \<Rightarrow> None
      | Some n \<Rightarrow> (case read_octets ss of None \<Rightarrow> None | Some ns \<Rightarrow> Some (n # ns)))"

definition parseIPv4Fields :: "string \<Rightarrow> (nat \<times> nat \<times> nat \<times> nat) option" where
  "parseIPv4Fields s =
     (case read_octets (split_on CHR ''.'' s) of Some [a, b, c, d] \<Rightarrow> Some (a, b, c, d) | _ \<Rightarrow> None)"

definition v4_of :: "nat \<times> nat \<times> nat \<times> nat \<Rightarrow> 32 word" where
  "v4_of = (\<lambda>(a, b, c, d). of_nat (((a * 256 + b) * 256 + c) * 256 + d))"

text \<open>
  The groups of an IPv6 address. \<open>read_hex\<close> reads the longest hexadecimal prefix of at most four
  digits and fails when there are more; the loop keeps the groups in reverse and the number of
  groups before the ellipsis.
\<close>

fun read_hex :: "nat \<Rightarrow> string \<Rightarrow> nat \<Rightarrow> (nat \<times> nat \<times> string) option" where
  "read_hex off [] acc = Some (off, acc, [])"
| "read_hex off (c # cs) acc =
     (case hex_digit c of
        None \<Rightarrow> Some (off, acc, c # cs)
      | Some d \<Rightarrow> if off > 3 then None else read_hex (off + 1) cs (16 * acc + d))"

text \<open>The first argument is the number of groups that may still follow.\<close>

fun parse_groups :: "nat \<Rightarrow> string \<Rightarrow> nat list \<Rightarrow> nat option \<Rightarrow> (nat list \<times> nat option \<times> string) option" where
  "parse_groups 0 s gs ellipsis = Some (gs, ellipsis, s)"
| "parse_groups (Suc n) s gs ellipsis =
     (case read_hex 0 s 0 of
        None \<Rightarrow> None
      | Some (off, acc, rest) \<Rightarrow>
          if off = 0 then None
          else if rest \<noteq> [] \<and> hd rest = CHR ''.''
          then
            (if ellipsis = None \<and> length gs \<noteq> 6 then None
             else if length gs + 2 > 8 then None
             else
               (case parseIPv4Fields s of
                  None \<Rightarrow> None
                | Some (a, b, c, d) \<Rightarrow> Some ((c * 256 + d) # (a * 256 + b) # gs, ellipsis, [])))
          else
            (let gs = acc # gs
             in case rest of
                  [] \<Rightarrow> Some (gs, ellipsis, [])
                | c # rest \<Rightarrow>
                    if c \<noteq> CHR '':'' \<or> rest = [] then None
                    else if hd rest = CHR '':''
                    then
                      (if ellipsis \<noteq> None then None
                       else if tl rest = [] then Some (gs, Some (length gs), [])
                       else parse_groups n (tl rest) gs (Some (length gs)))
                    else parse_groups n rest gs ellipsis))"

definition expand_groups :: "nat list \<times> nat option \<times> string \<Rightarrow> nat list option" where
  "expand_groups = (\<lambda>(gs, ellipsis, s).
     if s \<noteq> [] then None
     else
       (case ellipsis of
          None \<Rightarrow> if length gs < 8 then None else Some (rev gs)
        | Some k \<Rightarrow>
            if length gs < 8 then Some (take k (rev gs) @ replicate (8 - length gs) 0 @ drop k (rev gs))
            else None))"

definition v6_of :: "nat list \<Rightarrow> 128 word" where
  "v6_of gs = of_nat (fold (\<lambda>g acc. acc * 65536 + g) gs 0)"

definition parse_v6 :: "string \<Rightarrow> 128 word option" where
  "parse_v6 s =
     (if take 2 s = ''::''
      then
        (if drop 2 s = [] then Some 0
         else map_option v6_of (Option.bind (parse_groups 8 (drop 2 s) [] (Some 0)) expand_groups))
      else map_option v6_of (Option.bind (parse_groups 8 s [] None) expand_groups))"

definition parseIPv6 :: "string \<Rightarrow> Addr option" where
  "parseIPv6 s =
     (let host = takeWhile (\<lambda>c. c \<noteq> CHR ''%'') s; rest = dropWhile (\<lambda>c. c \<noteq> CHR ''%'') s
      in if rest = ''%'' then None
         else map_option (\<lambda>a. V6 a (drop 1 rest)) (parse_v6 host))"

text \<open>The first of the characters dot, colon and percent decides about the kind of address.\<close>

definition ParseAddr :: "string \<Rightarrow> Addr option" where
  "ParseAddr s =
     (case find (\<lambda>c. c \<in> {CHR ''.'', CHR '':'', CHR ''%''}) s of
        None \<Rightarrow> None
      | Some c \<Rightarrow>
          if c = CHR ''.'' then map_option (V4 \<circ> v4_of) (parseIPv4Fields s)
          else if c = CHR '':'' then parseIPv6 s
          else None)"

fun last_split :: "char \<Rightarrow> string \<Rightarrow> (string \<times> string) option" where
  "last_split c [] = None"
| "last_split c (x # xs) =
     (case last_split c xs of
        Some (a, b) \<Rightarrow> Some (x # a, b)
      | None \<Rightarrow> if x = c then Some ([], xs) else None)"

definition ParsePrefix :: "string \<Rightarrow> Prefix_bits option" where
  "ParsePrefix s =
     (case last_split CHR ''/'' s of
        None \<Rightarrow> None
      | Some (host, bits) \<Rightarrow>
          (case ParseAddr host of
             None \<Rightarrow> None
           | Some a \<Rightarrow>
               if (case a of V6 _ z \<Rightarrow> z \<noteq> [] | V4 _ \<Rightarrow> False) then None
               else
                 (case read_decimal bits of
                    None \<Rightarrow> None
                  | Some n \<Rightarrow> if n > BitLen a then None else Some \<lparr>px_Addr = a, px_Bits = n\<rparr>)))"

section \<open>Printing\<close>

definition v4_String :: "32 word \<Rightarrow> string" where
  "v4_String a =
     (let n = unat a
      in itoa (n div 16777216) @ ''.'' @ itoa (n div 65536 mod 256) @ ''.'' @
         itoa (n div 256 mod 256) @ ''.'' @ itoa (n mod 256))"

definition v6_group :: "128 word \<Rightarrow> nat \<Rightarrow> nat" where
  "v6_group a i = unat a div 65536 ^ (7 - i) mod 65536"

fun hex :: "nat \<Rightarrow> string" where
  "hex n =
     (if n < 16 then [if n < 10 then char_of (48 + n) else char_of (87 + n)]
      else hex (n div 16) @ hex (n mod 16))"

declare hex.simps [simp del]

text \<open>The first longest run of at least two zero groups, as start and length.\<close>

fun zero_run :: "nat list \<Rightarrow> nat" where
  "zero_run [] = 0"
| "zero_run (g # gs) = (if g = 0 then Suc (zero_run gs) else 0)"

definition longest_zeros :: "nat list \<Rightarrow> nat \<times> nat" where
  "longest_zeros gs =
     fold (\<lambda>i (start, len).
       let l = zero_run (drop i gs) in if l \<ge> 2 \<and> l > len then (i, l) else (start, len))
       [0..<length gs] (255, 0)"

definition v6_String :: "128 word \<Rightarrow> string" where
  "v6_String a =
     (let gs = map (v6_group a) [0..<8]
      in if take 6 gs = [0, 0, 0, 0, 0, 65535] then ''::ffff:'' @ v4_String (ucast a)
         else
           (case longest_zeros gs of
              (start, len) \<Rightarrow>
                if len = 0 then strings_Join (map hex gs) '':''
                else strings_Join (map hex (take start gs)) '':'' @ ''::'' @
                     strings_Join (map hex (drop (start + len) gs)) '':''))"

fun Addr_String :: "Addr \<Rightarrow> string" where
  "Addr_String (V4 a) = v4_String a"
| "Addr_String (V6 a z) = v6_String a @ (if z = [] then [] else CHR ''%'' # z)"

definition Prefix_bits_String :: "Prefix_bits \<Rightarrow> string" where
  "Prefix_bits_String p = Addr_String (px_Addr p) @ ''/'' @ itoa (px_Bits p)"

section \<open>Masks and overlaps\<close>

definition mask_word :: "nat \<Rightarrow> 'a::len word \<Rightarrow> 'a word" where
  "mask_word k a = push_bit k (drop_bit k a)"

fun mask_addr :: "nat \<Rightarrow> Addr \<Rightarrow> Addr" where
  "mask_addr n (V4 a) = V4 (mask_word (32 - n) a)"
| "mask_addr n (V6 a z) = V6 (mask_word (128 - n) a) []"

definition Masked :: "Prefix_bits \<Rightarrow> Prefix_bits" where
  "Masked p = p\<lparr>px_Addr := mask_addr (px_Bits p) (px_Addr p)\<rparr>"

definition prefix_Contains :: "Prefix_bits \<Rightarrow> Addr \<Rightarrow> bool" where
  "prefix_Contains p a =
     (BitLen a = BitLen (px_Addr p) \<and> (case a of V6 _ z \<Rightarrow> z = [] | V4 _ \<Rightarrow> True) \<and>
      mask_addr (px_Bits p) a = mask_addr (px_Bits p) (px_Addr p))"

definition Overlaps :: "Prefix_bits \<Rightarrow> Prefix_bits \<Rightarrow> bool" where
  "Overlaps p q =
     (BitLen (px_Addr p) = BitLen (px_Addr q) \<and>
      (let n = min (px_Bits p) (px_Bits q) in mask_addr n (px_Addr p) = mask_addr n (px_Addr q)))"

lemma mask_word_eq: "mask_word k a = mask_word k b \<longleftrightarrow> drop_bit k a = drop_bit k b"
  for a b :: "'a::len word"
proof
  assume eq: "mask_word k a = mask_word k b"
  show "drop_bit k a = drop_bit k b"
  proof (rule bit_word_eqI)
    fix n assume "n < LENGTH('a)"
    from eq have "bit (mask_word k a) (k + n) = bit (mask_word k b) (k + n)" by simp
    then show "bit (drop_bit k a) n = bit (drop_bit k b) n"
      by (auto simp: mask_word_def bit_push_bit_iff bit_drop_bit_eq add.commute dest: bit_imp_le_length)
  qed
qed (simp add: mask_word_def)

lemma mask_word_mono:
  assumes "mask_word k a = mask_word k b" and "k \<le> l"
  shows "mask_word l a = mask_word l b"
proof -
  have "drop_bit l x = drop_bit (l - k) (drop_bit k x)" for x :: "'a::len word"
    using assms(2) by (simp add: drop_bit_drop_bit)
  with assms(1) show ?thesis unfolding mask_word_eq by metis
qed

lemma mask_addr_mono:
  "mask_addr n a = mask_addr n b \<Longrightarrow> m \<le> n \<Longrightarrow> mask_addr m a = mask_addr m b"
  by (cases a; cases b) (auto intro: mask_word_mono)

lemma mask_addr_BitLen: "mask_addr n a = mask_addr n b \<Longrightarrow> BitLen a = BitLen b"
  by (cases a; cases b) auto

text \<open>Two prefixes overlap exactly when some address is contained in both.\<close>

definition no_zone :: "Addr \<Rightarrow> Addr" where
  "no_zone a = (case a of V4 w \<Rightarrow> V4 w | V6 w _ \<Rightarrow> V6 w [])"

lemma no_zone: "BitLen (no_zone a) = BitLen a" "mask_addr n (no_zone a) = mask_addr n a"
    "case no_zone a of V6 _ z \<Rightarrow> z = [] | V4 _ \<Rightarrow> True"
  by (cases a; simp add: no_zone_def)+

lemma prefix_Contains_own: "prefix_Contains p (no_zone (px_Addr p))"
  by (simp add: prefix_Contains_def no_zone)

lemma Overlaps_shorter:
  "Overlaps p q \<Longrightarrow> px_Bits p \<le> px_Bits q \<Longrightarrow> prefix_Contains p (no_zone (px_Addr q))"
  by (simp add: Overlaps_def prefix_Contains_def Let_def no_zone)

lemma Overlaps_sym: "Overlaps p q = Overlaps q p"
  by (auto simp: Overlaps_def Let_def min.commute)

lemma Overlaps_iff: "Overlaps p q \<longleftrightarrow> (\<exists>a. prefix_Contains p a \<and> prefix_Contains q a)"
proof
  assume ov: "Overlaps p q"
  show "\<exists>a. prefix_Contains p a \<and> prefix_Contains q a"
    using Overlaps_shorter [of p q] Overlaps_shorter [of q p] ov prefix_Contains_own
    by (metis Overlaps_sym nle_le)
next
  assume "\<exists>a. prefix_Contains p a \<and> prefix_Contains q a"
  then obtain a where "mask_addr (px_Bits p) a = mask_addr (px_Bits p) (px_Addr p)"
    "mask_addr (px_Bits q) a = mask_addr (px_Bits q) (px_Addr q)"
    by (auto simp: prefix_Contains_def)
  then have "mask_addr n a = mask_addr n (px_Addr p)" "mask_addr n a = mask_addr n (px_Addr q)"
    if "n = min (px_Bits p) (px_Bits q)" for n
    using that by (auto intro: mask_addr_mono)
  then show "Overlaps p q"
    unfolding Overlaps_def Let_def by (metis mask_addr_BitLen)
qed

end
