(* ===== verification/Networks.thy ===== *)
theory Networks
  imports Netip MachineData Labels
begin

text \<open>
  The network entity, \<^verbatim>\<open>pkg/db/metal/network.go\<close>, and its queries, \<^verbatim>\<open>pkg/db/queries/network.go\<close>.
  A nil map and an empty one are both the empty list. The functions of the API's enum package are arguments.
\<close>

section \<open>The entity\<close>

datatype AddressFamily =
    AddressFamilyIPv4 | AddressFamilyIPv6 | AddressFamilyDualStack | AddressFamilyOther string

type_synonym ChildPrefixLength = "(AddressFamily, 8 word) gomap"

record Prefix =
  pf_IP :: string
  pf_Length :: string

type_synonym Prefixes = "Prefix list"

record Network = Base +
  nw_Prefixes :: Prefixes
  nw_DestinationPrefixes :: Prefixes
  nw_DefaultChildPrefixLength :: ChildPrefixLength
  nw_MinChildPrefixLength :: ChildPrefixLength
  nw_PartitionID :: string
  nw_ProjectID :: string
  nw_Namespace :: "string option"
  nw_ParentNetworkID :: string
  nw_Vrf :: "64 word"
  nw_Labels :: Labels
  nw_AdditionalAnnouncableCIDRs :: "string list"
  nw_NetworkType :: NetworkType
  nw_NATType :: NATType
  nw_PrivateSuper :: bool
  nw_Underlay :: bool
  nw_Shared :: bool
  nw_Nat :: bool

fun NetworkType_string :: "NetworkType \<Rightarrow> string" where
  "NetworkType_string NetworkTypeExternal = ''external''"
| "NetworkType_string NetworkTypeUnderlay = ''underlay''"
| "NetworkType_string NetworkTypeSuper = ''super''"
| "NetworkType_string NetworkTypeSuperNamespaced = ''super-namespaced''"
| "NetworkType_string NetworkTypeChild = ''child''"
| "NetworkType_string NetworkTypeChildShared = ''child-shared''"
| "NetworkType_string (NetworkTypeOther s) = s"

fun NATType_string :: "NATType \<Rightarrow> string" where
  "NATType_string NATTypeInvalid = ''invalid''"
| "NATType_string NATTypeNone = ''none''"
| "NATType_string NATTypeIPv4Masquerade = ''ipv4-masq''"
| "NATType_string (NATTypeOther s) = s"

definition IsSuperNetwork :: "NetworkType \<Rightarrow> bool" where
  "IsSuperNetwork nt = (nt = NetworkTypeSuper \<or> nt = NetworkTypeSuperNamespaced)"

definition IsChildNetwork :: "NetworkType \<Rightarrow> bool" where
  "IsChildNetwork nt = (nt = NetworkTypeChild \<or> nt = NetworkTypeChildShared)"

section \<open>The API's enumerations\<close>

datatype ApiNetworkType =
    NETWORK_TYPE_UNSPECIFIED | NETWORK_TYPE_EXTERNAL | NETWORK_TYPE_CHILD | NETWORK_TYPE_CHILD_SHARED
  | NETWORK_TYPE_SUPER | NETWORK_TYPE_SUPER_NAMESPACED | NETWORK_TYPE_UNDERLAY | NETWORK_TYPE_NUMBER int

datatype ApiNATType =
  NAT_TYPE_UNSPECIFIED | NAT_TYPE_NONE | NAT_TYPE_IPV4_MASQUERADE | NAT_TYPE_NUMBER int

datatype IPAddressFamily =
    IP_ADDRESS_FAMILY_UNSPECIFIED | IP_ADDRESS_FAMILY_V4 | IP_ADDRESS_FAMILY_V6
  | IP_ADDRESS_FAMILY_NUMBER int

datatype NetworkAddressFamily =
    NETWORK_ADDRESS_FAMILY_UNSPECIFIED | NETWORK_ADDRESS_FAMILY_V4 | NETWORK_ADDRESS_FAMILY_V6
  | NETWORK_ADDRESS_FAMILY_DUAL_STACK | NETWORK_ADDRESS_FAMILY_NUMBER int

record ApiChildPrefixLength =
  cpl_Ipv4 :: "32 word option"
  cpl_Ipv6 :: "32 word option"

record network_enums =
  ne_GetEnum_type :: "string \<Rightarrow> ApiNetworkType result"
  ne_GetEnum_nat :: "string \<Rightarrow> ApiNATType result"
  ne_GetStringValue :: "ApiNetworkType \<Rightarrow> string result"

fun ToNetworkType :: "ApiNetworkType \<Rightarrow> NetworkType result" where
  "ToNetworkType NETWORK_TYPE_CHILD = Inr NetworkTypeChild"
| "ToNetworkType NETWORK_TYPE_CHILD_SHARED = Inr NetworkTypeChildShared"
| "ToNetworkType NETWORK_TYPE_SUPER = Inr NetworkTypeSuper"
| "ToNetworkType NETWORK_TYPE_SUPER_NAMESPACED = Inr NetworkTypeSuperNamespaced"
| "ToNetworkType NETWORK_TYPE_EXTERNAL = Inr NetworkTypeExternal"
| "ToNetworkType NETWORK_TYPE_UNDERLAY = Inr NetworkTypeUnderlay"
| "ToNetworkType _ = Inl (Plain ''given networkType:%q is invalid'')"

definition FromNetworkType :: "network_enums \<Rightarrow> NetworkType \<Rightarrow> ApiNetworkType result" where
  "FromNetworkType ne nwt =
     (case ne_GetEnum_type ne (NetworkType_string nwt) of
        Inl _ \<Rightarrow> Inl (Plain ''given networkType:%q is invalid'')
      | Inr t \<Rightarrow> Inr t)"

fun ToNATType :: "ApiNATType \<Rightarrow> NATType result" where
  "ToNATType NAT_TYPE_NONE = Inr NATTypeNone"
| "ToNATType NAT_TYPE_IPV4_MASQUERADE = Inr NATTypeIPv4Masquerade"
| "ToNATType _ = Inl (Plain ''given natType:%q is invalid'')"

definition FromNATType :: "network_enums \<Rightarrow> NATType \<Rightarrow> ApiNATType result" where
  "FromNATType ne nt =
     (if NATType_string nt = '''' then Inr NAT_TYPE_NONE
      else
        (case ne_GetEnum_nat ne (NATType_string nt) of
           Inl _ \<Rightarrow> Inl (Plain ''given nat type %q is invalid'')
         | Inr t \<Rightarrow> Inr t))"

fun ToAddressFamily :: "IPAddressFamily \<Rightarrow> AddressFamily result" where
  "ToAddressFamily IP_ADDRESS_FAMILY_V4 = Inr AddressFamilyIPv4"
| "ToAddressFamily IP_ADDRESS_FAMILY_V6 = Inr AddressFamilyIPv6"
| "ToAddressFamily _ = Inl (Plain ''given addressfamily %q is invalid'')"

fun FromAddressFamily :: "AddressFamily \<Rightarrow> IPAddressFamily result" where
  "FromAddressFamily AddressFamilyIPv4 = Inr IP_ADDRESS_FAMILY_V4"
| "FromAddressFamily AddressFamilyIPv6 = Inr IP_ADDRESS_FAMILY_V6"
| "FromAddressFamily _ = Inl (Plain ''given addressfamily %q is invalid'')"

text \<open>None stands for the nil that dual stack gives.\<close>

fun ToAddressFamilyFromNetwork :: "NetworkAddressFamily \<Rightarrow> AddressFamily option result" where
  "ToAddressFamilyFromNetwork NETWORK_ADDRESS_FAMILY_DUAL_STACK = Inr None"
| "ToAddressFamilyFromNetwork NETWORK_ADDRESS_FAMILY_V4 = Inr (Some AddressFamilyIPv4)"
| "ToAddressFamilyFromNetwork NETWORK_ADDRESS_FAMILY_V6 = Inr (Some AddressFamilyIPv6)"
| "ToAddressFamilyFromNetwork _ = Inl (Plain ''given addressfamily %q is invalid'')"

fun FromAddressFamilyOfNetwork :: "AddressFamily \<Rightarrow> NetworkAddressFamily result" where
  "FromAddressFamilyOfNetwork AddressFamilyIPv4 = Inr NETWORK_ADDRESS_FAMILY_V4"
| "FromAddressFamilyOfNetwork AddressFamilyIPv6 = Inr NETWORK_ADDRESS_FAMILY_V6"
| "FromAddressFamilyOfNetwork AddressFamilyDualStack = Inr NETWORK_ADDRESS_FAMILY_DUAL_STACK"
| "FromAddressFamilyOfNetwork _ = Inl (Plain ''given addressfamily %q is invalid'')"

text \<open>The lengths are narrowed to 8 bits.\<close>

definition ToChildPrefixLength :: "ApiChildPrefixLength option \<Rightarrow> ChildPrefixLength" where
  "ToChildPrefixLength cpl =
     (case cpl of
        None \<Rightarrow> []
      | Some cpl \<Rightarrow>
          (case cpl_Ipv4 cpl of None \<Rightarrow> [] | Some l \<Rightarrow> [(AddressFamilyIPv4, ucast l)]) @
          (case cpl_Ipv6 cpl of None \<Rightarrow> [] | Some l \<Rightarrow> [(AddressFamilyIPv6, ucast l)]))"

section \<open>Prefixes\<close>

definition Prefix_String :: "Prefix \<Rightarrow> string" where
  "Prefix_String p = pf_IP p @ ''/'' @ pf_Length p"

definition Prefixes_String :: "Prefixes \<Rightarrow> string list" where
  "Prefixes_String ps = sort (map Prefix_String ps)"

definition OfFamily :: "Prefixes \<Rightarrow> AddressFamily \<Rightarrow> Prefixes" where
  "OfFamily ps af =
     filter (\<lambda>p. case ParsePrefix (Prefix_String p) of
         None \<Rightarrow> False
       | Some pfx \<Rightarrow>
           \<not> (Is4 (px_Addr pfx) \<and> af = AddressFamilyIPv6) \<and>
           \<not> (Is6 (px_Addr pfx) \<and> af = AddressFamilyIPv4)) ps"

definition addr_family :: "Addr \<Rightarrow> AddressFamily" where
  "addr_family a = (if Is4 a then AddressFamilyIPv4 else AddressFamilyIPv6)"

definition AddressFamilies :: "Prefixes \<Rightarrow> AddressFamily list" where
  "AddressFamilies ps =
     fold (\<lambda>p afs. case ParsePrefix (Prefix_String p) of
         None \<Rightarrow> afs
       | Some pfx \<Rightarrow>
           (let af = addr_family (px_Addr pfx) in if af \<in> set afs then afs else afs @ [af])) ps []"

definition parse_error :: go_error where
  "parse_error = Plain ''netip.ParsePrefix''"

definition NewPrefixFromCIDR :: "string \<Rightarrow> (Prefix \<times> Prefix_bits) result" where
  "NewPrefixFromCIDR cidr =
     (case ParsePrefix cidr of
        None \<Rightarrow> Inl parse_error
      | Some pfx \<Rightarrow> Inr (\<lparr>pf_IP = Addr_String (px_Addr pfx), pf_Length = itoa (px_Bits pfx)\<rparr>, pfx))"

fun NewPrefixesFromCIDRs :: "string list \<Rightarrow> Prefixes result" where
  "NewPrefixesFromCIDRs [] = Inr []"
| "NewPrefixesFromCIDRs (p # cidrs) =
     (case NewPrefixFromCIDR p of
        Inl err \<Rightarrow> Inl err
      | Inr (pfx, _) \<Rightarrow>
          (case NewPrefixesFromCIDRs cidrs of Inl err \<Rightarrow> Inl err | Inr ps \<Rightarrow> Inr (pfx # ps)))"

definition SubtractPrefixes :: "Prefixes \<Rightarrow> Prefixes \<Rightarrow> Prefixes" where
  "SubtractPrefixes p target =
     filter (\<lambda>a. \<not> list_ex (\<lambda>b. Prefix_String a = Prefix_String b) target) p"

definition NetworksById :: "Network list \<Rightarrow> (string, Network) gomap" where
  "NetworksById networks = fold (\<lambda>n m. AList.update (b_ID n) n m) networks []"

section \<open>Queries\<close>

record NetworkQuery =
  nq_Id :: "string option"
  nq_Name :: "string option"
  nq_Description :: "string option"
  nq_Partition :: "string option"
  nq_Project :: "string option"
  nq_Namespace :: "string option"
  nq_Prefixes :: "string list"
  nq_DestinationPrefixes :: "string list"
  nq_Vrf :: "32 word option"
  nq_ParentNetwork :: "string option"
  nq_AddressFamily :: "NetworkAddressFamily option"
  nq_Type :: "ApiNetworkType option"
  nq_NatType :: "ApiNATType option"
  nq_Labels :: "Labels option"

definition empty_NetworkQuery :: NetworkQuery where
  "empty_NetworkQuery =
     \<lparr>nq_Id = None, nq_Name = None, nq_Description = None, nq_Partition = None, nq_Project = None,
      nq_Namespace = None, nq_Prefixes = [], nq_DestinationPrefixes = [], nq_Vrf = None,
      nq_ParentNetwork = None, nq_AddressFamily = None, nq_Type = None, nq_NatType = None,
      nq_Labels = None\<rparr>"

definition NetworkProjectScoped :: "string \<Rightarrow> Network \<Rightarrow> bool" where
  "NetworkProjectScoped project n = (nw_ProjectID n = project)"

text \<open>The address and the length of a queried prefix may match different prefixes of the row.\<close>

definition queried_prefix :: "Prefixes \<Rightarrow> Prefix_bits \<Rightarrow> bool" where
  "queried_prefix ps pfx =
     (Addr_String (px_Addr pfx) \<in> set (map pf_IP ps) \<and> itoa (px_Bits pfx) \<in> set (map pf_Length ps))"

definition has_labels :: "Labels option \<Rightarrow> Labels \<Rightarrow> bool" where
  "has_labels q ls =
     (case q of None \<Rightarrow> True | Some q \<Rightarrow> list_all (\<lambda>(k, v). map_of ls k = Some v) q)"

definition has_family :: "NetworkAddressFamily option \<Rightarrow> Prefixes \<Rightarrow> bool" where
  "has_family af ps =
     (case af of
        Some NETWORK_ADDRESS_FAMILY_V4 \<Rightarrow> list_ex (\<lambda>p. CHR ''.'' \<in> set (pf_IP p)) ps
      | Some NETWORK_ADDRESS_FAMILY_V6 \<Rightarrow> list_ex (\<lambda>p. CHR '':'' \<in> set (pf_IP p)) ps
      | Some NETWORK_ADDRESS_FAMILY_DUAL_STACK \<Rightarrow>
          list_ex (\<lambda>p. CHR ''.'' \<in> set (pf_IP p)) ps \<and> list_ex (\<lambda>p. CHR '':'' \<in> set (pf_IP p)) ps
      | _ \<Rightarrow> True)"

definition query_predicate :: "network_enums \<Rightarrow> NetworkQuery \<Rightarrow> Network \<Rightarrow> bool" where
  "query_predicate ne rq n =
     (matches_field (nq_Project rq) (nw_ProjectID n) \<and>
      matches_field (nq_Id rq) (b_ID n) \<and>
      matches_field (nq_Name rq) (b_Name n) \<and>
      (case nq_Namespace rq of None \<Rightarrow> True | Some ns \<Rightarrow> nw_Namespace n = Some ns) \<and>
      matches_field (nq_Description rq) (b_Description n) \<and>
      matches_field (nq_Partition rq) (nw_PartitionID n) \<and>
      matches_field (nq_ParentNetwork rq) (nw_ParentNetworkID n) \<and>
      (case nq_Vrf rq of None \<Rightarrow> True | Some v \<Rightarrow> nw_Vrf n = ucast v) \<and>
      has_labels (nq_Labels rq) (nw_Labels n) \<and>
      (case nq_Type rq of
         None \<Rightarrow> True
       | Some t \<Rightarrow>
           (case ne_GetStringValue ne t of
              Inl _ \<Rightarrow> True
            | Inr s \<Rightarrow> NetworkType_string (nw_NetworkType n) = s)) \<and>
      (case nq_NatType rq of
         None \<Rightarrow> True
       | Some t \<Rightarrow>
           (case ToNATType t of
              Inl _ \<Rightarrow> True
            | Inr nt \<Rightarrow> NATType_string (nw_NATType n) = NATType_string nt)) \<and>
      list_all (queried_prefix (nw_Prefixes n)) (List.map_filter ParsePrefix (nq_Prefixes rq)) \<and>
      list_all (queried_prefix (nw_DestinationPrefixes n)) (List.map_filter ParsePrefix (nq_DestinationPrefixes rq)) \<and>
      has_family (nq_AddressFamily rq) (nw_Prefixes n))"

text \<open>A nil query has no filter; a malformed prefix makes the filter panic.\<close>

definition NetworkFilter ::
  "network_enums \<Rightarrow> NetworkQuery option \<Rightarrow> (Network \<Rightarrow> bool) option result" where
  "NetworkFilter ne rq =
     (case rq of
        None \<Rightarrow> Inr None
      | Some rq \<Rightarrow>
          if list_ex (\<lambda>p. ParsePrefix p = None) (nq_Prefixes rq @ nq_DestinationPrefixes rq)
          then Inl (Panic ''netip.MustParsePrefix'')
          else Inr (Some (query_predicate ne rq)))"

end
