(* ===== verification/Ipam.thy ===== *)
theory Ipam
  imports Netip
begin

text \<open>
  The IP address management service that networks and IPs are allocated from. It is not part of
  the repository: its calls are a record of functions on its state, and the locale states what its
  documentation promises. Prefixes and addresses are texts; a call may fail.
\<close>

record PrefixUsage =
  pu_AvailableIps :: "64 word"
  pu_AcquiredIps :: "64 word"
  pu_AvailablePrefixes :: "string list"
  pu_AcquiredPrefixes :: "64 word"

record 'i ipam =
  im_CreatePrefix :: "string \<Rightarrow> string option \<Rightarrow> 'i \<Rightarrow> unit result \<times> 'i" \<comment> \<open>cidr and namespace\<close>
  im_DeletePrefix :: "string \<Rightarrow> string option \<Rightarrow> 'i \<Rightarrow> unit result \<times> 'i"
  im_GetPrefix :: "string \<Rightarrow> string option \<Rightarrow> 'i \<Rightarrow> unit result"
  im_CreateNamespace :: "string \<Rightarrow> 'i \<Rightarrow> unit result \<times> 'i"
  im_AcquireChildPrefix :: "string \<Rightarrow> 32 word \<Rightarrow> string option \<Rightarrow> 'i \<Rightarrow> string result \<times> 'i"
  im_PrefixUsage :: "string \<Rightarrow> string option \<Rightarrow> 'i \<Rightarrow> PrefixUsage result"
  im_AcquireIP :: "string \<Rightarrow> string option \<Rightarrow> string option \<Rightarrow> 'i \<Rightarrow> string result \<times> 'i"
    \<comment> \<open>prefix, address if a specific one is asked for, and namespace\<close>
  im_ReleaseIP :: "string \<Rightarrow> string \<Rightarrow> string option \<Rightarrow> 'i \<Rightarrow> unit result \<times> 'i"
    \<comment> \<open>prefix, address and namespace\<close>

text \<open>\<open>prefixes\<close> are the prefixes the service knows in a namespace.\<close>

locale ipam_service =
  fixes im :: "'i ipam" and prefixes :: "'i \<Rightarrow> string option \<Rightarrow> string set"
  assumes create_prefix: "im_CreatePrefix im c ns st = (Inr (), st') \<Longrightarrow>
      prefixes st' = (prefixes st)(ns := insert c (prefixes st ns))"
    and create_prefix_err: "im_CreatePrefix im c ns st = (Inl err, st') \<Longrightarrow> prefixes st' = prefixes st"
    and delete_prefix: "im_DeletePrefix im c ns st = (Inr (), st') \<Longrightarrow>
      prefixes st' = (prefixes st)(ns := prefixes st ns - {c})"
    and delete_prefix_err: "im_DeletePrefix im c ns st = (Inl err, st') \<Longrightarrow> prefixes st' = prefixes st"
    and delete_prefix_unknown: "im_DeletePrefix im c ns st = (Inl err, st') \<Longrightarrow> IsNotFound err \<Longrightarrow>
      c \<notin> prefixes st ns"

section \<open>A service in memory\<close>

text \<open>The witnesses instantiate the parameter with a list of prefixes with their namespace.\<close>

type_synonym ipam_list = "(string option \<times> string) list"

definition ipam_list_prefixes :: "ipam_list \<Rightarrow> string option \<Rightarrow> string set" where
  "ipam_list_prefixes st ns = {c. (ns, c) \<in> set st}"

definition list_ipam :: "string \<Rightarrow> ipam_list ipam" where
  "list_ipam child =
     \<lparr>im_CreatePrefix = (\<lambda>c ns st. (Inr (), (ns, c) # st)),
      im_DeletePrefix = (\<lambda>c ns st.
        if (ns, c) \<in> set st then (Inr (), removeAll (ns, c) st) else (Inl (NotFound ''prefix''), st)),
      im_GetPrefix = (\<lambda>c ns st. if (ns, c) \<in> set st then Inr () else Inl (NotFound ''prefix'')),
      im_CreateNamespace = (\<lambda>_ st. (Inr (), st)),
      im_AcquireChildPrefix = (\<lambda>c _ ns st.
        if (ns, c) \<in> set st then (Inr child, (ns, child) # st) else (Inl (NotFound ''prefix''), st)),
      im_PrefixUsage = (\<lambda>c ns st. Inl (NotFound ''prefix'')),
      im_AcquireIP = (\<lambda>c _ ns st. (Inl (NotFound ''prefix''), st)),
      im_ReleaseIP = (\<lambda>_ _ _ st. (Inr (), st))\<rparr>"

interpretation list_ipam: ipam_service "list_ipam child" ipam_list_prefixes
  by unfold_locales (auto simp: list_ipam_def ipam_list_prefixes_def fun_eq_iff split: if_splits)

section \<open>Addresses\<close>

text \<open>
  \<open>acquired\<close> are the addresses that were acquired from a prefix of a namespace. A specific address
  comes back in the service's own spelling.
\<close>

locale ipam_addresses =
  fixes im :: "'i ipam" and acquired :: "'i \<Rightarrow> string option \<times> string \<Rightarrow> string set"
  assumes acquire: "im_AcquireIP im c a ns st = (Inr x, st') \<Longrightarrow>
      x \<notin> acquired st (ns, c) \<and> acquired st' = (acquired st)((ns, c) := insert x (acquired st (ns, c)))"
    and acquire_contained: "im_AcquireIP im c a ns st = (Inr x, st') \<Longrightarrow>
      \<exists>pfx ad. ParsePrefix c = Some pfx \<and> ParseAddr x = Some ad \<and> prefix_Contains pfx ad"
    and acquire_specific: "im_AcquireIP im c (Some y) ns st = (Inr x, st') \<Longrightarrow> ParseAddr x = ParseAddr y"
    and acquire_err: "im_AcquireIP im c a ns st = (Inl err, st') \<Longrightarrow> acquired st' = acquired st"
    and release: "im_ReleaseIP im c x ns st = (Inr (), st') \<Longrightarrow>
      acquired st' = (acquired st)((ns, c) := acquired st (ns, c) - {x})"
    and release_err: "im_ReleaseIP im c x ns st = (Inl err, st') \<Longrightarrow>
      acquired st' = acquired st \<and> (IsNotFound err \<longrightarrow> x \<notin> acquired st (ns, c))"

text \<open>In memory: the acquired addresses, and the one the service offers when none is asked for.\<close>

type_synonym address_list = "((string option \<times> string) \<times> string) list"

definition address_list_acquired :: "address_list \<Rightarrow> string option \<times> string \<Rightarrow> string set" where
  "address_list_acquired st k = {x. (k, x) \<in> set st}"

definition contained_in :: "string \<Rightarrow> string \<Rightarrow> bool" where
  "contained_in c x =
     (case ParsePrefix c of
        None \<Rightarrow> False
      | Some pfx \<Rightarrow> (case ParseAddr x of None \<Rightarrow> False | Some ad \<Rightarrow> prefix_Contains pfx ad))"

definition address_ipam :: "string \<Rightarrow> address_list ipam" where
  "address_ipam offer =
     \<lparr>im_CreatePrefix = (\<lambda>c ns st. (Inr (), st)),
      im_DeletePrefix = (\<lambda>c ns st. (Inr (), st)),
      im_GetPrefix = (\<lambda>c ns st. Inr ()),
      im_CreateNamespace = (\<lambda>_ st. (Inr (), st)),
      im_AcquireChildPrefix = (\<lambda>c _ ns st. (Inl (NotFound ''prefix''), st)),
      im_PrefixUsage = (\<lambda>c ns st. Inr \<lparr>pu_AvailableIps = 256, pu_AcquiredIps = 2, pu_AvailablePrefixes = [],
        pu_AcquiredPrefixes = 0\<rparr>),
      im_AcquireIP = (\<lambda>c a ns st.
        let x = (case a of None \<Rightarrow> offer | Some y \<Rightarrow> y)
        in if contained_in c x \<and> ((ns, c), x) \<notin> set st then (Inr x, ((ns, c), x) # st)
           else (Inl (NotFound ''ip''), st)),
      im_ReleaseIP = (\<lambda>c x ns st.
        if ((ns, c), x) \<in> set st then (Inr (), removeAll ((ns, c), x) st) else (Inl (NotFound ''ip''), st))\<rparr>"

interpretation address_ipam: ipam_addresses "address_ipam offer" address_list_acquired
  by unfold_locales
    (auto simp: address_ipam_def address_list_acquired_def contained_in_def fun_eq_iff Let_def
      split: if_splits option.splits)

end
