(* ===== verification/Rethink.thy ===== *)
theory Rethink
  imports Prelude
begin

text \<open>
  The interface of a rethinkdb table, as far as the generic storage and the integer pools rely on
  it. The database is not part of the repository: the writes and reads of a table are a record of
  functions on its state, and the locale states their documented effect on the rows, a map from
  primary keys. A write may fail; a failed write is taken to change nothing.
\<close>

datatype write_error =
    ConflictErr \<comment> \<open>the primary key exists\<close>
  | BranchErr string \<comment> \<open>the error of \<open>r.Error\<close> in a branch of the query\<close>
  | OtherErr string

record ('st, 'k, 'e) rethink =
  rt_key :: "'e \<Rightarrow> 'k"
  rt_Insert :: "'e \<Rightarrow> 'st \<Rightarrow> write_error + 'st"
  rt_InsertReplace :: "'e \<Rightarrow> 'st \<Rightarrow> write_error + 'st" \<comment> \<open>\<open>Conflict: "replace"\<close>\<close>
  rt_Delete :: "'k \<Rightarrow> 'st \<Rightarrow> write_error + ('st \<times> 'e option)" \<comment> \<open>with the old row\<close>
  rt_DeleteAny :: "'st \<Rightarrow> write_error + ('st \<times> 'e option)" \<comment> \<open>\<open>Limit(1).Delete\<close>, with the old row\<close>
  rt_ReplaceIf :: "'k \<Rightarrow> ('e \<Rightarrow> bool) \<Rightarrow> string \<Rightarrow> 'e \<Rightarrow> 'st \<Rightarrow> write_error + 'st"
    \<comment> \<open>\<open>Get(k).Replace\<close> with a branch on the old row, and the message of the other branch\<close>
  rt_Get :: "'k \<Rightarrow> 'st \<Rightarrow> write_error + 'e option"
  rt_Run :: "('e \<Rightarrow> bool) list \<Rightarrow> 'st \<Rightarrow> write_error + 'e list" \<comment> \<open>a query of filters\<close>
  rt_Count :: "'st \<Rightarrow> write_error + nat"

locale rethink_table =
  fixes rt :: "('st, 'k, 'e) rethink" and rows :: "'st \<Rightarrow> ('k \<rightharpoonup> 'e)"
  assumes insert: "rt_Insert rt e st = Inr st' \<Longrightarrow>
      rows st (rt_key rt e) = None \<and> rows st' = (rows st)(rt_key rt e \<mapsto> e)"
    and insert_conflict: "rt_Insert rt e st = Inl ConflictErr \<Longrightarrow> rows st (rt_key rt e) \<noteq> None"
    and insert_replace: "rt_InsertReplace rt e st = Inr st' \<Longrightarrow> rows st' = (rows st)(rt_key rt e \<mapsto> e)"
    and delete: "rt_Delete rt k st = Inr (st', prev) \<Longrightarrow> prev = rows st k \<and> rows st' = (rows st)(k := None)"
    and delete_any_none: "rt_DeleteAny rt st = Inr (st', None) \<Longrightarrow> rows st' = rows st"
    and delete_any_some: "rt_DeleteAny rt st = Inr (st', Some e) \<Longrightarrow>
      rows st (rt_key rt e) = Some e \<and> rows st' = (rows st)(rt_key rt e := None)"
    and replace_if: "rt_ReplaceIf rt k c msg e st = Inr st' \<Longrightarrow>
      (\<exists>old. rows st k = Some old \<and> c old) \<and> rows st' = (rows st)(k \<mapsto> e)"
    and replace_if_branch: "rows st k = Some old \<Longrightarrow> \<not> c old \<Longrightarrow>
      rt_ReplaceIf rt k c msg e st \<in> {Inl (BranchErr msg)} \<union> range (\<lambda>s. Inl (OtherErr s))"
    and get: "rt_Get rt k st = Inr prev \<Longrightarrow> prev = rows st k"
    and run: "rt_Run rt qs st = Inr es \<Longrightarrow>
      set es = {e \<in> ran (rows st). \<forall>q\<in>set qs. q e} \<and> distinct es"
    and keyed: "rows st k = Some e \<Longrightarrow> rt_key rt e = k"

section \<open>A table in memory\<close>

text \<open>
  A database whose operations succeed whenever the documentation allows it, as a list of rows:
  the witnesses instantiate the parameter with it.
\<close>

definition list_rows :: "('e \<Rightarrow> 'k) \<Rightarrow> 'e list \<Rightarrow> ('k \<rightharpoonup> 'e)" where
  "list_rows key es k = find (\<lambda>e. key e = k) es"

definition list_without :: "('e \<Rightarrow> 'k) \<Rightarrow> 'k \<Rightarrow> 'e list \<Rightarrow> 'e list" where
  "list_without key k es = filter (\<lambda>e. key e \<noteq> k) es"

definition list_rethink :: "('e \<Rightarrow> 'k) \<Rightarrow> ('e list, 'k, 'e) rethink" where
  "list_rethink key =
     \<lparr>rt_key = key,
      rt_Insert = (\<lambda>e es. if list_rows key es (key e) \<noteq> None then Inl ConflictErr else Inr (e # es)),
      rt_InsertReplace = (\<lambda>e es. Inr (e # list_without key (key e) es)),
      rt_Delete = (\<lambda>k es. Inr (list_without key k es, list_rows key es k)),
      rt_DeleteAny = (\<lambda>es. case es of
          [] \<Rightarrow> Inr ([], None)
        | e # _ \<Rightarrow> Inr (list_without key (key e) es, Some e)),
      rt_ReplaceIf = (\<lambda>k c msg e es. case list_rows key es k of
          None \<Rightarrow> Inl (OtherErr ''no row'')
        | Some old \<Rightarrow>
            if \<not> c old then Inl (BranchErr msg)
            else if key e \<noteq> k then Inl (OtherErr ''primary key changed'')
            else Inr (e # list_without key k es)),
      rt_Get = (\<lambda>k es. Inr (list_rows key es k)),
      rt_Run = (\<lambda>qs es. Inr (remdups (filter (\<lambda>e. list_rows key es (key e) = Some e \<and> list_all (\<lambda>q. q e) qs) es))),
      rt_Count = (\<lambda>es. Inr (length es))\<rparr>"

lemma list_rows_Some: "list_rows key es k = Some e \<Longrightarrow> e \<in> set es \<and> key e = k"
  by (auto simp: list_rows_def dest: find_SomeD)

lemma list_rows_Cons: "list_rows key (e # es) k = (if key e = k then Some e else list_rows key es k)"
  by (simp add: list_rows_def)

lemma list_rows_without: "list_rows key (list_without key k es) k' = (if k' = k then None else list_rows key es k')"
  by (induction es) (auto simp: list_rows_def list_without_def)

lemma list_rows_insert: "list_rows key (e # list_without key (key e) es) = (list_rows key es)(key e \<mapsto> e)"
  by (rule ext) (auto simp: list_rows_Cons list_rows_without)

lemma list_rows_delete: "list_rows key (list_without key k es) = (list_rows key es)(k := None)"
  by (rule ext) (auto simp: list_rows_without)

lemma list_rows_ran: "ran (list_rows key es) = {e \<in> set es. list_rows key es (key e) = Some e}"
proof (intro set_eqI iffI)
  fix e assume "e \<in> ran (list_rows key es)"
  then obtain k where k: "list_rows key es k = Some e" by (auto simp: ran_def)
  with list_rows_Some [OF k] show "e \<in> {e \<in> set es. list_rows key es (key e) = Some e}" by simp
qed (auto simp: ran_def)

interpretation list_table: rethink_table "list_rethink key" "list_rows key"
proof
  fix e st st'
  show "rt_Insert (list_rethink key) e st = Inr st' \<Longrightarrow>
      list_rows key st (rt_key (list_rethink key) e) = None \<and>
      list_rows key st' = (list_rows key st)(rt_key (list_rethink key) e \<mapsto> e)"
    by (auto simp: list_rethink_def list_rows_Cons split: if_splits)
  show "rt_Insert (list_rethink key) e st = Inl ConflictErr \<Longrightarrow>
      list_rows key st (rt_key (list_rethink key) e) \<noteq> None"
    by (auto simp: list_rethink_def split: if_splits)
  show "rt_InsertReplace (list_rethink key) e st = Inr st' \<Longrightarrow>
      list_rows key st' = (list_rows key st)(rt_key (list_rethink key) e \<mapsto> e)"
    by (auto simp: list_rethink_def list_rows_insert)
next
  fix k st st' old
  show "rt_Delete (list_rethink key) k st = Inr (st', old) \<Longrightarrow>
      old = list_rows key st k \<and> list_rows key st' = (list_rows key st)(k := None)"
    by (auto simp: list_rethink_def list_rows_delete)
next
  fix st st' e
  show "rt_DeleteAny (list_rethink key) st = Inr (st', None) \<Longrightarrow> list_rows key st' = list_rows key st"
    by (auto simp: list_rethink_def split: list.splits)
  show "rt_DeleteAny (list_rethink key) st = Inr (st', Some e) \<Longrightarrow>
      list_rows key st (rt_key (list_rethink key) e) = Some e \<and>
      list_rows key st' = (list_rows key st)(rt_key (list_rethink key) e := None)"
    by (auto simp: list_rethink_def list_rows_Cons list_rows_delete split: list.splits)
next
  fix k c msg e st st' old
  show "rt_ReplaceIf (list_rethink key) k c msg e st = Inr st' \<Longrightarrow>
      (\<exists>old. list_rows key st k = Some old \<and> c old) \<and> list_rows key st' = (list_rows key st)(k \<mapsto> e)"
    by (auto simp: list_rethink_def list_rows_insert split: option.splits if_splits)
  show "list_rows key st k = Some old \<Longrightarrow> \<not> c old \<Longrightarrow>
      rt_ReplaceIf (list_rethink key) k c msg e st \<in> {Inl (BranchErr msg)} \<union> range (\<lambda>s. Inl (OtherErr s))"
    by (simp add: list_rethink_def)
next
  fix qs st es
  assume "rt_Run (list_rethink key) qs st = Inr es"
  then have "es = remdups (filter (\<lambda>e. list_rows key st (key e) = Some e \<and> list_all (\<lambda>q. q e) qs) st)"
    by (simp add: list_rethink_def)
  then show "set es = {e \<in> ran (list_rows key st). \<forall>q\<in>set qs. q e} \<and> distinct es"
    by (auto simp: list_rows_ran list_all_iff)
next
  fix k st e
  assume "list_rows key st k = Some e"
  from list_rows_Some [OF this] show "rt_key (list_rethink key) e = k"
    by (simp add: list_rethink_def)
qed (simp add: list_rethink_def)

end
