(* ===== verification/IntegerPool.thy ===== *)
theory IntegerPool
  imports Rethink MachineData
begin

text \<open>
  The pools of unique integers, \<^verbatim>\<open>pkg/db/generic/integer_pool.go\<close>, and the ASNs of machines,
  \<^verbatim>\<open>pkg/repository/asn.go\<close>. A pool is a table whose rows are the free integers. The conversion of
  an id through \<open>float64\<close> is exact for the integers of a pool, which are far below \<open>2 ^ 53\<close>.
\<close>

section \<open>Pools\<close>

type_synonym uint = "64 word"
type_synonym 'st pool_table = "('st, uint, uint) rethink"

record integerPool =
  ip_min :: uint
  ip_max :: uint

text \<open>
  \<open>makeRange\<close> of the integers from the minimum to the maximum. Its length is computed in \<open>uint\<close>
  and so is every entry.
\<close>

definition makeRange :: "uint \<Rightarrow> uint \<Rightarrow> uint list" where
  "makeRange mn mx = map (\<lambda>i. mn + of_nat i) [0..<unat (mx - mn + 1)]"

definition verifyRange :: "integerPool \<Rightarrow> uint \<Rightarrow> unit result" where
  "verifyRange p value =
     (if value < ip_min p \<or> value > ip_max p
      then Inl (Plain ''value %d is outside of the allowed range %d - %d'')
      else Inr ())"

section \<open>Operations\<close>

text \<open>
  \<open>initialize\<close> fills the table once. The creation of the two tables, the read of the marker and
  the two inserts are arguments; the state is the table with the marker.
\<close>

definition initialize ::
  "integerPool \<Rightarrow> unit result \<Rightarrow> unit result \<Rightarrow> ('st \<Rightarrow> bool option result) \<Rightarrow>
   (uint list \<Rightarrow> 'st \<Rightarrow> 'st result) \<Rightarrow> ('st \<Rightarrow> 'st result) \<Rightarrow> 'st \<Rightarrow> unit result \<times> 'st" where
  "initialize p createTable createInfoTable readInfo insertRange insertInfo st =
     (case createTable of Inl err \<Rightarrow> (Inl err, st) | Inr _ \<Rightarrow>
     (case createInfoTable of Inl err \<Rightarrow> (Inl err, st) | Inr _ \<Rightarrow>
     (case readInfo st of Inl err \<Rightarrow> (Inl err, st) | Inr info \<Rightarrow>
        if info = Some True then (Inr (), st)
        else
     (case insertRange (makeRange (ip_min p) (ip_max p)) st of Inl err \<Rightarrow> (Inl err, st) | Inr st \<Rightarrow>
     (case insertInfo st of Inl err \<Rightarrow> (Inl err, st) | Inr st \<Rightarrow> (Inr (), st))))))"

definition genericAcquire ::
  "'st pool_table \<Rightarrow> ('st \<Rightarrow> write_error + ('st \<times> uint option)) \<Rightarrow> 'st \<Rightarrow> uint result \<times> 'st" where
  "genericAcquire rt term_Delete st =
     (case term_Delete st of
        Inl _ \<Rightarrow> (Inl (Plain ''%w''), st)
      | Inr (st, Some v) \<Rightarrow> (Inr v, st)
      | Inr (st, None) \<Rightarrow>
          (case rt_Count rt st of
             Inl _ \<Rightarrow> (Inl (Plain ''%w''), st)
           | Inr n \<Rightarrow>
               if n = 0
               then (Inl (Internal ''acquisition of a value failed for exhausted pool''), st)
               else (Inl (Conflict ''integer is already acquired by another''), st)))"

text \<open>The retries are those of \<^verbatim>\<open>avast/retry-go\<close>, with at most 10 attempts.\<close>

type_synonym 'st retry = "('st \<Rightarrow> uint result \<times> 'st) \<Rightarrow> 'st \<Rightarrow> uint result \<times> 'st"

definition AcquireRandomUniqueInteger ::
  "'st retry \<Rightarrow> 'st pool_table \<Rightarrow> 'st \<Rightarrow> uint result \<times> 'st" where
  "AcquireRandomUniqueInteger retry rt st = retry (genericAcquire rt (rt_DeleteAny rt)) st"

definition AcquireUniqueInteger ::
  "'st pool_table \<Rightarrow> integerPool \<Rightarrow> uint \<Rightarrow> 'st \<Rightarrow> uint result \<times> 'st" where
  "AcquireUniqueInteger rt p value st =
     (case verifyRange p value of
        Inl err \<Rightarrow> (Inl err, st)
      | Inr _ \<Rightarrow> genericAcquire rt (rt_Delete rt value) st)"

definition ReleaseUniqueInteger ::
  "'st pool_table \<Rightarrow> integerPool \<Rightarrow> uint \<Rightarrow> 'st \<Rightarrow> unit result \<times> 'st" where
  "ReleaseUniqueInteger rt p i st =
     (case verifyRange p i of
        Inl err \<Rightarrow> (Inl err, st)
      | Inr _ \<Rightarrow>
          (case rt_InsertReplace rt i st of
             Inl _ \<Rightarrow> (Inl (Plain ''%w''), st)
           | Inr st \<Rightarrow> (Inr (), st)))"

section \<open>ASNs\<close>

definition ASNMin :: "32 word" where "ASNMin = 4200000000"
definition ASNBase :: "32 word" where "ASNBase = 4210000000"
definition ASNMax :: "32 word" where "ASNMax = 4294967294"

definition acquireASN ::
  "'st retry \<Rightarrow> 'st pool_table \<Rightarrow> 'st \<Rightarrow> 32 word result \<times> 'st" where
  "acquireASN retry rt st =
     (case AcquireRandomUniqueInteger retry rt st of
        (Inl err, st) \<Rightarrow> (Inl err, st)
      | (Inr i, st) \<Rightarrow>
          (let asn = ASNBase + ucast i
           in if asn > ASNMax
              then (Inl (Plain ''unable to calculate asn, got a asn larger than ASNMax: %d > %d''), st)
              else (Inr asn, st)))"

definition releaseASN ::
  "'st pool_table \<Rightarrow> integerPool \<Rightarrow> 32 word \<Rightarrow> 'st \<Rightarrow> unit result \<times> 'st" where
  "releaseASN rt p asn st =
     (if asn < ASNBase \<or> asn > ASNMax
      then (Inl (Plain ''asn %d might not be smaller than:%d or larger than %d''), st)
      else ReleaseUniqueInteger rt p (ucast (asn - ASNBase)) st)"

fun task_asn :: "MachineNetwork list \<Rightarrow> 32 word \<Rightarrow> 32 word" where
  "task_asn [] asn = asn"
| "task_asn (nw # nws) asn =
     (let asn = (if mn_NetworkType nw = NetworkTypeChild \<or> mn_NetworkType nw = NetworkTypeChildShared
                 then (if asn \<ge> ASNBase then mn_ASN nw else asn)
                 else asn)
      in if asn > 0 then asn else task_asn nws asn)"

text \<open>
  The task gets the allocation of a deleted machine; the lookups in the machine table are
  arguments, the second lists the allocations of the machines that use an ASN.
\<close>

definition releaseAsnTask ::
  "'st pool_table \<Rightarrow> integerPool \<Rightarrow> (string \<Rightarrow> Machine result) \<Rightarrow> (32 word \<Rightarrow> string list result) \<Rightarrow>
   string \<Rightarrow> 'st \<Rightarrow> unit result \<times> 'st" where
  "releaseAsnTask rt p findMachine listByAsn allocationUUID st =
     (case findMachine allocationUUID of
        Inl err \<Rightarrow>
          if IsNotFound err then (Inr (), st) else (Inl (Wrapped ''unable to find machine %q: %w'' err), st)
      | Inr m \<Rightarrow>
          (case m_Allocation m of
             None \<Rightarrow> (Inl (Panic ''invalid memory address or nil pointer dereference''), st)
           | Some a \<Rightarrow>
               (let asn = task_asn (ma_MachineNetworks a) 0
                in if asn = 0 then (Inr (), st)
                   else
                     (case listByAsn asn of
                        Inl err \<Rightarrow> (Inl (Wrapped ''unable to list machines: %w'' err), st)
                      | Inr others \<Rightarrow>
                          if list_ex (\<lambda>u. u \<noteq> allocationUUID) others then (Inr (), st)
                          else
                            (case releaseASN rt p asn st of
                               (Inl err, st) \<Rightarrow> (Inl (Wrapped ''unable to release asn: %w'' err), st)
                             | (Inr _, st) \<Rightarrow> (Inr (), st))))))"

section \<open>Uniqueness\<close>

text \<open>A table whose rows are integers, and what \<open>retry.Do\<close> documents: the result is one of a run.\<close>

definition pool_rows :: "'st pool_table \<Rightarrow> ('st \<Rightarrow> (uint \<rightharpoonup> uint)) \<Rightarrow> bool" where
  "pool_rows rt rows \<longleftrightarrow> rethink_table rt rows \<and> (\<forall>v. rt_key rt v = v)"

definition retries :: "'st retry \<Rightarrow> ('st \<Rightarrow> (uint \<rightharpoonup> uint)) \<Rightarrow> bool" where
  "retries retry rows \<longleftrightarrow>
     (\<forall>f st. (\<forall>s. \<not> is_ok (fst (f s)) \<longrightarrow> rows (snd (f s)) = rows s) \<longrightarrow>
        (\<exists>s. rows s = rows st \<and> retry f st = f s))"

definition free :: "('st \<Rightarrow> (uint \<rightharpoonup> uint)) \<Rightarrow> 'st \<Rightarrow> uint set" where
  "free rows st = dom (rows st)"

lemma pool_row: "pool_rows rt rows \<Longrightarrow> rows st v = Some w \<Longrightarrow> w = v"
  using rethink_table.keyed [of rt rows] by (auto simp: pool_rows_def)

lemma genericAcquire_any:
  assumes "pool_rows rt rows"
  shows "case genericAcquire rt (rt_DeleteAny rt) st of
      (Inr v, st') \<Rightarrow> v \<in> free rows st \<and> free rows st' = free rows st - {v}
    | (Inl err, st') \<Rightarrow> rows st' = rows st"
proof -
  have rt: "rethink_table rt rows" and key: "\<And>v. rt_key rt v = v"
    using assms by (simp_all add: pool_rows_def)
  show ?thesis
  proof (cases "rt_DeleteAny rt st")
    case (Inr r)
    then obtain st' old where r: "rt_DeleteAny rt st = Inr (st', old)" by (cases r) auto
    show ?thesis
    proof (cases old)
      case None
      with rethink_table.delete_any_none [OF rt] r show ?thesis
        by (auto simp: genericAcquire_def split: sum.splits)
    next
      case (Some v)
      with rethink_table.delete_any_some [OF rt, of st st' v] r show ?thesis
        by (auto simp: genericAcquire_def free_def key)
    qed
  qed (simp add: genericAcquire_def)
qed

lemma genericAcquire_value:
  assumes "pool_rows rt rows"
  shows "case genericAcquire rt (rt_Delete rt n) st of
      (Inr v, st') \<Rightarrow> v = n \<and> v \<in> free rows st \<and> free rows st' = free rows st - {v}
    | (Inl err, st') \<Rightarrow> free rows st' = free rows st"
proof -
  have rt: "rethink_table rt rows"
    using assms by (simp add: pool_rows_def)
  show ?thesis
  proof (cases "rt_Delete rt n st")
    case (Inr r)
    then obtain st' old where r: "rt_Delete rt n st = Inr (st', old)" by (cases r) auto
    with rethink_table.delete [OF rt, of "n" st st' old]
    have d: "old = rows st n" "rows st' = (rows st)(n := None)" by auto
    show ?thesis
    proof (cases "rows st n")
      case None
      then show ?thesis
        using d r by (auto simp: genericAcquire_def free_def split: sum.splits)
    next
      case (Some v)
      moreover have "v = n" by (rule pool_row [OF assms Some])
      ultimately show ?thesis
        using d r by (auto simp: genericAcquire_def free_def)
    qed
  qed (simp add: genericAcquire_def free_def)
qed

lemma AcquireRandom_spec:
  assumes "pool_rows rt rows" and "retries retry rows"
  shows "case AcquireRandomUniqueInteger retry rt st of
      (Inr v, st') \<Rightarrow> v \<in> free rows st \<and> free rows st' = free rows st - {v}
    | (Inl err, st') \<Rightarrow> free rows st' = free rows st"
proof -
  let ?f = "genericAcquire rt (rt_DeleteAny rt)"
  have "\<forall>s. \<not> is_ok (fst (?f s)) \<longrightarrow> rows (snd (?f s)) = rows s"
  proof (intro allI impI)
    fix s assume "\<not> is_ok (fst (?f s))"
    with genericAcquire_any [OF assms(1), of s] show "rows (snd (?f s)) = rows s"
      by (cases "?f s") (auto simp: is_ok_def split: sum.splits)
  qed
  with assms(2) obtain s where s: "rows s = rows st" "retry ?f st = ?f s"
    unfolding retries_def by blast
  with genericAcquire_any [OF assms(1), of s] show ?thesis
    by (auto simp: AcquireRandomUniqueInteger_def free_def split: prod.splits sum.splits)
qed

lemma AcquireUnique_spec:
  assumes "pool_rows rt rows"
  shows "case AcquireUniqueInteger rt p n st of
      (Inr v, st') \<Rightarrow> v = n \<and> v \<in> free rows st \<and> free rows st' = free rows st - {v}
    | (Inl err, st') \<Rightarrow> free rows st' = free rows st"
  using genericAcquire_value [OF assms, where n = n and st = st]
  by (simp add: AcquireUniqueInteger_def split: sum.splits)

lemma ReleaseUnique_spec:
  assumes "pool_rows rt rows"
  shows "case ReleaseUniqueInteger rt p i st of
      (Inr _, st') \<Rightarrow> ip_min p \<le> i \<and> i \<le> ip_max p \<and> free rows st' = insert i (free rows st)
    | (Inl err, st') \<Rightarrow> st' = st"
  using assms rethink_table.insert_replace [of rt rows i st]
  by (auto simp: ReleaseUniqueInteger_def verifyRange_def pool_rows_def free_def not_less
      split: sum.splits if_splits)

lemma makeRange_set:
  assumes "mn \<le> mx" and "unat mx < 2 ^ 64 - 1"
  shows "set (makeRange mn mx) = {v. mn \<le> v \<and> v \<le> mx}"
proof -
  have le: "unat mn \<le> unat mx" using assms(1) by (simp add: word_le_nat_alt)
  have diff: "unat (mx - mn) = unat mx - unat mn" by (rule unat_sub [OF assms(1)])
  have len: "unat (mx - mn + 1) = unat mx - unat mn + 1"
    using assms(2) by (simp add: unat_word_ariths diff mod_less)
  have "v \<in> set (makeRange mn mx) \<longleftrightarrow> mn \<le> v \<and> v \<le> mx" for v
  proof
    assume "v \<in> set (makeRange mn mx)"
    then obtain i where "i \<in> {0..<unat mx - unat mn + 1}" and v: "v = mn + of_nat i"
      unfolding makeRange_def len set_map set_upt by blast
    with le have "unat mn + i \<le> unat mx" by simp
    moreover from this assms(2) have "unat v = unat mn + i"
      by (simp add: v unat_word_ariths unat_of_nat mod_less)
    ultimately show "mn \<le> v \<and> v \<le> mx" by (simp add: word_le_nat_alt)
  next
    assume v: "mn \<le> v \<and> v \<le> mx"
    then have "v = mn + of_nat (unat v - unat mn)"
      by (simp add: word_le_nat_alt of_nat_diff)
    moreover from v have "unat v - unat mn < unat mx - unat mn + 1"
      using le by (auto simp: word_le_nat_alt)
    then have "unat v - unat mn \<in> {0..<unat mx - unat mn + 1}" by simp
    ultimately show "v \<in> set (makeRange mn mx)"
      unfolding makeRange_def len set_map set_upt by (rule image_eqI)
  qed
  then show ?thesis by auto
qed

text \<open>
  The histories of an initialized pool, with the integers that its clients hold: they acquire any
  integer or a particular one and release only integers they hold. Operations may fail.
\<close>

inductive pool_run ::
  "'st retry \<Rightarrow> 'st pool_table \<Rightarrow> ('st \<Rightarrow> (uint \<rightharpoonup> uint)) \<Rightarrow> integerPool \<Rightarrow> 'st \<Rightarrow> uint set \<Rightarrow> bool"
  for retry rt rows p where
  initialized: "free rows st = set (makeRange (ip_min p) (ip_max p)) \<Longrightarrow> pool_run retry rt rows p st {}"
| acquired: "pool_run retry rt rows p st held \<Longrightarrow>
    AcquireRandomUniqueInteger retry rt st = (Inr v, st') \<or> AcquireUniqueInteger rt p n st = (Inr v, st') \<Longrightarrow>
    pool_run retry rt rows p st' (insert v held)"
| acquire_failed: "pool_run retry rt rows p st held \<Longrightarrow>
    AcquireRandomUniqueInteger retry rt st = (Inl err, st') \<or> AcquireUniqueInteger rt p n st = (Inl err, st') \<Longrightarrow>
    pool_run retry rt rows p st' held"
| released: "pool_run retry rt rows p st held \<Longrightarrow> v \<in> held \<Longrightarrow>
    ReleaseUniqueInteger rt p v st = (Inr (), st') \<Longrightarrow> pool_run retry rt rows p st' (held - {v})"
| release_failed: "pool_run retry rt rows p st held \<Longrightarrow>
    ReleaseUniqueInteger rt p v st = (Inl err, st') \<Longrightarrow> pool_run retry rt rows p st' held"

lemma Acquire_okD:
  assumes "pool_rows rt rows" "retries retry rows"
    and "AcquireRandomUniqueInteger retry rt st = (Inr v, st') \<or> AcquireUniqueInteger rt p n st = (Inr v, st')"
  shows "v \<in> free rows st \<and> free rows st' = free rows st - {v}"
  using assms(3) AcquireRandom_spec [OF assms(1,2), of st] AcquireUnique_spec [OF assms(1), where p = p and n = n and st = st]
  by (elim disjE) auto

lemma Acquire_errD:
  assumes "pool_rows rt rows" "retries retry rows"
    and "AcquireRandomUniqueInteger retry rt st = (Inl err, st') \<or> AcquireUniqueInteger rt p n st = (Inl err, st')"
  shows "free rows st' = free rows st"
  using assms(3) AcquireRandom_spec [OF assms(1,2), of st] AcquireUnique_spec [OF assms(1), where p = p and n = n and st = st]
  by (elim disjE) auto

lemma pool_partition:
  assumes "pool_rows rt rows" "retries retry rows" and "pool_run retry rt rows p st held"
  shows "free rows st \<union> held = set (makeRange (ip_min p) (ip_max p)) \<and> free rows st \<inter> held = {}"
  using assms(3)
proof induction
  case (acquired st held v st' n)
  with Acquire_okD [OF assms(1,2) acquired(2)] show ?case by auto
next
  case (acquire_failed st held err st' n)
  with Acquire_errD [OF assms(1,2) acquire_failed(2)] show ?case by simp
next
  case (released st held v st')
  with ReleaseUnique_spec [OF assms(1), where p = p and i = v and st = st] show ?case by auto
next
  case (release_failed st held v err st')
  with ReleaseUnique_spec [OF assms(1), where p = p and i = v and st = st] show ?case by simp
qed simp

lemma list_pool: "pool_rows (list_rethink (\<lambda>v. v)) (list_rows (\<lambda>v. v))"
  by (simp add: pool_rows_def list_table.rethink_table_axioms) (simp add: list_rethink_def)

lemma retries_once: "retries (\<lambda>f. f) rows"
  by (auto simp: retries_def)

text \<open>
  C26: uniqueness. In every history of an initialized pool, an integer that is acquired, at
  random or by its value, lies in the range of the pool and is held by no client, and afterwards
  every integer of the range is either free or held and none is both, so that none leaks.
\<close>

theorem acquired_integers_unique:
  assumes "pool_rows rt rows" and "retries retry rows"
    and "ip_min p \<le> ip_max p" and "unat (ip_max p) < 2 ^ 64 - 1"
    and "pool_run retry rt rows p st held"
    and "AcquireRandomUniqueInteger retry rt st = (Inr v, st') \<or> AcquireUniqueInteger rt p n st = (Inr v, st')"
  shows "v \<notin> held \<and> ip_min p \<le> v \<and> v \<le> ip_max p \<and>
    free rows st' \<union> insert v held = {x. ip_min p \<le> x \<and> x \<le> ip_max p} \<and> free rows st' \<inter> insert v held = {}"
proof -
  note parts = pool_partition [OF assms(1,2)] makeRange_set [OF assms(3,4)]
  from Acquire_okD [OF assms(1,2,6)] parts(1) [OF assms(5)] parts(2)
  have "v \<notin> held" and "ip_min p \<le> v \<and> v \<le> ip_max p" by auto
  with parts(1) [OF pool_run.acquired [OF assms(5,6)]] parts(2) show ?thesis by simp
qed

definition example_pool :: integerPool where
  "example_pool = \<lparr>ip_min = 1, ip_max = 3\<rparr>"

lemma example_pool_range: "set (makeRange 1 3) = {1, 2, 3}"
  by (simp add: makeRange_def upt_rec insert_commute)

theorem acquired_integers_unique_witness:
  "fst (AcquireRandomUniqueInteger (\<lambda>f. f) (list_rethink (\<lambda>v. v)) [2, 3]) = Inr 2 \<and> (2 :: uint) \<notin> {1} \<and>
   (2 :: uint) \<le> ip_max example_pool"
proof -
  let ?rt = "list_rethink (\<lambda>v :: uint. v)" and ?rows = "list_rows (\<lambda>v :: uint. v)"
  have "free ?rows [1, 2, 3] = {1, 2, 3}"
    by (auto simp: free_def list_rows_Cons list_rows_def dom_def)
  then have run: "pool_run (\<lambda>f. f) ?rt ?rows example_pool [1, 2, 3] {}"
    by (intro pool_run.initialized) (simp add: example_pool_def example_pool_range)
  have first: "AcquireRandomUniqueInteger (\<lambda>f. f) ?rt [1, 2, 3] = (Inr 1, [2, 3])"
    and second: "AcquireRandomUniqueInteger (\<lambda>f. f) ?rt [2, 3] = (Inr 2, [3])"
    by (simp_all add: AcquireRandomUniqueInteger_def genericAcquire_def list_rethink_def list_without_def)
  from pool_run.acquired [OF run disjI1 [OF first]]
  have "pool_run (\<lambda>f. f) ?rt ?rows example_pool [2, 3] {1}" by simp
  from acquired_integers_unique [OF list_pool retries_once _ _ this disjI1 [OF second]] second
  show ?thesis by (simp add: example_pool_def)
qed

text \<open>
  The ASN of a machine. With the pool of the ASNs, whose integers go from 1 to 131072, an
  acquired ASN is the sum of the base and an integer that was free, without wrap-around: it is
  larger than the base and at most the base plus 131072, below the largest private ASN. Releasing
  it, when the database writes it, makes exactly that integer free again.
\<close>

theorem asn_acquire_release:
  assumes "pool_rows rt rows" and "retries retry rows"
    and "free rows st \<subseteq> {x. 1 \<le> x \<and> x \<le> 131072}" and "acquireASN retry rt st = (Inr asn, st1)"
  shows "ASNBase < asn \<and> asn \<le> ASNBase + 131072 \<and> asn \<le> ASNMax \<and>
    (ucast (asn - ASNBase) :: uint) \<in> free rows st \<and> free rows st1 = free rows st - {ucast (asn - ASNBase)} \<and>
    (case releaseASN rt \<lparr>ip_min = 1, ip_max = 131072\<rparr> asn st1 of
       (Inr _, st2) \<Rightarrow> free rows st2 = free rows st
     | (Inl _, st2) \<Rightarrow> st2 = st1)"
proof -
  from assms(4) obtain i where acq: "AcquireRandomUniqueInteger retry rt st = (Inr i, st1)"
    and asn: "asn = ASNBase + ucast i"
    by (auto simp: acquireASN_def Let_def split: prod.splits sum.splits if_splits)
  from AcquireRandom_spec [OF assms(1,2), of st] acq
  have free: "i \<in> free rows st" "free rows st1 = free rows st - {i}" by simp_all
  with assms(3) have i: "1 \<le> unat i" "unat i \<le> 131072" by (auto simp: word_le_nat_alt)
  have ui: "unat (ucast i :: 32 word) = unat i"
    using i(2) by (simp add: unsigned_ucast_eq take_bit_nat_eq_self)
  have uasn: "unat asn = 4210000000 + unat i"
    using i(2) by (simp add: asn ASNBase_def unat_word_ariths ui mod_less)
  have bounds: "ASNBase < asn \<and> asn \<le> ASNBase + 131072 \<and> asn \<le> ASNMax"
    using i by (simp add: word_less_nat_alt word_le_nat_alt uasn ASNBase_def ASNMax_def)
  have recovered: "(ucast (asn - ASNBase) :: uint) = i"
    by (rule word_unat_eq_iff [THEN iffD2]) (use i(2) in \<open>simp add: asn unsigned_take_bit_eq unsigned_ucast_eq ui take_bit_nat_eq_self\<close>)
  have rel: "releaseASN rt p asn st1 = ReleaseUniqueInteger rt p i st1" for p
    using bounds by (auto simp: releaseASN_def recovered not_less)
  from bounds free ReleaseUnique_spec [OF assms(1), where p = "\<lparr>ip_min = 1, ip_max = 131072\<rparr>" and i = i and st = st1]
  show ?thesis
    by (auto simp: recovered rel insert_absorb split: prod.splits sum.splits)
qed

theorem asn_acquire_release_witness:
  "acquireASN (\<lambda>f. f) (list_rethink (\<lambda>v. v)) [2, 3] = (Inr 4210000002, [3]) \<and> (4210000002 :: 32 word) \<le> ASNMax"
proof -
  have acq: "acquireASN (\<lambda>f. f) (list_rethink (\<lambda>v. v)) [2, 3] = (Inr 4210000002, [3])"
    by (simp add: acquireASN_def AcquireRandomUniqueInteger_def genericAcquire_def list_rethink_def
        list_without_def ASNBase_def ASNMax_def)
  have "free (list_rows (\<lambda>v :: uint. v)) [2, 3] \<subseteq> {x. 1 \<le> x \<and> x \<le> 131072}"
    by (auto simp: free_def list_rows_Cons list_rows_def dom_def)
  from asn_acquire_release [OF list_pool retries_once this acq] acq show ?thesis by simp
qed

text \<open>The loop over the networks of the task starts with 0, which no branch leaves.\<close>

lemma task_asn_0: "task_asn nws 0 = 0"
  by (induction nws) (auto simp: Let_def ASNBase_def)

text \<open>
  The task that should release the ASN of a deleted machine never does: whatever the
  machine's networks are, it leaves the pool as it is, and it reports success whenever the machine
  has an allocation.
\<close>

theorem asn_task_releases_nothing:
  "snd (releaseAsnTask rt p findMachine listByAsn uuid st) = st \<and>
   (case findMachine uuid of
      Inr m \<Rightarrow> is_ok (fst (releaseAsnTask rt p findMachine listByAsn uuid st)) = (m_Allocation m \<noteq> None)
    | Inl err \<Rightarrow> is_ok (fst (releaseAsnTask rt p findMachine listByAsn uuid st)) = IsNotFound err)"
  by (auto simp: releaseAsnTask_def task_asn_0 split: sum.splits option.splits)

end
