(* ===== verification/Storage.thy ===== *)
theory Storage
  imports Rethink ProvisioningEvents
begin

text \<open>
  The generic storage of \<^verbatim>\<open>pkg/db/generic/storage.go\<close>, for the entities that embed \<open>Base\<close>: an
  entity is any extension of the record \<open>Base\<close>. The current time and the generated UUID are
  arguments. An operation that changes the entity through its pointer returns the entity.
\<close>

definition entityAlreadyModifiedErrorMessage :: string where
  "entityAlreadyModifiedErrorMessage = ''the entity was already modified, please retry''"

type_synonym ('st, 'z) table = "('st, string, 'z Base_scheme) rethink"

definition setCreated :: "time \<Rightarrow> 'z Base_scheme \<Rightarrow> 'z Base_scheme" where
  "setCreated t e = e\<lparr>b_Created := t\<rparr>"

definition setChanged :: "time \<Rightarrow> 'z Base_scheme \<Rightarrow> 'z Base_scheme" where
  "setChanged t e = e\<lparr>b_Changed := t\<rparr>"

definition setGeneration :: "64 word \<Rightarrow> 'z Base_scheme \<Rightarrow> 'z Base_scheme" where
  "setGeneration g e = e\<lparr>b_Generation := g\<rparr>"

definition storage_Create ::
  "('st, 'z) table \<Rightarrow> time \<Rightarrow> string result \<Rightarrow> 'z Base_scheme \<Rightarrow> 'st \<Rightarrow> ('z Base_scheme \<times> 'st) result" where
  "storage_Create rt now newID e st =
     (let e = setGeneration 0 (setChanged now (setCreated now e))
      in case (if b_ID e = '''' then (case newID of Inl err \<Rightarrow> Inl err | Inr i \<Rightarrow> Inr (e\<lparr>b_ID := i\<rparr>))
               else Inr e) of
           Inl err \<Rightarrow> Inl err
         | Inr e \<Rightarrow>
             (case rt_Insert rt e st of
                Inl ConflictErr \<Rightarrow> Inl (Conflict ''cannot create %v in database, entity already exists: %s'')
              | Inl _ \<Rightarrow> Inl (Plain ''cannot create %v in database: %w'')
              | Inr st \<Rightarrow> Inr (e, st)))"

definition storage_Delete :: "('st, 'z) table \<Rightarrow> 'z Base_scheme \<Rightarrow> 'st \<Rightarrow> 'st result" where
  "storage_Delete rt e st =
     (case rt_Delete rt (b_ID e) st of
        Inl _ \<Rightarrow> Inl (Plain ''cannot delete %v with id %q from database: %w'')
      | Inr (st, _) \<Rightarrow> Inr st)"

definition storage_Find ::
  "('st, 'z) table \<Rightarrow> ('z Base_scheme \<Rightarrow> bool) list \<Rightarrow> 'st \<Rightarrow> 'z Base_scheme result" where
  "storage_Find rt queries st =
     (case rt_Run rt queries st of
        Inl _ \<Rightarrow> Inl (Plain ''cannot find %v in database: %w'')
      | Inr [] \<Rightarrow> Inl (NotFound ''cannot find %v'')
      | Inr [e] \<Rightarrow> Inr e
      | Inr _ \<Rightarrow> Inl (Plain ''more than one %v exists''))"

text \<open>Nil queries are skipped.\<close>

definition storage_List ::
  "('st, 'z) table \<Rightarrow> ('z Base_scheme \<Rightarrow> bool) option list \<Rightarrow> 'st \<Rightarrow> 'z Base_scheme list result" where
  "storage_List rt queries st =
     (case rt_Run rt (map the (filter (\<lambda>q. q \<noteq> None) queries)) st of
        Inl _ \<Rightarrow> Inl (Plain ''cannot search %v in database: %w'')
      | Inr es \<Rightarrow> Inr es)"

definition storage_Get :: "('st, 'z) table \<Rightarrow> string \<Rightarrow> 'st \<Rightarrow> 'z Base_scheme result" where
  "storage_Get rt i st =
     (case rt_Get rt i st of
        Inl _ \<Rightarrow> Inl (Plain ''cannot find %v with id %q in database: %w'')
      | Inr None \<Rightarrow> Inl (NotFound ''no %v with id %q found'')
      | Inr (Some e) \<Rightarrow> Inr e)"

definition storage_Update ::
  "('st, 'z) table \<Rightarrow> time \<Rightarrow> 'z Base_scheme \<Rightarrow> 'st \<Rightarrow> 'z Base_scheme \<times> 'st result" where
  "storage_Update rt now e st =
     (if b_Changed e = 0
      then (e, Inl (Plain ''cannot update %v (%s): no changed timestamp set on entity''))
      else
        (let changedTimestamp = b_Changed e;
             e = setChanged now e;
             e = setGeneration (b_Generation e + 1) e
         in (e, case rt_ReplaceIf rt (b_ID e) (\<lambda>row. b_Changed row = changedTimestamp)
                    entityAlreadyModifiedErrorMessage e st of
                  Inl (BranchErr msg) \<Rightarrow> Inl (Aborted ''cannot update %v (%s): %s'')
                | Inl _ \<Rightarrow> Inl (Plain ''cannot update %v (%s): %w'')
                | Inr st \<Rightarrow> Inr st)))"

text \<open>
  \<open>Upsert\<close> of an entity with an id. Without one the database generates the key, which the entity
  gets from the answer; no caller in the repository upserts such an entity.
\<close>

definition storage_Upsert ::
  "('st, 'z) table \<Rightarrow> time \<Rightarrow> 'z Base_scheme \<Rightarrow> 'st \<Rightarrow> 'z Base_scheme \<times> 'st result" where
  "storage_Upsert rt now e st =
     (let e = (if b_Created e = 0 then setCreated now e else e);
          e = setChanged now e;
          e = setGeneration (b_Generation e + 1) e
      in (e, case rt_InsertReplace rt e st of
               Inl _ \<Rightarrow> Inl (Plain ''cannot upsert %v (%s) in database: %w'')
             | Inr st \<Rightarrow> Inr st))"

section \<open>Properties\<close>

definition base_table :: "('z Base_scheme list, string, 'z Base_scheme) rethink" where
  "base_table = list_rethink b_ID"

lemma base_table: "rethink_table base_table (list_rows b_ID)"
  by (simp add: base_table_def list_table.rethink_table_axioms)

lemma storage_Update_okD:
  assumes "rethink_table rt rows" and "storage_Update rt now e st = (e', Inr st')"
  shows "(\<exists>old. rows st (b_ID e) = Some old \<and> b_Changed old = b_Changed e) \<and>
    rows st' = (rows st)(b_ID e \<mapsto> e') \<and> b_Changed e \<noteq> 0 \<and>
    e' = e\<lparr>b_Changed := now, b_Generation := b_Generation e + 1\<rparr>"
proof -
  from assms(2) have "b_Changed e \<noteq> 0" and e': "e' = e\<lparr>b_Changed := now, b_Generation := b_Generation e + 1\<rparr>"
    and r: "rt_ReplaceIf rt (b_ID e) (\<lambda>row. b_Changed row = b_Changed e) entityAlreadyModifiedErrorMessage e' st = Inr st'"
    by (auto simp: storage_Update_def Let_def setChanged_def setGeneration_def
        split: if_splits sum.splits write_error.splits)
  with rethink_table.replace_if [OF assms(1) r] show ?thesis by auto
qed

text \<open>
  C23: optimistic locking. When two processes have read the same version of an entity and one
  of them updates it, an update by the other is never written: it fails, and the row keeps the
  first update. The clock must have moved between the version and the first update.
\<close>

theorem no_lost_update:
  assumes "rethink_table rt rows" and "storage_Update rt now1 e1 st = (e1', Inr st1)"
    and "b_ID e2 = b_ID e1" and "b_Changed e2 = b_Changed e1" and "now1 \<noteq> b_Changed e1"
  shows "(\<exists>err. snd (storage_Update rt now2 e2 st1) = Inl err) \<and> rows st1 (b_ID e1) = Some e1' \<and>
    b_Changed e1' = now1 \<and> b_Generation e1' = b_Generation e1 + 1"
proof -
  from storage_Update_okD [OF assms(1,2)] have row: "rows st1 (b_ID e1) = Some e1'"
    and e1': "e1' = e1\<lparr>b_Changed := now1, b_Generation := b_Generation e1 + 1\<rparr>" by auto
  have "\<not> is_ok (snd (storage_Update rt now2 e2 st1))"
  proof
    assume "is_ok (snd (storage_Update rt now2 e2 st1))"
    then obtain e2' st2 where u: "storage_Update rt now2 e2 st1 = (e2', Inr st2)"
      by (metis is_ok_iff prod.collapse)
    from storage_Update_okD [OF assms(1) this] row assms(3-5) show False by (auto simp: e1')
  qed
  then show ?thesis
    using row by (auto simp: e1' is_ok_def split: sum.splits)
qed

definition example_base :: Base where
  "example_base = \<lparr>b_ID = ''n1'', b_Name = '''', b_Description = '''', b_Created = 3, b_Changed = 3,
     b_Generation = 0\<rparr>"

theorem no_lost_update_witness:
  "\<exists>e st err. storage_Update base_table 5 example_base [example_base] = (e, Inr st) \<and>
     snd (storage_Update base_table 6 (example_base\<lparr>b_Name := ''other''\<rparr>) st) = Inl err"
proof -
  let ?u = "storage_Update base_table 5 example_base [example_base]"
  have "is_ok (snd ?u)"
    by (simp add: storage_Update_def base_table_def list_rethink_def list_rows_def example_base_def
        setChanged_def setGeneration_def Let_def)
  then obtain e st where u: "?u = (e, Inr st)" by (metis is_ok_iff prod.collapse)
  with no_lost_update [OF base_table u, of "example_base\<lparr>b_Name := ''other''\<rparr>" 6] show ?thesis
    by (auto simp: example_base_def)
qed

text \<open>
  Creating an entity never overwrites one: it succeeds only when no row has the id, the
  new row then holds the entity with the current time as creation and change time and generation
  0, and reading its id returns it; when the id is taken, the error is a conflict.
\<close>

theorem create_then_get:
  assumes "rethink_table rt rows" and "\<And>x. rt_key rt x = b_ID x" and "b_ID e \<noteq> ''''"
  shows "case storage_Create rt now newID e st of
      Inr (e', st') \<Rightarrow> rows st (b_ID e) = None \<and>
        e' = e\<lparr>b_Created := now, b_Changed := now, b_Generation := 0\<rparr> \<and>
        rows st' = (rows st)(b_ID e \<mapsto> e') \<and>
        (\<forall>x. storage_Get rt (b_ID e) st' = Inr x \<longrightarrow> x = e')
    | Inl err \<Rightarrow> (\<exists>s. err = Conflict s) \<longrightarrow> rows st (b_ID e) \<noteq> None"
proof -
  let ?e = "e\<lparr>b_Created := now, b_Changed := now, b_Generation := 0\<rparr>"
  have id: "b_ID ?e = b_ID e" by simp
  have create: "storage_Create rt now newID e st =
      (case rt_Insert rt ?e st of
         Inl ConflictErr \<Rightarrow> Inl (Conflict ''cannot create %v in database, entity already exists: %s'')
       | Inl _ \<Rightarrow> Inl (Plain ''cannot create %v in database: %w'')
       | Inr st \<Rightarrow> Inr (?e, st))"
    using assms(3) by (simp add: storage_Create_def setCreated_def setChanged_def setGeneration_def Let_def)
  show ?thesis
  proof (cases "rt_Insert rt ?e st")
    case (Inl err)
    with rethink_table.insert_conflict [OF assms(1), of ?e st] show ?thesis
      by (cases err) (simp_all add: create assms(2))
  next
    case (Inr st')
    from rethink_table.insert [OF assms(1) Inr] have rows: "rows st (b_ID e) = None"
      "rows st' = (rows st)(b_ID e \<mapsto> ?e)" by (simp_all add: assms(2))
    have "x = ?e" if "storage_Get rt (b_ID e) st' = Inr x" for x
      using that rethink_table.get [OF assms(1), of "b_ID e" st'] rows(2)
      by (auto simp: storage_Get_def split: sum.splits option.splits)
    with rows Inr show ?thesis by (simp add: create)
  qed
qed

theorem create_then_get_witness:
  "storage_Create base_table 5 (Inl (Plain ''unused'')) (example_base\<lparr>b_ID := ''n2''\<rparr>) [example_base] \<noteq>
     Inl (Conflict ''cannot create %v in database, entity already exists: %s'')"
  using create_then_get [OF base_table, where e = "example_base\<lparr>b_ID := ''n2''\<rparr>" and now = 5
      and newID = "Inl (Plain ''unused'')" and st = "[example_base]"]
  by (auto simp: base_table_def list_rethink_def example_base_def list_rows_def)

end
