(* ===== verification/NetworkValidation.thy ===== *)
theory NetworkValidation
  imports Networks Ipam IntegerPool Storage Repository
begin

text \<open>
  The validation of networks, \<^verbatim>\<open>pkg/repository/network-validation.go\<close>. The table of networks, the
  pool of the VRFs and the address management service are arguments, as are the lookups of projects,
  partitions, IPs and machines in the other tables and the overlap check of the IPAM library. A
  list of a request that is not set is the empty list. The validation joins the errors of child
  prefix lengths sorted by their text, here they stay in the order of the check.
\<close>

section \<open>The environment\<close>

record ('n, 'p, 'i) network_env =
  ne_enums :: network_enums
  ne_table :: "('n, string, Network) rethink"
  ne_pool_table :: "'p pool_table"
  ne_pool :: integerPool
  ne_retry :: "'p retry"
  ne_ipam :: "'i ipam"
  ne_PrefixesOverlapping :: "string list \<Rightarrow> string list \<Rightarrow> unit result"
  ne_project :: "string \<Rightarrow> unit result"
  ne_partition :: "string \<Rightarrow> unit result"
  ne_ips :: "string \<Rightarrow> nat result" \<comment> \<open>how many IPs there are in a prefix\<close>
  ne_machines :: "string \<Rightarrow> nat result" \<comment> \<open>how many machines have a network\<close>
  ne_scope :: "string option"
  ne_now :: time
  ne_newID :: "string result"

record NetworkServiceCreateRequest =
  ncr_Id :: "string option"
  ncr_Name :: "string option"
  ncr_Description :: "string option"
  ncr_Partition :: "string option"
  ncr_Project :: "string option"
  ncr_Type :: ApiNetworkType
  ncr_Labels :: "Labels option"
  ncr_Prefixes :: "string list"
  ncr_DestinationPrefixes :: "string list"
  ncr_DefaultChildPrefixLength :: "ApiChildPrefixLength option"
  ncr_MinChildPrefixLength :: "ApiChildPrefixLength option"
  ncr_NatType :: "ApiNATType option"
  ncr_Vrf :: "32 word option"
  ncr_ParentNetwork :: "string option"
  ncr_AdditionalAnnouncableCidrs :: "string list"
  ncr_Length :: "ApiChildPrefixLength option"
  ncr_AddressFamily :: "NetworkAddressFamily option"

record NetworkServiceUpdateRequest =
  nur_Name :: "string option"
  nur_Description :: "string option"
  nur_Labels :: "LabelStrategy option"
  nur_Prefixes :: "string list"
  nur_DestinationPrefixes :: "string list"
  nur_DefaultChildPrefixLength :: "ApiChildPrefixLength option"
  nur_MinChildPrefixLength :: "ApiChildPrefixLength option"
  nur_NatType :: "ApiNATType option"
  nur_AdditionalAnnouncableCidrs :: "string list"
  nur_Force :: bool
  nur_UpdateMeta :: "UpdateMeta option"

section \<open>Reading networks\<close>

definition scopedNetworkFilters ::
  "('n, 'p, 'i) network_env \<Rightarrow> (Network \<Rightarrow> bool) option \<Rightarrow> (Network \<Rightarrow> bool) list" where
  "scopedNetworkFilters env f =
     (case ne_scope env of None \<Rightarrow> [] | Some p \<Rightarrow> [NetworkProjectScoped p]) @
     (case f of None \<Rightarrow> [] | Some f \<Rightarrow> [f])"

definition nw_get :: "('n, 'p, 'i) network_env \<Rightarrow> string \<Rightarrow> 'n \<Rightarrow> Network result" where
  "nw_get env i st = storage_Get (ne_table env) i st"

definition nw_find ::
  "('n, 'p, 'i) network_env \<Rightarrow> NetworkQuery option \<Rightarrow> 'n \<Rightarrow> Network result" where
  "nw_find env query st =
     bind_result (NetworkFilter (ne_enums env) query) (\<lambda>f.
     storage_Find (ne_table env) (scopedNetworkFilters env f) st)"

definition nw_list ::
  "('n, 'p, 'i) network_env \<Rightarrow> NetworkQuery option \<Rightarrow> 'n \<Rightarrow> Network list result" where
  "nw_list env query st =
     bind_result (NetworkFilter (ne_enums env) query) (\<lambda>f.
     bind_result (storage_List (ne_table env) (map Some (scopedNetworkFilters env f)) st) (\<lambda>nws.
     Inr (sort_key b_ID nws)))"

text \<open>The reads of the datastore that do not look at the scope.\<close>

definition ds_Find ::
  "('n, 'p, 'i) network_env \<Rightarrow> NetworkQuery \<Rightarrow> 'n \<Rightarrow> Network result" where
  "ds_Find env query st = nw_find (env\<lparr>ne_scope := None\<rparr>) (Some query) st"

definition ds_List ::
  "('n, 'p, 'i) network_env \<Rightarrow> NetworkQuery \<Rightarrow> 'n \<Rightarrow> Network list result" where
  "ds_List env query st =
     bind_result (NetworkFilter (ne_enums env) (Some query)) (\<lambda>f.
     storage_List (ne_table env) [f] st)"

definition checkAlreadyExists :: "'e result \<Rightarrow> bool" where
  "checkAlreadyExists r = (case r of Inl err \<Rightarrow> \<not> IsNotFound err | Inr _ \<Rightarrow> True)"

definition validate :: "go_error list \<Rightarrow> bool \<Rightarrow> string \<Rightarrow> go_error list" where
  "validate errs condition msg = (if \<not> condition then errs @ [Plain msg] else errs)"

definition validate_all :: "(bool \<times> string) list \<Rightarrow> unit result" where
  "validate_all cs = errors_Join (fold (\<lambda>(c, msg) errs. validate errs c msg) cs [])"

lemma validate_all_ok [simp]: "validate_all cs = Inr u \<longleftrightarrow> (\<forall>(c, msg)\<in>set cs. c)"
proof -
  have "fold (\<lambda>(c, msg) errs. validate errs c msg) cs errs = [] \<longleftrightarrow> errs = [] \<and> (\<forall>(c, msg)\<in>set cs. c)"
    for errs
    by (induction cs arbitrary: errs) (auto simp: validate_def split: if_splits)
  then show ?thesis by (simp add: validate_all_def)
qed

lemma validate_all_pass [simp]: "list_all fst cs \<Longrightarrow> validate_all cs = Inr ()"
  by (auto simp: list_all_iff)

section \<open>Checks of prefixes\<close>

fun boundary_errors :: "string list \<Rightarrow> go_error list result" where
  "boundary_errors [] = Inr []"
| "boundary_errors (pfx # ps) =
     (case ParsePrefix pfx of
        None \<Rightarrow> Inl parse_error
      | Some parsed \<Rightarrow>
          bind_result (boundary_errors ps) (\<lambda>errs.
          Inr (if Prefix_bits_String (Masked parsed) \<noteq> pfx
               then Plain ''expecting canonical form of prefix %q, please specify it as %q'' # errs
               else errs)))"

definition validatePrefixesOnBoundaries :: "string list \<Rightarrow> unit result" where
  "validatePrefixesOnBoundaries prefixes = bind_result (boundary_errors prefixes) errors_Join"

definition child_length_errors :: "Prefixes \<Rightarrow> AddressFamily \<times> 8 word \<Rightarrow> go_error list" where
  "child_length_errors prefixes = (\<lambda>(af, length).
     if af \<notin> set (AddressFamilies prefixes)
     then [Plain ''child prefix length for addressfamily %q specified, but not found in prefixes'']
     else
       concat (map (\<lambda>p.
         case ParsePrefix (Prefix_String p) of
           None \<Rightarrow> [parse_error]
         | Some ipprefix \<Rightarrow>
             if unat length \<le> px_Bits ipprefix
             then [Plain ''given childprefixlength %d is not greater than prefix length of:%s'']
             else []) (OfFamily prefixes af)))"

definition validateChildPrefixLength :: "ChildPrefixLength \<Rightarrow> Prefixes \<Rightarrow> unit result" where
  "validateChildPrefixLength cpl prefixes = errors_Join (concat (map (child_length_errors prefixes) cpl))"

definition validatePrefixesAndAddressFamilies ::
  "Prefixes \<Rightarrow> AddressFamily list \<Rightarrow> ChildPrefixLength \<Rightarrow> NetworkType \<Rightarrow> unit result" where
  "validatePrefixesAndAddressFamilies prefixes destPrefixesAfs defaultChildPrefixLength networkType =
     bind_result (check_each (\<lambda>af. check_that (af \<in> set (AddressFamilies prefixes))
       (Plain ''addressfamily:%s of destination prefixes is not present in existing prefixes'')) destPrefixesAfs) (\<lambda>_.
     if \<not> IsSuperNetwork networkType then Inr ()
     else
       bind_result (check_that (defaultChildPrefixLength \<noteq> [])
         (Plain ''a super network must always contain a default child prefix length'')) (\<lambda>_.
       check_each (\<lambda>af. check_that (has_key defaultChildPrefixLength af)
         (Plain ''a super network must always contain a default child prefix length per addressfamily: %s''))
         (AddressFamilies prefixes)))"

definition validateAdditionalAnnouncableCIDRs :: "string list \<Rightarrow> NetworkType \<Rightarrow> unit result" where
  "validateAdditionalAnnouncableCIDRs additionalCidrs networkType =
     (if additionalCidrs = [] then Inr ()
      else if \<not> IsSuperNetwork networkType
      then Inl (Plain ''additional announcable cidrs can only be set in a private super network'')
      else
        check_each (\<lambda>cidr. check_that (ParsePrefix cidr \<noteq> None)
          (Wrapped ''given cidr:%q in additional announcable cidrs is malformed:%w'' parse_error)) additionalCidrs)"

text \<open>The prefixes of the top level networks without a namespace, each text once.\<close>

definition existing_prefixes :: "Network list \<Rightarrow> Prefixes" where
  "existing_prefixes nws =
     fold (\<lambda>p ps. if Prefix_String p \<in> Prefix_String ` set ps then ps else ps @ [p])
       (concat (map nw_Prefixes
         (filter (\<lambda>nw. nw_ParentNetworkID nw = '''' \<and> nw_Namespace nw = None) nws))) []"

definition prefixesOverlapping ::
  "('n, 'p, 'i) network_env \<Rightarrow> string list \<Rightarrow> 'n \<Rightarrow> unit result" where
  "prefixesOverlapping env prefixes st =
     (if prefixes = [] then Inr ()
      else
        bind_result (check_each (\<lambda>pfx.
          map_error (\<lambda>_. Conflict ''%w'')
            (ne_PrefixesOverlapping env (filter (\<lambda>s. s \<noteq> pfx) prefixes) [pfx])) prefixes) (\<lambda>_.
        bind_result (map_error (\<lambda>_. Internal ''%w'') (nw_list env (Some empty_NetworkQuery) st)) (\<lambda>allNetworks.
        map_error (\<lambda>_. Conflict ''%w'')
          (ne_PrefixesOverlapping env (Prefixes_String (existing_prefixes allNetworks)) prefixes))))"

definition networkTypeInPartitionPossible ::
  "('n, 'p, 'i) network_env \<Rightarrow> string option \<Rightarrow> ApiNetworkType \<Rightarrow> 'n \<Rightarrow> unit result" where
  "networkTypeInPartitionPossible env part networkType st =
     check_that (\<not> checkAlreadyExists
         (nw_find env (Some (empty_NetworkQuery\<lparr>nq_Partition := part, nq_Type := Some networkType\<rparr>)) st))
       (Plain ''partition with id %q already has a network of type %s'')"

definition calculatePrefixDifferences ::
  "Network \<Rightarrow> string list \<Rightarrow> (Prefixes \<times> Prefixes) result" where
  "calculatePrefixDifferences existingNetwork prefixes =
     (if prefixes = [] then Inr ([], [])
      else
        bind_result (NewPrefixesFromCIDRs prefixes) (\<lambda>pfxs.
        Inr (SubtractPrefixes (nw_Prefixes existingNetwork) pfxs,
             SubtractPrefixes pfxs (nw_Prefixes existingNetwork))))"

definition arePrefixesEmpty :: "('n, 'p, 'i) network_env \<Rightarrow> Prefixes \<Rightarrow> unit result" where
  "arePrefixesEmpty env prefixes =
     check_each (\<lambda>prefixToCheck.
       bind_result (map_error (\<lambda>_. Internal ''%w'') (ne_ips env (Prefix_String prefixToCheck))) (\<lambda>ips.
       check_that (ips = 0) (FailedPrecondition ''there are still %d ips present in prefix: %s''))) prefixes"

section \<open>Creation\<close>

text \<open>The network a child takes its prefixes from.\<close>

definition parent_by_id ::
  "('n, 'p, 'i) network_env \<Rightarrow> string \<Rightarrow> string \<Rightarrow> 'n \<Rightarrow> Network result" where
  "parent_by_id env project i st =
     bind_result (map_error (\<lambda>_. FailedPrecondition ''unable to retrieve parent network: %w'') (nw_get env i st)) (\<lambda>parent.
     bind_result (check_that (IsSuperNetwork (nw_NetworkType parent))
       (Plain ''given parentnetwork must be either a super or a super namespace network'')) (\<lambda>_.
     bind_result (check_that (nw_ProjectID parent = '''' \<or> nw_ProjectID parent = project)
       (Plain ''not allowed to create child network with project %s in network %s scoped to project %s'')) (\<lambda>_.
     Inr parent)))"

definition parent_by_partition ::
  "('n, 'p, 'i) network_env \<Rightarrow> string \<Rightarrow> 'n \<Rightarrow> Network result" where
  "parent_by_partition env part st =
     map_error (\<lambda>_. FailedPrecondition ''unable to find a super in partition %q: %w'')
       (ds_Find env (empty_NetworkQuery\<lparr>nq_Partition := Some part, nq_Project := Some '''',
          nq_Type := Some NETWORK_TYPE_SUPER\<rparr>) st)"

definition validate_parent ::
  "('n, 'p, 'i) network_env \<Rightarrow> NetworkServiceCreateRequest \<Rightarrow> string \<Rightarrow> 'n \<Rightarrow> Network result" where
  "validate_parent env req project st =
     (case (ncr_ParentNetwork req, ncr_Partition req) of
        (Some _, Some _) \<Rightarrow> Inl (Plain ''if parent network id is specified, partition must be nil'')
      | (Some i, None) \<Rightarrow> parent_by_id env project i st
      | (None, Some part) \<Rightarrow> parent_by_partition env part st
      | (None, None) \<Rightarrow> Inl (Plain ''no parent network found''))"

text \<open>The child prefix lengths of a request, if it has any.\<close>

definition requested_length :: "ApiChildPrefixLength option \<Rightarrow> ChildPrefixLength option" where
  "requested_length l =
     (case l of
        None \<Rightarrow> None
      | Some cpl \<Rightarrow>
          if cpl_Ipv4 cpl \<noteq> None \<or> cpl_Ipv6 cpl \<noteq> None then Some (ToChildPrefixLength (Some cpl)) else None)"

definition validate_child_length ::
  "Network \<Rightarrow> ApiChildPrefixLength option \<Rightarrow> ChildPrefixLength result" where
  "validate_child_length parent l =
     (case requested_length l of
        None \<Rightarrow> Inr (nw_DefaultChildPrefixLength parent)
      | Some cpl \<Rightarrow>
          bind_result (validateChildPrefixLength cpl (nw_Prefixes parent)) (\<lambda>_.
          bind_result (check_each (\<lambda>(af, ml).
            check_that (case map_of cpl af of None \<Rightarrow> True | Some cl \<Rightarrow> \<not> cl < ml)
              (Plain ''requested prefix length %v is smaller than allowed (super network defines a minimum of %v)''))
            (nw_MinChildPrefixLength parent)) (\<lambda>_.
          Inr cpl)))"

text \<open>A requested address family keeps only the length of this family; none means dual stack.\<close>

definition lengths_of_family ::
  "NetworkAddressFamily option \<Rightarrow> ChildPrefixLength \<Rightarrow> ChildPrefixLength result" where
  "lengths_of_family af parentLength =
     bind_result (ToAddressFamilyFromNetwork
         (case af of None \<Rightarrow> NETWORK_ADDRESS_FAMILY_DUAL_STACK | Some af \<Rightarrow> af)) (\<lambda>metalAddressFamily.
     (case metalAddressFamily of
        None \<Rightarrow> Inr parentLength
      | Some af \<Rightarrow>
          (case map_of parentLength af of
             None \<Rightarrow> Inl (Plain ''addressfamily %s specified, but no childprefixlength for this addressfamily'')
           | Some bits \<Rightarrow> Inr [(af, bits)])))"

definition validateCreateNetworkTypeChild ::
  "('n, 'p, 'i) network_env \<Rightarrow> NetworkServiceCreateRequest \<Rightarrow> 'n \<Rightarrow> unit result" where
  "validateCreateNetworkTypeChild env req st =
     bind_result (validate_all
       [(ncr_Project req \<noteq> None, ''project must not be nil''),
        (ncr_Id req = None, ''id must be nil''),
        (ncr_Prefixes req = [], ''prefixes must be nil''),
        (ncr_DestinationPrefixes req = [], ''destination prefixes must be nil''),
        (ncr_AdditionalAnnouncableCidrs req = [], ''additional announcable cidrs must be nil''),
        (ncr_DefaultChildPrefixLength req = None, ''default child prefix length must be nil''),
        (ncr_MinChildPrefixLength req = None, ''min child prefix length length must be nil''),
        (ncr_MinChildPrefixLength req = None, ''min child prefix length length must be nil'')]) (\<lambda>_.
     let project = the (ncr_Project req) in
     bind_result (validate_parent env req project st) (\<lambda>parentNetwork.
     bind_result (check_that (nw_DefaultChildPrefixLength parentNetwork \<noteq> [])
       (Plain ''super network %s has no default child prefix length specified'')) (\<lambda>_.
     bind_result (check_that (\<not> (nw_Vrf parentNetwork \<noteq> 0 \<and> ncr_Vrf req \<noteq> None))
       (Plain ''super network %q inherits vrf %d to its child networks, therefore the vrf must be nil'')) (\<lambda>_.
     bind_result (check_that (nw_ProjectID parentNetwork = '''' \<or> nw_ProjectID parentNetwork = project)
       (Plain ''super network %s is project scoped, requested child project:%s does not match'')) (\<lambda>_.
     bind_result
       (if ncr_Type req = NETWORK_TYPE_CHILD_SHARED
        then
          bind_result (map_error (\<lambda>_. Internal ''%w'')
            (ds_List env (empty_NetworkQuery\<lparr>nq_Project := ncr_Project req,
               nq_Type := Some NETWORK_TYPE_CHILD_SHARED\<rparr>) st)) (\<lambda>nws.
          check_that (nws = []) (Plain ''only one child shared network per project is allowed''))
        else Inr ()) (\<lambda>_.
     bind_result (validate_child_length parentNetwork (ncr_Length req)) (\<lambda>parentLength.
     bind_result (lengths_of_family (ncr_AddressFamily req) parentLength) (\<lambda>parentLength.
     validatePrefixesAndAddressFamilies (nw_Prefixes parentNetwork) [] parentLength NetworkTypeChild))))))))"

definition validateCreateNetworkTypeSuper ::
  "('n, 'p, 'i) network_env \<Rightarrow> NetworkServiceCreateRequest \<Rightarrow> 'n \<Rightarrow> unit result" where
  "validateCreateNetworkTypeSuper env req st =
     bind_result (validate_all
       [(ncr_Id req \<noteq> None, ''id must not be nil''),
        (ncr_Prefixes req \<noteq> [], ''prefixes must not be nil''),
        (ncr_DefaultChildPrefixLength req \<noteq> None, ''default child prefix length must not be nil''),
        (ncr_ParentNetwork req = None, ''parent network id must be nil''),
        (ncr_AddressFamily req = None, ''addressfamily must be nil''),
        (ncr_Length req = None, ''length must be nil'')]) (\<lambda>_.
     bind_result (check_that (ncr_Partition req = None \<or> ncr_Type req \<noteq> NETWORK_TYPE_SUPER_NAMESPACED)
       (Plain ''partition must not be specified for namespaced private super'')) (\<lambda>_.
     bind_result
       (case ncr_Partition req of
          None \<Rightarrow> Inr ()
        | Some _ \<Rightarrow> networkTypeInPartitionPossible env (ncr_Partition req) (ncr_Type req) st) (\<lambda>_.
     bind_result (NewPrefixesFromCIDRs (ncr_Prefixes req)) (\<lambda>prefixes.
     let defaultChildPrefixLength = ToChildPrefixLength (ncr_DefaultChildPrefixLength req) in
     bind_result (validateChildPrefixLength defaultChildPrefixLength prefixes) (\<lambda>_.
     bind_result (validateChildPrefixLength (ToChildPrefixLength (ncr_MinChildPrefixLength req)) prefixes) (\<lambda>_.
     bind_result (validatePrefixesAndAddressFamilies prefixes [] defaultChildPrefixLength NetworkTypeSuper) (\<lambda>_.
     bind_result (validateAdditionalAnnouncableCIDRs (ncr_AdditionalAnnouncableCidrs req) NetworkTypeSuper) (\<lambda>_.
     prefixesOverlapping env (Prefixes_String prefixes) st))))))))"

definition validateCreateNetworkTypeExternal ::
  "('n, 'p, 'i) network_env \<Rightarrow> NetworkServiceCreateRequest \<Rightarrow> 'n \<Rightarrow> unit result" where
  "validateCreateNetworkTypeExternal env req st =
     bind_result (validate_all
       [(ncr_Id req \<noteq> None, ''id must not be nil''),
        (ncr_Prefixes req \<noteq> [], ''prefixes must not be nil''),
        (ncr_Vrf req \<noteq> None, ''vrf must not be nil''),
        (ncr_ParentNetwork req = None, ''parent network id must be nil''),
        (ncr_AddressFamily req = None, ''addressfamily must be nil''),
        (ncr_Length req = None, ''length must be nil''),
        (ncr_AdditionalAnnouncableCidrs req = [], ''additional announcable cidrs must be nil''),
        (ncr_DefaultChildPrefixLength req = None, ''default child prefix length must be nil''),
        (ncr_MinChildPrefixLength req = None, ''min child prefix length must be nil'')]) (\<lambda>_.
     bind_result (NewPrefixesFromCIDRs (ncr_Prefixes req)) (\<lambda>prefixes.
     bind_result (NewPrefixesFromCIDRs (ncr_DestinationPrefixes req)) (\<lambda>destinationprefixes.
     bind_result (validatePrefixesAndAddressFamilies prefixes (AddressFamilies destinationprefixes) []
       NetworkTypeExternal) (\<lambda>_.
     prefixesOverlapping env (Prefixes_String prefixes) st))))"

definition validateCreateNetworkTypeUnderlay ::
  "('n, 'p, 'i) network_env \<Rightarrow> NetworkServiceCreateRequest \<Rightarrow> 'n \<Rightarrow> unit result" where
  "validateCreateNetworkTypeUnderlay env req st =
     bind_result (validate_all
       [(ncr_Id req \<noteq> None, ''id must not be nil''),
        (ncr_Prefixes req \<noteq> [], ''prefixes must not be nil''),
        (ncr_Partition req \<noteq> None, ''partition must not be nil''),
        (ncr_Project req = None, ''project must be nil''),
        (ncr_Vrf req = None, ''vrf must be nil''),
        (ncr_ParentNetwork req = None, ''parent network id must be nil''),
        (ncr_AddressFamily req = None, ''addressfamily must be nil''),
        (ncr_Length req = None, ''length must be nil''),
        (ncr_DestinationPrefixes req = [], ''destination prefixes must be nil''),
        (ncr_AdditionalAnnouncableCidrs req = [], ''additional announcable cidrs must be nil''),
        (ncr_DefaultChildPrefixLength req = None, ''default child prefix length must be nil''),
        (ncr_MinChildPrefixLength req = None, ''min child prefix length must be nil'')]) (\<lambda>_.
     bind_result (check_that (ncr_NatType req = None \<or> ncr_NatType req = Some NAT_TYPE_NONE)
       (Plain ''nattype my only be nil or none'')) (\<lambda>_.
     bind_result (NewPrefixesFromCIDRs (ncr_Prefixes req)) (\<lambda>prefixes.
     bind_result (check_that (AddressFamilyIPv6 \<notin> set (AddressFamilies prefixes))
       (Plain ''underlay can only contain ipv4 prefixes'')) (\<lambda>_.
     prefixesOverlapping env (Prefixes_String prefixes) st))))"

definition validate_by_type ::
  "('n, 'p, 'i) network_env \<Rightarrow> NetworkServiceCreateRequest \<Rightarrow> 'n \<Rightarrow> unit result" where
  "validate_by_type env req st =
     (case ncr_Type req of
        NETWORK_TYPE_SUPER \<Rightarrow> validateCreateNetworkTypeSuper env req st
      | NETWORK_TYPE_SUPER_NAMESPACED \<Rightarrow> validateCreateNetworkTypeSuper env req st
      | NETWORK_TYPE_CHILD \<Rightarrow> validateCreateNetworkTypeChild env req st
      | NETWORK_TYPE_CHILD_SHARED \<Rightarrow> validateCreateNetworkTypeChild env req st
      | NETWORK_TYPE_EXTERNAL \<Rightarrow> validateCreateNetworkTypeExternal env req st
      | NETWORK_TYPE_UNDERLAY \<Rightarrow> validateCreateNetworkTypeUnderlay env req st
      | _ \<Rightarrow> Inl (Plain ''given networktype:%s is invalid''))"

definition network_validateCreate ::
  "('n, 'p, 'i) network_env \<Rightarrow> NetworkServiceCreateRequest \<Rightarrow> 'n \<Rightarrow> unit result" where
  "network_validateCreate env req st =
     bind_result (case ncr_Id req of None \<Rightarrow> Inr ()
       | Some i \<Rightarrow> check_that (\<not> checkAlreadyExists (nw_get env i st)) (Conflict ''network with id:%s already exists'')) (\<lambda>_.
     bind_result (case ncr_Project req of None \<Rightarrow> Inr ()
       | Some p \<Rightarrow> map_error (\<lambda>_. FailedPrecondition ''project must exist before creating network: %w'') (ne_project env p)) (\<lambda>_.
     bind_result (case ncr_Partition req of None \<Rightarrow> Inr ()
       | Some p \<Rightarrow> map_error (\<lambda>_. FailedPrecondition ''partition must exist before creating network: %w'') (ne_partition env p)) (\<lambda>_.
     bind_result (validatePrefixesOnBoundaries (ncr_Prefixes req)) (\<lambda>_.
     validate_by_type env req st))))"

section \<open>Update and deletion\<close>

definition network_validateUpdate ::
  "('n, 'p, 'i) network_env \<Rightarrow> NetworkServiceUpdateRequest \<Rightarrow> Network \<Rightarrow> 'n \<Rightarrow> unit result" where
  "network_validateUpdate env req nw st =
     bind_result (check_that (NetworkType_string (nw_NetworkType nw) \<noteq> '''') (Internal ''networktype is not set'')) (\<lambda>_.
     bind_result (check_that (nur_DefaultChildPrefixLength req = None \<or> IsSuperNetwork (nw_NetworkType nw))
       (Plain ''default child prefix length can only be set on super networks'')) (\<lambda>_.
     bind_result (check_that (\<not> (nur_Prefixes req \<noteq> [] \<and> IsChildNetwork (nw_NetworkType nw)))
       (Plain ''cannot change prefixes in child networks'')) (\<lambda>_.
     bind_result (check_that (\<not> (nur_Prefixes req = [] \<and> \<not> IsChildNetwork (nw_NetworkType nw)))
       (Plain ''removing all prefixes is not supported'')) (\<lambda>_.
     bind_result (validatePrefixesOnBoundaries (nur_Prefixes req)) (\<lambda>_.
     bind_result (calculatePrefixDifferences nw (nur_Prefixes req)) (\<lambda>(prefixesToBeRemoved, prefixesToBeAdded).
     bind_result (arePrefixesEmpty env prefixesToBeRemoved) (\<lambda>_.
     bind_result (prefixesOverlapping env (Prefixes_String prefixesToBeAdded) st) (\<lambda>_.
     bind_result (check_that (nw_ParentNetworkID nw = '''' \<or> prefixesToBeRemoved = [] \<and> prefixesToBeAdded = [])
       (Plain ''cannot change prefixes in child networks'')) (\<lambda>_.
     bind_result
       (if nur_DestinationPrefixes req = [] then Inr []
        else bind_result (NewPrefixesFromCIDRs (nur_DestinationPrefixes req)) (\<lambda>ps. Inr (AddressFamilies ps))) (\<lambda>destPrefixAfs.
     bind_result (validatePrefixesAndAddressFamilies (nw_Prefixes nw) destPrefixAfs
       (nw_DefaultChildPrefixLength nw) (nw_NetworkType nw)) (\<lambda>_.
     bind_result (validateChildPrefixLength (ToChildPrefixLength (nur_DefaultChildPrefixLength req)) (nw_Prefixes nw)) (\<lambda>_.
     bind_result (validateChildPrefixLength (ToChildPrefixLength (nur_MinChildPrefixLength req)) (nw_Prefixes nw)) (\<lambda>_.
     bind_result (validateAdditionalAnnouncableCIDRs (nur_AdditionalAnnouncableCidrs req) (nw_NetworkType nw)) (\<lambda>_.
     check_each (\<lambda>oldcidr.
       check_that (nur_Force req \<or> oldcidr \<in> set (nur_AdditionalAnnouncableCidrs req))
         (Plain ''you cannot remove %q from additionalannouncablecidrs without force flag set''))
       (nw_AdditionalAnnouncableCIDRs nw)))))))))))))))"

definition network_validateDelete ::
  "('n, 'p, 'i) network_env \<Rightarrow> Network \<Rightarrow> 'n \<Rightarrow> unit result" where
  "network_validateDelete env nw st =
     bind_result (map_error (\<lambda>_. Internal ''%w'')
       (nw_list env (Some (empty_NetworkQuery\<lparr>nq_ParentNetwork := Some (b_ID nw)\<rparr>)) st)) (\<lambda>children.
     bind_result (check_that (children = [])
       (FailedPrecondition ''cannot remove network with existing child networks'')) (\<lambda>_.
     bind_result (map_error (\<lambda>_. Internal ''%w'') (ne_machines env (b_ID nw))) (\<lambda>machines.
     bind_result (check_that (machines = 0)
       (FailedPrecondition ''cannot remove network with existing machine allocations'')) (\<lambda>_.
     arePrefixesEmpty env (nw_Prefixes nw)))))"

section \<open>Free addresses\<close>

fun available_ips ::
  "('n, 'p, 'i) network_env \<Rightarrow> string option \<Rightarrow> Prefixes \<Rightarrow> 'i \<Rightarrow> 64 word result" where
  "available_ips env ns [] im = Inr 0"
| "available_ips env ns (pfx # ps) im =
     bind_result (map_error (Wrapped ''unable to get network usage of %q and prefixes: %q, %w'')
       (im_PrefixUsage (ne_ipam env) (Prefix_String pfx) ns im)) (\<lambda>usage.
     bind_result (available_ips env ns ps im) (\<lambda>n.
     Inr (pu_AvailableIps usage - pu_AcquiredIps usage + n)))"

definition ipsAvailable :: "('n, 'p, 'i) network_env \<Rightarrow> string \<Rightarrow> 'n \<Rightarrow> 'i \<Rightarrow> unit result" where
  "ipsAvailable env network st im =
     bind_result (nw_get env network st) (\<lambda>metalnetwork.
     bind_result (available_ips env (nw_Namespace metalnetwork) (nw_Prefixes metalnetwork) im) (\<lambda>availableIps.
     check_that (\<not> availableIps < 1) (Plain ''no free ips in network %q'')))"

end
