(* ===== verification/NetworkRepository.thy ===== *)
theory NetworkRepository
  imports NetworkValidation
begin

text \<open>
  The network repository, \<^verbatim>\<open>pkg/repository/network.go\<close>: creation of networks and of child
  networks with prefixes of their parent, update, deletion and conversion, as an instance of the
  generic store. The state is the table of networks, the pool of the VRFs and the state of the
  address management service. An operation that fails keeps the changes it has made before.
\<close>

section \<open>The state\<close>

record ('n, 'p, 'i) network_world =
  nww_table :: 'n
  nww_vrf :: 'p
  nww_ipam :: 'i

type_synonym ('n, 'p, 'i, 'a) network_action = "(('n, 'p, 'i) network_world, 'a) action"

definition read_networks :: "('n \<Rightarrow> 'a result) \<Rightarrow> ('n, 'p, 'i, 'a) network_action" where
  "read_networks f w = (f (nww_table w), w)"

definition on_vrf_pool :: "('p \<Rightarrow> 'a result \<times> 'p) \<Rightarrow> ('n, 'p, 'i, 'a) network_action" where
  "on_vrf_pool f w = (let (r, st) = f (nww_vrf w) in (r, w\<lparr>nww_vrf := st\<rparr>))"

definition on_ipam :: "('i \<Rightarrow> 'a result \<times> 'i) \<Rightarrow> ('n, 'p, 'i, 'a) network_action" where
  "on_ipam f w = (let (r, st) = f (nww_ipam w) in (r, w\<lparr>nww_ipam := st\<rparr>))"

definition read_ipam :: "('i \<Rightarrow> 'a result) \<Rightarrow> ('n, 'p, 'i, 'a) network_action" where
  "read_ipam f w = (f (nww_ipam w), w)"

definition table_Create ::
  "('n, 'p, 'i) network_env \<Rightarrow> Network \<Rightarrow> ('n, 'p, 'i, Network) network_action" where
  "table_Create env nw w =
     (case storage_Create (ne_table env) (ne_now env) (ne_newID env) nw (nww_table w) of
        Inl err \<Rightarrow> (Inl err, w)
      | Inr (nw, st) \<Rightarrow> (Inr nw, w\<lparr>nww_table := st\<rparr>))"

definition table_Update ::
  "('n, 'p, 'i) network_env \<Rightarrow> Network \<Rightarrow> ('n, 'p, 'i, Network) network_action" where
  "table_Update env nw w =
     (case storage_Update (ne_table env) (ne_now env) nw (nww_table w) of
        (nw, Inl err) \<Rightarrow> (Inl err, w)
      | (nw, Inr st) \<Rightarrow> (Inr nw, w\<lparr>nww_table := st\<rparr>))"

definition table_Delete ::
  "('n, 'p, 'i) network_env \<Rightarrow> Network \<Rightarrow> ('n, 'p, 'i, unit) network_action" where
  "table_Delete env nw w =
     (case storage_Delete (ne_table env) nw (nww_table w) of
        Inl err \<Rightarrow> (Inl err, w)
      | Inr st \<Rightarrow> (Inr (), w\<lparr>nww_table := st\<rparr>))"

text \<open>A loop over a list that stops at the first error.\<close>

fun for_each :: "('a \<Rightarrow> ('st, unit) action) \<Rightarrow> 'a list \<Rightarrow> ('st, unit) action" where
  "for_each f [] = return ()"
| "for_each f (x # xs) = bind_action (f x) (\<lambda>_. for_each f xs)"

section \<open>Child prefixes\<close>

text \<open>A namespaced super network is created in the namespace of the project when it is missing.\<close>

definition ensure_parent_prefix ::
  "('n, 'p, 'i) network_env \<Rightarrow> string option \<Rightarrow> Prefix \<Rightarrow> ('n, 'p, 'i, unit) network_action" where
  "ensure_parent_prefix env namespace parentPrefix w =
     (case im_GetPrefix (ne_ipam env) (Prefix_String parentPrefix) namespace (nww_ipam w) of
        Inr _ \<Rightarrow> (Inr (), w)
      | Inl err \<Rightarrow>
          if \<not> IsNotFound err
          then (Inl (Internal ''unable to get prefix %s from super network in ipam:%v''), w)
          else
            on_error (\<lambda>_. Internal ''unable to create namespaced super network:%v'')
              (on_ipam (im_CreatePrefix (ne_ipam env) (Prefix_String parentPrefix) namespace)) w)"

fun acquire_child ::
  "('n, 'p, 'i) network_env \<Rightarrow> string option \<Rightarrow> 8 word \<Rightarrow> Prefixes \<Rightarrow> go_error list \<Rightarrow>
   ('n, 'p, 'i, Prefix) network_action" where
  "acquire_child env namespace childLength [] errs w =
     (if errs \<noteq> [] then (Inl (Internal ''cannot allocate free child prefix in ipam: %w''), w)
      else (Inl (Internal ''cannot allocate free child prefix in one of the given parent prefixes in ipam: %s''), w))"
| "acquire_child env namespace childLength (parentPrefix # ps) errs w =
     (case on_ipam (im_AcquireChildPrefix (ne_ipam env) (Prefix_String parentPrefix) (ucast childLength) namespace) w of
        (Inl err, w) \<Rightarrow>
          if IsNotFound err then acquire_child env namespace childLength ps errs w
          else acquire_child env namespace childLength ps
                 (errs @ [Plain ''unable to acquire child prefix:%v'']) w
      | (Inr cidr, w) \<Rightarrow> (map_error (\<lambda>_. Internal ''%w'') (bind_result (NewPrefixFromCIDR cidr) (\<lambda>(pfx, _). Inr pfx)), w))"

definition createChildPrefix ::
  "('n, 'p, 'i) network_env \<Rightarrow> string option \<Rightarrow> Prefixes \<Rightarrow> AddressFamily \<Rightarrow> 8 word \<Rightarrow>
   ('n, 'p, 'i, Prefix) network_action" where
  "createChildPrefix env namespace parentPrefixes af childLength =
     bind_action
       (case namespace of
          None \<Rightarrow> return ()
        | Some ns \<Rightarrow>
            bind_action (on_error (\<lambda>_. Internal ''unable to create namespace:%v'')
              (on_ipam (im_CreateNamespace (ne_ipam env) ns))) (\<lambda>_.
            for_each (ensure_parent_prefix env namespace) (OfFamily parentPrefixes af))) (\<lambda>_.
     acquire_child env namespace childLength (OfFamily parentPrefixes af) [])"

text \<open>The parent of a child network, and the namespace of the child.\<close>

definition allocation_parent ::
  "('n, 'p, 'i) network_env \<Rightarrow> string option \<Rightarrow> string option \<Rightarrow> string option \<Rightarrow> 'n \<Rightarrow>
   (Network \<times> string option) result" where
  "allocation_parent env projectId parentNetworkId partitionId st =
     (case parentNetworkId of
        Some i \<Rightarrow>
          bind_result (map_error (\<lambda>_. FailedPrecondition ''unable to find a super network with id:%s %w'') (nw_get env i st)) (\<lambda>p.
          case nw_NetworkType p of
            NetworkTypeSuper \<Rightarrow> Inr (p, None)
          | NetworkTypeSuperNamespaced \<Rightarrow> Inr (p, projectId)
          | _ \<Rightarrow> Inl (Plain ''parent network with id:%s is not a valid super network but has type:%s''))
      | None \<Rightarrow>
          bind_result
            (map_error (\<lambda>_. if partitionId = None then Panic ''invalid memory address or nil pointer dereference''
                 else FailedPrecondition ''unable to find a private super in partition:%s %w'')
              (ds_Find env (empty_NetworkQuery\<lparr>nq_Partition := partitionId, nq_Type := Some NETWORK_TYPE_SUPER\<rparr>) st)) (\<lambda>p.
          Inr (p, None)))"

fun child_prefixes ::
  "('n, 'p, 'i) network_env \<Rightarrow> string option \<Rightarrow> Prefixes \<Rightarrow> ChildPrefixLength \<Rightarrow>
   ('n, 'p, 'i, Prefixes) network_action" where
  "child_prefixes env namespace parentPrefixes [] = return []"
| "child_prefixes env namespace parentPrefixes ((af, l) # ls) =
     bind_action (on_error (Wrapped ''error creating child network in parent %s:%w'')
       (createChildPrefix env namespace parentPrefixes af l)) (\<lambda>childPrefix.
     bind_action (child_prefixes env namespace parentPrefixes ls) (\<lambda>ps.
     return (childPrefix # ps)))"

definition allocateChildPrefixes ::
  "('n, 'p, 'i) network_env \<Rightarrow> string option \<Rightarrow> string option \<Rightarrow> string option \<Rightarrow>
   ApiChildPrefixLength option \<Rightarrow> NetworkAddressFamily option \<Rightarrow>
   ('n, 'p, 'i, Prefixes \<times> Network) network_action" where
  "allocateChildPrefixes env projectId parentNetworkId partitionId requestedLength af =
     bind_action (read_networks (allocation_parent env projectId parentNetworkId partitionId)) (\<lambda>(parent, namespace).
     bind_action (lift_result (lengths_of_family af
         (case requested_length requestedLength of
            None \<Rightarrow> nw_DefaultChildPrefixLength parent | Some cpl \<Rightarrow> cpl))) (\<lambda>parentLength.
     bind_action (child_prefixes env namespace (nw_Prefixes parent) parentLength) (\<lambda>prefixes.
     return (prefixes, parent))))"

section \<open>Creation\<close>

definition pointer_SafeDeref :: "string option \<Rightarrow> string" where
  "pointer_SafeDeref s = (case s of None \<Rightarrow> '''' | Some s \<Rightarrow> s)"

definition labels_of :: "Labels option \<Rightarrow> Labels" where
  "labels_of l = (case l of None \<Rightarrow> [] | Some l \<Rightarrow> l)"

definition new_Network :: Network where
  "new_Network =
     \<lparr>b_ID = '''', b_Name = '''', b_Description = '''', b_Created = 0, b_Changed = 0, b_Generation = 0,
      nw_Prefixes = [], nw_DestinationPrefixes = [], nw_DefaultChildPrefixLength = [],
      nw_MinChildPrefixLength = [], nw_PartitionID = '''', nw_ProjectID = '''', nw_Namespace = None,
      nw_ParentNetworkID = '''', nw_Vrf = 0, nw_Labels = [], nw_AdditionalAnnouncableCIDRs = [],
      nw_NetworkType = NetworkTypeOther '''', nw_NATType = NATTypeOther '''', nw_PrivateSuper = False,
      nw_Underlay = False, nw_Shared = False, nw_Nat = False\<rparr>"

text \<open>A child network with the prefixes and the VRF that were acquired for it.\<close>

definition child_network ::
  "NetworkServiceCreateRequest \<Rightarrow> NetworkType \<Rightarrow> Network \<Rightarrow> Prefixes \<Rightarrow> 64 word \<Rightarrow> Network" where
  "child_network req networkType parent childPrefixes vrf =
     new_Network
       \<lparr>b_Name := pointer_SafeDeref (ncr_Name req), b_Description := pointer_SafeDeref (ncr_Description req),
        nw_Prefixes := childPrefixes, nw_DestinationPrefixes := nw_DestinationPrefixes parent,
        nw_PartitionID := (if pointer_SafeDeref (ncr_Partition req) = '''' then nw_PartitionID parent
                           else pointer_SafeDeref (ncr_Partition req)),
        nw_ProjectID := pointer_SafeDeref (ncr_Project req),
        nw_Namespace := (if nw_NetworkType parent = NetworkTypeSuperNamespaced then ncr_Project req else None),
        nw_Nat := (nw_NATType parent = NATTypeIPv4Masquerade),
        nw_Shared := (ncr_Type req = NETWORK_TYPE_CHILD_SHARED),
        nw_Vrf := vrf, nw_ParentNetworkID := b_ID parent, nw_Labels := labels_of (ncr_Labels req),
        nw_NATType := nw_NATType parent, nw_NetworkType := networkType\<rparr>"

definition create_child ::
  "('n, 'p, 'i) network_env \<Rightarrow> NetworkServiceCreateRequest \<Rightarrow> NetworkType \<Rightarrow> ('n, 'p, 'i, Network) network_action" where
  "create_child env req networkType =
     bind_action (allocateChildPrefixes env (ncr_Project req) (ncr_ParentNetwork req) (ncr_Partition req)
       (ncr_Length req) (ncr_AddressFamily req)) (\<lambda>(childPrefixes, parent).
     bind_action
       (if nw_Vrf parent > 0 then return (nw_Vrf parent)
        else on_error (\<lambda>_. Internal ''could not acquire a vrf: %w'')
          (on_vrf_pool (AcquireRandomUniqueInteger (ne_retry env) (ne_pool_table env)))) (\<lambda>vrf.
     table_Create env (child_network req networkType parent childPrefixes vrf)))"

text \<open>
  A network of the other types. The test of the NAT type against \<open>IPV4_MASQUERADE.Enum()\<close> compares
  the pointer of the request with a fresh one, so \<open>nat\<close> stays false.
\<close>

definition top_network ::
  "NetworkServiceCreateRequest \<Rightarrow> NetworkType \<Rightarrow> Prefixes \<Rightarrow> Prefixes \<Rightarrow> 64 word \<Rightarrow> NATType \<Rightarrow> Network" where
  "top_network req networkType prefixes destPrefixes vrf natType =
     new_Network
       \<lparr>b_ID := pointer_SafeDeref (ncr_Id req), b_Name := pointer_SafeDeref (ncr_Name req),
        b_Description := pointer_SafeDeref (ncr_Description req), nw_Prefixes := prefixes,
        nw_ParentNetworkID := pointer_SafeDeref (ncr_ParentNetwork req),
        nw_DestinationPrefixes := destPrefixes,
        nw_DefaultChildPrefixLength := ToChildPrefixLength (ncr_DefaultChildPrefixLength req),
        nw_MinChildPrefixLength := ToChildPrefixLength (ncr_MinChildPrefixLength req),
        nw_PartitionID := pointer_SafeDeref (ncr_Partition req),
        nw_ProjectID := pointer_SafeDeref (ncr_Project req), nw_Nat := False,
        nw_PrivateSuper := (ncr_Type req \<in> {NETWORK_TYPE_SUPER, NETWORK_TYPE_SUPER_NAMESPACED}),
        nw_Underlay := (ncr_Type req = NETWORK_TYPE_UNDERLAY), nw_Vrf := vrf,
        nw_Shared := (ncr_Type req = NETWORK_TYPE_EXTERNAL), nw_Labels := labels_of (ncr_Labels req),
        nw_AdditionalAnnouncableCIDRs := ncr_AdditionalAnnouncableCidrs req,
        nw_NetworkType := networkType, nw_NATType := natType\<rparr>"

definition create_top ::
  "errorutil \<Rightarrow> ('n, 'p, 'i) network_env \<Rightarrow> NetworkServiceCreateRequest \<Rightarrow> NetworkType \<Rightarrow> Prefixes \<Rightarrow>
   ('n, 'p, 'i, Network) network_action" where
  "create_top eu env req networkType prefixes =
     bind_action (on_error (eu_Convert eu) (lift_result (NewPrefixesFromCIDRs (ncr_DestinationPrefixes req)))) (\<lambda>destPrefixes.
     bind_action
       (case ncr_Vrf req of
          None \<Rightarrow> return 0
        | Some v \<Rightarrow> on_vrf_pool (AcquireUniqueInteger (ne_pool_table env) (ne_pool env) (ucast v))) (\<lambda>vrf.
     bind_action
       (case ncr_NatType req of
          None \<Rightarrow> return (NATTypeOther '''')
        | Some nt \<Rightarrow> on_error (eu_Convert eu) (lift_result (ToNATType nt))) (\<lambda>natType.
     bind_action (table_Create env (top_network req networkType prefixes destPrefixes vrf natType)) (\<lambda>nw.
     bind_action (for_each (\<lambda>prefix. on_ipam (im_CreatePrefix (ne_ipam env) (Prefix_String prefix) (nw_Namespace nw)))
       (nw_Prefixes nw)) (\<lambda>_.
     return nw)))))"

definition nw_create ::
  "errorutil \<Rightarrow> ('n, 'p, 'i) network_env \<Rightarrow> NetworkServiceCreateRequest \<Rightarrow> ('n, 'p, 'i, Network) network_action" where
  "nw_create eu env req =
     bind_action (on_error (eu_Convert eu) (lift_result (NewPrefixesFromCIDRs (ncr_Prefixes req)))) (\<lambda>prefixes.
     bind_action (on_error (\<lambda>_. Internal ''%w'') (lift_result (ToNetworkType (ncr_Type req)))) (\<lambda>networkType.
     if ncr_Type req \<in> {NETWORK_TYPE_CHILD, NETWORK_TYPE_CHILD_SHARED} then create_child env req networkType
     else if ncr_Type req \<in> {NETWORK_TYPE_SUPER, NETWORK_TYPE_SUPER_NAMESPACED, NETWORK_TYPE_EXTERNAL, NETWORK_TYPE_UNDERLAY}
     then create_top eu env req networkType prefixes
     else fail (Plain ''given networktype:%s is invalid'')))"

section \<open>Update\<close>

definition apply_network_request ::
  "NetworkServiceUpdateRequest \<Rightarrow> Network \<Rightarrow> Network result" where
  "apply_network_request req nw =
     (let nw = (case nur_Name req of None \<Rightarrow> nw | Some n \<Rightarrow> nw\<lparr>b_Name := n\<rparr>);
          nw = (case nur_Description req of None \<Rightarrow> nw | Some d \<Rightarrow> nw\<lparr>b_Description := d\<rparr>);
          nw = (if nur_Labels req = None then nw
                else nw\<lparr>nw_Labels := updateLabelsOnMap (nur_Labels req) (nw_Labels nw)\<rparr>)
      in case nur_NatType req of
           None \<Rightarrow> Inr nw
         | Some nt \<Rightarrow>
             bind_result (ToNATType nt) (\<lambda>nt.
             Inr (nw\<lparr>nw_NATType := nt, nw_Nat := (if nt = NATTypeIPv4Masquerade then True else nw_Nat nw)\<rparr>)))"

definition nw_update ::
  "errorutil \<Rightarrow> ('n, 'p, 'i) network_env \<Rightarrow> Network \<Rightarrow> NetworkServiceUpdateRequest \<Rightarrow>
   ('n, 'p, 'i, Network) network_action" where
  "nw_update eu env nw req =
     bind_action (lift_result (apply_network_request req nw)) (\<lambda>nw.
     let prefixes = (if IsChildNetwork (nw_NetworkType nw) then Prefixes_String (nw_Prefixes nw)
                     else nur_Prefixes req) in
     bind_action (on_error (eu_Convert eu) (lift_result (calculatePrefixDifferences nw prefixes)))
       (\<lambda>(prefixesToBeRemoved, prefixesToBeAdded).
     bind_action (on_error (eu_Convert eu) (lift_result (arePrefixesEmpty env prefixesToBeRemoved))) (\<lambda>_.
     bind_action (on_error (eu_Convert eu) (lift_result (NewPrefixesFromCIDRs prefixes))) (\<lambda>pfxs.
     let nw = nw\<lparr>nw_Prefixes := pfxs\<rparr> in
     bind_action
       (if nur_DestinationPrefixes req = [] then return (nw_DestinationPrefixes nw)
        else on_error (eu_Convert eu) (lift_result (NewPrefixesFromCIDRs (nur_DestinationPrefixes req)))) (\<lambda>destPrefixes.
     let nw = nw\<lparr>nw_DestinationPrefixes := destPrefixes\<rparr>;
         nw = (if nur_DefaultChildPrefixLength req = None then nw
               else nw\<lparr>nw_DefaultChildPrefixLength := ToChildPrefixLength (nur_DefaultChildPrefixLength req)\<rparr>);
         nw = (if nur_Force req
               then nw\<lparr>nw_AdditionalAnnouncableCIDRs := nur_AdditionalAnnouncableCidrs req\<rparr> else nw) in
     bind_action (for_each (\<lambda>p. on_error (eu_Convert eu)
       (on_ipam (im_DeletePrefix (ne_ipam env) (Prefix_String p) (nw_Namespace nw)))) prefixesToBeRemoved) (\<lambda>_.
     bind_action (for_each (\<lambda>p. on_error (eu_Convert eu)
       (on_ipam (im_CreatePrefix (ne_ipam env) (Prefix_String p) (nw_Namespace nw)))) prefixesToBeAdded) (\<lambda>_.
     table_Update env nw)))))))"

section \<open>Deletion\<close>

text \<open>Deleting enqueues a task and waits for it; both are calls of the task client.\<close>

record ('n, 'p, 'i) network_tasks =
  nt_NewTask :: "string \<Rightarrow> ('n, 'p, 'i, string) network_action" \<comment> \<open>of a network, returns the id of the task\<close>
  nt_Watch :: "string \<Rightarrow> ('n, 'p, 'i, unit) network_action"

definition nw_delete ::
  "('n, 'p, 'i) network_tasks \<Rightarrow> Network \<Rightarrow> ('n, 'p, 'i, string option) network_action" where
  "nw_delete nt nw =
     bind_action (nt_NewTask nt (b_ID nw)) (\<lambda>info.
     bind_action (on_error (\<lambda>_. Internal ''error waiting for task %q of type %q to complete: %w'')
       (nt_Watch nt info)) (\<lambda>_.
     return (Some info)))"

definition ignore_not_found :: "('st, unit) action \<Rightarrow> ('st, unit) action" where
  "ignore_not_found a st =
     (case a st of
        (Inl err, st) \<Rightarrow> if IsNotFound err then (Inr (), st) else (Inl err, st)
      | (Inr _, st) \<Rightarrow> (Inr (), st))"

definition NetworkDeleteHandleFn ::
  "('n, 'p, 'i) network_env \<Rightarrow> string \<Rightarrow> ('n, 'p, 'i, unit) network_action" where
  "NetworkDeleteHandleFn env uuid w =
     (case nw_get env uuid (nww_table w) of
        Inl err \<Rightarrow> if IsNotFound err then (Inr (), w) else (Inl err, w)
      | Inr nw \<Rightarrow>
          bind_action (for_each (\<lambda>prefix. ignore_not_found
            (on_ipam (im_DeletePrefix (ne_ipam env) (Prefix_String prefix) (nw_Namespace nw)))) (nw_Prefixes nw)) (\<lambda>_.
          bind_action
            (if nw_Vrf nw > 0
             then on_error (Wrapped ''unable to release vrf:%d %w'')
               (on_vrf_pool (ReleaseUniqueInteger (ne_pool_table env) (ne_pool env) (nw_Vrf nw)))
             else return ()) (\<lambda>_.
          ignore_not_found (table_Delete env nw))) w)"

section \<open>Conversion\<close>

record NetworkUsage =
  us_AvailableIps :: "64 word"
  us_UsedIps :: "64 word"
  us_AvailablePrefixes :: "64 word"
  us_UsedPrefixes :: "64 word"

record NetworkConsumption =
  nc_Ipv4 :: "NetworkUsage option"
  nc_Ipv6 :: "NetworkUsage option"

record ApiNetwork =
  an_Id :: string
  an_Name :: "string option"
  an_Description :: "string option"
  an_Partition :: "string option"
  an_Project :: "string option"
  an_Namespace :: "string option"
  an_Prefixes :: "string list"
  an_DestinationPrefixes :: "string list"
  an_Vrf :: "32 word option"
  an_ParentNetwork :: "string option"
  an_AdditionalAnnouncableCidrs :: "string list"
  an_Labels :: Labels
  an_CreatedAt :: time
  an_UpdatedAt :: time
  an_Generation :: "64 word"
  an_NatType :: ApiNATType
  an_DefaultChildPrefixLength :: "ApiChildPrefixLength option"
  an_MinChildPrefixLength :: "ApiChildPrefixLength option"
  an_Type :: ApiNetworkType
  an_Consumption :: NetworkConsumption
  an_DeletionTask :: "string option"

definition pointer_PointerOrNil :: "'a \<Rightarrow> 'a \<Rightarrow> 'a option" where
  "pointer_PointerOrNil zero x = (if x = zero then None else Some x)"

fun toProtoChildPrefixLength_loop ::
  "ChildPrefixLength \<Rightarrow> ApiChildPrefixLength option \<Rightarrow> ApiChildPrefixLength option result" where
  "toProtoChildPrefixLength_loop [] res = Inr res"
| "toProtoChildPrefixLength_loop ((af, l) # ls) res =
     (let r = (case res of None \<Rightarrow> \<lparr>cpl_Ipv4 = None, cpl_Ipv6 = None\<rparr> | Some r \<Rightarrow> r)
      in case af of
           AddressFamilyIPv4 \<Rightarrow> toProtoChildPrefixLength_loop ls (Some (r\<lparr>cpl_Ipv4 := Some (ucast l)\<rparr>))
         | AddressFamilyIPv6 \<Rightarrow> toProtoChildPrefixLength_loop ls (Some (r\<lparr>cpl_Ipv6 := Some (ucast l)\<rparr>))
         | _ \<Rightarrow> Inl (Plain ''unknown addressfamily %s''))"

definition toProtoChildPrefixLength :: "ChildPrefixLength \<Rightarrow> ApiChildPrefixLength option result" where
  "toProtoChildPrefixLength cpl = toProtoChildPrefixLength_loop cpl None"

definition add_usage :: "PrefixUsage \<Rightarrow> NetworkUsage option \<Rightarrow> NetworkUsage" where
  "add_usage u n =
     (let n = (case n of
                 None \<Rightarrow> \<lparr>us_AvailableIps = 0, us_UsedIps = 0, us_AvailablePrefixes = 0, us_UsedPrefixes = 0\<rparr>
               | Some n \<Rightarrow> n)
      in n\<lparr>us_AvailableIps := us_AvailableIps n + pu_AvailableIps u,
           us_UsedIps := us_UsedIps n + pu_AcquiredIps u,
           us_AvailablePrefixes := us_AvailablePrefixes n + of_nat (length (pu_AvailablePrefixes u)),
           us_UsedPrefixes := us_UsedPrefixes n + pu_AcquiredPrefixes u\<rparr>)"

fun usage_loop ::
  "('n, 'p, 'i) network_env \<Rightarrow> string option \<Rightarrow> Prefixes \<Rightarrow> 'i \<Rightarrow> NetworkConsumption \<Rightarrow>
   NetworkConsumption result" where
  "usage_loop env ns [] im c = Inr c"
| "usage_loop env ns (prefix # ps) im c =
     (case ParsePrefix (Prefix_String prefix) of
        None \<Rightarrow> Inl parse_error
      | Some pfx \<Rightarrow>
          (case im_PrefixUsage (ne_ipam env) (Prefix_String prefix) ns im of
             Inl err \<Rightarrow> if IsNotFound err then usage_loop env ns ps im c else Inl err
           | Inr u \<Rightarrow>
               usage_loop env ns ps im
                 (if Is6 (px_Addr pfx) then c\<lparr>nc_Ipv6 := Some (add_usage u (nc_Ipv6 c))\<rparr>
                  else c\<lparr>nc_Ipv4 := Some (add_usage u (nc_Ipv4 c))\<rparr>)))"

definition getNetworkUsage ::
  "('n, 'p, 'i) network_env \<Rightarrow> Network \<Rightarrow> 'i \<Rightarrow> NetworkConsumption result" where
  "getNetworkUsage env nw im =
     usage_loop env (nw_Namespace nw) (nw_Prefixes nw) im \<lparr>nc_Ipv4 = None, nc_Ipv6 = None\<rparr>"

text \<open>A network without labels is converted to one without a label message or with an empty one.\<close>

definition network_convertToProto ::
  "('n, 'p, 'i) network_env \<Rightarrow> Network \<Rightarrow> 'i \<Rightarrow> ApiNetwork result" where
  "network_convertToProto env e im =
     bind_result (FromNATType (ne_enums env) (nw_NATType e)) (\<lambda>natType.
     bind_result (FromNetworkType (ne_enums env) (nw_NetworkType e)) (\<lambda>networkType.
     bind_result (toProtoChildPrefixLength (nw_DefaultChildPrefixLength e)) (\<lambda>defaultChildPrefixLength.
     bind_result (toProtoChildPrefixLength (nw_MinChildPrefixLength e)) (\<lambda>minChildPrefixLength.
     bind_result (getNetworkUsage env e im) (\<lambda>consumption.
     Inr \<lparr>an_Id = b_ID e, an_Name = pointer_PointerOrNil '''' (b_Name e),
       an_Description = pointer_PointerOrNil '''' (b_Description e),
       an_Partition = pointer_PointerOrNil '''' (nw_PartitionID e),
       an_Project = pointer_PointerOrNil '''' (nw_ProjectID e), an_Namespace = nw_Namespace e,
       an_Prefixes = Prefixes_String (nw_Prefixes e),
       an_DestinationPrefixes = Prefixes_String (nw_DestinationPrefixes e),
       an_Vrf = pointer_PointerOrNil 0 (ucast (nw_Vrf e)),
       an_ParentNetwork = pointer_PointerOrNil '''' (nw_ParentNetworkID e),
       an_AdditionalAnnouncableCidrs = nw_AdditionalAnnouncableCIDRs e, an_Labels = nw_Labels e,
       an_CreatedAt = b_Created e, an_UpdatedAt = b_Changed e, an_Generation = b_Generation e,
       an_NatType = natType, an_DefaultChildPrefixLength = defaultChildPrefixLength,
       an_MinChildPrefixLength = minChildPrefixLength, an_Type = networkType,
       an_Consumption = consumption, an_DeletionTask = None\<rparr>)))))"

definition network_matchScope :: "('n, 'p, 'i) network_env \<Rightarrow> Network \<Rightarrow> bool" where
  "network_matchScope env nw = (case ne_scope env of None \<Rightarrow> True | Some p \<Rightarrow> p = nw_ProjectID nw)"

section \<open>The repository as the store sees it\<close>

definition network_operations ::
  "errorutil \<Rightarrow> ('n, 'p, 'i) network_env \<Rightarrow> ('n, 'p, 'i) network_tasks \<Rightarrow>
   (('n, 'p, 'i) network_world, Network, ApiNetwork, NetworkServiceCreateRequest,
    NetworkServiceUpdateRequest, NetworkQuery option) repository" where
  "network_operations eu env nt =
     \<lparr>rp_validateCreate = (\<lambda>req. bind_action (read_networks (network_validateCreate env req)) (\<lambda>_. return req)),
      rp_create = nw_create eu env,
      rp_get = (\<lambda>i. read_networks (nw_get env i)),
      rp_find = (\<lambda>q. read_networks (nw_find env q)),
      rp_list = (\<lambda>q. read_networks (nw_list env q)),
      rp_matchScope = network_matchScope env,
      rp_validateUpdate = (\<lambda>req nw. bind_action (read_networks (network_validateUpdate env req nw)) (\<lambda>_. return req)),
      rp_update = nw_update eu env,
      rp_validateDelete = (\<lambda>nw. read_networks (network_validateDelete env nw)),
      rp_delete = nw_delete nt,
      rp_convertToProto = (\<lambda>e. read_ipam (network_convertToProto env e)),
      rp_updateMeta = nur_UpdateMeta,
      rp_SetChanged = (\<lambda>t e. e\<lparr>b_Changed := t\<rparr>),
      rp_setDeletionTask = (\<lambda>t m. m\<lparr>an_DeletionTask := Some t\<rparr>)\<rparr>"

lemma read_networks_state [simp]: "snd (read_networks f w) = w"
  by (simp add: read_networks_def)

lemma read_then_return: "snd (bind_action (read_networks f) (\<lambda>_. return x) w) = w"
  by (simp add: bind_action_def read_networks_def split: sum.splits)

interpretation network_repo: scoped_repository "network_operations eu env nt" "\<lambda>w. w"
  by unfold_locales (simp_all add: network_operations_def read_then_return)

end
