(* ===== verification/NetworkProps.thy ===== *)
theory NetworkProps
  imports NetworkRepository
begin

text \<open>
  The properties of networks: the prefixes of networks without a parent never overlap, a child
  network takes what it promises from its parent, updates keep the address management service in
  step, deletion, and the VRF of a super network that a deleted child releases.
\<close>

section \<open>Reading the table\<close>

lemma empty_query_predicate [simp]: "query_predicate ne empty_NetworkQuery n"
  by (simp add: query_predicate_def empty_NetworkQuery_def matches_field_def has_labels_def
      has_family_def map_filter_def)

lemma storage_List_set:
  assumes "rethink_table rt rows" and "storage_List rt qs st = Inr es"
  shows "set es = {e \<in> ran (rows st). \<forall>q. Some q \<in> set qs \<longrightarrow> q e}"
proof -
  from assms(2) have "rt_Run rt (map the (filter (\<lambda>q. q \<noteq> None) qs)) st = Inr es"
    by (auto simp: storage_List_def split: sum.splits)
  from rethink_table.run [OF assms(1) this] show ?thesis by force
qed

lemma nw_list_all:
  assumes "rethink_table (ne_table env) rows" and "ne_scope env = None"
    and "nw_list env (Some empty_NetworkQuery) st = Inr nws"
  shows "set nws = ran (rows st)"
proof -
  from assms(3) obtain es where "storage_List (ne_table env)
      (map Some (scopedNetworkFilters env (Some (query_predicate (ne_enums env) empty_NetworkQuery)))) st = Inr es"
    and nws: "nws = sort_key b_ID es"
    by (auto simp: nw_list_def NetworkFilter_def empty_NetworkQuery_def bind_result_ok)
  from storage_List_set [OF assms(1) this(1)] assms(2) nws show ?thesis
    by (auto simp: scopedNetworkFilters_def)
qed

lemma nw_list_children:
  assumes "rethink_table (ne_table env) rows" and "ne_scope env = None"
    and "nw_list env (Some (empty_NetworkQuery\<lparr>nq_ParentNetwork := Some i\<rparr>)) st = Inr []"
  shows "\<forall>n\<in>ran (rows st). nw_ParentNetworkID n \<noteq> i"
proof -
  let ?q = "empty_NetworkQuery\<lparr>nq_ParentNetwork := Some i\<rparr>"
  from assms(3) obtain es where "storage_List (ne_table env)
      (map Some (scopedNetworkFilters env (Some (query_predicate (ne_enums env) ?q)))) st = Inr es"
    and es: "sort_key b_ID es = []"
    by (auto simp: nw_list_def NetworkFilter_def empty_NetworkQuery_def bind_result_ok)
  from es have "es = []" by (metis length_0_conv length_sort)
  with storage_List_set [OF assms(1) \<open>storage_List _ _ _ = _\<close>] assms(2)
  have "{e \<in> ran (rows st). query_predicate (ne_enums env) ?q e} = {}"
    by (simp add: scopedNetworkFilters_def)
  moreover have "query_predicate (ne_enums env) ?q n" if "nw_ParentNetworkID n = i" for n
    using that by (simp add: query_predicate_def empty_NetworkQuery_def matches_field_def has_labels_def
        has_family_def map_filter_def)
  ultimately show ?thesis by blast
qed

section \<open>Prefixes never overlap\<close>

text \<open>What the IPAM library documents of its check, and two stored prefixes without a common address.\<close>

definition overlap_check :: "(string list \<Rightarrow> string list \<Rightarrow> unit result) \<Rightarrow> bool" where
  "overlap_check po \<longleftrightarrow>
     (\<forall>xs ys x y p q. po xs ys = Inr () \<longrightarrow> x \<in> set xs \<longrightarrow> y \<in> set ys \<longrightarrow>
        ParsePrefix x = Some p \<longrightarrow> ParsePrefix y = Some q \<longrightarrow> \<not> Overlaps p q)"

definition no_common_address :: "Prefix \<Rightarrow> Prefix \<Rightarrow> bool" where
  "no_common_address p q \<longleftrightarrow>
     (\<forall>a b. ParsePrefix (Prefix_String p) = Some a \<longrightarrow> ParsePrefix (Prefix_String q) = Some b \<longrightarrow>
        (\<nexists>x. prefix_Contains a x \<and> prefix_Contains b x))"

lemma overlap_checkD:
  "overlap_check po \<Longrightarrow> po xs ys = Inr () \<Longrightarrow> Prefix_String p \<in> set xs \<Longrightarrow> Prefix_String q \<in> set ys \<Longrightarrow>
   no_common_address p q"
  unfolding overlap_check_def no_common_address_def Overlaps_iff [symmetric] by blast

lemma no_common_address_sym: "no_common_address p q \<Longrightarrow> no_common_address q p"
  by (auto simp: no_common_address_def)

lemma existing_prefixes_texts:
  "Prefix_String ` set (existing_prefixes nws) =
     {Prefix_String p | p nw. nw \<in> set nws \<and> nw_ParentNetworkID nw = '''' \<and> nw_Namespace nw = None \<and>
        p \<in> set (nw_Prefixes nw)}"
proof -
  have "Prefix_String ` set (fold (\<lambda>p ps. if Prefix_String p \<in> Prefix_String ` set ps then ps else ps @ [p]) xs acc) =
      Prefix_String ` set acc \<union> Prefix_String ` set xs" for xs acc
    by (induction xs arbitrary: acc) auto
  then show ?thesis unfolding existing_prefixes_def by auto
qed

lemma prefixesOverlappingD:
  assumes "rethink_table (ne_table env) rows" and "overlap_check (ne_PrefixesOverlapping env)"
    and "ne_scope env = None" and "prefixesOverlapping env (Prefixes_String ps) st = Inr ()"
  shows "(\<forall>p\<in>set ps. \<forall>q\<in>set ps. Prefix_String p \<noteq> Prefix_String q \<longrightarrow> no_common_address p q) \<and>
    (\<forall>n\<in>ran (rows st). nw_ParentNetworkID n = '''' \<longrightarrow> nw_Namespace n = None \<longrightarrow>
       (\<forall>p\<in>set ps. \<forall>q\<in>set (nw_Prefixes n). no_common_address p q))"
proof (cases "ps = []")
  case False
  have ne: "Prefixes_String ps \<noteq> []" using False unfolding Prefixes_String_def
    by (metis length_0_conv length_map length_sort)
  from assms(4) ne obtain nws where
    own: "\<forall>x\<in>set (Prefixes_String ps).
      ne_PrefixesOverlapping env (filter (\<lambda>s. s \<noteq> x) (Prefixes_String ps)) [x] = Inr ()"
    and nws: "nw_list env (Some empty_NetworkQuery) st = Inr nws"
    and others: "ne_PrefixesOverlapping env (Prefixes_String (existing_prefixes nws)) (Prefixes_String ps) = Inr ()"
    by (auto simp: prefixesOverlapping_def bind_result_ok check_each_ok)
  have texts: "set (Prefixes_String xs) = Prefix_String ` set xs" for xs
    by (simp add: Prefixes_String_def)
  have "no_common_address p q" if "p \<in> set ps" "q \<in> set ps" "Prefix_String p \<noteq> Prefix_String q" for p q
    by (rule overlap_checkD [OF assms(2)], rule own [rule_format, of "Prefix_String q"])
      (use that in \<open>auto simp: texts\<close>)
  moreover have "no_common_address p q"
    if "n \<in> ran (rows st)" "nw_ParentNetworkID n = ''''" "nw_Namespace n = None" "p \<in> set ps" "q \<in> set (nw_Prefixes n)"
    for n p q
  proof -
    have "Prefix_String q \<in> set (Prefixes_String (existing_prefixes nws))"
      using that nw_list_all [OF assms(1,3) nws] by (auto simp: texts existing_prefixes_texts)
    with that have "no_common_address q p" by (intro overlap_checkD [OF assms(2) others]) (auto simp: texts)
    then show ?thesis by (rule no_common_address_sym)
  qed
  ultimately show ?thesis by blast
qed simp

lemma validate_top:
  assumes "network_validateCreate env req st = Inr ()"
    and "ncr_Type req \<in> {NETWORK_TYPE_SUPER, NETWORK_TYPE_SUPER_NAMESPACED, NETWORK_TYPE_EXTERNAL, NETWORK_TYPE_UNDERLAY}"
  obtains i ps where "ncr_Id req = Some i" "checkAlreadyExists (nw_get env i st) = False"
    "NewPrefixesFromCIDRs (ncr_Prefixes req) = Inr ps" "ncr_Prefixes req \<noteq> []"
    "prefixesOverlapping env (Prefixes_String ps) st = Inr ()" "ncr_ParentNetwork req = None"
    "boundary_errors (ncr_Prefixes req) = Inr []"
  using assms that
  by (auto simp: network_validateCreate_def validate_by_type_def bind_result_ok Let_def
      validateCreateNetworkTypeSuper_def validateCreateNetworkTypeExternal_def
      validateCreateNetworkTypeUnderlay_def validatePrefixesOnBoundaries_def)

lemma boundary_canonical:
  "boundary_errors ps = Inr [] \<Longrightarrow> p \<in> set ps \<Longrightarrow>
   \<exists>pfx. ParsePrefix p = Some pfx \<and> Prefix_bits_String (Masked pfx) = p"
  by (induction ps) (auto simp: bind_result_ok split: option.splits if_splits)

text \<open>
  C27: when the creation of a super, external or underlay network passes the validation of the unscoped store, its
  id is free, its prefixes are written in canonical form with the host bits zero, and no address
  lies in two different prefixes of the request or in one of them and in a prefix of an existing
  network that has neither a parent nor a namespace.
\<close>

theorem validated_prefixes_disjoint:
  assumes "rethink_table (ne_table env) rows" and "overlap_check (ne_PrefixesOverlapping env)"
    and "ne_scope env = None"
    and "ncr_Type req \<in> {NETWORK_TYPE_SUPER, NETWORK_TYPE_SUPER_NAMESPACED, NETWORK_TYPE_EXTERNAL, NETWORK_TYPE_UNDERLAY}"
    and "network_validateCreate env req st = Inr ()"
  shows "\<exists>i ps. ncr_Id req = Some i \<and> rows st i = None \<and> ncr_Prefixes req \<noteq> [] \<and>
    NewPrefixesFromCIDRs (ncr_Prefixes req) = Inr ps \<and>
    (\<forall>p\<in>set (ncr_Prefixes req). \<exists>pfx. ParsePrefix p = Some pfx \<and> Prefix_bits_String (Masked pfx) = p) \<and>
    (\<forall>p\<in>set ps. \<forall>q\<in>set ps. Prefix_String p \<noteq> Prefix_String q \<longrightarrow> no_common_address p q) \<and>
    (\<forall>n\<in>ran (rows st). nw_ParentNetworkID n = '''' \<longrightarrow> nw_Namespace n = None \<longrightarrow>
       (\<forall>p\<in>set ps. \<forall>q\<in>set (nw_Prefixes n). no_common_address p q))"
proof -
  from validate_top [OF assms(5,4)] obtain i ps where
    i: "ncr_Id req = Some i" "checkAlreadyExists (nw_get env i st) = False"
    and ps: "NewPrefixesFromCIDRs (ncr_Prefixes req) = Inr ps" "ncr_Prefixes req \<noteq> []"
      "prefixesOverlapping env (Prefixes_String ps) st = Inr ()" "boundary_errors (ncr_Prefixes req) = Inr []" .
  have "rows st i = None"
  proof (cases "rt_Get (ne_table env) i st")
    case (Inr prev)
    with rethink_table.get [OF assms(1)] i(2) show ?thesis
      by (auto simp: checkAlreadyExists_def nw_get_def storage_Get_def split: option.splits)
  qed (use i(2) in \<open>simp add: checkAlreadyExists_def nw_get_def storage_Get_def\<close>)
  with i(1) ps prefixesOverlappingD [OF assms(1-3) ps(3)] boundary_canonical [OF ps(4)] show ?thesis
    by blast
qed

definition example_overlapping :: "string list \<Rightarrow> string list \<Rightarrow> unit result" where
  "example_overlapping xs ys =
     (if list_ex (\<lambda>x. list_ex (\<lambda>y. case (ParsePrefix x, ParsePrefix y) of
           (Some p, Some q) \<Rightarrow> Overlaps p q | _ \<Rightarrow> False) ys) xs
      then Inl (Plain ''%s overlaps %s'') else Inr ())"

lemma example_overlapping: "overlap_check example_overlapping"
  unfolding overlap_check_def example_overlapping_def
  by (auto simp: list_ex_iff split: if_splits) fastforce

definition example_network :: Network where
  "example_network = new_Network\<lparr>b_ID := ''super'', nw_NetworkType := NetworkTypeSuper, nw_Vrf := 7,
     nw_Prefixes := [\<lparr>pf_IP = ''10.0.0.0'', pf_Length = ''8''\<rparr>],
     nw_DefaultChildPrefixLength := [(AddressFamilyIPv4, 22)]\<rparr>"

definition example_enums :: network_enums where
  "example_enums = \<lparr>ne_GetEnum_type = (\<lambda>_. Inr NETWORK_TYPE_CHILD), ne_GetEnum_nat = (\<lambda>_. Inr NAT_TYPE_NONE),
     ne_GetStringValue = (\<lambda>t. Inr (if t = NETWORK_TYPE_SUPER then ''super'' else ''child-shared''))\<rparr>"

definition example_ipam :: "ipam_list ipam" where
  "example_ipam = list_ipam ''10.0.4.0/22''"

definition example_env :: "(Network list, uint list, ipam_list) network_env" where
  "example_env =
     \<lparr>ne_enums = example_enums, ne_table = list_rethink b_ID, ne_pool_table = list_rethink (\<lambda>v. v),
      ne_pool = \<lparr>ip_min = 1, ip_max = 131072\<rparr>, ne_retry = (\<lambda>f. f), ne_ipam = example_ipam,
      ne_PrefixesOverlapping = example_overlapping, ne_project = (\<lambda>_. Inr ()), ne_partition = (\<lambda>_. Inr ()),
      ne_ips = (\<lambda>_. Inr 0), ne_machines = (\<lambda>_. Inr 0), ne_scope = None, ne_now = 5,
      ne_newID = Inr ''child''\<rparr>"

lemma example_table: "rethink_table (ne_table example_env) (list_rows b_ID)"
  by (simp add: example_env_def list_table.rethink_table_axioms)

definition empty_request :: NetworkServiceCreateRequest where
  "empty_request =
     \<lparr>ncr_Id = None, ncr_Name = None, ncr_Description = None, ncr_Partition = None, ncr_Project = None,
      ncr_Type = NETWORK_TYPE_UNSPECIFIED, ncr_Labels = None, ncr_Prefixes = [], ncr_DestinationPrefixes = [],
      ncr_DefaultChildPrefixLength = None, ncr_MinChildPrefixLength = None, ncr_NatType = None, ncr_Vrf = None,
      ncr_ParentNetwork = None, ncr_AdditionalAnnouncableCidrs = [], ncr_Length = None, ncr_AddressFamily = None\<rparr>"

definition external_request :: NetworkServiceCreateRequest where
  "external_request = empty_request\<lparr>ncr_Id := Some ''internet'', ncr_Type := NETWORK_TYPE_EXTERNAL,
     ncr_Prefixes := [''1.0.0.0/8''], ncr_Vrf := Some 9\<rparr>"

lemmas parse_defs = ParsePrefix_def ParseAddr_def parseIPv4Fields_def read_octet_def read_decimal_def
  digit_def v4_of_def Prefix_String_def

lemma external_parsed:
  "ParsePrefix ''1.0.0.0/8'' = Some \<lparr>px_Addr = V4 16777216, px_Bits = 8\<rparr>"
  "ParsePrefix ''10.0.0.0/8'' = Some \<lparr>px_Addr = V4 167772160, px_Bits = 8\<rparr>"
  by (simp_all add: parse_defs)

lemma external_printed:
  "v4_String 16777216 = ''1.0.0.0''" "itoa 8 = ''8''"
  by (simp_all add: v4_String_def itoa.simps char_of_digits)

lemma external_validated: "network_validateCreate example_env external_request [example_network] = Inr ()"
proof -
  have masked: "Masked \<lparr>px_Addr = V4 16777216, px_Bits = 8\<rparr> = \<lparr>px_Addr = V4 16777216, px_Bits = 8\<rparr>"
    by (simp add: Masked_def mask_word_def)
  have boundary: "validatePrefixesOnBoundaries [''1.0.0.0/8''] = Inr ()"
    by (simp add: validatePrefixesOnBoundaries_def external_parsed masked Prefix_bits_String_def external_printed)
  have ps: "NewPrefixFromCIDR ''1.0.0.0/8'' =
      Inr (\<lparr>pf_IP = ''1.0.0.0'', pf_Length = ''8''\<rparr>, \<lparr>px_Addr = V4 16777216, px_Bits = 8\<rparr>)"
    by (simp add: NewPrefixFromCIDR_def external_parsed external_printed)
  have list: "nw_list example_env (Some empty_NetworkQuery) [example_network] = Inr [example_network]"
    by (simp add: nw_list_def NetworkFilter_def scopedNetworkFilters_def storage_List_def example_env_def
        list_rethink_def list_rows_def empty_NetworkQuery_def [symmetric])
      (simp add: empty_NetworkQuery_def)
  have ov: "prefixesOverlapping example_env [''1.0.0.0/8''] [example_network] = Inr ()"
    by (simp add: prefixesOverlapping_def list)
      (simp add: example_env_def example_overlapping_def existing_prefixes_def example_network_def new_Network_def
        Prefixes_String_def Prefix_String_def external_parsed Overlaps_def mask_word_def)
  have free: "nw_get example_env ''internet'' [example_network] = Inl (NotFound ''no %v with id %q found'')"
    by (simp add: nw_get_def storage_Get_def example_env_def list_rethink_def list_rows_def example_network_def new_Network_def)
  have ext: "validateCreateNetworkTypeExternal example_env external_request [example_network] = Inr ()"
    by (simp add: validateCreateNetworkTypeExternal_def external_request_def empty_request_def ps
        AddressFamilies_def validatePrefixesAndAddressFamilies_def IsSuperNetwork_def Prefixes_String_def
        Prefix_String_def ov)
  show ?thesis
    using boundary ext by (simp add: network_validateCreate_def external_request_def empty_request_def
        checkAlreadyExists_def free validate_by_type_def)
qed

theorem validated_prefixes_disjoint_witness:
  "\<exists>ps. NewPrefixesFromCIDRs [''1.0.0.0/8''] = Inr ps \<and> ps \<noteq> [] \<and>
     list_all (\<lambda>p. list_all (no_common_address p) (nw_Prefixes example_network)) ps"
proof -
  have ex: "ncr_Prefixes external_request = [''1.0.0.0/8'']" "ncr_Type external_request = NETWORK_TYPE_EXTERNAL"
    by (simp_all add: external_request_def empty_request_def)
  have row: "example_network \<in> ran (list_rows b_ID [example_network])"
    by (simp add: list_rows_ran list_rows_def)
  have "overlap_check (ne_PrefixesOverlapping example_env)" "ne_scope example_env = None"
    by (simp_all add: example_env_def example_overlapping)
  from validated_prefixes_disjoint [OF example_table this _ external_validated] ex
  obtain ps where "NewPrefixesFromCIDRs [''1.0.0.0/8''] = Inr ps"
    and "\<forall>n\<in>ran (list_rows b_ID [example_network]). nw_ParentNetworkID n = '''' \<longrightarrow> nw_Namespace n = None \<longrightarrow>
       (\<forall>p\<in>set ps. \<forall>q\<in>set (nw_Prefixes n). no_common_address p q)" by auto
  moreover from this(1) have "ps \<noteq> []" by (auto simp: NewPrefixFromCIDR_def split: option.splits sum.splits)
  ultimately show ?thesis
    using row by (auto simp: list_all_iff example_network_def new_Network_def)
qed

section \<open>Child networks\<close>

text \<open>Actions that change at most the address management service.\<close>

definition ipam_only :: "('n, 'p, 'i, 'a) network_action \<Rightarrow> bool" where
  "ipam_only a \<longleftrightarrow> (\<forall>w. nww_table (snd (a w)) = nww_table w \<and> nww_vrf (snd (a w)) = nww_vrf w)"

lemma ipam_onlyD: "ipam_only a \<Longrightarrow> a w = (r, w') \<Longrightarrow> nww_table w' = nww_table w \<and> nww_vrf w' = nww_vrf w"
  unfolding ipam_only_def by (metis snd_conv)

lemma ipam_only_bind:
  assumes "ipam_only a" and "\<And>x. ipam_only (f x)"
  shows "ipam_only (bind_action a f)"
  unfolding ipam_only_def
proof (intro allI)
  fix w
  obtain r w' where aw: "a w = (r, w')" by force
  show "nww_table (snd (bind_action a f w)) = nww_table w \<and> nww_vrf (snd (bind_action a f w)) = nww_vrf w"
    using ipam_onlyD [OF assms(1) aw] assms(2) aw
    by (cases r) (auto simp: bind_action_def ipam_only_def)
qed

lemma ipam_only_basic:
  "ipam_only (return x)" "ipam_only (fail err)" "ipam_only (lift_result r)" "ipam_only (on_ipam f)"
  "ipam_only (read_networks g)" "ipam_only a \<Longrightarrow> ipam_only (on_error h a)"
  by (auto simp: ipam_only_def on_ipam_def read_networks_def split: prod.splits)

lemma ipam_only_for_each: "(\<And>x. ipam_only (f x)) \<Longrightarrow> ipam_only (for_each f xs)"
  by (induction xs) (auto intro: ipam_only_bind ipam_only_basic)

lemma ipam_only_ensure: "ipam_only (ensure_parent_prefix env ns p)"
  unfolding ipam_only_def ensure_parent_prefix_def
  by (auto simp: on_ipam_def split: sum.splits prod.splits)

lemma ipam_only_acquire: "ipam_only (acquire_child env ns l ps errs)"
proof -
  have "nww_table (snd (acquire_child env ns l ps errs w)) = nww_table w \<and>
      nww_vrf (snd (acquire_child env ns l ps errs w)) = nww_vrf w" for w
    by (induction ps arbitrary: errs w) (auto simp: on_ipam_def split: prod.splits sum.splits)
  then show ?thesis by (simp add: ipam_only_def)
qed

lemma ipam_only_child_prefixes: "ipam_only (child_prefixes env ns pps ls)"
proof (induction ls)
  case (Cons x ls)
  have "ipam_only (createChildPrefix env ns pps af l)" for af l
    unfolding createChildPrefix_def
    by (intro ipam_only_bind ipam_only_acquire)
      (auto split: option.split intro: ipam_only_bind ipam_only_basic ipam_only_for_each ipam_only_ensure)
  with Cons show ?case by (cases x) (auto intro: ipam_only_bind ipam_only_basic)
qed (unfold child_prefixes.simps, rule ipam_only_basic)

lemma allocateChildPrefixes_ok:
  assumes "allocateChildPrefixes env proj pid part len af w = (Inr (ps, parent), w')"
  shows "(\<exists>ns. allocation_parent env proj pid part (nww_table w) = Inr (parent, ns)) \<and>
    nww_table w' = nww_table w \<and> nww_vrf w' = nww_vrf w"
proof -
  from assms obtain ns ls where p: "allocation_parent env proj pid part (nww_table w) = Inr (parent, ns)"
    and c: "child_prefixes env ns (nw_Prefixes parent) ls w = (Inr ps, w')"
    by (auto simp: allocateChildPrefixes_def bind_action_ok read_networks_def split: prod.splits)
  from ipam_onlyD [OF ipam_only_child_prefixes c] p show ?thesis by simp
qed

lemma storage_Find_row:
  assumes "rethink_table rt rows" and "storage_Find rt qs st = Inr e"
  shows "e \<in> ran (rows st) \<and> (\<forall>q\<in>set qs. q e)"
proof -
  from assms(2) have "rt_Run rt qs st = Inr [e]"
    by (auto simp: storage_Find_def split: sum.splits list.splits)
  from rethink_table.run [OF assms(1) this] show ?thesis by auto
qed

lemma storage_Get_row:
  "rethink_table rt rows \<Longrightarrow> storage_Get rt i st = Inr e \<Longrightarrow> rows st i = Some e"
  using rethink_table.get [of rt rows i st] by (auto simp: storage_Get_def split: sum.splits option.splits)

lemma allocation_parent_super:
  assumes "rethink_table (ne_table env) rows" and "ne_GetStringValue (ne_enums env) NETWORK_TYPE_SUPER = Inr ''super''"
    and "allocation_parent env proj pid part st = Inr (parent, ns)"
  shows "parent \<in> ran (rows st) \<and> NetworkType_string (nw_NetworkType parent) \<in> {''super'', ''super-namespaced''}"
proof (cases pid)
  case None
  with assms(3) obtain q where "storage_Find (ne_table env) [query_predicate (ne_enums env) q] st = Inr parent"
    and q: "nq_Type q = Some NETWORK_TYPE_SUPER"
    by (auto simp: allocation_parent_def bind_result_ok ds_Find_def nw_find_def NetworkFilter_def
        scopedNetworkFilters_def split: if_splits)
  from storage_Find_row [OF assms(1) this(1)] q assms(2) show ?thesis
    by (auto simp: query_predicate_def)
next
  case (Some i)
  with assms(3) obtain p where "nw_get env i st = Inr p"
    and c: "(case nw_NetworkType p of NetworkTypeSuper \<Rightarrow> Inr (p, None)
      | NetworkTypeSuperNamespaced \<Rightarrow> Inr (p, proj)
      | _ \<Rightarrow> Inl (Plain ''parent network with id:%s is not a valid super network but has type:%s''))
      = Inr (parent, ns)"
    by (auto simp: allocation_parent_def bind_result_ok)
  moreover from c have "p = parent \<and> IsSuperNetwork (nw_NetworkType p)"
    by (cases "nw_NetworkType p") (auto simp: IsSuperNetwork_def)
  ultimately have "nw_get env i st = Inr parent" and "IsSuperNetwork (nw_NetworkType parent)" by auto
  with storage_Get_row [OF assms(1), of i st parent] show ?thesis
    by (auto simp: nw_get_def IsSuperNetwork_def intro: ranI)
qed

lemma table_Create_ok:
  assumes "rethink_table (ne_table env) rows" and "\<And>x. rt_key (ne_table env) x = b_ID x"
    and "table_Create env n w = (Inr nw, w')"
  shows "nww_vrf w' = nww_vrf w \<and> nww_ipam w' = nww_ipam w \<and> rows (nww_table w) (b_ID nw) = None \<and>
    rows (nww_table w') = (rows (nww_table w))(b_ID nw \<mapsto> nw) \<and>
    (\<exists>i. nw = n\<lparr>b_Created := ne_now env, b_Changed := ne_now env, b_Generation := 0, b_ID := i\<rparr>)"
proof -
  let ?e = "n\<lparr>b_Created := ne_now env, b_Changed := ne_now env, b_Generation := 0\<rparr>"
  from assms(3) obtain st where create: "storage_Create (ne_table env) (ne_now env) (ne_newID env) n (nww_table w) = Inr (nw, st)"
    and w': "w' = w\<lparr>nww_table := st\<rparr>"
    by (auto simp: table_Create_def split: sum.splits)
  from create have ins: "rt_Insert (ne_table env) nw (nww_table w) = Inr st"
    and nw: "nw = ?e \<or> (\<exists>i. nw = ?e\<lparr>b_ID := i\<rparr>)"
    by (auto simp: storage_Create_def Let_def setCreated_def setChanged_def setGeneration_def
        split: sum.splits write_error.splits if_splits)
  from nw have "\<exists>i. nw = ?e\<lparr>b_ID := i\<rparr>"
  proof
    assume "nw = ?e"
    then have "nw = ?e\<lparr>b_ID := b_ID n\<rparr>" by simp
    then show ?thesis by blast
  qed
  with rethink_table.insert [OF assms(1) ins] w' show ?thesis by (auto simp: assms(2))
qed

text \<open>
  C28: a child network is created in the table under an id that was free and belongs to the
  project of the request; its parent is a super network of the table, whose destination prefixes
  and NAT type it takes, whose partition it takes when the request has none, and whose namespaced
  type decides about its own namespace. It shares the VRF of the parent if that has one, and
  otherwise gets one that was free in the pool and is not afterwards.
\<close>

theorem child_network_from_parent:
  assumes "rethink_table (ne_table env) rows" and "\<And>x. rt_key (ne_table env) x = b_ID x"
    and "pool_rows (ne_pool_table env) vrfs" and "retries (ne_retry env) vrfs"
    and "ne_GetStringValue (ne_enums env) NETWORK_TYPE_SUPER = Inr ''super''"
    and "ncr_Type req \<in> {NETWORK_TYPE_CHILD, NETWORK_TYPE_CHILD_SHARED}"
    and "nw_create eu env req w = (Inr nw, w')"
  shows "\<exists>parent\<in>ran (rows (nww_table w)).
    NetworkType_string (nw_NetworkType parent) \<in> {''super'', ''super-namespaced''} \<and>
    rows (nww_table w) (b_ID nw) = None \<and> rows (nww_table w') = (rows (nww_table w))(b_ID nw \<mapsto> nw) \<and>
    nw_ParentNetworkID nw = b_ID parent \<and> nw_ProjectID nw = pointer_SafeDeref (ncr_Project req) \<and>
    nw_DestinationPrefixes nw = nw_DestinationPrefixes parent \<and> nw_NATType nw = nw_NATType parent \<and>
    nw_PartitionID nw = (if pointer_SafeDeref (ncr_Partition req) = '''' then nw_PartitionID parent
                         else pointer_SafeDeref (ncr_Partition req)) \<and>
    nw_Namespace nw = (if nw_NetworkType parent = NetworkTypeSuperNamespaced then ncr_Project req else None) \<and>
    (if nw_Vrf parent > 0 then nw_Vrf nw = nw_Vrf parent \<and> free vrfs (nww_vrf w') = free vrfs (nww_vrf w)
     else nw_Vrf nw \<in> free vrfs (nww_vrf w) \<and> free vrfs (nww_vrf w') = free vrfs (nww_vrf w) - {nw_Vrf nw})"
proof -
  from assms(6,7) obtain nt where "create_child env req nt w = (Inr nw, w')"
    by (auto simp: nw_create_def bind_action_ok on_error_ok)
  then obtain ps parent w1 v w2 where
    a: "allocateChildPrefixes env (ncr_Project req) (ncr_ParentNetwork req) (ncr_Partition req)
      (ncr_Length req) (ncr_AddressFamily req) w = (Inr (ps, parent), w1)"
    and v: "(if nw_Vrf parent > 0 then return (nw_Vrf parent)
        else on_error (\<lambda>_. Internal ''could not acquire a vrf: %w'')
          (on_vrf_pool (AcquireRandomUniqueInteger (ne_retry env) (ne_pool_table env)))) w1 = (Inr v, w2)"
    and c: "table_Create env (child_network req nt parent ps v) w2 = (Inr nw, w')"
    by (auto simp: create_child_def bind_action_ok)
  from allocateChildPrefixes_ok [OF a] obtain ns where
    "allocation_parent env (ncr_Project req) (ncr_ParentNetwork req) (ncr_Partition req) (nww_table w) = Inr (parent, ns)"
    and "nww_table w1 = nww_table w \<and> nww_vrf w1 = nww_vrf w" by blast
  with allocation_parent_super [OF assms(1,5)]
  have p: "parent \<in> ran (rows (nww_table w))" "NetworkType_string (nw_NetworkType parent) \<in> {''super'', ''super-namespaced''}"
    and w1: "nww_table w1 = nww_table w" "nww_vrf w1 = nww_vrf w" by blast+
  have vrf: "nww_table w2 = nww_table w1 \<and> (if nw_Vrf parent > 0 then v = nw_Vrf parent \<and> nww_vrf w2 = nww_vrf w1
      else v \<in> free vrfs (nww_vrf w1) \<and> free vrfs (nww_vrf w2) = free vrfs (nww_vrf w1) - {v})"
  proof (cases "nw_Vrf parent > 0")
    case False
    then obtain st where "AcquireRandomUniqueInteger (ne_retry env) (ne_pool_table env) (nww_vrf w1) = (Inr v, st)"
      and "w2 = w1\<lparr>nww_vrf := st\<rparr>"
      using v by (auto simp: on_error_ok on_vrf_pool_def split: prod.splits)
    with False AcquireRandom_spec [OF assms(3,4), of "nww_vrf w1"] show ?thesis by simp
  qed (use v in simp)
  from table_Create_ok [OF assms(1,2) c]
  have t: "nww_vrf w' = nww_vrf w2" "rows (nww_table w2) (b_ID nw) = None"
    "rows (nww_table w') = (rows (nww_table w2))(b_ID nw \<mapsto> nw)" by blast+
  from table_Create_ok [OF assms(1,2) c] obtain i where nw: "nw = (child_network req nt parent ps v)
      \<lparr>b_Created := ne_now env, b_Changed := ne_now env, b_Generation := 0, b_ID := i\<rparr>" by blast
  have fields: "nw_ParentNetworkID nw = b_ID parent" "nw_ProjectID nw = pointer_SafeDeref (ncr_Project req)"
    "nw_DestinationPrefixes nw = nw_DestinationPrefixes parent" "nw_NATType nw = nw_NATType parent"
    "nw_PartitionID nw = (if pointer_SafeDeref (ncr_Partition req) = '''' then nw_PartitionID parent
       else pointer_SafeDeref (ncr_Partition req))"
    "nw_Namespace nw = (if nw_NetworkType parent = NetworkTypeSuperNamespaced then ncr_Project req else None)"
    "nw_Vrf nw = v"
    by (simp_all add: nw child_network_def)
  show ?thesis
    by (rule bexI [OF _ p(1)]) (cases "nw_Vrf parent > 0"; use p(2) t fields w1 vrf in simp)
qed

definition example_world :: "(Network list, uint list, ipam_list) network_world" where
  "example_world = \<lparr>nww_table = [example_network], nww_vrf = [1, 2], nww_ipam = [(None, ''10.0.0.0/8'')]\<rparr>"

definition child_request :: NetworkServiceCreateRequest where
  "child_request = empty_request\<lparr>ncr_Type := NETWORK_TYPE_CHILD, ncr_Project := Some ''p1'',
     ncr_ParentNetwork := Some ''super''\<rparr>"

definition example_child :: Network where
  "example_child = (child_network child_request NetworkTypeChild example_network
     [\<lparr>pf_IP = ''10.0.4.0'', pf_Length = ''22''\<rparr>] 7)\<lparr>b_ID := ''child'', b_Created := 5, b_Changed := 5\<rparr>"

lemma child_parsed: "NewPrefixFromCIDR ''10.0.4.0/22'' =
    Inr (\<lparr>pf_IP = ''10.0.4.0'', pf_Length = ''22''\<rparr>, \<lparr>px_Addr = V4 167773184, px_Bits = 22\<rparr>)"
  by (simp add: NewPrefixFromCIDR_def parse_defs v4_String_def itoa.simps char_of_digits)

lemma example_child_created:
  "nw_create plain_errorutil example_env child_request example_world =
     (Inr example_child, example_world\<lparr>nww_table := [example_child, example_network],
        nww_ipam := [(None, ''10.0.4.0/22''), (None, ''10.0.0.0/8'')]\<rparr>)"
proof -
  have get: "nw_get example_env ''super'' [example_network] = Inr example_network"
    by (simp add: nw_get_def storage_Get_def example_env_def list_rethink_def list_rows_def
        example_network_def new_Network_def)
  have family: "OfFamily (nw_Prefixes example_network) AddressFamilyIPv4 = nw_Prefixes example_network"
    by (simp add: OfFamily_def example_network_def new_Network_def Prefix_String_def external_parsed Is6_def)
  have prefixes: "nw_Prefixes example_network = [\<lparr>pf_IP = ''10.0.0.0'', pf_Length = ''8''\<rparr>]"
    and len: "nw_DefaultChildPrefixLength example_network = [(AddressFamilyIPv4, 22)]"
    and sup: "nw_NetworkType example_network = NetworkTypeSuper" "nw_Vrf example_network = 7"
    by (simp_all add: example_network_def new_Network_def)
  have alloc: "allocateChildPrefixes example_env (Some ''p1'') (Some ''super'') None None None example_world =
      (Inr ([\<lparr>pf_IP = ''10.0.4.0'', pf_Length = ''22''\<rparr>], example_network), example_world\<lparr>nww_ipam := [(None, ''10.0.4.0/22''), (None, ''10.0.0.0/8'')]\<rparr>)"
    by (simp add: allocateChildPrefixes_def bind_action_def read_networks_def example_world_def
        allocation_parent_def get sup requested_length_def lengths_of_family_def len createChildPrefix_def
        family on_error_def on_ipam_def)
      (simp add: prefixes example_env_def example_ipam_def list_ipam_def Prefix_String_def on_ipam_def child_parsed bind_action_def)
  show ?thesis
    by (simp add: nw_create_def child_request_def empty_request_def create_child_def bind_action_def
        on_error_def alloc sup table_Create_def)
      (simp add: storage_Create_def example_env_def list_rethink_def list_rows_def example_world_def
        example_child_def child_network_def new_Network_def example_network_def Let_def setCreated_def
        setChanged_def setGeneration_def child_request_def empty_request_def)
qed

lemma example_key: "rt_key (ne_table example_env) x = b_ID x"
  by (simp add: example_env_def list_rethink_def)

lemma example_pool_rows: "pool_rows (ne_pool_table example_env) (list_rows (\<lambda>v. v))"
  by (simp add: example_env_def list_pool)

theorem child_network_from_parent_witness:
  "nw_ParentNetworkID example_child = ''super'' \<and> nw_ProjectID example_child = ''p1'' \<and> nw_Vrf example_child = 7"
proof -
  have "retries (ne_retry example_env) (list_rows (\<lambda>v :: uint. v))"
    and enums: "ne_GetStringValue (ne_enums example_env) NETWORK_TYPE_SUPER = Inr ''super''"
    by (simp_all add: example_env_def retries_once example_enums_def)
  have child: "ncr_Type child_request \<in> {NETWORK_TYPE_CHILD, NETWORK_TYPE_CHILD_SHARED}"
    by (simp add: child_request_def)
  have ran: "ran (list_rows b_ID (nww_table example_world)) = {example_network}"
    by (simp add: list_rows_ran example_world_def list_rows_def) blast
  from child_network_from_parent [OF example_table example_key example_pool_rows
      \<open>retries _ _\<close> enums child example_child_created]
  have "nw_ParentNetworkID example_child = b_ID example_network \<and>
      nw_ProjectID example_child = pointer_SafeDeref (ncr_Project child_request) \<and>
      (if nw_Vrf example_network > 0 then nw_Vrf example_child = nw_Vrf example_network else True)"
    unfolding ran by auto
  then show ?thesis
    by (simp add: example_network_def new_Network_def child_request_def pointer_SafeDeref_def)
qed

text \<open>The VRF of the request is never used for a child network.\<close>

lemma child_ignores_requested_vrf:
  "ncr_Type req \<in> {NETWORK_TYPE_CHILD, NETWORK_TYPE_CHILD_SHARED} \<Longrightarrow>
   nw_create eu env (req\<lparr>ncr_Vrf := v\<rparr>) w = nw_create eu env req w"
proof -
  have "child_network (req\<lparr>ncr_Vrf := v\<rparr>) nt parent ps vrf = child_network req nt parent ps vrf" for nt parent ps vrf
    by (simp add: child_network_def)
  moreover assume "ncr_Type req \<in> {NETWORK_TYPE_CHILD, NETWORK_TYPE_CHILD_SHARED}"
  ultimately show ?thesis by (simp add: nw_create_def create_child_def)
qed

section \<open>Deletion\<close>

lemma ignore_not_found_ok:
  "ignore_not_found a st = (Inr (), st') \<Longrightarrow>
   a st = (Inr (), st') \<or> (\<exists>err. IsNotFound err \<and> a st = (Inl err, st'))"
  by (auto simp: ignore_not_found_def split: prod.splits sum.splits if_splits)

lemma ignore_not_found_state [simp]: "snd (ignore_not_found a st) = snd (a st)"
  by (auto simp: ignore_not_found_def split: prod.splits sum.splits)

lemma ipam_only_ignore: "ipam_only a \<Longrightarrow> ipam_only (ignore_not_found a)"
  by (simp add: ipam_only_def)

lemma delete_prefixes:
  assumes "ipam_service im known"
    and "for_each (\<lambda>p. ignore_not_found (on_ipam (im_DeletePrefix im (Prefix_String p) ns))) ps w = (Inr (), w')"
  shows "known (nww_ipam w') = (known (nww_ipam w))(ns := known (nww_ipam w) ns - Prefix_String ` set ps)"
  using assms(2)
proof (induction ps arbitrary: w)
  case (Cons p ps)
  then obtain w1 where d: "ignore_not_found (on_ipam (im_DeletePrefix im (Prefix_String p) ns)) w = (Inr (), w1)"
    and r: "for_each (\<lambda>p. ignore_not_found (on_ipam (im_DeletePrefix im (Prefix_String p) ns))) ps w1 = (Inr (), w')"
    by (auto simp: bind_action_ok)
  obtain r1 st where call: "im_DeletePrefix im (Prefix_String p) ns (nww_ipam w) = (r1, st)" by force
  have w1: "w1 = w\<lparr>nww_ipam := st\<rparr>"
    using ignore_not_found_state [of "on_ipam (im_DeletePrefix im (Prefix_String p) ns)" w] d call
    by (simp add: on_ipam_def)
  have "known st = (known (nww_ipam w))(ns := known (nww_ipam w) ns - {Prefix_String p})"
  proof (cases r1)
    case (Inl err)
    with d call have "IsNotFound err"
      by (auto simp: ignore_not_found_def on_ipam_def split: if_splits)
    with Inl call ipam_service.delete_prefix_err [OF assms(1)] ipam_service.delete_prefix_unknown [OF assms(1)]
    show ?thesis by fastforce
  next
    case (Inr u)
    with call ipam_service.delete_prefix [OF assms(1)] show ?thesis by simp
  qed
  with Cons.IH [OF r] w1 show ?case by (auto simp: fun_eq_iff)
qed simp

lemma table_Delete_state:
  assumes "rethink_table (ne_table env) rows" and "table_Delete env nw w = (r, w')"
  shows "nww_vrf w' = nww_vrf w \<and> nww_ipam w' = nww_ipam w \<and>
    (r = Inr () \<longrightarrow> rows (nww_table w') = (rows (nww_table w))(b_ID nw := None)) \<and>
    (\<forall>err. r = Inl err \<longrightarrow> \<not> IsNotFound err)"
proof (cases "rt_Delete (ne_table env) (b_ID nw) (nww_table w)")
  case (Inr x)
  then obtain st old where "rt_Delete (ne_table env) (b_ID nw) (nww_table w) = Inr (st, old)" by (cases x) auto
  with rethink_table.delete [OF assms(1) this] assms(2) show ?thesis
    by (auto simp: table_Delete_def storage_Delete_def)
qed (use assms(2) in \<open>auto simp: table_Delete_def storage_Delete_def\<close>)

lemma NetworkDeleteHandleFn_ok:
  assumes "rethink_table (ne_table env) rows" and "pool_rows (ne_pool_table env) vrfs"
    and "ipam_service (ne_ipam env) known"
    and "nw_get env i (nww_table w) = Inr nw" and "NetworkDeleteHandleFn env i w = (Inr (), w')"
  shows "rows (nww_table w') = (rows (nww_table w))(b_ID nw := None) \<and>
    known (nww_ipam w') = (known (nww_ipam w))(nw_Namespace nw :=
      known (nww_ipam w) (nw_Namespace nw) - Prefix_String ` set (nw_Prefixes nw)) \<and>
    free vrfs (nww_vrf w') = (if nw_Vrf nw > 0 then insert (nw_Vrf nw) (free vrfs (nww_vrf w))
                              else free vrfs (nww_vrf w))"
proof -
  let ?del = "\<lambda>prefix. ignore_not_found (on_ipam (im_DeletePrefix (ne_ipam env) (Prefix_String prefix) (nw_Namespace nw)))"
  let ?rel = "if nw_Vrf nw > 0 then on_error (Wrapped ''unable to release vrf:%d %w'')
      (on_vrf_pool (ReleaseUniqueInteger (ne_pool_table env) (ne_pool env) (nw_Vrf nw))) else return ()"
  from assms(4,5) obtain w1 w2 where d: "for_each ?del (nw_Prefixes nw) w = (Inr (), w1)"
    and v: "?rel w1 = (Inr (), w2)" and t: "ignore_not_found (table_Delete env nw) w2 = (Inr (), w')"
    by (auto simp: NetworkDeleteHandleFn_def bind_action_ok)
  have only: "ipam_only (for_each ?del (nw_Prefixes nw))"
    by (intro ipam_only_for_each ipam_only_ignore ipam_only_basic)
  have vrf: "nww_table w2 = nww_table w1 \<and> nww_ipam w2 = nww_ipam w1 \<and>
      free vrfs (nww_vrf w2) = (if nw_Vrf nw > 0 then insert (nw_Vrf nw) (free vrfs (nww_vrf w1))
                                else free vrfs (nww_vrf w1))"
  proof (cases "nw_Vrf nw > 0")
    case True
    with v obtain st where "ReleaseUniqueInteger (ne_pool_table env) (ne_pool env) (nw_Vrf nw) (nww_vrf w1) = (Inr (), st)"
      and "w2 = w1\<lparr>nww_vrf := st\<rparr>"
      by (auto simp: on_error_ok on_vrf_pool_def split: prod.splits)
    with True ReleaseUnique_spec [OF assms(2), where p = "ne_pool env" and i = "nw_Vrf nw" and st = "nww_vrf w1"]
    show ?thesis by simp
  qed (use v in simp)
  from ignore_not_found_ok [OF t] table_Delete_state [OF assms(1), where nw = nw and w = w2]
  have "table_Delete env nw w2 = (Inr (), w')" by blast
  from table_Delete_state [OF assms(1) this] vrf ipam_onlyD [OF only d] delete_prefixes [OF assms(3) d]
  show ?thesis by simp
qed

text \<open>
  A network whose deletion passes the validation has no children, no machines and no IPs in
  its prefixes, and when the deletion task succeeds, its row is gone and no other row has changed,
  the address management service knows none of its prefixes in its namespace any more, and its
  VRF is free.
\<close>

theorem network_deleted:
  assumes "rethink_table (ne_table env) rows" and "\<And>x. rt_key (ne_table env) x = b_ID x"
    and "pool_rows (ne_pool_table env) vrfs"
    and "ipam_service (ne_ipam env) known" and "ne_scope env = None"
    and "nw_get env i (nww_table w) = Inr nw" and "network_validateDelete env nw (nww_table w) = Inr ()"
    and "NetworkDeleteHandleFn env i w = (Inr (), w')"
  shows "rows (nww_table w') = (rows (nww_table w))(i := None) \<and>
    (\<forall>n\<in>ran (rows (nww_table w)). nw_ParentNetworkID n \<noteq> i) \<and> ne_machines env i = Inr 0 \<and>
    (\<forall>p\<in>set (nw_Prefixes nw). ne_ips env (Prefix_String p) = Inr 0 \<and>
       Prefix_String p \<notin> known (nww_ipam w') (nw_Namespace nw)) \<and>
    (nw_Vrf nw > 0 \<longrightarrow> nw_Vrf nw \<in> free vrfs (nww_vrf w'))"
proof -
  from storage_Get_row [OF assms(1)] assms(6) have row: "rows (nww_table w) i = Some nw" by (simp add: nw_get_def)
  with rethink_table.keyed [OF assms(1)] assms(2) have i: "b_ID nw = i" by metis
  from assms(7) have children: "nw_list env (Some (empty_NetworkQuery\<lparr>nq_ParentNetwork := Some i\<rparr>)) (nww_table w) = Inr []"
    and machines: "ne_machines env i = Inr 0" and ips: "\<forall>p\<in>set (nw_Prefixes nw). ne_ips env (Prefix_String p) = Inr 0"
    by (auto simp: network_validateDelete_def bind_result_ok arePrefixesEmpty_def check_each_ok i)
  from nw_list_children [OF assms(1,5) children] NetworkDeleteHandleFn_ok [OF assms(1,3,4,6,8)]
  show ?thesis by (auto simp: i machines ips)
qed

text \<open>
  A child network that shares the VRF of its super network gives it back to the pool when
  the child is deleted, although the super network keeps it: afterwards the VRF of the super network
  is free and can be acquired for another network.
\<close>

theorem shared_vrf_released:
  assumes "rethink_table (ne_table env) rows" and "\<And>x. rt_key (ne_table env) x = b_ID x"
    and "pool_rows (ne_pool_table env) vrfs"
    and "ipam_service (ne_ipam env) known"
    and "nw_get env c (nww_table w) = Inr child" and "nw_get env s (nww_table w) = Inr super" and "c \<noteq> s"
    and "nw_Vrf child = nw_Vrf super" and "nw_Vrf super > 0"
    and "NetworkDeleteHandleFn env c w = (Inr (), w')"
  shows "rows (nww_table w') s = Some super \<and> nw_Vrf super \<in> free vrfs (nww_vrf w')"
proof -
  have row: "rows (nww_table w) c = Some child" "rows (nww_table w) s = Some super"
    using storage_Get_row [OF assms(1)] assms(5,6) by (simp_all add: nw_get_def)
  with rethink_table.keyed [OF assms(1)] assms(2) have "b_ID child = c" by metis
  with NetworkDeleteHandleFn_ok [OF assms(1,3,4,5,10)] row(2) assms(7-9) show ?thesis by simp
qed

section \<open>Update\<close>

lemma delete_each:
  assumes "ipam_service im known"
    and "for_each (\<lambda>p. on_error f (on_ipam (im_DeletePrefix im (Prefix_String p) ns))) ps w = (Inr (), w')"
  shows "known (nww_ipam w') = (known (nww_ipam w))(ns := known (nww_ipam w) ns - Prefix_String ` set ps)
    \<and> nww_table w' = nww_table w"
  using assms(2)
proof (induction ps arbitrary: w)
  case (Cons p ps)
  then obtain w1 where d: "on_error f (on_ipam (im_DeletePrefix im (Prefix_String p) ns)) w = (Inr (), w1)"
    and r: "for_each (\<lambda>p. on_error f (on_ipam (im_DeletePrefix im (Prefix_String p) ns))) ps w1 = (Inr (), w')"
    by (auto simp: bind_action_ok)
  then obtain st where "im_DeletePrefix im (Prefix_String p) ns (nww_ipam w) = (Inr (), st)" and "w1 = w\<lparr>nww_ipam := st\<rparr>"
    by (auto simp: on_error_ok on_ipam_def split: prod.splits)
  with ipam_service.delete_prefix [OF assms(1) this(1)] Cons.IH [OF r] show ?case by (auto simp: fun_eq_iff)
qed simp

lemma create_each:
  assumes "ipam_service im known"
    and "for_each (\<lambda>p. on_error f (on_ipam (im_CreatePrefix im (Prefix_String p) ns))) ps w = (Inr (), w')"
  shows "known (nww_ipam w') = (known (nww_ipam w))(ns := known (nww_ipam w) ns \<union> Prefix_String ` set ps)
    \<and> nww_table w' = nww_table w"
  using assms(2)
proof (induction ps arbitrary: w)
  case (Cons p ps)
  then obtain w1 where d: "on_error f (on_ipam (im_CreatePrefix im (Prefix_String p) ns)) w = (Inr (), w1)"
    and r: "for_each (\<lambda>p. on_error f (on_ipam (im_CreatePrefix im (Prefix_String p) ns))) ps w1 = (Inr (), w')"
    by (auto simp: bind_action_ok)
  then obtain st where "im_CreatePrefix im (Prefix_String p) ns (nww_ipam w) = (Inr (), st)" and "w1 = w\<lparr>nww_ipam := st\<rparr>"
    by (auto simp: on_error_ok on_ipam_def split: prod.splits)
  with ipam_service.create_prefix [OF assms(1) this(1)] Cons.IH [OF r] show ?case by (auto simp: fun_eq_iff)
qed simp

lemma SubtractPrefixes_texts:
  "Prefix_String ` set (SubtractPrefixes ps qs) = Prefix_String ` set ps - Prefix_String ` set qs"
  by (auto simp: SubtractPrefixes_def list_ex_iff)

lemma apply_network_request_keeps:
  "apply_network_request req nw = Inr nw' \<Longrightarrow>
   b_ID nw' = b_ID nw \<and> nw_Prefixes nw' = nw_Prefixes nw \<and> nw_Namespace nw' = nw_Namespace nw \<and>
   nw_NetworkType nw' = nw_NetworkType nw"
  by (auto simp: apply_network_request_def Let_def bind_result_ok split: option.splits)

lemma table_Update_ok:
  assumes "rethink_table (ne_table env) rows" and "table_Update env nw w = (Inr nw', w')"
  shows "rows (nww_table w') = (rows (nww_table w))(b_ID nw \<mapsto> nw') \<and> nww_ipam w' = nww_ipam w \<and>
    nw' = nw\<lparr>b_Changed := ne_now env, b_Generation := b_Generation nw + 1\<rparr>"
proof -
  from assms(2) obtain st where u: "storage_Update (ne_table env) (ne_now env) nw (nww_table w) = (nw', Inr st)"
    and w': "w' = w\<lparr>nww_table := st\<rparr>"
    by (auto simp: table_Update_def split: prod.splits sum.splits)
  from storage_Update_okD [OF assms(1) u] w' show ?thesis by simp
qed

lemma nw_update_ok:
  assumes "nw_update eu env nw req w = (Inr nw', w')" and "\<not> IsChildNetwork (nw_NetworkType nw)"
    and "nur_Prefixes req \<noteq> []"
  obtains pfxs e w1 w2 f where "NewPrefixesFromCIDRs (nur_Prefixes req) = Inr pfxs"
    "arePrefixesEmpty env (SubtractPrefixes (nw_Prefixes nw) pfxs) = Inr ()"
    "for_each (\<lambda>p. on_error f (on_ipam (im_DeletePrefix (ne_ipam env) (Prefix_String p) (nw_Namespace nw))))
       (SubtractPrefixes (nw_Prefixes nw) pfxs) w = (Inr (), w1)"
    "for_each (\<lambda>p. on_error f (on_ipam (im_CreatePrefix (ne_ipam env) (Prefix_String p) (nw_Namespace nw))))
       (SubtractPrefixes pfxs (nw_Prefixes nw)) w1 = (Inr (), w2)"
    "table_Update env e w2 = (Inr nw', w')" "b_ID e = b_ID nw" "nw_Prefixes e = pfxs" "nw_Namespace e = nw_Namespace nw"
proof -
  from assms(1) obtain e0 where e0: "apply_network_request req nw = Inr e0"
    by (auto simp: nw_update_def bind_action_ok)
  note keeps = apply_network_request_keeps [OF e0]
  from assms keeps e0 show thesis
    by (auto simp: nw_update_def bind_action_ok on_error_ok calculatePrefixDifferences_def bind_result_ok Let_def
        split: if_splits intro!: that)
qed

text \<open>
  C29: when the update of a network that is no child network succeeds, its new prefixes are
  those of the request, no IP was left in a prefix that it gave up, the row holds the updated
  network, and the address management service is in step: if it knew the old prefixes in the
  network's namespace, it knows the new ones now and has forgotten exactly the ones given up.
\<close>

theorem update_keeps_ipam:
  assumes "rethink_table (ne_table env) rows" and "ipam_service (ne_ipam env) known"
    and "\<not> IsChildNetwork (nw_NetworkType nw)" and "nur_Prefixes req \<noteq> []"
    and "Prefix_String ` set (nw_Prefixes nw) \<subseteq> known (nww_ipam w) (nw_Namespace nw)"
    and "nw_update eu env nw req w = (Inr nw', w')"
  shows "NewPrefixesFromCIDRs (nur_Prefixes req) = Inr (nw_Prefixes nw') \<and>
    rows (nww_table w') = (rows (nww_table w))(b_ID nw \<mapsto> nw') \<and>
    (\<forall>p\<in>set (nw_Prefixes nw). Prefix_String p \<in> Prefix_String ` set (nw_Prefixes nw') \<or>
       ne_ips env (Prefix_String p) = Inr 0) \<and>
    known (nww_ipam w') = (known (nww_ipam w))(nw_Namespace nw :=
      known (nww_ipam w) (nw_Namespace nw) - Prefix_String ` set (nw_Prefixes nw) \<union> Prefix_String ` set (nw_Prefixes nw'))"
proof -
  obtain pfxs e w1 w2 f where ps: "NewPrefixesFromCIDRs (nur_Prefixes req) = Inr pfxs"
    and free: "arePrefixesEmpty env (SubtractPrefixes (nw_Prefixes nw) pfxs) = Inr ()"
    and d: "for_each (\<lambda>p. on_error f (on_ipam (im_DeletePrefix (ne_ipam env) (Prefix_String p) (nw_Namespace nw))))
       (SubtractPrefixes (nw_Prefixes nw) pfxs) w = (Inr (), w1)"
    and c: "for_each (\<lambda>p. on_error f (on_ipam (im_CreatePrefix (ne_ipam env) (Prefix_String p) (nw_Namespace nw))))
       (SubtractPrefixes pfxs (nw_Prefixes nw)) w1 = (Inr (), w2)"
    and u: "table_Update env e w2 = (Inr nw', w')" and e: "b_ID e = b_ID nw" "nw_Prefixes e = pfxs"
    by (rule nw_update_ok [OF assms(6,3,4)])
  from table_Update_ok [OF assms(1) u] e have u': "rows (nww_table w') = (rows (nww_table w2))(b_ID nw \<mapsto> nw')"
    "nww_ipam w' = nww_ipam w2" "nw_Prefixes nw' = pfxs" by auto
  have "p \<in> set (SubtractPrefixes (nw_Prefixes nw) pfxs)"
    if "p \<in> set (nw_Prefixes nw)" "Prefix_String p \<notin> Prefix_String ` set pfxs" for p
    using that by (auto simp: SubtractPrefixes_def list_ex_iff)
  with free have "\<forall>p\<in>set (nw_Prefixes nw). Prefix_String p \<in> Prefix_String ` set pfxs \<or> ne_ips env (Prefix_String p) = Inr 0"
    by (fastforce simp: arePrefixesEmpty_def check_each_ok bind_result_ok)
  moreover have "known (nww_ipam w2) = (known (nww_ipam w))(nw_Namespace nw :=
      known (nww_ipam w) (nw_Namespace nw) - Prefix_String ` set (nw_Prefixes nw) \<union> Prefix_String ` set pfxs)"
    using delete_each [OF assms(2) d] create_each [OF assms(2) c] assms(5)
    by (auto simp: SubtractPrefixes_texts fun_eq_iff)
  ultimately show ?thesis
    using delete_each [OF assms(2) d] create_each [OF assms(2) c] ps u' by simp
qed

section \<open>Examples\<close>

text \<open>The world after the creation of the child network, and the deletion of the child.\<close>

definition child_world :: "(Network list, uint list, ipam_list) network_world" where
  "child_world = \<lparr>nww_table = [example_child, example_network], nww_vrf = [1, 2],
     nww_ipam = [(None, ''10.0.4.0/22''), (None, ''10.0.0.0/8'')]\<rparr>"

lemma example_fields:
  "b_ID example_child = ''child''" "nw_Vrf example_child = 7" "nw_Namespace example_child = None"
  "nw_Prefixes example_child = [\<lparr>pf_IP = ''10.0.4.0'', pf_Length = ''22''\<rparr>]"
  "nw_ParentNetworkID example_child = ''super''" "b_Changed example_child = 5"
  "b_ID example_network = ''super''" "nw_Vrf example_network = 7" "nw_ParentNetworkID example_network = ''''"
  "nw_NetworkType example_network = NetworkTypeSuper" "nw_Namespace example_network = None"
  "nw_Prefixes example_network = [\<lparr>pf_IP = ''10.0.0.0'', pf_Length = ''8''\<rparr>]"
  by (simp_all add: example_child_def child_network_def example_network_def new_Network_def child_request_def
      empty_request_def)

lemma example_get:
  "nw_get example_env ''child'' (nww_table child_world) = Inr example_child"
  "nw_get example_env ''super'' (nww_table child_world) = Inr example_network"
  by (simp_all add: nw_get_def storage_Get_def example_env_def list_rethink_def list_rows_def child_world_def
      example_fields)

lemma example_ipam_service: "ipam_service (ne_ipam example_env) ipam_list_prefixes"
  by (simp add: example_env_def example_ipam_def list_ipam.ipam_service_axioms)

lemma example_deleted:
  "\<exists>w'. NetworkDeleteHandleFn example_env ''child'' child_world = (Inr (), w')"
  unfolding NetworkDeleteHandleFn_def example_get sum.case
  by (simp add: example_fields bind_action_def ignore_not_found_def
      on_ipam_def on_error_def on_vrf_pool_def table_Delete_def storage_Delete_def ReleaseUniqueInteger_def
      verifyRange_def Prefix_String_def example_env_def example_ipam_def list_ipam_def child_world_def
      list_rethink_def)

lemma example_validateDelete: "network_validateDelete example_env example_child (nww_table child_world) = Inr ()"
proof -
  let ?q = "empty_NetworkQuery\<lparr>nq_ParentNetwork := Some ''child''\<rparr>"
  have none: "\<not> query_predicate example_enums ?q example_child" "\<not> query_predicate example_enums ?q example_network"
    by (simp_all add: query_predicate_def matches_field_def example_fields)
  have "NetworkFilter example_enums (Some ?q) = Inr (Some (query_predicate example_enums ?q))"
    by (simp add: NetworkFilter_def empty_NetworkQuery_def)
  then have "nw_list example_env (Some ?q) (nww_table child_world) = Inr []"
    by (simp add: nw_list_def scopedNetworkFilters_def storage_List_def example_env_def
        list_rethink_def child_world_def none)
  then show ?thesis
    by (simp add: network_validateDelete_def example_fields arePrefixesEmpty_def)
      (simp add: example_env_def)
qed

theorem network_deleted_witness:
  "\<exists>w'. NetworkDeleteHandleFn example_env ''child'' child_world = (Inr (), w') \<and>
     list_rows b_ID (nww_table w') ''child'' = None \<and>
     ''10.0.4.0/22'' \<notin> ipam_list_prefixes (nww_ipam w') None"
proof -
  from example_deleted obtain w' where del: "NetworkDeleteHandleFn example_env ''child'' child_world = (Inr (), w')" ..
  have "ne_scope example_env = None" by (simp add: example_env_def)
  from network_deleted [OF example_table example_key example_pool_rows example_ipam_service this
      example_get(1) example_validateDelete del] del
  show ?thesis by (simp add: example_fields Prefix_String_def)
qed

theorem shared_vrf_released_witness:
  "\<exists>w'. NetworkDeleteHandleFn example_env ''child'' child_world = (Inr (), w') \<and>
     7 \<in> free (list_rows (\<lambda>v. v)) (nww_vrf w') \<and> nw_Vrf example_network = 7"
proof -
  from example_deleted obtain w' where del: "NetworkDeleteHandleFn example_env ''child'' child_world = (Inr (), w')" ..
  from shared_vrf_released [OF example_table example_key example_pool_rows example_ipam_service
      example_get _ _ _ del] del
  show ?thesis by (simp add: example_fields)
qed

definition update_request :: NetworkServiceUpdateRequest where
  "update_request = \<lparr>nur_Name = None, nur_Description = None, nur_Labels = None, nur_Prefixes = [''1.0.0.0/8''],
     nur_DestinationPrefixes = [], nur_DefaultChildPrefixLength = None, nur_MinChildPrefixLength = None,
     nur_NatType = None, nur_AdditionalAnnouncableCidrs = [], nur_Force = False, nur_UpdateMeta = None\<rparr>"

lemma update_parsed: "NewPrefixFromCIDR ''1.0.0.0/8'' =
    Inr (\<lparr>pf_IP = ''1.0.0.0'', pf_Length = ''8''\<rparr>, \<lparr>px_Addr = V4 16777216, px_Bits = 8\<rparr>)"
  by (simp add: NewPrefixFromCIDR_def external_parsed external_printed)

lemma example_updated:
  "\<exists>nw' w'. nw_update plain_errorutil example_env (example_network\<lparr>b_Changed := 3\<rparr>) update_request
     (child_world\<lparr>nww_table := [example_network\<lparr>b_Changed := 3\<rparr>]\<rparr>) = (Inr nw', w')"
  by (simp add: nw_update_def apply_network_request_def update_request_def bind_action_def
      calculatePrefixDifferences_def update_parsed IsChildNetwork_def SubtractPrefixes_def Prefix_String_def
      on_error_def arePrefixesEmpty_def on_ipam_def example_fields table_Update_def storage_Update_def Let_def
      setChanged_def setGeneration_def example_env_def example_ipam_def list_ipam_def child_world_def
      list_rethink_def list_rows_def plain_errorutil_def)

theorem update_keeps_ipam_witness:
  "\<exists>nw' w'. nw_update plain_errorutil example_env (example_network\<lparr>b_Changed := 3\<rparr>) update_request
     (child_world\<lparr>nww_table := [example_network\<lparr>b_Changed := 3\<rparr>]\<rparr>) = (Inr nw', w') \<and>
     ''10.0.0.0/8'' \<notin> ipam_list_prefixes (nww_ipam w') None \<and> ''1.0.0.0/8'' \<in> ipam_list_prefixes (nww_ipam w') None"
proof -
  let ?nw = "example_network\<lparr>b_Changed := 3\<rparr>" and ?w = "child_world\<lparr>nww_table := [example_network\<lparr>b_Changed := 3\<rparr>]\<rparr>"
  from example_updated obtain nw' w' where u: "nw_update plain_errorutil example_env ?nw update_request ?w = (Inr nw', w')"
    by blast
  have "\<not> IsChildNetwork (nw_NetworkType ?nw)" "nur_Prefixes update_request \<noteq> []"
    "Prefix_String ` set (nw_Prefixes ?nw) \<subseteq> ipam_list_prefixes (nww_ipam ?w) (nw_Namespace ?nw)"
    by (simp_all add: IsChildNetwork_def update_request_def example_fields Prefix_String_def
        ipam_list_prefixes_def child_world_def)
  note upd = update_keeps_ipam [OF example_table example_ipam_service this u]
  have "nw_Prefixes nw' = [\<lparr>pf_IP = ''1.0.0.0'', pf_Length = ''8''\<rparr>]"
    using upd by (simp add: update_request_def update_parsed)
  with upd have "''10.0.0.0/8'' \<notin> ipam_list_prefixes (nww_ipam w') None"
    "''1.0.0.0/8'' \<in> ipam_list_prefixes (nww_ipam w') None"
    by (simp_all add: example_fields Prefix_String_def)
  with u show ?thesis by blast
qed

end
