(* ===== verification/IPs.thy ===== *)
theory IPs
  imports Networks
begin

text \<open>
  The IP addresses of machines and services, \<^verbatim>\<open>pkg/db/metal/ip.go\<close>, and the filter of their queries,
  \<^verbatim>\<open>pkg/db/queries/ip.go\<close>. The key of the tag that binds an address to a machine comes from the API
  and is an argument.
\<close>

section \<open>Data\<close>

type_synonym IPType = string

definition Ephemeral :: IPType where "Ephemeral = ''ephemeral''"
definition Static :: IPType where "Static = ''static''"

datatype IPScope = ScopeEmpty | ScopeProject | ScopeMachine

text \<open>The struct has the fields of \<open>Base\<close>; its id is the address, with the namespace before it.\<close>

record IP = Base +
  ip_AllocationUUID :: string
  ip_Namespace :: "string option"
  ip_ParentPrefixCidr :: string
  ip_ProjectID :: string
  ip_NetworkID :: string
  ip_Type :: IPType
  ip_Tags :: "string list"

definition namespaceSeparator :: string where "namespaceSeparator = ''-''"

definition GetIPAddress :: "IP \<Rightarrow> string result" where
  "GetIPAddress ip =
     (case ip_Namespace ip of
        None \<Rightarrow> Inr (b_ID ip)
      | Some ns \<Rightarrow>
          (let p = ns @ namespaceSeparator
           in if HasPrefix_string (b_ID ip) p then Inr (drop (length p) (b_ID ip))
              else Inl (Internal ''ip %q is namespaced, but namespace not stored in ip field'')))"

definition CreateNamespacedIPAddress :: "string option \<Rightarrow> string \<Rightarrow> string" where
  "CreateNamespacedIPAddress namespace ip =
     (case namespace of None \<Rightarrow> ip | Some ns \<Rightarrow> ns @ namespaceSeparator @ ip)"

datatype ApiIPType = IP_TYPE_UNSPECIFIED | IP_TYPE_EPHEMERAL | IP_TYPE_STATIC | IP_TYPE_NUMBER int

definition ToIPType :: "ApiIPType option \<Rightarrow> IPType result" where
  "ToIPType ipt =
     (case ipt of
        None \<Rightarrow> Inr Ephemeral
      | Some IP_TYPE_EPHEMERAL \<Rightarrow> Inr Ephemeral
      | Some IP_TYPE_STATIC \<Rightarrow> Inr Static
      | Some _ \<Rightarrow> Inl (InvalidArgument ''given ip type is not supported:%s''))"

definition IPsByProject :: "IP list \<Rightarrow> (string, IP list) gomap" where
  "IPsByProject ips = fold (\<lambda>ip. map_append (ip_ProjectID ip) ip) ips []"

section \<open>Tags\<close>

definition IpTag :: "string \<Rightarrow> string \<Rightarrow> string" where
  "IpTag key value = key @ ''='' @ value"

definition GetScope :: "string \<Rightarrow> IP \<Rightarrow> IPScope" where
  "GetScope machineID ip =
     (if ip_ProjectID ip = '''' then ScopeEmpty
      else if list_ex (\<lambda>t. HasPrefix_string t machineID) (ip_Tags ip) then ScopeMachine
      else ScopeProject)"

definition HasMachineId :: "string \<Rightarrow> IP \<Rightarrow> string \<Rightarrow> bool" where
  "HasMachineId machineID ip i = Has (ip_Tags ip) (IpTag machineID i)"

definition GetMachineIds :: "string \<Rightarrow> IP \<Rightarrow> string list" where
  "GetMachineIds machineID ip = Values (ip_Tags ip) (machineID @ ''='')"

definition AddMachineId :: "string \<Rightarrow> string \<Rightarrow> IP \<Rightarrow> IP" where
  "AddMachineId machineID i ip =
     ip\<lparr>ip_Tags := Unique (Add (fst (Remove (ip_Tags ip) machineID)) (IpTag machineID i))\<rparr>"

definition RemoveMachineId :: "string \<Rightarrow> string \<Rightarrow> IP \<Rightarrow> IP" where
  "RemoveMachineId machineID i ip = ip\<lparr>ip_Tags := Unique (fst (Remove (ip_Tags ip) (IpTag machineID i)))\<rparr>"

section \<open>Queries\<close>

record IPQuery =
  iq_Project :: "string option"
  iq_Ip :: "string option"
  iq_Uuid :: "string option"
  iq_Name :: "string option"
  iq_Namespace :: "string option"
  iq_Network :: "string option"
  iq_ParentPrefixCidr :: "string option"
  iq_Machine :: "string option"
  iq_Labels :: "Labels option"
  iq_Type :: "ApiIPType option"
  iq_AddressFamily :: "IPAddressFamily option"

definition empty_IPQuery :: IPQuery where
  "empty_IPQuery = \<lparr>iq_Project = None, iq_Ip = None, iq_Uuid = None, iq_Name = None, iq_Namespace = None,
     iq_Network = None, iq_ParentPrefixCidr = None, iq_Machine = None, iq_Labels = None, iq_Type = None,
     iq_AddressFamily = None\<rparr>"

definition IpProjectScoped :: "string \<Rightarrow> IP \<Rightarrow> bool" where
  "IpProjectScoped project ip = (ip_ProjectID ip = project)"

text \<open>The family is recognized by a dot or a colon in the id. An unknown type ends the filter before it.\<close>

definition family_matches :: "IPAddressFamily option \<Rightarrow> IP \<Rightarrow> bool" where
  "family_matches af ip \<longleftrightarrow>
     (case af of
        Some IP_ADDRESS_FAMILY_V4 \<Rightarrow> CHR ''.'' \<in> set (b_ID ip)
      | Some IP_ADDRESS_FAMILY_V6 \<Rightarrow> CHR '':'' \<in> set (b_ID ip)
      | _ \<Rightarrow> True)"

definition IpFilter :: "(ApiIPType \<Rightarrow> string result) \<Rightarrow> string \<Rightarrow> IPQuery \<Rightarrow> IP \<Rightarrow> bool" where
  "IpFilter GetStringValue machineID rq ip \<longleftrightarrow>
     matches_field (iq_Project rq) (ip_ProjectID ip) \<and> matches_field (iq_Ip rq) (b_ID ip) \<and>
     matches_field (iq_Uuid rq) (ip_AllocationUUID ip) \<and> matches_field (iq_Name rq) (b_Name ip) \<and>
     (case iq_Namespace rq of None \<Rightarrow> True | Some ns \<Rightarrow> ip_Namespace ip = Some ns) \<and>
     matches_field (iq_Network rq) (ip_NetworkID ip) \<and>
     matches_field (iq_ParentPrefixCidr rq) (ip_ParentPrefixCidr ip) \<and>
     (case iq_Machine rq of None \<Rightarrow> True | Some m \<Rightarrow> IpTag machineID m \<in> set (ip_Tags ip)) \<and>
     (case iq_Labels rq of None \<Rightarrow> True | Some ls \<Rightarrow> list_all (\<lambda>(k, v). IpTag k v \<in> set (ip_Tags ip)) ls) \<and>
     (case iq_Type rq of
        None \<Rightarrow> family_matches (iq_AddressFamily rq) ip
      | Some t \<Rightarrow>
          (case GetStringValue t of
             Inl _ \<Rightarrow> True
           | Inr s \<Rightarrow> ip_Type ip = s \<and> family_matches (iq_AddressFamily rq) ip))"

section \<open>Properties\<close>

lemma HasPrefix_string_append [simp]: "HasPrefix_string (p @ s) p"
  by (induction p) (cases s, simp_all)

lemma GetIPAddress_created [simp]:
  assumes "b_ID ip = CreateNamespacedIPAddress (ip_Namespace ip) a"
  shows "GetIPAddress ip = Inr a"
proof (cases "ip_Namespace ip")
  case (Some ns)
  have "HasPrefix_string (ns @ namespaceSeparator @ a) (ns @ namespaceSeparator)"
    using HasPrefix_string_append [of "ns @ namespaceSeparator" a] by simp
  with Some assms show ?thesis by (simp add: GetIPAddress_def CreateNamespacedIPAddress_def)
qed (use assms in \<open>simp add: GetIPAddress_def CreateNamespacedIPAddress_def\<close>)

end
