(* ===== verification/TableActions.thy ===== *)
theory TableActions
  imports Storage Repository Labels
begin

text \<open>
  The operations of the generic storage as actions on the state of a table, for the repositories
  whose entities live in one table: they read and write it through these and add their own
  conversions and checks. Filters on labels and optional fields of a query are shared too.
\<close>

definition tbl_Get :: "('st, 'z) table \<Rightarrow> string \<Rightarrow> ('st, 'z Base_scheme) action" where
  "tbl_Get rt i st = (storage_Get rt i st, st)"

definition tbl_Find :: "('st, 'z) table \<Rightarrow> ('z Base_scheme \<Rightarrow> bool) list \<Rightarrow> ('st, 'z Base_scheme) action" where
  "tbl_Find rt qs st = (storage_Find rt qs st, st)"

definition tbl_List :: "('st, 'z) table \<Rightarrow> ('z Base_scheme \<Rightarrow> bool) list \<Rightarrow> ('st, 'z Base_scheme list) action" where
  "tbl_List rt qs st = (storage_List rt (map Some qs) st, st)"

definition tbl_Create :: "('st, 'z) table \<Rightarrow> time \<Rightarrow> string result \<Rightarrow> 'z Base_scheme \<Rightarrow> ('st, 'z Base_scheme) action" where
  "tbl_Create rt now newID e st =
     (case storage_Create rt now newID e st of Inl err \<Rightarrow> (Inl err, st) | Inr (e, st) \<Rightarrow> (Inr e, st))"

definition tbl_Update :: "('st, 'z) table \<Rightarrow> time \<Rightarrow> 'z Base_scheme \<Rightarrow> ('st, 'z Base_scheme) action" where
  "tbl_Update rt now e st =
     (case storage_Update rt now e st of (e, Inl err) \<Rightarrow> (Inl err, st) | (e, Inr st) \<Rightarrow> (Inr e, st))"

definition tbl_Delete :: "('st, 'z) table \<Rightarrow> 'z Base_scheme \<Rightarrow> ('st, unit) action" where
  "tbl_Delete rt e st = (case storage_Delete rt e st of Inl err \<Rightarrow> (Inl err, st) | Inr st \<Rightarrow> (Inr (), st))"

text \<open>A reference into another table, which the operations only read.\<close>

type_synonym 'a lookup = "string \<Rightarrow> 'a result"

section \<open>Filters\<close>

definition matches_labels :: "Labels option \<Rightarrow> Labels \<Rightarrow> bool" where
  "matches_labels q labels \<longleftrightarrow> (case q of None \<Rightarrow> True | Some ls \<Rightarrow> list_all (\<lambda>(k, v). map_of labels k = Some v) ls)"

section \<open>Reading leaves the state alone\<close>

lemma tbl_reads [simp]: "reads_only (tbl_Get rt i)" "reads_only (tbl_Find rt qs)" "reads_only (tbl_List rt qs)"
  by (simp_all add: reads_only_def tbl_Get_def tbl_Find_def tbl_List_def)

lemma bind_reads: "reads_only a \<Longrightarrow> (\<And>x. reads_only (f x)) \<Longrightarrow> reads_only (bind_action a f)"
  by (auto simp: reads_only_def bind_action_def split: prod.splits sum.splits) (metis snd_conv)+

lemma reads_basic [simp]:
  "reads_only (lift_result r)" "reads_only (return x)" "reads_only (fail err)" "reads_only a \<Longrightarrow> reads_only (on_error g a)"
  by (simp_all add: reads_only_def)

lemma tbl_Get_ok: "rethink_table rt rows \<Longrightarrow> tbl_Get rt i st = (Inr e, st') \<Longrightarrow> st' = st \<and> rows st i = Some e"
  by (auto simp: tbl_Get_def storage_Get_def split: sum.splits option.splits dest: rethink_table.get)

lemma tbl_List_ok:
  "rethink_table rt rows \<Longrightarrow> tbl_List rt qs st = (Inr es, st') \<Longrightarrow>
     st' = st \<and> set es = {e \<in> ran (rows st). \<forall>q\<in>set qs. q e} \<and> distinct es"
  by (auto simp: tbl_List_def storage_List_def comp_def split: sum.splits dest!: rethink_table.run)

lemma tbl_Create_ok:
  assumes "rethink_table rt rows" and "tbl_Create rt now newID e st = (Inr e', st')"
  shows "rows st (rt_key rt e') = None \<and> rows st' = (rows st)(rt_key rt e' \<mapsto> e') \<and>
    e' = e\<lparr>b_ID := b_ID e', b_Created := now, b_Changed := now, b_Generation := 0\<rparr> \<and>
    (b_ID e \<noteq> '''' \<longrightarrow> b_ID e' = b_ID e)"
  using assms(2) rethink_table.insert [OF assms(1)]
  by (auto simp: tbl_Create_def storage_Create_def setCreated_def setChanged_def setGeneration_def Let_def
      split: sum.splits if_splits write_error.splits)

lemma tbl_Update_ok:
  "rethink_table rt rows \<Longrightarrow> tbl_Update rt now e st = (Inr e', st') \<Longrightarrow>
     rows st' = (rows st)(b_ID e \<mapsto> e') \<and> e' = e\<lparr>b_Changed := now, b_Generation := b_Generation e + 1\<rparr> \<and>
     (\<exists>prev. rows st (b_ID e) = Some prev \<and> b_Changed prev = b_Changed e)"
  by (auto simp: tbl_Update_def split: prod.splits sum.splits dest: storage_Update_okD)

lemma tbl_Create_fields:
  assumes "tbl_Create rt now newID e st = (Inr e', st')"
  shows "\<exists>i. e' = e\<lparr>b_ID := i, b_Created := now, b_Changed := now, b_Generation := 0\<rparr>"
proof -
  have "e' = e\<lparr>b_ID := b_ID e', b_Created := now, b_Changed := now, b_Generation := 0\<rparr>"
    using assms
    by (auto simp: tbl_Create_def storage_Create_def setCreated_def setChanged_def setGeneration_def Let_def
        split: sum.splits if_splits write_error.splits)
  then show ?thesis by blast
qed

section \<open>A table that is only read\<close>

text \<open>A table whose rows another part of the system maintains, with every write failing, for examples.\<close>

definition const_table :: "('e \<Rightarrow> 'k) \<Rightarrow> 'e list \<Rightarrow> ('st, 'k, 'e) rethink" where
  "const_table key es =
     \<lparr>rt_key = key,
      rt_Insert = (\<lambda>_ _. Inl (OtherErr ''read only'')), rt_InsertReplace = (\<lambda>_ _. Inl (OtherErr ''read only'')),
      rt_Delete = (\<lambda>_ _. Inl (OtherErr ''read only'')), rt_DeleteAny = (\<lambda>_. Inl (OtherErr ''read only'')),
      rt_ReplaceIf = (\<lambda>_ _ _ _ _. Inl (OtherErr ''read only'')),
      rt_Get = (\<lambda>k _. Inr (list_rows key es k)),
      rt_Run = (\<lambda>qs _. Inr (remdups (filter (\<lambda>e. list_rows key es (key e) = Some e \<and> list_all (\<lambda>q. q e) qs) es))),
      rt_Count = (\<lambda>_. Inr (length es))\<rparr>"

lemma const_table: "rethink_table (const_table key es) (\<lambda>_. list_rows key es)"
  by unfold_locales
    (auto simp: const_table_def list_rows_ran list_all_iff dest: list_rows_Some)

section \<open>A table as a part of the state\<close>

text \<open>Several tables on one state: each is a table on its part, read by \<open>g\<close> and written by \<open>s\<close>.\<close>

definition part_table :: "('w \<Rightarrow> 's) \<Rightarrow> ('s \<Rightarrow> 'w \<Rightarrow> 'w) \<Rightarrow> ('s, 'k, 'e) rethink \<Rightarrow> ('w, 'k, 'e) rethink" where
  "part_table g s rt =
     \<lparr>rt_key = rt_key rt,
      rt_Insert = (\<lambda>e w. map_sum id (\<lambda>x. s x w) (rt_Insert rt e (g w))),
      rt_InsertReplace = (\<lambda>e w. map_sum id (\<lambda>x. s x w) (rt_InsertReplace rt e (g w))),
      rt_Delete = (\<lambda>k w. map_sum id (\<lambda>(x, old). (s x w, old)) (rt_Delete rt k (g w))),
      rt_DeleteAny = (\<lambda>w. map_sum id (\<lambda>(x, old). (s x w, old)) (rt_DeleteAny rt (g w))),
      rt_ReplaceIf = (\<lambda>k c msg e w. map_sum id (\<lambda>x. s x w) (rt_ReplaceIf rt k c msg e (g w))),
      rt_Get = (\<lambda>k w. rt_Get rt k (g w)), rt_Run = (\<lambda>qs w. rt_Run rt qs (g w)), rt_Count = (\<lambda>w. rt_Count rt (g w))\<rparr>"

lemma map_sum_Inr: "map_sum id f r = Inr y \<longleftrightarrow> (\<exists>x. r = Inr x \<and> y = f x)" "map_sum id f r = Inl e \<longleftrightarrow> r = Inl e"
  by (cases r; auto)+

lemma part_table:
  assumes "rethink_table rt rows" and gs: "\<And>x w. g (s x w) = x"
  shows "rethink_table (part_table g s rt) (\<lambda>w. rows (g w))"
proof
  fix k c msg e w old assume "rows (g w) k = Some old" "\<not> c old"
  with rethink_table.replace_if_branch [OF assms(1), where c = c and k = k and st = "g w" and msg = msg and e = e and old = old]
  show "rt_ReplaceIf (part_table g s rt) k c msg e w \<in> {Inl (BranchErr msg)} \<union> range (\<lambda>s. Inl (OtherErr s))"
    by (auto simp: part_table_def)
qed (use rethink_table.insert [OF assms(1)] rethink_table.insert_conflict [OF assms(1)]
    rethink_table.insert_replace [OF assms(1)] rethink_table.delete [OF assms(1)]
    rethink_table.delete_any_none [OF assms(1)] rethink_table.delete_any_some [OF assms(1)]
    rethink_table.replace_if [OF assms(1)] rethink_table.get [OF assms(1)] rethink_table.run [OF assms(1)]
    rethink_table.keyed [OF assms(1)] in \<open>auto simp: part_table_def map_sum_Inr gs\<close>)

text \<open>An update of one table leaves the rows of a table on another part alone.\<close>

definition keeps_rows :: "('st, 'k, 'e) rethink \<Rightarrow> ('st \<Rightarrow> 'r) \<Rightarrow> bool" where
  "keeps_rows rt rows \<longleftrightarrow> (\<forall>k c msg e st st'. rt_ReplaceIf rt k c msg e st = Inr st' \<longrightarrow> rows st' = rows st)"

lemma part_table_keeps: "(\<And>x w. g' (s x w) = g' w) \<Longrightarrow> keeps_rows (part_table g s rt) (\<lambda>w. rows (g' w))"
  by (auto simp: keeps_rows_def part_table_def map_sum_Inr)

lemma tbl_Update_keeps: "keeps_rows rt rows \<Longrightarrow> tbl_Update rt now e st = (r, st') \<Longrightarrow> rows st' = rows st"
  by (auto simp: keeps_rows_def tbl_Update_def storage_Update_def Let_def split: prod.splits sum.splits if_splits write_error.splits)

end
