(* ===== verification/IpRepository.thy ===== *)
theory IpRepository
  imports IPs NetworkRepository TableActions Tokens
begin

text \<open>
  The repository of IP addresses, \<^verbatim>\<open>pkg/repository/ip.go\<close> and \<^verbatim>\<open>ip-validation.go\<close>, as an instance of
  the generic store. The state is the table of the addresses and the state of the address
  management service; networks are only read, so the environment holds their table's state. An
  operation that fails keeps the changes it has made before.
\<close>

section \<open>The state and the environment\<close>

record ('a, 'i) ip_world =
  ipw_table :: 'a
  ipw_ipam :: 'i

record ('a, 'n, 'p, 'i) ip_env =
  ie_table :: "('a, string, IP) rethink"
  ie_net :: "('n, 'p, 'i) network_env" \<comment> \<open>with the calls of the address management service\<close>
  ie_networks :: 'n
  ie_scope :: "string option"
  ie_token :: "Token option" \<comment> \<open>the token of the request's context\<close>
  ie_MachineID :: string
  ie_GetStringValue :: "ApiIPType \<Rightarrow> string result"
  ie_now :: time
  ie_newID :: "string result" \<comment> \<open>the allocation's UUID\<close>

record IPServiceCreateRequest =
  icr_Network :: string
  icr_Project :: string
  icr_Name :: "string option"
  icr_Description :: "string option"
  icr_Ip :: "string option"
  icr_Machine :: "string option"
  icr_Labels :: "Labels option"
  icr_Type :: "ApiIPType option"
  icr_AddressFamily :: "IPAddressFamily option"

record IPServiceUpdateRequest =
  iur_Name :: "string option"
  iur_Description :: "string option"
  iur_Type :: "ApiIPType option"
  iur_Labels :: "LabelStrategy option"
  iur_UpdateMeta :: "UpdateMeta option"

record IpMeta =
  imt_Labels :: "Labels option"
  imt_CreatedAt :: "time option"
  imt_UpdatedAt :: "time option"
  imt_Generation :: "64 word"

record ApiIP =
  aip_Ip :: string
  aip_Uuid :: string
  aip_Name :: string
  aip_Description :: string
  aip_Network :: string
  aip_Project :: string
  aip_Namespace :: "string option"
  aip_Type :: ApiIPType
  aip_Meta :: "IpMeta option"
  aip_DeletionTask :: "string option"

type_synonym ('a, 'i, 'x) ip_action = "(('a, 'i) ip_world, 'x) action"

definition on_ips :: "('a, 'x) action \<Rightarrow> ('a, 'i, 'x) ip_action" where
  "on_ips a w = (let (r, st) = a (ipw_table w) in (r, w\<lparr>ipw_table := st\<rparr>))"

definition on_ip_ipam :: "('i \<Rightarrow> 'x result \<times> 'i) \<Rightarrow> ('a, 'i, 'x) ip_action" where
  "on_ip_ipam f w = (let (r, st) = f (ipw_ipam w) in (r, w\<lparr>ipw_ipam := st\<rparr>))"

definition ip_network :: "('a, 'n, 'p, 'i) ip_env \<Rightarrow> string \<Rightarrow> Network result" where
  "ip_network env i = nw_get (ie_net env) i (ie_networks env)"

definition scopedIPFilters :: "('a, 'n, 'p, 'i) ip_env \<Rightarrow> IPQuery option \<Rightarrow> (IP \<Rightarrow> bool) list" where
  "scopedIPFilters env rq =
     (case ie_scope env of None \<Rightarrow> [] | Some p \<Rightarrow> [IpProjectScoped p]) @
     (case rq of None \<Rightarrow> [] | Some rq \<Rightarrow> [IpFilter (ie_GetStringValue env) (ie_MachineID env) rq])"

definition ip_matchScope :: "('a, 'n, 'p, 'i) ip_env \<Rightarrow> IP \<Rightarrow> bool" where
  "ip_matchScope env ip = (case ie_scope env of None \<Rightarrow> True | Some p \<Rightarrow> p = ip_ProjectID ip)"

section \<open>Allocation\<close>

text \<open>A random address comes from the first prefix of the family that has one left.\<close>

fun random_loop ::
  "'i ipam \<Rightarrow> string option \<Rightarrow> Prefixes \<Rightarrow> ('a, 'i, string \<times> string) ip_action" where
  "random_loop im ns [] w =
     (Inl (InvalidArgument ''cannot allocate random free ip in ipam, no ips left in network:%s af:%s parent afs:%#v''), w)"
| "random_loop im ns (prefix # ps) w =
     (case on_ip_ipam (im_AcquireIP im (Prefix_String prefix) None ns) w of
        (Inl err, w) \<Rightarrow> if IsNotFound err then random_loop im ns ps w else (Inl err, w)
      | (Inr a, w) \<Rightarrow> (Inr (a, Prefix_String prefix), w))"

definition allocateRandomIP ::
  "('a, 'n, 'p, 'i) ip_env \<Rightarrow> Network \<Rightarrow> AddressFamily \<Rightarrow> ('a, 'i, string \<times> string) ip_action" where
  "allocateRandomIP env network af =
     random_loop (ne_ipam (ie_net env)) (nw_Namespace network) (OfFamily (nw_Prefixes network) af)"

text \<open>A specific address comes from the first prefix of its family that contains it.\<close>

fun specific_loop ::
  "'i ipam \<Rightarrow> string option \<Rightarrow> string \<Rightarrow> Addr \<Rightarrow> Prefixes \<Rightarrow> ('a, 'i, string \<times> string) ip_action" where
  "specific_loop im ns specificIP parsedIP [] w =
     (Inl (InvalidArgument ''specific ip %s not contained in any of the defined prefixes''), w)"
| "specific_loop im ns specificIP parsedIP (prefix # ps) w =
     (case ParsePrefix (Prefix_String prefix) of
        None \<Rightarrow> (Inl (Wrapped ''unable to parse prefix: %w'' parse_error), w)
      | Some pfx \<Rightarrow>
          if \<not> prefix_Contains pfx parsedIP then specific_loop im ns specificIP parsedIP ps w
          else
            (case on_ip_ipam (im_AcquireIP im (Prefix_String prefix) (Some specificIP) ns) w of
               (Inl err, w) \<Rightarrow> (Inl err, w)
             | (Inr a, w) \<Rightarrow> (Inr (a, Prefix_String prefix), w)))"

definition allocateSpecificIP ::
  "('a, 'n, 'p, 'i) ip_env \<Rightarrow> Network \<Rightarrow> string \<Rightarrow> ('a, 'i, string \<times> string) ip_action" where
  "allocateSpecificIP env parent specificIP =
     (case ParseAddr specificIP of
        None \<Rightarrow> fail (Plain ''unable to parse specific ip: %w'')
      | Some parsedIP \<Rightarrow>
          specific_loop (ne_ipam (ie_net env)) (nw_Namespace parent) specificIP parsedIP
            (OfFamily (nw_Prefixes parent) (if Is6 parsedIP then AddressFamilyIPv6 else AddressFamilyIPv4)))"

section \<open>Operations\<close>

definition requested_tags :: "('a, 'n, 'p, 'i) ip_env \<Rightarrow> IPServiceCreateRequest \<Rightarrow> string list" where
  "requested_tags env req =
     lo_Uniq ((case icr_Labels req of None \<Rightarrow> [] | Some ls \<Rightarrow> ToTags ls) @
       (case icr_Machine req of None \<Rightarrow> [] | Some m \<Rightarrow> [IpTag (ie_MachineID env) m]))"

definition requested_family :: "IPServiceCreateRequest \<Rightarrow> Network \<Rightarrow> AddressFamily result" where
  "requested_family req nw =
     (case icr_AddressFamily req of
        Some af \<Rightarrow> map_error (\<lambda>_. InvalidArgument ''%w'') (ToAddressFamily af)
      | None \<Rightarrow>
          Inr (if AddressFamilyIPv4 \<notin> set (AddressFamilies (nw_Prefixes nw)) then AddressFamilyIPv6
               else AddressFamilyIPv4))"

definition ip_create :: "('a, 'n, 'p, 'i) ip_env \<Rightarrow> IPServiceCreateRequest \<Rightarrow> ('a, 'i, IP) ip_action" where
  "ip_create env req =
     bind_action (lift_result (ip_network env (icr_Network req))) (\<lambda>nw.
     bind_action (lift_result (requested_family req nw)) (\<lambda>af.
     bind_action
       (case icr_Ip req of
          None \<Rightarrow> allocateRandomIP env nw af
        | Some a \<Rightarrow> allocateSpecificIP env nw a) (\<lambda>(ipAddress, ipParentCidr).
     bind_action (lift_result (ToIPType (icr_Type req))) (\<lambda>ipType.
     bind_action (lift_result (ie_newID env)) (\<lambda>uuid.
     on_ips (tbl_Create (ie_table env) (ie_now env) (ie_newID env)
       \<lparr>b_ID = CreateNamespacedIPAddress (nw_Namespace nw) ipAddress,
        b_Name = pointer_SafeDeref (icr_Name req), b_Description = pointer_SafeDeref (icr_Description req),
        b_Created = 0, b_Changed = 0, b_Generation = 0,
        ip_AllocationUUID = uuid, ip_Namespace = nw_Namespace nw, ip_ParentPrefixCidr = ipParentCidr,
        ip_ProjectID = icr_Project req, ip_NetworkID = b_ID nw, ip_Type = ipType,
        ip_Tags = requested_tags env req\<rparr>))))))"

text \<open>A type with an unknown number becomes the empty one.\<close>

definition apply_ip_request :: "IPServiceUpdateRequest \<Rightarrow> IP \<Rightarrow> IP result" where
  "apply_ip_request rq e =
     (let e = e\<lparr>b_Description := (case iur_Description rq of None \<Rightarrow> b_Description e | Some d \<Rightarrow> d),
                b_Name := (case iur_Name rq of None \<Rightarrow> b_Name e | Some n \<Rightarrow> n)\<rparr>
      in bind_result
           (case iur_Type rq of
              None \<Rightarrow> Inr (ip_Type e)
            | Some IP_TYPE_EPHEMERAL \<Rightarrow> Inr Ephemeral
            | Some IP_TYPE_STATIC \<Rightarrow> Inr Static
            | Some IP_TYPE_UNSPECIFIED \<Rightarrow> Inl (InvalidArgument ''ip type cannot be unspecified: %s'')
            | Some (IP_TYPE_NUMBER _) \<Rightarrow> Inr '''') (\<lambda>t.
         Inr (e\<lparr>ip_Type := t,
           ip_Tags := (if iur_Labels rq = None then ip_Tags e else updateLabelsOnSlice (iur_Labels rq) (ip_Tags e))\<rparr>)))"

definition ip_update :: "('a, 'n, 'p, 'i) ip_env \<Rightarrow> IP \<Rightarrow> IPServiceUpdateRequest \<Rightarrow> ('a, 'i, IP) ip_action" where
  "ip_update env e rq =
     bind_action (lift_result (apply_ip_request rq e)) (\<lambda>e. on_ips (tbl_Update (ie_table env) (ie_now env) e))"

text \<open>Deleting enqueues a task with the UUID, the id and the project, and waits for it.\<close>

record ('a, 'i) ip_tasks =
  it_NewTask :: "string \<Rightarrow> string \<Rightarrow> string \<Rightarrow> ('a, 'i, string) ip_action"
  it_Watch :: "string \<Rightarrow> ('a, 'i, unit) ip_action"

definition ip_delete :: "('a, 'i) ip_tasks \<Rightarrow> IP \<Rightarrow> ('a, 'i, string option) ip_action" where
  "ip_delete it e =
     bind_action (it_NewTask it (ip_AllocationUUID e) (b_ID e) (ip_ProjectID e)) (\<lambda>info.
     bind_action (on_error (\<lambda>_. Internal ''error waiting for task %q of type %q to complete: %w'')
       (it_Watch it info)) (\<lambda>_.
     return (Some info)))"

definition IpDeleteHandleFn :: "('a, 'n, 'p, 'i) ip_env \<Rightarrow> string \<Rightarrow> ('a, 'i, unit) ip_action" where
  "IpDeleteHandleFn env uuid w =
     (case storage_Find (ie_table env)
         [IpFilter (ie_GetStringValue env) (ie_MachineID env) (empty_IPQuery\<lparr>iq_Uuid := Some uuid\<rparr>)] (ipw_table w) of
        Inl err \<Rightarrow> if IsNotFound err then (Inr (), w) else (Inl err, w)
      | Inr ip \<Rightarrow>
          bind_action (on_error (Wrapped ''unable to retrieve parent network: %w'')
            (lift_result (ip_network env (ip_NetworkID ip)))) (\<lambda>nw.
          bind_action (ignore_not_found (on_ip_ipam (im_ReleaseIP (ne_ipam (ie_net env))
            (ip_ParentPrefixCidr ip) (b_ID ip) (nw_Namespace nw)))) (\<lambda>_.
          ignore_not_found (on_ips (tbl_Delete (ie_table env) ip)))) w)"

section \<open>Conversion\<close>

text \<open>The last prefix of the network that contains the address is its parent.\<close>

fun parent_prefix :: "Prefixes \<Rightarrow> Addr \<Rightarrow> string \<Rightarrow> string result" where
  "parent_prefix [] a parent = Inr parent"
| "parent_prefix (p # ps) a parent =
     (case ParsePrefix (Prefix_String p) of
        None \<Rightarrow> Inl parse_error
      | Some pfx \<Rightarrow> parent_prefix ps a (if prefix_Contains pfx a then Prefix_bits_String pfx else parent))"

definition ip_convertToInternal :: "('a, 'n, 'p, 'i) ip_env \<Rightarrow> ApiIP \<Rightarrow> IP result" where
  "ip_convertToInternal env ip =
     bind_result
       (case aip_Type ip of
          IP_TYPE_EPHEMERAL \<Rightarrow> Inr Ephemeral
        | IP_TYPE_STATIC \<Rightarrow> Inr Static
        | IP_TYPE_UNSPECIFIED \<Rightarrow> Inl (Plain ''unknown ip type:%T'')
        | IP_TYPE_NUMBER _ \<Rightarrow> Inr '''') (\<lambda>t.
     bind_result (ip_network env (aip_Network ip)) (\<lambda>nw.
     bind_result (case ParseAddr (aip_Ip ip) of None \<Rightarrow> Inl (Plain ''netip.ParseAddr'') | Some a \<Rightarrow> Inr a) (\<lambda>parsedIP.
     bind_result (parent_prefix (nw_Prefixes nw) parsedIP '''') (\<lambda>parentPrefixCidr.
     let meta = aip_Meta ip in
     Inr \<lparr>b_ID = aip_Ip ip, b_Name = aip_Name ip, b_Description = aip_Description ip,
       b_Created = (case meta of None \<Rightarrow> 0 | Some m \<Rightarrow> AsTime (imt_CreatedAt m)),
       b_Changed = (case meta of None \<Rightarrow> 0 | Some m \<Rightarrow> AsTime (imt_UpdatedAt m)),
       b_Generation = (case meta of None \<Rightarrow> 0 | Some m \<Rightarrow> imt_Generation m),
       ip_AllocationUUID = aip_Uuid ip, ip_Namespace = aip_Namespace ip, ip_ParentPrefixCidr = parentPrefixCidr,
       ip_ProjectID = aip_Project ip, ip_NetworkID = aip_Network ip, ip_Type = t,
       ip_Tags = (case meta of None \<Rightarrow> [] | Some m \<Rightarrow> (case imt_Labels m of None \<Rightarrow> [] | Some ls \<Rightarrow> ToTags ls))\<rparr>))))"

definition ip_convertToProto :: "IP \<Rightarrow> ApiIP result" where
  "ip_convertToProto ip =
     bind_result (GetIPAddress ip) (\<lambda>ipaddress.
     Inr \<lparr>aip_Ip = ipaddress, aip_Uuid = ip_AllocationUUID ip, aip_Name = b_Name ip,
       aip_Description = b_Description ip, aip_Network = ip_NetworkID ip, aip_Project = ip_ProjectID ip,
       aip_Namespace = ip_Namespace ip,
       aip_Type = (if ip_Type ip = Ephemeral then IP_TYPE_EPHEMERAL
                   else if ip_Type ip = Static then IP_TYPE_STATIC else IP_TYPE_UNSPECIFIED),
       aip_Meta = Some \<lparr>imt_Labels = (if length (ip_Tags ip) > 0 then Some (ToLabels (ip_Tags ip)) else None),
         imt_CreatedAt = Some (b_Created ip), imt_UpdatedAt = Some (b_Changed ip), imt_Generation = b_Generation ip\<rparr>,
       aip_DeletionTask = None\<rparr>)"

section \<open>Validation\<close>

fun part_of_prefixes :: "Prefixes \<Rightarrow> Addr \<Rightarrow> bool result" where
  "part_of_prefixes [] a = Inr False"
| "part_of_prefixes (p # ps) a =
     (case ParsePrefix (Prefix_String p) of
        None \<Rightarrow> Inl parse_error
      | Some pfx \<Rightarrow> if prefix_Contains pfx a then Inr True else part_of_prefixes ps a)"

definition validate_specific_ip :: "('a, 'n, 'p, 'i) ip_env \<Rightarrow> Network \<Rightarrow> string \<Rightarrow> 'a \<Rightarrow> unit result" where
  "validate_specific_ip env nw a st =
     (case storage_Get (ie_table env) (CreateNamespacedIPAddress (nw_Namespace nw) a) st of
        Inr _ \<Rightarrow> Inl (Plain ''given ip %q is already allocated'')
      | Inl err \<Rightarrow>
          if \<not> IsNotFound err then Inl (FailedPrecondition ''%w'')
          else
            (case ParseAddr a of
               None \<Rightarrow> Inl (Plain ''netip.ParseAddr'')
             | Some parsedIP \<Rightarrow>
                 bind_result (part_of_prefixes (nw_Prefixes nw) parsedIP) (\<lambda>partofNetworkPrefixes.
                 check_that partofNetworkPrefixes
                   (Plain ''specific ip %q is not contained in any of the prefixes of network %q''))))"

definition validate_ip_project :: "Network \<Rightarrow> IPServiceCreateRequest \<Rightarrow> unit result" where
  "validate_ip_project nw req =
     bind_result (check_that (\<not> (nw_ProjectID nw \<noteq> '''' \<and> nw_ProjectID nw \<noteq> icr_Project req))
       (Plain ''not allowed to create ip in network %q'')) (\<lambda>_.
     check_that (\<not> (nw_ProjectID nw \<noteq> icr_Project req \<and>
         nw_NetworkType nw \<notin> {NetworkTypeChildShared, NetworkTypeExternal, NetworkTypeUnderlay}))
       (Plain ''cannot allocate ip in network of type %s''))"

definition validate_ip_family :: "Network \<Rightarrow> IPServiceCreateRequest \<Rightarrow> unit result" where
  "validate_ip_family nw req =
     (case icr_AddressFamily req of
        None \<Rightarrow> Inr ()
      | Some af \<Rightarrow>
          bind_result (ToAddressFamily af) (\<lambda>convertedAf.
          bind_result (check_that (convertedAf \<in> set (AddressFamilies (nw_Prefixes nw)))
            (Plain ''there is no prefix for the given addressfamily %s present in network %q, available address families are: %s'')) (\<lambda>_.
          check_that (icr_Ip req = None) (Plain ''it is not possible to specify specificIP and addressfamily''))))"

definition validate_ip_network_type :: "Token option \<Rightarrow> NetworkType \<Rightarrow> unit result" where
  "validate_ip_network_type tok nt =
     (case nt of
        NetworkTypeChild \<Rightarrow> Inr ()
      | NetworkTypeChildShared \<Rightarrow> Inr ()
      | NetworkTypeExternal \<Rightarrow> Inr ()
      | NetworkTypeUnderlay \<Rightarrow>
          (case tok of
             None \<Rightarrow> Inl (Unauthenticated ''no token found in request'')
           | Some tok \<Rightarrow>
               check_that (t_AdminRole tok = Some ADMIN_ROLE_EDITOR)
                 (PermissionDenied ''only admin editors can allocate ips from an underlay network''))
      | _ \<Rightarrow> Inl (PermissionDenied ''given networktype %q is not allowed''))"

definition ip_validateCreate ::
  "('a, 'n, 'p, 'i) ip_env \<Rightarrow> IPServiceCreateRequest \<Rightarrow> ('a, 'i) ip_world \<Rightarrow> unit result" where
  "ip_validateCreate env req w =
     bind_result (ip_network env (icr_Network req)) (\<lambda>nw.
     bind_result (validate_ip_project nw req) (\<lambda>_.
     bind_result
       (case icr_Ip req of
          Some a \<Rightarrow> validate_specific_ip env nw a (ipw_table w)
        | None \<Rightarrow> ipsAvailable (ie_net env) (b_ID nw) (ie_networks env) (ipw_ipam w)) (\<lambda>_.
     bind_result (validate_ip_family nw req) (\<lambda>_.
     bind_result (validate_ip_network_type (ie_token env) (nw_NetworkType nw)) (\<lambda>_.
     validate_all [(icr_Project req \<noteq> '''', ''project should not be empty''),
       (icr_Network req \<noteq> '''', ''network should not be empty'')])))))"

definition ip_validateUpdate :: "IPServiceUpdateRequest \<Rightarrow> IP \<Rightarrow> unit result" where
  "ip_validateUpdate req ip =
     (case iur_Type req of
        None \<Rightarrow> Inr ()
      | Some t \<Rightarrow>
          check_that (\<not> (ip_Type ip = Static \<and> t \<noteq> IP_TYPE_STATIC))
            (Plain ''cannot change type of ip address from static to ephemeral''))"

definition ip_validateDelete :: "string \<Rightarrow> IP \<Rightarrow> unit result" where
  "ip_validateDelete machineID ip =
     bind_result (validate_all [(b_ID ip \<noteq> '''', ''ipaddress is empty''),
       (ip_AllocationUUID ip \<noteq> '''', ''allocationUUID is empty''), (ip_ProjectID ip \<noteq> '''', ''projectId is empty'')]) (\<lambda>_.
     check_that (\<not> list_ex (\<lambda>t. HasPrefix_string t machineID) (ip_Tags ip))
       (Plain ''ip with machine scope cannot be deleted''))"

section \<open>The repository as the store sees it\<close>

definition ip_operations ::
  "('a, 'n, 'p, 'i) ip_env \<Rightarrow> ('a, 'i) ip_tasks \<Rightarrow>
   (('a, 'i) ip_world, IP, ApiIP, IPServiceCreateRequest, IPServiceUpdateRequest, IPQuery option) repository" where
  "ip_operations env it =
     \<lparr>rp_validateCreate = (\<lambda>req w. (bind_result (ip_validateCreate env req w) (\<lambda>_. Inr req), w)),
      rp_create = ip_create env,
      rp_get = (\<lambda>i. on_ips (tbl_Get (ie_table env) i)),
      rp_find = (\<lambda>q. on_ips (tbl_Find (ie_table env) (scopedIPFilters env q))),
      rp_list = (\<lambda>q. on_ips (tbl_List (ie_table env) (scopedIPFilters env q))),
      rp_matchScope = ip_matchScope env,
      rp_validateUpdate = (\<lambda>req e. lift_result (bind_result (ip_validateUpdate req e) (\<lambda>_. Inr req))),
      rp_update = ip_update env,
      rp_validateDelete = (\<lambda>e. lift_result (ip_validateDelete (ie_MachineID env) e)),
      rp_delete = ip_delete it,
      rp_convertToProto = (\<lambda>e. lift_result (ip_convertToProto e)),
      rp_updateMeta = iur_UpdateMeta,
      rp_SetChanged = (\<lambda>t e. e\<lparr>b_Changed := t\<rparr>),
      rp_setDeletionTask = (\<lambda>t m. m\<lparr>aip_DeletionTask := Some t\<rparr>)\<rparr>"

lemma on_ips_reads [simp]: "reads_only a \<Longrightarrow> snd (on_ips a w) = w"
  by (auto simp: on_ips_def reads_only_def split: prod.splits) (metis ip_world.surjective ip_world.update_convs(1) old.unit.exhaust snd_conv)

interpretation ip_repo: scoped_repository "ip_operations env it" "\<lambda>w. w"
  by unfold_locales (simp_all add: ip_operations_def)

end
