(* ===== verification/IpProps.thy ===== *)
theory IpProps
  imports IpRepository NetworkProps
begin

text \<open>
  What creating and deleting an IP address does to the table and to the address management
  service, and that the addresses of namespaced networks are never given back.
\<close>

lemma on_ips_ok: "on_ips a w = (Inr x, w') \<longleftrightarrow> (\<exists>st. a (ipw_table w) = (Inr x, st) \<and> w' = w\<lparr>ipw_table := st\<rparr>)"
  by (auto simp: on_ips_def split: prod.splits)

lemma on_ip_ipam_ok:
  "on_ip_ipam f w = (r, w') \<longleftrightarrow> (\<exists>st. f (ipw_ipam w) = (r, st) \<and> w' = w\<lparr>ipw_ipam := st\<rparr>)"
  by (auto simp: on_ip_ipam_def split: prod.splits)

section \<open>Allocation\<close>

text \<open>An address of a prefix was free and is acquired now; nothing else has changed.\<close>

definition takes_address ::
  "('i \<Rightarrow> string option \<times> string \<Rightarrow> string set) \<Rightarrow> 'i \<Rightarrow> 'i \<Rightarrow> string option \<Rightarrow> string \<Rightarrow> string \<Rightarrow> bool" where
  "takes_address acquired st st' ns c x \<longleftrightarrow>
     x \<notin> acquired st (ns, c) \<and> acquired st' = (acquired st)((ns, c) := insert x (acquired st (ns, c))) \<and>
     (\<exists>pfx ad. ParsePrefix c = Some pfx \<and> ParseAddr x = Some ad \<and> prefix_Contains pfx ad)"

context ipam_addresses
begin

lemma random_loop_took:
  "random_loop im ns ps w = (Inr (x, c), w') \<Longrightarrow>
     c \<in> Prefix_String ` set ps \<and> ipw_table w' = ipw_table w \<and> takes_address acquired (ipw_ipam w) (ipw_ipam w') ns c x"
proof (induction ps arbitrary: w)
  case (Cons p ps)
  obtain r st where a: "im_AcquireIP im (Prefix_String p) None ns (ipw_ipam w) = (r, st)" by force
  show ?case
  proof (cases r)
    case (Inl err)
    with a Cons.prems have "random_loop im ns ps (w\<lparr>ipw_ipam := st\<rparr>) = (Inr (x, c), w')"
      by (auto simp: on_ip_ipam_def split: if_splits)
    from Cons.IH [OF this] acquire_err [OF a [unfolded Inl]] show ?thesis by (auto simp: takes_address_def)
  next
    case (Inr y)
    with a Cons.prems have "x = y" "c = Prefix_String p" "w' = w\<lparr>ipw_ipam := st\<rparr>"
      by (auto simp: on_ip_ipam_def)
    with acquire [OF a [unfolded Inr]] acquire_contained [OF a [unfolded Inr]] show ?thesis by (auto simp: takes_address_def)
  qed
qed simp

lemma specific_loop_took:
  "specific_loop im ns s ad ps w = (Inr (x, c), w') \<Longrightarrow>
     c \<in> Prefix_String ` set ps \<and> ipw_table w' = ipw_table w \<and> takes_address acquired (ipw_ipam w) (ipw_ipam w') ns c x \<and>
     ParseAddr x = ParseAddr s"
proof (induction ps)
  case (Cons p ps)
  from Cons.prems obtain pfx where p: "ParsePrefix (Prefix_String p) = Some pfx" by (auto split: option.splits)
  show ?case
  proof (cases "prefix_Contains pfx ad")
    case True
    obtain r st where a: "im_AcquireIP im (Prefix_String p) (Some s) ns (ipw_ipam w) = (r, st)" by force
    with p True Cons.prems obtain y where r: "r = Inr y" and "x = y" "c = Prefix_String p" "w' = w\<lparr>ipw_ipam := st\<rparr>"
      by (cases r) (auto simp: on_ip_ipam_def)
    with acquire [OF a [unfolded r]] acquire_contained [OF a [unfolded r]] acquire_specific [OF a [unfolded r]]
    show ?thesis by (auto simp: takes_address_def)
  next
    case False
    with p Cons show ?thesis by auto
  qed
qed simp

end

lemma OfFamily_strings: "c \<in> Prefix_String ` set (OfFamily ps af) \<Longrightarrow> c \<in> Prefix_String ` set ps"
  by (auto simp: OfFamily_def)

section \<open>Creation\<close>

lemma validate_ip_project_ok:
  "validate_ip_project nw req = Inr () \<Longrightarrow>
     nw_ProjectID nw \<in> {'''', icr_Project req} \<and>
     (nw_ProjectID nw = icr_Project req \<or> nw_NetworkType nw \<in> {NetworkTypeChildShared, NetworkTypeExternal, NetworkTypeUnderlay})"
  by (auto simp: validate_ip_project_def bind_result_ok)

lemma validate_ip_network_type_ok:
  "validate_ip_network_type tok nt = Inr () \<Longrightarrow>
     nt \<in> {NetworkTypeChild, NetworkTypeChildShared, NetworkTypeExternal, NetworkTypeUnderlay} \<and>
     (nt = NetworkTypeUnderlay \<longrightarrow> (\<exists>t. tok = Some t \<and> t_AdminRole t = Some ADMIN_ROLE_EDITOR))"
  by (auto simp: validate_ip_network_type_def split: NetworkType.splits option.splits)

lemma ParseAddr_Nil [simp]: "ParseAddr [] = None"
  by (simp add: ParseAddr_def)

lemma takes_address_parses: "takes_address acquired st st' ns c x \<Longrightarrow> x \<noteq> []"
  by (auto simp: takes_address_def)

lemma ip_create_ok:
  assumes "rethink_table (ie_table env) rows" and "rt_key (ie_table env) = b_ID"
    and "ipam_addresses (ne_ipam (ie_net env)) acquired"
    and "ip_create env req w = (Inr ip, w')" and "ip_network env (icr_Network req) = Inr nw"
  obtains a where
    "rows (ipw_table w) (b_ID ip) = None" "rows (ipw_table w') = (rows (ipw_table w))(b_ID ip \<mapsto> ip)"
    "b_ID ip = CreateNamespacedIPAddress (nw_Namespace nw) a"
    "ip_ProjectID ip = icr_Project req" "ip_NetworkID ip = b_ID nw" "ip_Namespace ip = nw_Namespace nw"
    "ip_ParentPrefixCidr ip \<in> Prefix_String ` set (nw_Prefixes nw)" "ip_Tags ip = requested_tags env req"
    "takes_address acquired (ipw_ipam w) (ipw_ipam w') (nw_Namespace nw) (ip_ParentPrefixCidr ip) a"
    "\<forall>y. icr_Ip req = Some y \<longrightarrow> ParseAddr a = ParseAddr y"
proof -
  note spec = ipam_addresses.random_loop_took [OF assms(3)] ipam_addresses.specific_loop_took [OF assms(3)]
  from assms(4,5) obtain af a c w1 t u st where
    al: "(case icr_Ip req of None \<Rightarrow> allocateRandomIP env nw af | Some y \<Rightarrow> allocateSpecificIP env nw y) w = (Inr (a, c), w1)" and
    cr: "tbl_Create (ie_table env) (ie_now env) (ie_newID env)
       \<lparr>b_ID = CreateNamespacedIPAddress (nw_Namespace nw) a,
        b_Name = pointer_SafeDeref (icr_Name req), b_Description = pointer_SafeDeref (icr_Description req),
        b_Created = 0, b_Changed = 0, b_Generation = 0,
        ip_AllocationUUID = u, ip_Namespace = nw_Namespace nw, ip_ParentPrefixCidr = c,
        ip_ProjectID = icr_Project req, ip_NetworkID = b_ID nw, ip_Type = t,
        ip_Tags = requested_tags env req\<rparr> (ipw_table w1) = (Inr ip, st)" and
    w': "w' = w1\<lparr>ipw_table := st\<rparr>"
    by (auto simp: ip_create_def bind_action_ok on_ips_ok)
  have alloc: "c \<in> Prefix_String ` set (nw_Prefixes nw) \<and> ipw_table w1 = ipw_table w \<and>
      takes_address acquired (ipw_ipam w) (ipw_ipam w1) (nw_Namespace nw) c a \<and>
      (\<forall>y. icr_Ip req = Some y \<longrightarrow> ParseAddr a = ParseAddr y)"
  proof (cases "icr_Ip req")
    case None
    with al have "random_loop (ne_ipam (ie_net env)) (nw_Namespace nw) (OfFamily (nw_Prefixes nw) af) w = (Inr (a, c), w1)"
      by (simp add: allocateRandomIP_def)
    note t = spec(1) [OF this]
    show ?thesis using OfFamily_strings [OF conjunct1 [OF t]] t None by simp
  next
    case (Some y)
    with al obtain ad af' where "specific_loop (ne_ipam (ie_net env)) (nw_Namespace nw) y ad
        (OfFamily (nw_Prefixes nw) af') w = (Inr (a, c), w1)"
      by (auto simp: allocateSpecificIP_def split: option.splits)
    note t = spec(2) [OF this]
    show ?thesis using OfFamily_strings [OF conjunct1 [OF t]] t Some by simp
  qed
  then have "a \<noteq> []" by (elim conjE) (rule takes_address_parses)
  then have id: "CreateNamespacedIPAddress (nw_Namespace nw) a \<noteq> []"
    by (auto simp: CreateNamespacedIPAddress_def namespaceSeparator_def split: option.splits)
  note tc = tbl_Create_ok [OF assms(1) cr, unfolded assms(2)]
  from tc id have bid: "b_ID ip = CreateNamespacedIPAddress (nw_Namespace nw) a" by simp
  obtain i where ip: "ip = \<lparr>b_ID = i, b_Name = pointer_SafeDeref (icr_Name req),
      b_Description = pointer_SafeDeref (icr_Description req), b_Created = ie_now env, b_Changed = ie_now env,
      b_Generation = 0, ip_AllocationUUID = u, ip_Namespace = nw_Namespace nw, ip_ParentPrefixCidr = c,
      ip_ProjectID = icr_Project req, ip_NetworkID = b_ID nw, ip_Type = t, ip_Tags = requested_tags env req\<rparr>"
    using tbl_Create_fields [OF cr] by auto
  have fields: "ip_ProjectID ip = icr_Project req" "ip_NetworkID ip = b_ID nw" "ip_Namespace ip = nw_Namespace nw"
    "ip_ParentPrefixCidr ip = c" "ip_Tags ip = requested_tags env req"
    by (simp_all add: ip)
  show thesis
    by (rule that [of a]) (use conjunct1 [OF tc] conjunct1 [OF conjunct2 [OF tc]] bid fields alloc w' in simp_all)
qed

text \<open>
  C30: An IP address that is created through the store for a project lies in a network that belongs to
  the project, or to none and is shared, external or underlay, the latter only for an admin editor.
  Its address was free in the address management service in a prefix of the network and is acquired
  afterwards, and is the requested one if there is one; the new row was free, is bound to the
  project, the network and the machine of the request, and is the only one that changes; the answer
  has the address without the namespace.
\<close>

theorem created_ip:
  assumes "rethink_table (ie_table env) rows" and "rt_key (ie_table env) = b_ID"
    and "ipam_addresses (ne_ipam (ie_net env)) acquired"
    and "store_Create eu (ip_operations env it) req w = (Inr m, w')"
  shows "\<exists>nw ip. ip_network env (icr_Network req) = Inr nw \<and>
    icr_Project req \<noteq> '''' \<and> nw_ProjectID nw \<in> {'''', icr_Project req} \<and>
    (nw_ProjectID nw = icr_Project req \<or> nw_NetworkType nw \<in> {NetworkTypeChildShared, NetworkTypeExternal, NetworkTypeUnderlay}) \<and>
    (nw_NetworkType nw = NetworkTypeUnderlay \<longrightarrow> (\<exists>t. ie_token env = Some t \<and> t_AdminRole t = Some ADMIN_ROLE_EDITOR)) \<and>
    rows (ipw_table w) (b_ID ip) = None \<and> rows (ipw_table w') = (rows (ipw_table w))(b_ID ip \<mapsto> ip) \<and>
    b_ID ip = CreateNamespacedIPAddress (nw_Namespace nw) (aip_Ip m) \<and>
    ip_ProjectID ip = icr_Project req \<and> ip_NetworkID ip = b_ID nw \<and>
    ip_ParentPrefixCidr ip \<in> Prefix_String ` set (nw_Prefixes nw) \<and>
    takes_address acquired (ipw_ipam w) (ipw_ipam w') (nw_Namespace nw) (ip_ParentPrefixCidr ip) (aip_Ip m) \<and>
    (\<forall>y. icr_Ip req = Some y \<longrightarrow> ParseAddr (aip_Ip m) = ParseAddr y) \<and>
    (\<forall>i. icr_Machine req = Some i \<longrightarrow> HasMachineId (ie_MachineID env) ip i)"
proof -
  from assms(4) obtain ip w1 where v: "ip_validateCreate env req w = Inr ()"
    and c: "ip_create env req w = (Inr ip, w')" and m: "ip_convertToProto ip = Inr m"
    by (auto simp: store_Create_def bind_action_ok on_error_ok ip_operations_def bind_result_ok)
  from v obtain nw where nw: "ip_network env (icr_Network req) = Inr nw" and "validate_ip_project nw req = Inr ()"
    and "validate_ip_network_type (ie_token env) (nw_NetworkType nw) = Inr ()" and "icr_Project req \<noteq> ''''"
    by (auto simp: ip_validateCreate_def bind_result_ok)
  note valid = this(4) validate_ip_project_ok [OF this(2)] validate_ip_network_type_ok [OF this(3)]
  from ip_create_ok [OF assms(1-3) c nw] obtain a where
    a: "rows (ipw_table w) (b_ID ip) = None" "rows (ipw_table w') = (rows (ipw_table w))(b_ID ip \<mapsto> ip)"
    "b_ID ip = CreateNamespacedIPAddress (nw_Namespace nw) a"
    "ip_ProjectID ip = icr_Project req" "ip_NetworkID ip = b_ID nw" "ip_Namespace ip = nw_Namespace nw"
    "ip_ParentPrefixCidr ip \<in> Prefix_String ` set (nw_Prefixes nw)" "ip_Tags ip = requested_tags env req"
    "takes_address acquired (ipw_ipam w) (ipw_ipam w') (nw_Namespace nw) (ip_ParentPrefixCidr ip) a"
    "\<forall>y. icr_Ip req = Some y \<longrightarrow> ParseAddr a = ParseAddr y" by blast
  have "GetIPAddress ip = Inr a" by (rule GetIPAddress_created) (simp add: a)
  with m have ma: "aip_Ip m = a" by (auto simp: ip_convertToProto_def)
  have "HasMachineId (ie_MachineID env) ip i" if "icr_Machine req = Some i" for i
    using that by (simp add: HasMachineId_def Has_def a(8) requested_tags_def)
  then show ?thesis
    by (intro exI [of _ nw] exI [of _ ip] conjI) (use nw valid a ma in \<open>simp_all only:\<close>, blast+)
qed

section \<open>Deletion\<close>

text \<open>The row with an allocation id is the only one, as the ids are UUIDs.\<close>

definition allocation_of :: "(string \<rightharpoonup> IP) \<Rightarrow> string \<Rightarrow> IP \<Rightarrow> bool" where
  "allocation_of rows uuid ip \<longleftrightarrow> {e \<in> ran rows. ip_AllocationUUID e = uuid} = {ip}"

lemma uuid_filter:
  "IpFilter gs m (empty_IPQuery\<lparr>iq_Uuid := Some uuid\<rparr>) e \<longleftrightarrow> ip_AllocationUUID e = uuid"
  by (auto simp: IpFilter_def empty_IPQuery_def matches_field_def family_matches_def)

lemma find_allocation:
  assumes "rethink_table rt rows" and "allocation_of (rows st) uuid ip"
    and "storage_Find rt [IpFilter gs m (empty_IPQuery\<lparr>iq_Uuid := Some uuid\<rparr>)] st = Inr e"
  shows "e = ip"
  using assms(3) rethink_table.run [OF assms(1), of "[IpFilter gs m (empty_IPQuery\<lparr>iq_Uuid := Some uuid\<rparr>)]" st]
    assms(2)
  by (auto simp: storage_Find_def uuid_filter allocation_of_def split: sum.splits list.splits)

lemma not_found_allocation:
  assumes "rethink_table rt rows" and "allocation_of (rows st) uuid ip"
    and "storage_Find rt [IpFilter gs m (empty_IPQuery\<lparr>iq_Uuid := Some uuid\<rparr>)] st = Inl err"
  shows "\<not> IsNotFound err"
proof -
  have "es \<noteq> []" if "rt_Run rt [IpFilter gs m (empty_IPQuery\<lparr>iq_Uuid := Some uuid\<rparr>)] st = Inr es" for es
    using rethink_table.run [OF assms(1) that] assms(2) by (auto simp: uuid_filter allocation_of_def)
  with assms(3) show ?thesis by (auto simp: storage_Find_def split: sum.splits list.splits)
qed

lemma deleted_steps:
  assumes t: "rethink_table (ie_table env) rows" and k: "rt_key (ie_table env) = b_ID"
    and i: "ipam_addresses (ne_ipam (ie_net env)) acquired"
    and a: "allocation_of (rows (ipw_table w)) uuid ip" and d: "IpDeleteHandleFn env uuid w = (Inr (), w')"
  obtains nw where "ip_network env (ip_NetworkID ip) = Inr nw"
    "rows (ipw_table w') = (rows (ipw_table w))(b_ID ip := None)"
    "acquired (ipw_ipam w') = (acquired (ipw_ipam w))
       ((nw_Namespace nw, ip_ParentPrefixCidr ip) :=
          acquired (ipw_ipam w) (nw_Namespace nw, ip_ParentPrefixCidr ip) - {b_ID ip})"
proof -
  let ?q = "[IpFilter (ie_GetStringValue env) (ie_MachineID env) (empty_IPQuery\<lparr>iq_Uuid := Some uuid\<rparr>)]"
  obtain r where r: "storage_Find (ie_table env) ?q (ipw_table w) = r" by blast
  from d r not_found_allocation [OF t a] obtain e where "r = Inr e"
    by (cases r) (auto simp: IpDeleteHandleFn_def split: if_splits)
  with r find_allocation [OF t a] have r: "storage_Find (ie_table env) ?q (ipw_table w) = Inr ip" by auto
  obtain nw w1 where nw: "ip_network env (ip_NetworkID ip) = Inr nw"
    and rel: "ignore_not_found (on_ip_ipam (im_ReleaseIP (ne_ipam (ie_net env))
            (ip_ParentPrefixCidr ip) (b_ID ip) (nw_Namespace nw))) w = (Inr (), w1)"
    and del: "ignore_not_found (on_ips (tbl_Delete (ie_table env) ip)) w1 = (Inr (), w')"
    using d r by (auto simp: IpDeleteHandleFn_def bind_action_ok on_error_ok)
  obtain x st where x: "im_ReleaseIP (ne_ipam (ie_net env)) (ip_ParentPrefixCidr ip) (b_ID ip) (nw_Namespace nw)
      (ipw_ipam w) = (x, st)" by force
  have acq: "acquired st = (acquired (ipw_ipam w)) ((nw_Namespace nw, ip_ParentPrefixCidr ip) :=
      acquired (ipw_ipam w) (nw_Namespace nw, ip_ParentPrefixCidr ip) - {b_ID ip}) \<and> w1 = w\<lparr>ipw_ipam := st\<rparr>"
  proof (cases x)
    case (Inl err)
    with rel x have "IsNotFound err" "w1 = w\<lparr>ipw_ipam := st\<rparr>"
      by (auto simp: ignore_not_found_def on_ip_ipam_def split: if_splits)
    with ipam_addresses.release_err [OF i x [unfolded Inl]] show ?thesis by (simp add: fun_upd_idem)
  next
    case (Inr u)
    with rel x have "w1 = w\<lparr>ipw_ipam := st\<rparr>" by (auto simp: ignore_not_found_def on_ip_ipam_def)
    with ipam_addresses.release [OF i, of _ _ _ "ipw_ipam w" st] x Inr show ?thesis by simp
  qed
  obtain y st2 where y: "tbl_Delete (ie_table env) ip (ipw_table w) = (y, st2)" by force
  have "y = Inr () \<and> rows st2 = (rows (ipw_table w))(b_ID ip := None) \<and> w' = w1\<lparr>ipw_table := st2\<rparr>"
    using y del acq rethink_table.delete [OF t]
    by (auto simp: tbl_Delete_def storage_Delete_def ignore_not_found_def on_ips_def split: sum.splits prod.splits if_splits)
  with acq nw that show thesis by simp
qed

text \<open>
  When the deletion task of an address in a network without a namespace succeeds, its row is gone
  and its address is free in the address management service, and no other row and no other address
  is affected.
\<close>

theorem plain_ip_deleted:
  assumes "rethink_table (ie_table env) rows" and "rt_key (ie_table env) = b_ID"
    and "ipam_addresses (ne_ipam (ie_net env)) acquired"
    and "allocation_of (rows (ipw_table w)) uuid ip" and "ip_network env (ip_NetworkID ip) = Inr nw"
    and "nw_Namespace nw = None" and "b_ID ip = CreateNamespacedIPAddress (nw_Namespace nw) a"
    and "IpDeleteHandleFn env uuid w = (Inr (), w')"
  shows "rows (ipw_table w') = (rows (ipw_table w))(b_ID ip := None) \<and>
    acquired (ipw_ipam w') = (acquired (ipw_ipam w))
      ((None, ip_ParentPrefixCidr ip) := acquired (ipw_ipam w) (None, ip_ParentPrefixCidr ip) - {a})"
proof -
  from deleted_steps [OF assms(1-4,8)] obtain nw' where "ip_network env (ip_NetworkID ip) = Inr nw'"
    and "rows (ipw_table w') = (rows (ipw_table w))(b_ID ip := None)"
    and "acquired (ipw_ipam w') = (acquired (ipw_ipam w)) ((nw_Namespace nw', ip_ParentPrefixCidr ip) :=
      acquired (ipw_ipam w) (nw_Namespace nw', ip_ParentPrefixCidr ip) - {b_ID ip})" .
  with assms(5-7) show ?thesis by (simp add: CreateNamespacedIPAddress_def)
qed

text \<open>An address other than the id stays acquired, however the service answers and wherever the task stops.\<close>

lemma address_stays:
  assumes t: "rethink_table (ie_table env) rows" and i: "ipam_addresses (ne_ipam (ie_net env)) acquired"
    and a: "allocation_of (rows (ipw_table w)) uuid ip" and x: "x \<in> acquired (ipw_ipam w) k" "b_ID ip \<noteq> x"
    and d: "IpDeleteHandleFn env uuid w = (r, w')"
  shows "x \<in> acquired (ipw_ipam w') k"
proof -
  let ?in = "\<lambda>w. x \<in> acquired (ipw_ipam w) k"
  let ?release = "\<lambda>nw. on_ip_ipam (im_ReleaseIP (ne_ipam (ie_net env)) (ip_ParentPrefixCidr ip) (b_ID ip) (nw_Namespace nw))"
  have ignore: "snd (ignore_not_found b w1) = snd (b w1)" for b :: "('e, unit) action" and w1
    by (simp add: ignore_not_found_def split: prod.split sum.split)
  have bind: "?in (snd (bind_action b f w1))" if "?in (snd (b w1))" "\<And>y w2. ?in w2 \<Longrightarrow> ?in (snd (f y w2))"
    for b :: "('a, 'd, 'x) ip_action" and f :: "'x \<Rightarrow> ('a, 'd, unit) ip_action" and w1
    using that by (auto simp: bind_action_def split: prod.splits sum.splits)
  have release: "?in (snd (?release nw w1))" if "?in w1" for nw w1
  proof -
    obtain u st where u: "im_ReleaseIP (ne_ipam (ie_net env)) (ip_ParentPrefixCidr ip) (b_ID ip) (nw_Namespace nw) (ipw_ipam w1) = (u, st)"
      by fastforce
    have "x \<in> acquired st k"
    proof (cases u)
      case (Inl err)
      from ipam_addresses.release_err [OF i u [unfolded Inl]] that show ?thesis by simp
    next
      case (Inr v)
      with u have "im_ReleaseIP (ne_ipam (ie_net env)) (ip_ParentPrefixCidr ip) (b_ID ip) (nw_Namespace nw) (ipw_ipam w1) = (Inr (), st)"
        by simp
      from ipam_addresses.release [OF i this] that x(2) show ?thesis by auto
    qed
    with u show ?thesis by (simp add: on_ip_ipam_def)
  qed
  have delete: "?in (snd (on_ips (tbl_Delete (ie_table env) ip) w1))" if "?in w1" for w1
    using that by (simp add: on_ips_def Let_def split: prod.split)
  have "?in (snd (bind_action (on_error (Wrapped ''unable to retrieve parent network: %w'') (lift_result (ip_network env (ip_NetworkID ip))))
      (\<lambda>nw. bind_action (ignore_not_found (?release nw)) (\<lambda>_. ignore_not_found (on_ips (tbl_Delete (ie_table env) ip)))) w))"
    by (rule bind) (simp_all add: x(1), rule bind, simp_all add: ignore release delete)
  moreover have "e = ip" if "storage_Find (ie_table env) [IpFilter (ie_GetStringValue env) (ie_MachineID env)
      (empty_IPQuery\<lparr>iq_Uuid := Some uuid\<rparr>)] (ipw_table w) = Inr e" for e
    using find_allocation [OF t a that] .
  ultimately have "?in (snd (IpDeleteHandleFn env uuid w))"
    using x(1) by (auto simp: IpDeleteHandleFn_def split: sum.split)
  with d show ?thesis by simp
qed

text \<open>
  C31: The address of an IP in a namespaced network is never given back by its deletion task. The task releases
  the stored id, which has the namespace in it and so is not the address, and whatever the service answers to that
  and wherever the task stops, the address stays acquired in the namespace; when the task reports
  success, the row is gone, so that nothing is left that a later task could release. That a release gives back at most the address it names is the documentation's promise.
\<close>

theorem namespaced_ip_leaked:
  assumes "rethink_table (ie_table env) rows" and "rt_key (ie_table env) = b_ID"
    and "ipam_addresses (ne_ipam (ie_net env)) acquired"
    and "allocation_of (rows (ipw_table w)) uuid ip" and "ip_network env (ip_NetworkID ip) = Inr nw"
    and "nw_Namespace nw = Some ns" and "b_ID ip = CreateNamespacedIPAddress (nw_Namespace nw) a"
    and "a \<in> acquired (ipw_ipam w) (Some ns, ip_ParentPrefixCidr ip)"
    and "IpDeleteHandleFn env uuid w = (r, w')"
  shows "b_ID ip \<noteq> a \<and> a \<in> acquired (ipw_ipam w') (Some ns, ip_ParentPrefixCidr ip) \<and>
    (r = Inr () \<longrightarrow> rows (ipw_table w') (b_ID ip) = None)"
proof (intro conjI impI)
  show "b_ID ip \<noteq> a"
    using assms(6,7) by (auto simp: CreateNamespacedIPAddress_def namespaceSeparator_def dest: arg_cong [of _ _ length])
  from address_stays [OF assms(1,3,4,8) this assms(9)]
  show "a \<in> acquired (ipw_ipam w') (Some ns, ip_ParentPrefixCidr ip)" .
  assume "r = Inr ()"
  with assms(9) have "IpDeleteHandleFn env uuid w = (Inr (), w')" by simp
  from deleted_steps [OF assms(1-4) this] have "rows (ipw_table w') = (rows (ipw_table w))(b_ID ip := None)" by blast
  then show "rows (ipw_table w') (b_ID ip) = None" by simp
qed

section \<open>Examples\<close>

definition example_net :: "string option \<Rightarrow> Network" where
  "example_net ns = new_Network\<lparr>b_ID := ''net'', nw_NetworkType := NetworkTypeChild, nw_ProjectID := ''p1'',
     nw_Namespace := ns, nw_Prefixes := [\<lparr>pf_IP = ''10.0.0.0'', pf_Length = ''8''\<rparr>]\<rparr>"

definition example_ip_net :: "(Network list, uint list, address_list) network_env" where
  "example_ip_net = \<lparr>ne_enums = example_enums, ne_table = list_rethink b_ID, ne_pool_table = list_rethink (\<lambda>v. v),
     ne_pool = \<lparr>ip_min = 1, ip_max = 131072\<rparr>, ne_retry = (\<lambda>f. f), ne_ipam = address_ipam ''10.0.0.9'',
     ne_PrefixesOverlapping = example_overlapping, ne_project = (\<lambda>_. Inr ()), ne_partition = (\<lambda>_. Inr ()),
     ne_ips = (\<lambda>_. Inr 0), ne_machines = (\<lambda>_. Inr 0), ne_scope = None, ne_now = 5, ne_newID = Inr ''x''\<rparr>"

definition example_ip_env :: "string option \<Rightarrow> (IP list, Network list, uint list, address_list) ip_env" where
  "example_ip_env ns = \<lparr>ie_table = list_rethink b_ID, ie_net = example_ip_net, ie_networks = [example_net ns],
     ie_scope = None, ie_token = None, ie_MachineID = ''machine'', ie_GetStringValue = (\<lambda>_. Inr Static),
     ie_now = 5, ie_newID = Inr ''u1''\<rparr>"

definition example_ip :: "string option \<Rightarrow> IP" where
  "example_ip ns = \<lparr>b_ID = CreateNamespacedIPAddress ns ''10.0.0.9'', b_Name = '''', b_Description = '''',
     b_Created = 5, b_Changed = 5, b_Generation = 0, ip_AllocationUUID = ''u1'', ip_Namespace = ns,
     ip_ParentPrefixCidr = ''10.0.0.0/8'', ip_ProjectID = ''p1'', ip_NetworkID = ''net'', ip_Type = Ephemeral,
     ip_Tags = [''machine=m1'']\<rparr>"

definition example_ip_world :: "string option \<Rightarrow> (IP list, address_list) ip_world" where
  "example_ip_world ns = \<lparr>ipw_table = [example_ip ns], ipw_ipam = [((ns, ''10.0.0.0/8''), ''10.0.0.9'')]\<rparr>"

definition example_ip_request :: IPServiceCreateRequest where
  "example_ip_request = \<lparr>icr_Network = ''net'', icr_Project = ''p1'', icr_Name = None, icr_Description = None,
     icr_Ip = None, icr_Machine = Some ''m1'', icr_Labels = None, icr_Type = None, icr_AddressFamily = None\<rparr>"

lemma example_ip_setting:
  "rethink_table (ie_table (example_ip_env ns)) (list_rows b_ID)"
  "rt_key (ie_table (example_ip_env ns)) = b_ID"
  "ipam_addresses (ne_ipam (ie_net (example_ip_env ns))) address_list_acquired"
  "ip_network (example_ip_env ns) ''net'' = Inr (example_net ns)"
proof -
  show "rethink_table (ie_table (example_ip_env ns)) (list_rows b_ID)"
    "ipam_addresses (ne_ipam (ie_net (example_ip_env ns))) address_list_acquired"
    by (simp_all add: example_ip_env_def example_ip_net_def list_table.rethink_table_axioms
        address_ipam.ipam_addresses_axioms)
qed (simp_all add: example_ip_env_def example_ip_net_def ip_network_def nw_get_def storage_Get_def list_rethink_def
  list_rows_def example_net_def)

lemma example_ip_parsed:
  "ParseAddr ''10.0.0.9'' = Some (V4 167772169)"
  "contained_in ''10.0.0.0/8'' ''10.0.0.9''"
  by (simp_all add: parse_defs contained_in_def external_parsed prefix_Contains_def mask_word_def)

lemma example_ip_created:
  "\<exists>m. store_Create plain_errorutil (ip_operations (example_ip_env None) it) example_ip_request
       \<lparr>ipw_table = [], ipw_ipam = []\<rparr> = (Inr m, example_ip_world None)"
proof -
  have nw: "nw_Prefixes (example_net None) = [\<lparr>pf_IP = ''10.0.0.0'', pf_Length = ''8''\<rparr>]"
    "nw_Namespace (example_net None) = None" "b_ID (example_net None) = ''net''"
    "nw_ProjectID (example_net None) = ''p1''" "nw_NetworkType (example_net None) = NetworkTypeChild"
    by (simp_all add: example_net_def)
  have fam: "AddressFamilies [\<lparr>pf_IP = ''10.0.0.0'', pf_Length = ''8''\<rparr>] = [AddressFamilyIPv4]"
    "OfFamily [\<lparr>pf_IP = ''10.0.0.0'', pf_Length = ''8''\<rparr>] AddressFamilyIPv4 = [\<lparr>pf_IP = ''10.0.0.0'', pf_Length = ''8''\<rparr>]"
    by (simp_all add: AddressFamilies_def OfFamily_def Prefix_String_def external_parsed addr_family_def Is6_def)
  have ips: "ipsAvailable (ie_net (example_ip_env None)) ''net'' (ie_networks (example_ip_env None)) [] = Inr ()"
    using example_ip_setting(4) [of None]
    by (simp add: ip_network_def ipsAvailable_def nw) (simp add: example_ip_env_def example_ip_net_def address_ipam_def)
  have v: "ip_validateCreate (example_ip_env None) example_ip_request \<lparr>ipw_table = [], ipw_ipam = []\<rparr> = Inr ()"
    by (simp add: ip_validateCreate_def example_ip_request_def example_ip_setting validate_ip_project_def nw ips
        validate_ip_family_def validate_ip_network_type_def)
  have al: "allocateRandomIP (example_ip_env None) (example_net None) AddressFamilyIPv4 \<lparr>ipw_table = [], ipw_ipam = []\<rparr> =
      (Inr (''10.0.0.9'', ''10.0.0.0/8''), \<lparr>ipw_table = [], ipw_ipam = [((None, ''10.0.0.0/8''), ''10.0.0.9'')]\<rparr>)"
    by (simp add: allocateRandomIP_def nw fam example_ip_env_def example_ip_net_def address_ipam_def on_ip_ipam_def
        Prefix_String_def example_ip_parsed Let_def)
  have c: "ip_create (example_ip_env None) example_ip_request \<lparr>ipw_table = [], ipw_ipam = []\<rparr> =
      (Inr (example_ip None), example_ip_world None)"
    by (simp add: ip_create_def bind_action_def example_ip_request_def example_ip_setting requested_family_def nw fam al
        ToIPType_def)
      (simp add: on_ips_def example_ip_env_def tbl_Create_def storage_Create_def list_rethink_def list_rows_def Let_def setCreated_def
        setChanged_def setGeneration_def CreateNamespacedIPAddress_def pointer_SafeDeref_def requested_tags_def IpTag_def
        example_ip_def example_ip_world_def)
  show ?thesis
    by (simp add: store_Create_def bind_action_def on_error_def ip_operations_def v c)
      (simp add: ip_convertToProto_def example_ip_def CreateNamespacedIPAddress_def)
qed

theorem created_ip_witness:
  "\<exists>ip. list_rows b_ID (ipw_table (example_ip_world None)) (b_ID ip) = Some ip \<and> ip_ProjectID ip = ''p1'' \<and>
     HasMachineId ''machine'' ip ''m1''"
proof -
  from example_ip_created obtain m where c: "store_Create plain_errorutil (ip_operations (example_ip_env None) it)
      example_ip_request \<lparr>ipw_table = [], ipw_ipam = []\<rparr> = (Inr m, example_ip_world None)" by blast
  from created_ip [OF example_ip_setting(1-3) c] show ?thesis
    by (elim exE conjE) (intro exI conjI; simp add: example_ip_request_def example_ip_env_def)
qed

lemma example_ip_allocation: "allocation_of (list_rows b_ID (ipw_table (example_ip_world ns))) ''u1'' (example_ip ns)"
  unfolding allocation_of_def list_rows_ran by (auto simp: example_ip_world_def list_rows_def example_ip_def)

lemma example_ip_deleted:
  "IpDeleteHandleFn (example_ip_env ns) ''u1'' (example_ip_world ns) =
     (Inr (), \<lparr>ipw_table = [], ipw_ipam = (if ns = None then [] else [((ns, ''10.0.0.0/8''), ''10.0.0.9'')])\<rparr>)"
proof -
  have find: "storage_Find (ie_table (example_ip_env ns))
      [IpFilter (ie_GetStringValue (example_ip_env ns)) (ie_MachineID (example_ip_env ns)) (empty_IPQuery\<lparr>iq_Uuid := Some ''u1''\<rparr>)]
      (ipw_table (example_ip_world ns)) = Inr (example_ip ns)"
    by (simp add: storage_Find_def example_ip_env_def list_rethink_def list_rows_def example_ip_world_def uuid_filter
        example_ip_def)
  have net: "ip_NetworkID (example_ip ns) = ''net''" "nw_Namespace (example_net ns) = ns"
    "ip_ParentPrefixCidr (example_ip ns) = ''10.0.0.0/8''"
    by (simp_all add: example_ip_def example_net_def)
  have rel: "ignore_not_found (on_ip_ipam (im_ReleaseIP (ne_ipam (ie_net (example_ip_env ns))) ''10.0.0.0/8''
        (b_ID (example_ip ns)) ns)) (example_ip_world ns) =
      (Inr (), \<lparr>ipw_table = [example_ip ns],
        ipw_ipam = (if ns = None then [] else [((ns, ''10.0.0.0/8''), ''10.0.0.9'')])\<rparr>)"
    by (cases ns) (auto simp: ignore_not_found_def on_ip_ipam_def example_ip_env_def example_ip_net_def address_ipam_def
        example_ip_world_def example_ip_def CreateNamespacedIPAddress_def namespaceSeparator_def
        dest: arg_cong [of _ _ length])
  show ?thesis
    by (simp add: IpDeleteHandleFn_def find bind_action_def on_error_def example_ip_setting net rel)
      (simp add: ignore_not_found_def on_ips_def tbl_Delete_def storage_Delete_def example_ip_env_def list_rethink_def
        list_without_def)
qed

theorem plain_ip_deleted_witness:
  "address_list_acquired [((None, ''10.0.0.0/8''), ''10.0.0.9'')] (None, ''10.0.0.0/8'') - {''10.0.0.9''} = {}"
proof -
  have "ip_network (example_ip_env None) (ip_NetworkID (example_ip None)) = Inr (example_net None)"
    "nw_Namespace (example_net None) = None"
    "b_ID (example_ip None) = CreateNamespacedIPAddress (nw_Namespace (example_net None)) ''10.0.0.9''"
    by (simp_all add: example_ip_setting example_ip_def example_net_def CreateNamespacedIPAddress_def)
  from plain_ip_deleted [OF example_ip_setting(1-3) example_ip_allocation this example_ip_deleted]
  show ?thesis by (simp add: example_ip_world_def example_ip_def address_list_acquired_def fun_eq_iff)
qed

theorem namespaced_ip_leaked_witness:
  "\<exists>w'. IpDeleteHandleFn (example_ip_env (Some ''ns'')) ''u1'' (example_ip_world (Some ''ns'')) = (Inr (), w') \<and>
     ipw_table w' = [] \<and> ''10.0.0.9'' \<in> address_list_acquired (ipw_ipam w') (Some ''ns'', ''10.0.0.0/8'')"
proof -
  let ?ns = "Some ''ns''"
  have "ip_network (example_ip_env ?ns) (ip_NetworkID (example_ip ?ns)) = Inr (example_net ?ns)"
    "nw_Namespace (example_net ?ns) = Some ''ns''"
    "b_ID (example_ip ?ns) = CreateNamespacedIPAddress (nw_Namespace (example_net ?ns)) ''10.0.0.9''"
    "''10.0.0.9'' \<in> address_list_acquired (ipw_ipam (example_ip_world ?ns)) (Some ''ns'', ip_ParentPrefixCidr (example_ip ?ns))"
    by (simp_all add: example_ip_setting example_ip_def example_net_def example_ip_world_def address_list_acquired_def)
  from namespaced_ip_leaked [OF example_ip_setting(1-3) example_ip_allocation this example_ip_deleted]
  show ?thesis by (simp add: example_ip_deleted example_ip_def)
qed

end
