(* ===== verification/Glob.thy ===== *)
theory Glob
  imports Prelude
begin

text \<open>
  A model of \<open>filepath.Match\<close> of Go's standard library, which the identifiers of size constraints
  are matched with. A pattern is cut into chunks, each after any number of stars; a chunk is
  matched at the first place where it fits, and a star does not skip a slash. Texts are sequences
  of ASCII characters.
\<close>

datatype glob_error = ErrBadPattern

datatype glob_item =
    AnyChar \<comment> \<open>any character but a slash\<close>
  | Lit char
  | Class bool "(char \<times> char) list" \<comment> \<open>negated, and the ranges\<close>

text \<open>\<open>scanChunk\<close>: whether stars come first, the chunk up to the next star outside a class, and the rest.\<close>

fun chunk_end :: "bool \<Rightarrow> string \<Rightarrow> string \<times> string" where
  "chunk_end inrange [] = ([], [])"
| "chunk_end inrange (c # cs) =
     (if c = CHR 0x5C
      then (case cs of [] \<Rightarrow> ([c], [])
            | d # ds \<Rightarrow> (let (a, b) = chunk_end inrange ds in (c # d # a, b)))
      else if c = CHR ''*'' \<and> \<not> inrange then ([], c # cs)
      else (let (a, b) = chunk_end (if c = CHR ''['' then True else if c = CHR '']'' then False else inrange) cs
            in (c # a, b)))"

definition scanChunk :: "string \<Rightarrow> bool \<times> string \<times> string" where
  "scanChunk p =
     (let q = dropWhile (\<lambda>c. c = CHR ''*'') p; (chunk, rest) = chunk_end False q
      in (q \<noteq> p, chunk, rest))"

text \<open>\<open>getEsc\<close>: a possibly escaped character of a class, which something must follow.\<close>

definition getEsc :: "string \<Rightarrow> (char \<times> string) option" where
  "getEsc chunk =
     (case chunk of
        [] \<Rightarrow> None
      | c # cs \<Rightarrow>
          if c = CHR ''-'' \<or> c = CHR '']'' then None
          else if c = CHR 0x5C then (case cs of d # e # es \<Rightarrow> Some (d, e # es) | _ \<Rightarrow> None)
          else if cs = [] then None else Some (c, cs))"

definition range :: "string \<Rightarrow> ((char \<times> char) \<times> string) option" where
  "range chunk =
     (case getEsc chunk of
        None \<Rightarrow> None
      | Some (lo, rest) \<Rightarrow>
          if hd rest = CHR ''-''
          then (case getEsc (tl rest) of None \<Rightarrow> None | Some (hi, rest) \<Rightarrow> Some ((lo, hi), rest))
          else Some ((lo, lo), rest))"

lemma getEsc_shorter: "getEsc chunk = Some (c, rest) \<Longrightarrow> length rest < length chunk \<and> rest \<noteq> []"
  by (auto simp: getEsc_def split: list.splits if_splits)

lemma range_shorter: "range chunk = Some (r, rest) \<Longrightarrow> length rest < length chunk"
  by (auto simp: range_def split: option.splits if_splits dest!: getEsc_shorter)

function class_ranges :: "nat \<Rightarrow> string \<Rightarrow> ((char \<times> char) list \<times> string) option" where
  "class_ranges n chunk =
     (if n > 0 \<and> chunk \<noteq> [] \<and> hd chunk = CHR '']'' then Some ([], tl chunk)
      else
        (case range chunk of
           None \<Rightarrow> None
         | Some (r, rest) \<Rightarrow>
             (case class_ranges (n + 1) rest of
                None \<Rightarrow> None
              | Some (rs, rest) \<Rightarrow> Some (r # rs, rest))))"
  by pat_completeness auto
termination by (relation "measure (\<lambda>(n, chunk). length chunk)") (auto dest: range_shorter)

declare class_ranges.simps [simp del]

lemma class_ranges_shorter: "class_ranges n chunk = Some (rs, rest) \<Longrightarrow> length rest < length chunk"
proof (induction n chunk arbitrary: rs rest rule: class_ranges.induct)
  case (1 n chunk)
  show ?case
  proof (cases "n > 0 \<and> chunk \<noteq> [] \<and> hd chunk = CHR '']''")
    case True
    with "1.prems" show ?thesis by (subst (asm) class_ranges.simps) (auto simp: neq_Nil_conv)
  next
    case False
    with "1.prems" obtain r y rs' where r: "Glob.range chunk = Some (r, y)" and y: "class_ranges (n + 1) y = Some (rs', rest)"
      by (subst (asm) class_ranges.simps) (simp only: if_False, auto split: option.splits)
    from "1.IH" [OF False r refl y] range_shorter [OF r] show ?thesis by simp
  qed
qed

text \<open>A chunk as a list of items.\<close>

function chunk_items :: "string \<Rightarrow> glob_item list option" where
  "chunk_items chunk =
     (case chunk of
        [] \<Rightarrow> Some []
      | c # cs \<Rightarrow>
          if c = CHR ''[''
          then
            (let negated = (cs \<noteq> [] \<and> hd cs = CHR ''^'')
             in case class_ranges 0 (if negated then tl cs else cs) of
                  None \<Rightarrow> None
                | Some (rs, rest) \<Rightarrow> map_option (Cons (Class negated rs)) (chunk_items rest))
          else if c = CHR ''?'' then map_option (Cons AnyChar) (chunk_items cs)
          else if c = CHR 0x5C
          then (case cs of [] \<Rightarrow> None | d # ds \<Rightarrow> map_option (Cons (Lit d)) (chunk_items ds))
          else map_option (Cons (Lit c)) (chunk_items cs))"
  by pat_completeness auto
termination
  by (relation "measure length") (auto dest!: class_ranges_shorter split: if_splits)

declare chunk_items.simps [simp del]

lemma chunk_items_simps [simp]:
  "chunk_items [] = Some []"
  "c \<noteq> CHR ''['' \<Longrightarrow> c \<noteq> CHR ''?'' \<Longrightarrow> c \<noteq> CHR 0x5C \<Longrightarrow>
     chunk_items (c # cs) = map_option (Cons (Lit c)) (chunk_items cs)"
  "chunk_items (CHR ''?'' # cs) = map_option (Cons AnyChar) (chunk_items cs)"
  by (subst chunk_items.simps; simp)+

fun item_matches :: "glob_item \<Rightarrow> char \<Rightarrow> bool" where
  "item_matches AnyChar c = (c \<noteq> CHR ''/'')"
| "item_matches (Lit d) c = (d = c)"
| "item_matches (Class negated rs) c =
     (list_ex (\<lambda>(lo, hi). of_char lo \<le> (of_char c :: nat) \<and> (of_char c :: nat) \<le> of_char hi) rs \<noteq> negated)"

text \<open>\<open>matchChunk\<close>: what is left of the name after the chunk.\<close>

fun match_items :: "glob_item list \<Rightarrow> string \<Rightarrow> string option" where
  "match_items [] s = Some s"
| "match_items (i # is) [] = None"
| "match_items (i # is) (c # s) = (if item_matches i c then match_items is s else None)"

definition matchChunk :: "string \<Rightarrow> string \<Rightarrow> glob_error + string option" where
  "matchChunk chunk s = (case chunk_items chunk of None \<Rightarrow> Inl ErrBadPattern | Some is \<Rightarrow> Inr (match_items is s))"

text \<open>A star skips characters up to a slash until the chunk fits, at the end if it is the last.\<close>

fun skip_match :: "glob_item list \<Rightarrow> bool \<Rightarrow> string \<Rightarrow> string option" where
  "skip_match is final [] = None"
| "skip_match is final (c # s) =
     (if c = CHR ''/'' then None
      else
        (case match_items is s of
           Some t \<Rightarrow> if final \<and> t \<noteq> [] then skip_match is final s else Some t
         | None \<Rightarrow> skip_match is final s))"

lemma chunk_end_length: "chunk_end b p = (x, rest) \<Longrightarrow> length rest + length x = length p"
  by (induction b p arbitrary: x rest rule: chunk_end.induct)
    (auto simp: Let_def split: if_splits list.splits prod.splits)

lemma scanChunk_shorter:
  assumes "scanChunk (c # cs) = (star, chunk, rest)"
  shows "length rest < length (c # cs)"
proof -
  let ?q = "dropWhile (\<lambda>c. c = CHR ''*'') (c # cs)"
  have e: "chunk_end False ?q = (chunk, rest)"
    using assms by (auto simp: scanChunk_def Let_def split: prod.splits)
  show ?thesis
  proof (cases "c = CHR ''*''")
    case True
    with chunk_end_length [OF e] length_dropWhile_le [of "\<lambda>c. c = CHR ''*''" cs] show ?thesis by simp
  next
    case False
    with e have "chunk \<noteq> []" by (auto simp: Let_def split: if_splits list.splits prod.splits)
    with chunk_end_length [OF e] False show ?thesis by (cases chunk) auto
  qed
qed

text \<open>The chunks of a pattern; a bad one makes the pattern bad.\<close>

function pattern_chunks :: "string \<Rightarrow> (bool \<times> glob_item list) list option" where
  "pattern_chunks [] = Some []"
| "pattern_chunks (c # cs) =
     (let (star, chunk, rest) = scanChunk (c # cs)
      in case chunk_items chunk of
           None \<Rightarrow> None
         | Some is \<Rightarrow> map_option (Cons (star, is)) (pattern_chunks rest))"
  by pat_completeness auto

termination
  by (relation "measure length") (simp_all add: scanChunk_shorter [simplified] del: length_Cons, metis length_Cons scanChunk_shorter)

text \<open>\<open>Match\<close>, on the chunks.\<close>

fun match_chunks :: "(bool \<times> glob_item list) list \<Rightarrow> string \<Rightarrow> bool" where
  "match_chunks [] name = (name = [])"
| "match_chunks ((star, is) # chunks) name =
     (if star \<and> is = [] then CHR ''/'' \<notin> set name
      else
        (case match_items is name of
           Some t \<Rightarrow>
             if t = [] \<or> chunks \<noteq> [] then match_chunks chunks t
             else if star then (case skip_match is True name of None \<Rightarrow> False | Some t \<Rightarrow> match_chunks chunks t)
             else False
         | None \<Rightarrow>
             if star
             then (case skip_match is (chunks = []) name of None \<Rightarrow> False | Some t \<Rightarrow> match_chunks chunks t)
             else False))"

definition filepath_Match :: "string \<Rightarrow> string \<Rightarrow> glob_error + bool" where
  "filepath_Match pattern name =
     (case pattern_chunks pattern of None \<Rightarrow> Inl ErrBadPattern | Some chunks \<Rightarrow> Inr (match_chunks chunks name))"

lemma glob_star: "filepath_Match ''*'' name = Inr (CHR ''/'' \<notin> set name)"
  by (simp add: filepath_Match_def scanChunk_def)

end
