(* ===== verification/Sizes.thy ===== *)
theory Sizes
  imports Glob MachineData Labels
begin

text \<open>
  Machine sizes, \<^verbatim>\<open>pkg/db/metal/size.go\<close>: constraints on the hardware, their validation and overlap,
  and the size that hardware has. Capacities are 64 bit sums.
\<close>

section \<open>Data\<close>

type_synonym ConstraintType = string

definition CoreConstraint :: ConstraintType where "CoreConstraint = ''cores''"
definition MemoryConstraint :: ConstraintType where "MemoryConstraint = ''memory''"
definition StorageConstraint :: ConstraintType where "StorageConstraint = ''storage''"
definition GPUConstraint :: ConstraintType where "GPUConstraint = ''gpu''"

lemmas constraint_types = CoreConstraint_def MemoryConstraint_def StorageConstraint_def GPUConstraint_def

definition allConstraintTypes :: "ConstraintType list" where
  "allConstraintTypes = [CoreConstraint, MemoryConstraint, StorageConstraint, GPUConstraint]"

record Constraint =
  cn_Type :: ConstraintType
  cn_Min :: "64 word"
  cn_Max :: "64 word"
  cn_Identifier :: string

record Size = Base +
  sz_Constraints :: "Constraint list"
  sz_Labels :: Labels

section \<open>Conversion of constraints\<close>

datatype ApiSizeConstraintType =
    SIZE_CONSTRAINT_TYPE_UNSPECIFIED | SIZE_CONSTRAINT_TYPE_CORES | SIZE_CONSTRAINT_TYPE_MEMORY
  | SIZE_CONSTRAINT_TYPE_STORAGE | SIZE_CONSTRAINT_TYPE_GPU | SIZE_CONSTRAINT_TYPE_NUMBER int

record ApiSizeConstraint =
  asc_Type :: ApiSizeConstraintType
  asc_Min :: "64 word"
  asc_Max :: "64 word"
  asc_Identifier :: "string option"

definition FromConstraint :: "(string \<Rightarrow> ApiSizeConstraintType result) \<Rightarrow> Constraint \<Rightarrow> ApiSizeConstraint result" where
  "FromConstraint GetEnum c =
     bind_result (GetEnum (cn_Type c)) (\<lambda>t.
     Inr \<lparr>asc_Type = t, asc_Min = cn_Min c, asc_Max = cn_Max c,
       asc_Identifier = (if cn_Identifier c = '''' then None else Some (cn_Identifier c))\<rparr>)"

definition ToConstraint :: "ApiSizeConstraint \<Rightarrow> Constraint result" where
  "ToConstraint c =
     bind_result
       (case asc_Type c of
          SIZE_CONSTRAINT_TYPE_CORES \<Rightarrow> Inr CoreConstraint
        | SIZE_CONSTRAINT_TYPE_GPU \<Rightarrow> Inr GPUConstraint
        | SIZE_CONSTRAINT_TYPE_MEMORY \<Rightarrow> Inr MemoryConstraint
        | SIZE_CONSTRAINT_TYPE_STORAGE \<Rightarrow> Inr StorageConstraint
        | _ \<Rightarrow> Inl (Plain ''given constraint has unknown type %q'')) (\<lambda>t.
     Inr \<lparr>cn_Type = t, cn_Min = asc_Min c, cn_Max = asc_Max c,
       cn_Identifier = (case asc_Identifier c of None \<Rightarrow> '''' | Some i \<Rightarrow> i)\<rparr>)"

section \<open>Overlap of sizes\<close>

definition Constraint_overlaps :: "Constraint \<Rightarrow> Constraint \<Rightarrow> bool" where
  "Constraint_overlaps c other =
     (if cn_Type c \<noteq> cn_Type other then False
      else if cn_Identifier c \<noteq> cn_Identifier other then False
      else if cn_Min c > cn_Max other then False
      else if cn_Max c < cn_Min other then False
      else True)"

text \<open>\<open>lo.GroupBy\<close> of the constraints by their type; the loops over a group stop at the first miss.\<close>

definition by_type :: "Constraint list \<Rightarrow> (ConstraintType, Constraint list) gomap" where
  "by_type cs = fold (\<lambda>c. map_append (cn_Type c) c) cs []"

definition types_overlap ::
  "(ConstraintType, Constraint list) gomap \<Rightarrow> (ConstraintType, Constraint list) gomap \<Rightarrow> bool" where
  "types_overlap src dest =
     list_all (\<lambda>(t, srcConstraints).
       case map_of dest t of
         None \<Rightarrow> False
       | Some destConstraints \<Rightarrow>
           list_all (\<lambda>sc. list_all (\<lambda>dc. Constraint_overlaps dc sc) destConstraints) srcConstraints) src"

definition Size_overlaps :: "Size \<Rightarrow> Size \<Rightarrow> bool" where
  "Size_overlaps s so =
     (if sz_Constraints so = [] \<or> sz_Constraints s = [] then True
      else types_overlap (by_type (sz_Constraints s)) (by_type (sz_Constraints so)) \<and>
        types_overlap (by_type (sz_Constraints so)) (by_type (sz_Constraints s)))"

definition Size_Overlaps :: "Size \<Rightarrow> Size list \<Rightarrow> Size option" where
  "Size_Overlaps s ss = find (\<lambda>so. b_ID s \<noteq> b_ID so \<and> Size_overlaps s so) ss"

definition Constraint_Validate :: "Constraint \<Rightarrow> unit result" where
  "Constraint_Validate c =
     bind_result (check_that (\<not> cn_Max c < cn_Min c) (Plain ''max is smaller than min'')) (\<lambda>_.
     bind_result (case filepath_Match (cn_Identifier c) '''' of
         Inl _ \<Rightarrow> Inl (Plain ''identifier is malformed: %w'') | Inr _ \<Rightarrow> Inr ()) (\<lambda>_.
     if cn_Type c = GPUConstraint
     then check_that (cn_Identifier c \<noteq> '''') (Plain ''for gpu constraints an identifier is required'')
     else if cn_Type c = MemoryConstraint
     then check_that (cn_Identifier c = '''') (Plain ''for memory constraints an identifier is not allowed'')
     else Inr ()))"

section \<open>Matching hardware\<close>

definition inRange :: "Constraint \<Rightarrow> 64 word \<Rightarrow> bool" where
  "inRange c v = (v \<ge> cn_Min c \<and> v \<le> cn_Max c)"

definition countCPU :: "MetalCPU \<Rightarrow> string \<times> 64 word" where
  "countCPU cpu = (cpu_Model cpu, ucast (cpu_Cores cpu))"

definition countGPU :: "MetalGPU \<Rightarrow> string \<times> 64 word" where
  "countGPU gpu = (gpu_Model gpu, 1)"

definition countDisk :: "BlockDevice \<Rightarrow> string \<times> 64 word" where
  "countDisk disk = (bd_Name disk, bd_Size disk)"

definition countMemory :: "64 word \<Rightarrow> string \<times> 64 word" where
  "countMemory s = ('''', s)"

definition identifier_matches :: "string \<Rightarrow> string \<Rightarrow> bool" where
  "identifier_matches identifier model =
     (identifier = '''' \<or> (case filepath_Match identifier model of Inl _ \<Rightarrow> False | Inr m \<Rightarrow> m))"

definition capacityOf :: "string \<Rightarrow> 'v list \<Rightarrow> ('v \<Rightarrow> string \<times> 64 word) \<Rightarrow> 64 word \<times> 'v list" where
  "capacityOf identifier vs countFn =
     (let matched = filter (\<lambda>v. identifier_matches identifier (fst (countFn v))) vs
      in (sum_list (map (\<lambda>v. snd (countFn v)) matched), matched))"

definition exhaustiveMatch :: "Constraint list \<Rightarrow> 'v list \<Rightarrow> ('v \<Rightarrow> string \<times> 64 word) \<Rightarrow> bool" where
  "exhaustiveMatch cs vs countFn =
     (fold (\<lambda>c unmatched.
        let (capacity, matched) = capacityOf (cn_Identifier c) vs countFn
        in if \<not> inRange c capacity then unmatched else lo_Difference unmatched matched) cs vs = [])"

definition Constraint_matches :: "Constraint \<Rightarrow> MachineHardware \<Rightarrow> bool" where
  "Constraint_matches c hw =
     (if cn_Type c = CoreConstraint then inRange c (fst (capacityOf (cn_Identifier c) (hw_MetalCPUs hw) countCPU))
      else if cn_Type c = MemoryConstraint then inRange c (hw_Memory hw)
      else if cn_Type c = StorageConstraint then inRange c (fst (capacityOf (cn_Identifier c) (hw_Disks hw) countDisk))
      else if cn_Type c = GPUConstraint then inRange c (fst (capacityOf (cn_Identifier c) (hw_MetalGPUs hw) countGPU))
      else False)"

definition hardware_matches :: "MachineHardware \<Rightarrow> Constraint list \<Rightarrow> ConstraintType \<Rightarrow> bool" where
  "hardware_matches hw constraints constraintType =
     (let filtered = filter (\<lambda>c. cn_Type c = constraintType) constraints
      in if constraintType = StorageConstraint then exhaustiveMatch filtered (hw_Disks hw) countDisk
         else if constraintType = GPUConstraint then exhaustiveMatch filtered (hw_MetalGPUs hw) countGPU
         else if constraintType = CoreConstraint then exhaustiveMatch filtered (hw_MetalCPUs hw) countCPU
         else if constraintType = MemoryConstraint then exhaustiveMatch filtered [hw_Memory hw] countMemory
         else False)"

definition size_matches :: "Size \<Rightarrow> MachineHardware \<Rightarrow> bool" where
  "size_matches s hw =
     (list_all (\<lambda>c. Constraint_matches c hw) (sz_Constraints s) \<and>
      list_all (hardware_matches hw (sz_Constraints s)) allConstraintTypes)"

definition SizeFromHardware :: "Size list \<Rightarrow> MachineHardware \<Rightarrow> Size result" where
  "SizeFromHardware sizes hw =
     (case filter (\<lambda>s. size_matches s hw) sizes of
        [] \<Rightarrow> Inl (NotFound ''no size found for hardware (%s)'')
      | [s] \<Rightarrow> Inr s
      | _ \<Rightarrow> Inl (Plain ''%d sizes found for hardware (%s)''))"

definition UnknownSize :: Size where
  "UnknownSize = \<lparr>b_ID = ''unknown'', b_Name = ''unknown'', b_Description = '''', b_Created = 0, b_Changed = 0,
     b_Generation = 0, sz_Constraints = [], sz_Labels = []\<rparr>"

end
