(* ===== verification/SizeRepository.thy ===== *)
theory SizeRepository
  imports Sizes TableActions
begin

text \<open>
  The repository of sizes, \<^verbatim>\<open>pkg/repository/size.go\<close> and \<^verbatim>\<open>size-validation.go\<close>, as an instance of the
  generic store. The enum package of the API and the lists of the machines, reservations and image
  constraints of a size are arguments.
\<close>

section \<open>Messages\<close>

record SizeQuery =
  sq_Id :: "string option"
  sq_Name :: "string option"
  sq_Description :: "string option"
  sq_Labels :: "Labels option"

record SizeMeta =
  smt_Labels :: "Labels option"
  smt_CreatedAt :: time
  smt_UpdatedAt :: time
  smt_Generation :: "64 word"

record ApiSize =
  asz_Id :: string
  asz_Name :: "string option"
  asz_Description :: "string option"
  asz_Constraints :: "ApiSizeConstraint list"
  asz_Meta :: "SizeMeta option"

text \<open>Constraints that the update request does not set are the empty list.\<close>

record SizeServiceUpdateRequest =
  sur_Id :: string
  sur_Name :: "string option"
  sur_Description :: "string option"
  sur_Constraints :: "ApiSizeConstraint list"
  sur_Labels :: "LabelStrategy option"
  sur_UpdateMeta :: "UpdateMeta option"

record 'st size_env =
  se_table :: "('st, string, Size) rethink"
  se_GetEnum :: "string \<Rightarrow> ApiSizeConstraintType result"
  se_machines :: "string \<Rightarrow> nat result" \<comment> \<open>the number of the machines of a size\<close>
  se_reservations :: "string \<Rightarrow> nat result"
  se_imageConstraints :: "string \<Rightarrow> nat result"
  se_now :: time
  se_newID :: "string result"

section \<open>Conversion\<close>

fun ToConstraints :: "ApiSizeConstraint list \<Rightarrow> Constraint list result" where
  "ToConstraints [] = Inr []"
| "ToConstraints (c # cs) =
     bind_result (ToConstraint c) (\<lambda>x. bind_result (ToConstraints cs) (\<lambda>xs. Inr (x # xs)))"

fun FromConstraints :: "(string \<Rightarrow> ApiSizeConstraintType result) \<Rightarrow> Constraint list \<Rightarrow> ApiSizeConstraint list result" where
  "FromConstraints GetEnum [] = Inr []"
| "FromConstraints GetEnum (c # cs) =
     bind_result (FromConstraint GetEnum c) (\<lambda>x. bind_result (FromConstraints GetEnum cs) (\<lambda>xs. Inr (x # xs)))"

definition size_convertToInternal :: "ApiSize \<Rightarrow> Size result" where
  "size_convertToInternal e =
     bind_result (ToConstraints (asz_Constraints e)) (\<lambda>constraints.
     Inr \<lparr>b_ID = asz_Id e,
       b_Name = (case asz_Name e of None \<Rightarrow> '''' | Some n \<Rightarrow> n),
       b_Description = (case asz_Description e of None \<Rightarrow> '''' | Some d \<Rightarrow> d),
       b_Created = 0, b_Changed = 0, b_Generation = 0, sz_Constraints = constraints,
       sz_Labels = (case asz_Meta e of None \<Rightarrow> [] | Some m \<Rightarrow> (case smt_Labels m of None \<Rightarrow> [] | Some ls \<Rightarrow> ls))\<rparr>)"

text \<open>A size without labels is converted to one without a label message or with an empty one.\<close>

definition size_convertToProto :: "(string \<Rightarrow> ApiSizeConstraintType result) \<Rightarrow> Size \<Rightarrow> ApiSize result" where
  "size_convertToProto GetEnum e =
     bind_result (FromConstraints GetEnum (sz_Constraints e)) (\<lambda>constraints.
     Inr \<lparr>asz_Id = b_ID e, asz_Name = (if b_Name e = '''' then None else Some (b_Name e)),
       asz_Description = (if b_Description e = '''' then None else Some (b_Description e)),
       asz_Constraints = constraints,
       asz_Meta = Some \<lparr>smt_Labels = (if sz_Labels e = [] then None else Some (sz_Labels e)),
         smt_CreatedAt = b_Created e, smt_UpdatedAt = b_Changed e, smt_Generation = b_Generation e\<rparr>\<rparr>)"

section \<open>Operations\<close>

definition SizeFilter :: "SizeQuery \<Rightarrow> Size \<Rightarrow> bool" where
  "SizeFilter rq s \<longleftrightarrow>
     matches_field (sq_Id rq) (b_ID s) \<and> matches_field (sq_Description rq) (b_Description s) \<and>
     matches_field (sq_Name rq) (b_Name s) \<and> matches_labels (sq_Labels rq) (sz_Labels s)"

definition sizeFilters :: "SizeQuery option \<Rightarrow> (Size \<Rightarrow> bool) list" where
  "sizeFilters rq = (case rq of None \<Rightarrow> [] | Some rq \<Rightarrow> [SizeFilter rq])"

definition size_create :: "'st size_env \<Rightarrow> ApiSize option \<Rightarrow> ('st, Size option) action" where
  "size_create env rq =
     (case rq of
        None \<Rightarrow> return None
      | Some rq \<Rightarrow>
          bind_action (lift_result (size_convertToInternal rq)) (\<lambda>s.
          bind_action (tbl_Create (se_table env) (se_now env) (se_newID env) s) (\<lambda>resp. return (Some resp))))"

definition apply_size_request :: "SizeServiceUpdateRequest \<Rightarrow> Size \<Rightarrow> Size result" where
  "apply_size_request rq e =
     bind_result (if sur_Constraints rq = [] then Inr (sz_Constraints e) else ToConstraints (sur_Constraints rq)) (\<lambda>cs.
     Inr (e\<lparr>b_Description := (case sur_Description rq of None \<Rightarrow> b_Description e | Some d \<Rightarrow> d),
       b_Name := (case sur_Name rq of None \<Rightarrow> b_Name e | Some n \<Rightarrow> n),
       sz_Constraints := cs,
       sz_Labels := (if sur_Labels rq = None then sz_Labels e else updateLabelsOnMap (sur_Labels rq) (sz_Labels e))\<rparr>))"

definition size_update :: "'st size_env \<Rightarrow> Size \<Rightarrow> SizeServiceUpdateRequest \<Rightarrow> ('st, Size) action" where
  "size_update env e rq =
     bind_action (lift_result (apply_size_request rq e)) (\<lambda>e. tbl_Update (se_table env) (se_now env) e)"

definition size_delete :: "'st size_env \<Rightarrow> Size \<Rightarrow> ('st, string option) action" where
  "size_delete env e = bind_action (tbl_Delete (se_table env) e) (\<lambda>_. return None)"

text \<open>Sizes without constraints are not offered.\<close>

definition FromHardware :: "'st size_env \<Rightarrow> MachineHardware \<Rightarrow> ('st, Size) action" where
  "FromHardware env hw =
     bind_action (tbl_List (se_table env) []) (\<lambda>szs.
     if szs = [] then fail (Plain ''no sizes found in database'')
     else lift_result (SizeFromHardware (filter (\<lambda>s. sz_Constraints s \<noteq> []) szs) hw))"

section \<open>Validation\<close>

text \<open>The errors of the loop over the constraints, with the types of those before.\<close>

fun constraint_errors :: "ApiSizeConstraint list \<Rightarrow> ApiSizeConstraintType list \<Rightarrow> go_error list" where
  "constraint_errors [] seen = []"
| "constraint_errors (c # cs) seen =
     (case ToConstraint c of
        Inl err \<Rightarrow> [err]
      | Inr metalConstraint \<Rightarrow>
          (case Constraint_Validate metalConstraint of
             Inl err \<Rightarrow> [Wrapped ''constraint at index %d is invalid: %w'' err] | Inr _ \<Rightarrow> []) @
          (case asc_Type c of
             SIZE_CONSTRAINT_TYPE_GPU \<Rightarrow> []
           | SIZE_CONSTRAINT_TYPE_STORAGE \<Rightarrow> []
           | SIZE_CONSTRAINT_TYPE_MEMORY \<Rightarrow>
               if asc_Type c \<in> set seen
               then [Plain ''constraint at index %d is invalid: type duplicates are not allowed for type %q''] else []
           | SIZE_CONSTRAINT_TYPE_CORES \<Rightarrow>
               if asc_Type c \<in> set seen
               then [Plain ''constraint at index %d is invalid: type duplicates are not allowed for type %q''] else []
           | _ \<Rightarrow> [Plain ''invalid constraint type:%q''])) @
     constraint_errors cs (asc_Type c # seen)"

definition validateSizeConstraints :: "ApiSizeConstraint list \<Rightarrow> unit result" where
  "validateSizeConstraints constraints = errors_Join (constraint_errors constraints [])"

definition validateSizesNotOverlapping :: "'st size_env \<Rightarrow> ApiSize \<Rightarrow> ('st, unit) action" where
  "validateSizesNotOverlapping env s =
     bind_action (on_error (\<lambda>_. Internal ''%w'') (tbl_List (se_table env) [])) (\<lambda>sizes.
     bind_action (lift_result (size_convertToInternal s)) (\<lambda>metalSize.
     lift_result (check_that (Size_Overlaps metalSize sizes = None)
       (Plain ''given size %s overlaps with existing sizes''))))"

text \<open>Both checks are run, and their errors joined.\<close>

definition both_checks :: "unit result \<Rightarrow> ('st, unit) action \<Rightarrow> ('st, unit) action" where
  "both_checks r a st =
     (let (r', st) = a st
      in (errors_Join ((case r of Inl err \<Rightarrow> [err] | Inr _ \<Rightarrow> []) @ (case r' of Inl err \<Rightarrow> [err] | Inr _ \<Rightarrow> [])), st))"

definition size_validateCreate :: "'st size_env \<Rightarrow> ApiSize option \<Rightarrow> ('st, unit) action" where
  "size_validateCreate env rq =
     (case rq of
        None \<Rightarrow> fail (Panic ''invalid memory address or nil pointer dereference'')
      | Some s \<Rightarrow> both_checks (validateSizeConstraints (asz_Constraints s)) (validateSizesNotOverlapping env s))"

definition size_validateUpdate :: "'st size_env \<Rightarrow> SizeServiceUpdateRequest \<Rightarrow> ('st, unit) action" where
  "size_validateUpdate env rq =
     both_checks (validateSizeConstraints (sur_Constraints rq))
       (if sur_Constraints rq = [] then return ()
        else validateSizesNotOverlapping env
          \<lparr>asz_Id = sur_Id rq, asz_Name = sur_Name rq, asz_Description = sur_Description rq,
           asz_Constraints = sur_Constraints rq, asz_Meta = None\<rparr>)"

definition size_validateDelete :: "'st size_env \<Rightarrow> Size \<Rightarrow> unit result" where
  "size_validateDelete env s =
     bind_result (map_error (\<lambda>_. Internal ''%w'') (se_machines env (b_ID s))) (\<lambda>machines.
     bind_result (check_that (\<not> machines > 0)
       (FailedPrecondition ''cannot remove size with existing machines of this size'')) (\<lambda>_.
     bind_result (map_error (\<lambda>_. Internal ''%w'') (se_reservations env (b_ID s))) (\<lambda>sizeReservations.
     bind_result (check_that (\<not> sizeReservations > 0)
       (FailedPrecondition ''cannot remove size with existing size reservations of this size'')) (\<lambda>_.
     bind_result (map_error (\<lambda>_. Internal ''%w'') (se_imageConstraints env (b_ID s))) (\<lambda>sizeImageConstraints.
     check_that (\<not> sizeImageConstraints > 0)
       (FailedPrecondition ''cannot remove size with existing size image constraints of this size''))))))"

section \<open>The repository as the store sees it\<close>

text \<open>A request without a size creates nothing; its result has no entity to convert.\<close>

definition size_operations ::
  "'st size_env \<Rightarrow> ('st, Size option, ApiSize option, ApiSize option, SizeServiceUpdateRequest, SizeQuery option) repository" where
  "size_operations env =
     \<lparr>rp_validateCreate = (\<lambda>rq. bind_action (size_validateCreate env rq) (\<lambda>_. return rq)),
      rp_create = size_create env,
      rp_get = (\<lambda>i. bind_action (tbl_Get (se_table env) i) (\<lambda>s. return (Some s))),
      rp_find = (\<lambda>q. bind_action (tbl_Find (se_table env) (sizeFilters q)) (\<lambda>s. return (Some s))),
      rp_list = (\<lambda>q. bind_action (tbl_List (se_table env) (sizeFilters q)) (\<lambda>ss. return (map Some ss))),
      rp_matchScope = (\<lambda>_. True),
      rp_validateUpdate = (\<lambda>rq e. bind_action (size_validateUpdate env rq) (\<lambda>_. return rq)),
      rp_update = (\<lambda>e rq. bind_action (size_update env (the e) rq) (\<lambda>s. return (Some s))),
      rp_validateDelete = (\<lambda>e. lift_result (size_validateDelete env (the e))),
      rp_delete = (\<lambda>e. size_delete env (the e)),
      rp_convertToProto = (\<lambda>e. lift_result (case e of
          None \<Rightarrow> Inr None
        | Some e \<Rightarrow> bind_result (size_convertToProto (se_GetEnum env) e) (\<lambda>s. Inr (Some s)))),
      rp_updateMeta = sur_UpdateMeta,
      rp_SetChanged = (\<lambda>t e. map_option (\<lambda>e. e\<lparr>b_Changed := t\<rparr>) e),
      rp_setDeletionTask = (\<lambda>_ m. m)\<rparr>"

lemma both_checks_reads [simp]: "reads_only a \<Longrightarrow> reads_only (both_checks r a)"
  by (auto simp: reads_only_def both_checks_def split: prod.splits) (metis snd_conv)

lemma overlap_check_reads [simp]: "reads_only (validateSizesNotOverlapping env s)"
  by (simp add: validateSizesNotOverlapping_def bind_reads)

lemma size_validation_reads [simp]:
  "reads_only (size_validateCreate env rq)" "reads_only (size_validateUpdate env urq)"
  by (simp_all add: size_validateCreate_def size_validateUpdate_def split: option.split)

interpretation size_repo: scoped_repository "size_operations env" "\<lambda>st. st"
proof
  show "snd (rp_get (size_operations env) i st) = st" for i st
    by (rule reads_onlyD) (simp add: size_operations_def bind_reads)
  show "snd (rp_validateCreate (size_operations env) c st) = st" for c st
    by (rule reads_onlyD) (simp add: size_operations_def bind_reads)
  show "snd (rp_validateUpdate (size_operations env) u e st) = st" for u e st
    by (rule reads_onlyD) (simp add: size_operations_def bind_reads)
qed (simp add: size_operations_def)

end
