(* ===== verification/SizeProps.thy ===== *)
theory SizeProps
  imports SizeRepository
begin

text \<open>
  Sizes that pass the validation never overlap in the sense of the code, whatever sequence of
  creations, updates and deletions made them; sizes that do not overlap and compare identifier by
  identifier are never both the size of a machine; and two sizes with the same two constraints on
  disks pass the validation although every machine that has one has the other.
\<close>

section \<open>Overlap\<close>

lemma by_type_None: "map_of (by_type cs) t = None \<longleftrightarrow> (\<forall>c\<in>set cs. cn_Type c \<noteq> t)"
proof -
  have "map_of (fold (\<lambda>c. map_append (cn_Type c) c) cs m) t = None \<longleftrightarrow>
      map_of m t = None \<and> (\<forall>c\<in>set cs. cn_Type c \<noteq> t)" for m
    by (induction cs arbitrary: m) (auto simp: map_append_def update_conv)
  from this [of "[]"] show ?thesis by (simp add: by_type_def)
qed

lemma map_get_by_type: "map_get [] (by_type cs) t = filter (\<lambda>c. cn_Type c = t) cs"
proof -
  have "map_get [] (fold (\<lambda>c. map_append (cn_Type c) c) cs m) t = map_get [] m t @ filter (\<lambda>c. cn_Type c = t) cs" for m
    by (induction cs arbitrary: m) (auto simp: map_append_def)
  from this [of "[]"] show ?thesis by (simp add: by_type_def)
qed

lemma distinct_by_type: "distinct (map fst (by_type cs))"
proof -
  have "distinct (map fst m) \<Longrightarrow> distinct (map fst (fold (\<lambda>c. map_append (cn_Type c) c) cs m))" for m
    by (induction cs arbitrary: m) (simp_all add: map_append_def distinct_update)
  then show ?thesis by (simp add: by_type_def)
qed

lemma map_of_by_type:
  "map_of (by_type cs) t = (if \<exists>c\<in>set cs. cn_Type c = t then Some (filter (\<lambda>c. cn_Type c = t) cs) else None)"
  using by_type_None [of cs t] map_get_by_type [of cs t] by (auto simp: map_get_def split: option.splits)

lemma set_by_type: "(t, g) \<in> set (by_type cs) \<longleftrightarrow> (\<exists>c\<in>set cs. cn_Type c = t) \<and> g = filter (\<lambda>c. cn_Type c = t) cs"
  unfolding map_of_eq_Some_iff [OF distinct_by_type, symmetric] map_of_by_type by auto

lemma Constraint_overlaps_sym: "Constraint_overlaps c d = Constraint_overlaps d c"
  by (auto simp: Constraint_overlaps_def)

definition pairs_overlap :: "Constraint list \<Rightarrow> Constraint list \<Rightarrow> bool" where
  "pairs_overlap cs ds \<longleftrightarrow>
     (\<forall>c\<in>set cs. \<forall>d\<in>set ds. cn_Type c = cn_Type d \<longrightarrow> Constraint_overlaps c d)"

lemma pairs_overlap_sym: "pairs_overlap cs ds = pairs_overlap ds cs"
proof -
  have "pairs_overlap cs ds" if "pairs_overlap ds cs" for cs ds
    unfolding pairs_overlap_def
    by (intro ballI impI, subst Constraint_overlaps_sym) (use that in \<open>simp add: pairs_overlap_def\<close>)
  then show ?thesis by blast
qed

lemma types_overlap_iff:
  "types_overlap (by_type cs) (by_type ds) \<longleftrightarrow> cn_Type ` set cs \<subseteq> cn_Type ` set ds \<and> pairs_overlap cs ds"
proof -
  let ?ok = "\<lambda>t. (\<exists>d\<in>set ds. cn_Type d = t) \<and>
    (\<forall>c\<in>set cs. \<forall>d\<in>set ds. cn_Type c = t \<longrightarrow> cn_Type d = t \<longrightarrow> Constraint_overlaps d c)"
  have "types_overlap (by_type cs) (by_type ds) \<longleftrightarrow> (\<forall>c\<in>set cs. ?ok (cn_Type c))"
    by (simp add: types_overlap_def list_all_iff Ball_def split_paired_All set_by_type map_of_by_type
        del: all_simps ex_simps cong: conj_cong) (auto split: option.splits)
  also have "\<dots> \<longleftrightarrow> (\<forall>c\<in>set cs. \<exists>d\<in>set ds. cn_Type d = cn_Type c) \<and> pairs_overlap ds cs"
    unfolding pairs_overlap_def by metis
  also have "\<dots> \<longleftrightarrow> cn_Type ` set cs \<subseteq> cn_Type ` set ds \<and> pairs_overlap cs ds"
    unfolding pairs_overlap_sym [of ds cs] by (simp add: subset_iff image_iff) metis
  finally show ?thesis .
qed

text \<open>The two loops of the code look at the same pairs.\<close>

lemma Size_overlaps_iff:
  "Size_overlaps s so \<longleftrightarrow>
     sz_Constraints s = [] \<or> sz_Constraints so = [] \<or>
     cn_Type ` set (sz_Constraints s) = cn_Type ` set (sz_Constraints so) \<and>
     pairs_overlap (sz_Constraints s) (sz_Constraints so)"
proof -
  note sym = pairs_overlap_sym [of "sz_Constraints so" "sz_Constraints s"]
  show ?thesis
    unfolding Size_overlaps_def types_overlap_iff sym set_eq_subset by (simp only: if_bool_eq_disj) blast
qed

lemma Size_overlaps_sym: "Size_overlaps s so = Size_overlaps so s"
proof -
  note sym = pairs_overlap_sym [of "sz_Constraints so" "sz_Constraints s"]
  show ?thesis unfolding Size_overlaps_iff sym by blast
qed

section \<open>Hardware has one size\<close>

lemma exhaustive_none: "exhaustiveMatch [] vs f \<longleftrightarrow> vs = []"
  by (simp add: exhaustiveMatch_def)

lemma capacityOf_Nil [simp]: "capacityOf i [] f = (0, [])"
  by (simp add: capacityOf_def)

text \<open>A size without a constraint of a type needs hardware with nothing of that type.\<close>

lemma untyped_no_match:
  assumes "Constraint_matches c hw" and "cn_Min c > 0" and "\<forall>d\<in>set ds. cn_Type d \<noteq> cn_Type c"
  shows "\<not> hardware_matches hw ds (cn_Type c)"
proof -
  have none: "filter (\<lambda>d. cn_Type d = cn_Type c) ds = []" using assms(3) by (simp add: filter_empty_conv)
  show ?thesis
    using assms(1,2) unfolding hardware_matches_def none Let_def exhaustive_none
    by (auto simp: Constraint_matches_def inRange_def constraint_types split: if_splits)
qed

lemma matches_same_capacity:
  assumes "Constraint_matches c hw" and "Constraint_matches d hw"
    and "cn_Type c = cn_Type d" and "cn_Identifier c = cn_Identifier d"
  shows "Constraint_overlaps c d"
proof -
  obtain v where "inRange c v" "inRange d v"
    using assms by (auto simp: Constraint_matches_def split: if_splits)
  then have "\<not> cn_Min c > cn_Max d" "\<not> cn_Max c < cn_Min d"
    by (auto simp: inRange_def dest: order.strict_trans1 order.strict_trans2)
  with assms show ?thesis by (simp add: Constraint_overlaps_def)
qed

definition comparable_sizes :: "Size \<Rightarrow> Size \<Rightarrow> bool" where
  "comparable_sizes s so \<longleftrightarrow>
     (\<forall>c\<in>set (sz_Constraints s). \<forall>d\<in>set (sz_Constraints so).
        cn_Type c = cn_Type d \<longrightarrow> cn_Identifier c = cn_Identifier d) \<and>
     (\<forall>c\<in>set (sz_Constraints s) \<union> set (sz_Constraints so). cn_Min c > 0)"

lemma not_both_match:
  assumes "\<not> Size_overlaps s so" and "comparable_sizes s so"
  shows "\<not> (size_matches s hw \<and> size_matches so hw)"
proof
  assume m: "size_matches s hw \<and> size_matches so hw"
  have cs: "Constraint_matches c hw" if "c \<in> set (sz_Constraints s) \<union> set (sz_Constraints so)" for c
    using m that by (auto simp: size_matches_def list_all_iff)
  have known: "cn_Type c \<in> set allConstraintTypes" if "Constraint_matches c hw" for c
    using that by (auto simp: Constraint_matches_def allConstraintTypes_def split: if_splits)
  have hm: "hardware_matches hw (sz_Constraints r) t" if "t \<in> set allConstraintTypes" "r \<in> {s, so}" for r t
    using m that by (auto simp: size_matches_def list_all_iff)
  have min: "cn_Min c > 0" if "c \<in> set (sz_Constraints s) \<union> set (sz_Constraints so)" for c
    using assms(2) that by (simp add: comparable_sizes_def)
  have sub: "\<exists>d\<in>set (sz_Constraints r'). cn_Type d = cn_Type c"
    if "{r, r'} = {s, so}" "c \<in> set (sz_Constraints r)" for r r' c
  proof (rule ccontr)
    assume "\<not> ?thesis"
    moreover have c: "c \<in> set (sz_Constraints s) \<union> set (sz_Constraints so)" "r' \<in> {s, so}" using that by auto
    ultimately show False
      using untyped_no_match [OF cs [OF c(1)] min [OF c(1)], of "sz_Constraints r'"] hm [OF known [OF cs [OF c(1)]] c(2)]
      by blast
  qed
  have "cn_Type ` set (sz_Constraints s) = cn_Type ` set (sz_Constraints so)"
    using sub [of s so] sub [of so s] by (auto simp: image_iff insert_commute) metis+
  moreover have "Constraint_overlaps c d"
    if "c \<in> set (sz_Constraints s)" "d \<in> set (sz_Constraints so)" "cn_Type c = cn_Type d" for c d
    by (rule matches_same_capacity) (use that cs assms(2) in \<open>auto simp: comparable_sizes_def\<close>)
  ultimately show False using assms(1) by (simp add: Size_overlaps_iff pairs_overlap_def)
qed

section \<open>Runs of the repository\<close>

text \<open>
  The tables that creations, updates and deletions of sizes lead to. Each operation has an
  environment of its own, with the time and the generated id.
\<close>

inductive size_run :: "errorutil \<Rightarrow> ('st, string, Size) rethink \<Rightarrow> 'st \<Rightarrow> 'st \<Rightarrow> bool"
  for eu rt st0 where
  start: "size_run eu rt st0 st0"
| created: "size_run eu rt st0 st \<Longrightarrow> se_table env = rt \<Longrightarrow> se_newID env \<noteq> Inr '''' \<Longrightarrow>
    store_Create eu (size_operations env) rq st = (Inr m, st') \<Longrightarrow> size_run eu rt st0 st'"
| updated: "size_run eu rt st0 st \<Longrightarrow> se_table env = rt \<Longrightarrow>
    store_Update eu (size_operations env) (sur_Id rq) rq st = (Inr m, st') \<Longrightarrow> size_run eu rt st0 st'"
| deleted: "size_run eu rt st0 st \<Longrightarrow> se_table env = rt \<Longrightarrow>
    store_Delete eu (size_operations env) i st = (Inr m, st') \<Longrightarrow> size_run eu rt st0 st'"

definition sizes_disjoint :: "(string \<rightharpoonup> Size) \<Rightarrow> bool" where
  "sizes_disjoint rows \<longleftrightarrow>
     (\<forall>i s. rows i = Some s \<longrightarrow> b_ID s = i \<and> i \<noteq> '''') \<and>
     (\<forall>i j s so. rows i = Some s \<longrightarrow> rows j = Some so \<longrightarrow> i \<noteq> j \<longrightarrow> \<not> Size_overlaps s so)"

lemma sizes_disjoint_update:
  assumes "sizes_disjoint rows" and "b_ID s = i" and "i \<noteq> ''''"
    and "\<And>j so. rows j = Some so \<Longrightarrow> j \<noteq> i \<Longrightarrow> \<not> Size_overlaps s so"
  shows "sizes_disjoint (rows(i \<mapsto> s))"
  using assms Size_overlaps_sym unfolding sizes_disjoint_def by (auto split: if_splits)

lemma both_checks_ok:
  "both_checks r a st = (Inr (), st') \<Longrightarrow> r = Inr () \<and> a st = (Inr (), st')"
  by (auto simp: both_checks_def split: prod.splits sum.splits)

lemma not_overlapping_ok:
  assumes "rethink_table (se_table env) rows" and "validateSizesNotOverlapping env s st = (Inr (), st')"
  obtains cs where "ToConstraints (asz_Constraints s) = Inr cs"
    "\<And>so e. so \<in> ran (rows st) \<Longrightarrow> b_ID so \<noteq> asz_Id s \<Longrightarrow> sz_Constraints e = cs \<Longrightarrow> \<not> Size_overlaps e so"
proof -
  from assms(2) obtain szs st1 ms where l: "tbl_List (se_table env) [] st = (Inr szs, st1)"
    and c: "size_convertToInternal s = Inr ms" and o: "Size_Overlaps ms szs = None"
    by (auto simp: validateSizesNotOverlapping_def bind_action_ok on_error_ok)
  from tbl_List_ok [OF assms(1) l] have szs: "set szs = ran (rows st)" by simp
  from c obtain cs where cs: "ToConstraints (asz_Constraints s) = Inr cs" and ms: "sz_Constraints ms = cs" "b_ID ms = asz_Id s"
    by (auto simp: size_convertToInternal_def bind_result_ok)
  have "\<not> Size_overlaps e so" if "so \<in> ran (rows st)" "b_ID so \<noteq> asz_Id s" "sz_Constraints e = cs" for so e
    using o that szs ms by (auto simp: Size_Overlaps_def find_None_iff Size_overlaps_def)
  with cs show thesis using that by blast
qed

lemma size_created_disjoint:
  assumes t: "rethink_table (se_table env) rows" and key: "rt_key (se_table env) = b_ID" and new: "se_newID env \<noteq> Inr ''''"
    and d: "sizes_disjoint (rows st)"
    and c: "store_Create eu (size_operations env) rq st = (Inr m, st')"
  shows "sizes_disjoint (rows st')"
proof -
  from c obtain rq1 st1 e st2 where v: "rp_validateCreate (size_operations env) rq st = (Inr rq1, st1)"
    and e: "rp_create (size_operations env) rq1 st1 = (Inr e, st2)"
    and p: "rp_convertToProto (size_operations env) e st2 = (Inr m, st')"
    by (auto simp: store_Create_def bind_action_ok on_error_ok)
  from v have rq1: "rq1 = rq" and v: "size_validateCreate env rq st = (Inr (), st1)"
    by (auto simp: size_operations_def bind_action_ok)
  have st1: "st1 = st" using reads_onlyD [OF size_validation_reads(1), of env rq st] v by simp
  have st': "st' = st2" using p by (auto simp: size_operations_def)
  from v obtain s where s: "rq = Some s" and o: "validateSizesNotOverlapping env s st = (Inr (), st1)"
    by (auto simp: size_validateCreate_def dest: both_checks_ok split: option.splits)
  obtain cs where cs: "ToConstraints (asz_Constraints s) = Inr cs"
    and no: "\<And>so e. so \<in> ran (rows st) \<Longrightarrow> b_ID so \<noteq> asz_Id s \<Longrightarrow> sz_Constraints e = cs \<Longrightarrow> \<not> Size_overlaps e so"
    using not_overlapping_ok [OF t o] by blast
  from e rq1 s st1 obtain ms e' where ms: "size_convertToInternal s = Inr ms"
    and e': "tbl_Create (se_table env) (se_now env) (se_newID env) ms st = (Inr e', st2)"
    by (auto simp: size_operations_def size_create_def bind_action_ok)
  note tc = tbl_Create_ok [OF t e', unfolded key]
  from ms cs have ms': "sz_Constraints ms = cs" "b_ID ms = asz_Id s"
    by (auto simp: size_convertToInternal_def)
  from e' new have id: "b_ID e' \<noteq> ''''"
    by (auto simp: tbl_Create_def storage_Create_def setCreated_def setChanged_def setGeneration_def Let_def
        split: sum.splits if_splits write_error.splits)
  have cs': "sz_Constraints e' = cs"
    using arg_cong [OF conjunct1 [OF conjunct2 [OF conjunct2 [OF tc]]], of sz_Constraints] ms' by simp
  have "\<not> Size_overlaps e' so" if "rows st j = Some so" "j \<noteq> b_ID e'" for j so
  proof (rule no [OF ranI [of "rows st", OF that(1)] _ cs'])
    from d that have "b_ID so = j" "j \<noteq> ''''" by (auto simp: sizes_disjoint_def)
    with tc ms' that show "b_ID so \<noteq> asz_Id s" by auto
  qed
  with sizes_disjoint_update [OF d refl id] tc st' show ?thesis by auto
qed

lemma size_updated_disjoint:
  assumes t: "rethink_table (se_table env) rows" and key: "rt_key (se_table env) = b_ID"
    and d: "sizes_disjoint (rows st)"
    and c: "store_Update eu (size_operations env) (sur_Id rq) rq st = (Inr m, st')"
  shows "sizes_disjoint (rows st')"
proof -
  from c obtain e st1 u st2 e1 e2 st3 where
    g: "get_in_scope eu (size_operations env) (sur_Id rq) st = (Inr e, st1)" and
    v: "rp_validateUpdate (size_operations env) rq e st1 = (Inr u, st2)" and
    m: "setUpdateMeta (size_operations env) u e = Inr e1" and
    w: "rp_update (size_operations env) e1 u st2 = (Inr e2, st3)" and
    p: "rp_convertToProto (size_operations env) e2 st3 = (Inr m, st')"
    by (auto simp: store_Update_def bind_action_ok on_error_ok)
  from g obtain s where e: "e = Some s" and s: "tbl_Get (se_table env) (sur_Id rq) st = (Inr s, st1)"
    by (auto simp: size_repo.get_in_scope_ok) (auto simp: size_operations_def bind_action_ok)
  from tbl_Get_ok [OF t s] have st1: "st1 = st" and row: "rows st (sur_Id rq) = Some s" by auto
  with d have id: "b_ID s = sur_Id rq" "sur_Id rq \<noteq> ''''" by (auto simp: sizes_disjoint_def)
  from v have u: "u = rq" and v: "size_validateUpdate env rq st = (Inr (), st2)"
    by (auto simp: size_operations_def bind_action_ok st1)
  have st2: "st2 = st" using reads_onlyD [OF size_validation_reads(2), of env rq st] v by simp
  from m e obtain t1 where e1: "e1 = Some (s\<lparr>b_Changed := t1\<rparr>) \<or> e1 = Some s"
    by (auto simp: setUpdateMeta_def size_operations_def split: option.splits LockingStrategy.splits)
  then obtain s1 where e1': "e1 = Some s1" "b_ID s1 = sur_Id rq" "sz_Constraints s1 = sz_Constraints s"
    using id by auto
  from w u e1' obtain s2 s3 where a: "apply_size_request rq s1 = Inr s2"
    and w: "tbl_Update (se_table env) (se_now env) s2 st = (Inr s3, st3)"
    by (auto simp: size_operations_def size_update_def bind_action_ok st2)
  have st': "st' = st3" using p by (auto simp: size_operations_def)
  note tu = tbl_Update_ok [OF t w]
  from a e1' have s2: "b_ID s2 = sur_Id rq" "sur_Constraints rq = [] \<longrightarrow> sz_Constraints s2 = sz_Constraints s"
    "sur_Constraints rq \<noteq> [] \<longrightarrow> ToConstraints (sur_Constraints rq) = Inr (sz_Constraints s2)"
    by (auto simp: apply_size_request_def bind_result_ok split: if_splits)
  from tu have s3: "sz_Constraints s3 = sz_Constraints s2" "b_ID s3 = sur_Id rq" using s2 by auto
  have "\<not> Size_overlaps s3 so" if so: "rows st j = Some so" "j \<noteq> sur_Id rq" for j so
  proof (cases "sur_Constraints rq = []")
    case True
    with s2 s3 have "Size_overlaps s3 so = Size_overlaps s so" by (simp add: Size_overlaps_def)
    with d row so show ?thesis by (auto simp: sizes_disjoint_def)
  next
    case False
    define r where "r = \<lparr>asz_Id = sur_Id rq, asz_Name = sur_Name rq, asz_Description = sur_Description rq,
      asz_Constraints = sur_Constraints rq, asz_Meta = None\<rparr>"
    have r: "asz_Id r = sur_Id rq" "asz_Constraints r = sur_Constraints rq" by (simp_all add: r_def)
    have o: "validateSizesNotOverlapping env r st = (Inr (), st2)"
      using v False by (auto simp: size_validateUpdate_def r_def dest!: both_checks_ok)
    from d so have "b_ID so = j" by (auto simp: sizes_disjoint_def)
    then show ?thesis
      using not_overlapping_ok [OF t o] False r s2 s3 so by (metis Inr_inject ranI)
  qed
  with sizes_disjoint_update [OF d s3(2) id(2)] tu s2 st' show ?thesis by auto
qed

lemma size_deleted_disjoint:
  assumes t: "rethink_table (se_table env) rows" and d: "sizes_disjoint (rows st)"
    and c: "store_Delete eu (size_operations env) i st = (Inr m, st')"
  shows "sizes_disjoint (rows st')"
proof -
  from c obtain e st1 info st2 where
    g: "get_in_scope eu (size_operations env) i st = (Inr e, st1)" and
    w: "rp_delete (size_operations env) e st1 = (Inr info, st2)" and st': "st' = st2"
    by (auto simp: store_Delete_def bind_action_ok on_error_ok size_operations_def split: option.splits)
  from g obtain s where e: "e = Some s" and s: "tbl_Get (se_table env) i st = (Inr s, st1)"
    by (auto simp: size_repo.get_in_scope_ok) (auto simp: size_operations_def bind_action_ok)
  from tbl_Get_ok [OF t s] have st1: "st1 = st" by simp
  from w e st1 have "rows st2 = (rows st)(b_ID s := None)"
    by (auto simp: size_operations_def size_delete_def bind_action_ok tbl_Delete_def storage_Delete_def
        split: sum.splits dest: rethink_table.delete [OF t])
  with d st' show ?thesis by (auto simp: sizes_disjoint_def)
qed


lemma size_run_disjoint:
  assumes "size_run eu rt st0 st" and "rethink_table rt rows" and "rt_key rt = b_ID" and "rows st0 = Map.empty"
  shows "sizes_disjoint (rows st)"
  using assms(1)
proof induction
  case start
  show ?case using assms(4) by (simp add: sizes_disjoint_def)
next
  case (created st env rq m st')
  with size_created_disjoint [of env rows] assms(2,3) show ?case by blast
next
  case (updated st env rq m st')
  with size_updated_disjoint [of env rows] assms(2,3) show ?case by blast
next
  case (deleted st env i m st')
  with size_deleted_disjoint [of env rows] assms(2) show ?case by blast
qed

text \<open>
  C32: Whatever creations, updates and deletions lead to, two sizes in the table never overlap in the
  sense of the code: they have constraints of different types, or constraints of one type with
  different identifiers or disjoint ranges.
\<close>

theorem sizes_never_overlap:
  assumes "size_run eu rt st0 st" and "rethink_table rt rows" and "rt_key rt = b_ID"
    and "rows st0 = Map.empty" and "rows st i = Some s" and "rows st j = Some so" and "i \<noteq> j"
  shows "\<not> Size_overlaps s so"
  using size_run_disjoint [OF assms(1-4)] assms(5-7) by (simp add: sizes_disjoint_def)

text \<open>
  In a table that creations, updates and deletions made, whose constraints of one type have the
  same identifier in all sizes and positive minima, the size found for some hardware is the only one
  that matches it, and the search never fails because several sizes match.
\<close>

theorem hardware_has_one_size:
  assumes "size_run eu rt st0 st" and "rethink_table rt rows" and "rt_key rt = b_ID"
    and "rows st0 = Map.empty" and "se_table env = rt"
    and "\<And>s so. s \<in> ran (rows st) \<Longrightarrow> so \<in> ran (rows st) \<Longrightarrow> s \<noteq> so \<Longrightarrow> comparable_sizes s so"
    and "FromHardware env hw st = (r, st')"
  shows "case r of
      Inr s \<Rightarrow> s \<in> ran (rows st) \<and> size_matches s hw \<and> (\<forall>so\<in>ran (rows st). so \<noteq> s \<longrightarrow> \<not> size_matches so hw)
    | Inl err \<Rightarrow> err \<noteq> Plain ''%d sizes found for hardware (%s)''"
proof (cases "tbl_List (se_table env) [] st")
  case (Pair l st1)
  show ?thesis
  proof (cases l)
    case (Inl err)
    with Pair assms(7) show ?thesis
      by (auto simp: FromHardware_def bind_action_def tbl_List_def storage_List_def split: sum.splits)
  next
    case (Inr szs)
    from tbl_List_ok [of "se_table env" rows] Pair Inr assms(2,5)
    have szs: "set szs = ran (rows st)" "distinct szs" by auto
    have one: "\<not> (size_matches s hw \<and> size_matches so hw)"
      if "s \<in> set szs" "so \<in> set szs" "s \<noteq> so" for s so
    proof -
      from that szs obtain i j where "rows st i = Some s" "rows st j = Some so" by (auto simp: ran_def)
      with that size_run_disjoint [OF assms(1-4)] have "\<not> Size_overlaps s so"
        by (metis option.inject sizes_disjoint_def)
      with not_both_match assms(6) that szs show ?thesis by blast
    qed
    let ?c = "filter (\<lambda>s. sz_Constraints s \<noteq> []) szs"
    show ?thesis
    proof (cases "filter (\<lambda>s. size_matches s hw) ?c")
      case Nil
      with Pair Inr assms(7) show ?thesis
        by (auto simp: FromHardware_def bind_action_def SizeFromHardware_def split: if_splits)
    next
      case (Cons s ss)
      then have s: "s \<in> set szs" "size_matches s hw" by (auto dest: filter_eq_ConsD)
      have "ss = []"
      proof (rule ccontr)
        assume "ss \<noteq> []"
        then obtain so where so: "so \<in> set ss" using hd_in_set by blast
        then have "so \<in> set (filter (\<lambda>s. size_matches s hw) ?c)" unfolding Cons by simp
        then have "so \<in> set szs \<and> size_matches so hw" by simp
        moreover from Cons szs(2) have "distinct (s # ss)" by (metis distinct_filter)
        ultimately show False using one [OF s(1), of so] s(2) so by auto
      qed
      with Cons s one szs Pair Inr assms(7) show ?thesis
        by (auto simp: FromHardware_def bind_action_def SizeFromHardware_def split: if_splits)
    qed
  qed
qed

section \<open>Examples\<close>

definition example_size_env :: "Size list size_env" where
  "example_size_env = \<lparr>se_table = base_table, se_GetEnum = (\<lambda>_. Inr SIZE_CONSTRAINT_TYPE_CORES),
     se_machines = (\<lambda>_. Inr 0), se_reservations = (\<lambda>_. Inr 0), se_imageConstraints = (\<lambda>_. Inr 0),
     se_now = 7, se_newID = Inr ''new''\<rparr>"

definition range_of :: "ApiSizeConstraintType \<Rightarrow> string \<Rightarrow> 64 word \<Rightarrow> 64 word \<Rightarrow> ApiSizeConstraint" where
  "range_of t i a b = \<lparr>asc_Type = t, asc_Min = a, asc_Max = b, asc_Identifier = (if i = '''' then None else Some i)\<rparr>"

definition request_of :: "string \<Rightarrow> ApiSizeConstraint list \<Rightarrow> ApiSize" where
  "request_of i cs = \<lparr>asz_Id = i, asz_Name = None, asz_Description = None, asz_Constraints = cs, asz_Meta = None\<rparr>"

definition size_of :: "string \<Rightarrow> Constraint list \<Rightarrow> Size" where
  "size_of i cs = \<lparr>b_ID = i, b_Name = '''', b_Description = '''', b_Created = 7, b_Changed = 7, b_Generation = 0,
     sz_Constraints = cs, sz_Labels = []\<rparr>"

definition small_constraints :: "64 word \<Rightarrow> ApiSizeConstraint list" where
  "small_constraints n = [range_of SIZE_CONSTRAINT_TYPE_CORES '''' n n, range_of SIZE_CONSTRAINT_TYPE_MEMORY '''' 4 8]"

definition small_size :: "string \<Rightarrow> 64 word \<Rightarrow> Size" where
  "small_size i n = size_of i [\<lparr>cn_Type = CoreConstraint, cn_Min = n, cn_Max = n, cn_Identifier = ''''\<rparr>,
     \<lparr>cn_Type = MemoryConstraint, cn_Min = 4, cn_Max = 8, cn_Identifier = ''''\<rparr>]"

lemmas example_size_simps = example_size_env_def range_of_def request_of_def size_of_def small_constraints_def
  small_size_def store_Create_def size_operations_def bind_action_def on_error_def both_checks_def
  size_validateCreate_def validateSizeConstraints_def validateSizesNotOverlapping_def size_create_def
  size_convertToInternal_def size_convertToProto_def FromConstraint_def ToConstraint_def Constraint_Validate_def
  filepath_Match_def tbl_List_def tbl_Create_def storage_List_def storage_Create_def base_table_def
  list_rethink_def list_rows_def setCreated_def setChanged_def setGeneration_def Size_Overlaps_def
  Size_overlaps_iff Constraint_overlaps_def pairs_overlap_def errors_Join_def constraint_types Let_def scanChunk_def

lemma small_created:
  "\<exists>m. store_Create plain_errorutil (size_operations example_size_env) (Some (request_of ''c1'' (small_constraints 4))) [] =
     (Inr m, [small_size ''c1'' 4])"
  by (simp add: example_size_simps plain_errorutil_def)

lemma second_created:
  "\<exists>m. store_Create plain_errorutil (size_operations example_size_env) (Some (request_of ''c2'' (small_constraints 16)))
     [small_size ''c1'' 4] = (Inr m, [small_size ''c2'' 16, small_size ''c1'' 4])"
  by (simp add: example_size_simps plain_errorutil_def)

lemma example_size_run:
  "size_run plain_errorutil base_table [] [small_size ''c2'' 16, small_size ''c1'' 4]"
proof -
  have env: "se_table example_size_env = base_table" "se_newID example_size_env \<noteq> Inr ''''"
    by (simp_all add: example_size_env_def)
  from small_created second_created show ?thesis
    using size_run.created [OF size_run.created [OF size_run.start env] env] by blast
qed

lemma small_size_ID [simp]: "b_ID (small_size i n) = i"
  by (simp add: small_size_def size_of_def)

lemma example_size_rows:
  "list_rows b_ID [small_size ''c2'' 16, small_size ''c1'' 4] i =
     (if i = ''c2'' then Some (small_size ''c2'' 16) else if i = ''c1'' then Some (small_size ''c1'' 4) else None)"
  by (auto simp: list_rows_def small_size_def size_of_def)

lemma sizes_never_overlap_witness: "\<not> Size_overlaps (small_size ''c2'' 16) (small_size ''c1'' 4)"
proof -
  have "rt_key base_table = b_ID" "list_rows b_ID [] = Map.empty"
    by (simp_all add: base_table_def list_rethink_def list_rows_def fun_eq_iff)
  from sizes_never_overlap [OF example_size_run base_table this, of "''c2''" "small_size ''c2'' 16" "''c1''"]
  show ?thesis by (simp add: example_size_rows)
qed

definition example_hardware :: MachineHardware where
  "example_hardware = \<lparr>hw_Memory = 6, hw_Nics = [], hw_Disks = [],
     hw_MetalCPUs = [\<lparr>cpu_Vendor = '''', cpu_Model = ''x'', cpu_Cores = 4, cpu_Threads = 4\<rparr>], hw_MetalGPUs = []\<rparr>"

lemma example_hardware_size:
  "FromHardware example_size_env example_hardware [small_size ''c2'' 16, small_size ''c1'' 4] =
     (Inr (small_size ''c1'' 4), [small_size ''c2'' 16, small_size ''c1'' 4])"
proof -
  have m: "size_matches (small_size ''c1'' 4) example_hardware" "\<not> size_matches (small_size ''c2'' 16) example_hardware"
    by (simp_all add: small_size_def size_of_def size_matches_def Constraint_matches_def
        hardware_matches_def exhaustiveMatch_def capacityOf_def identifier_matches_def inRange_def countCPU_def
        countMemory_def lo_Difference_def example_hardware_def allConstraintTypes_def constraint_types)
  have "sz_Constraints (small_size i n) \<noteq> []" "b_ID (small_size i n) = i" for i n
    by (simp_all add: small_size_def size_of_def)
  then show ?thesis
    by (simp add: FromHardware_def SizeFromHardware_def bind_action_def tbl_List_def storage_List_def
        example_size_env_def base_table_def list_rethink_def list_rows_def m)
qed

lemma hardware_has_one_size_witness:
  "\<not> size_matches (small_size ''c2'' 16) example_hardware"
proof -
  let ?st = "[small_size ''c2'' 16, small_size ''c1'' 4]"
  have ran: "ran (list_rows b_ID ?st) = {small_size ''c2'' 16, small_size ''c1'' 4}"
    unfolding list_rows_ran by (auto simp: example_size_rows)
  have comparable: "comparable_sizes s so" if "s \<in> ran (list_rows b_ID ?st)" "so \<in> ran (list_rows b_ID ?st)" for s so
    using that unfolding ran
    by (elim insertE emptyE) (simp_all add: comparable_sizes_def small_size_def size_of_def constraint_types)
  have differ: "small_size ''c2'' 16 \<noteq> small_size ''c1'' 4" by (simp add: small_size_def size_of_def)
  have empty: "list_rows b_ID [] = Map.empty" by (simp add: list_rows_def fun_eq_iff)
  have key: "rt_key base_table = b_ID" by (simp add: base_table_def list_rethink_def)
  have env: "se_table example_size_env = base_table" by (simp add: example_size_env_def)
  from hardware_has_one_size [OF example_size_run base_table key empty env comparable example_hardware_size]
  show ?thesis using differ by (simp add: ran)
qed

section \<open>Equal sizes with two kinds of disks\<close>

definition two_disk_constraints :: "ApiSizeConstraint list" where
  "two_disk_constraints = [range_of SIZE_CONSTRAINT_TYPE_CORES '''' 4 4, range_of SIZE_CONSTRAINT_TYPE_MEMORY '''' 4 8,
     range_of SIZE_CONSTRAINT_TYPE_STORAGE ''sd*'' 1 9, range_of SIZE_CONSTRAINT_TYPE_STORAGE ''nvme*'' 1 9]"

definition two_disk_size :: "string \<Rightarrow> Size" where
  "two_disk_size i = size_of i [\<lparr>cn_Type = CoreConstraint, cn_Min = 4, cn_Max = 4, cn_Identifier = ''''\<rparr>,
     \<lparr>cn_Type = MemoryConstraint, cn_Min = 4, cn_Max = 8, cn_Identifier = ''''\<rparr>,
     \<lparr>cn_Type = StorageConstraint, cn_Min = 1, cn_Max = 9, cn_Identifier = ''sd*''\<rparr>,
     \<lparr>cn_Type = StorageConstraint, cn_Min = 1, cn_Max = 9, cn_Identifier = ''nvme*''\<rparr>]"

definition two_disk_hardware :: MachineHardware where
  "two_disk_hardware = example_hardware\<lparr>hw_Disks := [\<lparr>bd_Name = ''sda'', bd_Size = 5\<rparr>, \<lparr>bd_Name = ''nvme0'', bd_Size = 5\<rparr>]\<rparr>"

text \<open>
  The check for overlaps compares every constraint of a type with every other of that type, so
  that two sizes with the same constraints on two kinds of disks do not overlap: the second one
  passes the validation and is created, and from then on the machines of the first have no size,
  because several sizes are found.
\<close>

theorem equal_sizes_accepted:
  "\<exists>m. store_Create plain_errorutil (size_operations example_size_env) (Some (request_of ''c2'' two_disk_constraints))
       [two_disk_size ''c1''] = (Inr m, [two_disk_size ''c2'', two_disk_size ''c1'']) \<and>
     FromHardware example_size_env two_disk_hardware [two_disk_size ''c1''] =
       (Inr (two_disk_size ''c1''), [two_disk_size ''c1'']) \<and>
     fst (FromHardware example_size_env two_disk_hardware [two_disk_size ''c2'', two_disk_size ''c1'']) =
       Inl (Plain ''%d sizes found for hardware (%s)'')"
proof -
  have created: "\<exists>m. store_Create plain_errorutil (size_operations example_size_env)
      (Some (request_of ''c2'' two_disk_constraints)) [two_disk_size ''c1''] =
      (Inr m, [two_disk_size ''c2'', two_disk_size ''c1''])"
    by (simp add: example_size_simps plain_errorutil_def two_disk_constraints_def two_disk_size_def)
  have m: "size_matches (two_disk_size i) two_disk_hardware" for i
    by (simp add: two_disk_size_def size_of_def two_disk_hardware_def example_hardware_def size_matches_def
        Constraint_matches_def hardware_matches_def exhaustiveMatch_def capacityOf_def identifier_matches_def
        inRange_def countCPU_def countDisk_def countMemory_def lo_Difference_def allConstraintTypes_def
        constraint_types filepath_Match_def scanChunk_def)
  have "sz_Constraints (two_disk_size i) \<noteq> []" "b_ID (two_disk_size i) = i" for i
    by (simp_all add: two_disk_size_def size_of_def)
  then have "FromHardware example_size_env two_disk_hardware [two_disk_size ''c1''] =
      (Inr (two_disk_size ''c1''), [two_disk_size ''c1''])"
    "fst (FromHardware example_size_env two_disk_hardware [two_disk_size ''c2'', two_disk_size ''c1'']) =
      Inl (Plain ''%d sizes found for hardware (%s)'')"
    by (simp_all add: FromHardware_def SizeFromHardware_def bind_action_def tbl_List_def storage_List_def
        example_size_env_def base_table_def list_rethink_def list_rows_def m)
      (auto simp: two_disk_size_def size_of_def)
  with created show ?thesis by blast
qed

end
