(* ===== verification/SizeReservations.thy ===== *)
theory SizeReservations
  imports MachineData TableActions
begin

text \<open>
  Reservations of machine sizes for projects: the entity of \<^verbatim>\<open>pkg/db/metal/size-reservation.go\<close>, its
  repository of \<^verbatim>\<open>pkg/repository/size-reservation.go\<close> and \<^verbatim>\<open>size-reservation-validation.go\<close> as an
  instance of the generic store, and the check that an allocation respects them. The tables of
  sizes, partitions and projects are lookups; the table of machines is a second table on the same
  state.
\<close>

section \<open>The entity\<close>

record SizeReservation = Base +
  sr_SizeID :: string
  sr_Amount :: int
  sr_ProjectID :: string
  sr_PartitionIDs :: "string list"
  sr_Labels :: Labels

definition SizeReservationsBySize :: "SizeReservation list \<Rightarrow> (string, SizeReservation list) gomap" where
  "SizeReservationsBySize rs = fold (\<lambda>rv. map_append (sr_SizeID rv) rv) rs []"

definition SizeReservationsForPartition :: "SizeReservation list \<Rightarrow> string \<Rightarrow> SizeReservation list" where
  "SizeReservationsForPartition rs partitionID = filter (\<lambda>r. partitionID \<in> set (sr_PartitionIDs r)) rs"

text \<open>The entries of the maps of sizes, partitions and projects do not matter, only the keys.\<close>

definition SizeReservation_Validate ::
  "SizeReservation \<Rightarrow> (string, 's) gomap \<Rightarrow> (string, 'p) gomap \<Rightarrow> (string, 'j) gomap \<Rightarrow> unit result" where
  "SizeReservation_Validate r sizes partitions projects =
     bind_result (check_that (\<not> sr_Amount r \<le> 0) (Plain ''amount must be a positive integer'')) (\<lambda>_.
     bind_result (check_that (has_key sizes (sr_SizeID r))
       (Plain ''size must exist before creating a size reservation'')) (\<lambda>_.
     bind_result (check_that (length (sr_PartitionIDs r) \<noteq> 0)
       (Plain ''at least one partition id must be specified'')) (\<lambda>_.
     bind_result (check_each (\<lambda>p. check_that (has_key partitions p)
       (Plain ''partition must exist before creating a size reservation'')) (sr_PartitionIDs r)) (\<lambda>_.
     bind_result (check_that (length (fold (\<lambda>p. AList.update p True) (sr_PartitionIDs r) []) = length (sr_PartitionIDs r))
       (Plain ''partitions must not contain duplicates'')) (\<lambda>_.
     bind_result (check_that (sr_ProjectID r \<noteq> '''') (Plain ''project id must be specified'')) (\<lambda>_.
     check_that (has_key projects (sr_ProjectID r))
       (Plain ''project must exist before creating a size reservation'')))))))"

definition SizeReservations_Validate ::
  "SizeReservation list \<Rightarrow> (string, 's) gomap \<Rightarrow> (string, 'p) gomap \<Rightarrow> (string, 'j) gomap \<Rightarrow> unit result" where
  "SizeReservations_Validate rs sizes partitions projects =
     check_each (\<lambda>r. SizeReservation_Validate r sizes partitions projects) rs"

section \<open>Messages\<close>

record SizeReservationQuery =
  srq_Id :: "string option"
  srq_Size :: "string option"
  srq_Name :: "string option"
  srq_Description :: "string option"
  srq_Labels :: "Labels option"
  srq_Project :: "string option"
  srq_Partition :: "string option"

record SizeReservationMeta =
  srm_Labels :: "Labels option"
  srm_CreatedAt :: time
  srm_UpdatedAt :: time
  srm_Generation :: "64 word"

text \<open>The amount of a message is a signed 32 bit integer.\<close>

record ApiSizeReservation =
  asr_Id :: string
  asr_Name :: string
  asr_Description :: string
  asr_Project :: string
  asr_Partitions :: "string list"
  asr_Size :: string
  asr_Amount :: "32 word"
  asr_Meta :: "SizeReservationMeta option"

record SizeReservationServiceUpdateRequest =
  sru_Id :: string
  sru_Name :: "string option"
  sru_Description :: "string option"
  sru_Amount :: "32 word option"
  sru_Partitions :: "string list"
  sru_Labels :: "LabelStrategy option"
  sru_UpdateMeta :: "UpdateMeta option"

record 'st reservation_env =
  rv_table :: "('st, string, SizeReservation) rethink"
  rv_machines :: "('st, string, Machine) rethink"
  rv_size :: "unit lookup"
  rv_partition :: "unit lookup"
  rv_project :: "unit lookup"
  rv_scope :: "string option" \<comment> \<open>the project of the caller\<close>
  rv_now :: time
  rv_newID :: "string result"

definition any_reservation :: SizeReservationQuery where
  "any_reservation = \<lparr>srq_Id = None, srq_Size = None, srq_Name = None, srq_Description = None, srq_Labels = None,
     srq_Project = None, srq_Partition = None\<rparr>"

section \<open>Operations\<close>

definition SizeReservationFilter :: "SizeReservationQuery \<Rightarrow> SizeReservation \<Rightarrow> bool" where
  "SizeReservationFilter rq r \<longleftrightarrow>
     matches_field (srq_Id rq) (b_ID r) \<and> matches_field (srq_Size rq) (sr_SizeID r) \<and>
     matches_field (srq_Name rq) (b_Name r) \<and> matches_field (srq_Description rq) (b_Description r) \<and>
     matches_labels (srq_Labels rq) (sr_Labels r) \<and> matches_field (srq_Project rq) (sr_ProjectID r) \<and>
     (case srq_Partition rq of None \<Rightarrow> True | Some p \<Rightarrow> p \<in> set (sr_PartitionIDs r))"

definition sizeReservationFilters :: "SizeReservationQuery option \<Rightarrow> (SizeReservation \<Rightarrow> bool) list" where
  "sizeReservationFilters rq = (case rq of None \<Rightarrow> [] | Some rq \<Rightarrow> [SizeReservationFilter rq])"

definition reservation_convertToInternal :: "ApiSizeReservation \<Rightarrow> SizeReservation" where
  "reservation_convertToInternal e =
     \<lparr>b_ID = asr_Id e, b_Name = asr_Name e, b_Description = asr_Description e, b_Created = 0, b_Changed = 0,
      b_Generation = 0, sr_SizeID = asr_Size e, sr_Amount = sint (asr_Amount e), sr_ProjectID = asr_Project e,
      sr_PartitionIDs = asr_Partitions e,
      sr_Labels = (case asr_Meta e of None \<Rightarrow> [] | Some m \<Rightarrow> (case srm_Labels m of None \<Rightarrow> [] | Some ls \<Rightarrow> ls))\<rparr>"

definition reservation_convertToProto :: "SizeReservation \<Rightarrow> ApiSizeReservation" where
  "reservation_convertToProto e =
     \<lparr>asr_Id = b_ID e, asr_Name = b_Name e, asr_Description = b_Description e, asr_Project = sr_ProjectID e,
      asr_Partitions = sr_PartitionIDs e, asr_Size = sr_SizeID e, asr_Amount = word_of_int (sr_Amount e),
      asr_Meta = Some \<lparr>srm_Labels = (if sr_Labels e = [] then None else Some (sr_Labels e)),
        srm_CreatedAt = b_Created e, srm_UpdatedAt = b_Changed e, srm_Generation = b_Generation e\<rparr>\<rparr>"

definition reservation_create ::
  "'st reservation_env \<Rightarrow> ApiSizeReservation option \<Rightarrow> ('st, SizeReservation option) action" where
  "reservation_create env rq =
     (case rq of
        None \<Rightarrow> return None
      | Some e \<Rightarrow>
          bind_action (tbl_Create (rv_table env) (rv_now env) (rv_newID env) (reservation_convertToInternal e))
            (\<lambda>resp. return (Some resp)))"

definition apply_reservation_request ::
  "SizeReservationServiceUpdateRequest \<Rightarrow> SizeReservation \<Rightarrow> SizeReservation" where
  "apply_reservation_request rq e =
     e\<lparr>b_Description := (case sru_Description rq of None \<Rightarrow> b_Description e | Some d \<Rightarrow> d),
       b_Name := (case sru_Name rq of None \<Rightarrow> b_Name e | Some n \<Rightarrow> n),
       sr_Amount := (case sru_Amount rq of None \<Rightarrow> sr_Amount e | Some a \<Rightarrow> sint a),
       sr_PartitionIDs := (if length (sru_Partitions rq) \<noteq> 0 then sru_Partitions rq else sr_PartitionIDs e),
       sr_Labels := (if sru_Labels rq = None then sr_Labels e else updateLabelsOnMap (sru_Labels rq) (sr_Labels e))\<rparr>"

definition reservation_update ::
  "'st reservation_env \<Rightarrow> SizeReservation \<Rightarrow> SizeReservationServiceUpdateRequest \<Rightarrow> ('st, SizeReservation) action" where
  "reservation_update env e rq = tbl_Update (rv_table env) (rv_now env) (apply_reservation_request rq e)"

definition reservation_delete :: "'st reservation_env \<Rightarrow> SizeReservation \<Rightarrow> ('st, string option) action" where
  "reservation_delete env e = bind_action (tbl_Delete (rv_table env) e) (\<lambda>_. return None)"

definition reservation_matchScope :: "'st reservation_env \<Rightarrow> SizeReservation \<Rightarrow> bool" where
  "reservation_matchScope env r = (case rv_scope env of None \<Rightarrow> True | Some project \<Rightarrow> project = sr_ProjectID r)"

definition reservation_list ::
  "'st reservation_env \<Rightarrow> SizeReservationQuery option \<Rightarrow> ('st, SizeReservation list) action" where
  "reservation_list env rq = tbl_List (rv_table env) (sizeReservationFilters rq)"

section \<open>Validation\<close>

definition reservation_validateCreate :: "'st reservation_env \<Rightarrow> ApiSizeReservation option \<Rightarrow> unit result" where
  "reservation_validateCreate env rq =
     (case rq of
        None \<Rightarrow> Inl (Plain ''sizereservation is nil'')
      | Some sr \<Rightarrow>
          bind_result (check_that (asr_Id sr = '''') (Plain ''id must not be defined'')) (\<lambda>_.
          bind_result (check_that (\<not> sint (asr_Amount sr) \<le> 0) (Plain ''amount must be a positive integer'')) (\<lambda>_.
          bind_result (map_error (\<lambda>_. FailedPrecondition ''size must exist before creating a size reservation: %w'')
            (rv_size env (asr_Size sr))) (\<lambda>_.
          bind_result (check_that (length (asr_Partitions sr) \<noteq> 0)
            (Plain ''at least one partition id must be specified'')) (\<lambda>_.
          bind_result (check_each (\<lambda>p.
            map_error (\<lambda>_. FailedPrecondition ''partition must exist before creating a size reservation: %w'')
              (rv_partition env p)) (asr_Partitions sr)) (\<lambda>_.
          map_error (\<lambda>_. FailedPrecondition ''project must exist before creating a size reservation: %w'')
            (rv_project env (asr_Project sr))))))))"

definition reservation_validateUpdate ::
  "'st reservation_env \<Rightarrow> SizeReservationServiceUpdateRequest \<Rightarrow> unit result" where
  "reservation_validateUpdate env rq =
     bind_result (check_that (\<not> (\<exists>a\<in>set_option (sru_Amount rq). sint a \<le> 0))
       (Plain ''amount must be a positive integer'')) (\<lambda>_.
     check_each (\<lambda>p. map_error (\<lambda>_. FailedPrecondition ''partition must exist before creating a size reservation: %w'')
       (rv_partition env p)) (sru_Partitions rq))"

section \<open>The check of an allocation\<close>

text \<open>The loop with the amount summed up so far; the candidates are only counted.\<close>

fun reservation_loop ::
  "string \<Rightarrow> (string, 'm list) gomap \<Rightarrow> SizeReservation list \<Rightarrow> int \<Rightarrow> int option" where
  "reservation_loop projectid machinesByProject [] amount = Some amount"
| "reservation_loop projectid machinesByProject (r # rs) amount =
     (let amount = amount + sr_Amount r;
          alreadyAllocated = int (length (map_get [] machinesByProject (sr_ProjectID r)))
      in if projectid = sr_ProjectID r \<and> alreadyAllocated < sr_Amount r then None
         else reservation_loop projectid machinesByProject rs (max (amount - alreadyAllocated) 0))"

definition checkSizeReservations ::
  "'m list \<Rightarrow> string \<Rightarrow> (string, 'm list) gomap \<Rightarrow> SizeReservation list \<Rightarrow> bool" where
  "checkSizeReservations available projectid machinesByProject reservations =
     (case reservation_loop projectid machinesByProject reservations 0 of
        None \<Rightarrow> True
      | Some amount \<Rightarrow> amount < int (length available))"

text \<open>The allocated machines by the project of their allocation.\<close>

definition allocation_project :: "Machine \<Rightarrow> string" where
  "allocation_project m = (case m_Allocation m of None \<Rightarrow> '''' | Some a \<Rightarrow> ma_Project a)"

definition machinesByProject :: "Machine list \<Rightarrow> (string, Machine list) gomap" where
  "machinesByProject ms = fold (\<lambda>m. map_append (allocation_project m) m) (filter (\<lambda>m. m_Allocation m \<noteq> None) ms) []"

definition reservation_check ::
  "'st reservation_env \<Rightarrow> Machine list \<Rightarrow> string \<Rightarrow> string \<Rightarrow> string \<Rightarrow> ('st, unit) action" where
  "reservation_check env candidates part project s =
     bind_action (reservation_list env (Some (any_reservation\<lparr>srq_Partition := Some part, srq_Size := Some s\<rparr>))) (\<lambda>reservations.
     if length reservations = 0 then return ()
     else
       bind_action (tbl_List (rv_machines env) [\<lambda>m. m_PartitionID m = part \<and> m_SizeID m = s]) (\<lambda>partitionMachines.
       lift_result (check_that (checkSizeReservations candidates project (machinesByProject partitionMachines) reservations)
         (Plain ''no machine available''))))"

section \<open>The repository as the store sees it\<close>

definition reservation_operations ::
  "'st reservation_env \<Rightarrow>
   ('st, SizeReservation option, ApiSizeReservation, ApiSizeReservation option,
    SizeReservationServiceUpdateRequest, SizeReservationQuery option) repository" where
  "reservation_operations env =
     \<lparr>rp_validateCreate = (\<lambda>rq. bind_action (lift_result (reservation_validateCreate env rq)) (\<lambda>_. return rq)),
      rp_create = reservation_create env,
      rp_get = (\<lambda>i. bind_action (tbl_Get (rv_table env) i) (\<lambda>r. return (Some r))),
      rp_find = (\<lambda>q. bind_action (tbl_Find (rv_table env) (sizeReservationFilters q)) (\<lambda>r. return (Some r))),
      rp_list = (\<lambda>q. bind_action (reservation_list env q) (\<lambda>rs. return (map Some rs))),
      rp_matchScope = (\<lambda>e. case e of None \<Rightarrow> rv_scope env \<in> {None, Some ''''} | Some e \<Rightarrow> reservation_matchScope env e),
      rp_validateUpdate = (\<lambda>rq e. bind_action (lift_result (reservation_validateUpdate env rq)) (\<lambda>_. return rq)),
      rp_update = (\<lambda>e rq. bind_action (reservation_update env (the e) rq) (\<lambda>r. return (Some r))),
      rp_validateDelete = (\<lambda>_. return ()),
      rp_delete = (\<lambda>e. reservation_delete env (the e)),
      rp_convertToProto = (\<lambda>e. lift_result (case e of
          None \<Rightarrow> Inl (Plain ''size reservation is nil'') | Some e \<Rightarrow> Inr (reservation_convertToProto e))),
      rp_updateMeta = sru_UpdateMeta,
      rp_SetChanged = (\<lambda>t e. map_option (\<lambda>e. e\<lparr>b_Changed := t\<rparr>) e),
      rp_setDeletionTask = (\<lambda>_ m. m)\<rparr>"

lemma reservation_list_reads [simp]: "reads_only (reservation_list env q)"
  by (simp add: reservation_list_def)

lemma reservation_check_reads [simp]: "reads_only (reservation_check env cs part project s)"
  by (simp add: reservation_check_def bind_reads)

interpretation reservation_repo: scoped_repository "reservation_operations env" "\<lambda>st. st"
proof
  show "snd (rp_get (reservation_operations env) i st) = st" for i st
    by (rule reads_onlyD) (simp add: reservation_operations_def bind_reads)
qed (auto simp: reservation_operations_def bind_action_def split: sum.split)

end
