(* ===== verification/SizeReservationProps.thy ===== *)
theory SizeReservationProps
  imports SizeReservations
begin

text \<open>
  What the check of size reservations guarantees. As long as no project holds more machines than
  it reserved, the amount that the loop sums up is the number of machines still reserved, so an
  allocation that passes leaves enough machines for every open reservation. A project that was
  allowed to exceed its reservation breaks this: its surplus is taken off the reservations of the
  projects before it in the list.
\<close>

section \<open>The sum of the loop\<close>

definition held :: "Machine list \<Rightarrow> string \<Rightarrow> int" where
  "held ms p = int (length (filter (\<lambda>m. m_Allocation m \<noteq> None \<and> allocation_project m = p) ms))"

definition open_amount :: "Machine list \<Rightarrow> SizeReservation \<Rightarrow> int" where
  "open_amount ms r = max 0 (sr_Amount r - held ms (sr_ProjectID r))"

definition open_total :: "Machine list \<Rightarrow> SizeReservation list \<Rightarrow> int" where
  "open_total ms rs = sum_list (map (open_amount ms) rs)"

definition not_overused :: "Machine list \<Rightarrow> SizeReservation list \<Rightarrow> bool" where
  "not_overused ms rs \<longleftrightarrow> (\<forall>r\<in>set rs. held ms (sr_ProjectID r) \<le> sr_Amount r)"

definition has_open :: "Machine list \<Rightarrow> string \<Rightarrow> SizeReservation list \<Rightarrow> bool" where
  "has_open ms p rs \<longleftrightarrow> (\<exists>r\<in>set rs. sr_ProjectID r = p \<and> held ms p < sr_Amount r)"

lemma map_get_machinesByProject:
  "map_get [] (machinesByProject ms) p = filter (\<lambda>m. m_Allocation m \<noteq> None \<and> allocation_project m = p) ms"
  using map_get_fold_append [of allocation_project "\<lambda>m. m" "filter (\<lambda>m. m_Allocation m \<noteq> None) ms" "[]" p]
  by (simp add: machinesByProject_def conj_commute)

lemma length_machinesByProject [simp]: "int (length (map_get [] (machinesByProject ms) p)) = held ms p"
  by (simp add: map_get_machinesByProject held_def)

lemma reservation_loop_None:
  "reservation_loop p (machinesByProject ms) rs n = None \<longleftrightarrow> has_open ms p rs"
  by (induction rs arbitrary: n) (auto simp: has_open_def Let_def)

lemma reservation_loop_Some:
  assumes "not_overused ms rs" and "0 \<le> n" and "\<not> has_open ms p rs"
  shows "reservation_loop p (machinesByProject ms) rs n = Some (n + open_total ms rs)"
  using assms
proof (induction rs arbitrary: n)
  case (Cons r rs)
  then have "held ms (sr_ProjectID r) \<le> sr_Amount r" "\<not> (p = sr_ProjectID r \<and> held ms (sr_ProjectID r) < sr_Amount r)"
    "not_overused ms rs" "\<not> has_open ms p rs"
    by (auto simp: not_overused_def has_open_def)
  moreover from this have "max (n + sr_Amount r - held ms (sr_ProjectID r)) 0 = n + open_amount ms r"
    "0 \<le> n + open_amount ms r"
    using Cons.prems(2) by (auto simp: open_amount_def)
  ultimately show ?case
    using Cons.IH [of "n + open_amount ms r"] by (simp add: Let_def open_total_def)
qed (simp add: open_total_def)

text \<open>
  As long as no project holds more machines than it reserved, an allocation for a project is
  allowed exactly when the project has a reservation that is not used up, or the candidates are
  more than the machines that are still reserved by all projects together.
\<close>

theorem reservation_check_iff:
  assumes "not_overused ms rs"
  shows "checkSizeReservations cs p (machinesByProject ms) rs \<longleftrightarrow>
    has_open ms p rs \<or> open_total ms rs < int (length cs)"
  using reservation_loop_None [of p ms rs 0] reservation_loop_Some [OF assms, of 0 p]
  by (cases "has_open ms p rs") (auto simp: checkSizeReservations_def split: option.split)

section \<open>Reservations are honoured\<close>

definition free_machines :: "Machine list \<Rightarrow> Machine list" where
  "free_machines ms = filter (\<lambda>m. m_Allocation m = None) ms"

text \<open>
  The machines of a size in a partition under allocations that pass the check and releases. A
  project with a reservation stays within it.
\<close>

definition within_reservation :: "Machine list \<Rightarrow> string \<Rightarrow> SizeReservation list \<Rightarrow> bool" where
  "within_reservation ms p rs \<longleftrightarrow> (\<forall>r\<in>set rs. sr_ProjectID r = p \<longrightarrow> held ms p < sr_Amount r)"

inductive reserved_run :: "SizeReservation list \<Rightarrow> Machine list \<Rightarrow> Machine list \<Rightarrow> bool" for rs ms0 where
  start: "reserved_run rs ms0 ms0"
| allocated:
    "reserved_run rs ms0 (xs @ m # ys) \<Longrightarrow> m_Allocation m = None \<Longrightarrow>
     checkSizeReservations (free_machines (xs @ m # ys)) (ma_Project a) (machinesByProject (xs @ m # ys)) rs \<Longrightarrow>
     within_reservation (xs @ m # ys) (ma_Project a) rs \<Longrightarrow>
     reserved_run rs ms0 (xs @ m\<lparr>m_Allocation := Some a\<rparr> # ys)"
| released:
    "reserved_run rs ms0 (xs @ m # ys) \<Longrightarrow> reserved_run rs ms0 (xs @ m\<lparr>m_Allocation := None\<rparr> # ys)"

definition honoured :: "SizeReservation list \<Rightarrow> Machine list \<Rightarrow> bool" where
  "honoured rs ms \<longleftrightarrow> not_overused ms rs \<and> open_total ms rs \<le> int (length (free_machines ms))"

lemma held_split:
  "held (xs @ m # ys) p = held (xs @ ys) p + (if m_Allocation m \<noteq> None \<and> allocation_project m = p then 1 else 0)"
  by (simp add: held_def)

lemma free_split:
  "int (length (free_machines (xs @ m # ys))) =
     int (length (free_machines (xs @ ys))) + (if m_Allocation m = None then 1 else 0)"
  by (simp add: free_machines_def)

text \<open>One machine more or less of a project changes the sum by one for each of its reservations.\<close>

lemma open_total_less:
  assumes "\<And>q. held ms' q = held ms q + (if q = p then 1 else 0)" and "within_reservation ms p rs"
  shows "open_total ms' rs = open_total ms rs - int (length (filter (\<lambda>r. sr_ProjectID r = p) rs))"
  using assms(2) by (induction rs) (auto simp: open_total_def open_amount_def assms(1) within_reservation_def)

lemma open_total_more:
  assumes "\<And>q. held ms q = held ms' q + (if q = p then 1 else 0)"
  shows "open_total ms' rs \<le> open_total ms rs + int (length (filter (\<lambda>r. sr_ProjectID r = p) rs))"
  by (induction rs) (auto simp: open_total_def open_amount_def assms)

lemma at_most_one: "distinct (map f xs) \<Longrightarrow> length (filter (\<lambda>x. f x = y) xs) \<le> 1"
proof (induction xs)
  case (Cons x xs)
  then have "filter (\<lambda>z. f z = f x) xs = []" by (auto simp: filter_empty_conv image_iff)
  with Cons show ?case by auto
qed simp

lemma honoured_allocated:
  assumes "honoured rs (xs @ m # ys)" and "m_Allocation m = None"
    and "checkSizeReservations (free_machines (xs @ m # ys)) p (machinesByProject (xs @ m # ys)) rs"
    and "within_reservation (xs @ m # ys) p rs" and "ma_Project a = p"
  shows "honoured rs (xs @ m\<lparr>m_Allocation := Some a\<rparr> # ys)"
proof -
  let ?ms = "xs @ m # ys" and ?ms' = "xs @ m\<lparr>m_Allocation := Some a\<rparr> # ys"
  let ?k = "length (filter (\<lambda>r. sr_ProjectID r = p) rs)"
  have h: "held ?ms' q = held ?ms q + (if q = p then 1 else 0)" for q
    unfolding held_split using assms(2,5) by (auto simp: allocation_project_def)
  have free: "int (length (free_machines ?ms')) = int (length (free_machines ?ms)) - 1"
    unfolding free_split using assms(2) by simp
  have "open_total ?ms rs < int (length (free_machines ?ms)) + int ?k"
  proof (cases "has_open ?ms p rs")
    case True
    then have "0 < ?k" by (auto simp: has_open_def filter_empty_conv length_greater_0_conv)
    with assms(1) show ?thesis unfolding honoured_def by linarith
  next
    case False
    with assms(1,3) reservation_check_iff [of ?ms rs "free_machines ?ms" p]
    have "open_total ?ms rs < int (length (free_machines ?ms))" unfolding honoured_def by blast
    then show ?thesis by simp
  qed
  with open_total_less [OF h assms(4)] free have "open_total ?ms' rs \<le> int (length (free_machines ?ms'))" by simp
  moreover have "not_overused ?ms' rs"
    using assms(1,4) by (auto simp: honoured_def not_overused_def within_reservation_def h)
  ultimately show ?thesis by (simp add: honoured_def)
qed

lemma honoured_released:
  assumes "honoured rs (xs @ m # ys)" and "distinct (map sr_ProjectID rs)"
  shows "honoured rs (xs @ m\<lparr>m_Allocation := None\<rparr> # ys)"
proof (cases "m_Allocation m")
  case None
  then have "m\<lparr>m_Allocation := None\<rparr> = m" by (cases m) simp
  with assms show ?thesis by simp
next
  case (Some a)
  let ?ms = "xs @ m # ys" and ?ms' = "xs @ m\<lparr>m_Allocation := None\<rparr> # ys" and ?p = "allocation_project m"
  have h: "held ?ms q = held ?ms' q + (if q = ?p then 1 else 0)" for q
    unfolding held_split using Some by simp
  have "int (length (free_machines ?ms')) = int (length (free_machines ?ms)) + 1"
    unfolding free_split using Some by simp
  with open_total_more [OF h, of rs] at_most_one [OF assms(2), of ?p] assms(1)
  have "open_total ?ms' rs \<le> int (length (free_machines ?ms'))" unfolding honoured_def by linarith
  moreover have "not_overused ?ms' rs"
    unfolding not_overused_def
  proof
    fix r assume "r \<in> set rs"
    with assms(1) have "held ?ms (sr_ProjectID r) \<le> sr_Amount r" by (simp add: honoured_def not_overused_def)
    with h [of "sr_ProjectID r"] show "held ?ms' (sr_ProjectID r) \<le> sr_Amount r" by (simp split: if_splits)
  qed
  ultimately show ?thesis by (simp add: honoured_def)
qed

lemma reserved_run_honoured:
  "reserved_run rs ms0 ms \<Longrightarrow> honoured rs ms0 \<Longrightarrow> distinct (map sr_ProjectID rs) \<Longrightarrow> honoured rs ms"
  by (induction rule: reserved_run.induct) (auto intro: honoured_allocated honoured_released)

text \<open>
  C33: When every project has one reservation, stays within it, and there are enough free machines
  at the start, then whatever machines are allocated after passing the check, also by projects
  without a reservation, and whatever machines are released: a project with an open reservation
  still passes the check, and there are free machines for all open reservations.
\<close>

theorem reservations_honoured:
  assumes "reserved_run rs ms0 ms" and "distinct (map sr_ProjectID rs)"
    and "not_overused ms0 rs" and "open_total ms0 rs \<le> int (length (free_machines ms0))"
    and "r \<in> set rs" and "held ms (sr_ProjectID r) < sr_Amount r"
  shows "checkSizeReservations (free_machines ms) (sr_ProjectID r) (machinesByProject ms) rs \<and>
    free_machines ms \<noteq> [] \<and> open_total ms rs \<le> int (length (free_machines ms))"
proof -
  from assms(1-4) have hon: "honoured rs ms" using reserved_run_honoured by (simp add: honoured_def)
  have "0 < open_amount ms r" using assms(6) by (simp add: open_amount_def)
  moreover have "open_amount ms r \<le> open_total ms rs"
    using assms(5) unfolding open_total_def by (intro member_le_sum_list) (auto simp: open_amount_def)
  ultimately have "free_machines ms \<noteq> []" using hon by (auto simp: honoured_def)
  moreover have "has_open ms (sr_ProjectID r) rs" using assms(5,6) by (auto simp: has_open_def)
  ultimately show ?thesis using hon reservation_check_iff [of ms rs] by (simp add: honoured_def)
qed

section \<open>Examples\<close>

definition example_allocation :: "string \<Rightarrow> MachineAllocation" where
  "example_allocation p = \<lparr>ma_Creator = '''', ma_Created = 0, ma_Name = '''', ma_Description = '''', ma_Project = p,
     ma_ImageID = '''', ma_FilesystemLayoutID = '''', ma_FilesystemLayout = None, ma_MachineNetworks = [],
     ma_Hostname = '''', ma_SSHPubKeys = [], ma_UserData = '''', ma_ConsolePassword = '''', ma_Succeeded = True,
     ma_Role = RoleMachine, ma_VPN = None, ma_UUID = '''', ma_FirewallRules = None, ma_DNSServers = [],
     ma_NTPServers = [], ma_Labels = [], ma_PlacementLabels = []\<rparr>"

definition free_machine :: "string \<Rightarrow> Machine" where
  "free_machine i = (machine_with_id i)\<lparr>m_PartitionID := ''part'', m_SizeID := ''s1''\<rparr>"

definition machine_of :: "string \<Rightarrow> string \<Rightarrow> Machine" where
  "machine_of i p = (free_machine i)\<lparr>m_Allocation := Some (example_allocation p)\<rparr>"

definition reservation_of :: "string \<Rightarrow> int \<Rightarrow> SizeReservation" where
  "reservation_of p n = \<lparr>b_ID = p, b_Name = '''', b_Description = '''', b_Created = 0, b_Changed = 0,
     b_Generation = 0, sr_SizeID = ''s1'', sr_Amount = n, sr_ProjectID = p, sr_PartitionIDs = [''part''], sr_Labels = []\<rparr>"

lemma example_machine_simps [simp]:
  "m_Allocation (free_machine i) = None" "m_Allocation (machine_of i p) = Some (example_allocation p)"
  "allocation_project (machine_of i p) = p" "ma_Project (example_allocation p) = p"
  "sr_ProjectID (reservation_of p n) = p" "sr_Amount (reservation_of p n) = n"
  "m_PartitionID (free_machine i) = ''part''" "m_SizeID (free_machine i) = ''s1''"
  "m_PartitionID (machine_of i p) = ''part''" "m_SizeID (machine_of i p) = ''s1''"
  "b_ID (free_machine i) = i" "b_ID (machine_of i p) = i" "b_ID (reservation_of p n) = p"
  "sr_SizeID (reservation_of p n) = ''s1''" "sr_PartitionIDs (reservation_of p n) = [''part'']"
  by (simp_all add: free_machine_def machine_of_def example_allocation_def allocation_project_def
      reservation_of_def machine_with_id_def)

lemmas reservation_simps = not_overused_def open_total_def open_amount_def held_def free_machines_def has_open_def

theorem reservation_check_iff_witness:
  "checkSizeReservations [free_machine ''a'', free_machine ''b''] ''p1''
     (machinesByProject [free_machine ''a'', free_machine ''b'']) [reservation_of ''p2'' 1]"
  using reservation_check_iff [of "[free_machine ''a'', free_machine ''b'']" "[reservation_of ''p2'' 1]"
      "[free_machine ''a'', free_machine ''b'']" "''p1''"]
  by (simp add: reservation_simps)

lemma example_reserved_run:
  "reserved_run [reservation_of ''p2'' 1] [free_machine ''a'', free_machine ''b'']
     [machine_of ''a'' ''p1'', free_machine ''b'']"
proof -
  let ?rs = "[reservation_of ''p2'' 1]" and ?ms = "[] @ free_machine ''a'' # [free_machine ''b'']"
  have "reserved_run ?rs ?ms ?ms" by (rule reserved_run.start)
  moreover have "checkSizeReservations (free_machines ?ms) ''p1'' (machinesByProject ?ms) ?rs"
    using reservation_check_iff_witness by (simp add: free_machines_def)
  moreover have "within_reservation ?ms ''p1'' ?rs" by (simp add: within_reservation_def)
  ultimately have "reserved_run ?rs ?ms
      ([] @ (free_machine ''a'')\<lparr>m_Allocation := Some (example_allocation ''p1'')\<rparr> # [free_machine ''b''])"
    by (intro reserved_run.allocated) simp_all
  then show ?thesis by (simp add: machine_of_def)
qed

theorem reservations_honoured_witness:
  "free_machines [machine_of ''a'' ''p1'', free_machine ''b''] \<noteq> []"
  using reservations_honoured [OF example_reserved_run, of "reservation_of ''p2'' 1"]
  by (simp add: reservation_simps)

section \<open>A project beyond its reservation\<close>

definition reservation_example_env :: "Machine list \<Rightarrow> (SizeReservation list) reservation_env" where
  "reservation_example_env ms =
     \<lparr>rv_table = base_table, rv_machines = const_table b_ID ms, rv_size = (\<lambda>_. Inr ()), rv_partition = (\<lambda>_. Inr ()),
      rv_project = (\<lambda>_. Inr ()), rv_scope = None, rv_now = 7, rv_newID = Inr ''new''\<rparr>"

lemma example_machine_eq [simp]:
  "free_machine i = free_machine j \<longleftrightarrow> i = j" "machine_of i p = machine_of j q \<longleftrightarrow> i = j \<and> p = q"
  "free_machine i \<noteq> machine_of j q" "machine_of j q \<noteq> free_machine i"
  "reservation_of p n = reservation_of q k \<longleftrightarrow> p = q \<and> n = k"
  by (metis example_machine_simps(11)) (metis example_machine_simps(3,12), metis example_machine_simps(1,2) option.distinct(1),
      metis example_machine_simps(1,2) option.distinct(1), metis example_machine_simps(5,6))

lemmas reservation_check_simps = reservation_check_def reservation_list_def bind_action_def tbl_List_def
  storage_List_def base_table_def list_rethink_def list_rows_def const_table_def reservation_example_env_def
  sizeReservationFilters_def SizeReservationFilter_def any_reservation_def matches_field_def matches_labels_def
  checkSizeReservations_def map_get_machinesByProject Let_def

text \<open>
  A project that holds more machines than it reserved takes machines that are reserved for
  others. With two machines reserved for one project, one for a second that already holds two, and
  two machines left, the second project may allocate a third: afterwards one machine is left for a
  reservation of two. With the reservations in the other order the same allocation is refused.
\<close>

theorem overused_reservation_takes_others:
  defines "ms \<equiv> [machine_of ''a'' ''p1'', machine_of ''b'' ''p1'', free_machine ''c'', free_machine ''d'']"
  shows "fst (reservation_check (reservation_example_env ms) (free_machines ms) ''part'' ''p1'' ''s1''
      [reservation_of ''p2'' 2, reservation_of ''p1'' 1]) = Inr () \<and>
    fst (reservation_check (reservation_example_env ms) (free_machines ms) ''part'' ''p1'' ''s1''
      [reservation_of ''p1'' 1, reservation_of ''p2'' 2]) = Inl (Plain ''no machine available'') \<and>
    open_amount (ms[2 := machine_of ''c'' ''p1'']) (reservation_of ''p2'' 2) = 2 \<and>
    length (free_machines (ms[2 := machine_of ''c'' ''p1''])) = 1"
  unfolding ms_def
  by (simp_all add: reservation_check_simps reservation_simps)

end
