(* ===== verification/Filesystems.thy ===== *)
theory Filesystems
  imports MachineData Labels
begin

text \<open>
  Filesystem layouts, \<^verbatim>\<open>pkg/db/metal/filesystem.go\<close>: the layout of disks, raids, volume groups,
  logical volumes and filesystems, its validation, the collisions between the constraints of
  layouts, and the choice of a layout for a size and an image. The semantic version library and the
  parser of image ids are arguments. A set of devices is the list of its elements.
\<close>

section \<open>Data\<close>

definition VFAT :: Format where "VFAT = ''vfat''"
definition EXT3 :: Format where "EXT3 = ''ext3''"
definition EXT4 :: Format where "EXT4 = ''ext4''"
definition SWAP :: Format where "SWAP = ''swap''"
definition TMPFS :: Format where "TMPFS = ''tmpfs''"
definition NONE :: Format where "NONE = ''none''"
definition GPTBoot :: GPTType where "GPTBoot = ''ef00''"
definition GPTLinux :: GPTType where "GPTLinux = ''8300''"
definition GPTLinuxRaid :: GPTType where "GPTLinuxRaid = ''fd00''"
definition GPTLinuxLVM :: GPTType where "GPTLinuxLVM = ''8e00''"
definition RaidLevel0 :: RaidLevel where "RaidLevel0 = ''0''"
definition RaidLevel1 :: RaidLevel where "RaidLevel1 = ''1''"
definition LVMTypeLinear :: LVMType where "LVMTypeLinear = ''linear''"
definition LVMTypeStriped :: LVMType where "LVMTypeStriped = ''striped''"
definition LVMTypeRaid1 :: LVMType where "LVMTypeRaid1 = ''raid1''"

definition SupportedFormats :: "Format list" where
  "SupportedFormats = [VFAT, EXT3, EXT4, SWAP, TMPFS, NONE]"
definition SupportedGPTTypes :: "GPTType list" where
  "SupportedGPTTypes = [GPTBoot, GPTLinux, GPTLinuxLVM, GPTLinuxRaid]"
definition SupportedRaidLevels :: "RaidLevel list" where
  "SupportedRaidLevels = [RaidLevel0, RaidLevel1]"
definition SupportedLVMTypes :: "LVMType list" where
  "SupportedLVMTypes = [LVMTypeLinear, LVMTypeStriped, LVMTypeRaid1]"

record 'v semver =
  sv_NewVersion :: "string \<Rightarrow> 'v result"
  sv_NewConstraint :: "string \<Rightarrow> ('v \<Rightarrow> bool) result" \<comment> \<open>with \<open>Check\<close>\<close>
  sv_GetOsAndSemverFromImage :: "string \<Rightarrow> (string \<times> 'v) result"

section \<open>Strings and paths\<close>

text \<open>
  White space as \<open>unicode.IsSpace\<close> has it, in UTF-8. No encoding is the beginning of another, and the first
  byte of one occurs in no other place of a text, so that a byte sequence that looks like white space is white space.
\<close>

definition spaces :: "string list" where
  "spaces =
     map (\<lambda>c. [c]) [CHR 0x09, CHR 0x0A, CHR 0x0B, CHR 0x0C, CHR 0x0D, CHR '' ''] @
     [[CHR 0xC2, CHR 0x85], [CHR 0xC2, CHR 0xA0], [CHR 0xE1, CHR 0x9A, CHR 0x80]] @
     map (\<lambda>c. [CHR 0xE2, CHR 0x80, c])
       [CHR 0x80, CHR 0x81, CHR 0x82, CHR 0x83, CHR 0x84, CHR 0x85, CHR 0x86, CHR 0x87, CHR 0x88, CHR 0x89, CHR 0x8A,
        CHR 0xA8, CHR 0xA9, CHR 0xAF] @
     [[CHR 0xE2, CHR 0x81, CHR 0x9F], [CHR 0xE3, CHR 0x80, CHR 0x80]]"

text \<open>The number of bytes of the white space a text begins with.\<close>

definition space_width :: "string list \<Rightarrow> string \<Rightarrow> nat" where
  "space_width ws s = (case find (HasPrefix_string s) ws of None \<Rightarrow> 0 | Some w \<Rightarrow> length w)"

fun trim_front :: "string list \<Rightarrow> string \<Rightarrow> string" where
  "trim_front ws [] = []"
| "trim_front ws (c # cs) = (case space_width ws (c # cs) of 0 \<Rightarrow> c # cs | Suc n \<Rightarrow> trim_front ws (drop n cs))"

text \<open>\<open>strings.TrimSpace\<close>, \<open>strings.Fields\<close> and \<open>strings.SplitN(s, " ", 2)\<close>.\<close>

definition TrimSpace :: "string \<Rightarrow> string" where
  "TrimSpace s = rev (trim_front (map rev spaces) (rev (trim_front spaces s)))"

fun fields_loop :: "string \<Rightarrow> string \<Rightarrow> string list" where
  "fields_loop field [] = (if field = [] then [] else [field])"
| "fields_loop field (c # cs) =
     (case space_width spaces (c # cs) of
        0 \<Rightarrow> fields_loop (field @ [c]) cs
      | Suc n \<Rightarrow> (if field = [] then [] else [field]) @ fields_loop [] (drop n cs))"

definition Fields :: "string \<Rightarrow> string list" where
  "Fields s = fields_loop [] s"

definition SplitN_space :: "string \<Rightarrow> string list" where
  "SplitN_space s =
     (let a = takeWhile (\<lambda>c. c \<noteq> CHR '' '') s; b = dropWhile (\<lambda>c. c \<noteq> CHR '' '') s
      in if b = [] then [a] else [a, tl b])"

text \<open>\<open>path.Join\<close> of a rooted path: the elements without dots and empty ones, dot-dot goes up.\<close>

fun path_elements :: "string \<Rightarrow> string \<Rightarrow> string list" where
  "path_elements [] e = [rev e]"
| "path_elements (c # cs) e = (if c = CHR ''/'' then rev e # path_elements cs [] else path_elements cs (c # e))"

definition clean_step :: "string \<Rightarrow> string list \<Rightarrow> string list" where
  "clean_step e stack =
     (if e = [] \<or> e = ''.'' then stack else if e = ''..'' then tl stack else e # stack)"

definition path_Join_dev :: "string \<Rightarrow> string \<Rightarrow> string" where
  "path_Join_dev a b =
     ''/'' @ strings_Join (rev (fold clean_step (''dev'' # path_elements a [] @ path_elements b []) [])) ''/''"

section \<open>Validation of a layout\<close>

text \<open>
  The loop over the partitions of a disk, with the numbers seen, the sizes by number and whether a
  partition of variable size was seen. Writing beyond the slice panics.
\<close>

fun partition_loop ::
  "DiskPartition list \<Rightarrow> 8 word list \<Rightarrow> 64 word list \<Rightarrow> bool \<Rightarrow> (64 word list \<times> bool) result" where
  "partition_loop [] partNumbers parts hasVariable = Inr (parts, hasVariable)"
| "partition_loop (p # ps) partNumbers parts hasVariable =
     (if \<not> unat (dp_Number p) < length parts then Inl (Panic ''index out of range'')
      else if dp_Number p \<in> set partNumbers
      then Inl (Plain ''device:%s partition number:%d given more than once'')
      else if (case dp_GPTType p of None \<Rightarrow> False | Some t \<Rightarrow> t \<notin> set SupportedGPTTypes)
      then Inl (Plain ''given GPTType:%s for partition:%d on disk:%s is not supported'')
      else partition_loop ps (dp_Number p # partNumbers) (parts[unat (dp_Number p) := dp_Size p])
             (hasVariable \<or> dp_Size p = 0))"

definition Disk_validate :: "Disk \<Rightarrow> unit result" where
  "Disk_validate d =
     bind_result (partition_loop (dk_Partitions d) [] (replicate (length (dk_Partitions d) + 1) 0) False)
       (\<lambda>(parts, hasVariablePartition).
     check_that (\<not> (hasVariablePartition \<and> last parts \<noteq> 0))
       (Plain ''device:%s variable sized partition not the last one''))"

definition partition_device :: "string \<Rightarrow> DiskPartition \<Rightarrow> string" where
  "partition_device device p =
     device @ (if HasPrefix_string device ''/dev/nvme'' then ''p'' else []) @ itoa (unat (dp_Number p))"

definition disk_devices :: "Disk \<Rightarrow> string list" where
  "disk_devices d = dk_Device d # map (partition_device (dk_Device d)) (dk_Partitions d)"

fun disk_loop :: "Disk list \<Rightarrow> string list \<Rightarrow> string list result" where
  "disk_loop [] devs = Inr devs"
| "disk_loop (d # ds) devs = bind_result (Disk_validate d) (\<lambda>_. disk_loop ds (devs @ disk_devices d))"

fun raid_loop :: "Raid list \<Rightarrow> string list \<Rightarrow> string list result" where
  "raid_loop [] devs = Inr devs"
| "raid_loop (r # rs) devs =
     bind_result (check_each (\<lambda>d. check_that (d \<in> set devs)
       (Plain ''device:%s not provided by disk for raid:%s'')) (rd_Devices r)) (\<lambda>_.
     bind_result (check_that (rd_Level r \<in> set SupportedRaidLevels)
       (Plain ''given raidlevel:%s is not supported'')) (\<lambda>_.
     raid_loop rs (devs @ [rd_ArrayName r])))"

fun vg_loop :: "VolumeGroup list \<Rightarrow> string list \<Rightarrow> (string, nat) gomap \<Rightarrow> (string, nat) gomap result" where
  "vg_loop [] devs vgdevices = Inr vgdevices"
| "vg_loop (v # vs) devs vgdevices =
     bind_result (check_each (\<lambda>d. check_that (d \<in> set devs)
       (Plain ''device:%s not provided by machine for vg:%s'')) (vg_Devices v)) (\<lambda>_.
     vg_loop vs devs (AList.update (vg_Name v) (length (vg_Devices v)) vgdevices))"

text \<open>A logical volume that takes all the space left must be the last.\<close>

fun LogicalVolumes_validate :: "LogicalVolume list \<Rightarrow> unit result" where
  "LogicalVolumes_validate [] = Inr ()"
| "LogicalVolumes_validate (lvm # lvms) =
     (if lv_Size lvm = 0 \<and> lvms \<noteq> [] then Inl (Plain ''lv:%s in vg:%s, variable sized lv must be the last'')
      else LogicalVolumes_validate lvms)"

fun lv_loop :: "LogicalVolume list \<Rightarrow> (string, nat) gomap \<Rightarrow> string list \<Rightarrow> string list result" where
  "lv_loop [] vgdevices devs = Inr devs"
| "lv_loop (lv # lvs) vgdevices devs =
     (case map_of vgdevices (lv_VolumeGroup lv) of
        None \<Rightarrow> Inl (Plain ''volumegroup:%s not configured for lv:%s'')
      | Some n \<Rightarrow>
          if (lv_LVMType lv = LVMTypeRaid1 \<or> lv_LVMType lv = LVMTypeStriped) \<and> n < 2
          then Inl (Plain ''fsl:%q lv:%s in vg:%s is configured for lvmtype:%s but has only %d disk, consider linear instead'')
          else lv_loop lvs vgdevices (devs @ [path_Join_dev (lv_VolumeGroup lv) (lv_Name lv)]))"

definition validateCreateOptions :: "string list \<Rightarrow> unit result" where
  "validateCreateOptions opts =
     check_each (\<lambda>opt. check_that (\<not> length (Fields opt) > 1)
       (Plain ''the given createoption:%q contains whitespace and must be split into separate options'')) opts"

text \<open>The errors print the path of the filesystem, which panics when it is nil.\<close>

definition with_path :: "Filesystem \<Rightarrow> string \<Rightarrow> go_error" where
  "with_path fs msg =
     (if fs_Path fs = None then Panic ''invalid memory address or nil pointer dereference'' else Plain msg)"

fun fs_loop :: "Filesystem list \<Rightarrow> string list \<Rightarrow> unit result" where
  "fs_loop [] devs = Inr ()"
| "fs_loop (fs # fss) devs =
     (if fs_Format fs = TMPFS then fs_loop fss devs
      else
        bind_result (check_that (fs_Device fs \<in> set devs)
          (with_path fs ''device:%s for filesystem:%s is not configured'')) (\<lambda>_.
        bind_result (check_that (fs_Format fs \<in> set SupportedFormats)
          (with_path fs ''filesystem:%s format:%s is not supported'')) (\<lambda>_.
        bind_result (validateCreateOptions (fs_CreateOptions fs)) (\<lambda>_.
        fs_loop fss devs))))"

definition validOPS :: "string list" where
  "validOPS = [''='', ''!='', ''>'', ''<'', ''>='', ''=>'', ''<='', ''=<'', ''~'', ''~>'', ''^'']"

definition convertToOpAndVersion :: "'v semver \<Rightarrow> string \<Rightarrow> (string \<times> 'v) result" where
  "convertToOpAndVersion sv versionconstraint =
     (case SplitN_space versionconstraint of
        [v] \<Rightarrow>
          bind_result (map_error
            (Wrapped ''given imageconstraint:%s is not valid (missing space between op and version?): %w'')
            (sv_NewVersion sv v)) (\<lambda>version. Inr ('''', version))
      | op # v # _ \<Rightarrow>
          bind_result (check_that (op \<in> set validOPS) (Plain ''given imageconstraint op:%s is not supported'')) (\<lambda>_.
          bind_result (map_error (Wrapped ''given version:%s is not valid: %w'') (sv_NewVersion sv v)) (\<lambda>version.
          Inr (op, version)))
      | [] \<Rightarrow> Inl (Plain ''could not find a valid op or version in:%s''))"

fun size_loop :: "string list \<Rightarrow> string list \<Rightarrow> unit result" where
  "size_loop [] seen = Inr ()"
| "size_loop (s # ss) seen =
     (if CHR ''*'' \<in> set s then Inl (Plain ''no wildcard allowed in size constraint'')
      else if s \<in> set seen then Inl (Plain ''size %s is configured more than once'')
      else size_loop ss (s # seen))"

definition Constraints_validate :: "'v semver \<Rightarrow> FilesystemLayoutConstraints \<Rightarrow> unit result" where
  "Constraints_validate sv c =
     bind_result (check_each (\<lambda>(os, vc).
       bind_result (check_that (os \<noteq> ''*'') (Plain ''just '*' is not allowed as image os constraint'')) (\<lambda>_.
       if TrimSpace vc = ''*'' then Inr ()
       else bind_result (convertToOpAndVersion sv vc) (\<lambda>_. Inr ()))) (fc_Images c)) (\<lambda>_.
     size_loop (fc_Sizes c) [])"

definition fsl_Validate :: "'v semver \<Rightarrow> FilesystemLayout option \<Rightarrow> unit result" where
  "fsl_Validate sv fl =
     (case fl of
        None \<Rightarrow> Inr ()
      | Some f \<Rightarrow>
          bind_result (disk_loop (fl_Disks f) []) (\<lambda>devs.
          bind_result (raid_loop (fl_Raid f) devs) (\<lambda>devs.
          bind_result (vg_loop (fl_VolumeGroups f) devs []) (\<lambda>vgdevices.
          bind_result (LogicalVolumes_validate (fl_LogicalVolumes f)) (\<lambda>_.
          bind_result (lv_loop (fl_LogicalVolumes f) vgdevices devs) (\<lambda>devs.
          bind_result (fs_loop (fl_Filesystems f) devs) (\<lambda>_.
          Constraints_validate sv (fl_Constraints f))))))))"

section \<open>Collisions between layouts\<close>

text \<open>Each of the nested loops stops at the first error.\<close>

definition versions_overlap :: "'v semver \<Rightarrow> string \<Rightarrow> string \<Rightarrow> unit result" where
  "versions_overlap sv vci vcj =
     (if vci = vcj then Inr ()
      else
        bind_result (sv_NewConstraint sv vci) (\<lambda>constrainti.
        bind_result (sv_NewConstraint sv vcj) (\<lambda>constraintj.
        bind_result (convertToOpAndVersion sv vci) (\<lambda>(_, versioni).
        bind_result (convertToOpAndVersion sv vcj) (\<lambda>(_, versionj).
        check_that (\<not> (constrainti versionj \<and> constraintj versioni)) (Plain ''constraint:%s overlaps:%s''))))))"

definition hasCollisions :: "'v semver \<Rightarrow> string list \<Rightarrow> unit result" where
  "hasCollisions sv versionConstraints =
     bind_result (check_each (\<lambda>vc. check_that (\<not> (TrimSpace vc = ''*'' \<and> length versionConstraints > 1))
       (Plain ''at least one `*` and more than one constraint'')) versionConstraints) (\<lambda>_.
     check_each (\<lambda>vci. check_each (versions_overlap sv vci) versionConstraints) versionConstraints)"

text \<open>The loop over the sizes and images of a layout, with the constraints seen and the number of violations.\<close>

definition collision_step ::
  "'v semver \<Rightarrow> string \<Rightarrow> string \<times> string \<Rightarrow> (string, string list) gomap \<times> nat \<Rightarrow>
   (string, string list) gomap \<times> nat" where
  "collision_step sv s = (\<lambda>(os, versionConstraint) (m, violations).
     (let versionConstraints = map_get [] m (s @ os) @ [versionConstraint]
      in (AList.update (s @ os) versionConstraints m,
          if is_ok (hasCollisions sv versionConstraints) then violations else violations + 1)))"

definition layouts_Validate :: "'v semver \<Rightarrow> FilesystemLayout list \<Rightarrow> unit result" where
  "layouts_Validate sv fls =
     (let allConstraints = fold (\<lambda>fl. AList.update (b_ID fl) (fl_Constraints fl)) fls [];
          (_, violations) =
            fold (\<lambda>(_, c) st. fold (\<lambda>s. fold (collision_step sv s) (fc_Images c)) (fc_Sizes c) st)
              allConstraints ([], 0)
      in check_that (violations = 0) (Plain ''these combinations already exist:%s''))"

section \<open>Choosing a layout\<close>

fun match_images ::
  "'v semver \<Rightarrow> string \<Rightarrow> (string, string) gomap \<Rightarrow> bool" where
  "match_images sv imageID [] = False"
| "match_images sv imageID ((os, versionconstraint) # images) =
     (case sv_GetOsAndSemverFromImage sv imageID of
        Inl _ \<Rightarrow> False
      | Inr (imageos, version) \<Rightarrow>
          if os \<noteq> imageos then match_images sv imageID images
          else
            (case sv_NewConstraint sv versionconstraint of
               Inl _ \<Rightarrow> False
             | Inr c \<Rightarrow> if c version then True else match_images sv imageID images))"

definition constraints_Matches :: "'v semver \<Rightarrow> FilesystemLayoutConstraints \<Rightarrow> string \<Rightarrow> string \<Rightarrow> bool" where
  "constraints_Matches sv c sizeID imageID =
     (sizeID \<in> set (fc_Sizes c) \<and> match_images sv imageID (fc_Images c))"

definition layouts_From ::
  "'v semver \<Rightarrow> FilesystemLayout list \<Rightarrow> string \<Rightarrow> string \<Rightarrow> FilesystemLayout result" where
  "layouts_From sv fls sz img =
     (case find (\<lambda>fl. constraints_Matches sv (fl_Constraints fl) sz img) fls of
        Some fl \<Rightarrow> Inr fl
      | None \<Rightarrow> Inl (Plain ''could not find a matching filesystemLayout for size:%s and image:%s''))"

text \<open>The sizes of the hardware's disks are in bytes, those of the layout in mebibytes.\<close>

definition required_devices :: "FilesystemLayout \<Rightarrow> (string, 64 word) gomap" where
  "required_devices fl =
     fold (\<lambda>d. AList.update (dk_Device d) (sum_list (map dp_Size (dk_Partitions d)))) (fl_Disks fl) []"

definition existing_devices :: "BlockDevice list \<Rightarrow> (string, 64 word) gomap" where
  "existing_devices disks =
     fold (\<lambda>d. AList.update
         (if HasPrefix_string (bd_Name d) ''/dev/'' then bd_Name d else ''/dev/'' @ bd_Name d)
         (bd_Size d div (1024 * 1024))) disks []"

definition layout_Matches :: "FilesystemLayout \<Rightarrow> BlockDevice list \<Rightarrow> unit result" where
  "layout_Matches fl disks =
     check_each (\<lambda>(requiredDevice, requiredSize).
       case map_of (existing_devices disks) requiredDevice of
         None \<Rightarrow> Inl (Plain ''device:%s does not exist on given hardware'')
       | Some existingSize \<Rightarrow>
           check_that (\<not> existingSize < requiredSize)
             (Plain ''device:%s is not big enough required:%dMiB, existing:%dMiB''))
       (required_devices fl)"

section \<open>Names of formats, partition types and levels\<close>

definition ToFormat :: "string \<Rightarrow> Format result" where
  "ToFormat s = (if s \<in> set SupportedFormats then Inr s else Inl (Plain ''given format:%s is not supported, but:%s''))"

definition ToGPTType :: "string \<Rightarrow> GPTType result" where
  "ToGPTType s = (if s \<in> set SupportedGPTTypes then Inr s else Inl (Plain ''given GPTType:%s is not supported, but:%s''))"

definition ToRaidLevel :: "string \<Rightarrow> RaidLevel result" where
  "ToRaidLevel s = (if s \<in> set SupportedRaidLevels then Inr s else Inl (Plain ''given raidlevel:%s is not supported, but:%s''))"

definition ToLVMType :: "string \<Rightarrow> LVMType result" where
  "ToLVMType s = (if s \<in> set SupportedLVMTypes then Inr s else Inl (Plain ''given lvmtype:%s is not supported, but:%s''))"

end
