(* ===== verification/FilesystemRepository.thy ===== *)
theory FilesystemRepository
  imports Filesystems TableActions
begin

text \<open>
  The repository of filesystem layouts, \<^verbatim>\<open>pkg/repository/filesystemlayout.go\<close> and
  \<^verbatim>\<open>filesystemlayout-validation.go\<close>, as an instance of the generic store. The enumerations of the
  API are numbers; the functions of its enum package and the machines that use a layout are
  arguments. A list of a request that is not set is the empty list.
\<close>

section \<open>Messages\<close>

record ApiFilesystem =
  af_Device :: string
  af_Format :: int
  af_Label :: "string option"
  af_Path :: "string option"
  af_MountOptions :: "string list"
  af_CreateOptions :: "string list"

record ApiDiskPartition =
  ap_Number :: "32 word"
  ap_Label :: "string option"
  ap_Size :: "64 word"
  ap_GptType :: "int option"

record ApiDisk =
  ad_Device :: string
  ad_Partitions :: "ApiDiskPartition list"

record ApiRaid =
  ar_ArrayName :: string
  ar_Devices :: "string list"
  ar_Level :: int
  ar_CreateOptions :: "string list"
  ar_Spares :: "32 word"

record ApiLogicalVolume =
  al_Name :: string
  al_VolumeGroup :: string
  al_Size :: "64 word"
  al_LvmType :: int

record ApiLayoutMeta =
  am_CreatedAt :: "time option"
  am_UpdatedAt :: "time option"
  am_Generation :: "64 word"

record ApiFilesystemLayout =
  afl_Id :: string
  afl_Meta :: "ApiLayoutMeta option"
  afl_Name :: "string option"
  afl_Description :: "string option"
  afl_Filesystems :: "ApiFilesystem list"
  afl_Disks :: "ApiDisk list"
  afl_Raid :: "ApiRaid list"
  afl_VolumeGroups :: "VolumeGroup list"
  afl_LogicalVolumes :: "ApiLogicalVolume list"
  afl_Constraints :: "FilesystemLayoutConstraints option"

record FilesystemServiceUpdateRequest =
  fur_Id :: string
  fur_Name :: "string option"
  fur_Description :: "string option"
  fur_Filesystems :: "ApiFilesystem list"
  fur_Disks :: "ApiDisk list"
  fur_Raid :: "ApiRaid list"
  fur_VolumeGroups :: "VolumeGroup list"
  fur_LogicalVolumes :: "ApiLogicalVolume list"
  fur_Constraints :: "FilesystemLayoutConstraints option"
  fur_UpdateMeta :: "UpdateMeta option"

record fs_enums =
  fe_Format :: "int \<Rightarrow> string result" \<comment> \<open>\<open>enum.GetStringValue\<close>\<close>
  fe_GPTType :: "int \<Rightarrow> string result"
  fe_RaidLevel :: "int \<Rightarrow> string result"
  fe_LVMType :: "int \<Rightarrow> string result"
  fe_GetFormat :: "string \<Rightarrow> int result" \<comment> \<open>\<open>enum.GetEnum\<close>\<close>
  fe_GetGPTType :: "string \<Rightarrow> int result"
  fe_GetLVMType :: "string \<Rightarrow> int result"
  fe_RAID_LEVEL_0 :: int
  fe_RAID_LEVEL_1 :: int

record ('st, 'v) fsl_env =
  fv_enums :: fs_enums
  fv_semver :: "'v semver"
  fv_table :: "('st, string, FilesystemLayout) rethink"
  fv_machines :: "string \<Rightarrow> nat result" \<comment> \<open>how many machines are allocated with a layout\<close>
  fv_hardware :: "string \<Rightarrow> BlockDevice list result" \<comment> \<open>the disks of a machine\<close>
  fv_eu :: errorutil
  fv_now :: time
  fv_newID :: "string result"

section \<open>Conversion\<close>

fun map_results :: "('a \<Rightarrow> 'b result) \<Rightarrow> 'a list \<Rightarrow> 'b list result" where
  "map_results f [] = Inr []"
| "map_results f (x # xs) =
     bind_result (f x) (\<lambda>y. bind_result (map_results f xs) (\<lambda>ys. Inr (y # ys)))"

definition internal_filesystem :: "fs_enums \<Rightarrow> ApiFilesystem \<Rightarrow> Filesystem result" where
  "internal_filesystem fe fs =
     bind_result (fe_Format fe (af_Format fs)) (\<lambda>formatString.
     bind_result (ToFormat formatString) (\<lambda>format.
     Inr \<lparr>fs_Path = af_Path fs, fs_Device = af_Device fs, fs_Format = format, fs_Label = af_Label fs,
       fs_MountOptions = af_MountOptions fs, fs_CreateOptions = af_CreateOptions fs\<rparr>))"

text \<open>The number of a partition is narrowed to 8 bits.\<close>

definition internal_partition :: "fs_enums \<Rightarrow> ApiDiskPartition \<Rightarrow> DiskPartition result" where
  "internal_partition fe p =
     bind_result
       (case ap_GptType p of
          None \<Rightarrow> Inr None
        | Some t \<Rightarrow>
            bind_result (fe_GPTType fe t) (\<lambda>gptTypeString.
            bind_result (ToGPTType gptTypeString) (\<lambda>gptType. Inr (Some gptType)))) (\<lambda>gptType.
     Inr \<lparr>dp_Number = ucast (ap_Number p), dp_Label = ap_Label p, dp_Size = ap_Size p, dp_GPTType = gptType\<rparr>)"

definition internal_disk :: "fs_enums \<Rightarrow> ApiDisk \<Rightarrow> Disk result" where
  "internal_disk fe d =
     bind_result (map_results (internal_partition fe) (ad_Partitions d)) (\<lambda>parts.
     Inr \<lparr>dk_Device = ad_Device d, dk_Partitions = parts\<rparr>)"

definition internal_raid :: "fs_enums \<Rightarrow> ApiRaid \<Rightarrow> Raid result" where
  "internal_raid fe r =
     bind_result (fe_RaidLevel fe (ar_Level r)) (\<lambda>raidLevelString.
     bind_result (ToRaidLevel raidLevelString) (\<lambda>level.
     Inr \<lparr>rd_ArrayName = ar_ArrayName r, rd_Devices = ar_Devices r, rd_Level = level,
       rd_CreateOptions = ar_CreateOptions r, rd_Spares = sint (ar_Spares r)\<rparr>))"

definition internal_lv :: "fs_enums \<Rightarrow> ApiLogicalVolume \<Rightarrow> LogicalVolume result" where
  "internal_lv fe l =
     bind_result (fe_LVMType fe (al_LvmType l)) (\<lambda>lvmtypeString.
     bind_result (ToLVMType lvmtypeString) (\<lambda>lvmtype.
     Inr \<lparr>lv_Name = al_Name l, lv_VolumeGroup = al_VolumeGroup l, lv_Size = al_Size l, lv_LVMType = lvmtype\<rparr>))"

definition convertToInternal :: "fs_enums \<Rightarrow> ApiFilesystemLayout \<Rightarrow> FilesystemLayout result" where
  "convertToInternal fe f =
     bind_result (map_results (internal_filesystem fe) (afl_Filesystems f)) (\<lambda>fss.
     bind_result (map_results (internal_disk fe) (afl_Disks f)) (\<lambda>ds.
     bind_result (map_results (internal_raid fe) (afl_Raid f)) (\<lambda>rs.
     bind_result (map_results (internal_lv fe) (afl_LogicalVolumes f)) (\<lambda>lvs.
     let meta = afl_Meta f in
     Inr \<lparr>b_ID = afl_Id f,
       b_Name = (case afl_Name f of None \<Rightarrow> '''' | Some n \<Rightarrow> n),
       b_Description = (case afl_Description f of None \<Rightarrow> '''' | Some d \<Rightarrow> d),
       b_Created = (case meta of None \<Rightarrow> 0 | Some m \<Rightarrow> (case am_CreatedAt m of None \<Rightarrow> 0 | Some t \<Rightarrow> t)),
       b_Changed = (case meta of None \<Rightarrow> 0 | Some m \<Rightarrow> (case am_UpdatedAt m of None \<Rightarrow> 0 | Some t \<Rightarrow> t)),
       b_Generation = (case meta of None \<Rightarrow> 0 | Some m \<Rightarrow> am_Generation m),
       fl_Filesystems = fss, fl_Disks = ds, fl_Raid = rs, fl_VolumeGroups = afl_VolumeGroups f,
       fl_LogicalVolumes = lvs,
       fl_Constraints = (case afl_Constraints f of None \<Rightarrow> \<lparr>fc_Sizes = [], fc_Images = []\<rparr> | Some c \<Rightarrow> c)\<rparr>))))"

definition proto_filesystem :: "fs_enums \<Rightarrow> Filesystem \<Rightarrow> ApiFilesystem result" where
  "proto_filesystem fe fs =
     bind_result (fe_GetFormat fe (fs_Format fs)) (\<lambda>f.
     Inr \<lparr>af_Device = fs_Device fs, af_Format = f, af_Label = fs_Label fs, af_Path = fs_Path fs,
       af_MountOptions = fs_MountOptions fs, af_CreateOptions = fs_CreateOptions fs\<rparr>)"

definition proto_partition :: "fs_enums \<Rightarrow> DiskPartition \<Rightarrow> ApiDiskPartition result" where
  "proto_partition fe p =
     bind_result
       (case dp_GPTType p of
          None \<Rightarrow> Inr None
        | Some t \<Rightarrow> bind_result (fe_GetGPTType fe t) (\<lambda>gpt. Inr (Some gpt))) (\<lambda>gpt.
     Inr \<lparr>ap_Number = ucast (dp_Number p), ap_Label = dp_Label p, ap_Size = dp_Size p, ap_GptType = gpt\<rparr>)"

definition proto_disk :: "fs_enums \<Rightarrow> Disk \<Rightarrow> ApiDisk result" where
  "proto_disk fe d =
     bind_result (map_results (proto_partition fe) (dk_Partitions d)) (\<lambda>partitions.
     Inr \<lparr>ad_Device = dk_Device d, ad_Partitions = partitions\<rparr>)"

definition proto_raid :: "fs_enums \<Rightarrow> Raid \<Rightarrow> ApiRaid result" where
  "proto_raid fe r =
     bind_result
       (if rd_Level r = RaidLevel0 then Inr (fe_RAID_LEVEL_0 fe)
        else if rd_Level r = RaidLevel1 then Inr (fe_RAID_LEVEL_1 fe)
        else Inl (Plain ''unknown raid level:%s'')) (\<lambda>level.
     Inr \<lparr>ar_ArrayName = rd_ArrayName r, ar_Devices = rd_Devices r, ar_Level = level,
       ar_CreateOptions = rd_CreateOptions r, ar_Spares = word_of_int (rd_Spares r)\<rparr>)"

definition proto_lv :: "fs_enums \<Rightarrow> LogicalVolume \<Rightarrow> ApiLogicalVolume result" where
  "proto_lv fe lv =
     bind_result (fe_GetLVMType fe (lv_LVMType lv)) (\<lambda>lvmType.
     Inr \<lparr>al_Name = lv_Name lv, al_VolumeGroup = lv_VolumeGroup lv, al_Size = lv_Size lv, al_LvmType = lvmType\<rparr>)"

definition fsl_convertToProto :: "fs_enums \<Rightarrow> FilesystemLayout \<Rightarrow> ApiFilesystemLayout result" where
  "fsl_convertToProto fe e =
     bind_result (map_results (proto_filesystem fe) (fl_Filesystems e)) (\<lambda>filesystems.
     bind_result (map_results (proto_disk fe) (fl_Disks e)) (\<lambda>disks.
     bind_result (map_results (proto_raid fe) (fl_Raid e)) (\<lambda>raid.
     bind_result (map_results (proto_lv fe) (fl_LogicalVolumes e)) (\<lambda>logicalvolumes.
     Inr \<lparr>afl_Id = b_ID e,
       afl_Meta = Some \<lparr>am_CreatedAt = Some (b_Created e), am_UpdatedAt = Some (b_Changed e), am_Generation = b_Generation e\<rparr>,
       afl_Name = Some (b_Name e), afl_Description = Some (b_Description e), afl_Filesystems = filesystems,
       afl_Disks = disks, afl_Raid = raid, afl_VolumeGroups = fl_VolumeGroups e,
       afl_LogicalVolumes = logicalvolumes, afl_Constraints = Some (fl_Constraints e)\<rparr>))))"

section \<open>Operations\<close>

definition fsl_filter :: "string option \<Rightarrow> FilesystemLayout \<Rightarrow> bool" where
  "fsl_filter q fl = matches_field q (b_ID fl)"

definition fsl_get :: "('st, 'v) fsl_env \<Rightarrow> string \<Rightarrow> ('st, FilesystemLayout) action" where
  "fsl_get env i st = (map_error (eu_Convert (fv_eu env)) (storage_Get (fv_table env) i st), st)"

definition fsl_find :: "('st, 'v) fsl_env \<Rightarrow> string option \<Rightarrow> ('st, FilesystemLayout) action" where
  "fsl_find env q st = (map_error (eu_Convert (fv_eu env)) (storage_Find (fv_table env) [fsl_filter q] st), st)"

definition fsl_list :: "('st, 'v) fsl_env \<Rightarrow> string option \<Rightarrow> ('st, FilesystemLayout list) action" where
  "fsl_list env q st = (map_error (eu_Convert (fv_eu env)) (storage_List (fv_table env) [Some (fsl_filter q)] st), st)"

definition fsl_create :: "('st, 'v) fsl_env \<Rightarrow> ApiFilesystemLayout \<Rightarrow> ('st, FilesystemLayout) action" where
  "fsl_create env rq st =
     (case convertToInternal (fv_enums env) rq of
        Inl err \<Rightarrow> (Inl (eu_Convert (fv_eu env) err), st)
      | Inr fsl \<Rightarrow>
          (case storage_Create (fv_table env) (fv_now env) (fv_newID env) fsl st of
             Inl err \<Rightarrow> (Inl (eu_Convert (fv_eu env) err), st)
           | Inr (resp, st) \<Rightarrow> (Inr resp, st)))"

text \<open>A part of the layout that the request does not give keeps its value.\<close>

definition apply_layout_request ::
  "fs_enums \<Rightarrow> FilesystemServiceUpdateRequest \<Rightarrow> FilesystemLayout \<Rightarrow> FilesystemLayout result" where
  "apply_layout_request fe rq e =
     bind_result (if fur_Filesystems rq = [] then Inr (fl_Filesystems e)
       else map_results (internal_filesystem fe) (fur_Filesystems rq)) (\<lambda>fss.
     bind_result (if fur_Disks rq = [] then Inr (fl_Disks e)
       else map_results (internal_disk fe) (fur_Disks rq)) (\<lambda>ds.
     bind_result (if fur_Raid rq = [] then Inr (fl_Raid e)
       else map_results (internal_raid fe) (fur_Raid rq)) (\<lambda>rs.
     bind_result (if fur_LogicalVolumes rq = [] then Inr (fl_LogicalVolumes e)
       else map_results (internal_lv fe) (fur_LogicalVolumes rq)) (\<lambda>lvs.
     Inr (e\<lparr>fl_Filesystems := fss, fl_Disks := ds, fl_Raid := rs,
       fl_VolumeGroups := (if fur_VolumeGroups rq = [] then fl_VolumeGroups e else fur_VolumeGroups rq),
       fl_LogicalVolumes := lvs,
       fl_Constraints := (case fur_Constraints rq of None \<Rightarrow> fl_Constraints e | Some c \<Rightarrow> c),
       b_Name := (case fur_Name rq of None \<Rightarrow> b_Name e | Some n \<Rightarrow> n),
       b_Description := (case fur_Description rq of None \<Rightarrow> b_Description e | Some d \<Rightarrow> d)\<rparr>)))))"

definition fsl_update ::
  "('st, 'v) fsl_env \<Rightarrow> FilesystemLayout \<Rightarrow> FilesystemServiceUpdateRequest \<Rightarrow> ('st, FilesystemLayout) action" where
  "fsl_update env e rq st =
     (case apply_layout_request (fv_enums env) rq e of
        Inl err \<Rightarrow> (Inl err, st)
      | Inr e \<Rightarrow>
          (case storage_Update (fv_table env) (fv_now env) e st of
             (e, Inl err) \<Rightarrow> (Inl (eu_Convert (fv_eu env) err), st)
           | (e, Inr st) \<Rightarrow> (Inr e, st)))"

definition fsl_delete :: "('st, 'v) fsl_env \<Rightarrow> FilesystemLayout \<Rightarrow> ('st, string option) action" where
  "fsl_delete env e st =
     (case storage_Delete (fv_table env) e st of
        Inl err \<Rightarrow> (Inl (eu_Convert (fv_eu env) err), st)
      | Inr st \<Rightarrow> (Inr None, st))"

section \<open>Validation\<close>

definition fsl_validateCreate :: "('st, 'v) fsl_env \<Rightarrow> ApiFilesystemLayout \<Rightarrow> unit result" where
  "fsl_validateCreate env rq =
     bind_result (convertToInternal (fv_enums env) rq) (\<lambda>fsl. fsl_Validate (fv_semver env) (Some fsl))"

definition requested_layout :: "FilesystemServiceUpdateRequest \<Rightarrow> ApiFilesystemLayout" where
  "requested_layout rq =
     \<lparr>afl_Id = fur_Id rq, afl_Meta = None, afl_Name = fur_Name rq, afl_Description = fur_Description rq,
      afl_Filesystems = fur_Filesystems rq, afl_Disks = fur_Disks rq, afl_Raid = fur_Raid rq,
      afl_VolumeGroups = fur_VolumeGroups rq, afl_LogicalVolumes = fur_LogicalVolumes rq,
      afl_Constraints = fur_Constraints rq\<rparr>"

definition fsl_validateUpdate ::
  "('st, 'v) fsl_env \<Rightarrow> FilesystemServiceUpdateRequest \<Rightarrow> FilesystemLayout \<Rightarrow> ('st, unit) action" where
  "fsl_validateUpdate env rq e =
     bind_action (lift_result (convertToInternal (fv_enums env) (requested_layout rq))) (\<lambda>fsl.
     bind_action (on_error (\<lambda>_. Internal ''%w'') (fsl_list env None)) (\<lambda>fsls.
     bind_action (lift_result (layouts_Validate (fv_semver env) (fsls @ [fsl]))) (\<lambda>_.
     lift_result (fsl_Validate (fv_semver env) (Some fsl)))))"

definition fsl_validateDelete :: "('st, 'v) fsl_env \<Rightarrow> FilesystemLayout \<Rightarrow> unit result" where
  "fsl_validateDelete env fsl =
     bind_result (map_error (\<lambda>_. Internal ''%w'') (fv_machines env (b_ID fsl))) (\<lambda>machines.
     check_that (machines = 0) (FailedPrecondition ''cannot remove filesystemlayout with existing machine allocations''))"

section \<open>Matching\<close>

definition FromMachineAndFSL ::
  "('st, 'v) fsl_env \<Rightarrow> string \<Rightarrow> string \<Rightarrow> 'st \<Rightarrow> ApiFilesystemLayout result" where
  "FromMachineAndFSL env machine layout st =
     bind_result (storage_Get (fv_table env) layout st) (\<lambda>fsl.
     bind_result (fv_hardware env machine) (\<lambda>hardware.
     bind_result (layout_Matches fsl hardware) (\<lambda>_.
     fsl_convertToProto (fv_enums env) fsl)))"

definition FromImageAndSize ::
  "('st, 'v) fsl_env \<Rightarrow> string \<Rightarrow> string \<Rightarrow> 'st \<Rightarrow> ApiFilesystemLayout result" where
  "FromImageAndSize env sz img st =
     bind_result (storage_List (fv_table env) [] st) (\<lambda>flss.
     case find (\<lambda>fl. constraints_Matches (fv_semver env) (fl_Constraints fl) sz img) flss of
       None \<Rightarrow> Inl (NotFound ''no filesystemlayout which matches size:%s and image:%s'')
     | Some fl \<Rightarrow> fsl_convertToProto (fv_enums env) fl)"

section \<open>The repository as the store sees it\<close>

definition fsl_operations ::
  "('st, 'v) fsl_env \<Rightarrow> ('st, FilesystemLayout, ApiFilesystemLayout, ApiFilesystemLayout,
     FilesystemServiceUpdateRequest, string option) repository" where
  "fsl_operations env =
     \<lparr>rp_validateCreate = (\<lambda>rq. bind_action (lift_result (fsl_validateCreate env rq)) (\<lambda>_. return rq)),
      rp_create = fsl_create env, rp_get = fsl_get env, rp_find = fsl_find env, rp_list = fsl_list env,
      rp_matchScope = (\<lambda>_. True),
      rp_validateUpdate = (\<lambda>rq e. bind_action (fsl_validateUpdate env rq e) (\<lambda>_. return rq)),
      rp_update = fsl_update env,
      rp_validateDelete = (\<lambda>e. lift_result (fsl_validateDelete env e)), rp_delete = fsl_delete env,
      rp_convertToProto = (\<lambda>e. lift_result (fsl_convertToProto (fv_enums env) e)),
      rp_updateMeta = fur_UpdateMeta, rp_SetChanged = (\<lambda>t e. e\<lparr>b_Changed := t\<rparr>),
      rp_setDeletionTask = (\<lambda>_ m. m)\<rparr>"

interpretation fsl_repo: scoped_repository "fsl_operations env" "\<lambda>st. st"
proof
  have list: "reads_only (fsl_list env q)" for q by (simp add: reads_only_def fsl_list_def)
  show "snd (rp_get (fsl_operations env) i st) = st" for i st
    by (simp add: fsl_operations_def fsl_get_def)
  show "snd (rp_validateCreate (fsl_operations env) c st) = st" for c st
    by (rule reads_onlyD) (auto simp: fsl_operations_def simp del: action_simps intro!: bind_reads reads_basic)
  show "snd (rp_validateUpdate (fsl_operations env) u e st) = st" for u e st
    by (rule reads_onlyD)
      (auto simp: fsl_operations_def fsl_validateUpdate_def simp del: action_simps intro!: bind_reads reads_basic list)
qed (simp add: fsl_operations_def)

end
