(* ===== verification/FilesystemProps.thy ===== *)
theory FilesystemProps
  imports FilesystemRepository
begin

text \<open>
  The validation of a filesystem layout accepts exactly the well formed layouts, stated without
  the order and the early returns of the code. The validation of an update sees only the parts in
  the request, so it accepts updates that leave the stored layout broken; and two layouts with the
  same version constraint for a size and an image do not collide.
\<close>

section \<open>Well formed layouts\<close>

definition well_formed_disk :: "Disk \<Rightarrow> bool" where
  "well_formed_disk d \<longleftrightarrow>
     distinct (map dp_Number (dk_Partitions d)) \<and>
     (\<forall>p\<in>set (dk_Partitions d). unat (dp_Number p) \<le> length (dk_Partitions d) \<and>
        (\<forall>t. dp_GPTType p = Some t \<longrightarrow> t \<in> {GPTBoot, GPTLinux, GPTLinuxLVM, GPTLinuxRaid})) \<and>
     ((\<exists>p\<in>set (dk_Partitions d). dp_Size p = 0) \<longrightarrow>
        (\<forall>p\<in>set (dk_Partitions d). unat (dp_Number p) = length (dk_Partitions d) \<longrightarrow> dp_Size p = 0))"

definition disk_names :: "FilesystemLayout \<Rightarrow> string set" where
  "disk_names f = (\<Union>d\<in>set (fl_Disks f). set (disk_devices d))"

definition raid_names :: "FilesystemLayout \<Rightarrow> string set" where
  "raid_names f = rd_ArrayName ` set (fl_Raid f)"

definition lv_names :: "FilesystemLayout \<Rightarrow> string set" where
  "lv_names f = (\<lambda>l. path_Join_dev (lv_VolumeGroup l) (lv_Name l)) ` set (fl_LogicalVolumes f)"

text \<open>The number of devices of the last volume group of a name.\<close>

definition vg_device_count :: "FilesystemLayout \<Rightarrow> string \<Rightarrow> nat option" where
  "vg_device_count f = map_of (rev (map (\<lambda>v. (vg_Name v, length (vg_Devices v))) (fl_VolumeGroups f)))"

definition well_formed_constraints :: "'v semver \<Rightarrow> FilesystemLayoutConstraints \<Rightarrow> bool" where
  "well_formed_constraints sv c \<longleftrightarrow>
     (\<forall>(os, vc)\<in>set (fc_Images c). os \<noteq> ''*'' \<and> (TrimSpace vc = ''*'' \<or> is_ok (convertToOpAndVersion sv vc))) \<and>
     distinct (fc_Sizes c) \<and> (\<forall>s\<in>set (fc_Sizes c). CHR ''*'' \<notin> set s)"

definition well_formed_layout :: "'v semver \<Rightarrow> FilesystemLayout \<Rightarrow> bool" where
  "well_formed_layout sv f \<longleftrightarrow>
     (\<forall>d\<in>set (fl_Disks f). well_formed_disk d) \<and>
     (\<forall>i<length (fl_Raid f). rd_Level (fl_Raid f ! i) \<in> {RaidLevel0, RaidLevel1} \<and>
        set (rd_Devices (fl_Raid f ! i)) \<subseteq> disk_names f \<union> rd_ArrayName ` set (take i (fl_Raid f))) \<and>
     (\<forall>v\<in>set (fl_VolumeGroups f). set (vg_Devices v) \<subseteq> disk_names f \<union> raid_names f) \<and>
     (\<forall>l\<in>set (butlast (fl_LogicalVolumes f)). lv_Size l \<noteq> 0) \<and>
     (\<forall>l\<in>set (fl_LogicalVolumes f). \<exists>n. vg_device_count f (lv_VolumeGroup l) = Some n \<and>
        (lv_LVMType l \<in> {LVMTypeRaid1, LVMTypeStriped} \<longrightarrow> 2 \<le> n)) \<and>
     (\<forall>x\<in>set (fl_Filesystems f). fs_Format x \<noteq> TMPFS \<longrightarrow>
        fs_Device x \<in> disk_names f \<union> raid_names f \<union> lv_names f \<and>
        fs_Format x \<in> set SupportedFormats \<and>
        (\<forall>opt\<in>set (fs_CreateOptions x). length (Fields opt) \<le> 1)) \<and>
     well_formed_constraints sv (fl_Constraints f)"

section \<open>The loops of the validation\<close>

lemma partition_loop_ok:
  "partition_loop ps seen parts var = Inr (parts', var') \<longleftrightarrow>
     (\<forall>p\<in>set ps. unat (dp_Number p) < length parts \<and>
        (\<forall>t. dp_GPTType p = Some t \<longrightarrow> t \<in> set SupportedGPTTypes)) \<and>
     distinct (map dp_Number ps) \<and> dp_Number ` set ps \<inter> set seen = {} \<and>
     parts' = fold (\<lambda>p xs. xs[unat (dp_Number p) := dp_Size p]) ps parts \<and>
     var' = (var \<or> (\<exists>p\<in>set ps. dp_Size p = 0))"
  by (induction ps arbitrary: seen parts var) (auto split: option.splits)

lemma fold_sizes_length [simp]:
  "length (fold (\<lambda>p xs. xs[unat (dp_Number p) := dp_Size p]) ps parts) = length parts"
  by (induction ps arbitrary: parts) simp_all

lemma fold_sizes_nth:
  assumes "distinct (map dp_Number ps)" "\<forall>p\<in>set ps. unat (dp_Number p) < length parts" "i < length parts"
  shows "fold (\<lambda>p xs. xs[unat (dp_Number p) := dp_Size p]) ps parts ! i \<noteq> 0 \<longleftrightarrow>
    (if \<exists>p\<in>set ps. unat (dp_Number p) = i then \<exists>p\<in>set ps. unat (dp_Number p) = i \<and> dp_Size p \<noteq> 0 else parts ! i \<noteq> 0)"
  using assms
proof (induction ps arbitrary: parts)
  case (Cons p ps)
  have new: "unat (dp_Number q) \<noteq> unat (dp_Number p)" if "q \<in> set ps" for q
    using Cons.prems(1) that by (metis distinct.simps(2) image_eqI list.set_map list.simps(9) word_unat_eq_iff)
  have rest: "fold (\<lambda>p xs. xs[unat (dp_Number p) := dp_Size p]) (p # ps) parts ! i \<noteq> 0 \<longleftrightarrow>
      (if \<exists>p\<in>set ps. unat (dp_Number p) = i then \<exists>p\<in>set ps. unat (dp_Number p) = i \<and> dp_Size p \<noteq> 0
       else parts[unat (dp_Number p) := dp_Size p] ! i \<noteq> 0)"
    using Cons.IH [of "parts[unat (dp_Number p) := dp_Size p]"] Cons.prems by simp
  show ?case
    unfolding rest using new Cons.prems(2,3) by (cases "unat (dp_Number p) = i") auto
qed simp

lemma Disk_validate_iff: "Disk_validate d = Inr () \<longleftrightarrow> well_formed_disk d"
proof -
  let ?ps = "dk_Partitions d" and ?n = "length (dk_Partitions d)"
  let ?parts = "fold (\<lambda>p xs. xs[unat (dp_Number p) := dp_Size p]) ?ps (replicate (?n + 1) (0 :: 64 word))"
  have last: "last ?parts \<noteq> 0 \<longleftrightarrow> (\<exists>p\<in>set ?ps. unat (dp_Number p) = ?n \<and> dp_Size p \<noteq> 0)"
    if "distinct (map dp_Number ?ps)" "\<forall>p\<in>set ?ps. unat (dp_Number p) < ?n + 1"
  proof -
    have "last ?parts = ?parts ! ?n"
      by (subst last_conv_nth) (use fold_sizes_length [of ?ps "replicate (?n + 1) 0"] in \<open>auto simp del: fold_sizes_length\<close>)
    then show ?thesis
      using fold_sizes_nth [OF that(1), of "replicate (?n + 1) 0" ?n] that(2)
      by (simp only: length_replicate nth_replicate less_add_one if_True) auto
  qed
  have "Disk_validate d = Inr () \<longleftrightarrow>
      (\<forall>p\<in>set ?ps. unat (dp_Number p) < ?n + 1 \<and> (\<forall>t. dp_GPTType p = Some t \<longrightarrow> t \<in> set SupportedGPTTypes)) \<and>
      distinct (map dp_Number ?ps) \<and> \<not> ((\<exists>p\<in>set ?ps. dp_Size p = 0) \<and> last ?parts \<noteq> 0)"
    by (auto simp: Disk_validate_def bind_result_ok partition_loop_ok simp del: replicate.simps replicate_Suc)
  with last show ?thesis
    by (auto simp: well_formed_disk_def SupportedGPTTypes_def less_Suc_eq_le)
qed

lemma disk_loop_ok:
  "disk_loop ds devs = Inr devs' \<longleftrightarrow>
     (\<forall>d\<in>set ds. well_formed_disk d) \<and> devs' = devs @ concat (map disk_devices ds)"
  by (induction ds arbitrary: devs) (auto simp: bind_result_ok Disk_validate_iff)

lemma raid_loop_ok:
  "raid_loop rs devs = Inr devs' \<longleftrightarrow>
     (\<forall>i<length rs. rd_Level (rs ! i) \<in> {RaidLevel0, RaidLevel1} \<and>
        set (rd_Devices (rs ! i)) \<subseteq> set devs \<union> rd_ArrayName ` set (take i rs)) \<and>
     devs' = devs @ map rd_ArrayName rs"
proof (induction rs arbitrary: devs)
  case (Cons r rs)
  show ?case
    by (auto simp: bind_result_ok check_each_ok Cons.IH All_less_Suc2 SupportedRaidLevels_def)
qed auto

lemma vg_loop_ok:
  "vg_loop vs devs m = Inr m' \<longleftrightarrow>
     (\<forall>v\<in>set vs. set (vg_Devices v) \<subseteq> set devs) \<and>
     m' = fold (\<lambda>v. AList.update (vg_Name v) (length (vg_Devices v))) vs m"
  by (induction vs arbitrary: m) (auto simp: bind_result_ok check_each_ok)

lemma map_of_fold_update:
  "map_of (fold (\<lambda>x. AList.update (k x) (v x)) xs m) = map_of m ++ map_of (rev (map (\<lambda>x. (k x, v x)) xs))"
  by (induction xs arbitrary: m) (auto simp: update_conv map_add_def fun_eq_iff split: option.splits)

lemma LogicalVolumes_validate_ok:
  "LogicalVolumes_validate lvs = Inr u \<longleftrightarrow> (\<forall>l\<in>set (butlast lvs). lv_Size l \<noteq> 0)"
  by (induction lvs) auto

lemma lv_loop_ok:
  "lv_loop lvs m devs = Inr devs' \<longleftrightarrow>
     (\<forall>l\<in>set lvs. \<exists>n. map_of m (lv_VolumeGroup l) = Some n \<and>
        (lv_LVMType l \<in> {LVMTypeRaid1, LVMTypeStriped} \<longrightarrow> 2 \<le> n)) \<and>
     devs' = devs @ map (\<lambda>l. path_Join_dev (lv_VolumeGroup l) (lv_Name l)) lvs"
  by (induction lvs arbitrary: devs) (auto split: option.splits)

lemma fs_loop_ok:
  "fs_loop fss devs = Inr u \<longleftrightarrow>
     (\<forall>x\<in>set fss. fs_Format x \<noteq> TMPFS \<longrightarrow> fs_Device x \<in> set devs \<and> fs_Format x \<in> set SupportedFormats \<and>
        (\<forall>opt\<in>set (fs_CreateOptions x). length (Fields opt) \<le> 1))"
  by (induction fss) (auto simp: bind_result_ok validateCreateOptions_def check_each_ok)

lemma size_loop_ok:
  "size_loop ss seen = Inr u \<longleftrightarrow>
     distinct ss \<and> set ss \<inter> set seen = {} \<and> (\<forall>s\<in>set ss. CHR ''*'' \<notin> set s)"
  by (induction ss arbitrary: seen) auto

lemma Constraints_validate_ok: "Constraints_validate sv c = Inr u \<longleftrightarrow> well_formed_constraints sv c"
  by (auto simp: Constraints_validate_def well_formed_constraints_def bind_result_ok check_each_ok
      size_loop_ok is_ok_iff split: if_splits)

lemmas validation_loops = disk_loop_ok raid_loop_ok vg_loop_ok LogicalVolumes_validate_ok lv_loop_ok
  fs_loop_ok Constraints_validate_ok

text \<open>
  C35: The validation of a filesystem layout succeeds exactly on the layouts that are well formed in this sense.
  On each disk the partitions have distinct numbers, at most as large as their count, and supported types; when one of
  them takes the rest of the disk, then the partition whose number is the count, if there is one, takes the rest
  too. (That is less than the comments of the code ask for, the finding about it is
  \<open>variable_partitions_unchecked\<close>.) A raid of a supported level lies on partitions, disks or raids before it; volume groups lie on
  those too; each logical volume belongs to a volume group, with two devices where it is striped or
  mirrored, and only the last one takes the rest. Each filesystem lies on one of these devices, has a
  supported format and no create option with white space inside; those of the format tmpfs are exempt from all of
  this. The constraints name each size once, without wildcards, no operating system by a bare wildcard, and their
  versions are a bare wildcard or parse.
\<close>

theorem layout_valid_iff: "fsl_Validate sv (Some f) = Inr () \<longleftrightarrow> well_formed_layout sv f"
proof -
  have disks: "set (concat (map disk_devices (fl_Disks f))) = disk_names f" by (auto simp: disk_names_def)
  have vgs: "map_of (fold (\<lambda>v. AList.update (vg_Name v) (length (vg_Devices v))) (fl_VolumeGroups f) []) =
      vg_device_count f" by (simp add: map_of_fold_update vg_device_count_def)
  show ?thesis
    unfolding fsl_Validate_def well_formed_layout_def option.case bind_result_ok validation_loops
    by (simp add: vgs disks [simplified] raid_names_def lv_names_def Un_assoc)
qed

section \<open>Partitions that take the rest of the disk\<close>

text \<open>
  The comments ask that only the partition with the highest number takes the rest. Such a disk is accepted when its
  numbers are; but the check looks at the partition whose number is the count of the partitions, so that when there
  is none, or it takes the rest as well, any number of partitions may take the rest, wherever they are.
\<close>

definition rest_is_last :: "Disk \<Rightarrow> bool" where
  "rest_is_last d \<longleftrightarrow> (\<forall>p\<in>set (dk_Partitions d). dp_Size p = 0 \<longrightarrow>
     (\<forall>q\<in>set (dk_Partitions d). q \<noteq> p \<longrightarrow> unat (dp_Number q) < unat (dp_Number p)))"

lemma rest_is_last_accepted:
  assumes "rest_is_last d" and "distinct (map dp_Number (dk_Partitions d))"
    and "\<forall>p\<in>set (dk_Partitions d). unat (dp_Number p) \<le> length (dk_Partitions d) \<and>
      (\<forall>t. dp_GPTType p = Some t \<longrightarrow> t \<in> {GPTBoot, GPTLinux, GPTLinuxLVM, GPTLinuxRaid})"
  shows "Disk_validate d = Inr ()"
  using assms unfolding Disk_validate_iff well_formed_disk_def rest_is_last_def by (metis leD)

lemma variable_partitions_unchecked:
  assumes "distinct (map dp_Number (dk_Partitions d))"
    and "\<forall>p\<in>set (dk_Partitions d). unat (dp_Number p) \<le> length (dk_Partitions d) \<and>
      (\<forall>t. dp_GPTType p = Some t \<longrightarrow> t \<in> {GPTBoot, GPTLinux, GPTLinuxLVM, GPTLinuxRaid})"
    and "\<forall>p\<in>set (dk_Partitions d). unat (dp_Number p) = length (dk_Partitions d) \<longrightarrow> dp_Size p = 0"
  shows "Disk_validate d = Inr ()"
  using assms unfolding Disk_validate_iff well_formed_disk_def by blast

lemma variable_partitions_unchecked_examples:
  assumes "ps \<in> {[(0, 0), (1, 100)], [(1, 0), (2, 0)]}"
  shows "let d = \<lparr>dk_Device = ''/dev/sda'', dk_Partitions =
      map (\<lambda>(n, size). \<lparr>dp_Number = n, dp_Label = None, dp_Size = size, dp_GPTType = None\<rparr>) ps\<rparr>
    in Disk_validate d = Inr () \<and> \<not> rest_is_last d"
  using assms
  by (auto simp: Let_def rest_is_last_def intro!: variable_partitions_unchecked)

section \<open>An update is validated by its own parts\<close>

text \<open>An environment whose enumerations are the numbers of the API, and a layout of one partition.\<close>

definition example_fs_enums :: fs_enums where
  "example_fs_enums = \<lparr>fe_Format = (\<lambda>_. Inr EXT4), fe_GPTType = (\<lambda>_. Inr GPTLinux), fe_RaidLevel = (\<lambda>_. Inr RaidLevel1),
     fe_LVMType = (\<lambda>_. Inr LVMTypeLinear), fe_GetFormat = (\<lambda>_. Inr 3), fe_GetGPTType = (\<lambda>_. Inr 2),
     fe_GetLVMType = (\<lambda>_. Inr 1), fe_RAID_LEVEL_0 = 1, fe_RAID_LEVEL_1 = 2\<rparr>"

definition example_fsl_env :: "'v semver \<Rightarrow> (FilesystemLayout list, 'v) fsl_env" where
  "example_fsl_env sv = \<lparr>fv_enums = example_fs_enums, fv_semver = sv, fv_table = base_table,
     fv_machines = (\<lambda>_. Inr 0), fv_hardware = (\<lambda>_. Inr []),
     fv_eu = plain_errorutil, fv_now = 2, fv_newID = Inr ''new''\<rparr>"

definition example_layout :: FilesystemLayout where
  "example_layout = \<lparr>b_ID = ''default'', b_Name = '''', b_Description = '''', b_Created = 1, b_Changed = 1,
     b_Generation = 0,
     fl_Filesystems = [\<lparr>fs_Path = Some ''/'', fs_Device = ''/dev/sda1'', fs_Format = EXT4, fs_Label = None,
       fs_MountOptions = [], fs_CreateOptions = []\<rparr>],
     fl_Disks = [\<lparr>dk_Device = ''/dev/sda'', dk_Partitions = [\<lparr>dp_Number = 1, dp_Label = None, dp_Size = 0, dp_GPTType = None\<rparr>]\<rparr>],
     fl_Raid = [], fl_VolumeGroups = [], fl_LogicalVolumes = [], fl_Constraints = \<lparr>fc_Sizes = [], fc_Images = []\<rparr>\<rparr>"

definition disk_request :: "string \<Rightarrow> FilesystemServiceUpdateRequest" where
  "disk_request device = \<lparr>fur_Id = ''default'', fur_Name = None, fur_Description = None, fur_Filesystems = [],
     fur_Disks = [\<lparr>ad_Device = device, ad_Partitions = []\<rparr>], fur_Raid = [], fur_VolumeGroups = [],
     fur_LogicalVolumes = [], fur_Constraints = None, fur_UpdateMeta = None\<rparr>"

text \<open>
  An update of a filesystem layout is validated by the parts in the request alone: replacing the
  disks of a well formed layout by a disk without the partition its filesystem lies on passes the
  validation, and the stored layout is not well formed any more.
\<close>

theorem partial_update_breaks_layout:
  "\<exists>e' st'. well_formed_layout sv example_layout \<and>
     fsl_validateUpdate (example_fsl_env sv) (disk_request ''/dev/sdb'') example_layout [example_layout] =
       (Inr (), [example_layout]) \<and>
     fsl_update (example_fsl_env sv) example_layout (disk_request ''/dev/sdb'') [example_layout] = (Inr e', st') \<and>
     storage_Get base_table ''default'' st' = Inr e' \<and> \<not> well_formed_layout sv e'"
proof -
  have valid: "well_formed_layout sv example_layout"
    by (simp add: example_layout_def well_formed_layout_def well_formed_disk_def disk_names_def disk_devices_def
        partition_device_def well_formed_constraints_def SupportedFormats_def EXT4_def itoa.simps char_of_digits)
  have broken: "\<not> well_formed_layout sv (example_layout\<lparr>fl_Disks := [\<lparr>dk_Device = ''/dev/sdb'', dk_Partitions = []\<rparr>],
      b_Changed := t, b_Generation := g\<rparr>)" for t g
    by (simp add: example_layout_def well_formed_layout_def disk_names_def disk_devices_def raid_names_def
        lv_names_def EXT4_def TMPFS_def)
  note defs = example_fsl_env_def disk_request_def example_fs_enums_def internal_disk_def base_table_def list_rethink_def
    list_rows_def list_without_def
  have "fsl_validateUpdate (example_fsl_env sv) (disk_request ''/dev/sdb'') example_layout [example_layout] =
      (Inr (), [example_layout])"
    by (simp add: defs bind_action_def on_error_def fsl_validateUpdate_def requested_layout_def convertToInternal_def fsl_list_def fsl_filter_def
        storage_List_def layouts_Validate_def fsl_Validate_def Constraints_validate_def Disk_validate_def Let_def
        example_layout_def matches_field_def AList.update.simps)
  moreover have "\<exists>e' st'. fsl_update (example_fsl_env sv) example_layout (disk_request ''/dev/sdb'') [example_layout] =
      (Inr e', st') \<and> storage_Get base_table ''default'' st' = Inr e' \<and> \<not> well_formed_layout sv e'"
    using broken by (simp add: defs fsl_update_def apply_layout_request_def storage_Update_def storage_Get_def
        setChanged_def setGeneration_def Let_def example_layout_def)
  ultimately show ?thesis using valid by blast
qed

section \<open>Equal constraints\<close>

text \<open>
  \<open>Validate\<close> of all layouts is to make sure that no two of them match the same size and image, but
  equal version constraints are skipped: two such layouts pass and both match, and the choice
  depends on the order in which the database lists them.
\<close>

lemma equal_constraints_pass:
  assumes "b_ID a \<noteq> b_ID b" and "fl_Constraints a = c" and "fl_Constraints b = c"
    and "c = \<lparr>fc_Sizes = [s], fc_Images = [(os, vc)]\<rparr>" and "TrimSpace vc \<noteq> ''*''"
  shows "layouts_Validate sv [a, b] = Inr ()"
    and "constraints_Matches sv (fl_Constraints a) i im = constraints_Matches sv (fl_Constraints b) i im"
    and "constraints_Matches sv c i im \<Longrightarrow>
      layouts_From sv [a, b] i im = Inr a \<and> layouts_From sv [b, a] i im = Inr b"
  using assms by (simp_all add: layouts_Validate_def collision_step_def hasCollisions_def versions_overlap_def
      map_get_def layouts_From_def)

end
