(* ===== verification/Images.thy ===== *)
theory Images
  imports Filesystems TableActions
begin

text \<open>
  Operating system images: the entity of \<^verbatim>\<open>pkg/db/metal/image.go\<close> and its repository of
  \<^verbatim>\<open>pkg/repository/image.go\<close> and \<^verbatim>\<open>image-validation.go\<close> as an instance of the generic store. The semver
  package, the parser of image ids, the check that a URL is reachable and the machines that use an
  image are arguments.
\<close>

section \<open>The entity\<close>

type_synonym VersionClassification = string
type_synonym ImageFeatureType = string

definition ClassificationPreview :: VersionClassification where "ClassificationPreview = ''preview''"
definition ClassificationSupported :: VersionClassification where "ClassificationSupported = ''supported''"
definition ClassificationDeprecated :: VersionClassification where "ClassificationDeprecated = ''deprecated''"
definition ImageFeatureFirewall :: ImageFeatureType where "ImageFeatureFirewall = ''firewall''"
definition ImageFeatureMachine :: ImageFeatureType where "ImageFeatureMachine = ''machine''"

lemmas classifications = ClassificationPreview_def ClassificationSupported_def ClassificationDeprecated_def
lemmas image_features = ImageFeatureFirewall_def ImageFeatureMachine_def

record Image = Base +
  im_URL :: string
  im_Labels :: Labels
  im_Features :: "(ImageFeatureType, bool) gomap"
  im_OS :: string
  im_Version :: string
  im_ExpirationDate :: time
  im_Classification :: VersionClassification

definition DefaultImageExpiration :: duration where "DefaultImageExpiration = Hour * 24 * 90"

datatype ApiImageClassification =
    IMAGE_CLASSIFICATION_UNSPECIFIED | IMAGE_CLASSIFICATION_PREVIEW | IMAGE_CLASSIFICATION_SUPPORTED
  | IMAGE_CLASSIFICATION_DEPRECATED | IMAGE_CLASSIFICATION_NUMBER int

datatype ApiImageFeature =
    IMAGE_FEATURE_UNSPECIFIED | IMAGE_FEATURE_MACHINE | IMAGE_FEATURE_FIREWALL | IMAGE_FEATURE_NUMBER int

definition VersionClassificationFrom :: "ApiImageClassification \<Rightarrow> VersionClassification result" where
  "VersionClassificationFrom classification =
     (case classification of
        IMAGE_CLASSIFICATION_PREVIEW \<Rightarrow> Inr ClassificationPreview
      | IMAGE_CLASSIFICATION_UNSPECIFIED \<Rightarrow> Inr ClassificationPreview
      | IMAGE_CLASSIFICATION_SUPPORTED \<Rightarrow> Inr ClassificationSupported
      | IMAGE_CLASSIFICATION_DEPRECATED \<Rightarrow> Inr ClassificationDeprecated
      | _ \<Rightarrow> Inl (Plain ''given versionclassification is not valid:%s''))"

fun features_loop ::
  "ApiImageFeature list \<Rightarrow> (ImageFeatureType, bool) gomap \<Rightarrow> (ImageFeatureType, bool) gomap result" where
  "features_loop [] res = Inr res"
| "features_loop (f # fs) res =
     (case f of
        IMAGE_FEATURE_MACHINE \<Rightarrow> features_loop fs (AList.update ImageFeatureMachine True res)
      | IMAGE_FEATURE_FIREWALL \<Rightarrow> features_loop fs (AList.update ImageFeatureFirewall True res)
      | IMAGE_FEATURE_UNSPECIFIED \<Rightarrow> Inl (Plain ''unspecified imagefeature:%s'')
      | _ \<Rightarrow> Inl (Plain ''unknown imagefeature:%s''))"

definition ImageFeaturesFrom :: "ApiImageFeature list \<Rightarrow> (ImageFeatureType, bool) gomap result" where
  "ImageFeaturesFrom features = features_loop features []"

section \<open>Sorting\<close>

record 'v image_semver = "'v semver" +
  sv_Patch :: "'v \<Rightarrow> 64 word"
  sv_String :: "'v \<Rightarrow> string"
  sv_GreaterThan :: "'v \<Rightarrow> 'v \<Rightarrow> bool"

text \<open>\<open>strings.Compare\<close> is negative when the first string is smaller.\<close>

definition image_before :: "'v image_semver \<Rightarrow> Image \<Rightarrow> Image \<Rightarrow> bool" where
  "image_before sv i j =
     (if im_OS i = im_OS j
      then
        (case sv_NewVersion sv (im_Version i) of
           Inl _ \<Rightarrow> False
         | Inr iv \<Rightarrow>
             (case sv_NewVersion sv (im_Version j) of
                Inl _ \<Rightarrow> True
              | Inr jv \<Rightarrow> sv_GreaterThan sv iv jv))
      else im_OS i < im_OS j)"

definition SortImages :: "'v image_semver \<Rightarrow> Image list \<Rightarrow> Image list" where
  "SortImages sv images = SliceStable (image_before sv) images"

section \<open>Messages\<close>

text \<open>The feature and the classification of a query are the strings of the API's enum package.\<close>

record ImageQuery =
  iq_Id :: "string option"
  iq_Os :: "string option"
  iq_Version :: "string option"
  iq_Name :: "string option"
  iq_Description :: "string option"
  iq_Feature :: "string option"
  iq_Classification :: "string option"
  iq_Labels :: "Labels option"

record ImageMeta =
  imm_Labels :: "Labels option"
  imm_CreatedAt :: time
  imm_UpdatedAt :: time
  imm_Generation :: "64 word"

record ApiImage =
  ai_Id :: string
  ai_Name :: "string option"
  ai_Description :: "string option"
  ai_Meta :: "ImageMeta option"
  ai_Url :: string
  ai_Features :: "ApiImageFeature list"
  ai_Classification :: ApiImageClassification
  ai_ExpiresAt :: "time option"

record ImageServiceUpdateRequest =
  iu_Id :: string
  iu_Name :: "string option"
  iu_Description :: "string option"
  iu_Url :: "string option"
  iu_Features :: "ApiImageFeature list"
  iu_Classification :: ApiImageClassification
  iu_ExpiresAt :: "time option"
  iu_Labels :: "LabelStrategy option"
  iu_UpdateMeta :: "UpdateMeta option"

record ('st, 'v) image_env =
  ie_semver :: "'v image_semver"
  ie_table :: "('st, string, Image) rethink"
  ie_url :: "string \<Rightarrow> unit result" \<comment> \<open>\<open>checkIfUrlExists\<close>\<close>
  ie_machines :: "string \<Rightarrow> nat result" \<comment> \<open>how many machines are allocated with an image\<close>
  ie_now :: time
  ie_newID :: "string result"

section \<open>Conversion\<close>

definition image_convertToInternal :: "('st, 'v) image_env \<Rightarrow> ApiImage \<Rightarrow> Image result" where
  "image_convertToInternal env msg =
     bind_result (ImageFeaturesFrom (ai_Features msg)) (\<lambda>features.
     bind_result (VersionClassificationFrom (ai_Classification msg)) (\<lambda>classification.
     bind_result (sv_GetOsAndSemverFromImage (ie_semver env) (ai_Id msg)) (\<lambda>(os, v).
     Inr \<lparr>b_ID = ai_Id msg,
       b_Name = (case ai_Name msg of None \<Rightarrow> '''' | Some n \<Rightarrow> n),
       b_Description = (case ai_Description msg of None \<Rightarrow> '''' | Some d \<Rightarrow> d),
       b_Created = 0, b_Changed = 0, b_Generation = 0,
       im_URL = ai_Url msg,
       im_Labels = (case ai_Meta msg of None \<Rightarrow> [] | Some m \<Rightarrow> (case imm_Labels m of None \<Rightarrow> [] | Some ls \<Rightarrow> ls)),
       im_Features = features, im_OS = os, im_Version = sv_String (ie_semver env) v,
       im_ExpirationDate = (case ai_ExpiresAt msg of None \<Rightarrow> ie_now env + DefaultImageExpiration | Some t \<Rightarrow> t),
       im_Classification = classification\<rparr>)))"

fun proto_features :: "ImageFeatureType list \<Rightarrow> ApiImageFeature list result" where
  "proto_features [] = Inr []"
| "proto_features (f # fs) =
     bind_result
       (if f = ImageFeatureMachine then Inr IMAGE_FEATURE_MACHINE
        else if f = ImageFeatureFirewall then Inr IMAGE_FEATURE_FIREWALL
        else Inl (Plain ''invalid image feature: %s'')) (\<lambda>x.
     bind_result (proto_features fs) (\<lambda>xs. Inr (x # xs)))"

definition image_convertToProto :: "Image \<Rightarrow> ApiImage result" where
  "image_convertToProto img =
     bind_result (proto_features (map_keys (im_Features img))) (\<lambda>features.
     bind_result
       (if im_Classification img = ClassificationDeprecated then Inr IMAGE_CLASSIFICATION_DEPRECATED
        else if im_Classification img = ClassificationPreview then Inr IMAGE_CLASSIFICATION_PREVIEW
        else if im_Classification img = ClassificationSupported then Inr IMAGE_CLASSIFICATION_SUPPORTED
        else Inl (Plain ''invalid image classification: %s'')) (\<lambda>classification.
     Inr \<lparr>ai_Id = b_ID img, ai_Name = Some (b_Name img), ai_Description = Some (b_Description img),
       ai_Meta = Some \<lparr>imm_Labels = (if im_Labels img = [] then None else Some (im_Labels img)),
         imm_CreatedAt = b_Created img, imm_UpdatedAt = b_Changed img, imm_Generation = b_Generation img\<rparr>,
       ai_Url = im_URL img, ai_Features = features, ai_Classification = classification,
       ai_ExpiresAt = Some (im_ExpirationDate img)\<rparr>))"

section \<open>Operations\<close>

definition ImageFilter :: "ImageQuery \<Rightarrow> Image \<Rightarrow> bool" where
  "ImageFilter rq img \<longleftrightarrow>
     matches_field (iq_Id rq) (b_ID img) \<and> matches_field (iq_Os rq) (im_OS img) \<and>
     matches_field (iq_Version rq) (im_Version img) \<and> matches_field (iq_Name rq) (b_Name img) \<and>
     matches_field (iq_Description rq) (b_Description img) \<and>
     (case iq_Feature rq of None \<Rightarrow> True | Some feature \<Rightarrow> has_key (im_Features img) feature) \<and>
     matches_field (iq_Classification rq) (im_Classification img) \<and>
     matches_labels (iq_Labels rq) (im_Labels img)"

definition imageFilters :: "ImageQuery option \<Rightarrow> (Image \<Rightarrow> bool) list" where
  "imageFilters rq = (case rq of None \<Rightarrow> [] | Some rq \<Rightarrow> [ImageFilter rq])"

text \<open>A create request without an image dereferences a nil pointer.\<close>

definition image_create :: "('st, 'v) image_env \<Rightarrow> ApiImage option \<Rightarrow> ('st, Image) action" where
  "image_create env rq =
     (case rq of
        None \<Rightarrow> fail (Panic ''invalid memory address or nil pointer dereference'')
      | Some msg \<Rightarrow>
          bind_action (lift_result (image_convertToInternal env msg)) (\<lambda>img.
          tbl_Create (ie_table env) (ie_now env) (ie_newID env) img))"

definition apply_image_request :: "ImageServiceUpdateRequest \<Rightarrow> Image \<Rightarrow> Image result" where
  "apply_image_request rq e =
     bind_result
       (if iu_Classification rq \<noteq> IMAGE_CLASSIFICATION_UNSPECIFIED
        then VersionClassificationFrom (iu_Classification rq) else Inr (im_Classification e)) (\<lambda>classification.
     bind_result
       (if length (iu_Features rq) \<noteq> 0 then ImageFeaturesFrom (iu_Features rq) else Inr (im_Features e)) (\<lambda>features.
     Inr (e\<lparr>b_Name := (case iu_Name rq of None \<Rightarrow> b_Name e | Some n \<Rightarrow> n),
       b_Description := (case iu_Description rq of None \<Rightarrow> b_Description e | Some d \<Rightarrow> d),
       im_ExpirationDate := (case iu_ExpiresAt rq of None \<Rightarrow> im_ExpirationDate e | Some t \<Rightarrow> t),
       im_Classification := classification, im_Features := features,
       im_URL := (case iu_Url rq of None \<Rightarrow> im_URL e | Some u \<Rightarrow> u),
       im_Labels := (if iu_Labels rq = None then im_Labels e else updateLabelsOnMap (iu_Labels rq) (im_Labels e))\<rparr>)))"

definition image_update :: "('st, 'v) image_env \<Rightarrow> Image \<Rightarrow> ImageServiceUpdateRequest \<Rightarrow> ('st, Image) action" where
  "image_update env e rq =
     bind_action (lift_result (apply_image_request rq e)) (\<lambda>e. tbl_Update (ie_table env) (ie_now env) e)"

definition image_delete :: "('st, 'v) image_env \<Rightarrow> Image \<Rightarrow> ('st, string option) action" where
  "image_delete env e = bind_action (tbl_Delete (ie_table env) e) (\<lambda>_. return None)"

definition image_list :: "('st, 'v) image_env \<Rightarrow> ImageQuery option \<Rightarrow> ('st, Image list) action" where
  "image_list env rq =
     bind_action (tbl_List (ie_table env) (imageFilters rq)) (\<lambda>images. return (SortImages (ie_semver env) images))"

section \<open>The most recent image\<close>

text \<open>The loop over the sorted images, up to the first that matches.\<close>

fun first_match :: "'v image_semver \<Rightarrow> string \<Rightarrow> ('v \<Rightarrow> bool) \<Rightarrow> Image list \<Rightarrow> Image option" where
  "first_match sv os Check [] = None"
| "first_match sv os Check (img # images) =
     (if os \<noteq> im_OS img then first_match sv os Check images
      else
        (case sv_NewVersion sv (im_Version img) of
           Inl _ \<Rightarrow> first_match sv os Check images
         | Inr v \<Rightarrow> if Check v then Some img else first_match sv os Check images))"

definition version_constraint :: "'v image_semver \<Rightarrow> 'v \<Rightarrow> string" where
  "version_constraint sv v = (if sv_Patch sv v > 0 then ''='' else ''~'') @ sv_String sv v"

definition getMostRecentImageFor :: "'v image_semver \<Rightarrow> string \<Rightarrow> Image list \<Rightarrow> Image result" where
  "getMostRecentImageFor sv i images =
     bind_result (sv_GetOsAndSemverFromImage sv i) (\<lambda>(os, v).
     bind_result (map_error (\<lambda>_. Plain ''could not create constraint of image version:%s err:%w'')
       (sv_NewConstraint sv (version_constraint sv v))) (\<lambda>Check.
     case first_match sv os Check (SortImages sv images) of
       Some img \<Rightarrow> Inr img
     | None \<Rightarrow> Inl (NotFound ''no image for os:%s version:%s found'')))"

definition empty_image_query :: ImageQuery where
  "empty_image_query = \<lparr>iq_Id = None, iq_Os = None, iq_Version = None, iq_Name = None, iq_Description = None,
     iq_Feature = None, iq_Classification = None, iq_Labels = None\<rparr>"

definition GetMostRecentImageFor ::
  "errorutil \<Rightarrow> ('st, 'v) image_env \<Rightarrow> string option \<Rightarrow> string \<Rightarrow> ('st, ApiImage) action" where
  "GetMostRecentImageFor eu env classification i =
     bind_action (on_error (eu_Convert eu)
       (image_list env (Some (empty_image_query\<lparr>iq_Classification := classification\<rparr>)))) (\<lambda>images.
     bind_action (lift_result (getMostRecentImageFor (ie_semver env) i images)) (\<lambda>internalLatest.
     lift_result (image_convertToProto internalLatest)))"

section \<open>Validation\<close>

definition validate_expiry :: "time \<Rightarrow> time option \<Rightarrow> unit result" where
  "validate_expiry now expiresAt =
     (case expiresAt of
        None \<Rightarrow> Inr ()
      | Some t \<Rightarrow> if t \<noteq> 0 \<and> t < now then Inl (Plain ''image expiresAt must be in the future'') else Inr ())"

definition image_validateCreate :: "('st, 'v) image_env \<Rightarrow> ApiImage option \<Rightarrow> unit result" where
  "image_validateCreate env rq =
     (case rq of
        None \<Rightarrow> Inl (Panic ''invalid memory address or nil pointer dereference'')
      | Some img \<Rightarrow>
          bind_result (check_that (ai_Id img \<noteq> '''') (Plain ''image id must not be empty'')) (\<lambda>_.
          bind_result (check_that (ai_Url img \<noteq> '''') (Plain ''image url must not be empty'')) (\<lambda>_.
          bind_result (ie_url env (ai_Url img)) (\<lambda>_.
          bind_result (check_that (length (ai_Features img) \<noteq> 0) (Plain ''image features must not be empty'')) (\<lambda>_.
          bind_result (ImageFeaturesFrom (ai_Features img)) (\<lambda>_.
          bind_result (VersionClassificationFrom (ai_Classification img)) (\<lambda>_.
          bind_result (sv_GetOsAndSemverFromImage (ie_semver env) (ai_Id img)) (\<lambda>_.
          validate_expiry (ie_now env) (ai_ExpiresAt img)))))))))"

definition image_validateUpdate :: "('st, 'v) image_env \<Rightarrow> ImageServiceUpdateRequest \<Rightarrow> unit result" where
  "image_validateUpdate env rq =
     bind_result (check_that (iu_Id rq \<noteq> '''') (Plain ''image id must not be empty'')) (\<lambda>_.
     bind_result (case iu_Url rq of None \<Rightarrow> Inr () | Some url \<Rightarrow> ie_url env url) (\<lambda>_.
     bind_result (if length (iu_Features rq) > 0
       then bind_result (ImageFeaturesFrom (iu_Features rq)) (\<lambda>_. Inr ()) else Inr ()) (\<lambda>_.
     bind_result (VersionClassificationFrom (iu_Classification rq)) (\<lambda>_.
     bind_result (sv_GetOsAndSemverFromImage (ie_semver env) (iu_Id rq)) (\<lambda>_.
     validate_expiry (ie_now env) (iu_ExpiresAt rq))))))"

definition image_validateDelete :: "('st, 'v) image_env \<Rightarrow> Image \<Rightarrow> unit result" where
  "image_validateDelete env img =
     bind_result (map_error (\<lambda>_. Internal ''%w'') (ie_machines env (b_ID img))) (\<lambda>machines.
     check_that (\<not> machines > 0) (FailedPrecondition ''cannot remove image with existing machine allocations''))"

section \<open>The repository as the store sees it\<close>

definition image_operations ::
  "('st, 'v) image_env \<Rightarrow>
   ('st, Image, ApiImage, ApiImage option, ImageServiceUpdateRequest, ImageQuery option) repository" where
  "image_operations env =
     \<lparr>rp_validateCreate = (\<lambda>rq. bind_action (lift_result (image_validateCreate env rq)) (\<lambda>_. return rq)),
      rp_create = image_create env,
      rp_get = tbl_Get (ie_table env),
      rp_find = (\<lambda>q. tbl_Find (ie_table env) (imageFilters q)),
      rp_list = image_list env,
      rp_matchScope = (\<lambda>_. True),
      rp_validateUpdate = (\<lambda>rq e. bind_action (lift_result (image_validateUpdate env rq)) (\<lambda>_. return rq)),
      rp_update = image_update env,
      rp_validateDelete = (\<lambda>e. lift_result (image_validateDelete env e)),
      rp_delete = image_delete env,
      rp_convertToProto = (\<lambda>e. lift_result (image_convertToProto e)),
      rp_updateMeta = iu_UpdateMeta,
      rp_SetChanged = (\<lambda>t e. e\<lparr>b_Changed := t\<rparr>),
      rp_setDeletionTask = (\<lambda>_ m. m)\<rparr>"

interpretation image_repo: scoped_repository "image_operations env" "\<lambda>st. st"
proof
  show "snd (rp_get (image_operations env) i st) = st" for i st
    by (rule reads_onlyD) (simp add: image_operations_def bind_reads)
qed (auto simp: image_operations_def bind_action_def split: sum.split)

end
