(* ===== verification/ImageProps.thy ===== *)
theory ImageProps
  imports Images
begin

text \<open>
  The most recent image: the search over the sorted images finds an image of the operating system
  with the greatest version that satisfies the constraint, if there is one, and whether an image is
  expired plays no role.
\<close>

section \<open>The most recent image\<close>

lemma image_before_order:
  assumes "strict_weak_order (sv_GreaterThan sv)"
  shows "strict_weak_order (image_before sv)"
proof -
  have g: "\<not> sv_GreaterThan sv x x" "sv_GreaterThan sv x y \<Longrightarrow> sv_GreaterThan sv y z \<Longrightarrow> sv_GreaterThan sv x z"
    "sv_GreaterThan sv x z \<Longrightarrow> sv_GreaterThan sv x y \<or> sv_GreaterThan sv y z" for x y z
    using assms unfolding strict_weak_order_def by blast+
  show ?thesis
    unfolding strict_weak_order_def
  proof (intro conjI allI impI)
    show "\<not> image_before sv x x" for x by (simp add: image_before_def g split: sum.split)
    show "image_before sv x z" if "image_before sv x y" "image_before sv y z" for x y z
      using that by (auto simp: image_before_def split: if_splits sum.splits intro: g(2))
    show "image_before sv x y \<or> image_before sv y z" if "image_before sv x z" for x y z
      using that by (auto simp: image_before_def split: if_splits sum.splits dest: g(3))
  qed
qed

definition candidate :: "'v image_semver \<Rightarrow> string \<Rightarrow> ('v \<Rightarrow> bool) \<Rightarrow> Image \<Rightarrow> bool" where
  "candidate sv os Check img \<longleftrightarrow>
     im_OS img = os \<and> (case sv_NewVersion sv (im_Version img) of Inl _ \<Rightarrow> False | Inr v \<Rightarrow> Check v)"

lemma first_match_find: "first_match sv os Check images = find (candidate sv os Check) images"
  by (induction images) (auto simp: candidate_def split: sum.splits)

definition version_of :: "'v image_semver \<Rightarrow> Image \<Rightarrow> 'v" where
  "version_of sv img = projr (sv_NewVersion sv (im_Version img))"

lemma found_is_latest:
  assumes "strict_weak_order (sv_GreaterThan sv)"
    and "first_match sv os Check (SortImages sv images) = Some img"
  shows "img \<in> set images \<and> candidate sv os Check img \<and>
    (\<forall>other\<in>set images. candidate sv os Check other \<longrightarrow>
       \<not> sv_GreaterThan sv (version_of sv other) (version_of sv img))"
proof -
  let ?xs = "SortImages sv images"
  from assms(2) obtain i where i: "i < length ?xs" "candidate sv os Check img" "img = ?xs ! i"
    "\<forall>j<i. \<not> candidate sv os Check (?xs ! j)"
    by (auto simp: first_match_find find_Some_iff)
  have sorted: "sorted_wrt (\<lambda>x y. \<not> image_before sv y x) ?xs"
    unfolding SortImages_def by (rule sorted_SliceStable [OF image_before_order [OF assms(1)]])
  have "\<not> sv_GreaterThan sv (version_of sv other) (version_of sv img)"
    if "other \<in> set images" "candidate sv os Check other" for other
  proof -
    from that(1) have "other \<in> set ?xs" by (simp add: SortImages_def)
    then obtain j where j: "j < length ?xs" "other = ?xs ! j" by (auto simp: in_set_conv_nth)
    have "\<not> image_before sv other img"
    proof (cases "j = i")
      case True
      with i j image_before_order [OF assms(1)] show ?thesis by (auto simp: strict_weak_order_def)
    next
      case False
      with i j that(2) have "i < j" by (meson linorder_neqE_nat)
      with sorted j i show ?thesis by (auto simp: sorted_wrt_iff_nth_less)
    qed
    with that(2) i(2) show ?thesis
      by (auto simp: image_before_def candidate_def version_of_def split: sum.splits)
  qed
  moreover have "img \<in> set images" using i nth_mem [OF i(1)] by (simp add: SortImages_def)
  ultimately show ?thesis using i by blast
qed

text \<open>
  C36: The most recent image for a name with a version is an image of that operating system
  whose version satisfies the constraint, and no such image has a greater version; the answer is
  not found exactly when there is no such image. Images whose version does not parse are skipped.
\<close>

theorem most_recent_image:
  assumes "strict_weak_order (sv_GreaterThan sv)"
    and "sv_GetOsAndSemverFromImage sv i = Inr (os, v)"
    and "sv_NewConstraint sv (version_constraint sv v) = Inr Check"
  shows "case getMostRecentImageFor sv i images of
      Inr img \<Rightarrow> img \<in> set images \<and> candidate sv os Check img \<and>
        (\<forall>other\<in>set images. candidate sv os Check other \<longrightarrow>
           \<not> sv_GreaterThan sv (version_of sv other) (version_of sv img))
    | Inl err \<Rightarrow> err = NotFound ''no image for os:%s version:%s found'' \<and>
        (\<forall>other\<in>set images. \<not> candidate sv os Check other)"
proof (cases "first_match sv os Check (SortImages sv images)")
  case None
  then have "\<forall>other\<in>set images. \<not> candidate sv os Check other"
    by (simp add: first_match_find find_None_iff SortImages_def)
  with None assms(2,3) show ?thesis by (simp add: getMostRecentImageFor_def)
next
  case (Some img)
  with found_is_latest [OF assms(1) Some] assms(2,3) show ?thesis by (simp add: getMostRecentImageFor_def)
qed

section \<open>Expired images\<close>

lemma first_match_expire:
  "first_match sv os Check (map (\<lambda>img. img\<lparr>im_ExpirationDate := f img\<rparr>) images) =
     map_option (\<lambda>img. img\<lparr>im_ExpirationDate := f img\<rparr>) (first_match sv os Check images)"
  by (induction images) (auto split: sum.split)

lemma SortImages_expire:
  "SortImages sv (map (\<lambda>img. img\<lparr>im_ExpirationDate := f img\<rparr>) images) =
     map (\<lambda>img. img\<lparr>im_ExpirationDate := f img\<rparr>) (SortImages sv images)"
proof -
  have before: "image_before sv (x\<lparr>im_ExpirationDate := a\<rparr>) (y\<lparr>im_ExpirationDate := b\<rparr>) = image_before sv x y" for x y a b
    by (simp add: image_before_def cong: sum.case_cong)
  have "insert_stable (image_before sv) (x\<lparr>im_ExpirationDate := f x\<rparr>) (map (\<lambda>img. img\<lparr>im_ExpirationDate := f img\<rparr>) xs) =
      map (\<lambda>img. img\<lparr>im_ExpirationDate := f img\<rparr>) (insert_stable (image_before sv) x xs)" for x xs
    by (induction xs) (simp_all add: before)
  then show ?thesis by (induction images) (simp_all add: SortImages_def SliceStable_def)
qed

text \<open>
  The expiration date of an image, after which it is documented not to be considered for
  allocations of machines, has no influence on the search: whatever dates the images have, the same
  image is found.
\<close>

theorem expiration_ignored:
  "getMostRecentImageFor sv i (map (\<lambda>img. img\<lparr>im_ExpirationDate := f img\<rparr>) images) =
     bind_result (getMostRecentImageFor sv i images) (\<lambda>img. Inr (img\<lparr>im_ExpirationDate := f img\<rparr>))"
  by (auto simp: getMostRecentImageFor_def bind_result_def SortImages_expire first_match_expire
      split: sum.splits option.splits prod.splits)

section \<open>Examples\<close>

text \<open>Versions with one digit and constraints that accept everything up to a digit.\<close>

definition digit_semver :: "nat image_semver" where
  "digit_semver = \<lparr>sv_NewVersion = (\<lambda>s. if length s = 1 then Inr (of_char (hd s)) else Inl (Plain ''invalid'')),
     sv_NewConstraint = (\<lambda>s. Inr (\<lambda>v. v \<le> of_char (List.last s))),
     sv_GetOsAndSemverFromImage = (\<lambda>s. Inr (''ubuntu'', of_char (List.last s))),
     sv_Patch = (\<lambda>_. 0), sv_String = (\<lambda>v. [char_of v]), sv_GreaterThan = (>)\<rparr>"

definition image_of :: "string \<Rightarrow> string \<Rightarrow> Image" where
  "image_of os v = \<lparr>b_ID = os, b_Name = '''', b_Description = '''', b_Created = 0, b_Changed = 0, b_Generation = 0,
     im_URL = '''', im_Labels = [], im_Features = [], im_OS = os, im_Version = v, im_ExpirationDate = 0,
     im_Classification = ClassificationPreview\<rparr>"

theorem most_recent_image_witness:
  "getMostRecentImageFor digit_semver ''ubuntu-5'' [image_of ''ubuntu'' ''3'', image_of ''alpine'' ''4'', image_of ''ubuntu'' ''4'']
     = Inr (image_of ''ubuntu'' ''4'') \<and>
   \<not> sv_GreaterThan digit_semver (version_of digit_semver (image_of ''ubuntu'' ''3''))
       (version_of digit_semver (image_of ''ubuntu'' ''4''))"
proof -
  let ?images = "[image_of ''ubuntu'' ''3'', image_of ''alpine'' ''4'', image_of ''ubuntu'' ''4'']"
  have "strict_weak_order (sv_GreaterThan digit_semver)"
    "sv_GetOsAndSemverFromImage digit_semver ''ubuntu-5'' = Inr (''ubuntu'', 53)"
    "sv_NewConstraint digit_semver (version_constraint digit_semver 53) = Inr (\<lambda>v. v \<le> 53)"
    by (auto simp: strict_weak_order_def digit_semver_def version_constraint_def)
  from most_recent_image [OF this, of ?images] show ?thesis
    by (auto simp: getMostRecentImageFor_def digit_semver_def version_constraint_def image_of_def candidate_def
        SortImages_def SliceStable_def image_before_def split: sum.splits)
qed

end
