(* ===== verification/SizeImageConstraints.thy ===== *)
theory SizeImageConstraints
  imports SizeRepository Images
begin

text \<open>
  Restrictions of the images that machines of a size may run: the entity of
  \<^verbatim>\<open>pkg/db/metal/sizeimageconstraint.go\<close> and its repository of
  \<^verbatim>\<open>pkg/repository/size-image-constraint.go\<close> and \<^verbatim>\<open>size-image-constraint-validation.go\<close> as an instance
  of the generic store. Sizes and images are looked up in their own tables on the same state.
\<close>

section \<open>The entity\<close>

record SizeImageConstraint = Base +
  sic_Images :: "(string, string) gomap"

definition sic_Validate :: "'v image_semver \<Rightarrow> SizeImageConstraint \<Rightarrow> unit result" where
  "sic_Validate sv sc =
     check_each (\<lambda>(os, vc).
       bind_result (check_that (os \<noteq> ''*'') (Plain ''just '*' is not allowed as image os constraint'')) (\<lambda>_.
       if TrimSpace vc = ''*'' then Inr ()
       else bind_result (convertToOpAndVersion (semver.truncate sv) vc) (\<lambda>_. Inr ()))) (sic_Images sc)"

definition sics_Validate :: "'v image_semver \<Rightarrow> SizeImageConstraint list \<Rightarrow> unit result" where
  "sics_Validate sv scs = check_each (sic_Validate sv) scs"

definition check_image_version :: "'v image_semver \<Rightarrow> Image \<Rightarrow> string \<Rightarrow> unit result" where
  "check_image_version sv img versionconstraint =
     bind_result (map_error (Wrapped ''version of image is invalid %w'') (sv_NewVersion sv (im_Version img))) (\<lambda>version.
     bind_result (check_that (sv_Patch sv version \<noteq> 0) (Plain ''no patch version given'')) (\<lambda>_.
     bind_result (map_error (Wrapped ''versionconstraint %s is invalid %w'') (sv_NewConstraint sv versionconstraint)) (\<lambda>c.
     check_that (c version) (Plain ''given size:%s with image:%s does violate image constraint:%s %s''))))"

definition sic_Matches :: "'v image_semver \<Rightarrow> SizeImageConstraint \<Rightarrow> Size \<Rightarrow> Image \<Rightarrow> unit result" where
  "sic_Matches sv sc s img =
     (if b_ID sc \<noteq> b_ID s then Inr ()
      else check_each (\<lambda>(os, versionconstraint).
        if os \<noteq> im_OS img then Inr () else check_image_version sv img versionconstraint) (sic_Images sc))"

definition sics_Matches :: "'v image_semver \<Rightarrow> SizeImageConstraint list \<Rightarrow> Size \<Rightarrow> Image \<Rightarrow> unit result" where
  "sics_Matches sv scs s img =
     (case find (\<lambda>sc. b_ID sc = b_ID s) scs of None \<Rightarrow> Inr () | Some sc \<Rightarrow> sic_Matches sv sc s img)"

section \<open>Messages\<close>

record ImageConstraint =
  ic_Image :: string
  ic_SemverMatch :: string

record SicQuery =
  siq_Size :: "string option"
  siq_Name :: "string option"
  siq_Description :: "string option"

record SicMeta =
  sim_CreatedAt :: time
  sim_UpdatedAt :: time
  sim_Generation :: "64 word"

record ApiSizeImageConstraint =
  aic_Size :: string
  aic_Name :: "string option"
  aic_Description :: "string option"
  aic_Meta :: "SicMeta option"
  aic_ImageConstraints :: "ImageConstraint list"

text \<open>The create request has the same fields but the metadata.\<close>

record SicCreateRequest =
  sicc_Size :: string
  sicc_Name :: "string option"
  sicc_Description :: "string option"
  sicc_ImageConstraints :: "ImageConstraint list"

record SicUpdateRequest = SicCreateRequest +
  sicu_UpdateMeta :: "UpdateMeta option"

record ('st, 'v) sic_env =
  sie_semver :: "'v image_semver"
  sie_table :: "('st, string, SizeImageConstraint) rethink"
  sie_sizes :: "('st, string, Size) rethink"
  sie_images :: "('st, string, Image) rethink"
  sie_now :: time
  sie_newID :: "string result"

section \<open>Conversion\<close>

definition images_of :: "ImageConstraint list \<Rightarrow> (string, string) gomap" where
  "images_of cs = fold (\<lambda>c. AList.update (ic_Image c) (ic_SemverMatch c)) cs []"

definition sic_convertToInternal :: "ApiSizeImageConstraint \<Rightarrow> SizeImageConstraint" where
  "sic_convertToInternal e =
     \<lparr>b_ID = aic_Size e, b_Name = (case aic_Name e of None \<Rightarrow> '''' | Some n \<Rightarrow> n),
      b_Description = (case aic_Description e of None \<Rightarrow> '''' | Some d \<Rightarrow> d),
      b_Created = 0, b_Changed = 0, b_Generation = 0, sic_Images = images_of (aic_ImageConstraints e)\<rparr>"

definition sic_convertToProto :: "SizeImageConstraint \<Rightarrow> ApiSizeImageConstraint" where
  "sic_convertToProto e =
     \<lparr>aic_Size = b_ID e, aic_Name = Some (b_Name e), aic_Description = Some (b_Description e),
      aic_Meta = Some \<lparr>sim_CreatedAt = b_Created e, sim_UpdatedAt = b_Changed e, sim_Generation = b_Generation e\<rparr>,
      aic_ImageConstraints = map (\<lambda>(i, m). \<lparr>ic_Image = i, ic_SemverMatch = m\<rparr>) (sic_Images e)\<rparr>"

section \<open>Operations\<close>

definition SizeImageConstraintFilter :: "SicQuery \<Rightarrow> SizeImageConstraint \<Rightarrow> bool" where
  "SizeImageConstraintFilter rq sc \<longleftrightarrow>
     matches_field (siq_Size rq) (b_ID sc) \<and> matches_field (siq_Name rq) (b_Name sc) \<and>
     matches_field (siq_Description rq) (b_Description sc)"

definition sizeImageConstraintFilters :: "SicQuery option \<Rightarrow> (SizeImageConstraint \<Rightarrow> bool) list" where
  "sizeImageConstraintFilters rq = (case rq of None \<Rightarrow> [] | Some rq \<Rightarrow> [SizeImageConstraintFilter rq])"

definition sic_create :: "('st, 'v) sic_env \<Rightarrow> SicCreateRequest \<Rightarrow> ('st, SizeImageConstraint) action" where
  "sic_create env rq =
     tbl_Create (sie_table env) (sie_now env) (sie_newID env)
       \<lparr>b_ID = sicc_Size rq, b_Name = (case sicc_Name rq of None \<Rightarrow> '''' | Some n \<Rightarrow> n),
        b_Description = (case sicc_Description rq of None \<Rightarrow> '''' | Some d \<Rightarrow> d),
        b_Created = 0, b_Changed = 0, b_Generation = 0, sic_Images = images_of (sicc_ImageConstraints rq)\<rparr>"

definition apply_sic_request :: "SicUpdateRequest \<Rightarrow> SizeImageConstraint \<Rightarrow> SizeImageConstraint" where
  "apply_sic_request rq e =
     e\<lparr>b_Description := (case sicc_Description rq of None \<Rightarrow> b_Description e | Some d \<Rightarrow> d),
       b_Name := (case sicc_Name rq of None \<Rightarrow> b_Name e | Some n \<Rightarrow> n),
       sic_Images := images_of (sicc_ImageConstraints rq), b_ID := sicc_Size rq\<rparr>"

definition sic_update ::
  "('st, 'v) sic_env \<Rightarrow> SizeImageConstraint \<Rightarrow> SicUpdateRequest \<Rightarrow> ('st, SizeImageConstraint) action" where
  "sic_update env e rq = tbl_Update (sie_table env) (sie_now env) (apply_sic_request rq e)"

definition sic_delete :: "('st, 'v) sic_env \<Rightarrow> SizeImageConstraint \<Rightarrow> ('st, string option) action" where
  "sic_delete env e = bind_action (tbl_Delete (sie_table env) e) (\<lambda>_. return None)"

definition sic_list :: "('st, 'v) sic_env \<Rightarrow> SicQuery option \<Rightarrow> ('st, SizeImageConstraint list) action" where
  "sic_list env rq =
     bind_action (tbl_List (sie_table env) (sizeImageConstraintFilters rq)) (\<lambda>scs.
     return (SliceStable (\<lambda>i j. b_ID i < b_ID j) scs))"

text \<open>\<open>errorutil.NewInvalidArgument\<close> of the API package is an argument.\<close>

definition Try :: "(go_error \<Rightarrow> go_error) \<Rightarrow> ('st, 'v) sic_env \<Rightarrow> string \<Rightarrow> string \<Rightarrow> ('st, unit) action" where
  "Try NewInvalidArgument env s i =
     bind_action (tbl_Get (sie_table env) s) (\<lambda>sic.
     bind_action (tbl_Get (sie_sizes env) s) (\<lambda>sz.
     bind_action (tbl_Get (sie_images env) i) (\<lambda>img.
     on_error NewInvalidArgument (lift_result (sic_Matches (sie_semver env) sic sz img)))))"

section \<open>Validation\<close>

definition sic_validateCreate :: "('st, 'v) sic_env \<Rightarrow> SicCreateRequest \<Rightarrow> unit result" where
  "sic_validateCreate env rq =
     sic_Validate (sie_semver env) (sic_convertToInternal
       \<lparr>aic_Size = sicc_Size rq, aic_Name = None, aic_Description = None, aic_Meta = None,
        aic_ImageConstraints = sicc_ImageConstraints rq\<rparr>)"

definition sic_validateUpdate :: "('st, 'v) sic_env \<Rightarrow> SicUpdateRequest \<Rightarrow> unit result" where
  "sic_validateUpdate env rq =
     sic_Validate (sie_semver env) (sic_convertToInternal
       \<lparr>aic_Size = sicc_Size rq, aic_Name = None, aic_Description = None, aic_Meta = None,
        aic_ImageConstraints = sicc_ImageConstraints rq\<rparr>)"

section \<open>The repository as the store sees it\<close>

definition sic_operations ::
  "('st, 'v) sic_env \<Rightarrow>
   ('st, SizeImageConstraint, ApiSizeImageConstraint, SicCreateRequest, SicUpdateRequest, SicQuery option) repository" where
  "sic_operations env =
     \<lparr>rp_validateCreate = (\<lambda>rq. bind_action (lift_result (sic_validateCreate env rq)) (\<lambda>_. return rq)),
      rp_create = sic_create env,
      rp_get = tbl_Get (sie_table env),
      rp_find = (\<lambda>q. tbl_Find (sie_table env) (sizeImageConstraintFilters q)),
      rp_list = sic_list env,
      rp_matchScope = (\<lambda>_. True),
      rp_validateUpdate = (\<lambda>rq e. bind_action (lift_result (sic_validateUpdate env rq)) (\<lambda>_. return rq)),
      rp_update = sic_update env,
      rp_validateDelete = (\<lambda>_. return ()),
      rp_delete = sic_delete env,
      rp_convertToProto = (\<lambda>e. return (sic_convertToProto e)),
      rp_updateMeta = sicu_UpdateMeta,
      rp_SetChanged = (\<lambda>t e. e\<lparr>b_Changed := t\<rparr>),
      rp_setDeletionTask = (\<lambda>_ m. m)\<rparr>"

interpretation sic_repo: scoped_repository "sic_operations env" "\<lambda>st. st"
proof
  show "snd (rp_get (sic_operations env) i st) = st" for i st
    by (rule reads_onlyD) (simp add: sic_operations_def bind_reads)
qed (auto simp: sic_operations_def bind_action_def split: sum.split)

section \<open>What the check of an image enforces\<close>

lemma check_image_version_ok:
  "check_image_version sv img vc = Inr () \<longleftrightarrow>
     (\<exists>v c. sv_NewVersion sv (im_Version img) = Inr v \<and> sv_Patch sv v \<noteq> 0 \<and> sv_NewConstraint sv vc = Inr c \<and> c v)"
  by (auto simp: check_image_version_def bind_result_ok)

lemma sic_Matches_ok:
  "b_ID sc = b_ID s \<Longrightarrow> sic_Matches sv sc s img = Inr () \<longleftrightarrow>
     (\<forall>vc. (im_OS img, vc) \<in> set (sic_Images sc) \<longrightarrow> check_image_version sv img vc = Inr ())"
  by (auto simp: sic_Matches_def check_each_ok split: if_splits)

text \<open>
  A size and image pass exactly when the size has a constraint, and the version of the image has a
  patch number and satisfies the constraint on its operating system, if there is one.
\<close>

lemma Try_ok:
  assumes "rethink_table (sie_table env) scs" and "rethink_table (sie_sizes env) szs"
    and "rt_key (sie_table env) = b_ID" and "rt_key (sie_sizes env) = b_ID"
    and "Try NewInvalidArgument env s i st = (Inr (), st')"
  shows "\<exists>sc sz img. scs st s = Some sc \<and> szs st s = Some sz \<and>
    tbl_Get (sie_images env) i st = (Inr img, st) \<and>
    (\<forall>vc. (im_OS img, vc) \<in> set (sic_Images sc) \<longrightarrow> check_image_version (sie_semver env) img vc = Inr ())"
proof -
  from assms(5) obtain sc sz img st1 st2 st3 where
    get: "tbl_Get (sie_table env) s st = (Inr sc, st1)" "tbl_Get (sie_sizes env) s st1 = (Inr sz, st2)"
      "tbl_Get (sie_images env) i st2 = (Inr img, st3)" and
    m: "sic_Matches (sie_semver env) sc sz img = Inr ()"
    by (auto simp: Try_def bind_action_ok on_error_ok)
  from tbl_Get_ok [OF assms(1) get(1)] have sc: "st1 = st" "scs st s = Some sc" by simp_all
  with tbl_Get_ok [OF assms(2) get(2)] have sz: "st2 = st" "szs st s = Some sz" by simp_all
  from sc sz rethink_table.keyed [OF assms(1), of st s sc] rethink_table.keyed [OF assms(2), of st s sz] assms(3,4)
  have "b_ID sc = b_ID sz" by simp
  moreover have "st3 = st" using get(3) sz(1) by (auto simp: tbl_Get_def)
  ultimately show ?thesis using m sc sz get(3) by (auto simp: sic_Matches_ok)
qed

end
