(* ===== verification/Partitions.thy ===== *)
theory Partitions
  imports Netip TableActions
begin

text \<open>
  Partitions, \<^verbatim>\<open>pkg/db/metal/partition.go\<close>, with their repository of \<^verbatim>\<open>pkg/repository/partition.go\<close>
  and \<^verbatim>\<open>partition-validation.go\<close> as an instance of the generic store; the capacity of partitions has
  its own theory. The check that a URL is reachable and the machines, networks and reservations of
  a partition are arguments.
\<close>

section \<open>The entity\<close>

record BootConfiguration =
  bc_ImageURL :: string
  bc_KernelURL :: string
  bc_CommandLine :: string

record Partition = Base +
  pt_BootConfiguration :: BootConfiguration
  pt_MgmtServiceAddress :: string
  pt_Labels :: Labels
  pt_DNSServers :: "string list" \<comment> \<open>the addresses of the servers\<close>
  pt_NTPServers :: "string list"

definition PartitionsByID :: "Partition list \<Rightarrow> (string, Partition) gomap" where
  "PartitionsByID ps = fold (\<lambda>s. AList.update (b_ID s) s) ps []"

section \<open>Messages\<close>

record PartitionMeta =
  pm_Labels :: "Labels option"
  pm_CreatedAt :: "time option"
  pm_UpdatedAt :: "time option"
  pm_Generation :: "64 word"

record ApiPartition =
  apt_Id :: string
  apt_Description :: string
  apt_Meta :: "PartitionMeta option"
  apt_BootConfiguration :: "BootConfiguration option"
  apt_DnsServers :: "string list"
  apt_NtpServers :: "string list"
  apt_MgmtServiceAddresses :: "string list"

text \<open>A list of servers that the update request does not set is nil.\<close>

record PartitionServiceUpdateRequest =
  pu_Id :: string
  pu_Description :: "string option"
  pu_BootConfiguration :: "BootConfiguration option"
  pu_DnsServers :: "string list option"
  pu_NtpServers :: "string list option"
  pu_MgmtServiceAddresses :: "string list"
  pu_Labels :: "LabelStrategy option"
  pu_UpdateMeta :: "UpdateMeta option"

record 'st partition_env =
  pte_table :: "('st, string, Partition) rethink"
  pte_url :: "string \<Rightarrow> unit result" \<comment> \<open>\<open>checkIfUrlExists\<close>\<close>
  pte_machines :: "string \<Rightarrow> nat result" \<comment> \<open>how many machines are in a partition\<close>
  pte_networks :: "string \<Rightarrow> nat result"
  pte_reservations :: "string \<Rightarrow> nat result"
  pte_eu :: errorutil
  pte_now :: time
  pte_newID :: "string result"

section \<open>Conversion\<close>

definition empty_boot :: BootConfiguration where
  "empty_boot = \<lparr>bc_ImageURL = '''', bc_KernelURL = '''', bc_CommandLine = ''''\<rparr>"

definition partition_convertToInternal :: "ApiPartition \<Rightarrow> Partition" where
  "partition_convertToInternal msg =
     \<lparr>b_ID = apt_Id msg, b_Name = apt_Id msg, b_Description = apt_Description msg,
      b_Created = (case apt_Meta msg of None \<Rightarrow> 0 | Some m \<Rightarrow> (case pm_CreatedAt m of None \<Rightarrow> 0 | Some t \<Rightarrow> t)),
      b_Changed = (case apt_Meta msg of None \<Rightarrow> 0 | Some m \<Rightarrow> (case pm_UpdatedAt m of None \<Rightarrow> 0 | Some t \<Rightarrow> t)),
      b_Generation = (case apt_Meta msg of None \<Rightarrow> 0 | Some m \<Rightarrow> pm_Generation m),
      pt_BootConfiguration = (case apt_BootConfiguration msg of None \<Rightarrow> empty_boot | Some b \<Rightarrow> b),
      pt_MgmtServiceAddress = (case apt_MgmtServiceAddresses msg of [] \<Rightarrow> '''' | a # _ \<Rightarrow> a),
      pt_Labels = (case apt_Meta msg of None \<Rightarrow> [] | Some m \<Rightarrow> (case pm_Labels m of None \<Rightarrow> [] | Some ls \<Rightarrow> ls)),
      pt_DNSServers = apt_DnsServers msg, pt_NTPServers = apt_NtpServers msg\<rparr>"

definition partition_convertToProto :: "Partition \<Rightarrow> ApiPartition" where
  "partition_convertToProto e =
     \<lparr>apt_Id = b_ID e, apt_Description = b_Description e,
      apt_Meta = Some \<lparr>pm_Labels = (if pt_Labels e = [] then None else Some (pt_Labels e)),
        pm_CreatedAt = Some (b_Created e), pm_UpdatedAt = Some (b_Changed e), pm_Generation = b_Generation e\<rparr>,
      apt_BootConfiguration = Some (pt_BootConfiguration e), apt_DnsServers = pt_DNSServers e,
      apt_NtpServers = pt_NTPServers e,
      apt_MgmtServiceAddresses = (if pt_MgmtServiceAddress e \<noteq> '''' then [pt_MgmtServiceAddress e] else [])\<rparr>"

section \<open>Operations\<close>

definition PartitionFilter :: "string option \<Rightarrow> Partition \<Rightarrow> bool" where
  "PartitionFilter i e = matches_field i (b_ID e)"

definition partitionFilters :: "string option option \<Rightarrow> (Partition \<Rightarrow> bool) list" where
  "partitionFilters rq = (case rq of None \<Rightarrow> [] | Some i \<Rightarrow> [PartitionFilter i])"

text \<open>A request without a partition dereferences a nil pointer.\<close>

definition partition_create :: "'st partition_env \<Rightarrow> ApiPartition option \<Rightarrow> ('st, Partition) action" where
  "partition_create env rq =
     (case rq of
        None \<Rightarrow> fail (Panic ''invalid memory address or nil pointer dereference'')
      | Some msg \<Rightarrow>
          on_error (eu_Convert (pte_eu env))
            (tbl_Create (pte_table env) (pte_now env) (pte_newID env) (partition_convertToInternal msg)))"

definition apply_partition_request :: "PartitionServiceUpdateRequest \<Rightarrow> Partition \<Rightarrow> Partition" where
  "apply_partition_request rq e =
     e\<lparr>pt_BootConfiguration := (case pu_BootConfiguration rq of None \<Rightarrow> pt_BootConfiguration e | Some b \<Rightarrow> b),
       b_Description := (case pu_Description rq of None \<Rightarrow> b_Description e | Some d \<Rightarrow> d),
       pt_DNSServers := (case pu_DnsServers rq of None \<Rightarrow> pt_DNSServers e | Some s \<Rightarrow> s),
       pt_NTPServers := (case pu_NtpServers rq of None \<Rightarrow> pt_NTPServers e | Some s \<Rightarrow> s),
       pt_MgmtServiceAddress := (case pu_MgmtServiceAddresses rq of [a] \<Rightarrow> a | _ \<Rightarrow> pt_MgmtServiceAddress e),
       pt_Labels := (if pu_Labels rq = None then pt_Labels e else updateLabelsOnMap (pu_Labels rq) (pt_Labels e))\<rparr>"

definition partition_update ::
  "'st partition_env \<Rightarrow> Partition \<Rightarrow> PartitionServiceUpdateRequest \<Rightarrow> ('st, Partition) action" where
  "partition_update env e rq =
     on_error (eu_Convert (pte_eu env)) (tbl_Update (pte_table env) (pte_now env) (apply_partition_request rq e))"

definition partition_delete :: "'st partition_env \<Rightarrow> Partition \<Rightarrow> ('st, string option) action" where
  "partition_delete env e =
     bind_action (on_error (eu_Convert (pte_eu env)) (tbl_Delete (pte_table env) e)) (\<lambda>_. return None)"

definition partition_get :: "'st partition_env \<Rightarrow> string \<Rightarrow> ('st, Partition) action" where
  "partition_get env i = on_error (eu_Convert (pte_eu env)) (tbl_Get (pte_table env) i)"

definition partition_find :: "'st partition_env \<Rightarrow> string option option \<Rightarrow> ('st, Partition) action" where
  "partition_find env q = on_error (eu_Convert (pte_eu env)) (tbl_Find (pte_table env) (partitionFilters q))"

definition partition_list :: "'st partition_env \<Rightarrow> string option option \<Rightarrow> ('st, Partition list) action" where
  "partition_list env q = on_error (eu_Convert (pte_eu env)) (tbl_List (pte_table env) (partitionFilters q))"

section \<open>Validation\<close>

text \<open>
  \<open>net.ParseIP\<close> accepts what \<open>netip.ParseAddr\<close> accepts without a zone. \<open>regexDNSName\<close> matches labels of
  at most 63 characters between dots, with one more dot or underscore at the end.
\<close>

definition net_ParseIP :: "string \<Rightarrow> Addr option" where
  "net_ParseIP s =
     (case ParseAddr s of
        None \<Rightarrow> None
      | Some (V4 a) \<Rightarrow> Some (V4 a)
      | Some (V6 a zone) \<Rightarrow> if zone = '''' then Some (V6 a zone) else None)"

definition alphanumeric :: "char \<Rightarrow> bool" where
  "alphanumeric c =
     (let n = of_char c :: nat
      in 48 \<le> n \<and> n \<le> 57 \<or> 65 \<le> n \<and> n \<le> 90 \<or> 97 \<le> n \<and> n \<le> 122 \<or> c = CHR ''_'')"

definition dns_label :: "string \<Rightarrow> bool" where
  "dns_label s =
     (case s of
        [] \<Rightarrow> False
      | c # cs \<Rightarrow> alphanumeric c \<and> length cs \<le> 62 \<and> list_all (\<lambda>c. alphanumeric c \<or> c = CHR ''-'') cs)"

definition dns_labels :: "string \<Rightarrow> bool" where
  "dns_labels s = list_all dns_label (split_on CHR ''.'' s)"

definition regexDNSName :: "string \<Rightarrow> bool" where
  "regexDNSName s \<longleftrightarrow>
     dns_labels s \<or> s \<noteq> [] \<and> List.last s \<in> {CHR ''.'', CHR ''_''} \<and> dns_labels (butlast s)"

definition validate_ntp :: "string \<Rightarrow> unit result" where
  "validate_ntp address =
     (if net_ParseIP address \<noteq> None
      then check_that (ParseAddr address \<noteq> None) (Plain ''ip: %s for ntp server not correct err: %w'')
      else check_that (regexDNSName address) (Plain ''dns name: %s for ntp server not correct''))"

definition validatePartition :: "'st partition_env \<Rightarrow> ApiPartition \<Rightarrow> unit result" where
  "validatePartition env p =
     bind_result (check_that (apt_Id p \<noteq> '''') (Plain ''partition id must not be empty'')) (\<lambda>_.
     bind_result
       (case apt_BootConfiguration p of
          None \<Rightarrow> Inr ()
        | Some b \<Rightarrow> bind_result (pte_url env (bc_ImageURL b)) (\<lambda>_. pte_url env (bc_KernelURL b))) (\<lambda>_.
     bind_result (check_that (\<not> length (apt_DnsServers p) > 3)
       (Plain ''not more than 3 dnsservers must be specified'')) (\<lambda>_.
     bind_result (check_each (\<lambda>dns. check_that (ParseAddr dns \<noteq> None) (Plain ''dnsserver ip is not valid:%w''))
       (apt_DnsServers p)) (\<lambda>_.
     bind_result (check_that (\<not> length (apt_NtpServers p) > 5)
       (Plain ''not more than 5 ntpservers must be specified'')) (\<lambda>_.
     check_each validate_ntp (apt_NtpServers p))))))"

definition partition_validateCreate :: "'st partition_env \<Rightarrow> ApiPartition option \<Rightarrow> unit result" where
  "partition_validateCreate env rq =
     (case rq of
        None \<Rightarrow> Inl (Panic ''invalid memory address or nil pointer dereference'')
      | Some p \<Rightarrow> validatePartition env p)"

definition partition_validateUpdate :: "'st partition_env \<Rightarrow> PartitionServiceUpdateRequest \<Rightarrow> unit result" where
  "partition_validateUpdate env rq =
     validatePartition env
       \<lparr>apt_Id = pu_Id rq, apt_Description = '''', apt_Meta = None, apt_BootConfiguration = pu_BootConfiguration rq,
        apt_DnsServers = (case pu_DnsServers rq of None \<Rightarrow> [] | Some s \<Rightarrow> s),
        apt_NtpServers = (case pu_NtpServers rq of None \<Rightarrow> [] | Some s \<Rightarrow> s),
        apt_MgmtServiceAddresses = pu_MgmtServiceAddresses rq\<rparr>"

text \<open>The helper of \<^verbatim>\<open>common.go\<close> that collects an error if a condition does not hold.\<close>

definition common_validate :: "go_error list \<Rightarrow> bool \<Rightarrow> string \<Rightarrow> go_error list" where
  "common_validate errs condition format = (if \<not> condition then errs @ [Plain format] else errs)"

definition partition_validateDelete :: "'st partition_env \<Rightarrow> Partition \<Rightarrow> unit result" where
  "partition_validateDelete env e =
     bind_result (map_error (\<lambda>_. Internal ''%w'') (pte_machines env (b_ID e))) (\<lambda>ms.
     let errs = common_validate [] (ms = 0) ''there are still machines in %q'' in
     bind_result (map_error (\<lambda>_. Internal ''%w'') (pte_networks env (b_ID e))) (\<lambda>nws.
     let errs = common_validate errs (nws = 0) ''there are still networks in %q'' in
     bind_result (map_error (\<lambda>_. Internal ''%w'') (pte_reservations env (b_ID e))) (\<lambda>sizeReservations.
     errors_Join (common_validate errs (sizeReservations = 0) ''there are still size reservations in %q''))))"

section \<open>The repository as the store sees it\<close>

definition partition_operations ::
  "'st partition_env \<Rightarrow>
   ('st, Partition, ApiPartition, ApiPartition option, PartitionServiceUpdateRequest, string option option) repository" where
  "partition_operations env =
     \<lparr>rp_validateCreate = (\<lambda>rq. bind_action (lift_result (partition_validateCreate env rq)) (\<lambda>_. return rq)),
      rp_create = partition_create env,
      rp_get = partition_get env,
      rp_find = partition_find env,
      rp_list = partition_list env,
      rp_matchScope = (\<lambda>_. True),
      rp_validateUpdate = (\<lambda>rq e. bind_action (lift_result (partition_validateUpdate env rq)) (\<lambda>_. return rq)),
      rp_update = partition_update env,
      rp_validateDelete = (\<lambda>e. lift_result (partition_validateDelete env e)),
      rp_delete = partition_delete env,
      rp_convertToProto = (\<lambda>e. return (partition_convertToProto e)),
      rp_updateMeta = pu_UpdateMeta,
      rp_SetChanged = (\<lambda>t e. e\<lparr>b_Changed := t\<rparr>),
      rp_setDeletionTask = (\<lambda>_ m. m)\<rparr>"

interpretation partition_repo: scoped_repository "partition_operations env" "\<lambda>st. st"
proof
  show "snd (rp_get (partition_operations env) i st) = st" for i st
    by (rule reads_onlyD) (simp add: partition_operations_def partition_get_def)
qed (auto simp: partition_operations_def bind_action_def split: sum.split)

text \<open>A partition that is deleted has no machines, networks or reservations.\<close>

lemma partition_validateDelete_ok:
  "partition_validateDelete env e = Inr () \<longleftrightarrow>
     pte_machines env (b_ID e) = Inr 0 \<and> pte_networks env (b_ID e) = Inr 0 \<and> pte_reservations env (b_ID e) = Inr 0"
  by (auto simp: partition_validateDelete_def common_validate_def bind_result_ok Let_def split: if_splits)

lemma partition_roundtrip:
  "length (apt_MgmtServiceAddresses p) \<le> 1 \<Longrightarrow>
   partition_convertToInternal (partition_convertToProto (partition_convertToInternal p)) =
     partition_convertToInternal p"
  by (auto simp: partition_convertToInternal_def partition_convertToProto_def split: option.splits list.splits)

end
