(* ===== verification/Capacity.thy ===== *)
theory Capacity
  imports Partitions SizeReservations SizeRepository Images Issues
begin

text \<open>
  The capacity of partitions, \<open>Capacity\<close> of \<^verbatim>\<open>pkg/repository/partition.go\<close>: for every partition and size
  the number of machines by their allocation and provisioning state, and the reservations. The five
  tables it reads are arguments. A capacity that the code changes through a pointer is updated in
  its list.
\<close>

section \<open>Messages\<close>

record CapacityRequest =
  cq_Id :: "string option"
  cq_Size :: "string option"
  cq_Project :: "string option"

record MachineSizeCapacity =
  mc_Size :: string
  mc_Total :: int
  mc_PhonedHome :: int
  mc_Waiting :: int
  mc_Other :: int
  mc_OtherMachines :: "string list"
  mc_Allocated :: int
  mc_Allocatable :: int
  mc_Free :: int
  mc_Unavailable :: int
  mc_Faulty :: int
  mc_FaultyMachines :: "string list"
  mc_Reservations :: int
  mc_UsedReservations :: int
  mc_RemainingReservations :: int

record PartitionCapacity =
  pc_Partition :: string
  pc_Sizes :: "MachineSizeCapacity list"

definition empty_capacity :: "string \<Rightarrow> MachineSizeCapacity" where
  "empty_capacity s = \<lparr>mc_Size = s, mc_Total = 0, mc_PhonedHome = 0, mc_Waiting = 0, mc_Other = 0,
     mc_OtherMachines = [], mc_Allocated = 0, mc_Allocatable = 0, mc_Free = 0, mc_Unavailable = 0, mc_Faulty = 0,
     mc_FaultyMachines = [], mc_Reservations = 0, mc_UsedReservations = 0, mc_RemainingReservations = 0\<rparr>"

record 'st capacity_env =
  ce_partitions :: "('st, string, Partition) rethink"
  ce_machines :: "('st, string, Machine) rethink"
  ce_events :: "('st, string, ProvisioningEventContainer) rethink"
  ce_sizes :: "('st, string, Size) rethink"
  ce_reservations :: "('st, string, SizeReservation) rethink"
  ce_now :: time

section \<open>Counting machines\<close>

text \<open>The free machines are those that an allocation may choose.\<close>

definition electable :: "Machine \<Rightarrow> ProvisioningEventContainer \<Rightarrow> bool" where
  "electable m ec =
     (m_Waiting m \<and> \<not> m_PreAllocated m \<and> ms_Value (m_State m) = AvailableState \<and> ec_Liveliness ec = LivelinessAlive)"

definition count_machine ::
  "MachineIssuesMap \<Rightarrow> ProvisioningEventContainer \<Rightarrow> Machine \<Rightarrow> MachineSizeCapacity \<Rightarrow> MachineSizeCapacity" where
  "count_machine machinesWithIssues ec m cap =
     (let cap = cap\<lparr>mc_Total := mc_Total cap + 1\<rparr>;
          cap = (if has_key machinesWithIssues (b_ID m)
                 then cap\<lparr>mc_Faulty := mc_Faulty cap + 1, mc_FaultyMachines := mc_FaultyMachines cap @ [b_ID m]\<rparr> else cap);
          cap = (if m_Allocation m \<noteq> None then cap\<lparr>mc_Allocated := mc_Allocated cap + 1\<rparr>
                 else if electable m ec
                 then cap\<lparr>mc_Allocatable := mc_Allocatable cap + 1, mc_Free := mc_Free cap + 1\<rparr>
                 else cap\<lparr>mc_Unavailable := mc_Unavailable cap + 1\<rparr>)
      in (case map ev_Event (ec_Events ec) of
            EvPhonedHome # _ \<Rightarrow> cap\<lparr>mc_PhonedHome := mc_PhonedHome cap + 1\<rparr>
          | EvWaiting # _ \<Rightarrow> cap\<lparr>mc_Waiting := mc_Waiting cap + 1\<rparr>
          | _ \<Rightarrow> cap\<lparr>mc_Other := mc_Other cap + 1, mc_OtherMachines := mc_OtherMachines cap @ [b_ID m]\<rparr>))"

text \<open>The capacity of a size, appended if the list has none.\<close>

fun update_cap ::
  "(MachineSizeCapacity \<Rightarrow> MachineSizeCapacity) \<Rightarrow> string \<Rightarrow> MachineSizeCapacity list \<Rightarrow> MachineSizeCapacity list" where
  "update_cap f s [] = [f (empty_capacity s)]"
| "update_cap f s (c # cs) = (if mc_Size c = s then f c # cs else c # update_cap f s cs)"

definition size_of_machine :: "(string, Size) gomap \<Rightarrow> Machine \<Rightarrow> string" where
  "size_of_machine sizesByID m = b_ID (case map_of sizesByID (m_SizeID m) of None \<Rightarrow> UnknownSize | Some s \<Rightarrow> s)"

definition capacity_step ::
  "(string, ProvisioningEventContainer) gomap \<Rightarrow> (string, Partition) gomap \<Rightarrow> (string, Size) gomap \<Rightarrow>
   MachineIssuesMap \<Rightarrow> Machine \<Rightarrow> (string, PartitionCapacity) gomap \<Rightarrow> (string, PartitionCapacity) gomap" where
  "capacity_step ecsById partitionsById sizesByID machinesWithIssues m pcs =
     (case map_of ecsById (b_ID m) of
        None \<Rightarrow> pcs
      | Some ec \<Rightarrow>
          (case map_of partitionsById (m_PartitionID m) of
             None \<Rightarrow> pcs
           | Some part \<Rightarrow>
               let pc = (case map_of pcs (m_PartitionID m) of
                           None \<Rightarrow> \<lparr>pc_Partition = b_ID part, pc_Sizes = []\<rparr> | Some pc \<Rightarrow> pc)
               in AList.update (m_PartitionID m)
                    (pc\<lparr>pc_Sizes := update_cap (count_machine machinesWithIssues ec m) (size_of_machine sizesByID m)
                       (pc_Sizes pc)\<rparr>) pcs))"

section \<open>Reservations\<close>

definition reserve_step ::
  "string option \<Rightarrow> (string, Machine list) gomap \<Rightarrow> string \<Rightarrow> string \<Rightarrow> SizeReservation \<Rightarrow> MachineSizeCapacity \<Rightarrow>
   MachineSizeCapacity" where
  "reserve_step project mbp s part r cap =
     (let machinesWithSizeAndPartition =
            filter (\<lambda>m. m_SizeID m = s \<and> m_PartitionID m = part) (map_get [] mbp (sr_ProjectID r));
          usedReservations = min (int (length machinesWithSizeAndPartition)) (sr_Amount r);
          cap = cap\<lparr>mc_Reservations := mc_Reservations cap + sr_Amount r,
            mc_UsedReservations := mc_UsedReservations cap + usedReservations\<rparr>
      in if project = Some (sr_ProjectID r) then cap
         else cap\<lparr>mc_Free := max (mc_Free cap - (sr_Amount r - usedReservations)) 0\<rparr>)"

text \<open>The reservations that the loop visits for a capacity.\<close>

definition reservations_for ::
  "(string, Size) gomap \<Rightarrow> (string, SizeReservation list) gomap \<Rightarrow> string \<Rightarrow> string \<Rightarrow> SizeReservation list" where
  "reservations_for sizesByID sizeReservationsBySize s part =
     (case map_of sizesByID s of
        None \<Rightarrow> []
      | Some sz \<Rightarrow>
          (case map_of sizeReservationsBySize (b_ID sz) of
             None \<Rightarrow> []
           | Some rvs \<Rightarrow> SizeReservationsForPartition rvs part))"

definition reserve_cap ::
  "string option \<Rightarrow> (string, Machine list) gomap \<Rightarrow> (string, Size) gomap \<Rightarrow> (string, SizeReservation list) gomap \<Rightarrow>
   string \<Rightarrow> MachineSizeCapacity \<Rightarrow> MachineSizeCapacity" where
  "reserve_cap project mbp sizesByID sizeReservationsBySize part cap =
     (let s = b_ID (case map_of sizesByID (mc_Size cap) of None \<Rightarrow> UnknownSize | Some s \<Rightarrow> s);
          cap = fold (reserve_step project mbp s part)
                  (reservations_for sizesByID sizeReservationsBySize (mc_Size cap) part) cap
      in cap\<lparr>mc_RemainingReservations := mc_Reservations cap - mc_UsedReservations cap\<rparr>)"

definition sizesById :: "Size list \<Rightarrow> (string, Size) gomap" where
  "sizesById szs = fold (\<lambda>s. AList.update (b_ID s) s) szs []"

text \<open>
  The part of the operation after the reads. A request that is nil is dereferenced as soon as a
  reservation is visited.
\<close>

definition partition_capacities ::
  "CapacityRequest option \<Rightarrow> Partition list \<Rightarrow> Machine list \<Rightarrow> ProvisioningEventContainer list \<Rightarrow> Size list \<Rightarrow>
   SizeReservation list \<Rightarrow> MachineIssuesMap \<Rightarrow> PartitionCapacity list result" where
  "partition_capacities rq ps ms ecs szs rvs machinesWithIssues =
     (let sizesByID = sizesById szs;
          rvsBySize = SizeReservationsBySize rvs;
          mbp = machinesByProject ms;
          pcs = fold (capacity_step (ProvisioningEventsByID ecs) (PartitionsByID ps) sizesByID machinesWithIssues) ms []
      in if rq = None \<and> list_ex (\<lambda>(_, pc). list_ex (\<lambda>cap.
             reservations_for sizesByID rvsBySize (mc_Size cap) (pc_Partition pc) \<noteq> []) (pc_Sizes pc)) pcs
         then Inl (Panic ''invalid memory address or nil pointer dereference'')
         else Inr (SliceStable (\<lambda>i j. pc_Partition i < pc_Partition j)
           (map (\<lambda>(_, pc). pc\<lparr>pc_Sizes := map (reserve_cap (case rq of None \<Rightarrow> None | Some rq \<Rightarrow> cq_Project rq)
             mbp sizesByID rvsBySize (pc_Partition pc)) (pc_Sizes pc)\<rparr>) pcs)))"

definition Capacity :: "'st capacity_env \<Rightarrow> CapacityRequest option \<Rightarrow> ('st, PartitionCapacity list) action" where
  "Capacity env rq =
     (let rq_id = (case rq of None \<Rightarrow> None | Some rq \<Rightarrow> cq_Id rq) in
     bind_action
       (case rq_id of
          Some i \<Rightarrow> bind_action (tbl_Get (ce_partitions env) i) (\<lambda>p. return [p])
        | None \<Rightarrow> tbl_List (ce_partitions env) []) (\<lambda>ps.
     bind_action (tbl_List (ce_machines env) [\<lambda>m. matches_field rq_id (m_PartitionID m)]) (\<lambda>allMs.
     bind_action
       (case (case rq of None \<Rightarrow> None | Some rq \<Rightarrow> cq_Size rq) of
          Some s \<Rightarrow> bind_action (tbl_Get (ce_sizes env) s) (\<lambda>resp. return (filter (\<lambda>m. m_SizeID m = b_ID resp) allMs))
        | None \<Rightarrow> return allMs) (\<lambda>ms.
     bind_action (on_error (Wrapped ''unable to fetch provisioning event containers: %w'')
       (tbl_List (ce_events env) [])) (\<lambda>ecs.
     bind_action (on_error (Wrapped ''unable to list sizes: %w'') (tbl_List (ce_sizes env) [])) (\<lambda>sizes.
     bind_action (on_error (Wrapped ''unable to list size reservations: %w'')
       (tbl_List (ce_reservations env) [])) (\<lambda>sizeReservations.
     bind_action (on_error (Wrapped ''unable to calculate machine issues: %w'') (lift_result (snd (Find (ce_now env)
       \<lparr>cfg_Machines = allMs, cfg_EventContainers = ecs, cfg_Severity = SeverityOther '''', cfg_Only = [],
        cfg_Omit = [TypeLastEventError], cfg_LastErrorThreshold = 0\<rparr>)))) (\<lambda>machinesWithIssues.
     lift_result (partition_capacities rq ps ms ecs sizes sizeReservations machinesWithIssues)))))))))"

end
