(* ===== verification/CapacityProps.thy ===== *)
theory CapacityProps
  imports Capacity SizeReservationProps
begin

text \<open>
  The capacity of a partition in closed form: the loops that update capacities in place compute, for
  every partition and size, counts over the machines in question, and the free machines are those
  that can be allocated less the open reservations of other projects. With that the report agrees
  with the check of reservations that an allocation goes through.
\<close>

section \<open>The capacities that the loop over the machines builds\<close>

definition cap_at :: "(string, PartitionCapacity) gomap \<Rightarrow> string \<Rightarrow> string \<Rightarrow> MachineSizeCapacity option" where
  "cap_at pcs p s =
     (case map_of pcs p of None \<Rightarrow> None | Some pc \<Rightarrow> find (\<lambda>c. mc_Size c = s) (pc_Sizes pc))"

definition well_formed_caps :: "(string, PartitionCapacity) gomap \<Rightarrow> bool" where
  "well_formed_caps pcs \<longleftrightarrow>
     distinct (map fst pcs) \<and> (\<forall>(p, pc)\<in>set pcs. pc_Partition pc = p \<and> distinct (map mc_Size (pc_Sizes pc)))"

lemma count_machine_Size [simp]: "mc_Size (count_machine iss ec m cap) = mc_Size cap"
  by (simp add: count_machine_def Let_def split: list.split ProvisioningEventType.split)

lemma empty_capacity_Size [simp]: "mc_Size (empty_capacity s) = s"
  by (simp add: empty_capacity_def)

lemma find_update_cap:
  assumes "\<And>c. mc_Size (f c) = mc_Size c"
  shows "find (\<lambda>c. mc_Size c = t) (update_cap f s caps) =
    (if t = s then Some (f (case find (\<lambda>c. mc_Size c = s) caps of None \<Rightarrow> empty_capacity s | Some c \<Rightarrow> c))
     else find (\<lambda>c. mc_Size c = t) caps)"
  by (induction caps) (auto simp: assms)

lemma sizes_update_cap:
  assumes "\<And>c. mc_Size (f c) = mc_Size c"
  shows "mc_Size ` set (update_cap f s caps) = insert s (mc_Size ` set caps)"
    "distinct (map mc_Size caps) \<Longrightarrow> distinct (map mc_Size (update_cap f s caps))"
proof -
  show set_eq: "mc_Size ` set (update_cap f s caps) = insert s (mc_Size ` set caps)" for caps
    by (induction caps) (auto simp: assms)
  show "distinct (map mc_Size caps) \<Longrightarrow> distinct (map mc_Size (update_cap f s caps))"
    by (induction caps) (auto simp: assms set_eq)
qed

text \<open>Maps that index a list by a key of its elements.\<close>

lemma index_Some:
  "map_of (fold (\<lambda>x. AList.update (f x) x) xs m) i = Some y \<Longrightarrow> map_of m i = Some y \<or> f y = i \<and> y \<in> set xs"
proof (induction xs arbitrary: m)
  case (Cons x xs)
  then have "map_of (AList.update (f x) x m) i = Some y \<or> f y = i \<and> y \<in> set xs" by simp
  then show ?case by (auto simp: update_conv' split: if_splits)
qed simp

lemma index_dom: "dom (map_of (fold (\<lambda>x. AList.update (f x) x) xs m)) = dom (map_of m) \<union> f ` set xs"
  by (induction xs arbitrary: m) (auto simp: update_conv')

lemma map_of_sizesById: "map_of (sizesById szs) i = Some s \<Longrightarrow> b_ID s = i \<and> s \<in> set szs"
  unfolding sizesById_def by (drule index_Some) simp

lemma sizesById_None: "map_of (sizesById szs) i = None \<longleftrightarrow> i \<notin> b_ID ` set szs"
proof -
  have "map_of (sizesById szs) i = None \<longleftrightarrow> i \<notin> dom (map_of (sizesById szs))" by (simp add: domIff)
  then show ?thesis using index_dom [of b_ID szs "[]"] by (simp add: sizesById_def)
qed

lemma map_of_PartitionsByID: "map_of (PartitionsByID ps) i = Some p \<Longrightarrow> b_ID p = i"
  unfolding PartitionsByID_def by (drule index_Some) simp

definition counted ::
  "(string, ProvisioningEventContainer) gomap \<Rightarrow> (string, Partition) gomap \<Rightarrow> (string, Size) gomap \<Rightarrow>
   string \<Rightarrow> string \<Rightarrow> Machine \<Rightarrow> bool" where
  "counted ecs parts sizes p s m \<longleftrightarrow>
     map_of ecs (b_ID m) \<noteq> None \<and> map_of parts (m_PartitionID m) \<noteq> None \<and> m_PartitionID m = p \<and>
     size_of_machine sizes m = s"

lemma cap_at_step:
  "cap_at (capacity_step ecs parts sizes iss m pcs) p s =
     (if counted ecs parts sizes p s m
      then Some (count_machine iss (the (map_of ecs (b_ID m))) m
        (case cap_at pcs p s of None \<Rightarrow> empty_capacity s | Some c \<Rightarrow> c))
      else cap_at pcs p s)"
  by (auto simp: cap_at_def capacity_step_def counted_def Let_def update_conv' find_update_cap
      split: option.split)

lemma cap_at_fold:
  "cap_at (fold (capacity_step ecs parts sizes iss) ms pcs) p s =
     (let M = filter (counted ecs parts sizes p s) ms
      in if M = [] then cap_at pcs p s
         else Some (fold (\<lambda>m. count_machine iss (the (map_of ecs (b_ID m))) m) M
           (case cap_at pcs p s of None \<Rightarrow> empty_capacity s | Some c \<Rightarrow> c)))"
  by (induction ms arbitrary: pcs) (auto simp: cap_at_step Let_def)

lemma ball_update: "\<forall>x\<in>set m. P x \<Longrightarrow> P (k, v) \<Longrightarrow> \<forall>x\<in>set (AList.update k v m). P x"
  by (induction m) auto

lemma cap_at_Nil: "cap_at [] p s = None"
  by (simp add: cap_at_def)

lemma well_formed_update:
  assumes "well_formed_caps pcs" and "pc_Partition pc = p" and "distinct (map mc_Size (pc_Sizes pc))"
  shows "well_formed_caps (AList.update p pc pcs)"
proof -
  let ?P = "\<lambda>(p, pc). pc_Partition pc = p \<and> distinct (map mc_Size (pc_Sizes pc))"
  from assms(1) have "distinct (map fst pcs)" "\<forall>x\<in>set pcs. ?P x" by (auto simp: well_formed_caps_def)
  moreover from assms(2,3) have "?P (p, pc)" by simp
  ultimately show ?thesis
    using ball_update [of pcs ?P p pc] by (simp add: well_formed_caps_def distinct_update)
qed

lemma well_formed_step:
  assumes "well_formed_caps pcs" and "\<And>i p. map_of parts i = Some p \<Longrightarrow> b_ID p = i"
  shows "well_formed_caps (capacity_step ecs parts sizes iss m pcs)"
proof (cases "map_of ecs (b_ID m) = None \<or> map_of parts (m_PartitionID m) = None")
  case True
  with assms(1) show ?thesis by (auto simp: capacity_step_def split: option.split)
next
  case False
  then obtain ec part where e: "map_of ecs (b_ID m) = Some ec" "map_of parts (m_PartitionID m) = Some part" by auto
  define pc where "pc = (case map_of pcs (m_PartitionID m) of
      None \<Rightarrow> \<lparr>pc_Partition = b_ID part, pc_Sizes = []\<rparr> | Some pc \<Rightarrow> pc)"
  have "pc_Partition pc = m_PartitionID m \<and> distinct (map mc_Size (pc_Sizes pc))"
    using assms(1) assms(2) [OF e(2)] unfolding pc_def
    by (auto simp: well_formed_caps_def split: option.split dest!: map_of_SomeD)
  moreover have "capacity_step ecs parts sizes iss m pcs = AList.update (m_PartitionID m)
      (pc\<lparr>pc_Sizes := update_cap (count_machine iss ec m) (size_of_machine sizes m) (pc_Sizes pc)\<rparr>) pcs"
    using e by (simp add: capacity_step_def pc_def Let_def)
  ultimately show ?thesis
    by (simp only:) (rule well_formed_update [OF assms(1)], simp_all add: sizes_update_cap)
qed

lemma well_formed_fold:
  "well_formed_caps pcs \<Longrightarrow> (\<And>i p. map_of parts i = Some p \<Longrightarrow> b_ID p = i) \<Longrightarrow>
   well_formed_caps (fold (capacity_step ecs parts sizes iss) ms pcs)"
  by (induction ms arbitrary: pcs) (simp_all add: well_formed_step)

lemma find_unique: "distinct (map f xs) \<Longrightarrow> x \<in> set xs \<Longrightarrow> find (\<lambda>y. f y = f x) xs = Some x"
  by (induction xs) (auto simp: rev_image_eqI)

lemma cap_at_member:
  assumes "well_formed_caps pcs" and "(p, pc) \<in> set pcs" and "cap \<in> set (pc_Sizes pc)"
  shows "cap_at pcs p (mc_Size cap) = Some cap"
proof -
  have "map_of pcs p = Some pc" using assms by (simp add: well_formed_caps_def)
  moreover have "distinct (map mc_Size (pc_Sizes pc))" using assms by (auto simp: well_formed_caps_def)
  then have "find (\<lambda>c. mc_Size c = mc_Size cap) (pc_Sizes pc) = Some cap"
    using assms(3) by (simp add: find_unique)
  ultimately show ?thesis by (simp add: cap_at_def)
qed

section \<open>Counts in closed form\<close>

definition first_event :: "ProvisioningEventContainer \<Rightarrow> ProvisioningEventType option" where
  "first_event ec = (case ec_Events ec of [] \<Rightarrow> None | e # _ \<Rightarrow> Some (ev_Event e))"

lemma count_machine_fields:
  "mc_Total (count_machine iss ec m cap) = mc_Total cap + 1"
  "mc_Allocated (count_machine iss ec m cap) = mc_Allocated cap + (if m_Allocation m \<noteq> None then 1 else 0)"
  "mc_Allocatable (count_machine iss ec m cap) =
     mc_Allocatable cap + (if m_Allocation m = None \<and> electable m ec then 1 else 0)"
  "mc_Free (count_machine iss ec m cap) = mc_Free cap + (if m_Allocation m = None \<and> electable m ec then 1 else 0)"
  "mc_Unavailable (count_machine iss ec m cap) =
     mc_Unavailable cap + (if m_Allocation m = None \<and> \<not> electable m ec then 1 else 0)"
  "mc_PhonedHome (count_machine iss ec m cap) = mc_PhonedHome cap + (if first_event ec = Some EvPhonedHome then 1 else 0)"
  "mc_Waiting (count_machine iss ec m cap) = mc_Waiting cap + (if first_event ec = Some EvWaiting then 1 else 0)"
  "mc_Other (count_machine iss ec m cap) =
     mc_Other cap + (if first_event ec \<in> {Some EvPhonedHome, Some EvWaiting} then 0 else 1)"
  "mc_FaultyMachines (count_machine iss ec m cap) =
     mc_FaultyMachines cap @ (if has_key iss (b_ID m) then [b_ID m] else [])"
  "mc_Reservations (count_machine iss ec m cap) = mc_Reservations cap"
  "mc_UsedReservations (count_machine iss ec m cap) = mc_UsedReservations cap"
  by (auto simp: count_machine_def Let_def first_event_def split: list.split ProvisioningEventType.split)

definition number :: "('a \<Rightarrow> bool) \<Rightarrow> 'a list \<Rightarrow> int" where
  "number P xs = int (length (filter P xs))"

lemma number_simps [simp]: "number P [] = 0" "number P (x # xs) = (if P x then 1 else 0) + number P xs"
  by (simp_all add: number_def)

lemma fold_count:
  fixes iss f
  defines "cap' cap M \<equiv> fold (\<lambda>m. count_machine iss (f m) m) M cap"
  shows "mc_Size (cap' cap M) = mc_Size cap"
    "mc_Total (cap' cap M) = mc_Total cap + int (length M)"
    "mc_Allocated (cap' cap M) = mc_Allocated cap + number (\<lambda>m. m_Allocation m \<noteq> None) M"
    "mc_Allocatable (cap' cap M) = mc_Allocatable cap + number (\<lambda>m. m_Allocation m = None \<and> electable m (f m)) M"
    "mc_Free (cap' cap M) = mc_Free cap + number (\<lambda>m. m_Allocation m = None \<and> electable m (f m)) M"
    "mc_Unavailable (cap' cap M) = mc_Unavailable cap + number (\<lambda>m. m_Allocation m = None \<and> \<not> electable m (f m)) M"
    "mc_PhonedHome (cap' cap M) = mc_PhonedHome cap + number (\<lambda>m. first_event (f m) = Some EvPhonedHome) M"
    "mc_Waiting (cap' cap M) = mc_Waiting cap + number (\<lambda>m. first_event (f m) = Some EvWaiting) M"
    "mc_FaultyMachines (cap' cap M) = mc_FaultyMachines cap @ map b_ID (filter (\<lambda>m. has_key iss (b_ID m)) M)"
    "mc_Reservations (cap' cap M) = mc_Reservations cap"
    "mc_UsedReservations (cap' cap M) = mc_UsedReservations cap"
  unfolding cap'_def
  by (induction M arbitrary: cap) (simp_all add: count_machine_fields algebra_simps)

section \<open>Reservations in closed form\<close>

lemma reserve_step_fields:
  "mc_Size (reserve_step project mbp s part r cap) = mc_Size cap"
  "mc_Total (reserve_step project mbp s part r cap) = mc_Total cap"
  "mc_Allocated (reserve_step project mbp s part r cap) = mc_Allocated cap"
  "mc_Allocatable (reserve_step project mbp s part r cap) = mc_Allocatable cap"
  "mc_Unavailable (reserve_step project mbp s part r cap) = mc_Unavailable cap"
  "mc_PhonedHome (reserve_step project mbp s part r cap) = mc_PhonedHome cap"
  "mc_Waiting (reserve_step project mbp s part r cap) = mc_Waiting cap"
  "mc_FaultyMachines (reserve_step project mbp s part r cap) = mc_FaultyMachines cap"
  "mc_Reservations (reserve_step project mbp s part r cap) = mc_Reservations cap + sr_Amount r"
  by (simp_all add: reserve_step_def Let_def)

definition of_size :: "string \<Rightarrow> string \<Rightarrow> Machine list \<Rightarrow> Machine list" where
  "of_size s part ms = filter (\<lambda>m. m_SizeID m = s \<and> m_PartitionID m = part) ms"

lemma used_in_partition:
  "int (length (filter (\<lambda>m. m_SizeID m = s \<and> m_PartitionID m = part) (map_get [] (machinesByProject ms) p))) =
     held (of_size s part ms) p"
  by (simp add: map_get_machinesByProject held_def of_size_def conj_ac)

lemma reserve_step_Free:
  "mc_Free (reserve_step project (machinesByProject ms) s part r cap) =
     (if project = Some (sr_ProjectID r) then mc_Free cap
      else max (mc_Free cap - open_amount (of_size s part ms) r) 0)"
proof -
  have "sr_Amount r - min (held M p) (sr_Amount r) = max 0 (sr_Amount r - held M p)" for M p
    by linarith
  then show ?thesis by (simp add: reserve_step_def Let_def used_in_partition open_amount_def)
qed

lemma open_amount_nonneg [simp]: "0 \<le> open_amount ms r"
  by (simp add: open_amount_def)

lemma open_total_nonneg [simp]: "0 \<le> open_total ms rs"
  by (induction rs) (simp_all add: open_total_def)

lemma open_total_Cons: "open_total ms (r # rs) = open_amount ms r + open_total ms rs"
  by (simp add: open_total_def)

lemma fold_reserve:
  fixes project ms s part
  defines "cap' cap R \<equiv> fold (reserve_step project (machinesByProject ms) s part) R cap"
  shows "mc_Size (cap' cap R) = mc_Size cap" "mc_Total (cap' cap R) = mc_Total cap"
    "mc_Allocated (cap' cap R) = mc_Allocated cap" "mc_Allocatable (cap' cap R) = mc_Allocatable cap"
    "mc_Unavailable (cap' cap R) = mc_Unavailable cap" "mc_PhonedHome (cap' cap R) = mc_PhonedHome cap"
    "mc_Waiting (cap' cap R) = mc_Waiting cap" "mc_FaultyMachines (cap' cap R) = mc_FaultyMachines cap"
    "mc_Reservations (cap' cap R) = mc_Reservations cap + sum_list (map sr_Amount R)"
  unfolding cap'_def by (induction R arbitrary: cap) (simp_all add: reserve_step_fields)

lemma fold_reserve_Free:
  "0 \<le> mc_Free cap \<Longrightarrow>
   mc_Free (fold (reserve_step project (machinesByProject ms) s part) R cap) =
     max (mc_Free cap - open_total (of_size s part ms) (filter (\<lambda>r. project \<noteq> Some (sr_ProjectID r)) R)) 0"
proof (induction R arbitrary: cap)
  case (Cons r R)
  let ?cap = "reserve_step project (machinesByProject ms) s part r cap"
  have "0 \<le> mc_Free ?cap" using Cons.prems by (simp add: reserve_step_Free)
  from Cons.IH [OF this] show ?case
    by (simp add: reserve_step_Free open_total_Cons max_def)
      (use open_total_nonneg [of "of_size s part ms" "filter (\<lambda>r. project \<noteq> Some (sr_ProjectID r)) R"] in \<open>linarith\<close>)
qed (simp add: open_total_def)

section \<open>The report\<close>

text \<open>The reservations of a size in a partition.\<close>

definition reserved_for :: "Size list \<Rightarrow> SizeReservation list \<Rightarrow> string \<Rightarrow> string \<Rightarrow> SizeReservation list" where
  "reserved_for szs rvs s part =
     (if s \<in> b_ID ` set szs then filter (\<lambda>r. sr_SizeID r = s \<and> part \<in> set (sr_PartitionIDs r)) rvs else [])"

lemma map_of_SizeReservationsBySize:
  "(case map_of (SizeReservationsBySize rvs) s of None \<Rightarrow> [] | Some rs \<Rightarrow> rs) = filter (\<lambda>r. sr_SizeID r = s) rvs"
  using map_get_fold_append [of sr_SizeID "\<lambda>r. r" rvs "[]" s]
  by (simp add: SizeReservationsBySize_def map_get_def)

lemma reservations_for_eq:
  "reservations_for (sizesById szs) (SizeReservationsBySize rvs) s part = reserved_for szs rvs s part"
proof (cases "map_of (sizesById szs) s")
  case None
  then have "s \<notin> b_ID ` set szs" by (simp add: sizesById_None)
  with None show ?thesis by (simp add: reservations_for_def reserved_for_def)
next
  case (Some sz)
  then have "b_ID sz = s" "s \<in> b_ID ` set szs" using map_of_sizesById by blast+
  have "reservations_for (sizesById szs) (SizeReservationsBySize rvs) s part =
      SizeReservationsForPartition (filter (\<lambda>r. sr_SizeID r = s) rvs) part"
    using Some \<open>b_ID sz = s\<close> unfolding reservations_for_def map_of_SizeReservationsBySize [symmetric]
    by (simp add: SizeReservationsForPartition_def split: option.split)
  with \<open>s \<in> b_ID ` set szs\<close> show ?thesis
    by (simp add: reserved_for_def SizeReservationsForPartition_def conj_ac)
qed

text \<open>The machines that count for a capacity, and the event container of a machine.\<close>

definition machines_of ::
  "Partition list \<Rightarrow> ProvisioningEventContainer list \<Rightarrow> Size list \<Rightarrow> Machine list \<Rightarrow> string \<Rightarrow> string \<Rightarrow> Machine list" where
  "machines_of ps ecs szs ms part s =
     filter (counted (ProvisioningEventsByID ecs) (PartitionsByID ps) (sizesById szs) part s) ms"

definition container_of :: "ProvisioningEventContainer list \<Rightarrow> Machine \<Rightarrow> ProvisioningEventContainer" where
  "container_of ecs m = the (map_of (ProvisioningEventsByID ecs) (b_ID m))"

lemma capacity_is_fold:
  assumes "partition_capacities rq ps ms ecs szs rvs iss = Inr res"
    and "pc \<in> set res" and "cap \<in> set (pc_Sizes pc)"
  shows "cap = reserve_cap (case rq of None \<Rightarrow> None | Some rq \<Rightarrow> cq_Project rq) (machinesByProject ms) (sizesById szs)
      (SizeReservationsBySize rvs) (pc_Partition pc)
      (fold (\<lambda>m. count_machine iss (container_of ecs m) m)
        (machines_of ps ecs szs ms (pc_Partition pc) (mc_Size cap)) (empty_capacity (mc_Size cap)))"
proof -
  let ?pcs = "fold (capacity_step (ProvisioningEventsByID ecs) (PartitionsByID ps) (sizesById szs) iss) ms []"
  let ?rc = "reserve_cap (case rq of None \<Rightarrow> None | Some rq \<Rightarrow> cq_Project rq) (machinesByProject ms) (sizesById szs)
    (SizeReservationsBySize rvs)"
  have wf: "well_formed_caps ?pcs"
    using map_of_PartitionsByID by (intro well_formed_fold) (auto simp: well_formed_caps_def)
  from assms(1,2) obtain p pc0 where pc: "(p, pc0) \<in> set ?pcs"
    "pc = pc0\<lparr>pc_Sizes := map (?rc (pc_Partition pc0)) (pc_Sizes pc0)\<rparr>"
    by (auto simp: partition_capacities_def Let_def split: if_splits)
  from wf pc(1) have p: "pc_Partition pc0 = p" by (auto simp: well_formed_caps_def)
  from assms(3) pc(2) obtain cap0 where cap: "cap0 \<in> set (pc_Sizes pc0)" "cap = ?rc (pc_Partition pc0) cap0" by auto
  then have s: "mc_Size cap = mc_Size cap0" by (simp add: reserve_cap_def Let_def fold_reserve)
  from cap_at_member [OF wf pc(1) cap(1)] have "cap_at ?pcs p (mc_Size cap0) = Some cap0" .
  then have "cap0 = fold (\<lambda>m. count_machine iss (container_of ecs m) m)
      (machines_of ps ecs szs ms p (mc_Size cap0)) (empty_capacity (mc_Size cap0))"
    unfolding cap_at_fold Let_def machines_of_def container_of_def by (simp add: cap_at_Nil split: if_splits)
  moreover have "pc_Partition pc = p" using p pc(2) by simp
  ultimately show ?thesis using cap(2) s p by metis
qed

text \<open>
  C34: Every capacity that is reported counts the machines of its size in its partition that have an
  event container: each is allocated, allocatable or unavailable, and the free machines are the
  allocatable ones less the machines that projects other than the requested one have reserved and
  do not use, but never less than none.
\<close>

theorem capacity_counts:
  assumes "partition_capacities (Some rq) ps ms ecs szs rvs iss = Inr res"
    and "pc \<in> set res" and "cap \<in> set (pc_Sizes pc)"
  defines "M \<equiv> machines_of ps ecs szs ms (pc_Partition pc) (mc_Size cap)"
    and "R \<equiv> reserved_for szs rvs (mc_Size cap) (pc_Partition pc)"
  shows "mc_Total cap = int (length M) \<and>
    mc_Total cap = mc_Allocated cap + mc_Allocatable cap + mc_Unavailable cap \<and>
    mc_Allocatable cap = number (\<lambda>m. m_Allocation m = None \<and> electable m (container_of ecs m)) M \<and>
    mc_FaultyMachines cap = map b_ID (filter (\<lambda>m. has_key iss (b_ID m)) M) \<and>
    mc_Free cap = max 0 (mc_Allocatable cap -
      open_total (of_size (mc_Size cap) (pc_Partition pc) ms) (filter (\<lambda>r. cq_Project rq \<noteq> Some (sr_ProjectID r)) R)) \<and>
    mc_Reservations cap = sum_list (map sr_Amount R)"
proof -
  define cap0 where cap0: "cap0 = fold (\<lambda>m. count_machine iss (container_of ecs m) m) M (empty_capacity (mc_Size cap))"
  have cap: "cap = reserve_cap (cq_Project rq) (machinesByProject ms) (sizesById szs) (SizeReservationsBySize rvs)
      (pc_Partition pc) cap0"
    unfolding cap0 M_def using capacity_is_fold [OF assms(1-3)] by simp
  have counts: "mc_Total cap0 = int (length M)"
    "mc_Allocated cap0 = number (\<lambda>m. m_Allocation m \<noteq> None) M"
    "mc_Allocatable cap0 = number (\<lambda>m. m_Allocation m = None \<and> electable m (container_of ecs m)) M"
    "mc_Free cap0 = mc_Allocatable cap0"
    "mc_Unavailable cap0 = number (\<lambda>m. m_Allocation m = None \<and> \<not> electable m (container_of ecs m)) M"
    "mc_FaultyMachines cap0 = map b_ID (filter (\<lambda>m. has_key iss (b_ID m)) M)" "mc_Reservations cap0 = 0"
    "mc_Size cap0 = mc_Size cap"
    unfolding cap0 by (simp_all add: fold_count) (simp_all add: empty_capacity_def)
  have total: "int (length M) = number (\<lambda>m. m_Allocation m \<noteq> None) M +
      number (\<lambda>m. m_Allocation m = None \<and> electable m (container_of ecs m)) M +
      number (\<lambda>m. m_Allocation m = None \<and> \<not> electable m (container_of ecs m)) M"
    by (induction M) auto
  have free: "0 \<le> mc_Free cap0" unfolding counts(3,4) by (simp add: number_def)
  have s: "b_ID (case map_of (sizesById szs) (mc_Size cap) of None \<Rightarrow> UnknownSize | Some s \<Rightarrow> s) = mc_Size cap \<or> R = []"
  proof (cases "map_of (sizesById szs) (mc_Size cap)")
    case None
    then have "mc_Size cap \<notin> b_ID ` set szs" by (simp add: sizesById_None)
    then show ?thesis by (simp add: R_def reserved_for_def)
  next
    case (Some sz)
    with map_of_sizesById show ?thesis by auto
  qed
  have fields: "mc_Total cap = mc_Total cap0" "mc_Allocated cap = mc_Allocated cap0"
    "mc_Allocatable cap = mc_Allocatable cap0" "mc_Unavailable cap = mc_Unavailable cap0"
    "mc_FaultyMachines cap = mc_FaultyMachines cap0" "mc_Reservations cap = sum_list (map sr_Amount R)"
    unfolding cap by (simp_all add: reserve_cap_def Let_def fold_reserve counts reservations_for_eq R_def)
  have "mc_Free cap = max (mc_Free cap0 -
      open_total (of_size (mc_Size cap) (pc_Partition pc) ms) (filter (\<lambda>r. cq_Project rq \<noteq> Some (sr_ProjectID r)) R)) 0"
    using s fold_reserve_Free [OF free, of "cq_Project rq" ms "mc_Size cap" "pc_Partition pc" R] free
    by (subst cap) (auto simp: reserve_cap_def Let_def counts(8) reservations_for_eq R_def [symmetric] open_total_def)
  with counts fields total show ?thesis by (simp add: max.commute)
qed

text \<open>
  The report agrees with the check that an allocation goes through. When no project holds more
  machines of a size in a partition than it reserved there, and the project that asks has no open
  reservation, the report shows free machines exactly when an allocation for that project passes
  the check of reservations with the allocatable machines as candidates.
\<close>

theorem capacity_agrees_with_check:
  assumes "partition_capacities (Some rq) ps ms ecs szs rvs iss = Inr res"
    and "pc \<in> set res" and "cap \<in> set (pc_Sizes pc)"
    and "cq_Project rq = Some p"
    and "ms' = of_size (mc_Size cap) (pc_Partition pc) ms"
    and "R = reserved_for szs rvs (mc_Size cap) (pc_Partition pc)"
    and "not_overused ms' R" and "\<not> has_open ms' p R"
    and "int (length candidates) = mc_Allocatable cap"
  shows "mc_Free cap > 0 \<longleftrightarrow> checkSizeReservations candidates p (machinesByProject ms') R"
proof -
  have own: "open_total ms' (filter (\<lambda>r. Some p \<noteq> Some (sr_ProjectID r)) R) = open_total ms' R"
    using assms(7,8)
    by (induction R) (auto simp: open_total_def open_amount_def not_overused_def has_open_def)
  have "mc_Free cap = max 0 (mc_Allocatable cap - open_total ms' R)"
    using capacity_counts [OF assms(1-3)] own by (simp add: assms(4-6))
  then show ?thesis
    using reservation_check_iff [OF assms(7), of candidates p] assms(8,9) by auto
qed

section \<open>Example\<close>

definition waiting_machine :: "string \<Rightarrow> Machine" where
  "waiting_machine i = (free_machine i)\<lparr>m_Waiting := True\<rparr>"

definition alive_container :: "string \<Rightarrow> ProvisioningEventContainer" where
  "alive_container i = \<lparr>b_ID = i, b_Name = '''', b_Description = '''', b_Created = 0, b_Changed = 0, b_Generation = 0,
     ec_Liveliness = LivelinessAlive, ec_Events = [], ec_LastEventTime = None, ec_LastErrorEvent = None,
     ec_CrashLoop = False, ec_FailedMachineReclaim = False\<rparr>"

definition example_partition :: Partition where
  "example_partition = \<lparr>b_ID = ''part'', b_Name = '''', b_Description = '''', b_Created = 0, b_Changed = 0,
     b_Generation = 0, pt_BootConfiguration = empty_boot, pt_MgmtServiceAddress = '''', pt_Labels = [],
     pt_DNSServers = [], pt_NTPServers = []\<rparr>"

definition example_size :: Size where
  "example_size = \<lparr>b_ID = ''s1'', b_Name = '''', b_Description = '''', b_Created = 0, b_Changed = 0,
     b_Generation = 0, sz_Constraints = [], sz_Labels = []\<rparr>"

definition capacity_request :: CapacityRequest where
  "capacity_request = \<lparr>cq_Id = None, cq_Size = None, cq_Project = Some ''p1''\<rparr>"

definition example_cap :: MachineSizeCapacity where
  "example_cap = \<lparr>mc_Size = ''s1'', mc_Total = 2, mc_PhonedHome = 0, mc_Waiting = 0, mc_Other = 2,
     mc_OtherMachines = [''a'', ''b''], mc_Allocated = 0, mc_Allocatable = 2, mc_Free = 1, mc_Unavailable = 0,
     mc_Faulty = 0, mc_FaultyMachines = [], mc_Reservations = 1, mc_UsedReservations = 0,
     mc_RemainingReservations = 1\<rparr>"

lemma waiting_machine_simps [simp]:
  "b_ID (waiting_machine i) = i" "m_PartitionID (waiting_machine i) = ''part''" "m_SizeID (waiting_machine i) = ''s1''"
  "m_Allocation (waiting_machine i) = None" "electable (waiting_machine i) (alive_container j)"
  "ec_Events (alive_container i) = []" "b_ID (alive_container i) = i" "b_ID example_partition = ''part''"
  "b_ID example_size = ''s1''"
  by (simp_all add: waiting_machine_def alive_container_def example_partition_def example_size_def electable_def
      free_machine_def machine_with_id_def)

lemma example_capacities:
  "partition_capacities (Some capacity_request) [example_partition] [waiting_machine ''a'', waiting_machine ''b'']
     [alive_container ''a'', alive_container ''b''] [example_size] [reservation_of ''p2'' 1] [] =
   Inr [\<lparr>pc_Partition = ''part'', pc_Sizes = [example_cap]\<rparr>]"
  by (simp add: partition_capacities_def sizesById_def SizeReservationsBySize_def map_append_def machinesByProject_def
      capacity_step_def ProvisioningEventsByID_def PartitionsByID_def size_of_machine_def count_machine_def
      capacity_request_def reservations_for_def SizeReservationsForPartition_def reserve_cap_def reserve_step_def
      Let_def SliceStable_def empty_capacity_def example_cap_def)

theorem capacity_counts_witness: "mc_Free example_cap = max 0 (mc_Allocatable example_cap - 1)"
proof -
  have "of_size (mc_Size example_cap) ''part'' [waiting_machine ''a'', waiting_machine ''b''] =
      [waiting_machine ''a'', waiting_machine ''b'']"
    by (simp add: of_size_def example_cap_def)
  with capacity_counts [OF example_capacities, of "\<lparr>pc_Partition = ''part'', pc_Sizes = [example_cap]\<rparr>" example_cap]
  show ?thesis
    by (simp add: reserved_for_def open_total_def open_amount_def held_def capacity_request_def)
      (simp add: example_cap_def)
qed

theorem capacity_agrees_with_check_witness:
  "checkSizeReservations [waiting_machine ''a'', waiting_machine ''b''] ''p1''
     (machinesByProject [waiting_machine ''a'', waiting_machine ''b'']) [reservation_of ''p2'' 1]"
proof -
  let ?ms = "[waiting_machine ''a'', waiting_machine ''b'']"
  have ms: "?ms = of_size (mc_Size example_cap) ''part'' ?ms"
    by (simp add: of_size_def example_cap_def)
  have rs: "[reservation_of ''p2'' 1] = reserved_for [example_size] [reservation_of ''p2'' 1] (mc_Size example_cap) ''part''"
    by (simp add: reserved_for_def example_cap_def)
  show ?thesis
    using capacity_agrees_with_check [OF example_capacities,
        of "\<lparr>pc_Partition = ''part'', pc_Sizes = [example_cap]\<rparr>" example_cap "''p1''" ?ms "[reservation_of ''p2'' 1]" ?ms]
      ms rs
    by (simp add: capacity_request_def not_overused_def has_open_def held_def) (simp add: example_cap_def)
qed

end
