(* ===== verification/Switches.thy ===== *)
theory Switches
  imports Netip MachineData TableActions "HOL-Library.Signed_Division"
begin

text \<open>
  Switches, \<^verbatim>\<open>pkg/db/metal/switch.go\<close>, and the network interfaces of \<^verbatim>\<open>nic.go\<close>: the names of ports
  under the conventions of two operating systems and their translation, the connections of machines
  to ports, and the VRF of a machine's ports. A map of connections that is nil is None; writing to
  it panics. An int has 64 bits.
\<close>

section \<open>Data\<close>

type_synonym SwitchOSVendor = string
type_synonym SwitchReplaceMode = string

definition SwitchReplaceModeReplace :: SwitchReplaceMode where "SwitchReplaceModeReplace = ''replace''"
definition SwitchReplaceModeOperational :: SwitchReplaceMode where "SwitchReplaceModeOperational = ''operational''"
definition SwitchOSVendorCumulus :: SwitchOSVendor where "SwitchOSVendorCumulus = ''Cumulus''"
definition SwitchOSVendorSonic :: SwitchOSVendor where "SwitchOSVendorSonic = ''SONiC''"
definition SwitchPortStatusUnknown :: SwitchPortStatus where "SwitchPortStatusUnknown = ''UNKNOWN''"
definition SwitchPortStatusUp :: SwitchPortStatus where "SwitchPortStatusUp = ''UP''"
definition SwitchPortStatusDown :: SwitchPortStatus where "SwitchPortStatusDown = ''DOWN''"

lemmas os_vendors = SwitchOSVendorCumulus_def SwitchOSVendorSonic_def

record SwitchOS =
  os_Vendor :: SwitchOSVendor
  os_Version :: string
  os_MetalCoreVersion :: string

record Connection =
  con_Nic :: Nic
  con_MachineID :: string

type_synonym ConnectionMap = "(string, Connection list) gomap"

record Switch = Base +
  sw_Rack :: string
  sw_Room :: string
  sw_Partition :: string
  sw_ReplaceMode :: SwitchReplaceMode
  sw_ManagementIP :: string
  sw_ManagementUser :: string
  sw_ConsoleCommand :: string
  sw_OS :: "SwitchOS option"
  sw_Nics :: "Nic list"
  sw_MachineConnections :: "ConnectionMap option"

record SwitchSync =
  ss_Time :: time
  ss_Duration :: duration
  ss_Error :: "string option"

record SwitchStatus = Base +
  st_LastSync :: "SwitchSync option"
  st_LastSyncError :: "SwitchSync option"

text \<open>The entries of a map, which a nil map has none of.\<close>

definition connections_of :: "Switch \<Rightarrow> ConnectionMap" where
  "connections_of s = (case sw_MachineConnections s of None \<Rightarrow> [] | Some m \<Rightarrow> m)"

section \<open>Interfaces\<close>

type_synonym NicMap = "(string, Nic) gomap"

definition MapByIdentifier :: "'z BareNic_scheme list \<Rightarrow> (string, 'z BareNic_scheme) gomap" where
  "MapByIdentifier nics =
     fold (\<lambda>nic m. if nic_Identifier nic = '''' then m else AList.update (nic_Identifier nic) nic m) nics []"

definition MapByName :: "'z BareNic_scheme list \<Rightarrow> (string, 'z BareNic_scheme) gomap" where
  "MapByName nics =
     fold (\<lambda>nic m. if nic_Name nic = '''' then m else AList.update (nic_Name nic) nic m) nics []"

definition FilterByHostname :: "string \<Rightarrow> 'z BareNic_scheme list \<Rightarrow> 'z BareNic_scheme list" where
  "FilterByHostname hostname nics =
     (if hostname = '''' then nics else filter (\<lambda>nic. nic_Hostname nic = hostname) nics)"

section \<open>Conversion of enumerations\<close>

text \<open>The enum package of the API is an argument: the string of a value, and the value of a string.\<close>

definition ToReplaceMode :: "('a \<Rightarrow> string result) \<Rightarrow> 'a \<Rightarrow> SwitchReplaceMode result" where
  "ToReplaceMode GetStringValue mode = GetStringValue mode"

definition FromReplaceMode :: "(string \<Rightarrow> 'a result) \<Rightarrow> SwitchReplaceMode \<Rightarrow> 'a result" where
  "FromReplaceMode GetEnum mode = map_error (\<lambda>_. Plain ''switch replace mode %q is invalid'') (GetEnum mode)"

definition ToSwitchOSVendor :: "('a \<Rightarrow> string result) \<Rightarrow> 'a \<Rightarrow> SwitchOSVendor result" where
  "ToSwitchOSVendor GetStringValue vendor = GetStringValue vendor"

definition FromSwitchOSVendor :: "(string \<Rightarrow> 'a result) \<Rightarrow> SwitchOSVendor \<Rightarrow> 'a result" where
  "FromSwitchOSVendor GetEnum vendor = map_error (\<lambda>_. Plain ''switch os vendor %q is invalid'') (GetEnum vendor)"

definition ToSwitchPortStatus :: "('a \<Rightarrow> string result) \<Rightarrow> 'a \<Rightarrow> SwitchPortStatus result" where
  "ToSwitchPortStatus GetStringValue status = bind_result (GetStringValue status) (\<lambda>s. Inr (ToUpper s))"

definition FromSwitchPortStatus :: "(string \<Rightarrow> 'a result) \<Rightarrow> 'a \<Rightarrow> SwitchPortStatus option \<Rightarrow> 'a result" where
  "FromSwitchPortStatus GetEnum unspecified status =
     (case status of
        None \<Rightarrow> Inr unspecified
      | Some s \<Rightarrow> map_error (\<lambda>_. Plain ''switch port status %q is invalid'') (GetEnum (ToLower s)))"

definition ToBGPState :: "('a \<Rightarrow> string result) \<Rightarrow> 'a \<Rightarrow> BGPState result" where
  "ToBGPState GetStringValue state = GetStringValue state"

definition FromBGPState :: "(string \<Rightarrow> 'a result) \<Rightarrow> BGPState \<Rightarrow> 'a result" where
  "FromBGPState GetEnum state = map_error (\<lambda>_. Plain ''bgp state %q is invalid'') (GetEnum state)"

section \<open>Names of ports\<close>

text \<open>\<open>strings.Cut\<close> at the first separator, \<open>strconv.Atoi\<close>, the verb \<open>%d\<close>, and the wrap of an int.\<close>

fun strings_Cut :: "string \<Rightarrow> string \<Rightarrow> (string \<times> string) option" where
  "strings_Cut [] sep = (if sep = [] then Some ([], []) else None)"
| "strings_Cut (c # cs) sep =
     (if take (length sep) (c # cs) = sep then Some ([], drop (length sep) (c # cs))
      else map_option (\<lambda>(a, b). (c # a, b)) (strings_Cut cs sep))"

definition Atoi_error :: go_error where
  "Atoi_error = Plain ''strconv.Atoi''"

definition Atoi :: "string \<Rightarrow> int result" where
  "Atoi s =
     (let (negative, ds) = (case s of [] \<Rightarrow> (False, [])
        | c # cs \<Rightarrow> if c = CHR ''-'' then (True, cs) else if c = CHR ''+'' then (False, cs) else (False, s))
      in if ds = [] then Inl Atoi_error
         else (case read_digits ds 0 of
            None \<Rightarrow> Inl Atoi_error
          | Some n \<Rightarrow>
              let v = (if negative then - int n else int n)
              in if v < - (2 ^ 63) \<or> 2 ^ 63 \<le> v then Inl Atoi_error else Inr v))"

definition format_int :: "int \<Rightarrow> string" where
  "format_int i = (if i < 0 then CHR ''-'' # itoa (nat (- i)) else itoa (nat i))"

definition go_int :: "int \<Rightarrow> int" where
  "go_int i = signed_take_bit 63 i"

definition sonicPortNameToLine :: "string \<Rightarrow> int result" where
  "sonicPortNameToLine port =
     (if CHR ''-'' \<in> set port then Inl (Plain ''invalid token '-' in port name %s'')
      else
        (case strings_Cut port ''Ethernet'' of
           None \<Rightarrow> Inl (Plain ''invalid port name %s, expected to find prefix Ethernet'')
         | Some (prefix, lineString) \<Rightarrow>
             if prefix \<noteq> '''' then Inl (Plain ''invalid port name %s, port name is expected to start with Ethernet'')
             else map_error (Wrapped ''unable to convert port name to line number: %w'') (Atoi lineString)))"

definition cumulusPortNameToLine :: "string \<Rightarrow> int result" where
  "cumulusPortNameToLine port =
     (if CHR ''-'' \<in> set port then Inl (Plain ''invalid token '-' in port name %s'')
      else
        (case strings_Cut port ''swp'' of
           None \<Rightarrow> Inl (Plain ''invalid port name %s, expected to find prefix swp'')
         | Some (prefix, suffix) \<Rightarrow>
             if prefix \<noteq> '''' then Inl (Plain ''invalid port name %s, port name is expected to start with swp'')
             else
               (case strings_Cut suffix ''s'' of
                  None \<Rightarrow>
                    bind_result (map_error (Wrapped ''unable to convert port name to line number: %w'') (Atoi suffix)) (\<lambda>c.
                    bind_result (check_that (\<not> c \<le> 0) (Plain ''invalid port name %s would map to negative number'')) (\<lambda>_.
                    Inr (go_int ((c - 1) * 4))))
                | Some (countString, indexString) \<Rightarrow>
                    bind_result (map_error (Wrapped ''unable to convert port name to line number: %w'') (Atoi countString)) (\<lambda>c.
                    bind_result (check_that (\<not> c \<le> 0) (Plain ''invalid port name %s would map to negative number'')) (\<lambda>_.
                    bind_result (map_error (Wrapped ''unable to convert port name to line number: %w'') (Atoi indexString)) (\<lambda>i.
                    Inr (go_int (go_int ((c - 1) * 4) + i))))))))"

definition sonicPortByLineNumber :: "int \<Rightarrow> string" where
  "sonicPortByLineNumber line = ''Ethernet'' @ format_int line"

text \<open>\<open>/\<close> and \<open>%\<close> truncate towards zero.\<close>

definition cumulus_name :: "int \<Rightarrow> string" where
  "cumulus_name line = ''swp'' @ format_int (go_int (line sdiv 4 + 1)) @ ''s'' @ format_int (line smod 4)"

definition cumulusPortByLineNumber :: "int \<Rightarrow> int list \<Rightarrow> string" where
  "cumulusPortByLineNumber line allLines =
     (if line smod 4 > 0 then cumulus_name line
      else if list_ex (\<lambda>l. l \<noteq> line \<and> l sdiv 4 = line sdiv 4) allLines then cumulus_name line
      else ''swp'' @ format_int (go_int (line sdiv 4 + 1)))"

definition portNameToLine :: "string \<Rightarrow> SwitchOSVendor \<Rightarrow> int result" where
  "portNameToLine port os =
     (if os = SwitchOSVendorSonic then sonicPortNameToLine port
      else if os = SwitchOSVendorCumulus then cumulusPortNameToLine port
      else Inl (Plain ''unknown switch os %s''))"

fun getLinesFromPortNames :: "string list \<Rightarrow> SwitchOSVendor \<Rightarrow> int list result" where
  "getLinesFromPortNames [] os = Inr []"
| "getLinesFromPortNames (p # ps) os =
     bind_result (map_error (Wrapped ''unable to get line number from port name, %w'') (portNameToLine p os)) (\<lambda>l.
     bind_result (getLinesFromPortNames ps os) (\<lambda>ls. Inr (l # ls)))"

definition mapPortName :: "string \<Rightarrow> SwitchOSVendor \<Rightarrow> SwitchOSVendor \<Rightarrow> int list \<Rightarrow> string result" where
  "mapPortName port sourceOS targetOS allLines =
     bind_result (map_error (Wrapped ''unable to get line number from port name, %w'') (portNameToLine port sourceOS)) (\<lambda>line.
     if targetOS = SwitchOSVendorSonic then Inr (sonicPortByLineNumber line)
     else if targetOS = SwitchOSVendorCumulus then Inr (cumulusPortByLineNumber line allLines)
     else Inl (Plain ''unknown target switch os %s''))"

text \<open>The loops over the ports, in the order of the list.\<close>

fun translate_ports ::
  "(string \<Rightarrow> string result) \<Rightarrow> NicMap \<Rightarrow> NicMap \<Rightarrow> NicMap result" where
  "translate_ports tr [] acc = Inr acc"
| "translate_ports tr ((p, nic) # ps) acc =
     bind_result (tr p) (\<lambda>targetPort. translate_ports tr ps (AList.update targetPort nic acc))"

definition TranslateNicMap :: "Switch \<Rightarrow> SwitchOSVendor \<Rightarrow> NicMap result" where
  "TranslateNicMap s targetOS =
     (case sw_OS s of
        None \<Rightarrow> Inl (Panic ''invalid memory address or nil pointer dereference'')
      | Some os \<Rightarrow>
          let nicMap = MapByName (sw_Nics s)
          in if os_Vendor os = targetOS then Inr nicMap
             else bind_result (getLinesFromPortNames (map_keys nicMap) (os_Vendor os)) (\<lambda>lines.
               translate_ports (\<lambda>p. mapPortName p (os_Vendor os) targetOS lines) nicMap []))"

fun map_names :: "(string \<Rightarrow> string result) \<Rightarrow> string list \<Rightarrow> (string, string) gomap \<Rightarrow> (string, string) gomap result" where
  "map_names tr [] acc = Inr acc"
| "map_names tr (p # ps) acc = bind_result (tr p) (\<lambda>targetPort. map_names tr ps (AList.update p targetPort acc))"

definition MapPortNames :: "Switch \<Rightarrow> SwitchOSVendor \<Rightarrow> (string, string) gomap result" where
  "MapPortNames s targetOS =
     (case sw_OS s of
        None \<Rightarrow> Inl (Panic ''invalid memory address or nil pointer dereference'')
      | Some os \<Rightarrow>
          let ports = map_keys (MapByName (sw_Nics s))
          in bind_result (getLinesFromPortNames ports (os_Vendor os)) (\<lambda>lines.
             map_names (\<lambda>p. mapPortName p (os_Vendor os) targetOS lines) ports []))"

section \<open>Connections\<close>

fun by_nic_name :: "Connection list \<Rightarrow> (string, Connection) gomap \<Rightarrow> (string, Connection) gomap result" where
  "by_nic_name [] res = Inr res"
| "by_nic_name (con # cons) res =
     (if has_key res (nic_Name (con_Nic con))
      then Inl (Plain ''switch port %s is connected to more than one machine'')
      else by_nic_name cons (AList.update (nic_Name (con_Nic con)) con res))"

definition ByNicName :: "ConnectionMap \<Rightarrow> (string, Connection) gomap result" where
  "ByNicName c = by_nic_name (concat (map snd c)) []"

text \<open>Every interface of the machine is compared with every port of the switch.\<close>

definition getPhysicalMachineConnections :: "Switch \<Rightarrow> string \<Rightarrow> Nic list \<Rightarrow> Connection list" where
  "getPhysicalMachineConnections s machineID machineNics =
     concat (map (\<lambda>machineNic.
       let neighMap = MapByIdentifier (FilterByHostname (b_ID s) (nic_Neighbors machineNic))
       in map (\<lambda>switchNic. \<lparr>con_Nic = switchNic, con_MachineID = machineID\<rparr>)
            (filter (\<lambda>switchNic. has_key neighMap (nic_Identifier switchNic)) (sw_Nics s))) machineNics)"

definition ConnectMachine :: "string \<Rightarrow> Nic list \<Rightarrow> Switch \<Rightarrow> (Switch \<times> nat) result" where
  "ConnectMachine machineID machineNics s =
     (let physicalConnections = getPhysicalMachineConnections s machineID machineNics
      in if length physicalConnections < 1
         then (if has_key (connections_of s) machineID
               then Inl (Plain ''machine connection between machine %s and switch %s exists in the database but not physically; if you are attempting migrate the machine from one rack to another delete it first'')
               else Inr (s, 0))
         else
           (case sw_MachineConnections s of
              None \<Rightarrow> Inl (Panic ''assignment to entry in nil map'')
            | Some m \<Rightarrow>
                Inr (s\<lparr>sw_MachineConnections := Some (AList.update machineID physicalConnections (AList.delete machineID m))\<rparr>,
                  length physicalConnections)))"

definition SetVrfOfMachine :: "Machine \<Rightarrow> string \<Rightarrow> Switch \<Rightarrow> Switch" where
  "SetVrfOfMachine m vrf s =
     (let affected = map (\<lambda>c. nic_Identifier (con_Nic c)) (map_get [] (connections_of s) (b_ID m))
      in if affected = [] then s
         else s\<lparr>sw_Nics := sort_key nic_Identifier (map (\<lambda>(k, e). if k \<in> set affected then e\<lparr>nic_Vrf := vrf\<rparr> else e)
                (MapByIdentifier (sw_Nics s)))\<rparr>)"

end
