(* ===== verification/SwitchProps.thy ===== *)
theory SwitchProps
  imports Switches
begin

text \<open>
  Translating the name of a port between the two conventions keeps its line number, so a switch's
  ports are translated without loss as long as their line numbers differ; names of ports that share
  a line collide. Setting the VRF of a machine changes the ports the machine is connected to and
  nothing else, for switches whose ports all have an identifier of their own.
\<close>

section \<open>Decimal numbers\<close>

lemma digit_char: "d < 10 \<Longrightarrow> digit (char_of (48 + d :: nat)) = Some d"
  by (simp add: digit_def)

lemma read_digits_append:
  "read_digits (xs @ ys) acc = (case read_digits xs acc of None \<Rightarrow> None | Some a \<Rightarrow> read_digits ys a)"
  by (induction xs arbitrary: acc) (auto split: option.split)

lemma read_digits_itoa: "read_digits (itoa n) 0 = Some n"
proof (induction n rule: itoa.induct)
  case (1 n)
  show ?case
  proof (cases "n < 10")
    case True
    then show ?thesis by (simp add: itoa.simps [of n] digit_char)
  next
    case False
    with 1 have "read_digits (itoa (n div 10)) 0 = Some (n div 10)" by simp
    then show ?thesis
      using False by (subst itoa.simps) (simp add: read_digits_append digit_char [of "n mod 10", simplified])
  qed
qed

lemma itoa_digits: "c \<in> set (itoa n) \<Longrightarrow> digit c \<noteq> None"
proof (induction n rule: itoa.induct)
  case (1 n)
  then show ?case
    by (subst (asm) (2) itoa.simps) (auto simp: digit_char split: if_splits)
qed

lemma itoa_not_Nil [simp]: "itoa n \<noteq> []"
  by (subst itoa.simps) simp

lemma not_digit [simp]: "digit CHR ''-'' = None" "digit CHR ''+'' = None" "digit CHR ''s'' = None"
  by (simp_all add: digit_def)

lemma itoa_no [simp]: "CHR ''-'' \<notin> set (itoa n)" "CHR ''s'' \<notin> set (itoa n)"
  using itoa_digits [of _ n] by fastforce+

lemma Atoi_itoa:
  assumes "n < 2 ^ 63"
  shows "Atoi (itoa n) = Inr (int n)"
proof -
  obtain c cs where c: "itoa n = c # cs" using itoa_not_Nil by (cases "itoa n") blast+
  then have "digit c \<noteq> None" using itoa_digits [of c n] by simp
  then have "c \<noteq> CHR ''-''" "c \<noteq> CHR ''+''" by auto
  with c read_digits_itoa [of n] assms show ?thesis by (simp add: Atoi_def)
qed

lemma format_int_nonneg: "0 \<le> i \<Longrightarrow> format_int i = itoa (nat i)"
  by (simp add: format_int_def)

lemma Atoi_format_int: "0 \<le> i \<Longrightarrow> i < 2 ^ 63 \<Longrightarrow> Atoi (format_int i) = Inr i"
  using Atoi_itoa [of "nat i"] by (simp add: format_int_nonneg nat_less_iff)

lemma Atoi_bounds: "Atoi s = Inr v \<Longrightarrow> - (2 ^ 63) \<le> v \<and> v < 2 ^ 63"
  by (auto simp: Atoi_def Let_def split: list.splits if_splits option.splits prod.splits)

lemma go_int_id: "- (2 ^ 63) \<le> i \<Longrightarrow> i < 2 ^ 63 \<Longrightarrow> go_int i = i"
  unfolding go_int_def by (rule signed_take_bit_int_eq_self) simp_all

section \<open>Names and lines\<close>

lemma strings_Cut_prefix: "strings_Cut (sep @ s) sep = Some ([], s)"
proof (cases "sep @ s")
  case (Cons c cs)
  then have "take (length sep) (c # cs) = sep" "drop (length sep) (c # cs) = s" by (metis append_eq_conv_conj)+
  with Cons show ?thesis by simp
qed simp

lemma strings_Cut_char: "c \<notin> set xs \<Longrightarrow> strings_Cut (xs @ c # ys) [c] = Some (xs, ys)"
  by (induction xs) auto

lemma strings_Cut_none: "c \<notin> set xs \<Longrightarrow> strings_Cut xs [c] = None"
  by (induction xs) auto

lemma sonic_roundtrip:
  assumes "0 \<le> line" and "line < 2 ^ 63"
  shows "sonicPortNameToLine (sonicPortByLineNumber line) = Inr line"
  using assms strings_Cut_prefix [of "''Ethernet''" "format_int line"]
  by (simp add: sonicPortNameToLine_def sonicPortByLineNumber_def Atoi_format_int)
    (simp add: format_int_nonneg)

lemma cumulus_parts:
  assumes "0 \<le> line" and "line < 2 ^ 63"
  shows "go_int (line sdiv 4 + 1) = line div 4 + 1" "go_int ((line div 4 + 1 - 1) * 4) = line div 4 * 4"
    "go_int (line div 4 * 4 + line mod 4) = line" "line sdiv 4 = line div 4" "line smod 4 = line mod 4"
proof -
  show s: "line sdiv 4 = line div 4" "line smod 4 = line mod 4"
    using assms by (cases "line = 0"; simp add: signed_divide_int_def signed_modulo_int_def)+
  have "- (2 ^ 63) \<le> line div 4 + 1" "line div 4 + 1 < 2 ^ 63"
    using assms by (simp_all add: div_int_pos_iff)
  then show "go_int (line sdiv 4 + 1) = line div 4 + 1" unfolding s by (rule go_int_id)
  have "0 \<le> line mod 4" "line div 4 * 4 + line mod 4 = line" "0 \<le> line div 4" using assms by simp_all
  then have b: "- (2 ^ 63) \<le> line div 4 * 4" "line div 4 * 4 < 2 ^ 63" using assms(2) by linarith+
  from go_int_id [OF b] show "go_int ((line div 4 + 1 - 1) * 4) = line div 4 * 4" by simp
  have "- (2 ^ 63) \<le> line" using assms(1) by simp
  from go_int_id [OF this assms(2)] show "go_int (line div 4 * 4 + line mod 4) = line" by simp
qed

lemma cumulus_roundtrip:
  assumes "0 \<le> line" and "line < 2 ^ 63"
  shows "cumulusPortNameToLine (cumulusPortByLineNumber line ls) = Inr line"
proof -
  note p = cumulus_parts [OF assms]
  let ?c = "format_int (line div 4 + 1)" and ?i = "format_int (line mod 4)"
  have q: "0 \<le> line div 4 + 1" "line div 4 + 1 < 2 ^ 63" "0 \<le> line mod 4" "line mod 4 < 2 ^ 63"
    "\<not> line div 4 + 1 \<le> 0"
    using assms by (simp_all add: div_int_pos_iff)
  have atoi: "Atoi ?c = Inr (line div 4 + 1)" "Atoi ?i = Inr (line mod 4)"
    using q by (simp_all add: Atoi_format_int)
  have minus: "CHR ''-'' \<notin> set ?c" "CHR ''-'' \<notin> set ?i" and s: "CHR ''s'' \<notin> set ?c"
    using q by (simp_all add: format_int_nonneg)
  have long: "cumulusPortNameToLine (''swp'' @ ?c @ ''s'' @ ?i) = Inr line"
    using strings_Cut_prefix [of "''swp''" "?c @ ''s'' @ ?i"] strings_Cut_char [OF s, of ?i] minus atoi q(5) p(2,3)
    by (simp add: cumulusPortNameToLine_def)
  have short: "cumulusPortNameToLine (''swp'' @ ?c) = Inr (line div 4 * 4)"
    using strings_Cut_prefix [of "''swp''" "?c"] strings_Cut_none [OF s] minus atoi q(5) p(2)
    by (simp add: cumulusPortNameToLine_def)
  show ?thesis
  proof (cases "line mod 4 > 0")
    case True
    with long p show ?thesis by (simp add: cumulusPortByLineNumber_def cumulus_name_def)
  next
    case False
    then have "line div 4 * 4 = line" using assms by presburger
    with long short p False show ?thesis by (simp add: cumulusPortByLineNumber_def cumulus_name_def)
  qed
qed

lemma go_int_bounds: "- (2 ^ 63) \<le> go_int i" "go_int i < 2 ^ 63"
  using signed_take_bit_int_greater_eq_minus_exp [of 63 i] signed_take_bit_int_less_exp [of 63 i]
  by (simp_all add: go_int_def)

lemma portNameToLine_bound:
  assumes "portNameToLine p os = Inr l"
  shows "l < 2 ^ 63"
proof (cases "os = SwitchOSVendorSonic")
  case True
  with assms show ?thesis
    by (auto simp: portNameToLine_def sonicPortNameToLine_def split: if_splits option.splits dest!: Atoi_bounds)
next
  case False
  with assms show ?thesis
    using go_int_bounds by (auto simp: portNameToLine_def cumulusPortNameToLine_def bind_result_ok
        split: if_splits option.splits)
qed

text \<open>
  Translating the name of a port between the conventions of the two operating systems, in
  either direction, gives a name of the same line: reading the translated name gives the line number
  the original name has, whatever other ports the switch has.
\<close>

theorem port_translation_keeps_line:
  assumes "portNameToLine p source = Inr line" and "0 \<le> line"
    and "mapPortName p source target ls = Inr q"
  shows "portNameToLine q target = Inr line"
proof -
  have "line < 2 ^ 63" using assms(1) by (rule portNameToLine_bound)
  with assms sonic_roundtrip cumulus_roundtrip show ?thesis
    by (auto simp: mapPortName_def portNameToLine_def os_vendors split: if_splits)
qed

section \<open>Translating the ports of a switch\<close>

lemma MapByName_keys: "distinct (map_keys (MapByName nics))"
proof -
  have "distinct (map fst m) \<Longrightarrow> distinct (map fst
      (fold (\<lambda>nic m. if nic_Name nic = '''' then m else AList.update (nic_Name nic) nic m) nics m))" for m
    by (induction nics arbitrary: m) (simp_all add: distinct_update)
  from this [of "[]"] show ?thesis by (simp add: MapByName_def map_keys_def)
qed

lemma getLines_ok: "getLinesFromPortNames ps os = Inr ls \<Longrightarrow> p \<in> set ps \<Longrightarrow> \<exists>l. portNameToLine p os = Inr l"
  by (induction ps arbitrary: ls) (auto simp: bind_result_ok)

lemma translate_ports_ok:
  assumes "translate_ports tr ps acc = Inr m" and "distinct (map (\<lambda>(p, nic). tr p) ps)"
  shows "(\<forall>(p, nic)\<in>set ps. \<exists>q. tr p = Inr q \<and> map_of m q = Some nic) \<and>
    (\<forall>q. (\<forall>(p, nic)\<in>set ps. tr p \<noteq> Inr q) \<longrightarrow> map_of m q = map_of acc q)"
  using assms
proof (induction ps arbitrary: acc)
  case (Cons x ps)
  obtain p nic where x: "x = (p, nic)" by force
  with Cons.prems obtain q where q: "tr p = Inr q" "translate_ports tr ps (AList.update q nic acc) = Inr m"
    by (auto simp: bind_result_ok)
  from Cons.prems x have d: "distinct (map (\<lambda>(p, nic). tr p) ps)" "tr p \<notin> (\<lambda>(p, nic). tr p) ` set ps" by auto
  from Cons.IH [OF q(2) d(1)] have IH: "\<forall>(p, nic)\<in>set ps. \<exists>q. tr p = Inr q \<and> map_of m q = Some nic"
    "\<And>q'. (\<forall>(p, nic)\<in>set ps. tr p \<noteq> Inr q') \<Longrightarrow> map_of m q' = map_of (AList.update q nic acc) q'" by blast+
  have "\<forall>(p, nic)\<in>set ps. tr p \<noteq> Inr q" using d(2) q(1) by (auto simp: image_iff)
  from IH(2) [OF this] have "map_of m q = Some nic" by (simp add: update_conv')
  then show ?case using IH q(1) x by (auto simp: update_conv')
qed simp

lemma translate_ports_all:
  "translate_ports tr ps acc = Inr m \<Longrightarrow> (p, nic) \<in> set ps \<Longrightarrow> \<exists>q. tr p = Inr q"
  by (induction tr ps acc rule: translate_ports.induct) (auto simp: bind_result_ok)

text \<open>
  Translating the ports of a switch to the names of another operating system loses no port, if
  the line numbers of the ports differ: every port is found under a name with its line number.
\<close>

theorem ports_translated:
  assumes "sw_OS s = Some os" and "TranslateNicMap s target = Inr m"
    and "inj_on (\<lambda>p. portNameToLine p (os_Vendor os)) (set (map_keys (MapByName (sw_Nics s))))"
    and "\<forall>p\<in>set (map_keys (MapByName (sw_Nics s))). \<forall>l. portNameToLine p (os_Vendor os) = Inr l \<longrightarrow> 0 \<le> l"
    and "map_of (MapByName (sw_Nics s)) p = Some nic"
  shows "\<exists>q. map_of m q = Some nic \<and> portNameToLine q target = portNameToLine p (os_Vendor os)"
proof (cases "os_Vendor os = target")
  case True
  with assms(1,2,5) show ?thesis by (auto simp: TranslateNicMap_def Let_def)
next
  case False
  let ?v = "os_Vendor os" and ?map = "MapByName (sw_Nics s)"
  from assms(1,2) False obtain ls where ls: "getLinesFromPortNames (map_keys ?map) ?v = Inr ls"
    "translate_ports (\<lambda>p. mapPortName p ?v target ls) ?map [] = Inr m"
    by (auto simp: TranslateNicMap_def Let_def bind_result_ok)
  have line: "\<exists>l. portNameToLine p ?v = Inr l \<and> 0 \<le> l" if "p \<in> set (map_keys ?map)" for p
    using getLines_ok [OF ls(1) that] assms(4) that by blast
  have keeps: "portNameToLine q target = portNameToLine p ?v"
    if "p \<in> set (map_keys ?map)" "mapPortName p ?v target ls = Inr q" for p q
    using line [OF that(1)] port_translation_keeps_line that(2) by metis
  have same: "p = p'" if "p \<in> set (map_keys ?map)" "p' \<in> set (map_keys ?map)"
      "mapPortName p ?v target ls = mapPortName p' ?v target ls" for p p'
  proof (cases "mapPortName p ?v target ls")
    case (Inl err)
    with translate_ports_all [OF ls(2), of p] that(1) have False by (fastforce simp: map_keys_def)
    then show ?thesis ..
  next
    case (Inr q)
    with keeps that have "portNameToLine p ?v = portNameToLine p' ?v" by metis
    with assms(3) that show ?thesis by (auto dest: inj_onD)
  qed
  have "distinct (map (\<lambda>(p, nic). mapPortName p ?v target ls) ?map)"
    using same MapByName_keys [of "sw_Nics s"]
    by (auto simp: distinct_map map_keys_def inj_on_def split_beta)
  from translate_ports_ok [OF ls(2) this] map_of_SomeD [OF assms(5)]
  obtain q where "mapPortName p ?v target ls = Inr q" "map_of m q = Some nic" by auto
  moreover have "p \<in> set (map_keys ?map)" using map_of_SomeD [OF assms(5)] by (force simp: map_keys_def)
  ultimately show ?thesis using keeps by blast
qed

section \<open>The VRF of a machine's ports\<close>

lemma MapByIdentifier_distinct:
  assumes "distinct (map nic_Identifier nics)" and "'''' \<notin> nic_Identifier ` set nics"
  shows "MapByIdentifier nics = map (\<lambda>n. (nic_Identifier n, n)) nics"
proof -
  have "fst ` set m \<inter> nic_Identifier ` set nics = {} \<Longrightarrow>
      fold (\<lambda>nic m. if nic_Identifier nic = '''' then m else AList.update (nic_Identifier nic) nic m) nics m =
      m @ map (\<lambda>n. (nic_Identifier n, n)) nics" for m
    using assms
  proof (induction nics arbitrary: m)
    case (Cons n nics)
    then have "AList.update (nic_Identifier n) n m = m @ [(nic_Identifier n, n)]" by (intro update_new) auto
    with Cons show ?case by auto
  qed simp
  from this [of "[]"] show ?thesis by (simp add: MapByIdentifier_def)
qed

lemma MapByIdentifier_keys: "(k, n) \<in> set (MapByIdentifier nics) \<Longrightarrow> k \<noteq> '''' \<and> nic_Identifier n = k \<and> n \<in> set nics"
proof -
  have "(k, n) \<in> set (fold (\<lambda>nic m. if nic_Identifier nic = '''' then m else AList.update (nic_Identifier nic) nic m) nics m)
      \<Longrightarrow> (k, n) \<in> set m \<or> k \<noteq> '''' \<and> nic_Identifier n = k \<and> n \<in> set nics" for m
  proof (induction nics arbitrary: m)
    case (Cons x nics)
    have "(k, n) \<in> set (AList.update i x m) \<Longrightarrow> (k, n) \<in> set m \<or> k = i \<and> n = x" for i
      by (induction m) (auto split: if_splits)
    with Cons.IH Cons.prems show ?case by (fastforce split: if_splits)
  qed simp
  from this [of "[]"] show "(k, n) \<in> set (MapByIdentifier nics) \<Longrightarrow> k \<noteq> '''' \<and> nic_Identifier n = k \<and> n \<in> set nics"
    by (simp add: MapByIdentifier_def)
qed

definition machine_ports :: "Switch \<Rightarrow> string \<Rightarrow> string set" where
  "machine_ports s i = (\<lambda>c. nic_Identifier (con_Nic c)) ` set (map_get [] (connections_of s) i)"

text \<open>
  Setting the VRF of a machine at a switch whose ports have distinct identifiers changes the VRF
  of exactly the ports that the machine is connected to, and keeps every other port as it is.
\<close>

theorem set_vrf_changes_machine_ports:
  assumes "distinct (map nic_Identifier (sw_Nics s))" and "'''' \<notin> nic_Identifier ` set (sw_Nics s)"
  shows "mset (sw_Nics (SetVrfOfMachine m vrf s)) =
    mset (map (\<lambda>n. if nic_Identifier n \<in> machine_ports s (b_ID m) then n\<lparr>nic_Vrf := vrf\<rparr> else n) (sw_Nics s))"
  using MapByIdentifier_distinct [OF assms]
  by (auto simp: SetVrfOfMachine_def Let_def machine_ports_def comp_def intro!: arg_cong [where f = mset])

text \<open>A port without an identifier disappears from the switch when a connected machine gets its VRF.\<close>

lemma set_vrf_drops_ports:
  assumes "machine_ports s (b_ID m) \<noteq> {}" and "n \<in> set (sw_Nics (SetVrfOfMachine m vrf s))"
  shows "nic_Identifier n \<noteq> ''''"
  using assms by (auto simp: SetVrfOfMachine_def Let_def machine_ports_def dest!: MapByIdentifier_keys split: if_splits)

section \<open>Examples\<close>

definition example_nic :: "string \<Rightarrow> string \<Rightarrow> Nic" where
  "example_nic name i = \<lparr>nic_MacAddress = '''', nic_Name = name, nic_Identifier = i, nic_Vrf = '''',
     nic_Hostname = '''', nic_State = None, nic_BGPPortState = None, nic_Neighbors = []\<rparr>"

definition example_switch :: "SwitchOSVendor \<Rightarrow> Nic list \<Rightarrow> Switch" where
  "example_switch vendor nics = \<lparr>b_ID = ''sw1'', b_Name = ''sw1'', b_Description = '''', b_Created = 0, b_Changed = 0,
     b_Generation = 0, sw_Rack = ''r1'', sw_Room = '''', sw_Partition = ''p1'', sw_ReplaceMode = SwitchReplaceModeOperational,
     sw_ManagementIP = '''', sw_ManagementUser = '''', sw_ConsoleCommand = '''',
     sw_OS = Some \<lparr>os_Vendor = vendor, os_Version = '''', os_MetalCoreVersion = ''''\<rparr>, sw_Nics = nics,
     sw_MachineConnections = Some [(''m1'', [\<lparr>con_Nic = example_nic ''swp1s1'' ''a'', con_MachineID = ''m1''\<rparr>])]\<rparr>"

lemmas example_switch_defs = example_switch_def example_nic_def

lemma example_lines:
  "portNameToLine ''swp1s1'' SwitchOSVendorCumulus = Inr 1" "portNameToLine ''swp2'' SwitchOSVendorCumulus = Inr 4"
  "portNameToLine ''swp2s1'' SwitchOSVendorCumulus = Inr 5" "portNameToLine ''swp1s5'' SwitchOSVendorCumulus = Inr 5"
  by (simp_all add: portNameToLine_def cumulusPortNameToLine_def os_vendors Atoi_def digit_def Let_def go_int_def
      signed_take_bit_int_eq_self)

lemma vendors_differ [simp]: "SwitchOSVendorCumulus \<noteq> SwitchOSVendorSonic" "SwitchOSVendorSonic \<noteq> SwitchOSVendorCumulus"
  by (simp_all add: os_vendors)

lemma sonic_example: "format_int 1 = ''1''" "format_int 4 = ''4''" "format_int 5 = ''5''"
  by (simp_all add: format_int_def itoa.simps char_of_digits)

lemmas translate_example = TranslateNicMap_def MapByName_def map_keys_def mapPortName_def example_lines
  sonicPortByLineNumber_def sonic_example

theorem port_translation_keeps_line_witness:
  "portNameToLine ''Ethernet1'' SwitchOSVendorSonic = Inr 1"
proof -
  have "mapPortName ''swp1s1'' SwitchOSVendorCumulus SwitchOSVendorSonic [1] = Inr ''Ethernet1''"
    by (simp add: mapPortName_def example_lines sonicPortByLineNumber_def sonic_example)
  from port_translation_keeps_line [OF example_lines(1) _ this] show ?thesis by simp
qed

theorem ports_translated_witness:
  "\<exists>m q. TranslateNicMap (example_switch SwitchOSVendorCumulus [example_nic ''swp1s1'' ''a'', example_nic ''swp2'' ''b''])
       SwitchOSVendorSonic = Inr m \<and>
     map_of m q = Some (example_nic ''swp2'' ''b'') \<and> portNameToLine q SwitchOSVendorSonic = Inr 4"
proof -
  let ?s = "example_switch SwitchOSVendorCumulus [example_nic ''swp1s1'' ''a'', example_nic ''swp2'' ''b'']"
  have os: "sw_OS ?s = Some \<lparr>os_Vendor = SwitchOSVendorCumulus, os_Version = '''', os_MetalCoreVersion = ''''\<rparr>"
    by (simp add: example_switch_def)
  have ports: "MapByName (sw_Nics ?s) = [(''swp1s1'', example_nic ''swp1s1'' ''a''), (''swp2'', example_nic ''swp2'' ''b'')]"
    by (simp add: example_switch_defs MapByName_def)
  have "is_ok (TranslateNicMap ?s SwitchOSVendorSonic)"
    unfolding TranslateNicMap_def os ports by (simp add: translate_example)
  then obtain m where m: "TranslateNicMap ?s SwitchOSVendorSonic = Inr m" by (auto simp: is_ok_iff)
  from ports_translated [OF os m, where p = "''swp2''" and nic = "example_nic ''swp2'' ''b''"] m show ?thesis
    unfolding ports by (auto simp: map_keys_def example_lines)
qed

text \<open>
  The names swp1s5 and swp2s1 are both read as line 5: a switch with both loses one of them when its
  ports are translated.
\<close>

lemma translation_loses_port:
  "TranslateNicMap (example_switch SwitchOSVendorCumulus [example_nic ''swp1s5'' ''a'', example_nic ''swp2s1'' ''b''])
     SwitchOSVendorSonic = Inr [(''Ethernet5'', example_nic ''swp2s1'' ''b'')]"
  unfolding example_switch_defs by (simp add: translate_example)

theorem set_vrf_changes_machine_ports_witness:
  "mset (sw_Nics (SetVrfOfMachine (machine_with_id ''m1'') ''vrf7''
       (example_switch SwitchOSVendorCumulus [example_nic ''swp1s1'' ''a'', example_nic ''swp2'' ''b'']))) =
     {#(example_nic ''swp1s1'' ''a'')\<lparr>nic_Vrf := ''vrf7''\<rparr>, example_nic ''swp2'' ''b''#}"
proof -
  let ?s = "example_switch SwitchOSVendorCumulus [example_nic ''swp1s1'' ''a'', example_nic ''swp2'' ''b'']"
  have "distinct (map nic_Identifier (sw_Nics ?s))" "'''' \<notin> nic_Identifier ` set (sw_Nics ?s)"
    by (simp_all add: example_switch_defs)
  from set_vrf_changes_machine_ports [OF this, of "machine_with_id ''m1''" "''vrf7''"] show ?thesis
    by (simp add: example_switch_defs machine_ports_def machine_with_id_def connections_of_def map_get_def)
qed

end
