(* ===== verification/MachineRules.thy ===== *)
theory MachineRules
  imports Netip MachineData Networks
begin

text \<open>
  The operations of \<^verbatim>\<open>pkg/db/metal/machine.go\<close> on parts of a machine: the validation of a firewall's
  rules, the addresses of a network, and the conversions of enumerations.
\<close>

section \<open>Firewall rules\<close>

definition ProtocolTCP :: Protocol where "ProtocolTCP = ''TCP''"
definition ProtocolUDP :: Protocol where "ProtocolUDP = ''UDP''"

definition ProtocolFromString :: "string \<Rightarrow> Protocol result" where
  "ProtocolFromString s =
     (if ToLower s = ''tcp'' then Inr ProtocolTCP
      else if ToLower s = ''udp'' then Inr ProtocolUDP
      else Inl (Plain ''no such protocol: %s''))"

definition allowedCharacters :: string where
  "allowedCharacters = ''abcdefghijklmnopqrstuvwxyz_- ''"

definition maxCommentLength :: nat where
  "maxCommentLength = 100"

text \<open>
  The letters of a comment as \<open>strings.ToLower\<close> has them, as far as they may be allowed: besides those of ASCII the
  Kelvin sign becomes a k, and the capital I with a dot an i. No other text becomes an allowed letter.
\<close>

fun lower_letters :: "string \<Rightarrow> string" where
  "lower_letters [] = []"
| "lower_letters (c # cs) =
     (if c = CHR 0xE2 \<and> take 2 cs = [CHR 0x84, CHR 0xAA] then CHR ''k'' # lower_letters (drop 2 cs)
      else if c = CHR 0xC4 \<and> take 1 cs = [CHR 0xB0] then CHR ''i'' # lower_letters (drop 1 cs)
      else ascii_lower c # lower_letters cs)"

definition validateComment :: "string \<Rightarrow> unit result" where
  "validateComment comment =
     bind_result (check_each (\<lambda>c. check_that (c \<in> set allowedCharacters)
       (Plain ''illegal character %q in comment found, only: %q allowed'')) (lower_letters comment)) (\<lambda>_.
     check_that (\<not> length comment > maxCommentLength) (Plain ''comments can not exceed %d characters''))"

definition validatePorts :: "int list \<Rightarrow> unit result" where
  "validatePorts ports =
     check_each (\<lambda>port. check_that (\<not> (port < 0 \<or> port > 65535)) (Plain ''port %d is out of range'')) ports"

text \<open>The loop keeps the address family of the previous prefix.\<close>

fun validate_families :: "string list \<Rightarrow> AddressFamily option \<Rightarrow> unit result" where
  "validate_families [] af = Inr ()"
| "validate_families (cidr # cidrs) af =
     (case ParsePrefix cidr of
        None \<Rightarrow> Inl (Plain ''invalid cidr: %w'')
      | Some p \<Rightarrow>
          let newaf = (if Is4 (px_Addr p) then AddressFamilyIPv4 else AddressFamilyIPv6)
          in if af \<noteq> None \<and> af \<noteq> Some newaf
             then Inl (Plain ''mixed address family in one rule is not supported:%v'')
             else validate_families cidrs (Some newaf))"

definition validateCIDRs :: "string list \<Rightarrow> unit result" where
  "validateCIDRs cidrs = validate_families cidrs None"

definition EgressRule_Validate :: "EgressRule \<Rightarrow> unit result" where
  "EgressRule_Validate r =
     bind_result (check_that (er_Protocol r \<in> {ProtocolTCP, ProtocolUDP})
       (Plain ''egress rule has invalid protocol: %s'')) (\<lambda>_.
     map_error (Wrapped ''egress rule with error:%w'')
       (bind_result (validateComment (er_Comment r)) (\<lambda>_.
        bind_result (validatePorts (er_Ports r)) (\<lambda>_.
        validateCIDRs (er_To r)))))"

definition IngressRule_Validate :: "IngressRule \<Rightarrow> unit result" where
  "IngressRule_Validate r =
     bind_result (check_that (ir_Protocol r \<in> {ProtocolTCP, ProtocolUDP})
       (Plain ''ingress rule has invalid protocol: %s'')) (\<lambda>_.
     map_error (Wrapped ''ingress rule with error:%w'')
       (bind_result (validateComment (ir_Comment r)) (\<lambda>_.
        bind_result (validatePorts (ir_Ports r)) (\<lambda>_.
        bind_result (validateCIDRs (ir_To r)) (\<lambda>_.
        bind_result (validateCIDRs (ir_From r)) (\<lambda>_.
        validateCIDRs (ir_From r @ ir_To r)))))))"

section \<open>Networks, LEDs and states\<close>

definition ContainsIP :: "MachineNetwork \<Rightarrow> string \<Rightarrow> bool" where
  "ContainsIP n ip =
     (case ParseAddr ip of
        None \<Rightarrow> False
      | Some pip \<Rightarrow>
          list_ex (\<lambda>p. case ParsePrefix p of None \<Rightarrow> False | Some n \<Rightarrow> prefix_Contains n pip) (mn_Prefixes n))"

definition LEDStateOn :: LEDState where "LEDStateOn = ''LED-ON''"
definition LEDStateOff :: LEDState where "LEDStateOff = ''LED-OFF''"

definition LEDStateFrom :: "string \<Rightarrow> LEDState result" where
  "LEDStateFrom name =
     (if name = LEDStateOff then Inr LEDStateOff
      else if name = LEDStateOn then Inr LEDStateOn
      else Inl (Plain ''unknown LEDState:%s''))"

datatype ApiMachineState =
    MACHINE_STATE_UNSPECIFIED | MACHINE_STATE_LOCKED | MACHINE_STATE_AVAILABLE
  | MACHINE_STATE_TAINTED | MACHINE_STATE_NUMBER int

definition ToAPIV2MachineStatus :: "MState \<Rightarrow> ApiMachineState result" where
  "ToAPIV2MachineStatus s =
     (case s of
        AvailableState \<Rightarrow> Inr MACHINE_STATE_AVAILABLE
      | TaintedState \<Rightarrow> Inr MACHINE_STATE_TAINTED
      | LockedState \<Rightarrow> Inr MACHINE_STATE_LOCKED
      | StateOther _ \<Rightarrow> Inl (Plain ''given state:%q is not known''))"

fun MState_string :: "MState \<Rightarrow> string" where
  "MState_string AvailableState = ''''"
| "MState_string TaintedState = ''TAINTED''"
| "MState_string LockedState = ''LOCKED''"
| "MState_string (StateOther s) = s"

fun Role_string :: "Role \<Rightarrow> string" where
  "Role_string RoleMachine = ''machine''"
| "Role_string RoleFirewall = ''firewall''"
| "Role_string (RoleOther s) = s"

section \<open>What a valid rule guarantees\<close>

text \<open>The family of the text of a prefix, None if it cannot be parsed.\<close>

definition cidr_family :: "string \<Rightarrow> AddressFamily option" where
  "cidr_family cidr =
     map_option (\<lambda>p. if Is4 (px_Addr p) then AddressFamilyIPv4 else AddressFamilyIPv6) (ParsePrefix cidr)"

lemma validate_families_iff:
  "validate_families cidrs af = Inr u \<longleftrightarrow>
     (case af of
        None \<Rightarrow> cidrs = [] \<or> (\<exists>f. \<forall>c\<in>set cidrs. cidr_family c = Some f)
      | Some f \<Rightarrow> \<forall>c\<in>set cidrs. cidr_family c = Some f)"
proof (induction cidrs arbitrary: af)
  case (Cons c cidrs)
  show ?case
  proof (cases "ParsePrefix c")
    case None
    then show ?thesis by (cases af) (auto simp: cidr_family_def)
  next
    case (Some p)
    with Cons.IH show ?thesis
      by (cases af) (simp_all add: cidr_family_def Let_def)
  qed
qed (simp split: option.split)

lemma validateCIDRs_iff:
  "validateCIDRs cidrs = Inr u \<longleftrightarrow> cidrs = [] \<or> (\<exists>f. \<forall>c\<in>set cidrs. cidr_family c = Some f)"
  by (simp add: validateCIDRs_def validate_families_iff)

lemma validateCIDRs_append:
  "validateCIDRs (xs @ ys) = Inr () \<Longrightarrow> validateCIDRs xs = Inr () \<and> validateCIDRs ys = Inr ()"
  by (auto simp: validateCIDRs_iff)

lemma validatePorts_iff: "validatePorts ports = Inr u \<longleftrightarrow> (\<forall>p\<in>set ports. 0 \<le> p \<and> p \<le> 65535)"
  by (auto simp: validatePorts_def check_each_ok not_less)

lemma validateComment_iff:
  "validateComment c = Inr u \<longleftrightarrow> length c \<le> 100 \<and> (\<forall>x\<in>set (lower_letters c). x \<in> set allowedCharacters)"
  by (auto simp: validateComment_def check_each_ok bind_result_ok maxCommentLength_def not_less)

text \<open>
  A rule for incoming traffic is accepted exactly if its protocol is TCP or UDP, its comment has at
  most 100 bytes of the allowed characters, its ports are port numbers, and all its source and destination
  prefixes can be parsed and have one address family.
\<close>

theorem ingress_rule_valid_iff:
  "IngressRule_Validate r = Inr () \<longleftrightarrow>
     ir_Protocol r \<in> {ProtocolTCP, ProtocolUDP} \<and>
     length (ir_Comment r) \<le> 100 \<and> (\<forall>x\<in>set (lower_letters (ir_Comment r)). x \<in> set allowedCharacters) \<and>
     (\<forall>p\<in>set (ir_Ports r). 0 \<le> p \<and> p \<le> 65535) \<and>
     (ir_From r @ ir_To r = [] \<or> (\<exists>f. \<forall>c\<in>set (ir_From r @ ir_To r). cidr_family c = Some f))"
proof -
  have "IngressRule_Validate r = Inr () \<longleftrightarrow>
      ir_Protocol r \<in> {ProtocolTCP, ProtocolUDP} \<and> validateComment (ir_Comment r) = Inr () \<and>
      validatePorts (ir_Ports r) = Inr () \<and> validateCIDRs (ir_From r @ ir_To r) = Inr ()"
    unfolding IngressRule_Validate_def bind_result_ok map_error_simps check_that_ok
    using validateCIDRs_append [of "ir_From r" "ir_To r"] by auto
  then show ?thesis unfolding validateComment_iff validatePorts_iff validateCIDRs_iff by simp
qed

lemma egress_rule_valid_iff:
  "EgressRule_Validate r = Inr () \<longleftrightarrow>
     er_Protocol r \<in> {ProtocolTCP, ProtocolUDP} \<and> validateComment (er_Comment r) = Inr () \<and>
     validatePorts (er_Ports r) = Inr () \<and> validateCIDRs (er_To r) = Inr ()"
  unfolding EgressRule_Validate_def bind_result_ok map_error_simps check_that_ok by auto

definition https_rule :: IngressRule where
  "https_rule = \<lparr>ir_Protocol = ProtocolTCP, ir_Ports = [443], ir_To = [], ir_From = [''10.0.0.0/8''],
     ir_Comment = ''allow https''\<rparr>"

lemma https_cidr: "cidr_family ''10.0.0.0/8'' = Some AddressFamilyIPv4"
  by (simp add: cidr_family_def ParsePrefix_def ParseAddr_def parseIPv4Fields_def read_octet_def read_decimal_def
    digit_def of_char_def)

lemma ingress_rule_valid_iff_witness: "IngressRule_Validate https_rule = Inr ()"
  using https_cidr
  by (simp add: ingress_rule_valid_iff https_rule_def allowedCharacters_def ascii_lower_def)

end
