(* ===== verification/MachineQueries.thy ===== *)
theory MachineQueries
  imports MachineRules TableActions
begin

text \<open>
  The filter of queries for machines, \<^verbatim>\<open>pkg/db/queries/machine.go\<close>. Every condition is a filter on the
  rows; a row in which a field along the path is missing does not pass. An allocation type or a state
  without a string ends the filter there, with the conditions before it. Slices are stored as lists.
\<close>

section \<open>The query\<close>

record MachineAllocationQuery =
  maq_Uuid :: "string option"
  maq_Name :: "string option"
  maq_Project :: "string option"
  maq_Image :: "string option"
  maq_FilesystemLayout :: "string option"
  maq_Hostname :: "string option"
  maq_AllocationType :: "int option"
  maq_Labels :: "Labels option"
  maq_Vpn :: "unit option"

record MachineNetworkQuery =
  mnq_Networks :: "string list"
  mnq_Prefixes :: "string list"
  mnq_DestinationPrefixes :: "string list"
  mnq_Ips :: "string list"
  mnq_Vrfs :: "nat list"
  mnq_Asns :: "nat list"

record MachineHardwareQuery =
  mhq_Memory :: "nat option"
  mhq_CpuCores :: "nat option"

record MachineNicQuery =
  mcq_Macs :: "string list"
  mcq_Names :: "string list"
  mcq_NeighborMacs :: "string list"
  mcq_NeighborNames :: "string list"

record MachineDiskQuery =
  mdq_Names :: "string list"
  mdq_Sizes :: "nat list"

record MachineBMCQuery =
  mbq_Address :: "string option"
  mbq_Mac :: "string option"
  mbq_User :: "string option"
  mbq_Interface :: "string option"

record MachineFRUQuery =
  mfq_ChassisPartNumber :: "string option"
  mfq_ChassisPartSerial :: "string option"
  mfq_BoardMfg :: "string option"
  mfq_BoardSerial :: "string option"
  mfq_BoardPartNumber :: "string option"
  mfq_ProductManufacturer :: "string option"
  mfq_ProductPartNumber :: "string option"
  mfq_ProductSerial :: "string option"

record MachineQuery =
  mq_Uuid :: "string option"
  mq_Name :: "string option"
  mq_Partition :: "string option"
  mq_Size :: "string option"
  mq_Rack :: "string option"
  mq_Room :: "string option"
  mq_Labels :: "Labels option"
  mq_Waiting :: "bool option"
  mq_Preallocated :: "bool option"
  mq_NotAllocated :: "bool option"
  mq_Allocation :: "MachineAllocationQuery option"
  mq_Network :: "MachineNetworkQuery option"
  mq_Hardware :: "MachineHardwareQuery option"
  mq_Nic :: "MachineNicQuery option"
  mq_Disk :: "MachineDiskQuery option"
  mq_State :: "ApiMachineState option"
  mq_Bmc :: "MachineBMCQuery option"
  mq_Fru :: "MachineFRUQuery option"

definition empty_allocation_query :: MachineAllocationQuery where
  "empty_allocation_query = \<lparr>maq_Uuid = None, maq_Name = None, maq_Project = None, maq_Image = None,
     maq_FilesystemLayout = None, maq_Hostname = None, maq_AllocationType = None, maq_Labels = None, maq_Vpn = None\<rparr>"

definition empty_machine_query :: MachineQuery where
  "empty_machine_query = \<lparr>mq_Uuid = None, mq_Name = None, mq_Partition = None, mq_Size = None, mq_Rack = None,
     mq_Room = None, mq_Labels = None, mq_Waiting = None, mq_Preallocated = None, mq_NotAllocated = None,
     mq_Allocation = None, mq_Network = None, mq_Hardware = None, mq_Nic = None, mq_Disk = None,
     mq_State = None, mq_Bmc = None, mq_Fru = None\<rparr>"

section \<open>The conditions\<close>

text \<open>A condition on the allocation, and one that some network of the allocation must meet.\<close>

definition allocated_with :: "(MachineAllocation \<Rightarrow> bool) \<Rightarrow> Machine \<Rightarrow> bool" where
  "allocated_with P m = (case m_Allocation m of None \<Rightarrow> False | Some a \<Rightarrow> P a)"

definition some_network :: "(MachineNetwork \<Rightarrow> bool) \<Rightarrow> Machine \<Rightarrow> bool" where
  "some_network P = allocated_with (\<lambda>a. list_ex P (ma_MachineNetworks a))"

text \<open>The filter of a field that is given, for a test of its value.\<close>

definition given :: "'a option \<Rightarrow> ('a \<Rightarrow> 'm \<Rightarrow> bool) \<Rightarrow> 'm \<Rightarrow> bool" where
  "given q P m = (case q of None \<Rightarrow> True | Some x \<Rightarrow> P x m)"

definition MachineProjectScoped :: "string \<Rightarrow> Machine \<Rightarrow> bool" where
  "MachineProjectScoped project = allocated_with (\<lambda>a. ma_Project a = project)"

definition machine_fields :: "MachineQuery \<Rightarrow> Machine \<Rightarrow> bool" where
  "machine_fields rq m \<longleftrightarrow>
     matches_field (mq_Uuid rq) (b_ID m) \<and> matches_field (mq_Name rq) (b_Name m) \<and>
     matches_field (mq_Partition rq) (m_PartitionID m) \<and> matches_field (mq_Size rq) (m_SizeID m) \<and>
     matches_field (mq_Rack rq) (m_RackID m) \<and> matches_field (mq_Room rq) (m_RoomID m) \<and>
     (case mq_Labels rq of None \<Rightarrow> True
      | Some ls \<Rightarrow> list_all (\<lambda>(k, v). (k @ ''='' @ v) \<in> set (m_Tags m)) ls) \<and>
     matches_field (mq_Waiting rq) (m_Waiting m) \<and> matches_field (mq_Preallocated rq) (m_PreAllocated m) \<and>
     (mq_NotAllocated rq = Some True \<longrightarrow> m_Allocation m = None)"

text \<open>The conditions on the allocation before its type, those of the type and those after it.\<close>

definition allocation_before_type :: "MachineAllocationQuery \<Rightarrow> MachineAllocation \<Rightarrow> bool" where
  "allocation_before_type q a \<longleftrightarrow>
     matches_field (maq_Project q) (ma_Project a) \<and> matches_field (maq_Uuid q) (ma_UUID a) \<and>
     matches_field (maq_Name q) (ma_Name a) \<and> matches_field (maq_Image q) (ma_ImageID a) \<and>
     matches_field (maq_Hostname q) (ma_Hostname a)"

definition allocation_after_type :: "MachineAllocationQuery \<Rightarrow> MachineAllocation \<Rightarrow> bool" where
  "allocation_after_type q a \<longleftrightarrow>
     given (maq_FilesystemLayout q)
       (\<lambda>i a. case ma_FilesystemLayout a of None \<Rightarrow> False | Some l \<Rightarrow> b_ID l = i) a \<and>
     given (maq_Labels q) (\<lambda>ls a. list_all (\<lambda>(k, v). map_of (ma_Labels a) k = Some v) ls) a \<and>
     (maq_Vpn q \<noteq> None \<longrightarrow> ma_VPN a \<noteq> None)"

definition network_conditions :: "MachineNetworkQuery \<Rightarrow> Machine \<Rightarrow> bool" where
  "network_conditions nq m \<longleftrightarrow>
     list_all (\<lambda>i. some_network (\<lambda>n. mn_NetworkID n = i) m) (mnq_Networks nq) \<and>
     list_all (\<lambda>p. some_network (\<lambda>n. p \<in> set (mn_Prefixes n)) m) (mnq_Prefixes nq) \<and>
     list_all (\<lambda>ip. some_network (\<lambda>n. ip \<in> set (mn_IPs n)) m) (mnq_Ips nq) \<and>
     list_all (\<lambda>p. some_network (\<lambda>n. p \<in> set (mn_DestinationPrefixes n)) m) (mnq_DestinationPrefixes nq) \<and>
     list_all (\<lambda>v. some_network (\<lambda>n. unat (mn_Vrf n) = v) m) (mnq_Vrfs nq) \<and>
     list_all (\<lambda>v. some_network (\<lambda>n. unat (mn_ASN n) = v) m) (mnq_Asns nq)"

definition hardware_conditions :: "MachineHardwareQuery \<Rightarrow> MachineHardware \<Rightarrow> bool" where
  "hardware_conditions q hw \<longleftrightarrow>
     matches_field (mhq_Memory q) (unat (hw_Memory hw)) \<and>
     matches_field (mhq_CpuCores q) (sum_list (map (\<lambda>c. unat (cpu_Cores c)) (hw_MetalCPUs hw)))"

definition nic_conditions :: "MachineNicQuery \<Rightarrow> MachineHardware \<Rightarrow> bool" where
  "nic_conditions q hw \<longleftrightarrow>
     list_all (\<lambda>mac. mac \<in> set (map nic_MacAddress (hw_Nics hw))) (mcq_Macs q) \<and>
     list_all (\<lambda>name. name \<in> set (map nic_Name (hw_Nics hw))) (mcq_Names q) \<and>
     list_all (\<lambda>mac. list_ex (\<lambda>nic. list_ex (\<lambda>neigh. nic_MacAddress neigh = mac) (nic_Neighbors nic)) (hw_Nics hw))
       (mcq_NeighborMacs q) \<and>
     list_all (\<lambda>name. list_ex (\<lambda>nic. list_ex (\<lambda>neigh. nic_Name neigh = name) (nic_Neighbors nic)) (hw_Nics hw))
       (mcq_NeighborNames q)"

definition disk_conditions :: "MachineDiskQuery \<Rightarrow> MachineHardware \<Rightarrow> bool" where
  "disk_conditions q hw \<longleftrightarrow>
     list_all (\<lambda>name. name \<in> set (map bd_Name (hw_Disks hw))) (mdq_Names q) \<and>
     list_all (\<lambda>n. n \<in> set (map (\<lambda>d. unat (bd_Size d)) (hw_Disks hw))) (mdq_Sizes q)"

definition bmc_conditions :: "MachineBMCQuery \<Rightarrow> IPMI \<Rightarrow> bool" where
  "bmc_conditions q ipmi \<longleftrightarrow>
     matches_field (mbq_Address q) (ipmi_Address ipmi) \<and> matches_field (mbq_Mac q) (ipmi_MacAddress ipmi) \<and>
     matches_field (mbq_User q) (ipmi_User ipmi) \<and> matches_field (mbq_Interface q) (ipmi_Interface ipmi)"

definition fru_conditions :: "MachineFRUQuery \<Rightarrow> Fru \<Rightarrow> bool" where
  "fru_conditions q fru \<longleftrightarrow>
     matches_field (mfq_ChassisPartNumber q) (fru_ChassisPartNumber fru) \<and>
     matches_field (mfq_ChassisPartSerial q) (fru_ChassisPartSerial fru) \<and>
     matches_field (mfq_BoardMfg q) (fru_BoardMfg fru) \<and>
     matches_field (mfq_BoardSerial q) (fru_BoardMfgSerial fru) \<and>
     matches_field (mfq_BoardPartNumber q) (fru_BoardPartNumber fru) \<and>
     matches_field (mfq_ProductManufacturer q) (fru_ProductManufacturer fru) \<and>
     matches_field (mfq_ProductPartNumber q) (fru_ProductPartNumber fru) \<and>
     matches_field (mfq_ProductSerial q) (fru_ProductSerial fru)"

text \<open>The strings of the enumerations of the API are arguments.\<close>

record machine_enums =
  en_AllocationType :: "int \<Rightarrow> string result"
  en_MachineState :: "ApiMachineState \<Rightarrow> string result"

definition state_and_after :: "machine_enums \<Rightarrow> MachineQuery \<Rightarrow> Machine \<Rightarrow> bool" where
  "state_and_after en rq m \<longleftrightarrow>
     (let after = given (mq_Bmc rq) (\<lambda>q m. bmc_conditions q (m_IPMI m)) m \<and>
            given (mq_Fru rq) (\<lambda>q m. fru_conditions q (ipmi_Fru (m_IPMI m))) m
      in case mq_State rq of
           None \<Rightarrow> after
         | Some s \<Rightarrow>
             (case en_MachineState en s of
                Inl _ \<Rightarrow> True
              | Inr str \<Rightarrow>
                  MState_string (ms_Value (m_State m)) =
                    ToUpper (if s = MACHINE_STATE_AVAILABLE then '''' else str) \<and> after))"

definition after_allocation :: "machine_enums \<Rightarrow> MachineQuery \<Rightarrow> Machine \<Rightarrow> bool" where
  "after_allocation en rq m \<longleftrightarrow>
     given (mq_Network rq) network_conditions m \<and>
     given (mq_Hardware rq) (\<lambda>q m. hardware_conditions q (m_Hardware m)) m \<and>
     given (mq_Nic rq) (\<lambda>q m. nic_conditions q (m_Hardware m)) m \<and>
     given (mq_Disk rq) (\<lambda>q m. disk_conditions q (m_Hardware m)) m \<and>
     state_and_after en rq m"

definition MachineFilter :: "machine_enums \<Rightarrow> MachineQuery \<Rightarrow> Machine \<Rightarrow> bool" where
  "MachineFilter en rq m \<longleftrightarrow>
     machine_fields rq m \<and>
     (case mq_Allocation rq of
        None \<Rightarrow> after_allocation en rq m
      | Some q \<Rightarrow>
          allocated_with (allocation_before_type q) m \<and>
          (case maq_AllocationType q of
             None \<Rightarrow> allocated_with (allocation_after_type q) m \<and> after_allocation en rq m
           | Some t \<Rightarrow>
               (case en_AllocationType en t of
                  Inl _ \<Rightarrow> True
                | Inr role \<Rightarrow>
                    allocated_with (\<lambda>a. Role_string (ma_Role a) = role) m \<and>
                    allocated_with (allocation_after_type q) m \<and> after_allocation en rq m)))"

section \<open>Facts about the filter\<close>

text \<open>A query for a project only yields machines allocated to it.\<close>

lemma MachineFilter_project:
  assumes "MachineFilter en rq m" and "mq_Allocation rq = Some q" and "maq_Project q = Some project"
  shows "MachineProjectScoped project m"
  using assms
  by (auto simp: MachineFilter_def MachineProjectScoped_def allocated_with_def allocation_before_type_def
      matches_field_def split: option.splits)

text \<open>
  A query with an allocation type that has no string ignores every condition after it: the layout,
  the labels, the VPN, the networks, the hardware, the state, the BMC and the FRU.
\<close>

lemma unknown_type_ends_filter:
  assumes "mq_Allocation rq = Some q" and "maq_AllocationType q = Some t" and "en_AllocationType en t = Inl err"
  shows "MachineFilter en rq m \<longleftrightarrow> machine_fields rq m \<and> allocated_with (allocation_before_type q) m"
  using assms by (simp add: MachineFilter_def)

lemma MachineFilter_empty [simp]: "MachineFilter en empty_machine_query m"
  by (simp add: MachineFilter_def empty_machine_query_def machine_fields_def matches_field_def given_def
      after_allocation_def state_and_after_def)

end
