(* ===== verification/SwitchMessages.thy ===== *)
theory SwitchMessages
  imports Switches MachineQueries NetworkRepository
begin

text \<open>
  The messages of the API about switches and the conversions of \<^verbatim>\<open>pkg/repository/switch.go\<close> that need no
  database. An enumeration of the API is its number, whose string the enum package knows; elements of a
  repeated field are never nil, and an empty one is. A nil pointer is None, and reading through it panics.
\<close>

definition nil_dereference :: go_error where
  "nil_dereference = Panic ''invalid memory address or nil pointer dereference''"

section \<open>Messages\<close>

record ApiNicState =
  ans_Desired :: "int option"
  ans_Actual :: int

text \<open>The time since when a session is established is given in seconds.\<close>

record ApiSwitchBGPPortState =
  abs_Neighbor :: string
  abs_PeerGroup :: string
  abs_VrfName :: string
  abs_BgpState :: int
  abs_BgpTimerUpEstablished :: "int option"
  abs_SentPrefixCounter :: "64 word"
  abs_AcceptedPrefixCounter :: "64 word"

record BGPFilter =
  bf_Cidrs :: "string list"
  bf_Vnis :: "string list"

record ApiSwitchNic =
  asn_Name :: string
  asn_Identifier :: string
  asn_Mac :: "string option"
  asn_Vrf :: "string option"
  asn_State :: "ApiNicState option"
  asn_BgpFilter :: "BGPFilter option"
  asn_BgpPortState :: "ApiSwitchBGPPortState option"

record ApiMachineConnection =
  amc_MachineId :: string
  amc_Nic :: "ApiSwitchNic option"

record ApiSwitchOS =
  aos_Vendor :: int
  aos_Version :: string
  aos_MetalCoreVersion :: string

record ApiSwitchSync =
  asy_Time :: "time option"
  asy_Duration :: "duration option"
  asy_Error :: "string option"

record SwitchMeta =
  swm_CreatedAt :: "time option"
  swm_UpdatedAt :: "time option"
  swm_Generation :: "64 word"

record ApiSwitch =
  asw_Id :: string
  asw_Meta :: "SwitchMeta option"
  asw_Description :: string
  asw_Rack :: "string option"
  asw_Room :: "string option"
  asw_Partition :: string
  asw_ReplaceMode :: int
  asw_ManagementIp :: string
  asw_ManagementUser :: "string option"
  asw_ConsoleCommand :: "string option"
  asw_Nics :: "ApiSwitchNic list"
  asw_MachineConnections :: "ApiMachineConnection list"
  asw_Os :: "ApiSwitchOS option"
  asw_LastSync :: "ApiSwitchSync option"
  asw_LastSyncError :: "ApiSwitchSync option"

record SwitchServiceUpdateRequest =
  swu_Id :: string
  swu_UpdateMeta :: "UpdateMeta option"
  swu_Description :: "string option"
  swu_ReplaceMode :: "int option"
  swu_ManagementIp :: "string option"
  swu_ManagementUser :: "string option"
  swu_ConsoleCommand :: "string option"
  swu_Nics :: "ApiSwitchNic list"
  swu_Os :: "ApiSwitchOS option"

record ApiSwitchStatus =
  ass_ID :: string
  ass_LastSync :: "ApiSwitchSync option"
  ass_LastSyncError :: "ApiSwitchSync option"

record SwitchOSQuery =
  soq_Vendor :: "int option"
  soq_Version :: "string option"

record SwitchQuery =
  swq_Id :: "string option"
  swq_Partition :: "string option"
  swq_Rack :: "string option"
  swq_Room :: "string option"
  swq_Os :: "SwitchOSQuery option"
  swq_ConnectedMachineId :: "string option"

definition empty_switch_query :: SwitchQuery where
  "empty_switch_query = \<lparr>swq_Id = None, swq_Partition = None, swq_Rack = None, swq_Room = None, swq_Os = None,
     swq_ConnectedMachineId = None\<rparr>"

text \<open>The strings of the enumerations and back, and the numbers of the states of a port.\<close>

record switch_enums =
  sen_ReplaceMode :: "int \<Rightarrow> string result"
  sen_ReplaceMode_of :: "string \<Rightarrow> int result"
  sen_Vendor :: "int \<Rightarrow> string result"
  sen_Vendor_of :: "string \<Rightarrow> int result"
  sen_PortStatus :: "int \<Rightarrow> string result"
  sen_PortStatus_of :: "string \<Rightarrow> int result"
  sen_BGPState :: "int \<Rightarrow> string result"
  sen_BGPState_of :: "string \<Rightarrow> int result"
  sen_UP :: int
  sen_DOWN :: int

section \<open>The filter\<close>

text \<open>An unknown vendor is no condition; a nil map of connections has no field for a machine.\<close>

definition SwitchFilter :: "switch_enums \<Rightarrow> SwitchQuery \<Rightarrow> Switch \<Rightarrow> bool" where
  "SwitchFilter en q s \<longleftrightarrow>
     matches_field (swq_Id q) (b_ID s) \<and> matches_field (swq_Partition q) (sw_Partition s) \<and>
     matches_field (swq_Rack q) (sw_Rack s) \<and> matches_field (swq_Room q) (sw_Room s) \<and>
     (case swq_Os q of
        None \<Rightarrow> True
      | Some os \<Rightarrow>
          given (soq_Vendor os) (\<lambda>v s. case sen_Vendor en v of
            Inl _ \<Rightarrow> True
          | Inr str \<Rightarrow> (case sw_OS s of None \<Rightarrow> False | Some o' \<Rightarrow> os_Vendor o' = str)) s \<and>
          given (soq_Version os) (\<lambda>v s. case sw_OS s of None \<Rightarrow> False | Some o' \<Rightarrow> os_Version o' = v) s) \<and>
     given (swq_ConnectedMachineId q) (\<lambda>i s. has_key (connections_of s) i) s"

section \<open>From the API\<close>

definition toSwitchBGPPortState :: "switch_enums \<Rightarrow> ApiSwitchBGPPortState option \<Rightarrow> SwitchBGPPortState option result" where
  "toSwitchBGPPortState en state =
     (case state of
        None \<Rightarrow> Inr None
      | Some s \<Rightarrow>
          bind_result (ToBGPState (sen_BGPState en) (abs_BgpState s)) (\<lambda>bgpState.
          case abs_BgpTimerUpEstablished s of
            None \<Rightarrow> Inl nil_dereference
          | Some seconds \<Rightarrow>
              Inr (Some \<lparr>bgp_Neighbor = abs_Neighbor s, bgp_PeerGroup = abs_PeerGroup s, bgp_VrfName = abs_VrfName s,
                bgp_BgpState = bgpState, bgp_BgpTimerUpEstablished = word_of_int seconds,
                bgp_SentPrefixCounter = abs_SentPrefixCounter s,
                bgp_AcceptedPrefixCounter = abs_AcceptedPrefixCounter s\<rparr>)))"

definition toSwitchPortState :: "switch_enums \<Rightarrow> ApiNicState option \<Rightarrow> NicState option result" where
  "toSwitchPortState en state =
     (case state of
        None \<Rightarrow> Inr None
      | Some s \<Rightarrow>
          bind_result (case ans_Desired s of
              None \<Rightarrow> Inr None
            | Some d \<Rightarrow> bind_result (ToSwitchPortStatus (sen_PortStatus en) d) (\<lambda>p. Inr (Some p))) (\<lambda>desired.
          bind_result (ToSwitchPortStatus (sen_PortStatus en) (ans_Actual s)) (\<lambda>actual.
          Inr (Some \<lparr>ns_Desired = desired, ns_Actual = actual\<rparr>))))"

definition toMetalNic :: "switch_enums \<Rightarrow> string \<Rightarrow> ApiSwitchNic \<Rightarrow> Nic result" where
  "toMetalNic en hostname n =
     bind_result (map_error (Wrapped ''failed to convert bgp port state: %w'')
       (toSwitchBGPPortState en (asn_BgpPortState n))) (\<lambda>bgpPortState.
     bind_result (map_error (Wrapped ''failed to convert port state: %w'')
       (toSwitchPortState en (asn_State n))) (\<lambda>nicState.
     Inr \<lparr>nic_MacAddress = pointer_SafeDeref (asn_Mac n), nic_Name = asn_Name n, nic_Identifier = asn_Identifier n,
       nic_Vrf = pointer_SafeDeref (asn_Vrf n), nic_Hostname = hostname, nic_State = nicState,
       nic_BGPPortState = bgpPortState, nic_Neighbors = []\<rparr>))"

fun toMetalNics :: "switch_enums \<Rightarrow> string \<Rightarrow> ApiSwitchNic list \<Rightarrow> Nic list result" where
  "toMetalNics en hostname [] = Inr []"
| "toMetalNics en hostname (n # ns) =
     bind_result (toMetalNic en hostname n) (\<lambda>nic.
     bind_result (toMetalNics en hostname ns) (\<lambda>nics. Inr (nic # nics)))"

text \<open>The loop keeps the map, the identifiers seen so far and those seen again.\<close>

fun connections_loop ::
  "switch_enums \<Rightarrow> string \<Rightarrow> ApiMachineConnection list \<Rightarrow> ConnectionMap \<Rightarrow> string list \<Rightarrow> string list \<Rightarrow>
   (ConnectionMap \<times> string list) result" where
  "connections_loop en hostname [] m connectedNics duplicateNics = Inr (m, duplicateNics)"
| "connections_loop en hostname (con # cons) m connectedNics duplicateNics =
     (case amc_Nic con of
        None \<Rightarrow> Inl nil_dereference
      | Some n \<Rightarrow>
          bind_result (toMetalNic en hostname n) (\<lambda>nic.
          connections_loop en hostname cons
            (map_append (amc_MachineId con) \<lparr>con_Nic = nic, con_MachineID = amc_MachineId con\<rparr> m)
            (connectedNics @ [nic_Identifier nic])
            (if nic_Identifier nic \<in> set connectedNics then duplicateNics @ [nic_Identifier nic] else duplicateNics)))"

definition toMachineConnections :: "switch_enums \<Rightarrow> string \<Rightarrow> ApiMachineConnection list \<Rightarrow> ConnectionMap result" where
  "toMachineConnections en hostname cons =
     bind_result (connections_loop en hostname cons [] [] []) (\<lambda>(m, duplicateNics).
     if length duplicateNics > 0 then Inl (InvalidArgument ''found multiple connections for nics %v'') else Inr m)"

definition toMetalSwitchSync :: "ApiSwitchSync option \<Rightarrow> SwitchSync option" where
  "toMetalSwitchSync sync =
     map_option (\<lambda>s. \<lparr>ss_Time = (case asy_Time s of None \<Rightarrow> 0 | Some t \<Rightarrow> t),
       ss_Duration = (case asy_Duration s of None \<Rightarrow> 0 | Some d \<Rightarrow> d), ss_Error = asy_Error s\<rparr>) sync"

definition switch_convertToInternal :: "switch_enums \<Rightarrow> ApiSwitch \<Rightarrow> Switch result" where
  "switch_convertToInternal en sw =
     bind_result (toMetalNics en (asw_Id sw) (asw_Nics sw)) (\<lambda>nics.
     bind_result (ToReplaceMode (sen_ReplaceMode en) (asw_ReplaceMode sw)) (\<lambda>replaceMode.
     case asw_Os sw of
       None \<Rightarrow> Inl (InvalidArgument ''switch os for switch %s is empty'')
     | Some os \<Rightarrow>
         bind_result (ToSwitchOSVendor (sen_Vendor en) (aos_Vendor os)) (\<lambda>vendor.
         bind_result (toMachineConnections en (asw_Id sw) (asw_MachineConnections sw)) (\<lambda>cons.
         Inr \<lparr>b_ID = asw_Id sw, b_Name = asw_Id sw, b_Description = asw_Description sw, b_Created = 0, b_Changed = 0,
           b_Generation = 0, sw_Rack = pointer_SafeDeref (asw_Rack sw), sw_Room = pointer_SafeDeref (asw_Room sw),
           sw_Partition = asw_Partition sw, sw_ReplaceMode = replaceMode, sw_ManagementIP = asw_ManagementIp sw,
           sw_ManagementUser = pointer_SafeDeref (asw_ManagementUser sw),
           sw_ConsoleCommand = pointer_SafeDeref (asw_ConsoleCommand sw),
           sw_OS = Some \<lparr>os_Vendor = vendor, os_Version = aos_Version os, os_MetalCoreVersion = aos_MetalCoreVersion os\<rparr>,
           sw_Nics = nics, sw_MachineConnections = Some cons\<rparr>))))"

definition GetNewNicState :: "ApiNicState option \<Rightarrow> int \<Rightarrow> ApiNicState \<times> bool" where
  "GetNewNicState current status =
     (case current of
        None \<Rightarrow> (\<lparr>ans_Desired = None, ans_Actual = status\<rparr>, True)
      | Some c \<Rightarrow>
          let state = \<lparr>ans_Desired = (if ans_Desired c = Some status then None else ans_Desired c), ans_Actual = status\<rparr>
          in (state, c \<noteq> state))"

section \<open>The ports of a registered switch\<close>

text \<open>Registering a known switch renames its ports; the ports are the new ones.\<close>

definition updateNicNames :: "Nic list \<Rightarrow> Nic list \<Rightarrow> Nic list" where
  "updateNicNames prev new =
     (let oldNics = MapByIdentifier prev; newNics = MapByIdentifier new
      in sort_key nic_Identifier (map (\<lambda>(i, newNic).
           case map_of oldNics i of None \<Rightarrow> newNic | Some oldNic \<Rightarrow> oldNic\<lparr>nic_Name := nic_Name newNic\<rparr>) newNics))"

definition updateAllButNics :: "switch_enums \<Rightarrow> Switch \<Rightarrow> SwitchServiceUpdateRequest \<Rightarrow> Switch result" where
  "updateAllButNics en s rq =
     (let s = s\<lparr>b_Description := (case swu_Description rq of None \<Rightarrow> b_Description s | Some d \<Rightarrow> d)\<rparr>
      in bind_result (case swu_ReplaceMode rq of None \<Rightarrow> Inr (sw_ReplaceMode s)
           | Some m \<Rightarrow> ToReplaceMode (sen_ReplaceMode en) m) (\<lambda>replaceMode.
         let s = s\<lparr>sw_ReplaceMode := replaceMode,
                   sw_ManagementIP := (case swu_ManagementIp rq of None \<Rightarrow> sw_ManagementIP s | Some x \<Rightarrow> x),
                   sw_ManagementUser := (case swu_ManagementUser rq of None \<Rightarrow> sw_ManagementUser s | Some x \<Rightarrow> x),
                   sw_ConsoleCommand := (case swu_ConsoleCommand rq of None \<Rightarrow> sw_ConsoleCommand s | Some x \<Rightarrow> x)\<rparr>
         in case swu_Os rq of
              None \<Rightarrow> Inr s
            | Some os \<Rightarrow>
                bind_result (ToSwitchOSVendor (sen_Vendor en) (aos_Vendor os)) (\<lambda>vendor.
                Inr (s\<lparr>sw_OS := Some \<lparr>os_Vendor = vendor, os_Version = aos_Version os,
                  os_MetalCoreVersion = aos_MetalCoreVersion os\<rparr>\<rparr>))))"

end
