(* ===== verification/SwitchAdoption.thy ===== *)
theory SwitchAdoption
  imports SwitchMessages IPs
begin

text \<open>
  The parts of \<^verbatim>\<open>pkg/repository/switch.go\<close> and \<^verbatim>\<open>switch-validation.go\<close> that compute on switches: adopting
  the configuration of another switch, the neighbors of machines after that, the BGP filters of ports,
  and the validation of ports. The sets of addresses of netipx are an argument.
\<close>

section \<open>Adopting a configuration\<close>

definition vendor_of :: "Switch \<Rightarrow> SwitchOSVendor result" where
  "vendor_of s = (case sw_OS s of None \<Rightarrow> Inl nil_dereference | Some os \<Rightarrow> Inr (os_Vendor os))"

definition adoptNics :: "Switch \<Rightarrow> Switch \<Rightarrow> Nic list result" where
  "adoptNics twin new =
     bind_result (vendor_of twin) (\<lambda>vendor.
     bind_result (TranslateNicMap new vendor) (\<lambda>newNicMap.
     let twinNicsByName = MapByName (sw_Nics twin);
         missingNics = filter (\<lambda>name. \<not> has_key newNicMap name) (map_keys twinNicsByName)
     in if length missingNics > 0
        then Inl (FailedPrecondition ''new switch misses the nics %v - check the breakout configuration of the switch ports of switch %s'')
        else Inr (SliceStable (\<lambda>a b. nic_Name a < nic_Name b) (map (\<lambda>(name, nic).
          case map_of twinNicsByName name of None \<Rightarrow> nic | Some twinNic \<Rightarrow> nic\<lparr>nic_Vrf := nic_Vrf twinNic\<rparr>) newNicMap))))"

text \<open>The port of a connection keeps its other fields when it gets the names of the new switch.\<close>

definition adopt_connection :: "Nic \<Rightarrow> Connection \<Rightarrow> Connection" where
  "adopt_connection n con =
     con\<lparr>con_Nic := (con_Nic con)\<lparr>nic_Name := nic_Name n, nic_Identifier := nic_Identifier n,
       nic_MacAddress := nic_MacAddress n\<rparr>\<rparr>"

definition adopted_connections :: "NicMap \<Rightarrow> Connection list \<Rightarrow> Connection list" where
  "adopted_connections newNicMap cons =
     concat (map (\<lambda>con. case map_of newNicMap (nic_Name (con_Nic con)) of
       None \<Rightarrow> [] | Some n \<Rightarrow> [adopt_connection n con]) cons)"

definition adoptMachineConnections :: "Switch \<Rightarrow> Switch \<Rightarrow> ConnectionMap result" where
  "adoptMachineConnections twin new =
     bind_result (vendor_of twin) (\<lambda>vendor.
     bind_result (TranslateNicMap new vendor) (\<lambda>newNicMap.
     let missingNics = filter (\<lambda>name. \<not> has_key newNicMap name)
           (map (\<lambda>con. nic_Name (con_Nic con)) (concat (map snd (connections_of twin))))
     in if length missingNics > 0
        then Inl (Internal ''twin switch %s has machine connections with switch ports %v which are missing on the new switch %s'')
        else Inr (fold (\<lambda>(mid, cons). AList.update mid (adopted_connections newNicMap cons)) (connections_of twin) [])))"

definition adoptConfiguration :: "Switch \<Rightarrow> Switch \<Rightarrow> Switch result" where
  "adoptConfiguration existing new =
     bind_result (map_error (Wrapped ''could not adopt existing nic configuration, err: %w'') (adoptNics existing new)) (\<lambda>newNics.
     bind_result (adoptMachineConnections existing new) (\<lambda>newMachineConnections.
     Inr (new\<lparr>sw_MachineConnections := Some newMachineConnections, sw_Nics := newNics,
       sw_ReplaceMode := SwitchReplaceModeOperational\<rparr>)))"

definition adoptFromTwin :: "Switch \<Rightarrow> Switch \<Rightarrow> Switch \<Rightarrow> Switch result" where
  "adoptFromTwin prev twin new =
     bind_result (check_that (sw_Partition new = sw_Partition prev)
       (FailedPrecondition ''old and new switch belong to different partitions, old: %v, new: %v'')) (\<lambda>_.
     bind_result (check_that (sw_Rack new = sw_Rack prev)
       (FailedPrecondition ''old and new switch belong to different racks, old: %v, new: %v'')) (\<lambda>_.
     bind_result (check_that (sw_ReplaceMode twin \<noteq> SwitchReplaceModeReplace)
       (FailedPrecondition ''twin switch must not be in replace mode'')) (\<lambda>_.
     if length (connections_of twin) = 0 then Inr (new\<lparr>sw_ReplaceMode := SwitchReplaceModeOperational\<rparr>)
     else adoptConfiguration twin new)))"

section \<open>The neighbors of machines\<close>

definition nicInConnections :: "string \<Rightarrow> string \<Rightarrow> Connection list \<Rightarrow> bool" where
  "nicInConnections name mac cons =
     list_ex (\<lambda>con. nic_Name (con_Nic con) = name \<and> nic_MacAddress (con_Nic con) = mac) cons"

text \<open>A port of a switch has no neighbors of its own, so it becomes a neighbor as it is.\<close>

fun adjust_neighbors :: "Connection list \<Rightarrow> NicMap \<Rightarrow> BareNic list \<Rightarrow> BareNic list result" where
  "adjust_neighbors cons nicMap [] = Inr []"
| "adjust_neighbors cons nicMap (neigh # neighs) =
     bind_result
       (if nicInConnections (nic_Name neigh) (nic_MacAddress neigh) cons
        then (case map_of nicMap (nic_Name neigh) of
                None \<Rightarrow> Inl (Plain ''unable to find corresponding new neighbor nic for %s'')
              | Some n \<Rightarrow> Inr (BareNic.truncate n))
        else Inr neigh) (\<lambda>newNeighbor.
     bind_result (adjust_neighbors cons nicMap neighs) (\<lambda>newNeighbors. Inr (newNeighbor # newNeighbors)))"

fun adjustMachineNics :: "Nic list \<Rightarrow> Connection list \<Rightarrow> NicMap \<Rightarrow> Nic list result" where
  "adjustMachineNics [] cons nicMap = Inr []"
| "adjustMachineNics (nic # nics) cons nicMap =
     bind_result (adjust_neighbors cons nicMap (nic_Neighbors nic)) (\<lambda>newNeighbors.
     bind_result (adjustMachineNics nics cons nicMap) (\<lambda>newNics.
     Inr (nic\<lparr>nic_Neighbors := newNeighbors\<rparr> # newNics)))"

section \<open>Filters of routes\<close>

definition ipWithMask :: "string \<Rightarrow> string result" where
  "ipWithMask ip =
     (case ParseAddr ip of
        None \<Rightarrow> Inl (Plain ''netip.ParseAddr'')
      | Some parsed \<Rightarrow> Inr (ip @ ''/'' @ itoa (BitLen parsed)))"

fun with_masks :: "string list \<Rightarrow> string list result" where
  "with_masks [] = Inr []"
| "with_masks (ip # ips) =
     bind_result (ipWithMask ip) (\<lambda>c. bind_result (with_masks ips) (\<lambda>cs. Inr (c # cs)))"

fun firewall_loop :: "MachineNetwork list \<Rightarrow> string list \<Rightarrow> string list \<Rightarrow> BGPFilter result" where
  "firewall_loop [] cidrs vnis = Inr \<lparr>bf_Cidrs = cidrs, bf_Vnis = vnis\<rparr>"
| "firewall_loop (net # nets) cidrs vnis =
     (if mn_Underlay net
      then bind_result (with_masks (mn_IPs net)) (\<lambda>cs. firewall_loop nets (cidrs @ cs) vnis)
      else firewall_loop nets cidrs (if mn_Vrf net \<noteq> 0 then vnis @ [itoa (unat (mn_Vrf net))] else vnis))"

definition makeBGPFilterFirewall :: "MachineNetwork list \<Rightarrow> BGPFilter result" where
  "makeBGPFilterFirewall nets = firewall_loop nets [] []"

definition isFirewallIP :: "string \<Rightarrow> Machine list \<Rightarrow> bool" where
  "isFirewallIP ip ms =
     list_ex (\<lambda>m. case m_Allocation m of
        None \<Rightarrow> False
      | Some a \<Rightarrow> ma_Role a = RoleFirewall \<and> list_ex (\<lambda>nw. ip \<in> set (mn_IPs nw)) (ma_MachineNetworks a)) ms"

text \<open>The smallest sorted list of prefixes with the same addresses, of netipx.\<close>

fun parse_cidrs :: "string list \<Rightarrow> Prefix_bits list result" where
  "parse_cidrs [] = Inr []"
| "parse_cidrs (c # cs) =
     (case ParsePrefix c of
        None \<Rightarrow> Inl (Plain ''netip.ParsePrefix'')
      | Some p \<Rightarrow> bind_result (parse_cidrs cs) (\<lambda>ps. Inr (p # ps)))"

definition compactCidrs :: "(Prefix_bits list \<Rightarrow> Prefix_bits list result) \<Rightarrow> string list \<Rightarrow> string list result" where
  "compactCidrs IPSet cidrs =
     bind_result (parse_cidrs cidrs) (\<lambda>ps.
     bind_result (map_error (Wrapped ''unable to create ipset:%w'') (IPSet ps)) (\<lambda>ps.
     Inr (map Prefix_bits_String ps)))"

text \<open>The last private network, and the last underlay network that is not private.\<close>

definition private_network :: "MachineNetwork list \<Rightarrow> MachineNetwork option" where
  "private_network nets = fold (\<lambda>net acc. if mn_Private net then Some net else acc) nets None"

definition underlay_network :: "MachineNetwork list \<Rightarrow> MachineNetwork option" where
  "underlay_network nets = fold (\<lambda>net acc. if \<not> mn_Private net \<and> mn_Underlay net then Some net else acc) nets None"

definition private_cidrs :: "(string, Network) gomap \<Rightarrow> MachineNetwork option \<Rightarrow> string list result" where
  "private_cidrs networks private =
     (case private of
        None \<Rightarrow> Inr []
      | Some p \<Rightarrow>
          (case map_of networks (mn_NetworkID p) of
             None \<Rightarrow> Inl (Plain ''no private network found for id:%s'')
           | Some privateNetwork \<Rightarrow>
               (case map_of networks (nw_ParentNetworkID privateNetwork) of
                  None \<Rightarrow> Inl (Plain ''parent network %s not found for id:%s'')
                | Some parentNetwork \<Rightarrow> Inr (mn_Prefixes p @ nw_AdditionalAnnouncableCIDRs parentNetwork))))"

fun project_cidrs :: "IP list \<Rightarrow> MachineNetwork option \<Rightarrow> Machine list \<Rightarrow> string list result" where
  "project_cidrs [] underlay ms = Inr []"
| "project_cidrs (i # is) underlay ms =
     (if (case underlay of None \<Rightarrow> False | Some u \<Rightarrow> ContainsIP u (b_ID i)) then project_cidrs is underlay ms
      else
        bind_result (GetIPAddress i) (\<lambda>ipAddress.
        if isFirewallIP ipAddress ms then project_cidrs is underlay ms
        else
          bind_result (ipWithMask (b_ID i)) (\<lambda>c.
          bind_result (project_cidrs is underlay ms) (\<lambda>cs. Inr (c # cs)))))"

definition makeBGPFilterMachine ::
  "(Prefix_bits list \<Rightarrow> Prefix_bits list result) \<Rightarrow> Machine \<Rightarrow> Machine list \<Rightarrow> (string, Network) gomap \<Rightarrow>
   (string, IP list) gomap \<Rightarrow> BGPFilter result" where
  "makeBGPFilterMachine IPSet m ms networks ips =
     (case m_Allocation m of
        None \<Rightarrow> Inr \<lparr>bf_Cidrs = [], bf_Vnis = []\<rparr>
      | Some a \<Rightarrow>
          bind_result (private_cidrs networks (private_network (ma_MachineNetworks a))) (\<lambda>cidrs.
          bind_result (project_cidrs (map_get [] ips (ma_Project a)) (underlay_network (ma_MachineNetworks a)) ms) (\<lambda>ipCidrs.
          bind_result (compactCidrs IPSet (cidrs @ ipCidrs)) (\<lambda>compactedCidrs.
          Inr \<lparr>bf_Cidrs = compactedCidrs, bf_Vnis = []\<rparr>))))"

definition makeBGPFilter ::
  "(Prefix_bits list \<Rightarrow> Prefix_bits list result) \<Rightarrow> Machine option \<Rightarrow> Machine list \<Rightarrow> string \<Rightarrow> Network list \<Rightarrow>
   IP list \<Rightarrow> BGPFilter result" where
  "makeBGPFilter IPSet m ms vrf networks ips =
     (case m of
        None \<Rightarrow> Inr \<lparr>bf_Cidrs = [], bf_Vnis = []\<rparr>
      | Some m \<Rightarrow>
          (case m_Allocation m of
             None \<Rightarrow> Inr \<lparr>bf_Cidrs = [], bf_Vnis = []\<rparr>
           | Some a \<Rightarrow>
               if ma_Role a = RoleFirewall
               then (if vrf = ''default'' then makeBGPFilterFirewall (ma_MachineNetworks a)
                     else Inr \<lparr>bf_Cidrs = [], bf_Vnis = []\<rparr>)
               else makeBGPFilterMachine IPSet m ms (NetworksById networks) (IPsByProject ips)))"

section \<open>Validation of ports\<close>

text \<open>\<open>lo.FindDuplicates\<close>: the values that occur more than once.\<close>

definition FindDuplicates :: "'a list \<Rightarrow> 'a list" where
  "FindDuplicates xs = lo_Uniq (filter (\<lambda>x. count_list xs x > 1) xs)"

definition checkDuplicateNics :: "Nic list \<Rightarrow> unit result" where
  "checkDuplicateNics nics =
     errors_Join
       ((if length (FindDuplicates (map nic_Identifier nics)) > 0
         then [Plain ''switch nics contain duplicate identifiers:%v''] else []) @
        (if length (FindDuplicates (map nic_Name nics)) > 0
         then [Plain ''switch nics contain duplicate names:%v''] else []))"

definition nicIsConnected :: "string \<Rightarrow> ConnectionMap \<Rightarrow> bool" where
  "nicIsConnected i cons = list_ex (\<lambda>con. nic_Identifier (con_Nic con) = i) (concat (map snd cons))"

definition validateConnectedNics :: "Nic list \<Rightarrow> Nic list \<Rightarrow> ConnectionMap \<Rightarrow> unit result" where
  "validateConnectedNics prev new cons =
     (let newNics = MapByIdentifier new;
          connected = filter (\<lambda>(i, n). nicIsConnected i cons) (MapByIdentifier prev);
          cannotRemove = filter (\<lambda>(i, n). \<not> has_key newNics i) connected;
          cannotRename = filter (\<lambda>(i, oldNic). case map_of newNics i of None \<Rightarrow> False
            | Some newNic \<Rightarrow> nic_Name newNic \<noteq> nic_Name oldNic) connected
      in errors_Join
           ((if length cannotRemove > 0
             then [Plain ''cannot remove nics %v because they are connected to machines''] else []) @
            (if length cannotRename > 0
             then [Plain ''cannot rename nics %v because they are connected to machines''] else [])))"

end
