(* ===== verification/SwitchRepository.thy ===== *)
theory SwitchRepository
  imports SwitchAdoption
begin

text \<open>
  The switch repository, \<^verbatim>\<open>pkg/repository/switch.go\<close> and \<^verbatim>\<open>switch-validation.go\<close>, on the tables of
  switches, their status, machines, networks and addresses, which share one state. The errors are the
  ones of the methods; the conversions of the store are added by the generic store.
\<close>

record 'st switch_env =
  se_switches :: "('st, string, Switch) rethink"
  se_status :: "('st, string, SwitchStatus) rethink"
  se_machines :: "('st, string, Machine) rethink"
  se_networks :: "('st, string, Network) rethink"
  se_ips :: "('st, string, IP) rethink"
  se_partition :: "string \<Rightarrow> 'st \<Rightarrow> unit result" \<comment> \<open>whether a partition can be read\<close>
  se_enums :: switch_enums
  se_machine_enums :: machine_enums
  se_IPSet :: "Prefix_bits list \<Rightarrow> Prefix_bits list result"
  se_eu :: errorutil
  se_now :: time
  se_newID :: "string result"

section \<open>Conversion to the API\<close>

definition connected_machine_id :: "Nic \<Rightarrow> ConnectionMap \<Rightarrow> string option" where
  "connected_machine_id nic cons =
     map_option con_MachineID (find (\<lambda>c. nic_Name (con_Nic c) = nic_Name nic) (concat (map snd cons)))"

definition getConnectedMachineForNic :: "'st switch_env \<Rightarrow> Nic \<Rightarrow> ConnectionMap \<Rightarrow> ('st, Machine option) action" where
  "getConnectedMachineForNic env nic cons =
     (case connected_machine_id nic cons of
        None \<Rightarrow> return None
      | Some i \<Rightarrow> bind_action (tbl_Get (se_machines env) i) (\<lambda>m. return (Some m)))"

definition fromSwitchBGPPortState :: "switch_enums \<Rightarrow> SwitchBGPPortState option \<Rightarrow> ApiSwitchBGPPortState option result" where
  "fromSwitchBGPPortState en state =
     (case state of
        None \<Rightarrow> Inr None
      | Some s \<Rightarrow>
          bind_result (FromBGPState (sen_BGPState_of en) (bgp_BgpState s)) (\<lambda>bgpState.
          Inr (Some \<lparr>abs_Neighbor = bgp_Neighbor s, abs_PeerGroup = bgp_PeerGroup s, abs_VrfName = bgp_VrfName s,
            abs_BgpState = bgpState, abs_BgpTimerUpEstablished = Some (sint (bgp_BgpTimerUpEstablished s)),
            abs_SentPrefixCounter = bgp_SentPrefixCounter s, abs_AcceptedPrefixCounter = bgp_AcceptedPrefixCounter s\<rparr>)))"

definition fromSwitchPortState :: "switch_enums \<Rightarrow> NicState option \<Rightarrow> ApiNicState result" where
  "fromSwitchPortState en state =
     (case state of
        None \<Rightarrow> Inl (InvalidArgument ''nic state for port %s cannot be empty'')
      | Some s \<Rightarrow>
          bind_result (case ns_Desired s of
              None \<Rightarrow> Inr None
            | Some d \<Rightarrow>
                bind_result (map_error (\<lambda>_. InvalidArgument ''failed to parse desired port status for nic %s: %w'')
                  (FromSwitchPortStatus (sen_PortStatus_of en) 0 (Some d))) (\<lambda>p. Inr (Some p))) (\<lambda>desired.
          bind_result (map_error (\<lambda>_. InvalidArgument ''failed to parse actual port status for nic %s: %w'')
            (FromSwitchPortStatus (sen_PortStatus_of en) 0 (Some (ns_Actual s)))) (\<lambda>actual.
          Inr \<lparr>ans_Desired = desired, ans_Actual = actual\<rparr>)))"

definition nic_identifier :: "Nic \<Rightarrow> string result" where
  "nic_identifier nic =
     (let i = (if nic_Identifier nic = '''' then nic_MacAddress nic else nic_Identifier nic)
      in if i = '''' then Inl (FailedPrecondition ''both, identifier and mac address, of nic %s are empty which is not allowed'')
         else Inr i)"

definition PointerOrNil :: "string \<Rightarrow> string option" where
  "PointerOrNil s = (if s = '''' then None else Some s)"

definition project_machines_query :: "Switch \<Rightarrow> string \<Rightarrow> MachineQuery" where
  "project_machines_query sw project =
     empty_machine_query\<lparr>mq_Allocation := Some (empty_allocation_query\<lparr>maq_Project := Some project\<rparr>),
       mq_Partition := Some (sw_Partition sw), mq_Rack := Some (sw_Rack sw)\<rparr>"

text \<open>The machines of the project are kept from one port to the next.\<close>

fun switch_nics_loop ::
  "'st switch_env \<Rightarrow> Switch \<Rightarrow> Network list \<Rightarrow> IP list \<Rightarrow> Nic list \<Rightarrow> Machine list \<Rightarrow> ('st, ApiSwitchNic list) action" where
  "switch_nics_loop env sw networks ips [] projectMachines = return []"
| "switch_nics_loop env sw networks ips (nic # nics) projectMachines =
     bind_action (lift_result (fromSwitchBGPPortState (se_enums env) (nic_BGPPortState nic))) (\<lambda>bgpPortState.
     bind_action (lift_result (fromSwitchPortState (se_enums env) (nic_State nic))) (\<lambda>state.
     bind_action (getConnectedMachineForNic env nic (connections_of sw)) (\<lambda>m.
     bind_action
       (case Option.bind m m_Allocation of
          None \<Rightarrow> return projectMachines
        | Some a \<Rightarrow> tbl_List (se_machines env)
            [MachineFilter (se_machine_enums env) (project_machines_query sw (ma_Project a))]) (\<lambda>projectMachines.
     bind_action (lift_result (makeBGPFilter (se_IPSet env) m projectMachines (nic_Vrf nic) networks ips)) (\<lambda>flt.
     bind_action (lift_result (nic_identifier nic)) (\<lambda>i.
     bind_action (switch_nics_loop env sw networks ips nics projectMachines) (\<lambda>switchNics.
     return (\<lparr>asn_Name = nic_Name nic, asn_Identifier = i, asn_Mac = PointerOrNil (nic_MacAddress nic),
       asn_Vrf = PointerOrNil (nic_Vrf nic), asn_State = Some state, asn_BgpFilter = Some flt,
       asn_BgpPortState = bgpPortState\<rparr> # switchNics))))))))"

definition convertToSwitchNics :: "'st switch_env \<Rightarrow> Switch \<Rightarrow> ('st, ApiSwitchNic list) action" where
  "convertToSwitchNics env sw =
     bind_action (tbl_List (se_networks env) []) (\<lambda>networks.
     bind_action (tbl_List (se_ips env) []) (\<lambda>ips.
     bind_action (switch_nics_loop env sw networks ips (sw_Nics sw) []) (\<lambda>switchNics.
     return (sort_key asn_Name switchNics))))"

definition convertMachineConnections :: "ConnectionMap \<Rightarrow> ApiSwitchNic list \<Rightarrow> ApiMachineConnection list result" where
  "convertMachineConnections machineConnections nics =
     (let found = map (\<lambda>con. (con, find (\<lambda>n. asn_Name n = nic_Name (con_Nic con)) nics))
            (concat (map snd machineConnections));
          notFoundNics = filter (\<lambda>(con, n). n = None) found
      in if length notFoundNics > 0
         then Inl (InvalidArgument ''nics %v could not be found but are connected to machines'')
         else Inr (sort_key amc_MachineId (sort_key (\<lambda>c. case amc_Nic c of None \<Rightarrow> '''' | Some n \<Rightarrow> asn_Name n)
           (map (\<lambda>(con, n). \<lparr>amc_MachineId = con_MachineID con, amc_Nic = n\<rparr>) found))))"

text \<open>The two syncs of a status; one that is missing gives a sync at the zero time.\<close>

definition sync_of :: "SwitchSync option \<Rightarrow> ApiSwitchSync" where
  "sync_of s =
     (case s of
        None \<Rightarrow> \<lparr>asy_Time = Some 0, asy_Duration = Some 0, asy_Error = None\<rparr>
      | Some s \<Rightarrow> \<lparr>asy_Time = Some (ss_Time s), asy_Duration = Some (ss_Duration s), asy_Error = ss_Error s\<rparr>)"

text \<open>A row that is not there is None, any other error ends the caller.\<close>

definition get_or_none :: "('st, 'z) table \<Rightarrow> string \<Rightarrow> ('st, 'z Base_scheme option) action" where
  "get_or_none rt i st =
     (case storage_Get rt i st of
        Inr e \<Rightarrow> (Inr (Some e), st)
      | Inl err \<Rightarrow> if IsNotFound err then (Inr None, st) else (Inl err, st))"

definition switch_convertToProto :: "'st switch_env \<Rightarrow> Switch \<Rightarrow> ('st, ApiSwitch) action" where
  "switch_convertToProto env sw =
     bind_action (convertToSwitchNics env sw) (\<lambda>nics.
     bind_action (lift_result (convertMachineConnections (connections_of sw) nics)) (\<lambda>cons.
     bind_action (lift_result (FromReplaceMode (sen_ReplaceMode_of (se_enums env)) (sw_ReplaceMode sw))) (\<lambda>replaceMode.
     bind_action (lift_result (vendor_of sw)) (\<lambda>v.
     bind_action (lift_result (FromSwitchOSVendor (sen_Vendor_of (se_enums env)) v)) (\<lambda>vendor.
     bind_action (get_or_none (se_status env) (b_ID sw)) (\<lambda>status.
     return
       \<lparr>asw_Id = b_ID sw,
        asw_Meta = Some \<lparr>swm_CreatedAt = Some (b_Created sw), swm_UpdatedAt = Some (b_Changed sw),
          swm_Generation = b_Generation sw\<rparr>,
        asw_Description = b_Description sw, asw_Rack = PointerOrNil (sw_Rack sw), asw_Room = PointerOrNil (sw_Room sw),
        asw_Partition = sw_Partition sw, asw_ReplaceMode = replaceMode, asw_ManagementIp = sw_ManagementIP sw,
        asw_ManagementUser = PointerOrNil (sw_ManagementUser sw),
        asw_ConsoleCommand = PointerOrNil (sw_ConsoleCommand sw), asw_Nics = nics, asw_MachineConnections = cons,
        asw_Os = map_option (\<lambda>os. \<lparr>aos_Vendor = vendor, aos_Version = os_Version os,
          aos_MetalCoreVersion = os_MetalCoreVersion os\<rparr>) (sw_OS sw),
        asw_LastSync = map_option (\<lambda>s. sync_of (st_LastSync s)) status,
        asw_LastSyncError = map_option (\<lambda>s. sync_of (st_LastSyncError s)) status\<rparr>))))))"

section \<open>Status\<close>

definition GetSwitchStatus :: "'st switch_env \<Rightarrow> string \<Rightarrow> ('st, ApiSwitchStatus) action" where
  "GetSwitchStatus env i =
     bind_action (get_or_none (se_status env) i) (\<lambda>status.
     return (case status of
        None \<Rightarrow> \<lparr>ass_ID = i, ass_LastSync = None, ass_LastSyncError = None\<rparr>
      | Some s \<Rightarrow> \<lparr>ass_ID = i, ass_LastSync = map_option (\<lambda>x. sync_of (Some x)) (st_LastSync s),
          ass_LastSyncError = map_option (\<lambda>x. sync_of (Some x)) (st_LastSyncError s)\<rparr>))"

definition SetSwitchStatus :: "'st switch_env \<Rightarrow> ApiSwitchStatus \<Rightarrow> ('st, unit) action" where
  "SetSwitchStatus env status st =
     (case storage_Upsert (se_status env) (se_now env)
         \<lparr>b_ID = ass_ID status, b_Name = '''', b_Description = '''', b_Created = 0, b_Changed = 0, b_Generation = 0,
          st_LastSync = toMetalSwitchSync (ass_LastSync status),
          st_LastSyncError = toMetalSwitchSync (ass_LastSyncError status)\<rparr> st of
        (_, Inl err) \<Rightarrow> (Inl err, st)
      | (_, Inr st) \<Rightarrow> (Inr (), st))"

section \<open>Create, update, delete, find and list\<close>

definition switch_get :: "'st switch_env \<Rightarrow> string \<Rightarrow> ('st, Switch) action" where
  "switch_get env i = tbl_Get (se_switches env) i"

text \<open>A request without a switch would return nil; the validation dereferences it before.\<close>

definition switch_create :: "'st switch_env \<Rightarrow> ApiSwitch option \<Rightarrow> ('st, Switch) action" where
  "switch_create env req =
     (case req of
        None \<Rightarrow> fail nil_dereference
      | Some msg \<Rightarrow>
          bind_action (lift_result (switch_convertToInternal (se_enums env) msg)) (\<lambda>sw.
          tbl_Create (se_switches env) (se_now env) (se_newID env) sw))"

definition switch_update :: "'st switch_env \<Rightarrow> Switch \<Rightarrow> SwitchServiceUpdateRequest \<Rightarrow> ('st, Switch) action" where
  "switch_update env sw rq =
     bind_action (lift_result (updateAllButNics (se_enums env) sw rq)) (\<lambda>sw.
     bind_action (lift_result
       (if swu_Nics rq = [] then Inr sw
        else bind_result (toMetalNics (se_enums env) (b_ID sw) (swu_Nics rq)) (\<lambda>nics. Inr (sw\<lparr>sw_Nics := nics\<rparr>)))) (\<lambda>sw.
     tbl_Update (se_switches env) (se_now env) sw))"

definition updateOnRegister :: "'st switch_env \<Rightarrow> Switch \<Rightarrow> SwitchServiceUpdateRequest \<Rightarrow> ('st, Switch) action" where
  "updateOnRegister env sw rq =
     bind_action (lift_result (updateAllButNics (se_enums env) sw rq)) (\<lambda>sw.
     bind_action (lift_result
       (if length (swu_Nics rq) > 0
        then bind_result (toMetalNics (se_enums env) (b_ID sw) (swu_Nics rq)) (\<lambda>nics.
          Inr (sw\<lparr>sw_Nics := updateNicNames (sw_Nics sw) nics\<rparr>))
        else Inr sw)) (\<lambda>sw.
     tbl_Update (se_switches env) (se_now env) sw))"

definition switch_delete :: "'st switch_env \<Rightarrow> Switch \<Rightarrow> ('st, string option) action" where
  "switch_delete env sw =
     bind_action (get_or_none (se_status env) (b_ID sw)) (\<lambda>status.
     bind_action (case status of None \<Rightarrow> return () | Some s \<Rightarrow> tbl_Delete (se_status env) s) (\<lambda>_.
     bind_action (tbl_Delete (se_switches env) sw) (\<lambda>_. return None)))"

definition switchFilters :: "'st switch_env \<Rightarrow> SwitchQuery option \<Rightarrow> (Switch \<Rightarrow> bool) list" where
  "switchFilters env q = (case q of None \<Rightarrow> [] | Some q \<Rightarrow> [SwitchFilter (se_enums env) q])"

definition switch_find :: "'st switch_env \<Rightarrow> SwitchQuery option \<Rightarrow> ('st, Switch) action" where
  "switch_find env q = tbl_Find (se_switches env) (switchFilters env q)"

definition switch_list :: "'st switch_env \<Rightarrow> SwitchQuery option \<Rightarrow> ('st, Switch list) action" where
  "switch_list env q = tbl_List (se_switches env) (switchFilters env q)"

section \<open>Validation\<close>

definition partition_error :: "'st switch_env \<Rightarrow> string \<Rightarrow> 'st \<Rightarrow> go_error list" where
  "partition_error env p st = (case se_partition env p st of Inl err \<Rightarrow> [Internal ''%w''] | Inr _ \<Rightarrow> [])"

definition result_error :: "'a result \<Rightarrow> go_error list" where
  "result_error r = (case r of Inl err \<Rightarrow> [err] | Inr _ \<Rightarrow> [])"

definition switch_validateCreate :: "'st switch_env \<Rightarrow> ApiSwitch option \<Rightarrow> 'st \<Rightarrow> unit result" where
  "switch_validateCreate env req st =
     (case req of
        None \<Rightarrow> Inl nil_dereference
      | Some msg \<Rightarrow>
          let errs = partition_error env (asw_Partition msg) st
          in case switch_convertToInternal (se_enums env) msg of
               Inl err \<Rightarrow> errors_Join (errs @ [err])
             | Inr sw \<Rightarrow> errors_Join (errs @ result_error (checkDuplicateNics (sw_Nics sw))))"

text \<open>The vendor of a request with an unknown one is the empty string.\<close>

definition vendor_errors :: "switch_enums \<Rightarrow> ApiSwitchOS \<Rightarrow> SwitchOSVendor \<Rightarrow> go_error list" where
  "vendor_errors en os vendor =
     (let req = ToSwitchOSVendor (sen_Vendor en) (aos_Vendor os)
      in result_error req @
         (if (case req of Inl _ \<Rightarrow> '''' | Inr v \<Rightarrow> v) \<noteq> vendor
          then [Plain ''cannot update switch os vendor from %s to %s, use replace instead''] else []))"

definition switch_validateUpdate ::
  "'st switch_env \<Rightarrow> SwitchServiceUpdateRequest \<Rightarrow> Switch \<Rightarrow> ('st, unit) action" where
  "switch_validateUpdate env rq oldSwitch =
     bind_action (on_error (\<lambda>_. Internal ''%w'') (tbl_Get (se_switches env) (swu_Id rq))) (\<lambda>sw st.
     (let errs = partition_error env (sw_Partition sw) st;
          reqNics = toMetalNics (se_enums env) (swu_Id rq) (swu_Nics rq);
          nics = (case reqNics of Inl _ \<Rightarrow> [] | Inr ns \<Rightarrow> ns);
          more = result_error reqNics @ result_error (checkDuplicateNics nics) @
            (if nics = [] then [] else result_error (validateConnectedNics (sw_Nics sw) nics (connections_of sw)))
      in case swu_Os rq of
           None \<Rightarrow> (errors_Join (errs @ more), st)
         | Some os \<Rightarrow>
             (case vendor_of sw of
                Inl err \<Rightarrow> (Inl err, st)
              | Inr vendor \<Rightarrow> (errors_Join (errs @ vendor_errors (se_enums env) os vendor @ more), st))))"

definition switch_validateDelete :: "Switch \<Rightarrow> unit result" where
  "switch_validateDelete sw =
     check_that (\<not> length (connections_of sw) > 0)
       (FailedPrecondition ''cannot delete switch %s while it still has machines connected to it'')"

definition switch_operations ::
  "'st switch_env \<Rightarrow>
   ('st, Switch, ApiSwitch, ApiSwitch option, SwitchServiceUpdateRequest, SwitchQuery option) repository" where
  "switch_operations env =
     \<lparr>rp_validateCreate = (\<lambda>req st. (bind_result (switch_validateCreate env req st) (\<lambda>_. Inr req), st)),
      rp_create = switch_create env,
      rp_get = switch_get env,
      rp_find = switch_find env,
      rp_list = switch_list env,
      rp_matchScope = (\<lambda>_. True),
      rp_validateUpdate = (\<lambda>rq e. bind_action (switch_validateUpdate env rq e) (\<lambda>_. return rq)),
      rp_update = switch_update env,
      rp_validateDelete = (\<lambda>e. lift_result (switch_validateDelete e)),
      rp_delete = switch_delete env,
      rp_convertToProto = switch_convertToProto env,
      rp_updateMeta = swu_UpdateMeta,
      rp_SetChanged = (\<lambda>t e. e\<lparr>b_Changed := t\<rparr>),
      rp_setDeletionTask = (\<lambda>_ m. m)\<rparr>"

lemma switch_validateUpdate_reads [simp]: "reads_only (switch_validateUpdate env rq e)"
proof -
  have "reads_only (\<lambda>st. (f sw st, st))" for f :: "'b \<Rightarrow> 'c \<Rightarrow> 'd result" and sw by (simp add: reads_only_def)
  then show ?thesis
    unfolding switch_validateUpdate_def
    by (intro bind_reads reads_basic tbl_reads) (auto simp: reads_only_def Let_def split: option.split sum.split)
qed

interpretation switch_repo: scoped_repository "switch_operations env" "\<lambda>st. st"
proof
  show "snd (rp_validateUpdate (switch_operations env) u e st) = st" for u e st
    by (rule reads_onlyD) (simp add: switch_operations_def bind_reads)
qed (simp_all add: switch_operations_def switch_get_def tbl_Get_def)

end
