(* ===== verification/SwitchRegistration.thy ===== *)
theory SwitchRegistration
  imports SwitchRepository
begin

text \<open>
  The operations of \<^verbatim>\<open>pkg/repository/switch.go\<close> beyond the generic store: registering a switch, replacing
  and migrating one, the state of a port, the connections of a machine and the VRF of its ports. An
  operation that fails half way leaves the writes before the failure.
\<close>

section \<open>The machines of a switch\<close>

text \<open>The loop over the connections, in the order of the list.\<close>

fun adjustMachineConnections :: "'st switch_env \<Rightarrow> ConnectionMap \<Rightarrow> NicMap \<Rightarrow> ('st, unit) action" where
  "adjustMachineConnections env [] nicMap = return ()"
| "adjustMachineConnections env ((mid, cons) # rest) nicMap =
     bind_action (tbl_Get (se_machines env) mid) (\<lambda>m.
     bind_action (lift_result (adjustMachineNics (hw_Nics (m_Hardware m)) cons nicMap)) (\<lambda>newNics.
     bind_action (tbl_Update (se_machines env) (se_now env)
       (m\<lparr>m_Hardware := (m_Hardware m)\<lparr>hw_Nics := newNics\<rparr>\<rparr>)) (\<lambda>_.
     adjustMachineConnections env rest nicMap)))"

definition migrateMachineConnections :: "'st switch_env \<Rightarrow> Switch \<Rightarrow> Switch \<Rightarrow> ('st, unit) action" where
  "migrateMachineConnections env prev new =
     bind_action (lift_result (vendor_of prev)) (\<lambda>vendor.
     bind_action (lift_result (TranslateNicMap new vendor)) (\<lambda>nicMap.
     bind_action (adjustMachineConnections env (connections_of prev) nicMap) (\<lambda>_.
     bind_action (tbl_Update (se_switches env) (se_now env) (prev\<lparr>sw_MachineConnections := None\<rparr>)) (\<lambda>_.
     return ()))))"

section \<open>Replacing and migrating\<close>

fun twin_loop :: "Switch \<Rightarrow> Switch list \<Rightarrow> Switch option \<Rightarrow> Switch option result" where
  "twin_loop newSwitch [] twin = Inr twin"
| "twin_loop newSwitch (sw # sws) twin =
     (if sw_ReplaceMode sw = SwitchReplaceModeReplace \<or> b_ID sw = b_ID newSwitch then twin_loop newSwitch sws twin
      else if length (connections_of sw) = 0 then twin_loop newSwitch sws twin
      else if twin = None then twin_loop newSwitch sws (Some sw)
      else Inl (FailedPrecondition ''found multiple twin switches for %v (%v and %v)''))"

definition findTwinSwitch :: "'st switch_env \<Rightarrow> Switch \<Rightarrow> ('st, Switch) action" where
  "findTwinSwitch env newSwitch =
     bind_action (on_error (\<lambda>_. Plain ''failed to find twin switch for switch %s in rack %s'')
       (switch_list env (Some (empty_switch_query\<lparr>swq_Rack := Some (sw_Rack newSwitch),
         swq_Partition := Some (sw_Partition newSwitch)\<rparr>)))) (\<lambda>rackSwitches.
     if length rackSwitches = 0 then fail (NotFound ''could not find any switch in rack %v'')
     else
       bind_action (lift_result (twin_loop newSwitch rackSwitches None)) (\<lambda>twin.
       case twin of
         None \<Rightarrow> fail (NotFound ''no twin found for switch %s in partition %v and rack %v'')
       | Some t \<Rightarrow> return t))"

definition replace_error :: "go_error \<Rightarrow> go_error" where
  "replace_error = Wrapped ''failed to replace switch %s by %s: %w''"

definition switch_replace :: "'st switch_env \<Rightarrow> ApiSwitch \<Rightarrow> ApiSwitch \<Rightarrow> ('st, Switch) action" where
  "switch_replace env oldSwitch newSwitch =
     bind_action (on_error replace_error (lift_result (switch_convertToInternal (se_enums env) oldSwitch))) (\<lambda>prev.
     bind_action (on_error replace_error (lift_result (switch_convertToInternal (se_enums env) newSwitch))) (\<lambda>new.
     bind_action (on_error (Wrapped ''failed to determine twin for switch %s: %w'') (findTwinSwitch env new)) (\<lambda>twin.
     bind_action (on_error (Wrapped ''failed to adopt configuration from twin for switch %s, err: %w'')
       (lift_result (adoptFromTwin prev twin new))) (\<lambda>sw.
     bind_action (lift_result (vendor_of prev)) (\<lambda>vendor.
     bind_action (on_error replace_error (lift_result (TranslateNicMap sw vendor))) (\<lambda>nicMap.
     bind_action (on_error replace_error (adjustMachineConnections env (connections_of prev) nicMap)) (\<lambda>_.
     bind_action (case asw_Meta oldSwitch of None \<Rightarrow> fail nil_dereference | Some m \<Rightarrow> return m) (\<lambda>meta.
     on_error replace_error
       (tbl_Update (se_switches env) (se_now env) (sw\<lparr>b_Changed := AsTime (swm_UpdatedAt meta)\<rparr>))))))))))"

definition migrate_error :: "go_error \<Rightarrow> go_error" where
  "migrate_error = Wrapped ''failed to migrate switch %s to %s: %w''"

definition Migrate :: "'st switch_env \<Rightarrow> string \<Rightarrow> string \<Rightarrow> ('st, ApiSwitch) action" where
  "Migrate env oldSwitch newSwitch =
     bind_action (lift_result (check_that (oldSwitch \<noteq> '''') (InvalidArgument ''old switch id cannot be empty''))) (\<lambda>_.
     bind_action (lift_result (check_that (newSwitch \<noteq> '''') (InvalidArgument ''new switch id cannot be empty''))) (\<lambda>_.
     bind_action (on_error migrate_error (switch_get env oldSwitch)) (\<lambda>prev.
     bind_action (on_error migrate_error (switch_get env newSwitch)) (\<lambda>new.
     bind_action (lift_result (check_that (sw_Rack prev = sw_Rack new)
       (FailedPrecondition ''cannot migrate from switch %s in rack %s to switch %s in rack %s, switches must be in the same rack''))) (\<lambda>_.
     bind_action (lift_result (check_that (\<not> length (connections_of new) > 0)
       (FailedPrecondition ''cannot migrate from switch %s to switch %s because the new switch already has machine connections''))) (\<lambda>_.
     bind_action (on_error migrate_error (lift_result (adoptConfiguration prev new))) (\<lambda>sw.
     bind_action (on_error migrate_error (migrateMachineConnections env prev sw)) (\<lambda>_.
     bind_action (tbl_Update (se_switches env) (se_now env) sw) (\<lambda>sw.
     switch_convertToProto env sw)))))))))"

section \<open>Registering\<close>

text \<open>The update of a known switch: fields that the message leaves out are not changed.\<close>

definition register_update :: "ApiSwitch \<Rightarrow> SwitchServiceUpdateRequest" where
  "register_update new =
     \<lparr>swu_Id = asw_Id new,
      swu_UpdateMeta = Some \<lparr>um_UpdatedAt = None, um_LockingStrategy = OPTIMISTIC_LOCKING_STRATEGY_SERVER\<rparr>,
      swu_Description = PointerOrNil (asw_Description new),
      swu_ReplaceMode = (if asw_ReplaceMode new = 0 then None else Some (asw_ReplaceMode new)),
      swu_ManagementIp = PointerOrNil (asw_ManagementIp new), swu_ManagementUser = asw_ManagementUser new,
      swu_ConsoleCommand = asw_ConsoleCommand new, swu_Nics = asw_Nics new, swu_Os = asw_Os new\<rparr>"

definition Register :: "'st switch_env \<Rightarrow> ApiSwitch option \<Rightarrow> ('st, ApiSwitch) action" where
  "Register env req =
     (case req of
        None \<Rightarrow> fail (InvalidArgument ''empty request'')
      | Some new \<Rightarrow>
          bind_action (get_or_none (se_switches env) (asw_Id new)) (\<lambda>found.
          case found of
            None \<Rightarrow> store_Create (se_eu env) (switch_operations env) (Some new)
          | Some sw \<Rightarrow>
              bind_action (switch_convertToProto env sw) (\<lambda>prev.
              if sw_ReplaceMode sw = SwitchReplaceModeReplace
              then bind_action (switch_replace env prev new) (switch_convertToProto env)
              else
                bind_action (switch_validateUpdate env (register_update new) sw) (\<lambda>_.
                bind_action (updateOnRegister env sw (register_update new)) (switch_convertToProto env)))))"

definition ForceDelete :: "'st switch_env \<Rightarrow> string \<Rightarrow> ('st, ApiSwitch) action" where
  "ForceDelete env i =
     bind_action (switch_get env i) (\<lambda>sw.
     bind_action (switch_delete env sw) (\<lambda>_. switch_convertToProto env sw))"

section \<open>Ports\<close>

text \<open>The state is shared through its pointer, so the first port with the name gets the desired status.\<close>

fun set_desired :: "string \<Rightarrow> SwitchPortStatus \<Rightarrow> Nic list \<Rightarrow> Nic list result" where
  "set_desired port status [] = Inl (InvalidArgument ''port %s does not exist on switch %s'')"
| "set_desired port status (nic # nics) =
     (if nic_Name nic = port
      then (case nic_State nic of
              None \<Rightarrow> Inl nil_dereference
            | Some s \<Rightarrow> Inr (nic\<lparr>nic_State := Some (s\<lparr>ns_Desired := Some status\<rparr>)\<rparr> # nics))
      else bind_result (set_desired port status nics) (\<lambda>nics. Inr (nic # nics)))"

definition switch_Port :: "'st switch_env \<Rightarrow> string \<Rightarrow> string \<Rightarrow> int \<Rightarrow> ('st, ApiSwitch) action" where
  "switch_Port env i port status =
     bind_action (on_error (\<lambda>_. InvalidArgument ''failed to parse port status %q: %w'')
       (lift_result (ToSwitchPortStatus (sen_PortStatus (se_enums env)) status))) (\<lambda>metalStatus.
     bind_action (lift_result (check_that (\<not> (status \<noteq> sen_UP (se_enums env) \<and> status \<noteq> sen_DOWN (se_enums env)))
       (InvalidArgument ''port status %q must be one of [%q, %q]''))) (\<lambda>_.
     bind_action (tbl_Get (se_switches env) i) (\<lambda>sw.
     bind_action (lift_result (set_desired port metalStatus (sw_Nics sw))) (\<lambda>nics.
     bind_action (tbl_Update (se_switches env) (se_now env) (sw\<lparr>sw_Nics := nics\<rparr>)) (\<lambda>sw.
     switch_convertToProto env sw)))))"

definition SearchSwitchesConnectedToMachine :: "'st switch_env \<Rightarrow> Machine \<Rightarrow> ('st, Switch list) action" where
  "SearchSwitchesConnectedToMachine env m =
     bind_action (tbl_List (se_switches env)
       [SwitchFilter (se_enums env) (empty_switch_query\<lparr>swq_Rack := Some (m_RackID m)\<rparr>)]) (\<lambda>rackSwitches.
     return (filter (\<lambda>sw. has_key (connections_of sw) (b_ID m)) rackSwitches))"

fun set_vrf_loop :: "'st switch_env \<Rightarrow> Machine \<Rightarrow> string \<Rightarrow> Switch list \<Rightarrow> ('st, unit) action" where
  "set_vrf_loop env m vrf [] = return ()"
| "set_vrf_loop env m vrf (sw # sws) =
     bind_action (tbl_Update (se_switches env) (se_now env) (SetVrfOfMachine m vrf sw)) (\<lambda>_.
     set_vrf_loop env m vrf sws)"

text \<open>The list of switches that is returned is never filled.\<close>

definition SetVrfAtSwitches :: "'st switch_env \<Rightarrow> Machine \<Rightarrow> string \<Rightarrow> ('st, Switch list) action" where
  "SetVrfAtSwitches env m vrf =
     bind_action (SearchSwitchesConnectedToMachine env m) (\<lambda>connectedSwitches.
     bind_action (set_vrf_loop env m vrf connectedSwitches) (\<lambda>_. return []))"

section \<open>Connecting a machine\<close>

text \<open>The machine of the message, with the interfaces of its hardware and their neighbors.\<close>

record ApiNeighbor =
  amn_Mac :: string
  amn_Name :: string
  amn_Identifier :: string
  amn_Hostname :: string

record ApiMachineNic = ApiNeighbor +
  amn_Neighbors :: "ApiNeighbor list"

record ConnectRequest =
  cr_Uuid :: string
  cr_Partition :: "string option"
  cr_Nics :: "ApiMachineNic list option"

definition new_machine_nic :: "ApiMachineNic \<Rightarrow> Nic" where
  "new_machine_nic n =
     \<lparr>nic_MacAddress = '''', nic_Name = '''', nic_Identifier = '''', nic_Vrf = '''', nic_Hostname = '''',
      nic_State = None, nic_BGPPortState = None,
      nic_Neighbors = map (\<lambda>neigh. \<lparr>nic_MacAddress = '''', nic_Name = amn_Name neigh,
        nic_Identifier = amn_Identifier neigh, nic_Vrf = '''', nic_Hostname = amn_Hostname neigh, nic_State = None,
        nic_BGPPortState = None\<rparr>) (amn_Neighbors n)\<rparr>"

definition neighbor_hostnames :: "ApiMachineNic list \<Rightarrow> string list" where
  "neighbor_hostnames nics = lo_Uniq (concat (map (\<lambda>n. map amn_Hostname (amn_Neighbors n)) nics))"

definition stored_hostnames :: "Machine \<Rightarrow> string list" where
  "stored_hostnames m = lo_Uniq (concat (map (\<lambda>n. map nic_Hostname (nic_Neighbors n)) (hw_Nics (m_Hardware m))))"

text \<open>The switches that the stored machine was connected to and that it no longer names.\<close>

fun remove_connections :: "'st switch_env \<Rightarrow> string \<Rightarrow> string list \<Rightarrow> ('st, unit) action" where
  "remove_connections env uuid [] = return ()"
| "remove_connections env uuid (i # is) =
     bind_action (on_error (Wrapped ''failed to remove machine connection from switch %s: %w'')
       (bind_action (switch_get env i) (\<lambda>s. tbl_Update (se_switches env) (se_now env)
         (s\<lparr>sw_MachineConnections := map_option (AList.delete uuid) (sw_MachineConnections s)\<rparr>)))) (\<lambda>_.
     remove_connections env uuid is)"

text \<open>Every port of the machine at the first switch must have a counterpart at the second.\<close>

fun check_counterparts ::
  "(string, string) gomap \<Rightarrow> (string, Connection) gomap \<Rightarrow> Connection list \<Rightarrow> unit result" where
  "check_counterparts switchPortMapping byNicName [] = Inr ()"
| "check_counterparts switchPortMapping byNicName (con # cons) =
     (case map_of switchPortMapping (nic_Name (con_Nic con)) of
        None \<Rightarrow> Inl (Plain ''could not translate port name %s to equivalent port name of switch os %s'')
      | Some name \<Rightarrow>
          if \<not> has_key byNicName name
          then Inl (FailedPrecondition ''machine %s is connected to port %s on switch %s but not to the corresponding port %s of switch %s'')
          else check_counterparts switchPortMapping byNicName cons)"

text \<open>The part that computes on the two switches, with the machine connected to both.\<close>

definition connect_both :: "string \<Rightarrow> Nic list \<Rightarrow> Switch \<Rightarrow> Switch \<Rightarrow> (Switch \<times> Switch) result" where
  "connect_both uuid nics s1 s2 =
     bind_result (map_error (Wrapped ''failed to update machine connections for switch %s: %w'')
       (ConnectMachine uuid nics s1)) (\<lambda>(s1, _).
     bind_result (map_error (Wrapped ''failed to update machine connections for switch %s: %w'')
       (ConnectMachine uuid nics s2)) (\<lambda>(s2, _).
     let cons1 = map_get [] (connections_of s1) uuid;
         cons2 = map_get [] (connections_of s2) uuid
     in bind_result (check_that (length cons1 = length cons2)
          (FailedPrecondition ''machine connections must be identical on both switches but machine %s has %d connections to switch %s and %d connections to switch %s'')) (\<lambda>_.
        bind_result (map_error (\<lambda>_. Plain ''failed to map machine connections of switch %s by nic names'')
          (ByNicName (connections_of s2))) (\<lambda>byNicName.
        bind_result (vendor_of s2) (\<lambda>vendor.
        bind_result (map_error (Wrapped ''could not create port mapping %w'') (MapPortNames s1 vendor)) (\<lambda>switchPortMapping.
        bind_result (check_counterparts switchPortMapping byNicName cons1) (\<lambda>_. Inr (s1, s2))))))))"

text \<open>On success the machine of the message gets the rack and the room.\<close>

definition ConnectMachineWithSwitches :: "'st switch_env \<Rightarrow> ConnectRequest \<Rightarrow> ('st, string \<times> string) action" where
  "ConnectMachineWithSwitches env m =
     bind_action (lift_result (check_that (cr_Partition m \<notin> {None, Some ''''})
       (InvalidArgument ''partition id of machine %s is empty''))) (\<lambda>_.
     case cr_Nics m of
       None \<Rightarrow> fail (InvalidArgument ''no hardware information for machine %s given'')
     | Some nics \<Rightarrow>
         let neighs = neighbor_hostnames nics in
         bind_action (lift_result (check_that (length neighs = 2)
           (FailedPrecondition ''machine %s is not connected to exactly two switches, found connections to switches %v''))) (\<lambda>_.
         bind_action (on_error (\<lambda>_. Internal ''failed to connect machine with switches: %w'')
           (get_or_none (se_machines env) (cr_Uuid m))) (\<lambda>metalMachine.
         bind_action (case metalMachine of None \<Rightarrow> return ()
           | Some mm \<Rightarrow> remove_connections env (cr_Uuid m) (lo_Difference (stored_hostnames mm) neighs)) (\<lambda>_.
         bind_action (on_error (Wrapped ''failed to add machine connections to switch %s: %w'')
           (switch_get env (neighs ! 0))) (\<lambda>s1.
         bind_action (on_error (Wrapped ''failed to add machine connections to switch %s: %w'')
           (switch_get env (neighs ! 1))) (\<lambda>s2.
         bind_action (lift_result (check_that (sw_Rack s1 = sw_Rack s2)
           (FailedPrecondition ''connected switches of a machine must reside in the same rack, rack of switch %s: %s, rack of switch %s: %s, machine: %s''))) (\<lambda>_.
         bind_action (on_error (Wrapped ''unable to query switches: %w'')
           (tbl_List (se_switches env) [SwitchFilter (se_enums env)
             (empty_switch_query\<lparr>swq_ConnectedMachineId := Some (cr_Uuid m)\<rparr>)])) (\<lambda>sws.
         bind_action (lift_result (check_that (\<not> length (filter (\<lambda>sw. sw_Rack sw \<noteq> sw_Rack s1) sws) > 0)
           (FailedPrecondition ''machine wants to register on rack %q, but machine connections are present on the following switches %v, likely the machine was moved in the data center but not deleted through the admin api''))) (\<lambda>_.
         bind_action (lift_result (connect_both (cr_Uuid m) (map new_machine_nic nics) s1 s2)) (\<lambda>(s1', s2').
         bind_action (on_error (Wrapped ''failed to update machine connections for switch %s: %w'')
           (tbl_Update (se_switches env) (se_now env) s1')) (\<lambda>_.
         bind_action (on_error (Wrapped ''failed to update machine connections for switch %s: %w'')
           (tbl_Update (se_switches env) (se_now env) s2')) (\<lambda>_.
         return (sw_Rack s1, sw_Room s1)))))))))))))"

section \<open>Switches with their machines\<close>

text \<open>A machine of the API is opaque, with the function that reads its UUID.\<close>

record 'am SwitchNicWithMachine =
  snm_Nic :: "ApiSwitchNic option"
  snm_Machine :: 'am
  snm_Fru :: Fru

record 'am SwitchWithMachines =
  swwm_Id :: string
  swwm_Partition :: string
  swwm_Rack :: string
  swwm_Connections :: "'am SwitchNicWithMachine list"

definition connections_with_machines ::
  "('am \<Rightarrow> string) \<Rightarrow> 'am list \<Rightarrow> Machine list \<Rightarrow> ApiMachineConnection list \<Rightarrow> 'am SwitchNicWithMachine list" where
  "connections_with_machines uuid machines metalMachines cons =
     concat (map (\<lambda>con.
       case find (\<lambda>m. uuid m = amc_MachineId con) machines of
         None \<Rightarrow> []
       | Some m \<Rightarrow>
           (case find (\<lambda>m. b_ID m = amc_MachineId con) metalMachines of
              None \<Rightarrow> []
            | Some mm \<Rightarrow> [\<lparr>snm_Nic = amc_Nic con, snm_Machine = m, snm_Fru = ipmi_Fru (m_IPMI mm)\<rparr>])) cons)"

definition GetSwitchesWithConnectedMachines ::
  "'st switch_env \<Rightarrow> ('am \<Rightarrow> string) \<Rightarrow> MachineQuery option \<Rightarrow> ApiSwitch list \<Rightarrow> 'am list \<Rightarrow>
   ('st, 'am SwitchWithMachines list) action" where
  "GetSwitchesWithConnectedMachines env uuid query switches machines =
     bind_action (tbl_List (se_machines env)
       (case query of None \<Rightarrow> [] | Some q \<Rightarrow> [MachineFilter (se_machine_enums env) q])) (\<lambda>metalMachines.
     let res = map (\<lambda>sw. \<lparr>swwm_Id = asw_Id sw, swwm_Partition = asw_Partition sw,
           swwm_Rack = pointer_SafeDeref (asw_Rack sw),
           swwm_Connections = connections_with_machines uuid machines metalMachines (asw_MachineConnections sw)\<rparr>) switches
     in return (case Option.bind query mq_Uuid of
          None \<Rightarrow> res
        | Some _ \<Rightarrow> filter (\<lambda>s. length (swwm_Connections s) > 0) res))"

end
