(* ===== verification/SwitchRepositoryProps.thy ===== *)
theory SwitchRepositoryProps
  imports SwitchRegistration SizeReservationProps
begin

text \<open>
  What registering, replacing, migrating and connecting guarantee: the configuration that a switch adopts,
  the ports that machines are connected to, and the connections after a machine has registered; and where
  the code fails: the filters of projects with namespaced addresses, and switches that were migrated away.
\<close>

section \<open>Adopting a configuration\<close>

lemma vendor_of_ok: "vendor_of s = Inr v \<longleftrightarrow> (\<exists>os. sw_OS s = Some os \<and> os_Vendor os = v)"
  by (auto simp: vendor_of_def split: option.split)

lemma adoptNics_ok:
  assumes "adoptNics twin new = Inr nics" and "vendor_of twin = Inr v" and "TranslateNicMap new v = Inr nm"
    and "map_of (MapByName (sw_Nics twin)) name = Some nic"
  shows "\<exists>n. map_of nm name = Some n \<and> n\<lparr>nic_Vrf := nic_Vrf nic\<rparr> \<in> set nics"
proof -
  have missing: "\<forall>name\<in>set (map_keys (MapByName (sw_Nics twin))). has_key nm name"
    and nics: "set nics = (\<lambda>(name, n). case map_of (MapByName (sw_Nics twin)) name of None \<Rightarrow> n
      | Some t \<Rightarrow> n\<lparr>nic_Vrf := nic_Vrf t\<rparr>) ` set nm"
    using assms(1-3) by (auto simp: adoptNics_def Let_def filter_empty_conv split: if_splits)
  have "has_key (MapByName (sw_Nics twin)) name" using assms(4) by (simp add: has_key_iff)
  then have "has_key nm name" using missing by (simp add: has_key_def)
  then obtain n where n: "map_of nm name = Some n" by (auto simp: has_key_iff)
  then have "(name, n) \<in> set nm" by (rule map_of_SomeD)
  then have "n\<lparr>nic_Vrf := nic_Vrf nic\<rparr> \<in> set nics" unfolding nics using assms(4) by force
  with n show ?thesis by blast
qed

lemma map_of_fold_updates:
  "distinct (map fst xs) \<Longrightarrow>
   map_of (fold (\<lambda>(k, v). AList.update k (f v)) xs m) k =
     (case map_of xs k of None \<Rightarrow> map_of m k | Some v \<Rightarrow> Some (f v))"
proof (induction xs arbitrary: m)
  case (Cons x xs)
  obtain k' v where "x = (k', v)" by force
  moreover have "k \<notin> fst ` set xs \<Longrightarrow> map_of xs k = None" by (simp add: map_of_eq_None_iff)
  ultimately show ?case using Cons by (auto simp: update_conv' split: option.split)
qed simp

definition adopts :: "NicMap \<Rightarrow> Connection \<Rightarrow> Connection \<Rightarrow> bool" where
  "adopts nm c c' \<longleftrightarrow> con_MachineID c' = con_MachineID c \<and>
     (\<exists>n. map_of nm (nic_Name (con_Nic c)) = Some n \<and> nic_Name (con_Nic c') = nic_Name n \<and>
        nic_Identifier (con_Nic c') = nic_Identifier n \<and> nic_MacAddress (con_Nic c') = nic_MacAddress n)"

lemma adopted_connections_all:
  "\<forall>c\<in>set cons. has_key nm (nic_Name (con_Nic c)) \<Longrightarrow> list_all2 (adopts nm) cons (adopted_connections nm cons)"
  by (induction cons) (auto simp: adopted_connections_def adopts_def adopt_connection_def has_key_iff)

text \<open>
  A switch that adopts the configuration of another one is operational afterwards; every port of
  the other switch has a counterpart with its VRF, and every machine connected to the other switch is
  connected to the counterparts of its ports.
\<close>

theorem adopted_configuration:
  assumes "adoptConfiguration existing new = Inr s" and "vendor_of existing = Inr v"
    and "TranslateNicMap new v = Inr nm" and "distinct (map_keys (connections_of existing))"
  shows "sw_ReplaceMode s = SwitchReplaceModeOperational \<and>
    (\<forall>name nic. map_of (MapByName (sw_Nics existing)) name = Some nic \<longrightarrow>
      (\<exists>n. map_of nm name = Some n \<and> n\<lparr>nic_Vrf := nic_Vrf nic\<rparr> \<in> set (sw_Nics s))) \<and>
    (\<forall>mid cons. map_of (connections_of existing) mid = Some cons \<longrightarrow>
      (\<exists>cons'. map_of (connections_of s) mid = Some cons' \<and> list_all2 (adopts nm) cons cons'))"
proof -
  obtain nics conns where nics: "adoptNics existing new = Inr nics"
    and conns: "adoptMachineConnections existing new = Inr conns"
    and s: "s = new\<lparr>sw_MachineConnections := Some conns, sw_Nics := nics, sw_ReplaceMode := SwitchReplaceModeOperational\<rparr>"
    using assms(1) by (auto simp: adoptConfiguration_def bind_result_ok)
  from conns assms(2,3) have
    keys: "\<forall>c\<in>set (concat (map snd (connections_of existing))). has_key nm (nic_Name (con_Nic c))"
    and c: "conns = fold (\<lambda>(mid, cons). AList.update mid (adopted_connections nm cons)) (connections_of existing) []"
    by (auto simp: adoptMachineConnections_def Let_def filter_empty_conv split: if_splits)
  have "\<exists>cons'. map_of conns mid = Some cons' \<and> list_all2 (adopts nm) cons cons'"
    if m: "map_of (connections_of existing) mid = Some cons" for mid cons
  proof -
    from keys map_of_SomeD [OF m] have "\<forall>c\<in>set cons. has_key nm (nic_Name (con_Nic c))" by force
    then have "list_all2 (adopts nm) cons (adopted_connections nm cons)" by (rule adopted_connections_all)
    moreover have "map_of conns mid = Some (adopted_connections nm cons)"
      using m assms(4) unfolding c map_keys_def by (simp add: map_of_fold_updates)
    ultimately show ?thesis by blast
  qed
  then show ?thesis using adoptNics_ok [OF nics assms(2,3)] by (simp add: s connections_of_def)
qed

section \<open>The ports that machines are connected to\<close>

lemma MapByIdentifier_map_of:
  "map_of (MapByIdentifier nics) i =
     (if i = '''' then None else find (\<lambda>n. nic_Identifier n = i) (rev nics))"
proof -
  have "map_of (fold (\<lambda>nic m. if nic_Identifier nic = '''' then m else AList.update (nic_Identifier nic) nic m) nics m) i =
      (if i = '''' then map_of m i
       else case find (\<lambda>n. nic_Identifier n = i) (rev nics) of None \<Rightarrow> map_of m i | Some n \<Rightarrow> Some n)" for m
    by (induction nics arbitrary: m) (auto simp: update_conv' find_append split: option.split)
  from this [of "[]"] show ?thesis by (simp add: MapByIdentifier_def split: option.split)
qed

lemma find_distinct:
  assumes "distinct (map f xs)" and "x \<in> set xs" and "f x = k"
  shows "find (\<lambda>y. f y = k) (rev xs) = Some x"
proof -
  from assms(2,3) have "find (\<lambda>y. f y = k) (rev xs) \<noteq> None" by (auto simp: find_None_iff)
  then obtain y where y: "find (\<lambda>y. f y = k) (rev xs) = Some y" by blast
  with find_SomeD [OF y] assms have "y = x" by (auto simp: distinct_map dest: inj_onD)
  with y show ?thesis by simp
qed

text \<open>A connected port keeps its name, and the registration keeps everything else.\<close>

lemma connected_port_kept:
  assumes "validateConnectedNics prev new cons = Inr ()" and "distinct (map nic_Identifier prev)"
    and "n \<in> set prev" and "nic_Identifier n \<noteq> ''''" and "nicIsConnected (nic_Identifier n) cons"
  shows "n \<in> set (updateNicNames prev new)"
proof -
  have old: "map_of (MapByIdentifier prev) (nic_Identifier n) = Some n"
    using assms(2-4) by (simp add: MapByIdentifier_map_of find_distinct)
  let ?c = "filter (\<lambda>(i, n). nicIsConnected i cons) (MapByIdentifier prev)"
  from assms(1) have "filter (\<lambda>(i, n). \<not> has_key (MapByIdentifier new) i) ?c = []"
    and names: "filter (\<lambda>(i, oldNic). case map_of (MapByIdentifier new) i of None \<Rightarrow> False
      | Some newNic \<Rightarrow> nic_Name newNic \<noteq> nic_Name oldNic) ?c = []"
    unfolding validateConnectedNics_def Let_def errors_Join_ok by (simp_all split: if_splits)
  moreover have c: "(nic_Identifier n, n) \<in> set ?c" using map_of_SomeD [OF old] assms(5) by simp
  ultimately have "has_key (MapByIdentifier new) (nic_Identifier n)" unfolding filter_empty_conv by blast
  then obtain n' where n': "map_of (MapByIdentifier new) (nic_Identifier n) = Some n'" by (auto simp: has_key_iff)
  moreover from names c have "\<not> (case map_of (MapByIdentifier new) (nic_Identifier n) of None \<Rightarrow> False
      | Some newNic \<Rightarrow> nic_Name newNic \<noteq> nic_Name n)" unfolding filter_empty_conv by blast
  ultimately have "nic_Name n' = nic_Name n" by simp
  with old have "n = (case map_of (MapByIdentifier prev) (nic_Identifier n) of None \<Rightarrow> n'
      | Some oldNic \<Rightarrow> oldNic\<lparr>nic_Name := nic_Name n'\<rparr>)" by simp
  with map_of_SomeD [OF n'] show ?thesis
    unfolding updateNicNames_def Let_def set_sort set_map by (intro rev_image_eqI [of "(nic_Identifier n, n')"]) auto
qed

lemma updateAllButNics_ok: "updateAllButNics en s rq = Inr s' \<Longrightarrow>
    sw_Nics s' = sw_Nics s \<and> sw_MachineConnections s' = sw_MachineConnections s \<and> b_ID s' = b_ID s"
  by (auto simp: updateAllButNics_def Let_def bind_result_ok split: option.splits)

lemma get_or_none_ok:
  "rethink_table rt rows \<Longrightarrow> get_or_none rt i st = (Inr e, st') \<Longrightarrow> st' = st \<and> (\<forall>x. e = Some x \<longrightarrow> rows st i = Some x)"
  by (auto simp: get_or_none_def storage_Get_def split: sum.splits option.splits if_splits dest: rethink_table.get)

lemma get_or_none_reads [simp]: "reads_only (get_or_none rt i)"
  by (auto simp: reads_only_def get_or_none_def split: sum.split)

lemma reads_Pair [simp]: "reads_only (Pair r)"
  by (simp add: reads_only_def)

lemma switch_nics_loop_reads [simp]: "reads_only (switch_nics_loop env sw networks ips nics ms)"
  by (induction env sw networks ips nics ms rule: switch_nics_loop.induct)
    (auto intro!: bind_reads simp: getConnectedMachineForNic_def split: option.split)

lemma switch_convertToProto_reads [simp]: "reads_only (switch_convertToProto env sw)"
  by (auto intro!: bind_reads simp: switch_convertToProto_def convertToSwitchNics_def)

lemma reads_ok: "reads_only a \<Longrightarrow> a st = (r, st') \<Longrightarrow> st' = st"
  by (metis reads_only_def snd_conv)

lemma get_or_none_row:
  assumes "rethink_table rt rows" and "get_or_none rt i st = (Inr found, st')" and "rows st i = Some e"
  shows "found = Some e"
  using assms(2,3) rethink_table.get [OF assms(1)]
  by (auto simp: get_or_none_def storage_Get_def split: sum.splits option.splits if_splits)

lemma result_error_ok: "result_error r = [] \<longleftrightarrow> is_ok r"
  by (simp add: result_error_def split: sum.split)

lemma switch_validateUpdate_ok:
  assumes "rethink_table (se_switches env) rows" and "switch_validateUpdate env rq e st = (Inr u, st')"
    and "rows st (swu_Id rq) = Some sw"
  shows "\<exists>nics. toMetalNics (se_enums env) (swu_Id rq) (swu_Nics rq) = Inr nics \<and>
    (nics \<noteq> [] \<longrightarrow> validateConnectedNics (sw_Nics sw) nics (connections_of sw) = Inr ())"
proof -
  from assms(2) obtain row st1 where row: "tbl_Get (se_switches env) (swu_Id rq) st = (Inr row, st1)"
    by (auto simp: switch_validateUpdate_def bind_action_ok on_error_ok)
  from tbl_Get_ok [OF assms(1) row] assms(3) have [simp]: "row = sw" "st1 = st" by auto
  let ?req = "toMetalNics (se_enums env) (swu_Id rq) (swu_Nics rq)"
  from assms(2) row have "result_error ?req = [] \<and> (case ?req of Inl _ \<Rightarrow> True
      | Inr ns \<Rightarrow> ns \<noteq> [] \<longrightarrow> result_error (validateConnectedNics (sw_Nics sw) ns (connections_of sw)) = [])"
    by (auto simp: switch_validateUpdate_def bind_action_def on_error_def Let_def split: option.splits sum.splits if_splits)
  then show ?thesis by (auto simp: result_error_ok is_ok_iff split: sum.splits)
qed

lemma MapByIdentifier_named: "map_of (MapByIdentifier nics) i = Some n \<Longrightarrow> nic_Identifier n = i \<and> i \<noteq> ''''"
  by (auto simp: MapByIdentifier_map_of dest: find_SomeD split: if_splits)

lemma map_identifiers_distinct: "distinct (map fst (MapByIdentifier nics))"
proof -
  have "distinct (map fst m) \<Longrightarrow>
      distinct (map fst (fold (\<lambda>nic m. if nic_Identifier nic = '''' then m else AList.update (nic_Identifier nic) nic m) nics m))" for m
    by (induction nics arbitrary: m) (simp_all add: distinct_update)
  then show ?thesis by (simp add: MapByIdentifier_def)
qed

lemma updated_ports_named:
  assumes "n \<in> set (updateNicNames prev new)"
  shows "nic_Identifier n \<noteq> ''''"
proof -
  from assms obtain i n' where n': "(i, n') \<in> set (MapByIdentifier new)"
    and n: "n = (case map_of (MapByIdentifier prev) i of None \<Rightarrow> n' | Some oldNic \<Rightarrow> oldNic\<lparr>nic_Name := nic_Name n'\<rparr>)"
    by (auto simp: updateNicNames_def Let_def)
  from MapByIdentifier_named [OF map_of_is_SomeI [OF map_identifiers_distinct n']] MapByIdentifier_named [of prev i] n show ?thesis by (auto split: option.splits)
qed

text \<open>
  C38: Registering a known switch that is not being replaced keeps every port with an identifier that a machine is connected
  to as it is, with its name and its VRF, if the stored ports have distinct identifiers; it keeps the connections
  in any case. Ports without an identifier are not kept: once the registration names ports, none is left, even if a machine is
  connected to it, as it may be after a migration.
\<close>

theorem registration_keeps_connected_ports:
  assumes table: "rethink_table (se_switches env) rows" and key: "\<And>x. rt_key (se_switches env) x = b_ID x"
    and reg: "Register env (Some new) st = (Inr r, st')"
    and sw: "rows st (asw_Id new) = Some sw" "sw_ReplaceMode sw \<noteq> SwitchReplaceModeReplace"
  shows "\<exists>sw'. rows st' (asw_Id new) = Some sw' \<and> sw_MachineConnections sw' = sw_MachineConnections sw \<and>
    (\<forall>n\<in>set (sw_Nics sw). distinct (map nic_Identifier (sw_Nics sw)) \<and> nic_Identifier n \<noteq> '''' \<and>
       nicIsConnected (nic_Identifier n) (connections_of sw) \<longrightarrow> n \<in> set (sw_Nics sw')) \<and>
    (asw_Nics new \<noteq> [] \<longrightarrow> (\<forall>n\<in>set (sw_Nics sw'). nic_Identifier n \<noteq> ''''))"
proof -
  have id: "b_ID sw = asw_Id new" using rethink_table.keyed [OF table sw(1)] key by simp
  let ?rq = "register_update new"
  from reg obtain found st1 where found: "get_or_none (se_switches env) (asw_Id new) st = (Inr found, st1)"
    by (auto simp: Register_def bind_action_ok)
  from get_or_none_ok [OF table found] get_or_none_row [OF table found sw(1)]
  have [simp]: "found = Some sw" "st1 = st" by auto
  from reg found sw(2) obtain prev st2 st3 u updated st4 where
    c: "switch_convertToProto env sw st = (Inr prev, st2)"
    and v: "switch_validateUpdate env ?rq sw st2 = (Inr u, st3)"
    and up: "updateOnRegister env sw ?rq st3 = (Inr updated, st4)"
    and c2: "switch_convertToProto env updated st4 = (Inr r, st')"
    by (auto simp: Register_def bind_action_ok)
  have [simp]: "st2 = st" "st3 = st" "st' = st4"
    using reads_ok [OF switch_convertToProto_reads c] reads_ok [OF switch_validateUpdate_reads v]
      reads_ok [OF switch_convertToProto_reads c2] by simp_all
  have rq: "swu_Id ?rq = asw_Id new" by (simp add: register_update_def)
  from switch_validateUpdate_ok [OF table v, of sw] sw(1) rq obtain nics where
    nics: "toMetalNics (se_enums env) (asw_Id new) (swu_Nics ?rq) = Inr nics"
      "nics \<noteq> [] \<longrightarrow> validateConnectedNics (sw_Nics sw) nics (connections_of sw) = Inr ()" by auto
  from up obtain s s' where s: "updateAllButNics (se_enums env) sw ?rq = Inr s"
    and s': "(if length (swu_Nics ?rq) > 0
        then bind_result (toMetalNics (se_enums env) (b_ID s) (swu_Nics ?rq)) (\<lambda>nics. Inr (s\<lparr>sw_Nics := updateNicNames (sw_Nics s) nics\<rparr>))
        else Inr s) = Inr s'"
    and t: "tbl_Update (se_switches env) (se_now env) s' st = (Inr updated, st4)"
    by (auto simp: updateOnRegister_def bind_action_ok)
  have same: "sw_MachineConnections s' = sw_MachineConnections sw \<and> b_ID s' = asw_Id new"
    using s' updateAllButNics_ok [OF s] id by (auto simp: bind_result_ok split: if_splits)
  have ports: "swu_Nics ?rq = asw_Nics new" by (simp add: register_update_def)
  have kept: "n \<in> set (sw_Nics s')" if "n \<in> set (sw_Nics sw)" "distinct (map nic_Identifier (sw_Nics sw))"
    "nic_Identifier n \<noteq> ''''" "nicIsConnected (nic_Identifier n) (connections_of sw)" for n
  proof (cases "swu_Nics ?rq = []")
    case True
    with s' updateAllButNics_ok [OF s] that(1) show ?thesis by simp
  next
    case False
    then have "nics \<noteq> []" using nics(1) by (cases "swu_Nics ?rq") (auto simp: bind_result_ok)
    with nics(2) have "n \<in> set (updateNicNames (sw_Nics sw) nics)" using connected_port_kept that by blast
    with False s' updateAllButNics_ok [OF s] nics(1) id show ?thesis by auto
  qed
  have named: "nic_Identifier n \<noteq> ''''" if "asw_Nics new \<noteq> []" "n \<in> set (sw_Nics s')" for n
    using s' that ports updated_ports_named by (auto simp: bind_result_ok)
  from tbl_Update_ok [OF table t] same kept named show ?thesis by auto
qed

section \<open>Migrating\<close>

lemma adjust_keeps_switches:
  assumes "keeps_rows (se_machines env) rows"
  shows "adjustMachineConnections env cons nm st = (r, st') \<Longrightarrow> rows st' = rows st"
  using assms
proof (induction env cons nm arbitrary: st rule: adjustMachineConnections.induct)
  case (2 env mid cons rest nm)
  have get: "tbl_Get (se_machines env) mid st = (x, st1) \<Longrightarrow> st1 = st" for x st1 by (simp add: tbl_Get_def)
  from 2 show ?case
    by (auto simp: bind_action_def split: prod.splits sum.splits dest!: get dest: tbl_Update_keeps)
qed simp

lemma adoptConfiguration_id: "adoptConfiguration existing new = Inr s \<Longrightarrow> b_ID s = b_ID new"
  by (auto simp: adoptConfiguration_def bind_result_ok)

text \<open>A port that is connected physically cannot be stored in a map of connections that is nil.\<close>

lemma ConnectMachine_nil:
  "sw_MachineConnections s = None \<Longrightarrow> getPhysicalMachineConnections s i nics \<noteq> [] \<Longrightarrow>
   ConnectMachine i nics s = Inl (Panic ''assignment to entry in nil map'')"
  by (simp add: ConnectMachine_def Let_def less_Suc_eq_0_disj)

text \<open>
  C39: Migrating a switch to another one gives the new switch the adopted configuration and leaves the old
  one with a nil map of connections: when a machine is later cabled to the old switch, connecting it panics.
\<close>

theorem migrated_switch_panics:
  assumes table: "rethink_table (se_switches env) rows" and key: "\<And>x. rt_key (se_switches env) x = b_ID x"
    and keeps: "keeps_rows (se_machines env) rows"
    and mig: "Migrate env a b st = (Inr r, st')" and "a \<noteq> b"
    and prev: "rows st a = Some prev" and new: "rows st b = Some new"
  shows "\<exists>s s' prev'. adoptConfiguration prev new = Inr s \<and>
    rows st' b = Some s' \<and> sw_Nics s' = sw_Nics s \<and> sw_MachineConnections s' = sw_MachineConnections s \<and>
    rows st' a = Some prev' \<and> sw_MachineConnections prev' = None \<and>
    (\<forall>i nics. getPhysicalMachineConnections prev i nics \<noteq> [] \<longrightarrow>
       ConnectMachine i nics prev' = Inl (Panic ''assignment to entry in nil map''))"
proof -
  have ids: "b_ID prev = a" "b_ID new = b"
    using rethink_table.keyed [OF table prev] rethink_table.keyed [OF table new] key by simp_all
  have get: "switch_get env i st = (Inr e, st1) \<Longrightarrow> rows st i = Some e \<and> st1 = st" for i e st st1
    using tbl_Get_ok [OF table] by (auto simp: switch_get_def)
  from mig prev new obtain s v nm st1 st2 st3 p' s' u where
    s: "adoptConfiguration prev new = Inr s"
    and adj: "adjustMachineConnections env (connections_of prev) nm st = (Inr u, st1)"
    and up1: "tbl_Update (se_switches env) (se_now env) (prev\<lparr>sw_MachineConnections := None\<rparr>) st1 = (Inr p', st2)"
    and up2: "tbl_Update (se_switches env) (se_now env) s st2 = (Inr s', st3)"
    and conv: "switch_convertToProto env s' st3 = (Inr r, st')"
    by (auto simp: Migrate_def migrateMachineConnections_def bind_action_ok on_error_ok dest!: get)
  have "rows st1 = rows st" using adjust_keeps_switches [OF keeps adj] .
  with tbl_Update_ok [OF table up1] tbl_Update_ok [OF table up2] ids adoptConfiguration_id [OF s]
    reads_ok [OF switch_convertToProto_reads conv] \<open>a \<noteq> b\<close>
  have st': "rows st' b = Some s'" "rows st' a = Some p'" "sw_Nics s' = sw_Nics s"
    "sw_MachineConnections s' = sw_MachineConnections s"
    and p': "p' = prev\<lparr>sw_MachineConnections := None, b_Changed := se_now env, b_Generation := b_Generation prev + 1\<rparr>"
    by (auto simp: fun_upd_def)
  have "ConnectMachine i nics p' = Inl (Panic ''assignment to entry in nil map'')"
    if "getPhysicalMachineConnections prev i nics \<noteq> []" for i nics
    using that by (intro ConnectMachine_nil) (simp_all add: p' getPhysicalMachineConnections_def)
  with s st' p' show ?thesis by auto
qed

section \<open>Connecting a machine\<close>




section \<open>Addresses with a namespace\<close>

lemma read_hex_stops:
  "read_hex off (ns @ c # t) acc = Some (k, v, rest) \<Longrightarrow> hex_digit c = None \<Longrightarrow>
   rest \<noteq> [] \<and> hd rest \<in> insert c (set ns)"
  by (induction off ns acc rule: read_hex.induct) (auto split: option.splits if_splits)

lemma read_octet_minus: "CHR ''-'' \<in> set s \<Longrightarrow> read_octet s = None"
proof -
  have digits: "CHR ''-'' \<in> set s \<Longrightarrow> read_digits s acc = None" for acc
    by (induction s arbitrary: acc) (auto simp: digit_def split: option.split)
  then show "CHR ''-'' \<in> set s \<Longrightarrow> read_octet s = None"
    by (simp add: read_octet_def read_decimal_def)
qed

lemma split_on_first:
  "CHR ''.'' \<notin> set ns \<Longrightarrow> \<exists>x xs. split_on CHR ''.'' (ns @ CHR ''-'' # t) = x # xs \<and> CHR ''-'' \<in> set x"
  by (induction ns) (auto split: list.split)

lemma find_special:
  "find P (xs @ ys) = Some c \<Longrightarrow> (\<forall>x\<in>set xs. \<not> P x) \<Longrightarrow> find P ys = Some c"
  by (induction xs) auto

text \<open>The id of an address with a namespace is not the text of an address.\<close>

lemma ParseAddr_namespaced:
  assumes "set ns \<inter> {CHR ''.'', CHR '':'', CHR ''%''} = {}"
  shows "ParseAddr (ns @ CHR ''-'' # t) = None"
proof -
  have v4: "parseIPv4Fields (ns @ CHR ''-'' # t) = None"
    using split_on_first [of ns t] assms by (auto simp: parseIPv4Fields_def read_octet_minus)
  have v6: "parse_v6 (ns @ CHR ''-'' # t') = None" for t'
  proof -
    have "take 2 (ns @ CHR ''-'' # t') \<noteq> ''::''" using assms by (cases ns) auto
    moreover have "parse_groups 8 (ns @ CHR ''-'' # t') [] None = None"
    proof (cases "read_hex 0 (ns @ CHR ''-'' # t') 0")
      case None
      then show ?thesis by (simp add: eval_nat_numeral)
    next
      case (Some r)
      obtain k v rest where r: "r = (k, v, rest)" using prod_cases3 by blast
      from read_hex_stops [OF Some [unfolded r]] obtain c cs where "rest = c # cs" "c \<in> insert CHR ''-'' (set ns)"
        by (cases rest) (auto simp: hex_digit_def)
      moreover from this(2) have "c \<noteq> CHR ''.''" "c \<noteq> CHR '':''" using assms by auto
      ultimately show ?thesis using Some r by (simp add: eval_nat_numeral Let_def)
    qed
    ultimately show ?thesis by (simp add: parse_v6_def)
  qed
  have "takeWhile (\<lambda>c. c \<noteq> CHR ''%'') (ns @ CHR ''-'' # t) = ns @ CHR ''-'' # takeWhile (\<lambda>c. c \<noteq> CHR ''%'') t"
    using assms by (subst takeWhile_append2) auto
  then have "parseIPv6 (ns @ CHR ''-'' # t) = None" by (simp add: parseIPv6_def Let_def v6)
  with v4 show ?thesis by (simp add: ParseAddr_def split: option.split)
qed

lemma project_cidrs_parse:
  "project_cidrs is u ms = Inr cs \<Longrightarrow> i \<in> set is \<Longrightarrow>
     ParseAddr (b_ID i) \<noteq> None \<or> (\<exists>a. GetIPAddress i = Inr a \<and> isFirewallIP a ms)"
  by (induction "is" u ms arbitrary: cs rule: project_cidrs.induct)
    (auto simp: bind_result_ok ipWithMask_def ContainsIP_def split: if_splits option.splits)

text \<open>
  The filter of routes of a machine's ports cannot be computed as soon as the project of the machine has
  an address in a network with a namespace: the id of such an address starts with the namespace, and the
  code parses the id as an address. Converting, registering or migrating the switch of the machine fails then.
\<close>

theorem namespaced_ip_breaks_filter:
  assumes "m_Allocation m = Some a" and "ma_Role a \<noteq> RoleFirewall"
    and "i \<in> set ips" and "ip_ProjectID i = ma_Project a" and "ip_Namespace i = Some ns"
    and "b_ID i = CreateNamespacedIPAddress (Some ns) addr" and "\<not> isFirewallIP addr ms"
    and "set ns \<inter> {CHR ''.'', CHR '':'', CHR ''%''} = {}"
  shows "\<exists>err. makeBGPFilter IPSet (Some m) ms vrf networks ips = Inl err"
proof -
  let ?u = "underlay_network (ma_MachineNetworks a)" and ?is = "map_get [] (IPsByProject ips) (ma_Project a)"
  have id: "b_ID i = ns @ CHR ''-'' # addr" using assms(6) by (simp add: CreateNamespacedIPAddress_def namespaceSeparator_def)
  have "i \<in> set ?is" using assms(3,4) by (simp add: IPsByProject_def map_get_fold_append)
  moreover have "GetIPAddress i = Inr addr"
    using assms(5,6) by simp
  ultimately have "\<not> is_ok (project_cidrs ?is ?u ms)"
    using project_cidrs_parse [of ?is ?u ms _ i] assms(7) ParseAddr_namespaced [OF assms(8)] id
    by (auto simp: is_ok_iff)
  then have "\<not> is_ok (makeBGPFilter IPSet (Some m) ms vrf networks ips)"
    using assms(1,2) by (auto simp: makeBGPFilter_def makeBGPFilterMachine_def is_ok_iff bind_result_ok)
  then show ?thesis by (cases "makeBGPFilter IPSet (Some m) ms vrf networks ips") auto
qed

section \<open>Examples\<close>

definition port :: "string \<Rightarrow> string \<Rightarrow> Nic" where
  "port name i = \<lparr>nic_MacAddress = '''', nic_Name = name, nic_Identifier = i, nic_Vrf = '''', nic_Hostname = '''',
     nic_State = Some \<lparr>ns_Desired = None, ns_Actual = ''UP''\<rparr>, nic_BGPPortState = None, nic_Neighbors = []\<rparr>"

definition switch_of :: "string \<Rightarrow> Nic list \<Rightarrow> ConnectionMap \<Rightarrow> Switch" where
  "switch_of i nics cons = \<lparr>b_ID = i, b_Name = i, b_Description = '''', b_Created = 1, b_Changed = 1,
     b_Generation = 0, sw_Rack = ''r1'', sw_Room = '''', sw_Partition = ''p1'', sw_ReplaceMode = SwitchReplaceModeOperational,
     sw_ManagementIP = '''', sw_ManagementUser = '''', sw_ConsoleCommand = '''',
     sw_OS = Some \<lparr>os_Vendor = SwitchOSVendorSonic, os_Version = '''', os_MetalCoreVersion = ''''\<rparr>, sw_Nics = nics,
     sw_MachineConnections = Some cons\<rparr>"

definition example_switch_enums :: switch_enums where
  "example_switch_enums = \<lparr>sen_ReplaceMode = (\<lambda>_. Inr ''operational''), sen_ReplaceMode_of = (\<lambda>_. Inr 1),
     sen_Vendor = (\<lambda>_. Inr ''SONiC''), sen_Vendor_of = (\<lambda>_. Inr 1), sen_PortStatus = (\<lambda>_. Inr ''up''),
     sen_PortStatus_of = (\<lambda>_. Inr 1), sen_BGPState = (\<lambda>_. Inr ''Idle''), sen_BGPState_of = (\<lambda>_. Inr 1),
     sen_UP = 1, sen_DOWN = 2\<rparr>"

text \<open>A state that is the table of switches, with no rows in the other tables.\<close>

definition switches_env :: "Machine list \<Rightarrow> Switch list switch_env" where
  "switches_env mm = \<lparr>se_switches = base_table, se_status = const_table b_ID [], se_machines = const_table b_ID mm,
     se_networks = const_table b_ID [], se_ips = const_table b_ID [], se_partition = (\<lambda>_ _. Inr ()),
     se_enums = example_switch_enums,
     se_machine_enums = \<lparr>en_AllocationType = (\<lambda>_. Inr ''machine''), en_MachineState = (\<lambda>_. Inr '''')\<rparr>,
     se_IPSet = (\<lambda>ps. Inr ps), se_eu = plain_errorutil, se_now = 2, se_newID = Inr ''id''\<rparr>"

lemma switches_env_table: "rethink_table (se_switches (switches_env mm)) (list_rows b_ID)"
  by (simp add: switches_env_def base_table)

lemma switches_env_key: "rt_key (se_switches (switches_env mm)) x = b_ID x"
  by (simp add: switches_env_def base_table_def list_rethink_def)

lemma switches_env_keeps: "keeps_rows (se_machines (switches_env mm)) rows"
  by (simp add: switches_env_def keeps_rows_def const_table_def)

lemma env_get: "tbl_Get (se_switches (switches_env mm)) i st =
    ((case list_rows b_ID st i of None \<Rightarrow> Inl (NotFound ''no %v with id %q found'') | Some e \<Rightarrow> Inr e), st)"
  by (simp add: tbl_Get_def storage_Get_def switches_env_def base_table_def list_rethink_def split: option.split)

lemma env_update:
  assumes "list_rows b_ID st (b_ID e) = Some e0" and "b_Changed e0 = b_Changed e" and "b_Changed e \<noteq> 0"
  shows "tbl_Update (se_switches (switches_env mm)) now e st =
    (Inr (e\<lparr>b_Changed := now, b_Generation := b_Generation e + 1\<rparr>),
     e\<lparr>b_Changed := now, b_Generation := b_Generation e + 1\<rparr> # list_without b_ID (b_ID e) st)"
  using assms by (simp add: tbl_Update_def storage_Update_def switches_env_def base_table_def list_rethink_def
      setChanged_def setGeneration_def Let_def)

lemma env_enums [simp]: "sen_ReplaceMode_of (se_enums (switches_env mm)) x = Inr 1"
  "sen_Vendor_of (se_enums (switches_env mm)) x = Inr 1" "sen_PortStatus_of (se_enums (switches_env mm)) x = Inr 1"
  by (simp_all add: switches_env_def example_switch_enums_def)

lemma env_nics:
  assumes "connections_of sw = []"
    and "\<forall>n\<in>set nics. nic_BGPPortState n = None \<and> nic_State n = Some \<lparr>ns_Desired = None, ns_Actual = ''UP''\<rparr> \<and> nic_Identifier n \<noteq> ''''"
  shows "\<exists>ns. switch_nics_loop (switches_env mm) sw [] [] nics ms st = (Inr ns, st)"
  using assms(2)
proof (induction nics arbitrary: ms)
  case (Cons n nics)
  then have n: "nic_BGPPortState n = None" "nic_State n = Some \<lparr>ns_Desired = None, ns_Actual = ''UP''\<rparr>" "nic_Identifier n \<noteq> []"
    by auto
  from Cons obtain ns where "switch_nics_loop (switches_env mm) sw [] [] nics ms st = (Inr ns, st)" by auto
  with n show ?case
    by (simp add: assms(1) bind_action_def fromSwitchBGPPortState_def fromSwitchPortState_def FromSwitchPortStatus_def
      getConnectedMachineForNic_def connected_machine_id_def makeBGPFilter_def nic_identifier_def)
qed simp

lemma env_convert:
  assumes "connections_of sw = []" and "sw_OS sw = Some os"
    and "\<forall>n\<in>set (sw_Nics sw). nic_BGPPortState n = None \<and> nic_State n = Some \<lparr>ns_Desired = None, ns_Actual = ''UP''\<rparr> \<and> nic_Identifier n \<noteq> ''''"
  shows "\<exists>r. switch_convertToProto (switches_env mm) sw st = (Inr r, st)"
proof -
  have tables: "tbl_List (se_networks (switches_env mm)) [] st = (Inr [], st)" "tbl_List (se_ips (switches_env mm)) [] st = (Inr [], st)"
    "get_or_none (se_status (switches_env mm)) i st = (Inr None, st)" for i
    by (simp_all add: switches_env_def tbl_List_def storage_List_def get_or_none_def storage_Get_def const_table_def list_rows_def)
  obtain ns where "switch_nics_loop (switches_env mm) sw [] [] (sw_Nics sw) [] st = (Inr ns, st)"
    using env_nics [OF assms(1,3)] by blast
  then show ?thesis
    by (simp add: switch_convertToProto_def convertToSwitchNics_def bind_action_def tables convertMachineConnections_def
        assms(1,2) FromReplaceMode_def FromSwitchOSVendor_def vendor_of_def Let_def)
qed

lemma example_adopt:
  "adoptConfiguration (switch_of ''a'' [port ''Ethernet0'' ''x''] []) (switch_of ''b'' [port ''Ethernet0'' ''y''] []) =
     Inr (switch_of ''b'' [port ''Ethernet0'' ''y''] [])"
  by (simp add: switch_of_def port_def adoptConfiguration_def adoptNics_def adoptMachineConnections_def TranslateNicMap_def
      MapByName_def map_keys_def vendor_of_def SliceStable_def connections_of_def)

lemma example_translate: "TranslateNicMap (switch_of i [port ''Ethernet0'' x] cons) SwitchOSVendorSonic =
    Inr [(''Ethernet0'', port ''Ethernet0'' x)]"
  by (simp add: switch_of_def port_def TranslateNicMap_def MapByName_def)

lemma switch_of_simps [simp]: "b_ID (switch_of i nics cons) = i" "sw_Rack (switch_of i nics cons) = ''r1''"
  "connections_of (switch_of i nics cons) = cons" "b_Changed (switch_of i nics cons) = 1" "sw_Nics (switch_of i nics cons) = nics"
  "sw_MachineConnections (switch_of i nics cons) = Some cons" "sw_OS (switch_of i nics cons) =
     Some \<lparr>os_Vendor = SwitchOSVendorSonic, os_Version = [], os_MetalCoreVersion = []\<rparr>"
  "vendor_of (switch_of i nics cons) = Inr SwitchOSVendorSonic" "sw_ReplaceMode (switch_of i nics cons) = SwitchReplaceModeOperational"
  by (simp_all add: switch_of_def connections_of_def vendor_of_def)

lemma example_migrated:
  "\<exists>r st'. Migrate (switches_env []) ''a'' ''b'' [switch_of ''a'' [port ''Ethernet0'' ''x''] [], switch_of ''b'' [port ''Ethernet0'' ''y''] []] =
     (Inr r, st')"
proof -
  let ?a = "switch_of ''a'' [port ''Ethernet0'' ''x''] []" and ?b = "switch_of ''b'' [port ''Ethernet0'' ''y''] []"
  let ?a' = "?a\<lparr>sw_MachineConnections := None, b_Changed := se_now (switches_env []), b_Generation := b_Generation ?a + 1\<rparr>"
  let ?b' = "?b\<lparr>b_Changed := se_now (switches_env []), b_Generation := b_Generation ?b + 1\<rparr>"
  have 1: "tbl_Update (se_switches (switches_env [])) (se_now (switches_env [])) (?a\<lparr>sw_MachineConnections := None\<rparr>) [?a, ?b] =
      (Inr ?a', [?a', ?b])"
    using env_update [of "[?a, ?b]" "?a\<lparr>sw_MachineConnections := None\<rparr>" ?a "[]" "se_now (switches_env [])"]
    by (simp add: list_rows_def list_without_def)
  have 2: "tbl_Update (se_switches (switches_env [])) (se_now (switches_env [])) ?b [?a', ?b] = (Inr ?b', [?b', ?a'])"
    using env_update [of "[?a', ?b]" ?b ?b "[]" "se_now (switches_env [])"]
    by (simp add: list_rows_def list_without_def)
  obtain r where 3: "switch_convertToProto (switches_env []) ?b' [?b', ?a'] = (Inr r, [?b', ?a'])"
    using env_convert [of ?b' _ "[]" "[?b', ?a']"] by (auto simp: switch_of_def connections_of_def port_def)
  show ?thesis
    by (simp add: Migrate_def bind_action_def on_error_def switch_get_def env_get list_rows_def example_adopt
        migrateMachineConnections_def example_translate 1 2 3)
qed

theorem migrated_switch_panics_witness:
  "\<exists>r st' prev'. Migrate (switches_env []) ''a'' ''b'' [switch_of ''a'' [port ''Ethernet0'' ''x''] [], switch_of ''b'' [port ''Ethernet0'' ''y''] []] =
     (Inr r, st') \<and> list_rows b_ID st' ''a'' = Some prev' \<and> sw_MachineConnections prev' = None"
proof -
  let ?a = "switch_of ''a'' [port ''Ethernet0'' ''x''] []" and ?b = "switch_of ''b'' [port ''Ethernet0'' ''y''] []"
  obtain r st' where m: "Migrate (switches_env []) ''a'' ''b'' [?a, ?b] = (Inr r, st')"
    using example_migrated by blast
  have rows: "list_rows b_ID [?a, ?b] ''a'' = Some ?a" "list_rows b_ID [?a, ?b] ''b'' = Some ?b"
    by (simp_all add: list_rows_def)
  have ne: "''a'' \<noteq> ''b''" by simp
  have "\<exists>prev'. list_rows b_ID st' ''a'' = Some prev' \<and> sw_MachineConnections prev' = None"
    using migrated_switch_panics [where rows = "list_rows b_ID", OF switches_env_table switches_env_key switches_env_keeps m ne rows]
    by blast
  with m show ?thesis by blast
qed



definition connected_to :: "string \<Rightarrow> string \<Rightarrow> Switch" where
  "connected_to i x = switch_of i [port ''Ethernet0'' x]
     [(''m'', [\<lparr>con_Nic = port ''Ethernet0'' x, con_MachineID = ''m''\<rparr>])]"




definition example_message :: ApiSwitch where
  "example_message = \<lparr>asw_Id = ''a'', asw_Meta = None, asw_Description = ''new'', asw_Rack = None,
     asw_Room = None, asw_Partition = ''p1'', asw_ReplaceMode = 0, asw_ManagementIp = '''', asw_ManagementUser = None,
     asw_ConsoleCommand = None,
     asw_Nics = [\<lparr>asn_Name = ''Ethernet0'', asn_Identifier = ''x'', asn_Mac = None, asn_Vrf = None, asn_State = None,
       asn_BgpFilter = None, asn_BgpPortState = None\<rparr>],
     asw_MachineConnections = [], asw_Os = None, asw_LastSync = None, asw_LastSyncError = None\<rparr>"

lemma connected_convert:
  assumes "sw_Nics s = [port ''Ethernet0'' ''x'']" and "sw_OS s = Some os"
    and "connections_of s = [(''m'', [\<lparr>con_Nic = port ''Ethernet0'' ''x'', con_MachineID = ''m''\<rparr>])]"
  shows "\<exists>r. switch_convertToProto (switches_env [machine_with_id ''m'']) s st = (Inr r, st)"
proof -
  let ?env = "switches_env [machine_with_id ''m'']"
  have tables: "tbl_List (se_networks ?env) [] st = (Inr [], st)" "tbl_List (se_ips ?env) [] st = (Inr [], st)"
    "get_or_none (se_status ?env) i st = (Inr None, st)" "tbl_Get (se_machines ?env) ''m'' st = (Inr (machine_with_id ''m''), st)" for i
    by (simp_all add: switches_env_def tbl_List_def storage_List_def get_or_none_def storage_Get_def tbl_Get_def const_table_def
        list_rows_def machine_with_id_def)
  have m: "m_Allocation (machine_with_id ''m'') = None" by (simp add: machine_with_id_def)
  have p: "nic_BGPPortState (port n i) = None" "nic_State (port n i) = Some \<lparr>ns_Desired = None, ns_Actual = ''UP''\<rparr>"
    "nic_Identifier (port n i) = i" "nic_Name (port n i) = n" for n i by (simp_all add: port_def)
  show ?thesis
    by (simp add: switch_convertToProto_def convertToSwitchNics_def bind_action_def tables convertMachineConnections_def
        assms FromReplaceMode_def FromSwitchOSVendor_def vendor_of_def fromSwitchBGPPortState_def fromSwitchPortState_def
        FromSwitchPortStatus_def getConnectedMachineForNic_def connected_machine_id_def makeBGPFilter_def nic_identifier_def m p)
qed

lemma example_registered:
  "\<exists>r st'. Register (switches_env [machine_with_id ''m'']) (Some example_message) [connected_to ''a'' ''x''] = (Inr r, st')"
proof -
  let ?env = "switches_env [machine_with_id ''m'']" and ?s = "connected_to ''a'' ''x''"
  let ?rq = "register_update example_message" and ?s1 = "connected_to ''a'' ''x''\<lparr>b_Description := ''new''\<rparr>"
  let ?s2 = "connected_to ''a'' ''x''\<lparr>b_Description := ''new'', b_Changed := se_now ?env, b_Generation := b_Generation (connected_to ''a'' ''x'') + 1\<rparr>"
  have s: "b_ID ?s = ''a''" "sw_Nics ?s = [port ''Ethernet0'' ''x'']" "sw_ReplaceMode ?s = SwitchReplaceModeOperational"
    "connections_of ?s = [(''m'', [\<lparr>con_Nic = port ''Ethernet0'' ''x'', con_MachineID = ''m''\<rparr>])]" "b_Changed ?s = 1"
    "connections_of (?s\<lparr>b_Description := d, b_Changed := t, b_Generation := g\<rparr>) =
      [(''m'', [\<lparr>con_Nic = port ''Ethernet0'' ''x'', con_MachineID = ''m''\<rparr>])]"
    "sw_OS ?s = Some \<lparr>os_Vendor = SwitchOSVendorSonic, os_Version = '''', os_MetalCoreVersion = ''''\<rparr>" for d t g
    by (simp_all add: connected_to_def connections_of_def)
  let ?n = "\<lparr>nic_MacAddress = '''', nic_Name = ''Ethernet0'', nic_Identifier = ''x'', nic_Vrf = '''', nic_Hostname = ''a'',
    nic_State = None, nic_BGPPortState = None, nic_Neighbors = []\<rparr>"
  have nics: "toMetalNics en ''a'' (swu_Nics ?rq) = Inr [?n]" "swu_Nics ?rq \<noteq> []" "swu_Id ?rq = ''a''" "swu_Os ?rq = None"
    "updateAllButNics en ?s ?rq = Inr ?s1" for en
    by (simp_all add: register_update_def example_message_def toMetalNic_def toSwitchBGPPortState_def toSwitchPortState_def
        pointer_SafeDeref_def updateAllButNics_def PointerOrNil_def)
  have valid: "checkDuplicateNics [?n] = Inr ()"
    "validateConnectedNics [port ''Ethernet0'' ''x''] [?n] [(''m'', [\<lparr>con_Nic = port ''Ethernet0'' ''x'', con_MachineID = ''m''\<rparr>])] = Inr ()"
    "updateNicNames [port ''Ethernet0'' ''x''] [?n] = [port ''Ethernet0'' ''x'']"
    by (simp_all add: checkDuplicateNics_def FindDuplicates_def validateConnectedNics_def updateNicNames_def MapByIdentifier_def
        port_def Let_def)
  have upd: "tbl_Update (se_switches ?env) (se_now ?env) ?s1 [?s] = (Inr ?s2, [?s2])"
    using env_update [of "[?s]" ?s1 ?s "[machine_with_id ''m'']" "se_now ?env"] s by (simp add: list_rows_def list_without_def)
  have get: "get_or_none (se_switches ?env) ''a'' [?s] = (Inr (Some ?s), [?s])" "tbl_Get (se_switches ?env) ''a'' [?s] = (Inr ?s, [?s])"
    using s(1) by (simp_all add: get_or_none_def storage_Get_def tbl_Get_def switches_env_def base_table_def list_rethink_def list_rows_def)
  obtain r1 where conv1: "switch_convertToProto ?env ?s [?s] = (Inr r1, [?s])"
    using connected_convert [of ?s _ "[?s]"] s by blast
  obtain r2 where conv2: "switch_convertToProto ?env ?s2 [?s2] = (Inr r2, [?s2])"
    using connected_convert [of ?s2 _ "[?s2]"] s by auto
  have mode: "SwitchReplaceModeOperational \<noteq> SwitchReplaceModeReplace"
    by (simp add: SwitchReplaceModeOperational_def SwitchReplaceModeReplace_def)
  have part: "partition_error ?env p st = []" for p st by (simp add: partition_error_def switches_env_def)
  have check: "switch_validateUpdate ?env ?rq ?s [?s] = (Inr (), [?s])"
    by (simp add: switch_validateUpdate_def bind_action_def on_error_def nics get part result_error_def valid s errors_Join_def)
  have s1: "sw_Nics ?s1 = [port ''Ethernet0'' ''x'']" "b_ID ?s1 = ''a''" "?s1\<lparr>sw_Nics := [port ''Ethernet0'' ''x'']\<rparr> = ?s1"
    using s(2) by (simp_all add: connected_to_def switch_of_def)
  have up: "updateOnRegister ?env ?s ?rq [?s] = (Inr ?s2, [?s2])"
    using nics(2) by (simp add: updateOnRegister_def bind_action_def nics(1,5) s1 valid(3) upd)
  have id: "asw_Id example_message = ''a''" by (simp add: example_message_def)
  show ?thesis
    by (simp add: Register_def bind_action_def id get conv1 conv2 s(3) mode check up)
qed

theorem registration_keeps_connected_ports_witness:
  "\<exists>r st' sw'. Register (switches_env [machine_with_id ''m'']) (Some example_message) [connected_to ''a'' ''x''] = (Inr r, st') \<and>
     list_rows b_ID st' ''a'' = Some sw' \<and> port ''Ethernet0'' ''x'' \<in> set (sw_Nics sw')"
proof -
  let ?s = "connected_to ''a'' ''x''"
  obtain r st' where reg: "Register (switches_env [machine_with_id ''m'']) (Some example_message) [?s] = (Inr r, st')"
    using example_registered by blast
  have sw: "list_rows b_ID [?s] (asw_Id example_message) = Some ?s" "sw_ReplaceMode ?s \<noteq> SwitchReplaceModeReplace"
    and n: "distinct (map nic_Identifier (sw_Nics ?s))" "port ''Ethernet0'' ''x'' \<in> set (sw_Nics ?s)"
      "nic_Identifier (port ''Ethernet0'' ''x'') \<noteq> ''''"
      "nicIsConnected (nic_Identifier (port ''Ethernet0'' ''x'')) (connections_of ?s)"
    by (simp_all add: connected_to_def list_rows_def example_message_def SwitchReplaceModeOperational_def
        SwitchReplaceModeReplace_def nicIsConnected_def port_def)
  have id: "asw_Id example_message = ''a''" by (simp add: example_message_def)
  from registration_keeps_connected_ports [where rows = "list_rows b_ID",
      OF switches_env_table switches_env_key reg sw] n reg
  show ?thesis unfolding id by blast
qed

theorem adopted_configuration_witness:
  "\<exists>s cons'. adoptConfiguration (connected_to ''a'' ''x'') (switch_of ''b'' [port ''Ethernet0'' ''y''] []) = Inr s \<and>
     map_of (connections_of s) ''m'' = Some cons' \<and>
     list_all2 (adopts [(''Ethernet0'', port ''Ethernet0'' ''y'')])
       [\<lparr>con_Nic = port ''Ethernet0'' ''x'', con_MachineID = ''m''\<rparr>] cons'"
proof -
  let ?a = "connected_to ''a'' ''x''" and ?b = "switch_of ''b'' [port ''Ethernet0'' ''y''] []"
  have a: "vendor_of ?a = Inr SwitchOSVendorSonic" "distinct (map_keys (connections_of ?a))"
    "map_of (connections_of ?a) ''m'' = Some [\<lparr>con_Nic = port ''Ethernet0'' ''x'', con_MachineID = ''m''\<rparr>]"
    by (simp_all add: connected_to_def map_keys_def)
  have nic_Name: "nic_Name (port n i) = n" for n i by (simp add: port_def)
  have "is_ok (adoptConfiguration ?a ?b)"
    by (simp add: adoptConfiguration_def adoptNics_def adoptMachineConnections_def a(1) example_translate connected_to_def
        MapByName_def map_keys_def nic_Name SliceStable_def)
  then obtain s where s: "adoptConfiguration ?a ?b = Inr s" by (auto simp: is_ok_iff)
  from adopted_configuration [OF s a(1) example_translate a(2)] s a(3) show ?thesis by blast
qed

definition namespaced_ip :: IP where
  "namespaced_ip = \<lparr>b_ID = ''ns-10.0.0.1'', b_Name = '''', b_Description = '''', b_Created = 0, b_Changed = 0,
     b_Generation = 0, ip_AllocationUUID = '''', ip_Namespace = Some ''ns'', ip_ParentPrefixCidr = '''',
     ip_ProjectID = ''p'', ip_NetworkID = '''', ip_Type = Ephemeral, ip_Tags = []\<rparr>"

theorem namespaced_ip_breaks_filter_witness:
  "\<exists>err. makeBGPFilter (\<lambda>ps. Inr ps) (Some (machine_of ''m'' ''p'')) [] '''' [] [namespaced_ip] = Inl err"
  by (rule namespaced_ip_breaks_filter [where a = "example_allocation ''p''" and i = namespaced_ip and ns = "''ns''"
      and addr = "''10.0.0.1''"])
    (simp_all add: namespaced_ip_def example_allocation_def CreateNamespacedIPAddress_def namespaceSeparator_def
      isFirewallIP_def)

text \<open>
  Machine m is cabled to port Ethernet0 of the first switch and to port Ethernet1 of the second one, whose port
  Ethernet0 another machine is connected to: the check passes although the ports do not correspond.
\<close>

lemma counterpart_of_another_machine:
  "check_counterparts [(''Ethernet0'', ''Ethernet0'')]
     [(''Ethernet0'', \<lparr>con_Nic = port ''Ethernet0'' ''y'', con_MachineID = ''other''\<rparr>),
      (''Ethernet1'', \<lparr>con_Nic = port ''Ethernet1'' ''z'', con_MachineID = ''m''\<rparr>)]
     [\<lparr>con_Nic = port ''Ethernet0'' ''x'', con_MachineID = ''m''\<rparr>] = Inr ()"
  by (simp add: port_def)

end
