(* ===== verification/MachineNetworks.thy ===== *)
theory MachineNetworks
  imports IpRepository IntegerPool MachineQueries
begin

text \<open>
  The networks of a machine that is allocated, the second half of \<^verbatim>\<open>pkg/repository/machine-create.go\<close>:
  the networks and addresses of the request, the addresses that are acquired for it, and the tags of
  the machine. The world has the tables of the database but those of the addresses, the addresses
  with the address management service, the pool of ASNs and the server of the VPN; networks are only read.
\<close>

section \<open>The world\<close>

record ('d, 'a, 'i, 'q, 'h) machine_world =
  mw_db :: 'd
  mw_ip :: "('a, 'i) ip_world"
  mw_pool :: 'q
  mw_vpn :: 'h
  mw_count :: nat \<comment> \<open>of the UUIDs that have been made\<close>

type_synonym ('d, 'a, 'i, 'q, 'h, 'x) machine_action = "(('d, 'a, 'i, 'q, 'h) machine_world, 'x) action"

definition on_db :: "('d, 'x) action \<Rightarrow> ('d, 'a, 'i, 'q, 'h, 'x) machine_action" where
  "on_db a w = (let (r, st) = a (mw_db w) in (r, w\<lparr>mw_db := st\<rparr>))"

definition on_vpn :: "('h, 'x) action \<Rightarrow> ('d, 'a, 'i, 'q, 'h, 'x) machine_action" where
  "on_vpn a w = (let (r, st) = a (mw_vpn w) in (r, w\<lparr>mw_vpn := st\<rparr>))"

definition on_ip :: "('a, 'i, 'x) ip_action \<Rightarrow> ('d, 'a, 'i, 'q, 'h, 'x) machine_action" where
  "on_ip a w = (let (r, st) = a (mw_ip w) in (r, w\<lparr>mw_ip := st\<rparr>))"

definition on_asn_pool :: "('q \<Rightarrow> 'x result \<times> 'q) \<Rightarrow> ('d, 'a, 'i, 'q, 'h, 'x) machine_action" where
  "on_asn_pool a w = (let (r, st) = a (mw_pool w) in (r, w\<lparr>mw_pool := st\<rparr>))"

text \<open>The UUIDs that are made are a sequence; making one may fail.\<close>

definition fresh_uuid :: "(nat \<Rightarrow> 'x result) \<Rightarrow> ('d, 'a, 'i, 'q, 'h, 'x) machine_action" where
  "fresh_uuid uuids w = (uuids (mw_count w), w\<lparr>mw_count := Suc (mw_count w)\<rparr>)"

record ('a, 'n, 'p, 'i, 'q) allocation_env =
  al_ip :: "('a, 'n, 'p, 'i) ip_env" \<comment> \<open>with the networks and the token of the request\<close>
  al_pool_table :: "'q pool_table"
  al_pool :: integerPool
  al_retry :: "'q retry"
  al_uuid :: "nat \<Rightarrow> string result"

section \<open>The networks of the request\<close>

record MachineAllocationNetwork =
  man_Network :: string
  man_Ips :: "string list"

record allocationNetwork =
  an_network :: Network
  an_ips :: "IP list"

fun allocation_ips ::
  "('a, 'n, 'p, 'i, 'q) allocation_env \<Rightarrow> Network \<Rightarrow> string list \<Rightarrow> ('d, 'a, 'i, 'q, 'h, IP list) machine_action" where
  "allocation_ips env network [] = return []"
| "allocation_ips env network (allocationIP # ips) =
     bind_action (on_ip (on_ips (tbl_Get (ie_table (al_ip env))
       (CreateNamespacedIPAddress (nw_Namespace network) allocationIP)))) (\<lambda>ip.
     bind_action (allocation_ips env network ips) (\<lambda>ips. return (ip # ips)))"

fun spec_networks ::
  "('a, 'n, 'p, 'i, 'q) allocation_env \<Rightarrow> MachineAllocationNetwork list \<Rightarrow>
   ('d, 'a, 'i, 'q, 'h, allocationNetwork list) machine_action" where
  "spec_networks env [] = return []"
| "spec_networks env (networkSpec # networks) =
     bind_action (lift_result (ip_network (al_ip env) (man_Network networkSpec))) (\<lambda>network.
     bind_action (allocation_ips env network (man_Ips networkSpec)) (\<lambda>ips.
     bind_action (spec_networks env networks) (\<lambda>specNetworks.
     return (\<lparr>an_network = network, an_ips = ips\<rparr> # specNetworks))))"

text \<open>The underlay network of a partition.\<close>

definition find_underlay :: "('a, 'n, 'p, 'i) ip_env \<Rightarrow> string \<Rightarrow> Network result" where
  "find_underlay env part =
     bind_result (NetworkFilter (ne_enums (ie_net env))
       (Some (empty_NetworkQuery\<lparr>nq_Partition := Some part, nq_Type := Some NETWORK_TYPE_UNDERLAY\<rparr>))) (\<lambda>f.
     storage_Find (ne_table (ie_net env)) (case f of None \<Rightarrow> [] | Some f \<Rightarrow> [f]) (ie_networks env))"

definition convertToMetalAllocationNetworks ::
  "('a, 'n, 'p, 'i, 'q) allocation_env \<Rightarrow> MachineAllocationNetwork list \<Rightarrow> string \<Rightarrow> Role \<Rightarrow>
   ('d, 'a, 'i, 'q, 'h, allocationNetwork list) machine_action" where
  "convertToMetalAllocationNetworks env networks part role =
     bind_action (spec_networks env networks) (\<lambda>specNetworks.
     if role = RoleFirewall
     then bind_action (lift_result (find_underlay (al_ip env) part)) (\<lambda>underlay.
          return (specNetworks @ [\<lparr>an_network = underlay, an_ips = []\<rparr>]))
     else return specNetworks)"

section \<open>Acquiring addresses\<close>

definition autoassigned :: "string \<Rightarrow> string \<Rightarrow> string \<Rightarrow> IPAddressFamily \<Rightarrow> IPServiceCreateRequest" where
  "autoassigned network project name af =
     \<lparr>icr_Network = network, icr_Project = project, icr_Name = Some name, icr_Description = Some ''autoassigned'',
      icr_Ip = None, icr_Machine = None, icr_Labels = None, icr_Type = Some IP_TYPE_EPHEMERAL,
      icr_AddressFamily = Some af\<rparr>"

text \<open>One address of every family of the network.\<close>

fun acquire_ips ::
  "('a, 'n, 'p, 'i, 'q) allocation_env \<Rightarrow> string \<Rightarrow> string \<Rightarrow> string \<Rightarrow> AddressFamily list \<Rightarrow>
   ('d, 'a, 'i, 'q, 'h, IP list) machine_action" where
  "acquire_ips env network project name [] = return []"
| "acquire_ips env network project name (af # afs) =
     bind_action (lift_result (FromAddressFamily af)) (\<lambda>apiaf.
     bind_action (fresh_uuid (\<lambda>n. Inr (al_uuid env n))) (\<lambda>uuid.
     bind_action (on_ip (ip_create ((al_ip env)\<lparr>ie_newID := uuid\<rparr>) (autoassigned network project name apiaf))) (\<lambda>ip.
     bind_action (acquire_ips env network project name afs) (\<lambda>ips. return (ip # ips)))))"

text \<open>Every address gets the tag of the machine.\<close>

fun tag_ips ::
  "('a, 'n, 'p, 'i, 'q) allocation_env \<Rightarrow> string \<Rightarrow> IP list \<Rightarrow> ('d, 'a, 'i, 'q, 'h, IP list) machine_action" where
  "tag_ips env machineUUID [] = return []"
| "tag_ips env machineUUID (ip # ips) =
     bind_action (on_ip (on_ips (tbl_Update (ie_table (al_ip env)) (ie_now (al_ip env))
       (AddMachineId (ie_MachineID (al_ip env)) machineUUID ip)))) (\<lambda>ip.
     bind_action (tag_ips env machineUUID ips) (\<lambda>ips. return (ip # ips)))"

definition machine_network :: "Network \<Rightarrow> IP list \<Rightarrow> 32 word \<Rightarrow> MachineNetwork" where
  "machine_network network ips asn =
     \<lparr>mn_NetworkID = b_ID network, mn_Prefixes = map Prefix_String (nw_Prefixes network), mn_IPs = map b_ID ips,
      mn_DestinationPrefixes = map Prefix_String (nw_DestinationPrefixes network), mn_Vrf = nw_Vrf network,
      mn_PrivatePrimary = False,
      mn_Private = (nw_NetworkType network = NetworkTypeChild \<or> nw_NetworkType network = NetworkTypeChildShared),
      mn_ASN = asn, mn_Nat = False, mn_Underlay = False, mn_Shared = False, mn_ProjectID = nw_ProjectID network,
      mn_NetworkType = nw_NetworkType network, mn_NATType = nw_NATType network\<rparr>"

definition makeMachineNetwork ::
  "('a, 'n, 'p, 'i, 'q) allocation_env \<Rightarrow> string \<Rightarrow> string \<Rightarrow> string \<Rightarrow> allocationNetwork \<Rightarrow> 32 word \<Rightarrow>
   ('d, 'a, 'i, 'q, 'h, MachineNetwork \<times> IP list) machine_action" where
  "makeMachineNetwork env machineUUID project name network asn =
     bind_action
       (if length (an_ips network) = 0
        then acquire_ips env (b_ID (an_network network)) project name (AddressFamilies (nw_Prefixes (an_network network)))
        else return (an_ips network)) (\<lambda>ips.
     bind_action (tag_ips env machineUUID ips) (\<lambda>ips.
     return (machine_network (an_network network) ips asn, ips)))"

fun make_networks_loop ::
  "('a, 'n, 'p, 'i, 'q) allocation_env \<Rightarrow> string \<Rightarrow> string \<Rightarrow> string \<Rightarrow> 32 word \<Rightarrow> allocationNetwork list \<Rightarrow>
   ('d, 'a, 'i, 'q, 'h, MachineNetwork list \<times> IP list) machine_action" where
  "make_networks_loop env machineUUID project name asn [] = return ([], [])"
| "make_networks_loop env machineUUID project name asn (n # networks) =
     bind_action (makeMachineNetwork env machineUUID project name n asn) (\<lambda>(machineNetwork, allocIPs).
     bind_action (make_networks_loop env machineUUID project name asn networks) (\<lambda>(machineNetworks, allocatedIPs).
     return (machineNetwork # machineNetworks, allocIPs @ allocatedIPs)))"

text \<open>All networks get the same ASN.\<close>

definition makeNetworks ::
  "('a, 'n, 'p, 'i, 'q) allocation_env \<Rightarrow> string \<Rightarrow> string \<Rightarrow> string \<Rightarrow> allocationNetwork list \<Rightarrow>
   ('d, 'a, 'i, 'q, 'h, MachineNetwork list \<times> IP list) machine_action" where
  "makeNetworks env machineUUID project name networks =
     bind_action (on_asn_pool (acquireASN (al_retry env) (al_pool_table env))) (\<lambda>asn.
     make_networks_loop env machineUUID project name asn networks)"

section \<open>Tags\<close>

record tag_names =
  tn_PrimaryASN :: string
  tn_Rack :: string
  tn_Chassis :: string

text \<open>The labels are visited in the order \<open>ord\<close>.\<close>

definition machine_labels :: "tag_names \<Rightarrow> Machine \<Rightarrow> MachineAllocation \<Rightarrow> Labels" where
  "machine_labels tn m a =
     (let labels = (case find (\<lambda>n. mn_ASN n \<noteq> 0) (ma_MachineNetworks a) of
            None \<Rightarrow> []
          | Some n \<Rightarrow> AList.update (tn_PrimaryASN tn) (itoa (unat (mn_ASN n))) []);
          labels = (if m_RackID m \<noteq> '''' then AList.update (tn_Rack tn) (m_RackID m) labels else labels)
      in if fru_ChassisPartSerial (ipmi_Fru (m_IPMI m)) \<noteq> ''''
         then AList.update (tn_Chassis tn) (fru_ChassisPartSerial (ipmi_Fru (m_IPMI m))) labels
         else labels)"

definition addMachineTagsAndLabels :: "tag_names \<Rightarrow> string map_order \<Rightarrow> Machine \<Rightarrow> MachineAllocation \<Rightarrow> Machine" where
  "addMachineTagsAndLabels tn ord m a =
     (let labels = machine_labels tn m a
      in m\<lparr>m_Tags := lo_Uniq (map (\<lambda>k. k @ ''='' @ map_get '''' labels k) (ord (map_keys labels)))\<rparr>)"

end
