(* ===== verification/Vpn.thy ===== *)
theory Vpn
  imports NetworkRepository Labels
begin

text \<open>
  The VPN of the firewalls, \<^verbatim>\<open>pkg/repository/vpn.go\<close>, over the client of the headscale server, which is
  not part of the repository: its calls are a record of functions on the server's state \<open>'h\<close>, and an
  error of the creation of a user comes with its text.
\<close>

record HeadscaleUser =
  hu_Id :: "64 word"
  hu_Name :: string

record HeadscaleNode =
  hn_Id :: "64 word"
  hn_Name :: string
  hn_User :: string
  hn_IpAddresses :: "string list"
  hn_LastSeen :: time
  hn_Online :: bool

record PreAuthKey =
  pk_Key :: string
  pk_Ephemeral :: bool
  pk_Expiration :: time
  pk_CreatedAt :: time

record 'h headscale =
  hs_CreateUser :: "string \<Rightarrow> 'h \<Rightarrow> (string + HeadscaleUser) \<times> 'h"
  hs_ListUsers :: "string \<Rightarrow> 'h \<Rightarrow> HeadscaleUser list result"
  hs_CreatePreAuthKey :: "64 word \<Rightarrow> bool \<Rightarrow> time \<Rightarrow> ('h, PreAuthKey) action"
  hs_ListNodes :: "string \<Rightarrow> 'h \<Rightarrow> HeadscaleNode list result" \<comment> \<open>of a user, of all users for the empty name\<close>
  hs_DeleteNode :: "64 word \<Rightarrow> ('h, unit) action"
  hs_SetPolicy :: "string \<Rightarrow> ('h, unit) action"
  hs_ControllerURL :: string

record 'h vpn_env =
  vp_client :: "'h headscale option"
  vp_scope :: "string option"
  vp_project :: "string \<Rightarrow> string \<Rightarrow> unit result" \<comment> \<open>reads a project in the scope of a project\<close>
  vp_Convert :: "go_error \<Rightarrow> go_error"
  vp_now :: time

record VPNAuthKeyRequest =
  vkr_Project :: string
  vkr_Ephemeral :: bool
  vkr_Expires :: "duration option"

record VPNAuthKey =
  vk_Address :: string
  vk_AuthKey :: string
  vk_Ephemeral :: bool
  vk_ExpiresAt :: time
  vk_CreatedAt :: time

record VPNNode =
  vn_Id :: "64 word"
  vn_Name :: string
  vn_Project :: string
  vn_IpAddresses :: "string list"
  vn_LastSeen :: time
  vn_Online :: bool

definition vpn_defaultExpiration :: duration where "vpn_defaultExpiration = Hour"

text \<open>The lines of the policy, each with the number of its tabs.\<close>

definition HeadscaleDefaultPolicy :: string where
  "HeadscaleDefaultPolicy =
     ''{'' @ concat (map (\<lambda>(tabs, line). [CHR 0x0A] @ replicate tabs (CHR 0x09) @ line)
       [(2, [CHR 0x22] @ ''acls'' @ [CHR 0x22] @ '': [''),
        (3, ''{''),
        (4, [CHR 0x22] @ ''action'' @ [CHR 0x22] @ '': '' @ [CHR 0x22] @ ''accept'' @ [CHR 0x22] @ '',''),
        (4, [CHR 0x22] @ ''src'' @ [CHR 0x22] @ '': ['' @ [CHR 0x22] @ ''autogroup:member'' @ [CHR 0x22] @ ''],''),
        (4, [CHR 0x22] @ ''dst'' @ [CHR 0x22] @ '': ['' @ [CHR 0x22] @ ''autogroup:self:*'' @ [CHR 0x22] @ '']''),
        (3, ''}''),
        (2, '']''),
        (1, ''}'')])"

definition vpn_Enabled :: "'h vpn_env \<Rightarrow> bool" where
  "vpn_Enabled v = (vp_client v \<noteq> None)"

text \<open>A call on a client that is not there dereferences a nil pointer.\<close>

definition with_client :: "'h vpn_env \<Rightarrow> ('h headscale \<Rightarrow> ('h, 'x) action) \<Rightarrow> ('h, 'x) action" where
  "with_client v f =
     (case vp_client v of None \<Rightarrow> fail (Panic ''invalid memory address or nil pointer dereference'') | Some c \<Rightarrow> f c)"

fun Contains_string :: "string \<Rightarrow> string \<Rightarrow> bool" where
  "Contains_string [] t = (t = [])"
| "Contains_string (c # cs) t = (HasPrefix_string (c # cs) t \<or> Contains_string cs t)"

definition vpn_GetUser :: "'h vpn_env \<Rightarrow> string \<Rightarrow> ('h, HeadscaleUser option) action" where
  "vpn_GetUser v name = with_client v (\<lambda>c st.
     case hs_ListUsers c name st of
       Inl _ \<Rightarrow> (Inr None, st)
     | Inr users \<Rightarrow> (Inr (find (\<lambda>u. hu_Name u = name) (rev users)), st))"

definition vpn_CreateUser :: "'h vpn_env \<Rightarrow> string \<Rightarrow> ('h, HeadscaleUser) action" where
  "vpn_CreateUser v name = with_client v (\<lambda>c st.
     case hs_CreateUser c name st of
       (Inr user, st) \<Rightarrow> (Inr user, st)
     | (Inl msg, st) \<Rightarrow>
         if Contains_string msg ''user already exists'' \<or> Contains_string msg ''UNIQUE constraint failed''
         then (Inl (Conflict msg), st) else (Inl (Plain msg), st))"

definition vpn_CreateAuthKey :: "'h vpn_env \<Rightarrow> VPNAuthKeyRequest \<Rightarrow> ('h, VPNAuthKey) action" where
  "vpn_CreateAuthKey v req =
     bind_action (lift_result (vp_project v (case vp_scope v of None \<Rightarrow> vkr_Project req | Some p \<Rightarrow> p) (vkr_Project req))) (\<lambda>_.
     bind_action (vpn_GetUser v (vkr_Project req)) (\<lambda>found.
     bind_action (case found of None \<Rightarrow> vpn_CreateUser v (vkr_Project req) | Some u \<Rightarrow> return u) (\<lambda>headscaleUser.
     with_client v (\<lambda>c.
     bind_action (on_error (vp_Convert v) (hs_CreatePreAuthKey c (hu_Id headscaleUser) (vkr_Ephemeral req)
       (vp_now v + (case vkr_Expires req of None \<Rightarrow> vpn_defaultExpiration | Some d \<Rightarrow> d)))) (\<lambda>key.
     return \<lparr>vk_Address = hs_ControllerURL c, vk_AuthKey = pk_Key key, vk_Ephemeral = pk_Ephemeral key,
       vk_ExpiresAt = pk_Expiration key, vk_CreatedAt = pk_CreatedAt key\<rparr>)))))"

definition vpn_ListNodes :: "'h vpn_env \<Rightarrow> string option \<Rightarrow> ('h, VPNNode list) action" where
  "vpn_ListNodes v project = with_client v (\<lambda>c.
     bind_action (on_error (Wrapped ''failed to list nodes: %w'') (\<lambda>st. (hs_ListNodes c (pointer_SafeDeref project) st, st))) (\<lambda>nodes.
     return (map (\<lambda>n. \<lparr>vn_Id = hn_Id n, vn_Name = hn_Name n, vn_Project = hn_User n,
       vn_IpAddresses = hn_IpAddresses n, vn_LastSeen = hn_LastSeen n, vn_Online = hn_Online n\<rparr>) nodes)))"

definition vpn_getNode :: "'h vpn_env \<Rightarrow> string \<Rightarrow> string \<Rightarrow> ('h, HeadscaleNode) action" where
  "vpn_getNode v machineID projectID = with_client v (\<lambda>c.
     bind_action (on_error (Wrapped ''failed to list nodes: %w'') (\<lambda>st. (hs_ListNodes c projectID st, st))) (\<lambda>nodes.
     case find (\<lambda>m. hn_Name m = machineID) nodes of
       None \<Rightarrow> fail (NotFound ''node with id %s and project %s not found'')
     | Some m \<Rightarrow> return m))"

definition vpn_DeleteNode :: "'h vpn_env \<Rightarrow> string \<Rightarrow> string \<Rightarrow> ('h, HeadscaleNode) action" where
  "vpn_DeleteNode v machineID projectID =
     bind_action (vpn_getNode v machineID projectID) (\<lambda>machine.
     with_client v (\<lambda>c.
     bind_action (on_error (Wrapped ''failed to delete machine: %w'') (hs_DeleteNode c (hn_Id machine))) (\<lambda>_.
     return machine)))"

definition vpn_SetDefaultPolicy :: "'h vpn_env \<Rightarrow> ('h, unit) action" where
  "vpn_SetDefaultPolicy v = with_client v (\<lambda>c. hs_SetPolicy c HeadscaleDefaultPolicy)"

definition ControlPlaneAddress :: "'h vpn_env \<Rightarrow> string result" where
  "ControlPlaneAddress v =
     (case vp_client v of None \<Rightarrow> Inl (Panic ''invalid memory address or nil pointer dereference'')
      | Some c \<Rightarrow> Inr (hs_ControllerURL c))"

section \<open>Releasing the node of a machine\<close>

text \<open>The task of a deleted machine; the project is its scope for the deletion, not for the list.\<close>

definition releaseVpnNodeTask :: "'h vpn_env \<Rightarrow> string \<Rightarrow> string \<Rightarrow> 64 word option \<Rightarrow> ('h, unit) action" where
  "releaseVpnNodeTask v project uuid headscaleNodeID =
     (if \<not> vpn_Enabled v then return ()
      else
        (case headscaleNodeID of
           None \<Rightarrow> return ()
         | Some i \<Rightarrow>
             bind_action (on_error (Wrapped ''unable to list vpn nodes: %w'') (vpn_ListNodes v (Some project))) (\<lambda>nodes.
             if list_ex (\<lambda>node. vn_Id node \<noteq> i) nodes then return ()
             else
               (\<lambda>st. case vpn_DeleteNode v uuid project st of
                  (Inr _, st) \<Rightarrow> (Inr (), st)
                | (Inl err, st) \<Rightarrow>
                    if IsNotFound err then (Inr (), st) else (Inl (Wrapped ''unable to delete vpn node: %w'' err), st)))))"

section \<open>A server in memory\<close>

text \<open>The witnesses instantiate the server with the list of its nodes.\<close>

definition list_headscale :: "HeadscaleNode list headscale" where
  "list_headscale =
     \<lparr>hs_CreateUser = (\<lambda>name ns. (Inr \<lparr>hu_Id = 1, hu_Name = name\<rparr>, ns)),
      hs_ListUsers = (\<lambda>name ns. Inr [\<lparr>hu_Id = 1, hu_Name = name\<rparr>]),
      hs_CreatePreAuthKey = (\<lambda>i e t ns. (Inr \<lparr>pk_Key = ''key'', pk_Ephemeral = e, pk_Expiration = t, pk_CreatedAt = 0\<rparr>, ns)),
      hs_ListNodes = (\<lambda>name ns. Inr (filter (\<lambda>n. name = '''' \<or> hn_User n = name) ns)),
      hs_DeleteNode = (\<lambda>i ns. (Inr (), filter (\<lambda>n. hn_Id n \<noteq> i) ns)),
      hs_SetPolicy = (\<lambda>_ ns. (Inr (), ns)),
      hs_ControllerURL = ''https://headscale''\<rparr>"

definition list_vpn :: "HeadscaleNode list vpn_env" where
  "list_vpn = \<lparr>vp_client = Some list_headscale, vp_scope = None, vp_project = (\<lambda>_ _. Inr ()), vp_Convert = (\<lambda>e. e),
     vp_now = 0\<rparr>"

text \<open>
  C13: The task that releases the VPN node of a deleted firewall does nothing if the project has a node
  with another id: with two firewalls of a project in the VPN, neither node is ever removed by it.
\<close>

theorem node_kept_beside_others:
  assumes "vp_client v = Some c" and "hs_ListNodes c project st = Inr nodes"
    and "\<exists>n\<in>set nodes. hn_Id n \<noteq> i"
  shows "releaseVpnNodeTask v project uuid (Some i) st = (Inr (), st)"
  using assms
  by (auto simp: releaseVpnNodeTask_def vpn_Enabled_def vpn_ListNodes_def with_client_def bind_action_def on_error_def
      pointer_SafeDeref_def list_ex_iff)

text \<open>Alone in its project, the node is removed.\<close>

lemma single_node_deleted:
  assumes "vp_client v = Some c" and "hs_ListNodes c project st = Inr [n]" and "hn_Id n = i" and "hn_Name n = uuid"
    and "hs_DeleteNode c i st = (Inr (), st')"
  shows "releaseVpnNodeTask v project uuid (Some i) st = (Inr (), st')"
  using assms
  by (auto simp: releaseVpnNodeTask_def vpn_Enabled_def vpn_ListNodes_def with_client_def bind_action_def on_error_def
      vpn_DeleteNode_def vpn_getNode_def pointer_SafeDeref_def)

definition two_nodes :: "HeadscaleNode list" where
  "two_nodes = map (\<lambda>(i, name). \<lparr>hn_Id = i, hn_Name = name, hn_User = ''p'', hn_IpAddresses = [], hn_LastSeen = 0,
     hn_Online = True\<rparr>) [(1, ''fw1''), (2, ''fw2'')]"

lemma node_kept_beside_others_witness:
  "releaseVpnNodeTask list_vpn ''p'' ''fw1'' (Some 1) two_nodes = (Inr (), two_nodes)"
  by (rule node_kept_beside_others [where c = list_headscale and nodes = two_nodes])
    (simp_all add: list_vpn_def list_headscale_def two_nodes_def)

end
