(* ===== verification/SharedMutex.thy ===== *)
theory SharedMutex
  imports Rethink Repository
begin

text \<open>
  The mutexes that the replicas of the server share through a table of the database,
  \<^verbatim>\<open>pkg/db/generic/shared_mutex.go\<close>: a mutex is locked while there is a row with its key, a row that
  has expired is removed by a loop. Waiting for a mutex is a list of the changes of its row that are
  observed before the timeout, each with what the other clients did before it.
\<close>

section \<open>The code\<close>

definition defaultSharedMutexCheckInterval :: duration where
  "defaultSharedMutexCheckInterval = 30 * Second"

definition defaultSharedMutexAcquireTimeout :: duration where
  "defaultSharedMutexAcquireTimeout = 10 * Second"

definition defaultSharedMutexExpirationTimeout :: duration where
  "defaultSharedMutexExpirationTimeout = 10 * Second"

record sharedMutexDoc =
  mx_ID :: string
  mx_LockedAt :: time
  mx_ExpiresAt :: time

text \<open>The table with the deletion of the rows that a filter selects.\<close>

record 'st mutex_table = "('st, string, sharedMutexDoc) rethink" +
  mt_DeleteWhere :: "(sharedMutexDoc \<Rightarrow> bool) \<Rightarrow> 'st \<Rightarrow> write_error + 'st"

definition newMutexDoc :: "time \<Rightarrow> string \<Rightarrow> duration \<Rightarrow> sharedMutexDoc" where
  "newMutexDoc now key expiration =
     \<lparr>mx_ID = key, mx_LockedAt = now, mx_ExpiresAt = now + expiration\<rparr>"

definition write_failed :: "write_error \<Rightarrow> go_error" where
  "write_failed e = Plain ''%w''"

text \<open>A change of the row: what the others did before it, its new value and the time it is handled.\<close>

record 'st observation =
  ob_others :: "'st \<Rightarrow> 'st"
  ob_NewValue :: "sharedMutexDoc option"
  ob_time :: time

fun lock_wait ::
  "('st, 'z) mutex_table_scheme \<Rightarrow> string \<Rightarrow> duration \<Rightarrow> 'st observation list \<Rightarrow> ('st, unit) action" where
  "lock_wait mt key expiration [] st = (Inl (Plain ''unable to acquire mutex: %s''), st)"
| "lock_wait mt key expiration (ob # obs) st =
     (let st = ob_others ob st
      in if ob_NewValue ob \<noteq> None then lock_wait mt key expiration obs st
         else
           (case rt_Insert mt (newMutexDoc (ob_time ob) key expiration) st of
              Inr st \<Rightarrow> (Inr (), st)
            | Inl ConflictErr \<Rightarrow> lock_wait mt key expiration obs st
            | Inl err \<Rightarrow> (Inl (write_failed err), st)))"

text \<open>The changes that are observed are those of the cursor, which may fail to open.\<close>

definition mutex_lock ::
  "('st, 'z) mutex_table_scheme \<Rightarrow> time \<Rightarrow> string \<Rightarrow> duration \<Rightarrow> 'st observation list result \<Rightarrow> ('st, unit) action" where
  "mutex_lock mt now key expiration changes st =
     (case rt_Insert mt (newMutexDoc now key expiration) st of
        Inr st \<Rightarrow> (Inr (), st)
      | Inl ConflictErr \<Rightarrow>
          (case changes of
             Inl err \<Rightarrow> (Inl err, st)
           | Inr obs \<Rightarrow> lock_wait mt key expiration obs st)
      | Inl err \<Rightarrow> (Inl (write_failed err), st))"

text \<open>An error is only logged.\<close>

definition mutex_unlock :: "('st, 'z) mutex_table_scheme \<Rightarrow> string \<Rightarrow> 'st \<Rightarrow> 'st" where
  "mutex_unlock mt key st = (case rt_Delete mt key st of Inl _ \<Rightarrow> st | Inr (st, _) \<Rightarrow> st)"

definition mutex_expire :: "('st, 'z) mutex_table_scheme \<Rightarrow> time \<Rightarrow> 'st \<Rightarrow> 'st" where
  "mutex_expire mt now st =
     (case mt_DeleteWhere mt (\<lambda>d. mx_ExpiresAt d < now) st of Inl _ \<Rightarrow> st | Inr st \<Rightarrow> st)"

section \<open>The table\<close>

locale mutex_rethink =
  fixes mt :: "'st mutex_table" and rows :: "'st \<Rightarrow> (string \<rightharpoonup> sharedMutexDoc)"
  assumes table: "rethink_table (rethink.truncate mt) rows"
    and key: "rt_key mt d = mx_ID d"
    and delete_where: "mt_DeleteWhere mt q st = Inr st' \<Longrightarrow>
      rows st' = (\<lambda>k. case rows st k of None \<Rightarrow> None | Some d \<Rightarrow> if q d then None else Some d)"
begin

lemma insert_ok: "rt_Insert mt d st = Inr st' \<Longrightarrow> rows st (mx_ID d) = None \<and> rows st' = (rows st)(mx_ID d \<mapsto> d)"
  using rethink_table.insert [OF table] by (simp add: rethink.truncate_def key)

lemma unlock_rows: "rows (mutex_unlock mt k st) = rows st \<or> rows (mutex_unlock mt k st) = (rows st)(k := None)"
  using rethink_table.delete [OF table]
  by (auto simp: mutex_unlock_def rethink.truncate_def split: sum.splits)

lemma expire_rows:
  "rows (mutex_expire mt now st) k = Some d \<Longrightarrow> rows st k = Some d"
  "rows st k = Some d \<Longrightarrow> now \<le> mx_ExpiresAt d \<Longrightarrow> rows (mutex_expire mt now st) k = Some d"
  by (auto simp: mutex_expire_def dest!: delete_where split: sum.splits option.splits if_splits)

end

text \<open>A table in memory.\<close>

definition list_mutexes :: "sharedMutexDoc list mutex_table" where
  "list_mutexes = rethink.extend (list_rethink mx_ID) \<lparr>mt_DeleteWhere = (\<lambda>q ds.
     Inr (filter (\<lambda>d. case list_rows mx_ID ds (mx_ID d) of None \<Rightarrow> False | Some d \<Rightarrow> \<not> q d) ds))\<rparr>"

section \<open>Clients\<close>

text \<open>
  The clients of the mutexes: a client holds a key from its lock to its unlock, with the time its
  row expires. A client that waits is a client that locks at a later step.
\<close>

record 'st mutex_system =
  my_table :: 'st
  my_now :: time
  my_held :: "nat \<Rightarrow> string \<Rightarrow> time option" \<comment> \<open>by client and key, the expiry of the lock it holds\<close>

definition locked :: "'st mutex_system \<Rightarrow> nat \<Rightarrow> string \<Rightarrow> bool" where
  "locked s c k \<longleftrightarrow> my_held s c k \<noteq> None \<and> my_now s \<le> the (my_held s c k)"

definition set_held :: "nat \<Rightarrow> string \<Rightarrow> time option \<Rightarrow> 'st mutex_system \<Rightarrow> 'st mutex_system" where
  "set_held c k e s = s\<lparr>my_held := (my_held s)(c := (my_held s c)(k := e))\<rparr>"

inductive mutex_step :: "bool \<Rightarrow> 'st mutex_table \<Rightarrow> 'st mutex_system \<Rightarrow> 'st mutex_system \<Rightarrow> bool"
  for timely :: bool and mt :: "'st mutex_table" where
  lock: "mutex_lock mt (my_now s) k expiration (Inr []) (my_table s) = (Inr (), st') \<Longrightarrow>
    mutex_step timely mt s (set_held c k (Some (my_now s + expiration)) (s\<lparr>my_table := st'\<rparr>))"
| unlock: "my_held s c k = Some e \<Longrightarrow> timely \<longrightarrow> my_now s \<le> e \<Longrightarrow>
    mutex_step timely mt s (set_held c k None (s\<lparr>my_table := mutex_unlock mt k (my_table s)\<rparr>))"
| expire: "mutex_step timely mt s (s\<lparr>my_table := mutex_expire mt (my_now s) (my_table s)\<rparr>)"
| tick: "my_now s \<le> t \<Longrightarrow> mutex_step timely mt s (s\<lparr>my_now := t\<rparr>)"

inductive mutex_reachable :: "bool \<Rightarrow> 'st mutex_table \<Rightarrow> 'st mutex_system \<Rightarrow> bool"
  for timely :: bool and mt :: "'st mutex_table" where
  initial: "my_held s = (\<lambda>_ _. None) \<Longrightarrow> mutex_reachable timely mt s"
| step: "mutex_reachable timely mt s \<Longrightarrow> mutex_step timely mt s s' \<Longrightarrow> mutex_reachable timely mt s'"

inductive_cases mutex_stepE: "mutex_step timely mt s s'"

section \<open>Mutual exclusion\<close>

text \<open>A lock that has not expired is backed by a row, and no two clients hold the same one.\<close>

definition exclusive :: "('st \<Rightarrow> (string \<rightharpoonup> sharedMutexDoc)) \<Rightarrow> 'st mutex_system \<Rightarrow> bool" where
  "exclusive rows s \<longleftrightarrow>
     (\<forall>c k. locked s c k \<longrightarrow> (\<exists>d. rows (my_table s) k = Some d \<and> mx_ExpiresAt d = the (my_held s c k))) \<and>
     (\<forall>c c' k. locked s c k \<longrightarrow> locked s c' k \<longrightarrow> c = c')"

lemma locked_set_held:
  "locked (set_held c k h s) c' k' =
     (if c' = c \<and> k' = k then h \<noteq> None \<and> my_now s \<le> the h else locked s c' k')"
  by (auto simp: locked_def set_held_def)

lemma locked_update [simp]: "locked (s\<lparr>my_table := st\<rparr>) c k = locked s c k"
  by (simp add: locked_def)

lemma locked_expiry: "locked s c k \<Longrightarrow> my_now s \<le> the (my_held s c k)"
  by (simp add: locked_def)

lemma exclusive_row: "exclusive rows s \<Longrightarrow> locked s c k \<Longrightarrow> rows (my_table s) k \<noteq> None"
  unfolding exclusive_def by fastforce

lemma exclusive_unique: "exclusive rows s \<Longrightarrow> locked s c k \<Longrightarrow> locked s c' k \<Longrightarrow> c' = c"
  unfolding exclusive_def by blast

text \<open>A step that takes no lock keeps the invariant if the rows of the locks that remain stay.\<close>

lemma exclusive_frame:
  assumes "exclusive rows s"
    and sub: "\<And>c k. locked s' c k \<Longrightarrow> locked s c k \<and> my_held s' c k = my_held s c k"
    and row: "\<And>c k d. locked s' c k \<Longrightarrow> rows (my_table s) k = Some d \<Longrightarrow> my_now s' \<le> mx_ExpiresAt d \<Longrightarrow>
      rows (my_table s') k = Some d"
  shows "exclusive rows s'"
  unfolding exclusive_def
proof (intro conjI allI impI)
  fix c k assume l: "locked s' c k"
  with sub assms(1) obtain d where d: "rows (my_table s) k = Some d" "mx_ExpiresAt d = the (my_held s' c k)"
    unfolding exclusive_def by metis
  with row [OF l d(1)] locked_expiry [OF l]
  show "\<exists>d. rows (my_table s') k = Some d \<and> mx_ExpiresAt d = the (my_held s' c k)" by auto
qed (use assms(1) sub in \<open>metis exclusive_def\<close>)

context mutex_rethink
begin

lemma lock_exclusive:
  assumes ex: "exclusive rows s" and ok: "mutex_lock mt (my_now s) k expiration (Inr []) (my_table s) = (Inr (), st')"
  shows "exclusive rows (set_held c k (Some (my_now s + expiration)) (s\<lparr>my_table := st'\<rparr>))"
proof -
  from ok have "rt_Insert mt (newMutexDoc (my_now s) k expiration) (my_table s) = Inr st'"
    by (auto simp: mutex_lock_def split: sum.splits write_error.splits)
  from insert_ok [OF this] have row: "rows (my_table s) k = None"
      "rows st' = (rows (my_table s))(k \<mapsto> newMutexDoc (my_now s) k expiration)"
    by (simp_all add: newMutexDoc_def)
  from exclusive_row [OF ex] row(1) have none: "\<not> locked s c' k" for c' by blast
  have held: "my_held (set_held c k h s) c' k' = (if c' = c \<and> k' = k then h else my_held s c' k')" for h c' k' and s :: "'st mutex_system"
    by (simp add: set_held_def)
  have table: "my_table (set_held c k h s) = my_table s" for h and s :: "'st mutex_system" by (simp add: set_held_def)
  show ?thesis
    unfolding exclusive_def locked_set_held held table
    using ex none row(2) by (auto simp: exclusive_def newMutexDoc_def)
qed

lemma unlock_exclusive:
  assumes ex: "exclusive rows s" and "my_held s c k = Some e" and "my_now s \<le> e"
  shows "exclusive rows (set_held c k None (s\<lparr>my_table := mutex_unlock mt k (my_table s)\<rparr>))"
proof (rule exclusive_frame [OF ex])
  from assms(2,3) have c: "locked s c k" by (simp add: locked_def)
  fix c' k' assume l: "locked (set_held c k None (s\<lparr>my_table := mutex_unlock mt k (my_table s)\<rparr>)) c' k'"
  then have l': "locked s c' k'" "\<not> (c' = c \<and> k' = k)" by (auto simp: locked_set_held split: if_splits)
  then show "locked s c' k' \<and> my_held (set_held c k None (s\<lparr>my_table := mutex_unlock mt k (my_table s)\<rparr>)) c' k' = my_held s c' k'"
    by (auto simp: set_held_def)
  fix d assume "rows (my_table s) k' = Some d"
  moreover from exclusive_unique [OF ex c] l' have "k' \<noteq> k" by blast
  ultimately show "rows (my_table (set_held c k None (s\<lparr>my_table := mutex_unlock mt k (my_table s)\<rparr>))) k' = Some d"
    using unlock_rows [of k "my_table s"] by (auto simp: set_held_def)
qed

lemma step_exclusive: "mutex_step True mt s s' \<Longrightarrow> exclusive rows s \<Longrightarrow> exclusive rows s'"
proof (induction rule: mutex_step.induct)
  case (lock s k expiration st' c)
  then show ?case using lock_exclusive by blast
next
  case (unlock s c k e)
  then show ?case using unlock_exclusive by simp
next
  case (expire s)
  then show ?case by (rule exclusive_frame) (auto intro: expire_rows(2))
next
  case (tick s t)
  from tick(2) show ?case by (rule exclusive_frame) (use tick(1) in \<open>auto simp: locked_def\<close>)
qed

lemma reachable_exclusive: "mutex_reachable True mt s \<Longrightarrow> exclusive rows s"
proof (induction rule: mutex_reachable.induct)
  case (step s s')
  then show ?case by (metis step_exclusive)
qed (simp add: exclusive_def locked_def)

end

lemma list_rows_filter: "list_rows key (filter (\<lambda>d. P (key d)) ds) k = (if P k then list_rows key ds k else None)"
  by (induction ds) (auto simp: list_rows_def)

interpretation list_mutex: mutex_rethink list_mutexes "list_rows mx_ID"
proof (rule mutex_rethink.intro)
  have "rethink.truncate list_mutexes = list_rethink mx_ID"
    by (simp add: list_mutexes_def rethink.defs)
  then show "rethink_table (rethink.truncate list_mutexes) (list_rows mx_ID)"
    using list_table.rethink_table_axioms by metis
next
  fix d
  show "rt_key list_mutexes d = mx_ID d" by (simp add: list_mutexes_def rethink.defs list_rethink_def)
next
  fix q st and st' :: "sharedMutexDoc list"
  assume "mt_DeleteWhere list_mutexes q st = Inr st'"
  then have "st' = filter (\<lambda>d. case list_rows mx_ID st (mx_ID d) of None \<Rightarrow> False | Some d \<Rightarrow> \<not> q d) st"
    by (simp add: list_mutexes_def rethink.defs)
  then show "list_rows mx_ID st' =
      (\<lambda>k. case list_rows mx_ID st k of None \<Rightarrow> None | Some d \<Rightarrow> if q d then None else Some d)"
    using list_rows_filter [of mx_ID "\<lambda>k. case list_rows mx_ID st k of None \<Rightarrow> False | Some d \<Rightarrow> \<not> q d" st]
    by (auto simp: fun_eq_iff split: option.split)
qed

text \<open>
  C24: Mutual exclusion: if every client unlocks a mutex before its lock expires, then at no reachable
  time do two clients hold a lock on the same key that has not expired, and every lock that has not
  expired is backed by its row of the table.
\<close>

theorem mutual_exclusion:
  assumes "mutex_rethink mt rows" and "mutex_reachable True mt s" and "locked s c k"
  shows "(locked s c' k \<longrightarrow> c' = c) \<and> rows (my_table s) k \<noteq> None"
  using mutex_rethink.reachable_exclusive [OF assms(1,2)] assms(3) exclusive_unique exclusive_row by metis

definition idle :: "sharedMutexDoc list mutex_system" where
  "idle = \<lparr>my_table = [], my_now = 0, my_held = (\<lambda>_ _. None)\<rparr>"

lemma mutex_lock_free:
  "list_rows mx_ID ds k = None \<Longrightarrow>
     mutex_lock list_mutexes now k expiration (Inr []) ds = (Inr (), newMutexDoc now k expiration # ds)"
  by (simp add: mutex_lock_def list_mutexes_def rethink.defs list_rethink_def newMutexDoc_def)

lemma idle_locked:
  "mutex_reachable timely list_mutexes
     (set_held 1 ''partition'' (Some 10) (idle\<lparr>my_table := [newMutexDoc 0 ''partition'' 10]\<rparr>))"
proof -
  have "mutex_reachable timely list_mutexes idle" by (rule mutex_reachable.initial) (simp add: idle_def fun_eq_iff)
  moreover have "mutex_step timely list_mutexes idle
      (set_held 1 ''partition'' (Some (my_now idle + 10)) (idle\<lparr>my_table := [newMutexDoc 0 ''partition'' 10]\<rparr>))"
    by (rule mutex_step.lock) (simp add: idle_def mutex_lock_free list_rows_def)
  ultimately show ?thesis by (auto simp: idle_def intro: mutex_reachable.step)
qed

lemma mutual_exclusion_witness:
  "\<forall>c. locked (set_held 1 ''partition'' (Some 10) (idle\<lparr>my_table := [newMutexDoc 0 ''partition'' 10]\<rparr>)) c ''partition''
     \<longleftrightarrow> c = 1"
proof -
  have "locked (set_held 1 ''partition'' (Some 10) (idle\<lparr>my_table := [newMutexDoc 0 ''partition'' 10]\<rparr>)) 1 ''partition''"
    by (simp add: locked_set_held idle_def)
  with mutual_exclusion [OF list_mutex.mutex_rethink_axioms idle_locked this] show ?thesis by metis
qed

text \<open>
  C25: A mutex is released by its key, whoever holds it: a client that unlocks after its lock has expired
  removes the lock that another client has acquired in the meantime, so that a third client acquires
  it too while the second one still holds a lock that has not expired.
\<close>

theorem late_unlock_breaks_exclusion:
  "\<exists>s. mutex_reachable False list_mutexes s \<and> locked s 2 ''partition'' \<and> locked s 3 ''partition''"
proof -
  let ?d = "\<lambda>t. newMutexDoc t ''partition'' 10"
  let ?s1 = "set_held 1 ''partition'' (Some 10) (idle\<lparr>my_table := [?d 0]\<rparr>)"
  let ?s2 = "?s1\<lparr>my_now := 11\<rparr>"
  let ?s3 = "?s2\<lparr>my_table := []\<rparr>"
  let ?s4 = "set_held 2 ''partition'' (Some 21) (?s3\<lparr>my_table := [?d 11]\<rparr>)"
  let ?s5 = "set_held 1 ''partition'' None (?s4\<lparr>my_table := []\<rparr>)"
  let ?s6 = "set_held 3 ''partition'' (Some 21) (?s5\<lparr>my_table := [?d 11]\<rparr>)"
  note simps = set_held_def idle_def list_mutexes_def rethink.defs list_rethink_def list_rows_def list_without_def newMutexDoc_def
  have s1: "mutex_reachable False list_mutexes ?s1" by (rule idle_locked)
  have "mutex_step False list_mutexes ?s1 ?s2" by (rule mutex_step.tick) (simp add: set_held_def idle_def)
  with s1 have s2: "mutex_reachable False list_mutexes ?s2" by (rule mutex_reachable.step)
  have "mutex_step False list_mutexes ?s2 (?s2\<lparr>my_table := mutex_expire list_mutexes (my_now ?s2) (my_table ?s2)\<rparr>)"
    by (rule mutex_step.expire)
  moreover have "mutex_expire list_mutexes (my_now ?s2) (my_table ?s2) = []" by (simp add: mutex_expire_def simps)
  ultimately have s3: "mutex_reachable False list_mutexes ?s3" using s2 by (metis mutex_reachable.step)
  have "mutex_step False list_mutexes ?s3 (set_held 2 ''partition'' (Some (my_now ?s3 + 10)) (?s3\<lparr>my_table := [?d 11]\<rparr>))"
    by (rule mutex_step.lock) (simp add: set_held_def idle_def mutex_lock_free list_rows_def)
  with s3 have s4: "mutex_reachable False list_mutexes ?s4" by (auto simp: set_held_def idle_def intro: mutex_reachable.step)
  have "mutex_step False list_mutexes ?s4 (set_held 1 ''partition'' None (?s4\<lparr>my_table := mutex_unlock list_mutexes ''partition'' (my_table ?s4)\<rparr>))"
    by (rule mutex_step.unlock [where e = 10]) (simp_all add: set_held_def)
  moreover have "mutex_unlock list_mutexes ''partition'' (my_table ?s4) = []" by (simp add: mutex_unlock_def simps)
  ultimately have s5: "mutex_reachable False list_mutexes ?s5" using s4 by (metis mutex_reachable.step)
  have "mutex_step False list_mutexes ?s5 (set_held 3 ''partition'' (Some (my_now ?s5 + 10)) (?s5\<lparr>my_table := [?d 11]\<rparr>))"
    by (rule mutex_step.lock) (simp add: set_held_def idle_def mutex_lock_free list_rows_def)
  with s5 have s6: "mutex_reachable False list_mutexes ?s6" by (auto simp: set_held_def idle_def intro: mutex_reachable.step)
  moreover have "locked ?s6 2 ''partition''" "locked ?s6 3 ''partition''"
    by (simp_all add: locked_def set_held_def idle_def)
  ultimately show ?thesis by blast
qed

end
