(* ===== verification/MachineCreation.thy ===== *)
theory MachineCreation
  imports MachineNetworks Vpn SharedMutex RackSpreading ProvisioningEvents SizeReservations SizeImageConstraints Partitions
begin

text \<open>
  The allocation of a machine, \<^verbatim>\<open>pkg/repository/machine-create.go\<close>: the choice of a waiting machine
  under the mutex of its partition, the allocation itself, the rollback of one that fails, and the
  creation that \<^verbatim>\<open>pkg/repository/machine.go\<close> makes of them. The allocation runs on the world together
  with its result, which the rollback reads; a result that is nil is None.
\<close>

section \<open>The request and the environment\<close>

datatype ApiAllocationType =
    MACHINE_ALLOCATION_TYPE_UNSPECIFIED | MACHINE_ALLOCATION_TYPE_MACHINE | MACHINE_ALLOCATION_TYPE_FIREWALL
  | MACHINE_ALLOCATION_TYPE_NUMBER int

datatype ApiIPProtocol = IP_PROTOCOL_UNSPECIFIED | IP_PROTOCOL_TCP | IP_PROTOCOL_UDP | IP_PROTOCOL_NUMBER int

record ApiEgressRule =
  aer_Protocol :: ApiIPProtocol
  aer_Ports :: "32 word list"
  aer_To :: "string list"
  aer_Comment :: string

record ApiIngressRule =
  air_Protocol :: ApiIPProtocol
  air_Ports :: "32 word list"
  air_To :: "string list"
  air_From :: "string list"
  air_Comment :: string

record ApiFirewallRules =
  afr_Egress :: "ApiEgressRule list"
  afr_Ingress :: "ApiIngressRule list"

text \<open>A firewall specification may come without rules.\<close>

record MachineServiceCreateRequest =
  mcr_Project :: string
  mcr_Uuid :: "string option"
  mcr_Name :: string
  mcr_Description :: "string option"
  mcr_Hostname :: "string option"
  mcr_Partition :: "string option"
  mcr_Size :: "string option"
  mcr_Image :: string
  mcr_FilesystemLayout :: "string option"
  mcr_SshPublicKeys :: "string list"
  mcr_Userdata :: "string option"
  mcr_Labels :: "Labels option"
  mcr_Networks :: "MachineAllocationNetwork list"
  mcr_PlacementLabels :: "Labels option"
  mcr_DnsServers :: "string list"
  mcr_NtpServers :: "string list"
  mcr_AllocationType :: ApiAllocationType
  mcr_FirewallSpec :: "ApiFirewallRules option option"

text \<open>The tables of the database are on one state; the enumerations of the API are arguments.\<close>

record ('d, 'a, 'n, 'p, 'i, 'q, 'h, 'v) machine_env =
  me_machines :: "('d, string, Machine) rethink"
  me_events :: "('d, string, ProvisioningEventContainer) rethink"
  me_layouts :: "('d, string, FilesystemLayout) rethink"
  me_partitions :: "('d, string, Partition) rethink"
  me_sizes :: "('d, string, Size) rethink"
  me_images :: "('d, 'v) image_env"
  me_constraints :: "('d, 'v) sic_env"
  me_reservations :: "'d reservation_env"
  me_mutexes :: "'d mutex_table"
  me_changes :: "'d observation list result"
  me_alloc :: "('a, 'n, 'p, 'i, 'q) allocation_env"
  me_vpn :: "'h vpn_env"
  me_enums :: machine_enums
  me_AllocationType :: "ApiAllocationType \<Rightarrow> int"
  me_IPProtocol :: "ApiIPProtocol \<Rightarrow> string result"
  me_supported :: string \<comment> \<open>the string of the supported classification of images\<close>
  me_tags :: tag_names
  me_rand :: "nat \<Rightarrow> nat"
  me_ord :: "nat \<Rightarrow> string map_order"
  me_now :: time
  me_project :: "string \<Rightarrow> string result" \<comment> \<open>the UUID of a project in its scope\<close>
  me_ParseAuthorizedKey :: "string \<Rightarrow> unit result"
  me_eu :: errorutil
  me_NewInvalidArgument :: "go_error \<Rightarrow> go_error"
  me_NewResourceExhausted :: "go_error \<Rightarrow> go_error"
  me_IPDeleteTask :: "string \<Rightarrow> string \<Rightarrow> string \<Rightarrow> (('d, 'a, 'i, 'q, 'h) machine_world, string) action"
  me_PushMachineAllocation :: "string \<Rightarrow> string \<Rightarrow> (('d, 'a, 'i, 'q, 'h) machine_world, unit) action"
  me_injected :: "string option" \<comment> \<open>an error that tests inject through the context\<close>

abbreviation me_ip :: "('d, 'a, 'n, 'p, 'i, 'q, 'h, 'v) machine_env \<Rightarrow> ('a, 'n, 'p, 'i) ip_env" where
  "me_ip env \<equiv> al_ip (me_alloc env)"

definition get_machine :: "('d, 'a, 'n, 'p, 'i, 'q, 'h, 'v) machine_env \<Rightarrow> string \<Rightarrow> ('d, 'a, 'i, 'q, 'h, Machine) machine_action" where
  "get_machine env i = on_db (tbl_Get (me_machines env) i)"

definition update_machine :: "('d, 'a, 'n, 'p, 'i, 'q, 'h, 'v) machine_env \<Rightarrow> Machine \<Rightarrow> ('d, 'a, 'i, 'q, 'h, Machine) machine_action" where
  "update_machine env m = on_db (tbl_Update (me_machines env) (me_now env) m)"

section \<open>Firewall rules\<close>

definition convert_protocol :: "(ApiIPProtocol \<Rightarrow> string result) \<Rightarrow> ApiIPProtocol \<Rightarrow> Protocol result" where
  "convert_protocol GetStringValue p = bind_result (GetStringValue p) ProtocolFromString"

definition convert_egress :: "(ApiIPProtocol \<Rightarrow> string result) \<Rightarrow> ApiEgressRule \<Rightarrow> EgressRule result" where
  "convert_egress GetStringValue ruleSpec =
     bind_result (convert_protocol GetStringValue (aer_Protocol ruleSpec)) (\<lambda>protocol.
     let rule = \<lparr>er_Protocol = protocol, er_Ports = map uint (aer_Ports ruleSpec), er_To = aer_To ruleSpec,
           er_Comment = aer_Comment ruleSpec\<rparr>
     in bind_result (EgressRule_Validate rule) (\<lambda>_. Inr rule))"

definition convert_ingress :: "(ApiIPProtocol \<Rightarrow> string result) \<Rightarrow> ApiIngressRule \<Rightarrow> IngressRule result" where
  "convert_ingress GetStringValue ruleSpec =
     bind_result (convert_protocol GetStringValue (air_Protocol ruleSpec)) (\<lambda>protocol.
     let rule = \<lparr>ir_Protocol = protocol, ir_Ports = map uint (air_Ports ruleSpec), ir_To = air_To ruleSpec,
           ir_From = air_From ruleSpec, ir_Comment = air_Comment ruleSpec\<rparr>
     in bind_result (IngressRule_Validate rule) (\<lambda>_. Inr rule))"

fun convert_rules :: "('a \<Rightarrow> 'b result) \<Rightarrow> 'a list \<Rightarrow> 'b list result" where
  "convert_rules f [] = Inr []"
| "convert_rules f (x # xs) = bind_result (f x) (\<lambda>y. bind_result (convert_rules f xs) (\<lambda>ys. Inr (y # ys)))"

definition convertFirewallRulesToInternal ::
  "(ApiIPProtocol \<Rightarrow> string result) \<Rightarrow> ApiFirewallRules \<Rightarrow> FirewallRules result" where
  "convertFirewallRulesToInternal GetStringValue firewallRules =
     bind_result (convert_rules (convert_egress GetStringValue) (afr_Egress firewallRules)) (\<lambda>egress.
     bind_result (convert_rules (convert_ingress GetStringValue) (afr_Ingress firewallRules)) (\<lambda>ingress.
     Inr \<lparr>fw_Egress = egress, fw_Ingress = ingress\<rparr>))"

section \<open>Choosing a machine\<close>

definition candidates_query :: "string \<Rightarrow> string \<Rightarrow> MachineQuery" where
  "candidates_query part sz =
     empty_machine_query\<lparr>mq_Partition := Some part, mq_Size := Some sz, mq_State := Some MACHINE_STATE_AVAILABLE,
       mq_Waiting := Some True, mq_Preallocated := Some False, mq_NotAllocated := Some True\<rparr>"

definition alive_machines :: "ProvisioningEventContainer list \<Rightarrow> Machine list \<Rightarrow> Machine list" where
  "alive_machines ecs candidates =
     filter (\<lambda>m. case map_of (ProvisioningEventsByID ecs) (b_ID m) of
         None \<Rightarrow> False
       | Some ec \<Rightarrow> ec_Liveliness ec = LivelinessAlive) candidates"

definition project_query :: "string \<Rightarrow> string \<Rightarrow> string \<Rightarrow> int \<Rightarrow> MachineQuery" where
  "project_query part sz project allocationType =
     empty_machine_query\<lparr>mq_Partition := Some part, mq_Size := Some sz,
       mq_Allocation := Some (empty_allocation_query\<lparr>maq_Project := Some project, maq_AllocationType := Some allocationType\<rparr>)\<rparr>"

text \<open>What happens while the mutex is held, on the tables of the database.\<close>

definition choose_machine ::
  "('d, 'a, 'n, 'p, 'i, 'q, 'h, 'v) machine_env \<Rightarrow> string \<Rightarrow> string \<Rightarrow> string \<Rightarrow> Labels option \<Rightarrow> Role \<Rightarrow> ('d, Machine) action" where
  "choose_machine env part project sz placementLabels role =
     bind_action (tbl_List (me_machines env) [MachineFilter (me_enums env) (candidates_query part sz)]) (\<lambda>candidates.
     bind_action (lift_result (check_that (length candidates \<noteq> 0) (Plain ''no machine candidate available''))) (\<lambda>_.
     bind_action (tbl_List (me_events env) []) (\<lambda>ecs.
     let available = alive_machines ecs candidates in
     bind_action (lift_result (check_that (length available \<noteq> 0) (Plain ''no machine available''))) (\<lambda>_.
     let allocationType = me_AllocationType env
           (if role = RoleFirewall then MACHINE_ALLOCATION_TYPE_FIREWALL else MACHINE_ALLOCATION_TYPE_MACHINE) in
     bind_action (tbl_List (me_machines env) [MachineFilter (me_enums env) (project_query part sz project allocationType)]) (\<lambda>projectMachines.
     bind_action (on_error (me_NewResourceExhausted env) (reservation_check (me_reservations env) candidates part project sz)) (\<lambda>_.
     let placementTags = (case placementLabels of None \<Rightarrow> [] | Some ls \<Rightarrow> ToTags ls) in
     bind_action (lift_result (selectMachine (me_rand env) (me_ord env) available projectMachines placementTags)) (\<lambda>desiredMachine.
     tbl_Update (me_machines env) (me_now env) (desiredMachine\<lparr>m_PreAllocated := True\<rparr>))))))))"

definition findWaitingMachine ::
  "('d, 'a, 'n, 'p, 'i, 'q, 'h, 'v) machine_env \<Rightarrow> string \<Rightarrow> string \<Rightarrow> string \<Rightarrow> Labels option \<Rightarrow> Role \<Rightarrow> ('d, Machine) action" where
  "findWaitingMachine env part project sz placementLabels role =
     bind_action (on_error (Wrapped ''too many parallel machine allocations taking place, try again later:%w'')
       (mutex_lock (me_mutexes env) (me_now env) part (10 * Second) (me_changes env))) (\<lambda>_ st.
     case choose_machine env part project sz placementLabels role st of
       (r, st) \<Rightarrow> (r, mutex_unlock (me_mutexes env) part st))"

section \<open>The allocation\<close>

record rollbackEntities =
  re_machineId :: string
  re_allocatedIPs :: "IP list"

record allocationResult =
  ar_machine :: "Machine option"
  ar_rollbackEntities :: rollbackEntities

type_synonym ('d, 'a, 'i, 'q, 'h, 'x) allocation =
  "(('d, 'a, 'i, 'q, 'h) machine_world \<times> allocationResult option, 'x) action"

definition new_result :: allocationResult where
  "new_result = \<lparr>ar_machine = None, ar_rollbackEntities = \<lparr>re_machineId = '''', re_allocatedIPs = []\<rparr>\<rparr>"

definition on_world :: "('d, 'a, 'i, 'q, 'h, 'x) machine_action \<Rightarrow> ('d, 'a, 'i, 'q, 'h, 'x) allocation" where
  "on_world a = (\<lambda>(w, ar). let (r, w) = a w in (r, w, ar))"

definition set_result :: "(allocationResult \<Rightarrow> allocationResult) \<Rightarrow> ('d, 'a, 'i, 'q, 'h, unit) allocation" where
  "set_result f = (\<lambda>(w, ar). (Inr (), w, map_option f ar))"

definition set_machineId :: "string \<Rightarrow> allocationResult \<Rightarrow> allocationResult" where
  "set_machineId i ar = ar\<lparr>ar_rollbackEntities := (ar_rollbackEntities ar)\<lparr>re_machineId := i\<rparr>\<rparr>"

definition set_allocatedIPs :: "IP list \<Rightarrow> allocationResult \<Rightarrow> allocationResult" where
  "set_allocatedIPs ips ar = ar\<lparr>ar_rollbackEntities := (ar_rollbackEntities ar)\<lparr>re_allocatedIPs := ips\<rparr>\<rparr>"

text \<open>A specific machine that is asked for, with the size and the partition of the allocation.\<close>

definition requested_machine ::
  "('d, 'a, 'n, 'p, 'i, 'q, 'h, 'v) machine_env \<Rightarrow> MachineServiceCreateRequest \<Rightarrow>
   ('d, 'a, 'i, 'q, 'h, Machine option \<times> string \<times> string) machine_action" where
  "requested_machine env req =
     (case mcr_Uuid req of
        None \<Rightarrow> return (None, pointer_SafeDeref (mcr_Size req), pointer_SafeDeref (mcr_Partition req))
      | Some i \<Rightarrow> bind_action (get_machine env i) (\<lambda>m. return (Some m, m_SizeID m, m_PartitionID m)))"

text \<open>An image without a patch version stands for the most recent supported one.\<close>

definition requested_image ::
  "('d, 'a, 'n, 'p, 'i, 'q, 'h, 'v) machine_env \<Rightarrow> string \<Rightarrow> ('d, string) action" where
  "requested_image env i =
     bind_action (lift_result (sv_GetOsAndSemverFromImage (ie_semver (me_images env)) i)) (\<lambda>(_, imageVersion).
     if sv_Patch (ie_semver (me_images env)) imageVersion = 0
     then bind_action (GetMostRecentImageFor (me_eu env) (me_images env) (Some (me_supported env)) i) (\<lambda>img.
       return (ai_Id img))
     else return i)"

definition allocation_layout ::
  "('d, 'a, 'n, 'p, 'i, 'q, 'h, 'v) machine_env \<Rightarrow> string option \<Rightarrow> string \<Rightarrow> string \<Rightarrow> ('d, FilesystemLayout) action" where
  "allocation_layout env layout sizeID imageID =
     (case layout of
        None \<Rightarrow> bind_action (tbl_List (me_layouts env) []) (\<lambda>fsls.
          lift_result (layouts_From (semver.truncate (ie_semver (me_images env))) fsls sizeID imageID))
      | Some i \<Rightarrow> tbl_Get (me_layouts env) i)"

text \<open>The VPN of a firewall; when its user cannot be created, the result is nil.\<close>

definition firewall_vpn ::
  "('d, 'a, 'n, 'p, 'i, 'q, 'h, 'v) machine_env \<Rightarrow> string \<Rightarrow> ('d, 'a, 'i, 'q, 'h, MachineVPN option) allocation" where
  "firewall_vpn env project =
     (let v = (me_vpn env)\<lparr>vp_scope := Some project\<rparr> in
      if \<not> vpn_Enabled v then return None
      else
        bind_action (\<lambda>(w, ar).
          case on_vpn (vpn_CreateUser v project) w of
            (Inr _, w) \<Rightarrow> (Inr (), w, ar)
          | (Inl err, w) \<Rightarrow>
              if \<not> IsConflict err then (Inl (Wrapped ''unable to create vpn user for project: %w'' err), w, None)
              else (Inr (), w, ar)) (\<lambda>_.
        bind_action (on_error (Wrapped ''unable to create vpn authkey: %w'')
          (on_world (on_vpn (vpn_CreateAuthKey v \<lparr>vkr_Project = project, vkr_Ephemeral = False, vkr_Expires = Some (2 * Hour)\<rparr>)))) (\<lambda>key.
        return (Some \<lparr>vpn_ControlPlaneAddress = vk_Address key, vpn_AuthKey = vk_AuthKey key, vpn_Connected = False,
          vpn_IPs = []\<rparr>))))"

text \<open>The role with the firewall rules and the VPN.\<close>

definition requested_role ::
  "('d, 'a, 'n, 'p, 'i, 'q, 'h, 'v) machine_env \<Rightarrow> MachineServiceCreateRequest \<Rightarrow>
   ('d, 'a, 'i, 'q, 'h, Role \<times> FirewallRules option \<times> MachineVPN option) allocation" where
  "requested_role env req =
     (if mcr_AllocationType req \<noteq> MACHINE_ALLOCATION_TYPE_FIREWALL then return (RoleMachine, None, None)
      else
        bind_action (case mcr_FirewallSpec req of
            Some (Some rules) \<Rightarrow>
              bind_action (lift_result (convertFirewallRulesToInternal (me_IPProtocol env) rules)) (\<lambda>fwr. return (Some fwr))
          | _ \<Rightarrow> return None) (\<lambda>fwrules.
        bind_action (firewall_vpn env (mcr_Project req)) (\<lambda>vpn.
        return (RoleFirewall, fwrules, vpn))))"

definition new_allocation ::
  "MachineServiceCreateRequest \<Rightarrow> time \<Rightarrow> string \<Rightarrow> string \<Rightarrow> string \<Rightarrow> FilesystemLayout \<Rightarrow>
   Role \<times> FirewallRules option \<times> MachineVPN option \<Rightarrow> Partition \<Rightarrow> MachineNetwork list \<Rightarrow> MachineAllocation" where
  "new_allocation req now uuid creator imageID fsl = (\<lambda>(role, fwrules, vpn) part machineNetworks.
     \<lparr>ma_Creator = creator, ma_Created = now, ma_Name = mcr_Name req,
      ma_Description = pointer_SafeDeref (mcr_Description req), ma_Project = mcr_Project req, ma_ImageID = imageID,
      ma_FilesystemLayoutID = '''', ma_FilesystemLayout = Some fsl, ma_MachineNetworks = machineNetworks,
      ma_Hostname = (case mcr_Hostname req of None \<Rightarrow> ''metal'' | Some h \<Rightarrow> h),
      ma_SSHPubKeys = mcr_SshPublicKeys req, ma_UserData = pointer_SafeDeref (mcr_Userdata req),
      ma_ConsolePassword = '''', ma_Succeeded = False, ma_Role = role, ma_VPN = vpn, ma_UUID = uuid,
      ma_FirewallRules = fwrules,
      ma_DNSServers = (if length (mcr_DnsServers req) \<noteq> 0 then mcr_DnsServers req else pt_DNSServers part),
      ma_NTPServers = (if length (mcr_NtpServers req) \<noteq> 0 then mcr_NtpServers req else pt_NTPServers part),
      ma_Labels = labels_of (mcr_Labels req), ma_PlacementLabels = labels_of (mcr_PlacementLabels req)\<rparr>)"

text \<open>The machine is read again, and must not have been allocated in the meantime.\<close>

definition store_allocation ::
  "('d, 'a, 'n, 'p, 'i, 'q, 'h, 'v) machine_env \<Rightarrow> string \<Rightarrow> MachineAllocation \<Rightarrow> ('d, 'a, 'i, 'q, 'h, Machine) machine_action" where
  "store_allocation env i alloc =
     bind_action (on_error (Wrapped ''unable to find machine:%w'') (get_machine env i)) (\<lambda>machine.
     bind_action (lift_result (check_that (m_Allocation machine = None) (Plain ''machine %q already allocated''))) (\<lambda>_.
     on_error (Wrapped ''error when allocating machine %q, %w'')
       (update_machine env (addMachineTagsAndLabels (me_tags env) (me_ord env 7)
         (machine\<lparr>m_Allocation := Some alloc, m_PreAllocated := False\<rparr>) alloc))))"

text \<open>From the chosen machine on.\<close>

definition allocate_on ::
  "('d, 'a, 'n, 'p, 'i, 'q, 'h, 'v) machine_env \<Rightarrow> MachineServiceCreateRequest \<Rightarrow> string \<Rightarrow> string \<Rightarrow> string \<Rightarrow>
   FilesystemLayout \<Rightarrow> Role \<times> FirewallRules option \<times> MachineVPN option \<Rightarrow> Partition \<Rightarrow> Machine \<Rightarrow>
   ('d, 'a, 'i, 'q, 'h, Machine) allocation" where
  "allocate_on env req creator partitionID imageID fsl role part machine =
     bind_action (set_result (set_machineId (b_ID machine))) (\<lambda>_.
     bind_action (on_error (Wrapped ''unable to create allocation uuid %w'')
       (on_world (fresh_uuid (al_uuid (me_alloc env))))) (\<lambda>allocationUUID.
     bind_action (on_error (Wrapped ''unable to check for fsl match:%w'')
       (lift_result (layout_Matches fsl (hw_Disks (m_Hardware machine))))) (\<lambda>_.
     bind_action (on_error (Wrapped ''unable to gather networks:%w'')
       (on_world (convertToMetalAllocationNetworks (me_alloc env) (mcr_Networks req) partitionID (fst role)))) (\<lambda>networks.
     bind_action (on_error (Wrapped ''unable to make networks:%w'')
       (on_world (makeNetworks (me_alloc env) (b_ID machine) (mcr_Project req) (mcr_Name req) networks))) (\<lambda>(machineNetworks, allocatedIPs).
     bind_action (set_result (set_allocatedIPs allocatedIPs)) (\<lambda>_.
     bind_action (on_world (store_allocation env (b_ID machine)
       (new_allocation req (me_now env) allocationUUID creator imageID fsl role part machineNetworks))) (\<lambda>machine.
     bind_action (set_result (\<lambda>ar. ar\<lparr>ar_machine := Some machine\<rparr>)) (\<lambda>_.
     if me_injected env \<noteq> None then fail (Plain ''injected error:%s'') else return machine))))))))"

definition allocateMachine ::
  "('d, 'a, 'n, 'p, 'i, 'q, 'h, 'v) machine_env \<Rightarrow> MachineServiceCreateRequest \<Rightarrow> ('d, 'a, 'i, 'q, 'h, Machine) allocation" where
  "allocateMachine env req =
     (case ie_token (me_ip env) of
        None \<Rightarrow> fail (Unauthenticated ''unable to get user from context'')
      | Some tok \<Rightarrow>
          bind_action (on_world (requested_machine env req)) (\<lambda>(requested, sizeID, partitionID).
          bind_action (on_world (on_db (requested_image env (mcr_Image req)))) (\<lambda>imageID.
          bind_action (on_world (on_db (allocation_layout env (mcr_FilesystemLayout req) sizeID imageID))) (\<lambda>fsl.
          bind_action (requested_role env req) (\<lambda>role.
          bind_action (on_world (on_db (tbl_Get (me_partitions env) partitionID))) (\<lambda>part.
          bind_action (case requested of
              Some m \<Rightarrow> return m
            | None \<Rightarrow> on_world (on_db (findWaitingMachine env partitionID (mcr_Project req) sizeID (mcr_PlacementLabels req) (fst role)))) (\<lambda>machine.
          allocate_on env req (t_User tok) partitionID imageID fsl role part machine)))))))"

section \<open>The rollback\<close>

text \<open>Errors are logged; what an action has changed before it fails stays.\<close>

definition log_error :: "('st, 'x) action \<Rightarrow> 'st \<Rightarrow> 'st" where
  "log_error a st = snd (a st)"

definition rollback_ip ::
  "('d, 'a, 'n, 'p, 'i, 'q, 'h, 'v) machine_env \<Rightarrow> string \<Rightarrow> IP \<Rightarrow> ('d, 'a, 'i, 'q, 'h) machine_world \<Rightarrow> ('d, 'a, 'i, 'q, 'h) machine_world" where
  "rollback_ip env machineId ip =
     (if ip_Type ip = Ephemeral
      then log_error (me_IPDeleteTask env (ip_AllocationUUID ip) (b_ID ip) (ip_ProjectID ip))
      else log_error (on_ip (on_ips
        (bind_action (tbl_Find (ip_env.ie_table (me_ip env))
           [IpFilter (ie_GetStringValue (me_ip env)) (ie_MachineID (me_ip env)) (empty_IPQuery\<lparr>iq_Uuid := Some (ip_AllocationUUID ip)\<rparr>)]) (\<lambda>metalIP.
         tbl_Update (ip_env.ie_table (me_ip env)) (ip_env.ie_now (me_ip env))
           (RemoveMachineId (ie_MachineID (me_ip env)) machineId metalIP))))))"

definition rollback_asn ::
  "('a, 'n, 'p, 'i, 'q) allocation_env \<Rightarrow> MachineNetwork list \<Rightarrow> ('d, 'a, 'i, 'q, 'h) machine_world \<Rightarrow> ('d, 'a, 'i, 'q, 'h) machine_world" where
  "rollback_asn al networks =
     (case find (\<lambda>nw. mn_ASN nw > ASNBase) networks of
        None \<Rightarrow> (\<lambda>w. w)
      | Some nw \<Rightarrow> log_error (on_asn_pool (releaseASN (al_pool_table al) (al_pool al) (mn_ASN nw))))"

text \<open>After an error other than one for a missing row the machine is nil.\<close>

definition rollback ::
  "('d, 'a, 'n, 'p, 'i, 'q, 'h, 'v) machine_env \<Rightarrow> rollbackEntities \<Rightarrow> ('d, 'a, 'i, 'q, 'h, unit) machine_action" where
  "rollback env re w =
     (let w = fold (rollback_ip env (re_machineId re)) (re_allocatedIPs re) w
      in case get_machine env (re_machineId re) w of
           (Inl err, w) \<Rightarrow>
             if IsNotFound err then (Inr (), w) else (Inl (Panic ''invalid memory address or nil pointer dereference''), w)
         | (Inr m, w) \<Rightarrow>
             (case m_Allocation m of
                None \<Rightarrow> (Inr (), w)
              | Some a \<Rightarrow>
                  (Inr (), log_error (update_machine env (m\<lparr>m_PreAllocated := False, m_Allocation := None\<rparr>))
                     (rollback_asn (me_alloc env) (ma_MachineNetworks a) w))))"

definition machine_create ::
  "('d, 'a, 'n, 'p, 'i, 'q, 'h, 'v) machine_env \<Rightarrow> MachineServiceCreateRequest \<Rightarrow> ('d, 'a, 'i, 'q, 'h, Machine) machine_action" where
  "machine_create env req w =
     (case allocateMachine env req (w, Some new_result) of
        (Inl err, w, ar) \<Rightarrow>
          (case ar of
             None \<Rightarrow> (Inl (Panic ''invalid memory address or nil pointer dereference''), w)
           | Some ar \<Rightarrow>
               (case rollback env (ar_rollbackEntities ar) w of
                  (Inl p, w) \<Rightarrow> (Inl p, w)
                | (Inr _, w) \<Rightarrow> (Inl err, w)))
      | (Inr machine, w, ar) \<Rightarrow>
          bind_action (me_PushMachineAllocation env (b_ID machine)
            (case m_Allocation machine of None \<Rightarrow> '''' | Some a \<Rightarrow> ma_UUID a)) (\<lambda>_. return machine) w)"

end
