(* ===== verification/MachineValidation.thy ===== *)
theory MachineValidation
  imports MachineCreation
begin

text \<open>
  The validation of requests for machines, \<^verbatim>\<open>pkg/repository/machine-validation.go\<close>. It reads the world
  and returns the first error; the networks of a request are read through the generic store, without
  a scope.
\<close>

section \<open>The machine\<close>

text \<open>Only an admin editor may ask for a specific machine, which must be waiting and not locked.\<close>

definition validate_uuid ::
  "('d, 'a, 'n, 'p, 'i, 'q, 'h, 'v) machine_env \<Rightarrow> Token \<Rightarrow> MachineServiceCreateRequest \<Rightarrow> 'd \<Rightarrow>
   (Machine option \<times> string \<times> string) result" where
  "validate_uuid env tok req db =
     (case mcr_Uuid req of
        None \<Rightarrow> Inr (None, pointer_SafeDeref (mcr_Partition req), pointer_SafeDeref (mcr_Size req))
      | Some uuid \<Rightarrow>
          bind_result (check_that (t_AdminRole tok = Some ADMIN_ROLE_EDITOR)
            (Unauthenticated ''only admins can create machines with a specific uuid'')) (\<lambda>_.
          bind_result (check_that (mcr_Partition req = None)
            (Plain ''when machine id is given, a partition must not be specified'')) (\<lambda>_.
          bind_result (check_that (mcr_Size req = None)
            (Plain ''when machine id is given, a size must not be specified'')) (\<lambda>_.
          bind_result (storage_Get (me_machines env) uuid db) (\<lambda>m.
          bind_result (check_that (m_Allocation m = None) (Plain ''machine %s is already allocated'')) (\<lambda>_.
          bind_result (check_that (ms_Value (m_State m) \<noteq> LockedState) (Plain ''machine %s is %s'')) (\<lambda>_.
          bind_result (check_that (m_Waiting m) (Plain ''machine %s is not waiting'')) (\<lambda>_.
          Inr (Some m, m_PartitionID m, m_SizeID m)))))))))"

text \<open>The layout: one that is asked for must fit a specific machine, otherwise one must match.\<close>

definition validate_layout ::
  "('d, 'a, 'n, 'p, 'i, 'q, 'h, 'v) machine_env \<Rightarrow> string option \<Rightarrow> Machine option \<Rightarrow> string \<Rightarrow> string \<Rightarrow> 'd \<Rightarrow> unit result" where
  "validate_layout env layout machine sizeId imageId db =
     (case layout of
        Some i \<Rightarrow>
          bind_result (storage_Get (me_layouts env) i db) (\<lambda>fsl.
          case machine of None \<Rightarrow> Inr () | Some m \<Rightarrow> layout_Matches fsl (hw_Disks (m_Hardware m)))
      | None \<Rightarrow>
          bind_result (storage_List (me_layouts env) [] db) (\<lambda>fsls.
          bind_result (layouts_From (semver.truncate (ie_semver (me_images env))) fsls sizeId imageId) (\<lambda>_. Inr ())))"

definition validateFirewallSpec ::
  "(ApiIPProtocol \<Rightarrow> string result) \<Rightarrow> ApiFirewallRules option option \<Rightarrow> unit result" where
  "validateFirewallSpec GetStringValue firewallSpec =
     (case firewallSpec of
        Some (Some rules) \<Rightarrow> bind_result (convertFirewallRulesToInternal GetStringValue rules) (\<lambda>_. Inr ())
      | _ \<Rightarrow> Inr ())"

text \<open>What a firewall and a machine need of the image and the networks of the partition.\<close>

definition validate_type ::
  "('d, 'a, 'n, 'p, 'i, 'q, 'h, 'v) machine_env \<Rightarrow> MachineServiceCreateRequest \<Rightarrow> ApiImage \<Rightarrow> string \<Rightarrow> 'i \<Rightarrow> unit result" where
  "validate_type env req img partitionId im =
     (case mcr_AllocationType req of
        MACHINE_ALLOCATION_TYPE_FIREWALL \<Rightarrow>
          bind_result (check_that (IMAGE_FEATURE_FIREWALL \<in> set (ai_Features img))
            (Plain ''given image %s is not allowed for firewalls'')) (\<lambda>_.
          bind_result (validateFirewallSpec (me_IPProtocol env) (mcr_FirewallSpec req)) (\<lambda>_.
          bind_result (find_underlay (me_ip env) partitionId) (\<lambda>underlay.
          ipsAvailable (ie_net (me_ip env)) (b_ID underlay) (ie_networks (me_ip env)) im)))
      | MACHINE_ALLOCATION_TYPE_MACHINE \<Rightarrow>
          bind_result (check_that (IMAGE_FEATURE_MACHINE \<in> set (ai_Features img))
            (Plain ''given image %s is not allowed for machines'')) (\<lambda>_.
          check_that (mcr_FirewallSpec req = None) (Plain ''firewall rules can only be specified on firewalls''))
      | _ \<Rightarrow> Inl (Plain ''given allocationtype %s is not supported''))"

section \<open>The networks\<close>

definition unscoped_network ::
  "('d, 'a, 'n, 'p, 'i, 'q, 'h, 'v) machine_env \<Rightarrow> string \<Rightarrow> 'i \<Rightarrow> ApiNetwork result" where
  "unscoped_network env i im =
     bind_result (map_error (eu_Convert (me_eu env)) (ip_network (me_ip env) i)) (\<lambda>e.
     map_error (protoConversionError (me_eu env)) (network_convertToProto (ie_net (me_ip env)) e im))"

definition validate_allocation_ip ::
  "('a, 'n, 'p, 'i) ip_env \<Rightarrow> string \<Rightarrow> ApiNetwork \<Rightarrow> 'a \<Rightarrow> string \<Rightarrow> unit result" where
  "validate_allocation_ip env project n st ip =
     bind_result (storage_Get (ip_env.ie_table env) (CreateNamespacedIPAddress (an_Namespace n) ip) st) (\<lambda>metalIP.
     bind_result (check_that (an_Id n = ip_NetworkID metalIP)
       (Plain ''given ip %s is not in the given network %s, which is required'')) (\<lambda>_.
     bind_result (check_that (ip_ProjectID metalIP = project)
       (Plain ''given ip %s is not in the allocation project'')) (\<lambda>_.
     check_that (GetScope (ie_MachineID env) metalIP \<noteq> ScopeMachine)
       (Plain ''given ip %s is not available for direct attachment to machine because it is already in use''))))"

definition validate_network ::
  "('d, 'a, 'n, 'p, 'i, 'q, 'h, 'v) machine_env \<Rightarrow> string \<Rightarrow> string \<Rightarrow> string \<Rightarrow> ('a, 'i) ip_world \<Rightarrow>
   MachineAllocationNetwork \<Rightarrow> ApiNetwork result" where
  "validate_network env project projectUuid partitionId w nw =
     bind_result (unscoped_network env (man_Network nw) (ipw_ipam w)) (\<lambda>n.
     bind_result (check_that (an_Project n \<in> {None, Some projectUuid} \<or> an_Type n = NETWORK_TYPE_CHILD_SHARED)
       (Plain ''given network %s is project scoped but not part of project %s'')) (\<lambda>_.
     bind_result (check_that (an_Partition n \<in> {None, Some partitionId})
       (Plain ''network %q must be located in the partition where the machine is going to be placed'')) (\<lambda>_.
     bind_result (check_that (length (an_Prefixes n) \<noteq> 0) (Plain ''network %q does not have any prefixes'')) (\<lambda>_.
     bind_result (if length (man_Ips nw) = 0
       then ipsAvailable (ie_net (me_ip env)) (man_Network nw) (ie_networks (me_ip env)) (ipw_ipam w) else Inr ()) (\<lambda>_.
     bind_result (check_each (validate_allocation_ip (me_ip env) project n (ipw_table w)) (man_Ips nw)) (\<lambda>_.
     Inr n))))))"

definition type_count :: "ApiNetwork list \<Rightarrow> ApiNetworkType \<Rightarrow> nat" where
  "type_count ns t = length (filter (\<lambda>n. an_Type n = t) ns)"

text \<open>The rules for the networks of a request, given how often each type occurs.\<close>

definition validate_network_types :: "ApiAllocationType \<Rightarrow> ApiNetwork list \<Rightarrow> unit result" where
  "validate_network_types allocationType ns =
     bind_result (check_that (\<not> type_count ns NETWORK_TYPE_UNDERLAY > 0)
       (Plain ''underlays cannot be specified in a machine allocation request (this is done automatically for firewalls)'')) (\<lambda>_.
     bind_result (check_that (\<not> type_count ns NETWORK_TYPE_SUPER + type_count ns NETWORK_TYPE_SUPER_NAMESPACED > 0)
       (Plain ''super networks can not be specified as allocation networks'')) (\<lambda>_.
     bind_result (check_that (\<not> (type_count ns NETWORK_TYPE_EXTERNAL = 0 \<and> allocationType = MACHINE_ALLOCATION_TYPE_FIREWALL))
       (Plain ''firewalls must be allocated in at least one external network'')) (\<lambda>_.
     bind_result (check_that (\<not> (type_count ns NETWORK_TYPE_CHILD + type_count ns NETWORK_TYPE_CHILD_SHARED \<noteq> 1 \<and>
         allocationType = MACHINE_ALLOCATION_TYPE_MACHINE))
       (Plain ''machines must be allocated in exactly one child or child_shared network'')) (\<lambda>_.
     bind_result (check_that (\<not> (type_count ns NETWORK_TYPE_CHILD + type_count ns NETWORK_TYPE_CHILD_SHARED < 1 \<and>
         allocationType = MACHINE_ALLOCATION_TYPE_FIREWALL))
       (Plain ''firewalls must have at least one child or child_shared network'')) (\<lambda>_.
     check_that (\<not> type_count ns NETWORK_TYPE_CHILD_SHARED > 1)
       (Plain ''machines or firewalls must not be allocated in more than one child_shared network''))))))"

definition validate_networks ::
  "('d, 'a, 'n, 'p, 'i, 'q, 'h, 'v) machine_env \<Rightarrow> MachineServiceCreateRequest \<Rightarrow> string \<Rightarrow> string \<Rightarrow> ('a, 'i) ip_world \<Rightarrow> unit result" where
  "validate_networks env req projectUuid partitionId w =
     bind_result (convert_rules (validate_network env (mcr_Project req) projectUuid partitionId w) (mcr_Networks req)) (\<lambda>ns.
     bind_result (check_that (length (mcr_Networks req) \<noteq> 0) (Plain ''networks must not be empty'')) (\<lambda>_.
     bind_result (check_that (length (remdups (map an_Id ns)) = length (mcr_Networks req))
       (Plain ''given network ids are not unique'')) (\<lambda>_.
     validate_network_types (mcr_AllocationType req) ns)))"

definition validate_ssh_keys :: "(string \<Rightarrow> unit result) \<Rightarrow> string list \<Rightarrow> unit result" where
  "validate_ssh_keys ParseAuthorizedKey keys =
     check_each (\<lambda>k. map_error (Wrapped ''invalid public SSH key: %s error:%w'') (ParseAuthorizedKey k)) keys"

section \<open>Requests\<close>

definition machine_validateCreate ::
  "('d, 'a, 'n, 'p, 'i, 'q, 'h, 'v) machine_env \<Rightarrow> MachineServiceCreateRequest \<Rightarrow>
   ('d, 'a, 'i, 'q, 'h) machine_world \<Rightarrow> unit result" where
  "machine_validateCreate env req w =
     (case ie_token (me_ip env) of
        None \<Rightarrow> Inl (Unauthenticated ''unable to get user from context'')
      | Some tok \<Rightarrow>
          bind_result (me_project env (mcr_Project req)) (\<lambda>projectUuid.
          bind_result (validate_uuid env tok req (mw_db w)) (\<lambda>(machine, partitionId, sizeId).
          bind_result (storage_Get (me_partitions env) partitionId (mw_db w)) (\<lambda>_.
          bind_result (storage_Get (me_sizes env) sizeId (mw_db w)) (\<lambda>_.
          bind_result (fst (GetMostRecentImageFor (me_eu env) (me_images env) None (mcr_Image req) (mw_db w))) (\<lambda>img.
          bind_result
            (case fst (Try (me_NewInvalidArgument env) (me_constraints env) sizeId (ai_Id img) (mw_db w)) of
               Inl err \<Rightarrow> if \<not> IsNotFound err then Inl err else Inr ()
             | Inr _ \<Rightarrow> Inr ()) (\<lambda>_.
          bind_result (validate_layout env (mcr_FilesystemLayout req) machine sizeId (ai_Id img) (mw_db w)) (\<lambda>_.
          bind_result (validate_type env req img partitionId (ipw_ipam (mw_ip w))) (\<lambda>_.
          bind_result (validate_networks env req projectUuid partitionId (mw_ip w)) (\<lambda>_.
          validate_ssh_keys (me_ParseAuthorizedKey env) (mcr_SshPublicKeys req)))))))))))"

record MachineServiceUpdateRequest =
  mur_Uuid :: string
  mur_Description :: "string option"
  mur_Labels :: "LabelStrategy option"
  mur_SshPublicKeys :: "string list"
  mur_UpdateMeta :: "UpdateMeta option"

definition machine_validateUpdate ::
  "(string \<Rightarrow> unit result) \<Rightarrow> MachineServiceUpdateRequest \<Rightarrow> Machine \<Rightarrow> unit result" where
  "machine_validateUpdate ParseAuthorizedKey req machine =
     bind_result (check_that (m_Allocation machine \<noteq> None) (FailedPrecondition ''only allocated machines can be updated'')) (\<lambda>_.
     validate_ssh_keys ParseAuthorizedKey (mur_SshPublicKeys req))"

definition machine_validateDelete :: "Machine \<Rightarrow> unit result" where
  "machine_validateDelete machine = Inr ()"

definition validateDecommission :: "Machine \<Rightarrow> unit result" where
  "validateDecommission machine =
     bind_result (check_that (m_Allocation machine \<noteq> None) (FailedPrecondition ''only allocated machines can be freed'')) (\<lambda>_.
     check_that (ms_Value (m_State machine) \<noteq> LockedState) (FailedPrecondition ''machine is locked and cannot be freed''))"

end
