(* ===== verification/MachineConversion.thy ===== *)
theory MachineConversion
  imports MachineValidation SizeRepository FilesystemRepository SwitchRegistration ProvisioningFSM
begin

text \<open>
  The machine as the API shows it, \<open>convertToProto\<close> of \<^verbatim>\<open>pkg/repository/machine.go\<close>: it reads the
  partition, the size, the image, the layout and the networks of the machine, and its events. The
  messages of disks, processors, VPN, image, layout and partition are those of their components; a map
  of labels that is nil is an empty one.
\<close>

section \<open>Messages\<close>

datatype ApiEventType =
    EVENT_TYPE_PXE_BOOTING | EVENT_TYPE_MACHINE_RECLAIM | EVENT_TYPE_NUMBER int

record ApiProvisioningEvent =
  ape_Time :: "time option"
  ape_Event :: ApiEventType
  ape_Message :: string

record ApiRecentEvents =
  are_LastEventTime :: "time option"
  are_LastErrorEvent :: "ApiProvisioningEvent option"
  are_Events :: "ApiProvisioningEvent list"
  are_State :: int

record ApiMachineHardware =
  amh_Memory :: "64 word"
  amh_Disks :: "BlockDevice list"
  amh_Cpus :: "MetalCPU list"
  amh_Gpus :: "MetalGPU list"
  amh_Nics :: "ApiMachineNic list"

record ApiMachineNetwork =
  amw_Network :: string
  amw_Ips :: "string list"
  amw_Prefixes :: "string list"
  amw_DestinationPrefixes :: "string list"
  amw_NetworkType :: ApiNetworkType
  amw_NatType :: ApiNATType
  amw_Vrf :: "64 word"
  amw_Asn :: "32 word"
  amw_Project :: "string option"

record ApiMachineAllocation =
  ama_Uuid :: string
  ama_CreatedAt :: time
  ama_Labels :: "Labels option"
  ama_PlacementLabels :: "Labels option"
  ama_Name :: string
  ama_Description :: string
  ama_CreatedBy :: string
  ama_Project :: string
  ama_Image :: ApiImage
  ama_FilesystemLayout :: "ApiFilesystemLayout option"
  ama_Networks :: "ApiMachineNetwork list"
  ama_Hostname :: string
  ama_SshPublicKeys :: "string list"
  ama_Userdata :: string
  ama_AllocationType :: ApiAllocationType
  ama_FirewallRules :: "ApiFirewallRules option"
  ama_DnsServers :: "string list"
  ama_NtpServers :: "string list"
  ama_Vpn :: "MachineVPN option"

record ApiMachineCondition =
  amc_State :: ApiMachineState
  amc_Description :: string
  amc_Issuer :: string

record ApiMachineStatus =
  ams_Condition :: ApiMachineCondition
  ams_LedState :: ChassisIdentifyLEDState
  ams_Liveliness :: int
  ams_MetalHammerVersion :: string

record MachineMeta =
  amm_CreatedAt :: time
  amm_UpdatedAt :: time
  amm_Labels :: "Labels option"
  amm_Generation :: "64 word"
  amm_DeletionTaskId :: "string option"

record ApiMachine =
  apm_Uuid :: string
  apm_Meta :: MachineMeta
  apm_Partition :: "ApiPartition option"
  apm_Rack :: string
  apm_Room :: string
  apm_Size :: "ApiSize option"
  apm_Hardware :: ApiMachineHardware
  apm_Allocation :: "ApiMachineAllocation option"
  apm_Status :: ApiMachineStatus
  apm_RecentProvisioningEvents :: ApiRecentEvents

section \<open>The environment\<close>

text \<open>The strings of enumerations, as the enum package of the API reads them.\<close>

record machine_names =
  mna_Protocol :: "string \<Rightarrow> ApiIPProtocol result"
  mna_AllocationType :: "string \<Rightarrow> ApiAllocationType result"
  mna_Liveliness :: "string \<Rightarrow> int result"
  mna_EventType :: "string \<Rightarrow> ApiEventType result"
  mna_EventType_string :: "ApiEventType \<Rightarrow> string result"

record ('d, 'a, 'n, 'p, 'i, 'q, 'h, 'v) machine_readers =
  mr_env :: "('d, 'a, 'n, 'p, 'i, 'q, 'h, 'v) machine_env"
  mr_partitions :: "'d partition_env"
  mr_sizes :: "'d size_env"
  mr_layouts :: "('d, 'v) fsl_env"
  mr_names :: machine_names

section \<open>Strings\<close>

definition event_names :: "(string \<times> ProvisioningEventType) list" where
  "event_names =
     [(''Alive'', EvAlive), (''Crashed'', EvCrashed), (''PXE Booting'', EvPXEBooting),
      (''Planned Reboot'', EvPlannedReboot), (''Preparing'', EvPreparing), (''Registering'', EvRegistering),
      (''Waiting'', EvWaiting), (''Installing'', EvInstalling), (''Booting New Kernel'', EvBootingNewKernel),
      (''Phoned Home'', EvPhonedHome), (''Machine Reclaim'', EvMachineReclaim)]"

definition event_of_string :: "string \<Rightarrow> ProvisioningEventType" where
  "event_of_string s = (case map_of event_names s of None \<Rightarrow> EvOther s | Some t \<Rightarrow> t)"

definition event_String :: "ProvisioningEventType \<Rightarrow> string" where
  "event_String t =
     (case t of EvOther s \<Rightarrow> s | _ \<Rightarrow> (case find (\<lambda>(s, t'). t' = t) event_names of None \<Rightarrow> '''' | Some (s, _) \<Rightarrow> s))"

definition ToProvisioningEventType :: "machine_names \<Rightarrow> ApiEventType \<Rightarrow> ProvisioningEventType result" where
  "ToProvisioningEventType mna t = bind_result (mna_EventType_string mna t) (\<lambda>s. Inr (event_of_string s))"

fun liveliness_String :: "MachineLiveliness \<Rightarrow> string" where
  "liveliness_String LivelinessAlive = ''Alive''"
| "liveliness_String LivelinessDead = ''Dead''"
| "liveliness_String LivelinessUnknown = ''Unknown''"
| "liveliness_String (LivelinessOther s) = s"

section \<open>Parts\<close>

definition proto_neighbor :: "BareNic \<Rightarrow> ApiNeighbor" where
  "proto_neighbor neigh =
     \<lparr>amn_Mac = nic_MacAddress neigh, amn_Name = nic_Name neigh, amn_Identifier = nic_Identifier neigh,
      amn_Hostname = nic_Hostname neigh\<rparr>"

definition proto_nic :: "Nic \<Rightarrow> ApiMachineNic" where
  "proto_nic nic =
     \<lparr>amn_Mac = nic_MacAddress nic, amn_Name = nic_Name nic, amn_Identifier = nic_Identifier nic,
      amn_Hostname = '''', amn_Neighbors = map proto_neighbor (nic_Neighbors nic)\<rparr>"

definition proto_hardware :: "MachineHardware \<Rightarrow> ApiMachineHardware" where
  "proto_hardware hw =
     \<lparr>amh_Memory = hw_Memory hw, amh_Disks = hw_Disks hw, amh_Cpus = hw_MetalCPUs hw, amh_Gpus = hw_MetalGPUs hw,
      amh_Nics = map proto_nic (hw_Nics hw)\<rparr>"

definition proto_egress :: "machine_names \<Rightarrow> EgressRule \<Rightarrow> ApiEgressRule result" where
  "proto_egress mna e =
     bind_result (mna_Protocol mna (ToLower (er_Protocol e))) (\<lambda>protocol.
     Inr \<lparr>aer_Protocol = protocol, aer_Ports = map word_of_int (er_Ports e), aer_To = er_To e,
       aer_Comment = er_Comment e\<rparr>)"

definition proto_ingress :: "machine_names \<Rightarrow> IngressRule \<Rightarrow> ApiIngressRule result" where
  "proto_ingress mna i =
     bind_result (mna_Protocol mna (ToLower (ir_Protocol i))) (\<lambda>protocol.
     Inr \<lparr>air_Protocol = protocol, air_Ports = map word_of_int (ir_Ports i), air_To = ir_To i,
       air_From = ir_From i, air_Comment = ir_Comment i\<rparr>)"

definition proto_rules :: "machine_names \<Rightarrow> FirewallRules option \<Rightarrow> ApiFirewallRules option result" where
  "proto_rules mna rules =
     (case rules of
        None \<Rightarrow> Inr None
      | Some fw \<Rightarrow>
          bind_result (convert_rules (proto_egress mna) (fw_Egress fw)) (\<lambda>egress.
          bind_result (convert_rules (proto_ingress mna) (fw_Ingress fw)) (\<lambda>ingress.
          Inr (Some \<lparr>afr_Egress = egress, afr_Ingress = ingress\<rparr>))))"

text \<open>The types are those of the stored network, the prefixes those of the allocation.\<close>

definition proto_network :: "('a, 'n, 'p, 'i) ip_env \<Rightarrow> MachineNetwork \<Rightarrow> ApiMachineNetwork result" where
  "proto_network env nw =
     bind_result (ip_network env (mn_NetworkID nw)) (\<lambda>metalNetwork.
     bind_result (FromNetworkType (ne_enums (ie_net env)) (nw_NetworkType metalNetwork)) (\<lambda>networkType.
     bind_result (FromNATType (ne_enums (ie_net env)) (nw_NATType metalNetwork)) (\<lambda>natType.
     Inr \<lparr>amw_Network = mn_NetworkID nw, amw_Ips = mn_IPs nw, amw_Prefixes = mn_Prefixes nw,
       amw_DestinationPrefixes = mn_DestinationPrefixes nw, amw_NetworkType = networkType, amw_NatType = natType,
       amw_Vrf = mn_Vrf nw, amw_Asn = mn_ASN nw,
       amw_Project = (if mn_ProjectID nw = '''' then None else Some (mn_ProjectID nw))\<rparr>)))"

definition some_labels :: "Labels \<Rightarrow> Labels option" where
  "some_labels ls = (if ls = [] then None else Some ls)"

section \<open>Reading other tables\<close>

text \<open>A machine that has not registered has no partition and no size yet.\<close>

definition ignore_missing :: "('st, 'x) action \<Rightarrow> ('st, 'x option) action" where
  "ignore_missing a st =
     (case a st of
        (Inl err, st) \<Rightarrow> if IsNotFound err then (Inr None, st) else (Inl err, st)
      | (Inr x, st) \<Rightarrow> (Inr (Some x), st))"

definition unknownSize :: ApiSize where
  "unknownSize = \<lparr>asz_Id = b_ID UnknownSize, asz_Name = Some (b_Name UnknownSize), asz_Description = None,
     asz_Constraints = [], asz_Meta = None\<rparr>"

definition machine_size :: "errorutil \<Rightarrow> 'd size_env \<Rightarrow> string \<Rightarrow> ('d, ApiSize option) action" where
  "machine_size eu env i =
     bind_action (ignore_missing (store_Get eu (size_operations env) i)) (\<lambda>s.
     return (case s of None \<Rightarrow> Some unknownSize | Some s \<Rightarrow> s))"

definition machine_layout ::
  "errorutil \<Rightarrow> ('d, 'v) fsl_env \<Rightarrow> FilesystemLayout option \<Rightarrow> ('d, ApiFilesystemLayout option) action" where
  "machine_layout eu env fsl =
     (case fsl of
        None \<Rightarrow> return None
      | Some l \<Rightarrow> bind_action (store_Get eu (fsl_operations env) (b_ID l)) (\<lambda>l. return (Some l)))"

definition proto_allocation ::
  "('d, 'a, 'n, 'p, 'i, 'q, 'h, 'v) machine_readers \<Rightarrow> MachineAllocation \<Rightarrow> ('d, ApiMachineAllocation) action" where
  "proto_allocation mr alloc =
     (let env = mr_env mr; eu = me_eu env; mna = mr_names mr in
      bind_action (store_Get eu (image_operations (me_images env)) (ma_ImageID alloc)) (\<lambda>img.
      bind_action (machine_layout eu (mr_layouts mr) (ma_FilesystemLayout alloc)) (\<lambda>layout.
      bind_action (lift_result (proto_rules mna (ma_FirewallRules alloc))) (\<lambda>firewallRules.
      bind_action (lift_result (convert_rules (proto_network (me_ip env)) (ma_MachineNetworks alloc))) (\<lambda>networks.
      bind_action (lift_result (mna_AllocationType mna (ToLower (Role_string (ma_Role alloc))))) (\<lambda>allocationType.
      return \<lparr>ama_Uuid = ma_UUID alloc, ama_CreatedAt = ma_Created alloc, ama_Labels = some_labels (ma_Labels alloc),
        ama_PlacementLabels = some_labels (ma_PlacementLabels alloc), ama_Name = ma_Name alloc,
        ama_Description = ma_Description alloc, ama_CreatedBy = ma_Creator alloc, ama_Project = ma_Project alloc,
        ama_Image = img, ama_FilesystemLayout = layout, ama_Networks = networks, ama_Hostname = ma_Hostname alloc,
        ama_SshPublicKeys = ma_SSHPubKeys alloc, ama_Userdata = ma_UserData alloc,
        ama_AllocationType = allocationType, ama_FirewallRules = firewallRules,
        ama_DnsServers = ma_DNSServers alloc, ama_NtpServers = ma_NTPServers alloc, ama_Vpn = ma_VPN alloc\<rparr>))))))"

section \<open>Events\<close>

text \<open>The message of the last error event is not converted, and the state is never set.\<close>

definition proto_error_event :: "machine_names \<Rightarrow> ProvisioningEvent \<Rightarrow> ApiProvisioningEvent result" where
  "proto_error_event mna e =
     bind_result (mna_EventType mna (event_String (ev_Event e))) (\<lambda>t.
     Inr \<lparr>ape_Time = Some (ev_Time e), ape_Event = t, ape_Message = ''''\<rparr>)"

definition proto_event :: "machine_names \<Rightarrow> ProvisioningEvent \<Rightarrow> ApiProvisioningEvent result" where
  "proto_event mna e =
     bind_result (mna_EventType mna (event_String (ev_Event e))) (\<lambda>t.
     Inr \<lparr>ape_Time = Some (ev_Time e), ape_Event = t, ape_Message = ev_Message e\<rparr>)"

definition proto_events :: "machine_names \<Rightarrow> ProvisioningEventContainer \<Rightarrow> ApiRecentEvents result" where
  "proto_events mna ec =
     bind_result
       (case ec_LastErrorEvent ec of
          None \<Rightarrow> Inr None
        | Some e \<Rightarrow> bind_result (proto_error_event mna e) (\<lambda>e. Inr (Some e))) (\<lambda>lastErrorEvent.
     bind_result (convert_rules (proto_event mna) (ec_Events ec)) (\<lambda>es.
     Inr \<lparr>are_LastEventTime = ec_LastEventTime ec, are_LastErrorEvent = lastErrorEvent, are_Events = es,
       are_State = 0\<rparr>))"

section \<open>The machine\<close>

definition machine_labels_of :: "Machine \<Rightarrow> Labels option" where
  "machine_labels_of m = (if length (m_Tags m) > 0 then Some (ToLabels (m_Tags m)) else None)"

definition proto_machine ::
  "Machine \<Rightarrow> ApiPartition option \<Rightarrow> ApiSize option \<Rightarrow> ApiMachineAllocation option \<Rightarrow> ApiMachineState \<Rightarrow> int \<Rightarrow>
   ApiRecentEvents \<Rightarrow> ApiMachine" where
  "proto_machine m part sz allocation apiState liveliness recentEvents =
     \<lparr>apm_Uuid = b_ID m,
      apm_Meta = \<lparr>amm_CreatedAt = b_Created m, amm_UpdatedAt = b_Changed m, amm_Labels = machine_labels_of m,
        amm_Generation = b_Generation m, amm_DeletionTaskId = None\<rparr>,
      apm_Partition = part, apm_Rack = m_RackID m, apm_Room = m_RoomID m, apm_Size = sz,
      apm_Hardware = proto_hardware (m_Hardware m), apm_Allocation = allocation,
      apm_Status = \<lparr>ams_Condition = \<lparr>amc_State = apiState, amc_Description = ms_Description (m_State m),
          amc_Issuer = ms_Issuer (m_State m)\<rparr>,
        ams_LedState = \<lparr>led_Value = '''', led_Description = ''''\<rparr>, ams_Liveliness = liveliness,
        ams_MetalHammerVersion = ms_MetalHammerVersion (m_State m)\<rparr>,
      apm_RecentProvisioningEvents = recentEvents\<rparr>"

definition machine_convertToProto ::
  "('d, 'a, 'n, 'p, 'i, 'q, 'h, 'v) machine_readers \<Rightarrow> Machine \<Rightarrow> ('d, ApiMachine) action" where
  "machine_convertToProto mr m =
     (let env = mr_env mr; eu = me_eu env; mna = mr_names mr in
      bind_action (ignore_missing (store_Get eu (partition_operations (mr_partitions mr)) (m_PartitionID m))) (\<lambda>part.
      bind_action (machine_size eu (mr_sizes mr) (m_SizeID m)) (\<lambda>sz.
      bind_action (case m_Allocation m of
          None \<Rightarrow> return None
        | Some alloc \<Rightarrow> bind_action (proto_allocation mr alloc) (\<lambda>a. return (Some a))) (\<lambda>allocation.
      bind_action (lift_result (ToAPIV2MachineStatus (ms_Value (m_State m)))) (\<lambda>apiState.
      bind_action (tbl_Get (me_events env) (b_ID m)) (\<lambda>ec.
      bind_action (lift_result (mna_Liveliness mna (ToLower (liveliness_String (ec_Liveliness ec))))) (\<lambda>liveliness.
      bind_action (lift_result (proto_events mna ec)) (\<lambda>recentEvents.
      return (proto_machine m part sz allocation apiState liveliness recentEvents)))))))))"

end
