(* ===== verification/MachineRepository.thy ===== *)
theory MachineRepository
  imports MachineConversion
begin

text \<open>
  The machine repository, \<^verbatim>\<open>pkg/repository/machine.go\<close>, on the world of the allocations: the operations
  that the generic store calls, the events of a machine, its states and its VRF, and decommissioning
  with the task that releases what the machine has. Registration is in \<open>MachineRegistration\<close>. What the
  task queue and the boards do is an argument.
\<close>

section \<open>The environment\<close>

datatype ApiBMCCommand =
    MACHINE_BMC_COMMAND_MACHINE_DELETED | MACHINE_BMC_COMMAND_MACHINE_CREATED | MACHINE_BMC_COMMAND_NUMBER int

record MachineBMCCommandPayload =
  bp_UUID :: string
  bp_Partition :: string
  bp_Command :: string
  bp_CommandID :: string

record MachineDeletePayload =
  dp_UUID :: string
  dp_AllocationUUID :: string
  dp_Project :: string
  dp_Partition :: string
  dp_RackID :: string
  dp_MachineIpAllocationUUIDs :: "string list"
  dp_HeadscaleNodeID :: "64 word option"

text \<open>\<open>retry.Do\<close> repeats an action whose error satisfies the condition.\<close>

record ('d, 'a, 'n, 'p, 'i, 'q, 'h, 'v) machine_repo =
  mp_readers :: "('d, 'a, 'n, 'p, 'i, 'q, 'h, 'v) machine_readers"
  mp_scope :: "string option"
  mp_fsm :: "(ProvisioningEventType, StateName) fsm_lib"
  mp_uuid_Parse :: "string \<Rightarrow> unit result"
  mp_switches :: "'d switch_env"
  mp_ip_tasks :: "('a, 'i) ip_tasks"
  mp_BMCCommand :: "ApiBMCCommand \<Rightarrow> string result"
  mp_NewBMCTask :: "MachineBMCCommandPayload \<Rightarrow> ('d, 'a, 'i, 'q, 'h, string) machine_action"
  mp_NewDeleteTask :: "MachineDeletePayload \<Rightarrow> ('d, 'a, 'i, 'q, 'h, string) machine_action"
  mp_Watch :: "string \<Rightarrow> ('d, 'a, 'i, 'q, 'h, unit) machine_action"
  mp_retry :: "(go_error \<Rightarrow> bool) \<Rightarrow> ('d, 'a, 'i, 'q, 'h, unit) machine_action \<Rightarrow> ('d, 'a, 'i, 'q, 'h, unit) machine_action"
  mp_NewInternal :: "go_error \<Rightarrow> go_error"

abbreviation mp_env ::
  "('d, 'a, 'n, 'p, 'i, 'q, 'h, 'v) machine_repo \<Rightarrow> ('d, 'a, 'n, 'p, 'i, 'q, 'h, 'v) machine_env" where
  "mp_env r \<equiv> mr_env (mp_readers r)"

section \<open>Reading\<close>

definition machine_matchScope :: "('d, 'a, 'n, 'p, 'i, 'q, 'h, 'v) machine_repo \<Rightarrow> Machine \<Rightarrow> bool" where
  "machine_matchScope r m =
     (case mp_scope r of
        None \<Rightarrow> True
      | Some p \<Rightarrow> p = (case m_Allocation m of None \<Rightarrow> '''' | Some a \<Rightarrow> ma_Project a))"

definition scopedMachineFilters ::
  "('d, 'a, 'n, 'p, 'i, 'q, 'h, 'v) machine_repo \<Rightarrow> MachineQuery option \<Rightarrow> (Machine \<Rightarrow> bool) list" where
  "scopedMachineFilters r rq =
     (case mp_scope r of None \<Rightarrow> [] | Some p \<Rightarrow> [MachineProjectScoped p]) @
     (case rq of None \<Rightarrow> [] | Some rq \<Rightarrow> [MachineFilter (me_enums (mp_env r)) rq])"

definition machine_find ::
  "('d, 'a, 'n, 'p, 'i, 'q, 'h, 'v) machine_repo \<Rightarrow> MachineQuery option \<Rightarrow> ('d, 'a, 'i, 'q, 'h, Machine) machine_action" where
  "machine_find r rq = on_db (tbl_Find (me_machines (mp_env r)) (scopedMachineFilters r rq))"

definition machine_list ::
  "('d, 'a, 'n, 'p, 'i, 'q, 'h, 'v) machine_repo \<Rightarrow> MachineQuery option \<Rightarrow> ('d, 'a, 'i, 'q, 'h, Machine list) machine_action" where
  "machine_list r rq =
     bind_action (on_db (tbl_List (me_machines (mp_env r)) (scopedMachineFilters r rq))) (\<lambda>machines.
     return (SliceStable (\<lambda>a b. b_ID a < b_ID b) machines))"

section \<open>Updates\<close>

definition apply_machine_request :: "MachineServiceUpdateRequest \<Rightarrow> MachineAllocation \<Rightarrow> MachineAllocation" where
  "apply_machine_request req a =
     a\<lparr>ma_Description := (case mur_Description req of None \<Rightarrow> ma_Description a | Some d \<Rightarrow> d),
       ma_Labels := (if mur_Labels req = None then ma_Labels a else updateLabelsOnMap (mur_Labels req) (ma_Labels a)),
       ma_SSHPubKeys := (if length (mur_SshPublicKeys req) > 0 then mur_SshPublicKeys req else ma_SSHPubKeys a)\<rparr>"

text \<open>The allocation is not checked for nil here, only in the validation.\<close>

definition machine_update ::
  "('d, 'a, 'n, 'p, 'i, 'q, 'h, 'v) machine_repo \<Rightarrow> Machine \<Rightarrow> MachineServiceUpdateRequest \<Rightarrow>
   ('d, 'a, 'i, 'q, 'h, Machine) machine_action" where
  "machine_update r m req =
     (case m_Allocation m of
        Some a \<Rightarrow> update_machine (mp_env r) (m\<lparr>m_Allocation := Some (apply_machine_request req a)\<rparr>)
      | None \<Rightarrow>
          if mur_Description req = None \<and> mur_Labels req = None \<and> mur_SshPublicKeys req = []
          then update_machine (mp_env r) m else fail nil_dereference)"

definition machine_operations ::
  "('d, 'a, 'n, 'p, 'i, 'q, 'h, 'v) machine_repo \<Rightarrow>
   (('d, 'a, 'i, 'q, 'h) machine_world, Machine, ApiMachine, MachineServiceCreateRequest,
    MachineServiceUpdateRequest, MachineQuery option) repository" where
  "machine_operations r =
     \<lparr>rp_validateCreate = (\<lambda>req w. (bind_result (machine_validateCreate (mp_env r) req w) (\<lambda>_. Inr req), w)),
      rp_create = machine_create (mp_env r),
      rp_get = get_machine (mp_env r),
      rp_find = machine_find r,
      rp_list = machine_list r,
      rp_matchScope = machine_matchScope r,
      rp_validateUpdate = (\<lambda>req m. lift_result (bind_result
        (machine_validateUpdate (me_ParseAuthorizedKey (mp_env r)) req m) (\<lambda>_. Inr req))),
      rp_update = machine_update r,
      rp_validateDelete = (\<lambda>m. lift_result (machine_validateDelete m)),
      rp_delete = (\<lambda>_. return None),
      rp_convertToProto = (\<lambda>m. on_db (machine_convertToProto (mp_readers r) m)),
      rp_updateMeta = mur_UpdateMeta,
      rp_SetChanged = (\<lambda>t m. m\<lparr>b_Changed := t\<rparr>),
      rp_setDeletionTask = (\<lambda>t m. m\<lparr>apm_Meta := (apm_Meta m)\<lparr>amm_DeletionTaskId := Some t\<rparr>\<rparr>)\<rparr>"

lemma on_db_reads [simp]: "reads_only a \<Longrightarrow> reads_only (on_db a)"
  by (auto simp: reads_only_def on_db_def split: prod.splits) (metis machine_world.surjective machine_world.update_convs(1) snd_conv)

interpretation machine_repo: scoped_repository "machine_operations r" "\<lambda>w. w"
proof
  show "snd (rp_get (machine_operations r) i w) = w" for i w
    by (rule reads_onlyD) (simp add: machine_operations_def get_machine_def)
qed (simp_all add: machine_operations_def)

definition unscoped ::
  "('d, 'a, 'n, 'p, 'i, 'q, 'h, 'v) machine_repo \<Rightarrow> ('d, 'a, 'n, 'p, 'i, 'q, 'h, 'v) machine_repo" where
  "unscoped r = r\<lparr>mp_scope := None\<rparr>"

section \<open>Events\<close>

definition tbl_Upsert :: "('st, 'z) table \<Rightarrow> time \<Rightarrow> 'z Base_scheme \<Rightarrow> ('st, unit) action" where
  "tbl_Upsert rt now e st =
     (case storage_Upsert rt now e st of (_, Inl err) \<Rightarrow> (Inl err, st) | (_, Inr st) \<Rightarrow> (Inr (), st))"

text \<open>The query for an empty id is nil, and the storage calls it.\<close>

definition find_container ::
  "('d, 'a, 'n, 'p, 'i, 'q, 'h, 'v) machine_env \<Rightarrow> string \<Rightarrow> ('d, ProvisioningEventContainer option) action" where
  "find_container env i =
     (if i = '''' then fail nil_dereference
      else ignore_missing (tbl_Find (me_events env) [\<lambda>ec. b_ID ec = i]))"

text \<open>An event for an unknown machine creates an empty one.\<close>

definition ensure_machine ::
  "('d, 'a, 'n, 'p, 'i, 'q, 'h, 'v) machine_repo \<Rightarrow> string \<Rightarrow> ('d, 'a, 'i, 'q, 'h, unit) machine_action" where
  "ensure_machine r machineID =
     bind_action (ignore_missing (get_machine (mp_env r) machineID)) (\<lambda>m.
     case m of
       Some _ \<Rightarrow> return ()
     | None \<Rightarrow>
         bind_action (on_error (\<lambda>_. InvalidArgument ''given machineid is not a well formed uuid:%w'')
           (lift_result (mp_uuid_Parse r machineID))) (\<lambda>_.
         bind_action (on_db (tbl_Create (me_machines (mp_env r)) (me_now (mp_env r)) (Inr machineID)
           (machine_with_id machineID))) (\<lambda>_.
         return ())))"

definition SendEvent ::
  "('d, 'a, 'n, 'p, 'i, 'q, 'h, 'v) machine_repo \<Rightarrow> string \<Rightarrow> ApiProvisioningEvent option \<Rightarrow>
   ('d, 'a, 'i, 'q, 'h, unit) machine_action" where
  "SendEvent r machineID event =
     (case event of
        None \<Rightarrow> fail (InvalidArgument ''event for machine %s is nil'')
      | Some event \<Rightarrow>
          let env = mp_env r in
          bind_action (ensure_machine r machineID) (\<lambda>_.
          bind_action (lift_result (ToProvisioningEventType (mr_names (mp_readers r)) (ape_Event event))) (\<lambda>eventType.
          let ev = \<lparr>ev_Time = me_now env, ev_Event = eventType, ev_Message = ape_Message event\<rparr> in
          bind_action (on_db (find_container env machineID)) (\<lambda>ec.
          bind_action (lift_result (next_container (mp_fsm r) machineID ec ev)) (\<lambda>newEC.
          on_db (tbl_Upsert (me_events env) (me_now env) newEC))))))"

definition Dhcp ::
  "('d, 'a, 'n, 'p, 'i, 'q, 'h, 'v) machine_repo \<Rightarrow> string \<Rightarrow> string \<Rightarrow> ('d, 'a, 'i, 'q, 'h, unit) machine_action" where
  "Dhcp r uuid part =
     bind_action (SendEvent r uuid (Some \<lparr>ape_Time = Some (me_now (mp_env r)), ape_Event = EVENT_TYPE_PXE_BOOTING,
       ape_Message = ''machine sent extended dhcp request''\<rparr>)) (\<lambda>_.
     bind_action (get_machine (mp_env r) uuid) (\<lambda>machine.
     if m_PartitionID machine = ''''
     then bind_action (update_machine (mp_env r) (machine\<lparr>m_PartitionID := part\<rparr>)) (\<lambda>_. return ())
     else return ()))"

section \<open>States\<close>

definition SetMachineConnectedToVPN ::
  "('d, 'a, 'n, 'p, 'i, 'q, 'h, 'v) machine_repo \<Rightarrow> string \<Rightarrow> bool \<Rightarrow> string list \<Rightarrow>
   ('d, 'a, 'i, 'q, 'h, ApiMachine) machine_action" where
  "SetMachineConnectedToVPN r i connected ips =
     bind_action (get_machine (mp_env r) i) (\<lambda>m.
     case m_Allocation m of
       None \<Rightarrow> fail (InvalidArgument ''machine is not allocated'')
     | Some a \<Rightarrow>
         (case ma_VPN a of
            None \<Rightarrow> fail (InvalidArgument ''machine is not configured for VPN'')
          | Some v \<Rightarrow>
              bind_action (update_machine (mp_env r) (m\<lparr>m_Allocation := Some (a\<lparr>ma_VPN :=
                Some (v\<lparr>vpn_Connected := connected, vpn_IPs := ips\<rparr>)\<rparr>)\<rparr>)) (\<lambda>m.
              on_db (machine_convertToProto (mp_readers r) m))))"

definition setMachineWaitingFlag ::
  "('d, 'a, 'n, 'p, 'i, 'q, 'h, 'v) machine_repo \<Rightarrow> string \<Rightarrow> bool \<Rightarrow> ('d, 'a, 'i, 'q, 'h, unit) machine_action" where
  "setMachineWaitingFlag r machineUUID waiting =
     bind_action (get_machine (mp_env r) machineUUID) (\<lambda>m.
     bind_action (update_machine (mp_env r) (m\<lparr>m_Waiting := waiting\<rparr>)) (\<lambda>_. return ()))"

definition GetConsolePassword ::
  "('d, 'a, 'n, 'p, 'i, 'q, 'h, 'v) machine_repo \<Rightarrow> string \<Rightarrow> ('d, 'a, 'i, 'q, 'h, string) machine_action" where
  "GetConsolePassword r machineUUID =
     bind_action (get_machine (mp_env r) machineUUID) (\<lambda>m.
     case m_Allocation m of
       None \<Rightarrow> fail (FailedPrecondition ''machine %s is not allocated'')
     | Some a \<Rightarrow> return (ma_ConsolePassword a))"

definition requested_state :: "ApiMachineState \<Rightarrow> MState result" where
  "requested_state s =
     (case s of
        MACHINE_STATE_LOCKED \<Rightarrow> Inr LockedState
      | MACHINE_STATE_TAINTED \<Rightarrow> Inr TaintedState
      | MACHINE_STATE_AVAILABLE \<Rightarrow> Inr AvailableState
      | _ \<Rightarrow> Inl (InvalidArgument ''given state %q is not supported''))"

definition SetState ::
  "('d, 'a, 'n, 'p, 'i, 'q, 'h, 'v) machine_repo \<Rightarrow> string \<Rightarrow> ApiMachineState \<Rightarrow> string \<Rightarrow>
   ('d, 'a, 'i, 'q, 'h, ApiMachine) machine_action" where
  "SetState r uuid state description =
     bind_action (get_machine (mp_env r) uuid) (\<lambda>m.
     let issuer = (case ie_token (me_ip (mp_env r)) of None \<Rightarrow> ''unknown issuer'' | Some tok \<Rightarrow> t_User tok) in
     bind_action (lift_result (requested_state state)) (\<lambda>val.
     bind_action (update_machine (mp_env r) (m\<lparr>m_State := (m_State m)\<lparr>ms_Value := val,
       ms_Description := description, ms_Issuer := issuer\<rparr>\<rparr>)) (\<lambda>m.
     on_db (machine_convertToProto (mp_readers r) m))))"

section \<open>Commands and the VRF\<close>

definition MachineBMCCommand ::
  "('d, 'a, 'n, 'p, 'i, 'q, 'h, 'v) machine_repo \<Rightarrow> string \<Rightarrow> string \<Rightarrow> ApiBMCCommand \<Rightarrow>
   ('d, 'a, 'i, 'q, 'h, string) machine_action" where
  "MachineBMCCommand r machineUUID part command =
     bind_action (lift_result (mp_BMCCommand r command)) (\<lambda>cmd.
     mp_NewBMCTask r \<lparr>bp_UUID = machineUUID, bp_Partition = part, bp_Command = cmd,
       bp_CommandID = machineUUID @ '':machine-bmc-command:'' @ cmd\<rparr>)"

text \<open>A firewall belongs to the default VRF, a machine to that of its first private network.\<close>

definition allocation_vrf :: "MachineAllocation \<Rightarrow> string result" where
  "allocation_vrf a =
     (case ma_Role a of
        RoleFirewall \<Rightarrow> Inr ''default''
      | RoleMachine \<Rightarrow>
          (case find mn_Private (ma_MachineNetworks a) of
             None \<Rightarrow> Inl (Plain ''the machine %q could not be put into the vrf because no vrf was found'')
           | Some mn \<Rightarrow> Inr (''vrf'' @ itoa (unat (mn_Vrf mn))))
      | RoleOther _ \<Rightarrow> Inl (Plain ''unknown allocation role:%q found''))"

definition set_vrf ::
  "('d, 'a, 'n, 'p, 'i, 'q, 'h, 'v) machine_repo \<Rightarrow> Machine \<Rightarrow> string \<Rightarrow> ('d, 'a, 'i, 'q, 'h, unit) machine_action" where
  "set_vrf r m vrf = bind_action (on_db (SetVrfAtSwitches (mp_switches r) m vrf)) (\<lambda>_. return ())"

definition InstallationSucceeded ::
  "('d, 'a, 'n, 'p, 'i, 'q, 'h, 'v) machine_repo \<Rightarrow> string \<Rightarrow> string \<Rightarrow> ('d, 'a, 'i, 'q, 'h, Machine) machine_action" where
  "InstallationSucceeded r uuid consolePassword =
     bind_action (get_machine (mp_env r) uuid) (\<lambda>m.
     case m_Allocation m of
       None \<Rightarrow> fail (Plain ''the machine %q is not allocated'')
     | Some a \<Rightarrow>
         bind_action (update_machine (mp_env r)
           (m\<lparr>m_Allocation := Some (a\<lparr>ma_ConsolePassword := consolePassword\<rparr>)\<rparr>)) (\<lambda>m.
         bind_action (lift_result (allocation_vrf a)) (\<lambda>vrf.
         bind_action (on_error (Wrapped ''the machine %q could not be enslaved into the vrf %s, error: %w'')
           (mp_retry r IsConflict (set_vrf r m vrf))) (\<lambda>_.
         bind_action (on_error (Wrapped ''unable to send machinecommand to trigger boot to disk %w'')
           (MachineBMCCommand r (b_ID m) (m_PartitionID m) MACHINE_BMC_COMMAND_MACHINE_CREATED)) (\<lambda>_.
         return m)))))"

section \<open>Waiting for an allocation\<close>

text \<open>
  The notifications of an allocation are a list, each with what the other clients did before it; at
  the end of the list the context is done. The deferred function sees the error of setting the flag
  only, so the flag is removed however the loop ends.
\<close>

type_synonym ('d, 'a, 'i, 'q, 'h) others =
  "('d, 'a, 'i, 'q, 'h) machine_world \<Rightarrow> ('d, 'a, 'i, 'q, 'h) machine_world"

fun wait_loop ::
  "('d, 'a, 'n, 'p, 'i, 'q, 'h, 'v) machine_repo \<Rightarrow> (ApiMachineAllocation \<Rightarrow> ('d, 'a, 'i, 'q, 'h, unit) machine_action) \<Rightarrow>
   string \<Rightarrow> ('d, 'a, 'i, 'q, 'h) others list \<Rightarrow> ('d, 'a, 'i, 'q, 'h, unit) machine_action" where
  "wait_loop r send machineID [] w = (Inl (Plain ''context canceled''), w)"
| "wait_loop r send machineID (others # notifications) w =
     bind_action (store_Get (me_eu (mp_env r)) (machine_operations (unscoped r)) machineID) (\<lambda>machine.
     case apm_Allocation machine of
       None \<Rightarrow> fail (Internal ''machine %s is not allocated'')
     | Some a \<Rightarrow> bind_action (send a) (\<lambda>_. wait_loop r send machineID notifications)) (others w)"

definition Wait ::
  "('d, 'a, 'n, 'p, 'i, 'q, 'h, 'v) machine_repo \<Rightarrow> (ApiMachineAllocation \<Rightarrow> ('d, 'a, 'i, 'q, 'h, unit) machine_action) \<Rightarrow>
   string \<Rightarrow> ('d, 'a, 'i, 'q, 'h) others list \<Rightarrow> ('d, 'a, 'i, 'q, 'h) others \<Rightarrow> ('d, 'a, 'i, 'q, 'h, unit) machine_action" where
  "Wait r send machineID notifications ended =
     bind_action (store_Get (me_eu (mp_env r)) (machine_operations (unscoped r)) machineID) (\<lambda>machine.
     bind_action (case apm_Allocation machine of None \<Rightarrow> return () | Some a \<Rightarrow> send a) (\<lambda>_.
     bind_action (setMachineWaitingFlag r machineID True) (\<lambda>_ w.
     case wait_loop r send machineID notifications w of
       (res, w) \<Rightarrow> (res, log_error (setMachineWaitingFlag r machineID False) (ended w)))))"

section \<open>Decommissioning\<close>

text \<open>The UUIDs of the machine's addresses, without those that are gone.\<close>

fun decommission_ips ::
  "('d, 'a, 'n, 'p, 'i, 'q, 'h, 'v) machine_repo \<Rightarrow> string \<Rightarrow> string list \<Rightarrow> ('d, 'a, 'i, 'q, 'h, string list) machine_action" where
  "decommission_ips r project [] = return []"
| "decommission_ips r project (ipAddress # ips) =
     bind_action (ignore_missing (on_ip (store_Get (me_eu (mp_env r))
       (ip_operations ((me_ip (mp_env r))\<lparr>ie_scope := Some project\<rparr>) (mp_ip_tasks r)) ipAddress))) (\<lambda>ip.
     bind_action (decommission_ips r project ips) (\<lambda>uuids.
     return (case ip of None \<Rightarrow> uuids | Some ip \<Rightarrow> aip_Uuid ip # uuids)))"

definition decommission_node ::
  "('d, 'a, 'n, 'p, 'i, 'q, 'h, 'v) machine_repo \<Rightarrow> string \<Rightarrow> MachineAllocation \<Rightarrow> ('d, 'a, 'i, 'q, 'h, 64 word option) machine_action" where
  "decommission_node r i alloc =
     (let v = (me_vpn (mp_env r))\<lparr>vp_scope := Some (ma_Project alloc)\<rparr> in
      if ma_Role alloc = RoleFirewall \<and> vpn_Enabled v \<and> ma_VPN alloc \<noteq> None
      then bind_action (on_error (\<lambda>_. Internal ''unable to retrieve vpn node: %w'')
             (ignore_missing (on_vpn (vpn_getNode v i (ma_Project alloc))))) (\<lambda>node.
           return (map_option hn_Id node))
      else return None)"

definition Decommission ::
  "('d, 'a, 'n, 'p, 'i, 'q, 'h, 'v) machine_repo \<Rightarrow> string \<Rightarrow> string \<Rightarrow> ('d, 'a, 'i, 'q, 'h, ApiMachine) machine_action" where
  "Decommission r project uuid =
     (let env = mp_env r; eu = me_eu env in
      if mp_scope r = None then fail (FailedPrecondition ''machines can only be decommissioned with scope'')
      else
        bind_action (get_machine env uuid) (\<lambda>m.
        if \<not> machine_matchScope r m then fail (NotFound ''%T with id %q not found'')
        else
          bind_action (on_error (eu_WrapInvalidArgument eu) (lift_result (validateDecommission m))) (\<lambda>_.
          case m_Allocation m of
            None \<Rightarrow> fail nil_dereference
          | Some alloc \<Rightarrow>
              bind_action (decommission_ips r project (concat (map mn_IPs (ma_MachineNetworks alloc)))) (\<lambda>uuids.
              bind_action (decommission_node r (b_ID m) alloc) (\<lambda>headscaleNodeID.
              bind_action (on_error (\<lambda>_. Internal ''unable to write provisioning event: %w'')
                (SendEvent r (b_ID m) (Some \<lparr>ape_Time = Some (me_now env), ape_Event = EVENT_TYPE_MACHINE_RECLAIM,
                  ape_Message = ''reclaiming machine''\<rparr>))) (\<lambda>_.
              bind_action (on_error (mp_NewInternal r) (mp_NewDeleteTask r
                \<lparr>dp_UUID = b_ID m, dp_AllocationUUID = ma_UUID alloc, dp_Project = ma_Project alloc,
                 dp_Partition = m_PartitionID m, dp_RackID = m_RackID m, dp_MachineIpAllocationUUIDs = uuids,
                 dp_HeadscaleNodeID = headscaleNodeID\<rparr>)) (\<lambda>info.
              bind_action (on_error (\<lambda>_. Internal ''error waiting for task %q of type %q to complete: %w'')
                (mp_Watch r info)) (\<lambda>_.
              bind_action (on_error (protoConversionError eu) (on_db (machine_convertToProto (mp_readers r) m))) (\<lambda>converted.
              return (converted\<lparr>apm_Meta := (apm_Meta converted)\<lparr>amm_DeletionTaskId := Some info\<rparr>\<rparr>))))))))))"

section \<open>The task of a deleted machine\<close>

text \<open>
  The functions of an error group run at the same time on different parts of the world. They are run
  one after the other, in the order in which they end; the first error is that of the group.
\<close>

fun run_group :: "('st, unit) action list \<Rightarrow> ('st, unit) action" where
  "run_group [] st = (Inr (), st)"
| "run_group (a # as) st =
     (case a st of
        (Inl err, st) \<Rightarrow> (Inl err, snd (run_group as st))
      | (Inr _, st) \<Rightarrow> run_group as st)"

definition allocation_query :: "string \<Rightarrow> MachineQuery" where
  "allocation_query uuid =
     empty_machine_query\<lparr>mq_Allocation := Some (empty_allocation_query\<lparr>maq_Uuid := Some uuid\<rparr>)\<rparr>"

definition asn_query :: "32 word \<Rightarrow> MachineQuery" where
  "asn_query asn =
     empty_machine_query\<lparr>mq_Network := Some \<lparr>mnq_Networks = [], mnq_Prefixes = [], mnq_DestinationPrefixes = [],
       mnq_Ips = [], mnq_Vrfs = [], mnq_Asns = [unat asn]\<rparr>, mq_Allocation := Some empty_allocation_query\<rparr>"

definition find_allocated ::
  "('d, 'a, 'n, 'p, 'i, 'q, 'h, 'v) machine_env \<Rightarrow> string \<Rightarrow> 'd \<Rightarrow> Machine result" where
  "find_allocated env uuid = storage_Find (me_machines env) [MachineFilter (me_enums env) (allocation_query uuid)]"

definition machine_releaseAsn ::
  "('d, 'a, 'n, 'p, 'i, 'q, 'h, 'v) machine_repo \<Rightarrow> MachineDeletePayload \<Rightarrow> ('d, 'a, 'i, 'q, 'h, unit) machine_action" where
  "machine_releaseAsn r payload w =
     (let env = mp_env r; al = me_alloc env;
          allocated_with_asn = (\<lambda>asn. bind_result
            (fst (store_List (me_eu env) (machine_operations (unscoped r)) (Some (asn_query asn)) w))
            (\<lambda>ms. Inr (map (\<lambda>m. case apm_Allocation m of None \<Rightarrow> '''' | Some a \<Rightarrow> ama_Uuid a) ms)))
      in on_asn_pool (releaseAsnTask (al_pool_table al) (al_pool al) (\<lambda>uuid. find_allocated env uuid (mw_db w))
           allocated_with_asn (dp_AllocationUUID payload)) w)"

definition releaseAllocationTask ::
  "('d, 'a, 'n, 'p, 'i, 'q, 'h, 'v) machine_repo \<Rightarrow> MachineDeletePayload \<Rightarrow> ('d, 'a, 'i, 'q, 'h, unit) machine_action" where
  "releaseAllocationTask r payload w =
     (case find_allocated (mp_env r) (dp_AllocationUUID payload) (mw_db w) of
        Inl err \<Rightarrow> if IsNotFound err then (Inr (), w) else (Inl (Wrapped ''unable to find machine: %w'' err), w)
      | Inr m \<Rightarrow>
          bind_action (on_error (Wrapped ''unable to remove machine allocation: %w'')
            (update_machine (mp_env r) (m\<lparr>m_Allocation := None, m_PreAllocated := False\<rparr>))) (\<lambda>_. return ()) w)"

definition release_ip ::
  "('d, 'a, 'n, 'p, 'i, 'q, 'h, 'v) machine_repo \<Rightarrow> string \<Rightarrow> string \<Rightarrow> ('d, 'a, 'i, 'q, 'h, unit) machine_action" where
  "release_ip r machineUUID uuid w =
     (let env = me_ip (mp_env r) in
      case storage_Find (ip_env.ie_table env) [IpFilter (ie_GetStringValue env) (ie_MachineID env)
          (empty_IPQuery\<lparr>iq_Uuid := Some uuid\<rparr>)] (ipw_table (mw_ip w)) of
        Inl err \<Rightarrow> if IsNotFound err then (Inr (), w) else (Inl (Wrapped ''unable to find ip %q: %w'' err), w)
      | Inr ip \<Rightarrow>
          if ip_Type ip = Static
          then
            if \<not> HasMachineId (ie_MachineID env) ip machineUUID then (Inr (), w)
            else bind_action (on_error (Wrapped ''unable to remove machine tag from static ip %q: %w'')
                (on_ip (on_ips (tbl_Update (ip_env.ie_table env) (ip_env.ie_now env)
                  (RemoveMachineId (ie_MachineID env) machineUUID ip))))) (\<lambda>_. return ()) w
          else bind_action (on_error (Wrapped ''unable to free machine ip %q: %w'')
              (on_ip (ip_delete (mp_ip_tasks r) ip))) (\<lambda>_. return ()) w)"

text \<open>The addresses are released in the order \<open>ord\<close>.\<close>

definition releaseMachineIPsTask ::
  "('d, 'a, 'n, 'p, 'i, 'q, 'h, 'v) machine_repo \<Rightarrow> string map_order \<Rightarrow> MachineDeletePayload \<Rightarrow>
   ('d, 'a, 'i, 'q, 'h, unit) machine_action" where
  "releaseMachineIPsTask r ord payload =
     run_group (map (release_ip r (dp_UUID payload)) (ord (dp_MachineIpAllocationUUIDs payload)))"

text \<open>\<open>swap\<close> tells which of two functions ends first.\<close>

definition MachineDeleteHandleFn ::
  "('d, 'a, 'n, 'p, 'i, 'q, 'h, 'v) machine_repo \<Rightarrow> string map_order \<Rightarrow> bool \<Rightarrow> bool \<Rightarrow> MachineDeletePayload \<Rightarrow>
   ('d, 'a, 'i, 'q, 'h, unit) machine_action" where
  "MachineDeleteHandleFn r ord swap1 swap2 payload =
     (let both = (\<lambda>swap a b. run_group (if swap then [b, a] else [a, b])) in
      bind_action (both swap1 (machine_releaseAsn r payload)
        (on_vpn (releaseVpnNodeTask (me_vpn (mp_env r)) (dp_Project payload) (dp_UUID payload) (dp_HeadscaleNodeID payload)))) (\<lambda>_.
      bind_action (both swap2 (releaseAllocationTask r payload) (releaseMachineIPsTask r ord payload)) (\<lambda>_.
      bind_action (on_error (Wrapped ''unable to send machine delete bmc command: %w'')
        (MachineBMCCommand r (dp_UUID payload) (dp_Partition payload) MACHINE_BMC_COMMAND_MACHINE_DELETED)) (\<lambda>taskID.
      bind_action (on_error (Wrapped ''metal-bmc did not complete machine delete task: %w'') (mp_Watch r taskID)) (\<lambda>_.
      on_error (Wrapped ''unable to set machine back into pxe boot vrf: %w'')
        (set_vrf r ((machine_with_id (dp_UUID payload))\<lparr>m_RackID := dp_RackID payload\<rparr>) ''''))))))"

end
