(* ===== verification/MachineRegistration.thy ===== *)
theory MachineRegistration
  imports MachineRepository
begin

text \<open>
  The registration of machines and the data of their board management controllers (BMCs),
  \<^verbatim>\<open>pkg/repository/machine.go\<close>: \<open>Register\<close>, \<open>UpdateBMCInfo\<close>, \<open>GetBMC\<close> and \<open>ListBMC\<close>. The fields of a
  message that are plain strings in the API but may be missing are options.
\<close>

section \<open>Messages\<close>

record ApiFru =
  afu_ChassisPartNumber :: "string option"
  afu_ChassisPartSerial :: "string option"
  afu_BoardMfg :: "string option"
  afu_BoardMfgSerial :: "string option"
  afu_BoardPartNumber :: "string option"
  afu_ProductManufacturer :: "string option"
  afu_ProductPartNumber :: "string option"
  afu_ProductSerial :: "string option"

record ApiBMC =
  abm_Address :: string
  abm_Mac :: string
  abm_User :: string
  abm_Password :: string
  abm_Interface :: string
  abm_Version :: string
  abm_PowerState :: string

record RegisterRequest =
  rr_Uuid :: string
  rr_Hardware :: "ApiMachineHardware option"
  rr_Bios :: "BIOS option"
  rr_Bmc :: "ApiBMC option"
  rr_Fru :: "ApiFru option"
  rr_Tags :: "string list"
  rr_MetalHammerVersion :: string
  rr_Partition :: string

record BMCReport =
  br_Uuid :: string
  br_Bmc :: "ApiBMC option"
  br_Bios :: "BIOS option"
  br_Fru :: "ApiFru option"
  br_PowerMetric :: "PowerMetric option"
  br_PowerSupplies :: "PowerSupply list"
  br_LedState :: "ChassisIdentifyLEDState option"
  br_UpdatedAt :: "time option"

record BMCDetails =
  bd_Uuid :: string
  bd_Partition :: string
  bd_Rack :: string
  bd_Room :: string
  bd_SizeId :: string
  bd_BmcReport :: BMCReport

section \<open>Hardware\<close>

definition internal_neighbor :: "ApiNeighbor \<Rightarrow> BareNic" where
  "internal_neighbor neigh =
     \<lparr>nic_MacAddress = amn_Mac neigh, nic_Name = amn_Name neigh, nic_Identifier = amn_Identifier neigh,
      nic_Vrf = '''', nic_Hostname = amn_Hostname neigh, nic_State = None, nic_BGPPortState = None\<rparr>"

definition internal_nic :: "ApiMachineNic \<Rightarrow> Nic" where
  "internal_nic nic =
     \<lparr>nic_MacAddress = amn_Mac nic, nic_Name = amn_Name nic, nic_Identifier = amn_Identifier nic,
      nic_Vrf = '''', nic_Hostname = '''', nic_State = None, nic_BGPPortState = None,
      nic_Neighbors = map (\<lambda>n. internal_neighbor (ApiNeighbor.truncate n)) (amn_Neighbors nic)\<rparr>"

definition internal_hardware :: "ApiMachineHardware \<Rightarrow> MachineHardware" where
  "internal_hardware hw =
     \<lparr>hw_Memory = amh_Memory hw, hw_Nics = map internal_nic (amh_Nics hw), hw_Disks = amh_Disks hw,
      hw_MetalCPUs = amh_Cpus hw, hw_MetalGPUs = amh_Gpus hw\<rparr>"

definition internal_fru :: "ApiFru \<Rightarrow> Fru" where
  "internal_fru f =
     \<lparr>fru_ChassisPartNumber = pointer_SafeDeref (afu_ChassisPartNumber f),
      fru_ChassisPartSerial = pointer_SafeDeref (afu_ChassisPartSerial f),
      fru_BoardMfg = pointer_SafeDeref (afu_BoardMfg f), fru_BoardMfgSerial = pointer_SafeDeref (afu_BoardMfgSerial f),
      fru_BoardPartNumber = pointer_SafeDeref (afu_BoardPartNumber f),
      fru_ProductManufacturer = pointer_SafeDeref (afu_ProductManufacturer f),
      fru_ProductPartNumber = pointer_SafeDeref (afu_ProductPartNumber f),
      fru_ProductSerial = pointer_SafeDeref (afu_ProductSerial f)\<rparr>"

definition registered_ipmi :: "time \<Rightarrow> ApiBMC option \<Rightarrow> ApiFru option \<Rightarrow> IPMI" where
  "registered_ipmi now obmc ofru =
     (let ipmi = (case obmc of
            None \<Rightarrow> zero_IPMI
          | Some bmc \<Rightarrow> zero_IPMI\<lparr>ipmi_Address := abm_Address bmc, ipmi_MacAddress := abm_Mac bmc,
              ipmi_User := abm_User bmc, ipmi_Password := abm_Password bmc, ipmi_Interface := abm_Interface bmc,
              ipmi_BMCVersion := abm_Version bmc, ipmi_PowerState := abm_PowerState bmc, ipmi_LastUpdated := now\<rparr>)
      in case ofru of None \<Rightarrow> ipmi | Some f \<Rightarrow> ipmi\<lparr>ipmi_Fru := internal_fru f\<rparr>)"

section \<open>Registration\<close>

text \<open>The machine is created when there is none, so it is never nil where its fields are set.\<close>

definition found_or_created ::
  "('d, 'a, 'n, 'p, 'i, 'q, 'h, 'v) machine_env \<Rightarrow> string \<Rightarrow> ('d, 'a, 'i, 'q, 'h, Machine) machine_action" where
  "found_or_created env i =
     bind_action (ignore_missing (get_machine env i)) (\<lambda>m.
     case m of
       Some m \<Rightarrow> return m
     | None \<Rightarrow> on_db (tbl_Create (me_machines env) (me_now env) (Inr i) (machine_with_id i)))"

definition register_fields ::
  "RegisterRequest \<Rightarrow> MachineHardware \<Rightarrow> BIOS \<Rightarrow> IPMI \<Rightarrow> Size \<Rightarrow> Machine \<Rightarrow> Machine" where
  "register_fields req hw bios ipmi sz m =
     m\<lparr>m_SizeID := b_ID sz, m_Hardware := hw, m_BIOS := bios, m_IPMI := ipmi,
       m_State := (m_State m)\<lparr>ms_MetalHammerVersion := rr_MetalHammerVersion req\<rparr>,
       m_PartitionID := rr_Partition req\<rparr>"

definition hardware_size :: "'d size_env \<Rightarrow> MachineHardware \<Rightarrow> ('d, Size) action" where
  "hardware_size env hw st =
     (case FromHardware env hw st of (Inl _, st) \<Rightarrow> (Inr UnknownSize, st) | (Inr s, st) \<Rightarrow> (Inr s, st))"

definition ensure_container ::
  "('d, 'a, 'n, 'p, 'i, 'q, 'h, 'v) machine_env \<Rightarrow> string \<Rightarrow> ('d, unit) action" where
  "ensure_container env i =
     bind_action (find_container env i) (\<lambda>ec.
     case ec of
       Some _ \<Rightarrow> return ()
     | None \<Rightarrow> bind_action (tbl_Create (me_events env) (me_now env) (Inr i) (registered_container i (me_now env))) (\<lambda>_.
         return ()))"

text \<open>
  Connecting the machine is retried with the machine as the last attempt left it, for which the state
  has the machine beside the world; a failed update has changed it already.
\<close>

definition connect_message :: "ApiMachine \<Rightarrow> ConnectRequest" where
  "connect_message m =
     \<lparr>cr_Uuid = apm_Uuid m, cr_Partition = map_option apt_Id (apm_Partition m),
      cr_Nics = Some (amh_Nics (apm_Hardware m))\<rparr>"

type_synonym ('d, 'a, 'i, 'q, 'h, 'x) registration =
  "(('d, 'a, 'i, 'q, 'h) machine_world \<times> Machine, 'x) action"

definition on_registered :: "('d, 'a, 'i, 'q, 'h, 'x) machine_action \<Rightarrow> ('d, 'a, 'i, 'q, 'h, 'x) registration" where
  "on_registered a = (\<lambda>(w, m). let (r, w) = a w in (r, w, m))"

definition connect_registered ::
  "('d, 'a, 'n, 'p, 'i, 'q, 'h, 'v) machine_repo \<Rightarrow> ('d, 'a, 'i, 'q, 'h, unit) registration" where
  "connect_registered r = (\<lambda>(w, m).
     bind_action (on_registered (on_db (machine_convertToProto (mp_readers r) m))) (\<lambda>machine.
     bind_action (on_registered (on_db (ConnectMachineWithSwitches (mp_switches r) (connect_message machine)))) (\<lambda>(rack, room) (w, m).
     let m = m\<lparr>m_RackID := rack, m_RoomID := room\<rparr> in
     case storage_Update (me_machines (mp_env r)) (me_now (mp_env r)) m (mw_db w) of
       (m, Inl err) \<Rightarrow> (Inl err, w, m)
     | (m, Inr db) \<Rightarrow> (Inr (), w\<lparr>mw_db := db\<rparr>, m))) (w, m))"

definition machine_Register ::
  "('d, 'a, 'n, 'p, 'i, 'q, 'h, 'v) machine_repo \<Rightarrow>
   ((go_error \<Rightarrow> bool) \<Rightarrow> ('d, 'a, 'i, 'q, 'h, unit) registration \<Rightarrow> ('d, 'a, 'i, 'q, 'h, unit) registration) \<Rightarrow>
   RegisterRequest \<Rightarrow> ('d, 'a, 'i, 'q, 'h, Machine) machine_action" where
  "machine_Register r retry req =
     (let env = mp_env r in
      if rr_Uuid req = '''' then fail (InvalidArgument ''uuid is empty'')
      else
        (case (rr_Hardware req, rr_Bios req) of
           (None, _) \<Rightarrow> fail (InvalidArgument ''hardware is nil'')
         | (_, None) \<Rightarrow> fail (InvalidArgument ''bios is nil'')
         | (Some hardware, Some bios) \<Rightarrow>
             bind_action (found_or_created env (rr_Uuid req)) (\<lambda>m.
             let hw = internal_hardware hardware in
             bind_action (on_db (hardware_size (mr_sizes (mp_readers r)) hw)) (\<lambda>sz.
             bind_action (update_machine env (register_fields req hw bios
               (registered_ipmi (me_now env) (rr_Bmc req) (rr_Fru req)) sz m)) (\<lambda>m.
             bind_action (on_db (ensure_container env (b_ID m))) (\<lambda>_ w.
             case retry IsConflict (connect_registered r) (w, m) of
               (Inl err, w, m) \<Rightarrow> (Inl err, w)
             | (Inr _, w, m) \<Rightarrow> (Inr m, w)))))))"

section \<open>BMC data\<close>

text \<open>A machine that is not among those of the partition is created from the report.\<close>

definition reported_machine :: "time \<Rightarrow> string \<Rightarrow> string \<Rightarrow> ApiBMC \<Rightarrow> ChassisIdentifyLEDState \<Rightarrow> Machine" where
  "reported_machine now part uuid bmc led =
     (let m = (machine_with_id uuid)\<lparr>m_PartitionID := part,
            m_IPMI := zero_IPMI\<lparr>ipmi_Address := abm_Address bmc, ipmi_LastUpdated := now, ipmi_MacAddress := abm_Mac bmc\<rparr>\<rparr>
      in case LEDStateFrom (led_Value led) of
           Inl _ \<Rightarrow> m
         | Inr ledstate \<Rightarrow> m\<lparr>m_LEDState := \<lparr>led_Value = ledstate, led_Description = ''''\<rparr>\<rparr>)"

fun create_reported ::
  "('d, 'a, 'n, 'p, 'i, 'q, 'h, 'v) machine_env \<Rightarrow> string \<Rightarrow> (string, Machine) gomap \<Rightarrow> BMCReport list \<Rightarrow>
   ('d, string list) action" where
  "create_reported env part machinesByID [] st = (Inr [], st)"
| "create_reported env part machinesByID (report # reports) st =
     (if has_key machinesByID (br_Uuid report) then create_reported env part machinesByID reports st
      else
        (case (br_Bmc report, br_LedState report) of
           (Some bmc, Some led) \<Rightarrow>
             (case tbl_Create (me_machines env) (me_now env) (Inr (br_Uuid report))
                 (reported_machine (me_now env) part (br_Uuid report) bmc led) st of
                (Inl _, st) \<Rightarrow> create_reported env part machinesByID reports st
              | (Inr _, st) \<Rightarrow>
                  bind_action (create_reported env part machinesByID reports) (\<lambda>created.
                  return (br_Uuid report # created)) st)
         | _ \<Rightarrow> (Inl nil_dereference, st)))"

text \<open>What a report changes: a missing part or an empty string leaves the field as it is.\<close>

definition or_else :: "string option \<Rightarrow> string \<Rightarrow> string" where
  "or_else x d = (case x of None \<Rightarrow> d | Some v \<Rightarrow> v)"

definition non_empty :: "string \<Rightarrow> string \<Rightarrow> string" where
  "non_empty s d = (if s = '''' then d else s)"

definition report_fru :: "ApiFru option \<Rightarrow> Fru \<Rightarrow> Fru" where
  "report_fru ofru f =
     (case ofru of
        None \<Rightarrow> f
      | Some fru \<Rightarrow>
          \<lparr>fru_ChassisPartNumber = or_else (afu_ChassisPartNumber fru) (fru_ChassisPartNumber f),
           fru_ChassisPartSerial = or_else (afu_ChassisPartSerial fru) (fru_ChassisPartSerial f),
           fru_BoardMfg = or_else (afu_BoardMfg fru) (fru_BoardMfg f),
           fru_BoardMfgSerial = or_else (afu_BoardMfgSerial fru) (fru_BoardMfgSerial f),
           fru_BoardPartNumber = or_else (afu_BoardPartNumber fru) (fru_BoardPartNumber f),
           fru_ProductManufacturer = or_else (afu_ProductManufacturer fru) (fru_ProductManufacturer f),
           fru_ProductPartNumber = or_else (afu_ProductPartNumber fru) (fru_ProductPartNumber f),
           fru_ProductSerial = or_else (afu_ProductSerial fru) (fru_ProductSerial f)\<rparr>)"

definition report_bios :: "BIOS option \<Rightarrow> BIOS \<Rightarrow> BIOS" where
  "report_bios obios b =
     (case obios of
        None \<Rightarrow> b
      | Some bios \<Rightarrow> \<lparr>bios_Version = non_empty (bios_Version bios) (bios_Version b),
          bios_Vendor = non_empty (bios_Vendor bios) (bios_Vendor b), bios_Date = non_empty (bios_Date bios) (bios_Date b)\<rparr>)"

definition report_bmc :: "ApiBMC option \<Rightarrow> IPMI \<Rightarrow> IPMI" where
  "report_bmc obmc i =
     (case obmc of
        None \<Rightarrow> i
      | Some bmc \<Rightarrow>
          i\<lparr>ipmi_BMCVersion := non_empty (abm_Version bmc) (ipmi_BMCVersion i),
            ipmi_Address := non_empty (abm_Address bmc) (ipmi_Address i),
            ipmi_Interface := non_empty (abm_Interface bmc) (ipmi_Interface i),
            ipmi_MacAddress := non_empty (abm_Mac bmc) (ipmi_MacAddress i),
            ipmi_User := non_empty (abm_User bmc) (ipmi_User i),
            ipmi_Password := non_empty (abm_Password bmc) (ipmi_Password i),
            ipmi_PowerState := non_empty (abm_PowerState bmc) (ipmi_PowerState i)\<rparr>)"

definition report_led :: "ChassisIdentifyLEDState option \<Rightarrow> ChassisIdentifyLEDState \<Rightarrow> ChassisIdentifyLEDState" where
  "report_led oled l =
     (case oled of
        None \<Rightarrow> l
      | Some led \<Rightarrow> (case LEDStateFrom (led_Value led) of Inl _ \<Rightarrow> l | Inr v \<Rightarrow> l\<lparr>led_Value := v\<rparr>))"

definition apply_report :: "time \<Rightarrow> BMCReport \<Rightarrow> Machine \<Rightarrow> Machine" where
  "apply_report now report m =
     (let ipmi = report_bmc (br_Bmc report) ((m_IPMI m)\<lparr>ipmi_Fru := report_fru (br_Fru report) (ipmi_Fru (m_IPMI m))\<rparr>)
      in m\<lparr>m_IPMI := ipmi\<lparr>ipmi_PowerMetric := (case br_PowerMetric report of None \<Rightarrow> ipmi_PowerMetric ipmi | p \<Rightarrow> p),
             ipmi_PowerSupplies := br_PowerSupplies report, ipmi_LastUpdated := now\<rparr>,
           m_BIOS := report_bios (br_Bios report) (m_BIOS m), m_LEDState := report_led (br_LedState report) (m_LEDState m)\<rparr>)"

text \<open>
  A machine stays changed in the map when its update fails. The log of that error reads the address of
  the BMC in the report.
\<close>

fun update_reported ::
  "('d, 'a, 'n, 'p, 'i, 'q, 'h, 'v) machine_env \<Rightarrow> string \<Rightarrow> string list \<Rightarrow> (string, Machine) gomap \<Rightarrow> BMCReport list \<Rightarrow>
   ('d, string list) action" where
  "update_reported env part created machinesByID [] st = (Inr [], st)"
| "update_reported env part created machinesByID (report # reports) st =
     (case map_of machinesByID (br_Uuid report) of
        None \<Rightarrow> update_reported env part created machinesByID reports st
      | Some machine \<Rightarrow>
          if br_Uuid report \<in> set created then update_reported env part created machinesByID reports st
          else
            let machine = (if m_PartitionID machine = '''' then machine\<lparr>m_PartitionID := part\<rparr> else machine) in
            if m_PartitionID machine \<noteq> part
            then update_reported env part created (AList.update (br_Uuid report) machine machinesByID) reports st
            else
              (case storage_Update (me_machines env) (me_now env) (apply_report (me_now env) report machine) st of
                 (machine, Inl _) \<Rightarrow>
                   if br_Bmc report = None then (Inl nil_dereference, st)
                   else update_reported env part created (AList.update (br_Uuid report) machine machinesByID) reports st
               | (machine, Inr st) \<Rightarrow>
                   bind_action (update_reported env part created (AList.update (br_Uuid report) machine machinesByID) reports)
                     (\<lambda>updated. return (br_Uuid report # updated)) st))"

definition partition_query :: "string \<Rightarrow> MachineQuery" where
  "partition_query part = empty_machine_query\<lparr>mq_Partition := Some part\<rparr>"

text \<open>The answer has the machines that were updated and those that were created.\<close>

definition UpdateBMCInfo ::
  "('d, 'a, 'n, 'p, 'i, 'q, 'h, 'v) machine_env \<Rightarrow> string \<Rightarrow> BMCReport list \<Rightarrow> ('d, string list \<times> string list) action" where
  "UpdateBMCInfo env part reports =
     (if part = '''' then fail (InvalidArgument ''partition id must not be empty'')
      else
        bind_action (tbl_Get (me_partitions env) part) (\<lambda>p.
        bind_action (tbl_List (me_machines env) [MachineFilter (me_enums env) (partition_query (b_ID p))]) (\<lambda>ms.
        let machinesByID = fold (\<lambda>m. AList.update (b_ID m) m) ms [] in
        bind_action (create_reported env (b_ID p) machinesByID reports) (\<lambda>created.
        bind_action (update_reported env (b_ID p) created machinesByID reports) (\<lambda>updated.
        return (updated, created))))))"

definition some_fru :: "Fru \<Rightarrow> ApiFru" where
  "some_fru f =
     \<lparr>afu_ChassisPartNumber = Some (fru_ChassisPartNumber f), afu_ChassisPartSerial = Some (fru_ChassisPartSerial f),
      afu_BoardMfg = Some (fru_BoardMfg f), afu_BoardMfgSerial = Some (fru_BoardMfgSerial f),
      afu_BoardPartNumber = Some (fru_BoardPartNumber f), afu_ProductManufacturer = Some (fru_ProductManufacturer f),
      afu_ProductPartNumber = Some (fru_ProductPartNumber f), afu_ProductSerial = Some (fru_ProductSerial f)\<rparr>"

definition convertToBMCReport :: "Machine \<Rightarrow> BMCReport" where
  "convertToBMCReport m =
     (let i = m_IPMI m in
      \<lparr>br_Uuid = b_ID m,
       br_Bmc = Some \<lparr>abm_Address = ipmi_Address i, abm_Mac = ipmi_MacAddress i, abm_User = ipmi_User i,
         abm_Password = ipmi_Password i, abm_Interface = ipmi_Interface i, abm_Version = ipmi_BMCVersion i,
         abm_PowerState = ipmi_PowerState i\<rparr>,
       br_Bios = Some (m_BIOS m), br_Fru = Some (some_fru (ipmi_Fru i)), br_PowerMetric = ipmi_PowerMetric i,
       br_PowerSupplies = ipmi_PowerSupplies i, br_LedState = Some (m_LEDState m), br_UpdatedAt = Some (ipmi_LastUpdated i)\<rparr>)"

text \<open>The room is the rack of the machine.\<close>

definition bmc_details :: "Machine \<Rightarrow> BMCDetails" where
  "bmc_details machine =
     \<lparr>bd_Uuid = b_ID machine, bd_Partition = m_PartitionID machine, bd_Rack = m_RackID machine,
      bd_Room = m_RackID machine, bd_SizeId = m_SizeID machine, bd_BmcReport = convertToBMCReport machine\<rparr>"

definition GetBMC :: "('d, 'a, 'n, 'p, 'i, 'q, 'h, 'v) machine_env \<Rightarrow> string \<Rightarrow> ('d, BMCDetails) action" where
  "GetBMC env uuid = bind_action (tbl_Get (me_machines env) uuid) (\<lambda>machine. return (bmc_details machine))"

definition ListBMC ::
  "('d, 'a, 'n, 'p, 'i, 'q, 'h, 'v) machine_env \<Rightarrow> MachineQuery option \<Rightarrow> ('d, BMCDetails list) action" where
  "ListBMC env q =
     bind_action (tbl_List (me_machines env) (case q of None \<Rightarrow> [] | Some q \<Rightarrow> [MachineFilter (me_enums env) q])) (\<lambda>machines.
     return (SliceStable (\<lambda>a b. bd_Uuid a < bd_Uuid b) (map bmc_details machines)))"

end
