(* ===== verification/MachineCreationProps.thy ===== *)
theory MachineCreationProps
  imports MachineValidation IpProps FilesystemProps CapacityProps
begin

text \<open>
  Theorems about the allocation of machines: which machine is found, what a created machine has, which
  networks a valid request names, and what a failed allocation leaves behind.
\<close>

section \<open>The choice of a machine\<close>

lemma getMachines_filter_set:
  "is_order ord \<Longrightarrow> set (getMachines ord (filter_groups (groupByRack ms) ks)) \<subseteq> set ms"
  using arg_cong [OF getMachines_filter [of ord ms ks], of set_mset] by auto

lemma spread_subset: "(\<And>n. is_order (ord n)) \<Longrightarrow> set (spreadAcrossRacks ord ms ps ts) \<subseteq> set ms"
  by (simp add: spreadAcrossRacks_def Let_def getMachines_filter_set)

lemma selected_machine:
  assumes order: "\<And>n. is_order (ord n)" and rand: "\<And>n. 0 < n \<Longrightarrow> rand n < n"
    and selected: "selectMachine rand ord ms ps ts = Inr m"
  shows "m \<in> set ms"
proof -
  have "set (spreadAcrossRacks ord ms ps ts) \<subseteq> set ms" by (rule spread_subset) (rule order)
  with selected rand show ?thesis by (auto simp: selectMachine_def randomIndex_def Let_def split: if_splits)
qed

lemma events_by_id:
  assumes "map_of (ProvisioningEventsByID ecs) i = Some ec"
  shows "ec \<in> set ecs \<and> b_ID ec = i"
proof -
  have "map_of (fold (\<lambda>f. AList.update (b_ID f) f) ecs m) i = Some ec \<Longrightarrow> (ec \<in> set ecs \<and> b_ID ec = i) \<or> map_of m i = Some ec" for m
  proof (induction ecs arbitrary: m)
    case (Cons f ecs)
    from Cons.prems have "map_of (fold (\<lambda>f. AList.update (b_ID f) f) ecs (AList.update (b_ID f) f m)) i = Some ec" by simp
    from Cons.IH [OF this] show ?case by (auto simp: update_conv' split: if_splits)
  qed simp
  from this [of "[]"] assms show ?thesis by (simp add: ProvisioningEventsByID_def)
qed

lemma candidate_filter:
  assumes "MachineFilter en (candidates_query part sz) m" and "en_MachineState en MACHINE_STATE_AVAILABLE = Inr s"
  shows "m_PartitionID m = part \<and> m_SizeID m = sz \<and> m_Waiting m \<and> \<not> m_PreAllocated m \<and> m_Allocation m = None \<and>
    MState_string (ms_Value (m_State m)) = ''''"
  using assms
  by (simp add: MachineFilter_def candidates_query_def empty_machine_query_def machine_fields_def matches_field_def
      after_allocation_def state_and_after_def given_def ToUpper_def)


lemma tbl_List_rows:
  assumes "rethink_table rt rows" and "rt_key rt = b_ID" and "tbl_List rt qs st = (Inr es, st')" and "e \<in> set es"
  shows "st' = st \<and> rows st (b_ID e) = Some e \<and> (\<forall>q\<in>set qs. q e)"
proof -
  from tbl_List_ok [OF assms(1,3)] assms(4) have "st' = st" "e \<in> ran (rows st)" "\<forall>q\<in>set qs. q e" by blast+
  moreover from this(2) obtain k where "rows st k = Some e" by (auto simp: ran_def)
  with rethink_table.keyed [OF assms(1)] assms(2) have "rows st (b_ID e) = Some e" by fastforce
  ultimately show ?thesis by blast
qed

lemma reads_state: "reads_only a \<Longrightarrow> a st = (r, st') \<Longrightarrow> st' = st"
  by (auto dest: reads_onlyD [where st = st])

definition waiting_candidate ::
  "(string \<rightharpoonup> ProvisioningEventContainer) \<Rightarrow> string \<Rightarrow> string \<Rightarrow> Machine \<Rightarrow> bool" where
  "waiting_candidate events part sz m \<longleftrightarrow>
     m_PartitionID m = part \<and> m_SizeID m = sz \<and> m_Waiting m \<and> \<not> m_PreAllocated m \<and> m_Allocation m = None \<and>
     MState_string (ms_Value (m_State m)) = '''' \<and>
     (\<exists>ec. events (b_ID m) = Some ec \<and> ec_Liveliness ec = LivelinessAlive)"

lemma chosen_machine:
  assumes machines: "rethink_table (me_machines env) rows" "rt_key (me_machines env) = b_ID"
    and events: "rethink_table (me_events env) erows" "rt_key (me_events env) = b_ID"
    and order: "\<And>n. is_order (me_ord env n)" "\<And>n. 0 < n \<Longrightarrow> me_rand env n < n"
    and enum: "en_MachineState (me_enums env) MACHINE_STATE_AVAILABLE = Inr s"
    and chosen: "choose_machine env part project sz labels role st = (Inr m, st')"
  shows "\<exists>m0. rows st (b_ID m0) = Some m0 \<and> waiting_candidate (erows st) part sz m0 \<and>
    m = m0\<lparr>m_PreAllocated := True, b_Changed := me_now env, b_Generation := b_Generation m0 + 1\<rparr> \<and>
    rows st' = (rows st)(b_ID m0 \<mapsto> m)"
proof -
  from chosen obtain candidates ecs projectMachines m0 st1 st2 st3 st4 where
    cands: "tbl_List (me_machines env) [MachineFilter (me_enums env) (candidates_query part sz)] st = (Inr candidates, st1)"
    and ecs: "tbl_List (me_events env) [] st1 = (Inr ecs, st2)"
    and ps: "\<exists>qs. tbl_List (me_machines env) qs st2 = (Inr projectMachines, st3)"
    and check: "\<exists>g. on_error g (reservation_check (me_reservations env) candidates part project sz) st3 = (Inr (), st4)"
    and sel: "\<exists>ts. selectMachine (me_rand env) (me_ord env) (alive_machines ecs candidates) projectMachines ts = Inr m0"
    and upd: "tbl_Update (me_machines env) (me_now env) (m0\<lparr>m_PreAllocated := True\<rparr>) st4 = (Inr m, st')"
    unfolding choose_machine_def Let_def bind_action_ok action_simps by fastforce
  have states: "st1 = st" "st2 = st" "st3 = st" "st4 = st"
  proof -
    show 1: "st1 = st" using reads_state [OF tbl_reads(3) cands] .
    with reads_state [OF tbl_reads(3) ecs] show 2: "st2 = st" by simp
    with ps reads_state [OF tbl_reads(3)] show 3: "st3 = st" by metis
    with check reads_state [OF reservation_check_reads] show "st4 = st" by (auto simp: on_error_ok)
  qed
  from sel have "m0 \<in> set (alive_machines ecs candidates)" by (elim exE) (rule selected_machine [OF order])
  then obtain ec where mem: "m0 \<in> set candidates" and ec: "map_of (ProvisioningEventsByID ecs) (b_ID m0) = Some ec"
    "ec_Liveliness ec = LivelinessAlive"
    by (auto simp: alive_machines_def split: option.splits)
  from tbl_List_rows [OF machines cands mem] have m0: "rows st (b_ID m0) = Some m0"
    "MachineFilter (me_enums env) (candidates_query part sz) m0" by auto
  from events_by_id [OF ec(1)] tbl_List_rows [OF events ecs, of ec] states have "erows st (b_ID m0) = Some ec" by auto
  with candidate_filter [OF m0(2) enum] ec(2) have "waiting_candidate (erows st) part sz m0"
    by (auto simp: waiting_candidate_def)
  with m0(1) tbl_Update_ok [OF machines(1) upd] states show ?thesis by (intro exI [of _ m0]) auto
qed

section \<open>Actions that leave a part of the state\<close>

definition leaves :: "('st \<Rightarrow> 'r) \<Rightarrow> ('st, 'x) action \<Rightarrow> bool" where
  "leaves rows a \<longleftrightarrow> (\<forall>st. rows (snd (a st)) = rows st)"

lemma leavesD: "leaves rows a \<Longrightarrow> a st = (r, st') \<Longrightarrow> rows st' = rows st"
  by (metis leaves_def snd_conv)

lemma leaves_reads: "reads_only a \<Longrightarrow> leaves rows a"
  by (simp add: leaves_def reads_only_def)

lemma leaves_bind: "leaves rows a \<Longrightarrow> (\<And>x. leaves rows (f x)) \<Longrightarrow> leaves rows (bind_action a f)"
  unfolding leaves_def bind_action_def by (auto split: prod.split sum.split) (metis snd_conv)+

lemma leaves_basic [simp]:
  "leaves rows (return x)" "leaves rows (fail err)" "leaves rows (lift_result r)"
  by (simp_all add: leaves_def)

lemma leaves_on_error: "leaves rows a \<Longrightarrow> leaves rows (on_error g a)"
  by (simp add: leaves_def)

lemma leaves_update: "keeps_rows rt rows \<Longrightarrow> leaves rows (tbl_Update rt now e)"
  unfolding leaves_def using tbl_Update_keeps by (metis prod.collapse)

section \<open>Under the mutex\<close>

text \<open>
  What the others did to the database while the allocation waited for the mutex: their part of the first
  \<open>n\<close> changes of its row that were observed.
\<close>

definition others_did :: "('d, 'a, 'n, 'p, 'i, 'q, 'h, 'v) machine_env \<Rightarrow> nat \<Rightarrow> 'd \<Rightarrow> 'd" where
  "others_did env n db = fold ob_others (take n (case me_changes env of Inl _ \<Rightarrow> [] | Inr obs \<Rightarrow> obs)) db"

lemma others_did_0 [simp]: "others_did env 0 db = db"
  by (simp add: others_did_def)

text \<open>A lock that is taken is a row that is inserted after some of the observed changes.\<close>

lemma lock_waited:
  "lock_wait mt k expiration obs st = (Inr (), st') \<Longrightarrow>
     \<exists>n t. rt_Insert mt (newMutexDoc t k expiration) (fold ob_others (take n obs) st) = Inr st'"
proof (induction obs arbitrary: st)
  case (Cons ob obs)
  let ?st = "ob_others ob st"
  show ?case
  proof (cases "lock_wait mt k expiration obs ?st = (Inr (), st')")
    case True
    from Cons.IH [OF this] obtain n t
      where "rt_Insert mt (newMutexDoc t k expiration) (fold ob_others (take n obs) ?st) = Inr st'" by blast
    then show ?thesis by (intro exI [of _ "Suc n"] exI [of _ t]) simp
  next
    case False
    with Cons.prems have "rt_Insert mt (newMutexDoc (ob_time ob) k expiration) ?st = Inr st'"
      by (auto simp: Let_def split: if_splits sum.splits write_error.splits)
    then show ?thesis by (intro exI [of _ 1] exI [of _ "ob_time ob"]) simp
  qed
qed simp

lemma lock_taken:
  assumes "mutex_lock (me_mutexes env) now k expiration (me_changes env) st = (Inr (), st')"
  shows "\<exists>n t. rt_Insert (me_mutexes env) (newMutexDoc t k expiration) (others_did env n st) = Inr st'"
proof (cases "rt_Insert (me_mutexes env) (newMutexDoc now k expiration) st = Inr st'")
  case True
  then show ?thesis by (intro exI [of _ 0] exI [of _ now]) simp
next
  case False
  with assms obtain obs where "me_changes env = Inr obs" "lock_wait (me_mutexes env) k expiration obs st = (Inr (), st')"
    by (auto simp: mutex_lock_def split: sum.splits write_error.splits)
  with lock_waited show ?thesis by (fastforce simp: others_did_def)
qed

text \<open>The insertions into one table, or the deletions from it, leave the rows of another one alone.\<close>

definition inserts_apart :: "('st, 'k, 'e, 'z) rethink_scheme \<Rightarrow> ('st \<Rightarrow> 'r) \<Rightarrow> bool" where
  "inserts_apart rt rows \<longleftrightarrow> (\<forall>e st st'. rt_Insert rt e st = Inr st' \<longrightarrow> rows st' = rows st)"

definition deletes_apart :: "('st, 'k, 'e, 'z) rethink_scheme \<Rightarrow> ('st \<Rightarrow> 'r) \<Rightarrow> bool" where
  "deletes_apart rt rows \<longleftrightarrow> (\<forall>k st st' prev. rt_Delete rt k st = Inr (st', prev) \<longrightarrow> rows st' = rows st)"

lemma unlock_apart: "deletes_apart mt rows \<Longrightarrow> rows (mutex_unlock mt k st) = rows st"
  by (auto simp: deletes_apart_def mutex_unlock_def split: sum.splits)

text \<open>
  What the theorems assume of the database: its tables are tables of their own, so that a write to one leaves
  the rows of the others alone; and of the environment, that the orders of maps are orders and the random
  numbers in their range.
\<close>

definition creation_database ::
  "('d, 'a, 'n, 'p, 'i, 'q, 'h, 'v) machine_env \<Rightarrow> ('d \<Rightarrow> string \<rightharpoonup> Machine) \<Rightarrow>
   ('d \<Rightarrow> string \<rightharpoonup> ProvisioningEventContainer) \<Rightarrow> ('d \<Rightarrow> string \<rightharpoonup> sharedMutexDoc) \<Rightarrow> bool" where
  "creation_database env rows erows mrows \<longleftrightarrow>
     rethink_table (me_machines env) rows \<and> rt_key (me_machines env) = b_ID \<and>
     rethink_table (me_events env) erows \<and> rt_key (me_events env) = b_ID \<and>
     mutex_rethink (me_mutexes env) mrows \<and>
     inserts_apart (me_mutexes env) rows \<and> inserts_apart (me_mutexes env) erows \<and> deletes_apart (me_mutexes env) rows \<and>
     keeps_rows (me_machines env) mrows \<and>
     (\<forall>n. is_order (me_ord env n)) \<and> (\<forall>n>0. me_rand env n < n) \<and>
     (\<exists>s. en_MachineState (me_enums env) MACHINE_STATE_AVAILABLE = Inr s)"

lemma creation_databaseD:
  assumes "creation_database env rows erows mrows"
  shows "rethink_table (me_machines env) rows" "rt_key (me_machines env) = b_ID" "mutex_rethink (me_mutexes env) mrows"
    "rethink_table (me_events env) erows" "rt_key (me_events env) = b_ID"
    "inserts_apart (me_mutexes env) rows" "inserts_apart (me_mutexes env) erows" "deletes_apart (me_mutexes env) rows"
    "keeps_rows (me_machines env) mrows" "\<And>n. is_order (me_ord env n)" "\<And>n. 0 < n \<Longrightarrow> me_rand env n < n"
    "\<exists>s. en_MachineState (me_enums env) MACHINE_STATE_AVAILABLE = Inr s"
  using assms by (auto simp: creation_database_def)

lemma choose_keeps: "keeps_rows (me_machines env) mrows \<Longrightarrow> leaves mrows (choose_machine env part project sz labels role)"
  unfolding choose_machine_def Let_def
  by (intro leaves_bind leaves_basic leaves_update leaves_reads tbl_reads reads_basic reservation_check_reads)

text \<open>What the allocation does under the mutex, from the database that the others have left.\<close>

lemma under_mutex:
  assumes database: "creation_database env rows erows mrows"
    and found: "findWaitingMachine env part project sz labels role st = (Inr m, st')"
  obtains n t st1 st2 m0 where
    "mutex_lock (me_mutexes env) (me_now env) part (10 * Second) (me_changes env) st = (Inr (), st1)"
    "rt_Insert (me_mutexes env) (newMutexDoc t part (10 * Second)) (others_did env n st) = Inr st1"
    "choose_machine env part project sz labels role st1 = (Inr m, st2)" "st' = mutex_unlock (me_mutexes env) part st2"
    "rows st' = rows st2" "rows (others_did env n st) (b_ID m0) = Some m0"
    "waiting_candidate (erows (others_did env n st)) part sz m0"
    "m = m0\<lparr>m_PreAllocated := True, b_Changed := me_now env, b_Generation := b_Generation m0 + 1\<rparr>"
    "rows st2 = (rows (others_did env n st))(b_ID m0 \<mapsto> m)"
proof -
  note db = creation_databaseD [OF database]
  have pair: "(case x of (r, st) \<Rightarrow> (r, f st)) = (Inr m, st') \<longleftrightarrow> (\<exists>st2. x = (Inr m, st2) \<and> st' = f st2)" for x :: "Machine result \<times> 'a" and f
    by (auto split: prod.splits)
  from found obtain st1 st2 where lock: "mutex_lock (me_mutexes env) (me_now env) part (10 * Second) (me_changes env) st = (Inr (), st1)"
    and chosen: "choose_machine env part project sz labels role st1 = (Inr m, st2)"
    and st': "st' = mutex_unlock (me_mutexes env) part st2"
    by (auto simp: findWaitingMachine_def bind_action_ok on_error_ok pair)
  from lock_taken [OF lock] obtain n t where
    ins: "rt_Insert (me_mutexes env) (newMutexDoc t part (10 * Second)) (others_did env n st) = Inr st1" by blast
  with db(6,7) have apart: "rows st1 = rows (others_did env n st)" "erows st1 = erows (others_did env n st)"
    by (auto simp: inserts_apart_def)
  from db(12) obtain s where s: "en_MachineState (me_enums env) MACHINE_STATE_AVAILABLE = Inr s" by blast
  from chosen_machine [OF db(1,2,4,5,10,11) s chosen] obtain m0 where
    "rows st1 (b_ID m0) = Some m0" "waiting_candidate (erows st1) part sz m0"
    "m = m0\<lparr>m_PreAllocated := True, b_Changed := me_now env, b_Generation := b_Generation m0 + 1\<rparr>"
    "rows st2 = (rows st1)(b_ID m0 \<mapsto> m)" by blast
  with that lock ins chosen st' apart unlock_apart [OF db(8)] show ?thesis by metis
qed

text \<open>
  C7: \<open>findWaitingMachine\<close> takes the mutex of the partition, which nobody holds then, after it has waited for
  others, and still holds it when the machine is stored. The machine it returns was in the database that
  the others have left: a machine of the partition and the size that was available, waiting, alive, not
  allocated and not preallocated. It is stored as preallocated; compared with that database no other
  machine is changed.
\<close>

theorem waiting_machine_found:
  assumes database: "creation_database env rows erows mrows"
    and found: "findWaitingMachine env part project sz labels role st = (Inr m, st')"
  shows "\<exists>n t st1 st2 m0. let st0 = others_did env n st in
    mutex_lock (me_mutexes env) (me_now env) part (10 * Second) (me_changes env) st = (Inr (), st1) \<and>
    mrows st0 part = None \<and> mrows st1 = (mrows st0)(part \<mapsto> newMutexDoc t part (10 * Second)) \<and>
    mrows st2 = mrows st1 \<and> st' = mutex_unlock (me_mutexes env) part st2 \<and>
    rows st0 (b_ID m0) = Some m0 \<and> waiting_candidate (erows st0) part sz m0 \<and>
    m = m0\<lparr>m_PreAllocated := True, b_Changed := me_now env, b_Generation := b_Generation m0 + 1\<rparr> \<and>
    rows st2 = (rows st0)(b_ID m0 \<mapsto> m) \<and> rows st' = rows st2"
proof (rule under_mutex [OF database found])
  fix n t st1 st2 m0
  assume lock: "mutex_lock (me_mutexes env) (me_now env) part (10 * Second) (me_changes env) st = (Inr (), st1)"
    and ins: "rt_Insert (me_mutexes env) (newMutexDoc t part (10 * Second)) (others_did env n st) = Inr st1"
    and chosen: "choose_machine env part project sz labels role st1 = (Inr m, st2)"
    and rest: "st' = mutex_unlock (me_mutexes env) part st2"
    "rows st' = rows st2" "rows (others_did env n st) (b_ID m0) = Some m0"
    "waiting_candidate (erows (others_did env n st)) part sz m0"
    "m = m0\<lparr>m_PreAllocated := True, b_Changed := me_now env, b_Generation := b_Generation m0 + 1\<rparr>"
    "rows st2 = (rows (others_did env n st))(b_ID m0 \<mapsto> m)"
  note db = creation_databaseD [OF database]
  from lock rest mutex_rethink.insert_ok [OF db(3) ins] leavesD [OF choose_keeps [OF db(9)] chosen]
  show ?thesis
    by (intro exI [of _ n] exI [of _ t] exI [of _ st1] exI [of _ st2] exI [of _ m0]) (simp add: newMutexDoc_def)
qed

section \<open>Actions that leave the database alone\<close>

text \<open>The actions on addresses, pools and UUIDs do.\<close>

abbreviation keeps_db :: "('d, 'a, 'i, 'q, 'h, 'x) machine_action \<Rightarrow> bool" where
  "keeps_db \<equiv> leaves mw_db"

lemma keeps_db_basic [simp]:
  "keeps_db (on_ip a)" "keeps_db (on_asn_pool b)" "keeps_db (on_vpn c)" "keeps_db (fresh_uuid u)" "keeps_db (Pair r)"
  by (simp_all add: leaves_def on_ip_def on_asn_pool_def on_vpn_def fresh_uuid_def Let_def split: prod.splits)

lemma keeps_db_ips: "keeps_db (allocation_ips env n is)"
  by (induction "is") (simp_all add: leaves_bind)

lemma keeps_db_tag: "keeps_db (tag_ips env i ips)"
  by (induction ips) (simp_all add: leaves_bind)

lemma keeps_db_acquire: "keeps_db (acquire_ips env n p name afs)"
  by (induction afs) (simp_all add: leaves_bind)

lemma keeps_db_spec: "keeps_db (spec_networks env ns)"
  by (induction ns) (simp_all add: leaves_bind keeps_db_ips keeps_db_tag keeps_db_acquire)

lemma keeps_db_convert: "keeps_db (convertToMetalAllocationNetworks env ns part role)"
  by (simp add: convertToMetalAllocationNetworks_def leaves_bind keeps_db_spec)

lemma keeps_db_network: "keeps_db (makeMachineNetwork env i p name n asn)"
  by (simp add: makeMachineNetwork_def leaves_bind keeps_db_ips keeps_db_tag keeps_db_acquire)

lemma keeps_db_loop: "keeps_db (make_networks_loop env i p name asn ns)"
  by (induction ns) (simp_all add: leaves_bind keeps_db_network case_prod_unfold)

lemma keeps_db_make: "keeps_db (makeNetworks env i p name ns)"
  by (simp add: makeNetworks_def leaves_bind keeps_db_loop)

definition stays_in :: "('st \<Rightarrow> bool) \<Rightarrow> ('st, 'x) action \<Rightarrow> bool" where
  "stays_in Q a \<longleftrightarrow> (\<forall>st. Q st \<longrightarrow> Q (snd (a st)))"

lemma stays_in_basic [simp]:
  "stays_in Q (lift_result r)" "stays_in Q a \<Longrightarrow> stays_in Q (on_error g a)"
  by (simp_all add: stays_in_def)

section \<open>The created machine\<close>

lemma bind_actionE:
  assumes "bind_action a f st = (Inr y, st'')"
  obtains x st' where "a st = (Inr x, st')" and "f x st' = (Inr y, st'')"
  using assms by (auto simp: bind_action_ok)

lemma on_world_ok: "on_world a st = (Inr x, st') \<longleftrightarrow> a (fst st) = (Inr x, fst st') \<and> snd st' = snd st"
  by (cases st; cases st') (auto simp: on_world_def split: prod.splits)

lemma set_result_ok: "set_result f st = (Inr u, st') \<longleftrightarrow> fst st' = fst st \<and> snd st' = map_option f (snd st)"
  by (cases st; cases st') (auto simp: set_result_def)

lemma ip_network_id:
  assumes "rethink_table (ne_table (ie_net env)) rows" and "rt_key (ne_table (ie_net env)) = b_ID"
    and "ip_network env i = Inr n"
  shows "b_ID n = i"
proof -
  from assms(3) rethink_table.get [OF assms(1)] have "rows (ie_networks env) i = Some n"
    by (auto simp: ip_network_def nw_get_def storage_Get_def split: sum.splits option.splits)
  with rethink_table.keyed [OF assms(1)] assms(2) show ?thesis by fastforce
qed

lemma spec_networks_ids:
  assumes "rethink_table (ne_table (ie_net (al_ip env))) rows" and "rt_key (ne_table (ie_net (al_ip env))) = b_ID"
  shows "spec_networks env ns w = (Inr l, w') \<Longrightarrow> map (\<lambda>n. b_ID (an_network n)) l = map man_Network ns"
  by (induction ns arbitrary: w l w') (auto simp: bind_action_ok dest: ip_network_id [OF assms])

lemma made_networks:
  "make_networks_loop env i project name asn ns w = (Inr (mns, ips), w') \<Longrightarrow>
     map mn_NetworkID mns = map (\<lambda>n. b_ID (an_network n)) ns \<and> (\<forall>n\<in>set mns. mn_ASN n = asn)"
proof (induction ns arbitrary: w mns ips)
  case (Cons n ns)
  from Cons.prems obtain mn ips1 mns' ips2 w1 where
    mn: "makeMachineNetwork env i project name n asn w = (Inr (mn, ips1), w1)"
    and rest: "make_networks_loop env i project name asn ns w1 = (Inr (mns', ips2), w')" and mns: "mns = mn # mns'"
    by (auto simp: bind_action_ok split: prod.splits)
  from mn have "mn_NetworkID mn = b_ID (an_network n) \<and> mn_ASN mn = asn"
    by (auto simp: makeMachineNetwork_def bind_action_ok machine_network_def)
  with Cons.IH [OF rest] mns show ?case by auto
qed auto

lemma on_db_ok: "on_db a w = (Inr x, w') \<longleftrightarrow> (\<exists>st'. a (mw_db w) = (Inr x, st') \<and> w' = w\<lparr>mw_db := st'\<rparr>)"
  by (auto simp: on_db_def Let_def split: prod.splits)

lemma get_machine_ok:
  assumes "rethink_table (me_machines env) rows" and "get_machine env i w = (Inr m, w')"
  shows "w' = w \<and> rows (mw_db w) i = Some m"
  using assms(2) by (auto simp: get_machine_def on_db_ok dest!: tbl_Get_ok [OF assms(1)])

lemma update_machine_ok:
  assumes "rethink_table (me_machines env) rows" and "update_machine env m w = (Inr m', w')"
  shows "m' = m\<lparr>b_Changed := me_now env, b_Generation := b_Generation m + 1\<rparr> \<and>
    rows (mw_db w') = (rows (mw_db w))(b_ID m \<mapsto> m')"
  using assms(2) by (auto simp: update_machine_def on_db_ok dest!: tbl_Update_ok [OF assms(1)])

lemma stored_allocation:
  assumes "rethink_table (me_machines env) rows" and "rt_key (me_machines env) = b_ID"
    and "store_allocation env i alloc w = (Inr m, w')"
  shows "m_Allocation m = Some alloc \<and> \<not> m_PreAllocated m \<and> b_ID m = i \<and>
    rows (mw_db w') = (rows (mw_db w))(i \<mapsto> m) \<and> (\<exists>m0. rows (mw_db w) i = Some m0 \<and> m_Allocation m0 = None)"
proof -
  from assms(3) obtain m0 w1 where get: "get_machine env i w = (Inr m0, w1)" and none: "m_Allocation m0 = None"
    and upd: "update_machine env (addMachineTagsAndLabels (me_tags env) (me_ord env 7)
         (m0\<lparr>m_Allocation := Some alloc, m_PreAllocated := False\<rparr>) alloc) w1 = (Inr m, w')"
    by (auto simp: store_allocation_def bind_action_ok on_error_ok check_that_ok)
  from get_machine_ok [OF assms(1) get] have m0: "w1 = w" "rows (mw_db w) i = Some m0" by simp_all
  with rethink_table.keyed [OF assms(1) m0(2)] assms(2) update_machine_ok [OF assms(1) upd] none show ?thesis
    by (auto simp: addMachineTagsAndLabels_def Let_def)
qed

lemma converted_networks:
  assumes "rethink_table (ne_table (ie_net (al_ip env))) rows" and "rt_key (ne_table (ie_net (al_ip env))) = b_ID"
    and "convertToMetalAllocationNetworks env ns part role w = (Inr l, w')"
  shows "\<exists>more. map (\<lambda>n. b_ID (an_network n)) l = map man_Network ns @ more \<and>
    length more = (if role = RoleFirewall then 1 else 0)"
proof -
  from assms(3) obtain l0 w0 where l0: "spec_networks env ns w = (Inr l0, w0)"
    and l: "l = l0 \<or> (\<exists>n. l = l0 @ [n])" "role = RoleFirewall \<longleftrightarrow> l \<noteq> l0"
    by (auto simp: convertToMetalAllocationNetworks_def bind_action_ok split: if_splits)
  from spec_networks_ids [OF assms(1,2) l0] have ids: "map (\<lambda>n. b_ID (an_network n)) l0 = map man_Network ns" .
  from l show ?thesis
  proof (elim disjE exE)
    fix n assume "l = l0 @ [n]"
    with ids l(2) show ?thesis by (intro exI [of _ "[b_ID (an_network n)]"]) auto
  qed (use ids l(2) in auto)
qed

lemma stays_in_bind: "stays_in Q a \<Longrightarrow> (\<And>x. stays_in Q (f x)) \<Longrightarrow> stays_in Q (bind_action a f)"
  unfolding stays_in_def bind_action_def by (fastforce split: prod.splits sum.splits)

lemma stays_in_return [simp]: "stays_in Q (return x)"
  by (simp add: stays_in_def)

lemma stays_inD: "stays_in Q a \<Longrightarrow> Q st \<Longrightarrow> a st = (r, st') \<Longrightarrow> Q st'"
  unfolding stays_in_def by (metis snd_conv)

lemma vpn_db: "on_vpn a w = (r, w') \<Longrightarrow> mw_db w' = mw_db w"
  by (auto simp: on_vpn_def Let_def split: prod.splits)

lemma vpn_stays: "stays_in (\<lambda>st. mw_db (fst st) = db) (firewall_vpn env project)"
proof -
  have "stays_in (\<lambda>st. mw_db (fst st) = db) (on_world (on_vpn a))" for a
    unfolding stays_in_def by (auto simp: on_world_def dest: vpn_db split: prod.splits)
  then show ?thesis
    unfolding firewall_vpn_def Let_def
    by (auto intro!: stays_in_bind stays_in_basic) (auto simp: stays_in_def dest: vpn_db split: prod.splits sum.splits)
qed

lemma role_requested:
  assumes "requested_role env req st = (Inr role, st')"
  shows "fst role = (if mcr_AllocationType req = MACHINE_ALLOCATION_TYPE_FIREWALL then RoleFirewall else RoleMachine)"
    and "mw_db (fst st') = mw_db (fst st)"
proof -
  show "fst role = (if mcr_AllocationType req = MACHINE_ALLOCATION_TYPE_FIREWALL then RoleFirewall else RoleMachine)"
    using assms by (auto simp: requested_role_def bind_action_ok split: if_splits)
  have "stays_in (\<lambda>st'. mw_db (fst st') = mw_db (fst st)) (requested_role env req)"
    by (auto simp: requested_role_def intro!: stays_in_bind vpn_stays split: option.split)
  from stays_inD [OF this _ assms] show "mw_db (fst st') = mw_db (fst st)" by simp
qed

lemma allocation_reads:
  "reads_only (requested_image env i)" "reads_only (allocation_layout env layout sz i)"
  by (auto simp: requested_image_def GetMostRecentImageFor_def image_list_def allocation_layout_def
      intro!: bind_reads reads_basic tbl_reads split: option.split)

lemma requested_machine_state: "requested_machine env req w = (Inr r, w') \<Longrightarrow> w' = w"
  by (auto simp: requested_machine_def get_machine_def bind_action_ok on_db_def tbl_Get_def split: option.splits)

lemma allocated_on:
  assumes machines: "rethink_table (me_machines env) rows" and key: "rt_key (me_machines env) = b_ID"
    and networks: "rethink_table (ne_table (ie_net (me_ip env))) nrows" "rt_key (ne_table (ie_net (me_ip env))) = b_ID"
    and ok: "allocate_on env req creator partID imageID fsl role part machine st = (Inr m, st')"
  shows "\<exists>a asn more m0. m_Allocation m = Some a \<and> \<not> m_PreAllocated m \<and> b_ID m = b_ID machine \<and>
    rows (mw_db (fst st)) (b_ID m) = Some m0 \<and> m_Allocation m0 = None \<and>
    rows (mw_db (fst st')) = (rows (mw_db (fst st)))(b_ID m \<mapsto> m) \<and>
    ma_Project a = mcr_Project req \<and> ma_Name a = mcr_Name req \<and> ma_Role a = fst role \<and>
    map mn_NetworkID (ma_MachineNetworks a) = map man_Network (mcr_Networks req) @ more \<and>
    length more = (if fst role = RoleFirewall then 1 else 0) \<and> mn_ASN ` set (ma_MachineNetworks a) \<subseteq> {asn}"
proof -
  obtain fw vpn where role: "role = (fst role, fw, vpn)" by (metis prod.collapse)
  from ok obtain uuid ns mns ips w1 w2 w3 where first: "fresh_uuid (al_uuid (me_alloc env)) (fst st) = (Inr uuid, w1)"
    and conv: "convertToMetalAllocationNetworks (me_alloc env) (mcr_Networks req) partID (fst role) w1 = (Inr ns, w2)"
    and make: "makeNetworks (me_alloc env) (b_ID machine) (mcr_Project req) (mcr_Name req) ns w2 = (Inr (mns, ips), w3)"
    and store: "store_allocation env (b_ID machine) (new_allocation req (me_now env) uuid creator imageID fsl role part mns) w3 = (Inr m, fst st')"
    unfolding allocate_on_def case_prod_unfold
  proof (elim bind_actionE, goal_cases)
    case (1 u1 st1 uuid st2 u2 st3 ns st4 nets st5 u3 st6 m' st7 u4 st8)
    from 1(10) have final: "m' = m" "fst st' = fst st7" using 1(9) by (auto simp: set_result_ok split: if_splits)
    from 1(2-8) show ?case
      by (intro 1(1) [of uuid "fst st3" ns "fst st4" "fst nets" "snd nets" "fst st5"])
        (auto simp: on_world_ok on_error_ok set_result_ok final)
  qed
  have db: "mw_db w3 = mw_db (fst st)"
    using leavesD [OF keeps_db_basic(4) first] leavesD [OF keeps_db_convert conv] leavesD [OF keeps_db_make make] by simp
  from make obtain asn w5 where nets: "make_networks_loop (me_alloc env) (b_ID machine) (mcr_Project req) (mcr_Name req) asn ns w5 = (Inr (mns, ips), w3)"
    by (auto simp: makeNetworks_def bind_action_ok)
  let ?a = "new_allocation req (me_now env) uuid creator imageID fsl role part mns"
  have a: "ma_Project ?a = mcr_Project req" "ma_Name ?a = mcr_Name req" "ma_Role ?a = fst role" "ma_MachineNetworks ?a = mns"
    by (subst role, simp add: new_allocation_def)+
  from stored_allocation [OF machines key store] db obtain m0 where
    "m_Allocation m = Some ?a" "\<not> m_PreAllocated m" "b_ID m = b_ID machine" "rows (mw_db (fst st)) (b_ID m) = Some m0"
    "m_Allocation m0 = None" "rows (mw_db (fst st')) = (rows (mw_db (fst st)))(b_ID m \<mapsto> m)" by metis
  moreover from converted_networks [OF networks conv] obtain more where
    "map (\<lambda>n. b_ID (an_network n)) ns = map man_Network (mcr_Networks req) @ more"
    "length more = (if fst role = RoleFirewall then 1 else 0)" by blast
  ultimately show ?thesis using a made_networks [OF nets]
    by (intro exI [of _ ?a] exI [of _ asn] exI [of _ more] exI [of _ m0]) auto
qed

text \<open>The machine that the allocation runs on: the one that was asked for, or one that was found waiting.\<close>

lemma on_world_db: "on_world (on_db a) st = (Inr x, st') \<Longrightarrow> a (mw_db (fst st)) = (Inr x, mw_db (fst st'))"
  by (auto simp: on_world_ok on_db_ok)

lemma machine_obtained:
  assumes database: "creation_database env rows erows mrows"
    and created: "allocateMachine env req st = (Inr m, st')"
  obtains n m0 machine creator partID imageID fsl role part st4 where
    "rows (others_did env n (mw_db (fst st))) (b_ID machine) = Some m0"
    "case mcr_Uuid req of Some i \<Rightarrow> n = 0 \<and> b_ID machine = i
      | None \<Rightarrow> waiting_candidate (erows (others_did env n (mw_db (fst st)))) (pointer_SafeDeref (mcr_Partition req))
          (pointer_SafeDeref (mcr_Size req)) m0"
    "fst role = (if mcr_AllocationType req = MACHINE_ALLOCATION_TYPE_FIREWALL then RoleFirewall else RoleMachine)"
    "rows (mw_db (fst st4)) = (rows (others_did env n (mw_db (fst st))))(b_ID machine \<mapsto> machine)"
    "m_Allocation machine = m_Allocation m0"
    "allocate_on env req creator partID imageID fsl role part machine st4 = (Inr m, st')"
proof -
  note db = creation_databaseD [OF database]
  from created obtain tok where tok: "ie_token (me_ip env) = Some tok"
    by (cases "ie_token (me_ip env)") (simp_all add: allocateMachine_def)
  from created obtain requested sz pt imageID fsl role part machine st0 st1 st2 st3 st4 st5 where
    req: "on_world (requested_machine env req) st = (Inr (requested, sz, pt), st0)"
    and img: "on_world (on_db (requested_image env (mcr_Image req))) st0 = (Inr imageID, st1)"
    and fsl: "on_world (on_db (allocation_layout env (mcr_FilesystemLayout req) sz imageID)) st1 = (Inr fsl, st2)"
    and role: "requested_role env req st2 = (Inr role, st3)"
    and part: "on_world (on_db (tbl_Get (me_partitions env) pt)) st3 = (Inr part, st4)"
    and machine: "(case requested of Some m \<Rightarrow> return m | None \<Rightarrow> on_world (on_db
        (findWaitingMachine env pt (mcr_Project req) sz (mcr_PlacementLabels req) (fst role)))) st4 = (Inr machine, st5)"
    and alloc: "allocate_on env req (t_User tok) pt imageID fsl role part machine st5 = (Inr m, st')"
    unfolding allocateMachine_def case_prod_unfold tok option.case by (elim bind_actionE) (metis prod.collapse)
  have "mw_db (fst st0) = mw_db (fst st)"
    using req by (auto simp: on_world_ok dest: requested_machine_state)
  with reads_state [OF allocation_reads(1) on_world_db [OF img]] reads_state [OF allocation_reads(2) on_world_db [OF fsl]]
    role_requested(2) [OF role] reads_state [OF tbl_reads(1) on_world_db [OF part]]
  have st4: "mw_db (fst st4) = mw_db (fst st)" by simp
  note r = role_requested(1) [OF role]
  show ?thesis
  proof (cases requested)
    case (Some m1)
    with machine have m1: "machine = m1" "st5 = st4" by auto
    from req Some obtain i where i: "mcr_Uuid req = Some i" "get_machine env i (fst st) = (Inr m1, fst st0)"
      by (auto simp: requested_machine_def on_world_ok bind_action_ok split: option.splits)
    from get_machine_ok [OF db(1) i(2)] have row: "rows (mw_db (fst st)) i = Some m1" by simp
    with rethink_table.keyed [OF db(1) row] db(2) have "b_ID m1 = i" by simp
    with row i st4 m1 r alloc show ?thesis by (intro that [of 0 machine m1 role st5]) auto
  next
    case None
    with req have sz: "mcr_Uuid req = None" "sz = pointer_SafeDeref (mcr_Size req)" "pt = pointer_SafeDeref (mcr_Partition req)"
      by (auto simp: requested_machine_def on_world_ok bind_action_ok split: option.splits)
    from machine None have "findWaitingMachine env pt (mcr_Project req) sz (mcr_PlacementLabels req) (fst role) (mw_db (fst st)) =
        (Inr machine, mw_db (fst st5))"
      using st4 by (auto dest: on_world_db)
    from under_mutex [OF database this] obtain n m0 where
      "rows (mw_db (fst st5)) = (rows (others_did env n (mw_db (fst st))))(b_ID m0 \<mapsto> machine)"
      "rows (others_did env n (mw_db (fst st))) (b_ID m0) = Some m0"
      "waiting_candidate (erows (others_did env n (mw_db (fst st)))) pt sz m0"
      "machine = m0\<lparr>m_PreAllocated := True, b_Changed := me_now env, b_Generation := b_Generation m0 + 1\<rparr>" by metis
    with sz r alloc show ?thesis by (intro that [of n machine m0 role st5]) auto
  qed
qed

text \<open>
  C8: A machine that is created is stored: the machines of the database are those that the others have
  left while the allocation waited for the mutex, with the created one in the place of a machine that was
  not allocated. That is the machine that was asked for, found in the database as it was, or one of
  the partition and the size asked for that waits, is alive and not preallocated. The created machine is
  allocated to the project, with the role that was asked for and with the networks of the request, in
  their order and for a firewall followed by one more; they all have one ASN. It is not preallocated any more.
  The client of the task queue does not write to the database.
\<close>

theorem created_machine:
  assumes database: "creation_database env rows erows mrows"
    and networks: "rethink_table (ne_table (ie_net (me_ip env))) nrows" "rt_key (ne_table (ie_net (me_ip env))) = b_ID"
    and queue: "\<And>i a. keeps_db (me_PushMachineAllocation env i a)"
    and created: "machine_create env req w = (Inr m, w')"
  shows "\<exists>n a asn more m0. let db = others_did env n (mw_db w) in
    rows db (b_ID m) = Some m0 \<and> m_Allocation m0 = None \<and> rows (mw_db w') = (rows db)(b_ID m \<mapsto> m) \<and>
    (case mcr_Uuid req of Some i \<Rightarrow> n = 0 \<and> b_ID m = i
      | None \<Rightarrow> waiting_candidate (erows db) (pointer_SafeDeref (mcr_Partition req)) (pointer_SafeDeref (mcr_Size req)) m0) \<and>
    m_Allocation m = Some a \<and> \<not> m_PreAllocated m \<and> ma_Project a = mcr_Project req \<and> ma_Name a = mcr_Name req \<and>
    ma_Role a = (if mcr_AllocationType req = MACHINE_ALLOCATION_TYPE_FIREWALL then RoleFirewall else RoleMachine) \<and>
    map mn_NetworkID (ma_MachineNetworks a) = map man_Network (mcr_Networks req) @ more \<and>
    length more = (if ma_Role a = RoleFirewall then 1 else 0) \<and> mn_ASN ` set (ma_MachineNetworks a) \<subseteq> {asn}"
proof -
  from created obtain w1 ar where alloc: "allocateMachine env req (w, Some new_result) = (Inr m, w1, ar)"
    and push: "\<exists>r. me_PushMachineAllocation env (b_ID m) (case m_Allocation m of None \<Rightarrow> '''' | Some a \<Rightarrow> ma_UUID a) w1 = (r, w')"
    by (auto simp: machine_create_def bind_action_ok split: prod.splits sum.splits option.splits)
  from push leavesD [OF queue] have w1: "mw_db w1 = mw_db w'" by metis
  show ?thesis
  proof (rule machine_obtained [OF database alloc], unfold fst_conv)
    fix n m0 machine creator partID imageID fsl role part st4
    let ?db = "others_did env n (mw_db w)"
    assume m0: "rows ?db (b_ID machine) = Some m0" "m_Allocation machine = m_Allocation m0"
      and which: "case mcr_Uuid req of Some i \<Rightarrow> n = 0 \<and> b_ID machine = i
        | None \<Rightarrow> waiting_candidate (erows ?db) (pointer_SafeDeref (mcr_Partition req)) (pointer_SafeDeref (mcr_Size req)) m0"
      and role: "fst role = (if mcr_AllocationType req = MACHINE_ALLOCATION_TYPE_FIREWALL then RoleFirewall else RoleMachine)"
      and st4: "rows (mw_db (fst st4)) = (rows ?db)(b_ID machine \<mapsto> machine)"
      and ok: "allocate_on env req creator partID imageID fsl role part machine st4 = (Inr m, w1, ar)"
    from allocated_on [OF creation_databaseD(1,2) [OF database] networks ok] obtain a asn more where
      a: "m_Allocation m = Some a" "\<not> m_PreAllocated m" "b_ID m = b_ID machine"
      "ma_Project a = mcr_Project req" "ma_Name a = mcr_Name req" "ma_Role a = fst role"
      "map mn_NetworkID (ma_MachineNetworks a) = map man_Network (mcr_Networks req) @ more"
      "length more = (if fst role = RoleFirewall then 1 else 0)" "mn_ASN ` set (ma_MachineNetworks a) \<subseteq> {asn}"
      and none: "m_Allocation machine = None" and final: "rows (mw_db w') = (rows ?db)(b_ID m \<mapsto> m)"
      using st4 w1 by auto
    have "case mcr_Uuid req of Some i \<Rightarrow> n = 0 \<and> b_ID m = i
        | None \<Rightarrow> waiting_candidate (erows ?db) (pointer_SafeDeref (mcr_Partition req)) (pointer_SafeDeref (mcr_Size req)) m0"
      using which unfolding a(3) .
    moreover have "rows ?db (b_ID m) = Some m0" "m_Allocation m0 = None" using m0 none a(3) by simp_all
    moreover have "length more = (if ma_Role a = RoleFirewall then 1 else 0)" using a by simp
    ultimately show ?thesis using a(1,2,4-7,9) final unfolding role Let_def by blast
  qed
qed

section \<open>A world with one machine\<close>

text \<open>The database has the tables of the machines and of the mutexes, the others are only read.\<close>

type_synonym example_db = "Machine list \<times> sharedMutexDoc list"

definition db_machines :: "(example_db, string, Machine) rethink" where
  "db_machines = part_table fst (\<lambda>ms (_, xs). (ms, xs)) base_table"

definition db_mutexes :: "example_db mutex_table" where
  "db_mutexes = rethink.extend (part_table snd (\<lambda>xs (ms, _). (ms, xs)) (list_rethink mx_ID))
     \<lparr>mt_DeleteWhere = (\<lambda>q w. map_sum id (\<lambda>xs. (fst w, xs)) (mt_DeleteWhere list_mutexes q (snd w)))\<rparr>"

lemma db_machines: "rethink_table db_machines (\<lambda>w. list_rows b_ID (fst w))" "rt_key db_machines = b_ID"
proof -
  show "rethink_table db_machines (\<lambda>w. list_rows b_ID (fst w))"
    unfolding db_machines_def by (rule part_table [OF base_table]) auto
qed (simp add: db_machines_def part_table_def base_table_def list_rethink_def)

lemma db_mutexes: "mutex_rethink db_mutexes (\<lambda>w. list_rows mx_ID (snd w))"
proof (rule mutex_rethink.intro)
  have "rethink.truncate db_mutexes = part_table snd (\<lambda>xs (ms, _). (ms, xs)) (list_rethink mx_ID)"
    by (simp add: db_mutexes_def rethink.defs)
  moreover have "rethink_table (part_table snd (\<lambda>xs (ms, _). (ms, xs)) (list_rethink mx_ID)) (\<lambda>w. list_rows mx_ID (snd w))"
    by (rule part_table [OF list_table.rethink_table_axioms]) auto
  ultimately show "rethink_table (rethink.truncate db_mutexes) (\<lambda>w. list_rows mx_ID (snd w))" by simp
next
  fix q st and st' :: example_db
  assume "mt_DeleteWhere db_mutexes q st = Inr st'"
  then have "mt_DeleteWhere list_mutexes q (snd st) = Inr (snd st')" by (auto simp: db_mutexes_def rethink.defs map_sum_Inr)
  from list_mutex.delete_where [OF this] show "list_rows mx_ID (snd st') =
      (\<lambda>k. case list_rows mx_ID (snd st) k of None \<Rightarrow> None | Some d \<Rightarrow> if q d then None else Some d)" .
qed (simp add: db_mutexes_def rethink.defs part_table_def list_rethink_def)

lemma db_mutexes_apart: "deletes_apart db_mutexes (\<lambda>w. f (fst w))"
  by (auto simp: deletes_apart_def db_mutexes_def rethink.defs part_table_def map_sum_Inr)

definition idle_machine :: Machine where
  "idle_machine = (machine_with_id ''m1'')\<lparr>b_Changed := 1, m_PartitionID := ''part'', m_SizeID := ''s1'',
     m_Waiting := True\<rparr>"

definition bare_layout :: FilesystemLayout where
  "bare_layout = example_layout\<lparr>fl_Disks := []\<rparr>"

definition example_images :: "(example_db, unit) image_env" where
  "example_images = \<lparr>ie_semver = \<lparr>sv_NewVersion = (\<lambda>_. Inr ()), sv_NewConstraint = (\<lambda>_. Inr (\<lambda>_. True)),
       sv_GetOsAndSemverFromImage = (\<lambda>_. Inr (''ubuntu'', ())), sv_Patch = (\<lambda>_. 1), sv_String = (\<lambda>_. ''24.4.1''),
       sv_GreaterThan = (\<lambda>_ _. False)\<rparr>,
     ie_table = const_table b_ID [], ie_url = (\<lambda>_. Inr ()), ie_machines = (\<lambda>_. Inr 0), ie_now = 2, ie_newID = Inr ''new''\<rparr>"

definition example_constraints :: "(example_db, unit) sic_env" where
  "example_constraints = \<lparr>sie_semver = ie_semver example_images, sie_table = const_table b_ID [],
     sie_sizes = const_table b_ID [example_size], sie_images = const_table b_ID [], sie_now = 2, sie_newID = Inr ''new''\<rparr>"

definition no_reservations :: "example_db reservation_env" where
  "no_reservations = \<lparr>rv_table = const_table b_ID [], rv_machines = db_machines, rv_size = (\<lambda>_. Inr ()),
     rv_partition = (\<lambda>_. Inr ()), rv_project = (\<lambda>_. Inr ()), rv_scope = None, rv_now = 2, rv_newID = Inr ''new''\<rparr>"

definition example_alloc :: "(IP list, Network list, uint list, address_list, uint list) allocation_env" where
  "example_alloc = \<lparr>al_ip = (example_ip_env None)\<lparr>ie_token := Some (empty_Token\<lparr>t_User := ''alice''\<rparr>)\<rparr>, al_pool_table = list_rethink (\<lambda>v. v),
     al_pool = \<lparr>ip_min = 1, ip_max = 131072\<rparr>, al_retry = (\<lambda>f. f), al_uuid = (\<lambda>n. Inr (itoa n))\<rparr>"

definition no_vpn :: "unit vpn_env" where
  "no_vpn = \<lparr>vp_client = None, vp_scope = None, vp_project = (\<lambda>_ _. Inr ()), vp_Convert = (\<lambda>e. e), vp_now = 2\<rparr>"

definition creation_env ::
  "FilesystemLayout \<Rightarrow> (example_db, IP list, Network list, uint list, address_list, uint list, unit, unit) machine_env" where
  "creation_env fl =
     \<lparr>me_machines = db_machines, me_events = const_table b_ID [alive_container ''m1''], me_layouts = const_table b_ID [fl],
      me_partitions = const_table b_ID [example_partition], me_sizes = const_table b_ID [example_size],
      me_images = example_images, me_constraints = example_constraints, me_reservations = no_reservations,
      me_mutexes = db_mutexes, me_changes = Inr [], me_alloc = example_alloc, me_vpn = no_vpn,
      me_enums = \<lparr>en_AllocationType = (\<lambda>_. Inr ''machine''), en_MachineState = (\<lambda>_. Inr '''')\<rparr>,
      me_AllocationType = (\<lambda>_. 1), me_IPProtocol = (\<lambda>_. Inr ''tcp''), me_supported = ''supported'',
      me_tags = \<lparr>tn_PrimaryASN = ''asn'', tn_Rack = ''rack'', tn_Chassis = ''chassis''\<rparr>,
      me_rand = (\<lambda>_. 0), me_ord = (\<lambda>_ ks. ks), me_now = 2, me_project = (\<lambda>p. Inr p), me_ParseAuthorizedKey = (\<lambda>_. Inr ()),
      me_eu = plain_errorutil, me_NewInvalidArgument = (\<lambda>e. e), me_NewResourceExhausted = (\<lambda>e. e),
      me_IPDeleteTask = (\<lambda>_ _ _. return ''task''), me_PushMachineAllocation = (\<lambda>_ _. return ()), me_injected = None\<rparr>"

definition creation_request :: "string option \<Rightarrow> MachineServiceCreateRequest" where
  "creation_request uuid =
     \<lparr>mcr_Project = ''p1'', mcr_Uuid = uuid, mcr_Name = ''web'', mcr_Description = None, mcr_Hostname = None,
      mcr_Partition = Some ''part'', mcr_Size = Some ''s1'', mcr_Image = ''ubuntu-24.4.1'',
      mcr_FilesystemLayout = Some ''default'', mcr_SshPublicKeys = [], mcr_Userdata = None, mcr_Labels = None,
      mcr_Networks = [\<lparr>man_Network = ''net'', man_Ips = [''10.0.0.9'']\<rparr>], mcr_PlacementLabels = None,
      mcr_DnsServers = [], mcr_NtpServers = [], mcr_AllocationType = MACHINE_ALLOCATION_TYPE_MACHINE,
      mcr_FirewallSpec = None\<rparr>"

definition creation_world :: "(example_db, IP list, address_list, uint list, unit) machine_world" where
  "creation_world = \<lparr>mw_db = ([idle_machine], []), mw_ip = example_ip_world None, mw_pool = [1], mw_vpn = (), mw_count = 0\<rparr>"

lemma tbl_Update_row:
  "list_rows b_ID es (b_ID e) = Some old \<Longrightarrow> b_Changed old = b_Changed e \<Longrightarrow> b_Changed e \<noteq> 0 \<Longrightarrow>
     tbl_Update base_table now e es =
       (Inr (e\<lparr>b_Changed := now, b_Generation := b_Generation e + 1\<rparr>),
        e\<lparr>b_Changed := now, b_Generation := b_Generation e + 1\<rparr> # list_without b_ID (b_ID e) es)"
  by (simp add: tbl_Update_def storage_Update_def base_table_def list_rethink_def setChanged_def setGeneration_def Let_def)

lemma creation_env_sel:
  "me_machines (creation_env fl) = db_machines" "me_events (creation_env fl) = const_table b_ID [alive_container ''m1'']"
  "me_layouts (creation_env fl) = const_table b_ID [fl]" "me_partitions (creation_env fl) = const_table b_ID [example_partition]"
  "me_images (creation_env fl) = example_images" "me_reservations (creation_env fl) = no_reservations"
  "me_mutexes (creation_env fl) = db_mutexes" "me_changes (creation_env fl) = Inr []" "me_alloc (creation_env fl) = example_alloc"
  "me_ord (creation_env fl) = (\<lambda>_ ks. ks)" "me_rand (creation_env fl) = (\<lambda>_. 0)" "me_now (creation_env fl) = 2"
  "me_injected (creation_env fl) = None" "me_PushMachineAllocation (creation_env fl) = (\<lambda>_ _. return ())"
  "me_enums (creation_env fl) = \<lparr>en_AllocationType = (\<lambda>_. Inr ''machine''), en_MachineState = (\<lambda>_. Inr '''')\<rparr>"
  "me_AllocationType (creation_env fl) = (\<lambda>_. 1)" "me_NewResourceExhausted (creation_env fl) = (\<lambda>e. e)"
  by (simp_all add: creation_env_def)

lemma creation_setting:
  "rethink_table (me_machines (creation_env fl)) (\<lambda>w. list_rows b_ID (fst w))" "rt_key (me_machines (creation_env fl)) = b_ID"
  "rethink_table (ne_table (ie_net (me_ip (creation_env fl)))) (list_rows b_ID)"
  "rt_key (ne_table (ie_net (me_ip (creation_env fl)))) = b_ID"
  "rethink_table (me_events (creation_env fl)) (\<lambda>_. list_rows b_ID [alive_container ''m1''])"
  "rt_key (me_events (creation_env fl)) = b_ID"
  "mutex_rethink (me_mutexes (creation_env fl)) (\<lambda>w. list_rows mx_ID (snd w))"
  "deletes_apart (me_mutexes (creation_env fl)) (\<lambda>w. list_rows b_ID (fst w))"
  by (simp_all add: creation_env_sel db_machines example_alloc_def example_ip_env_def example_ip_net_def
      list_table.rethink_table_axioms const_table db_mutexes db_mutexes_apart)
    (simp_all add: list_rethink_def const_table_def)

lemma creation_database_example:
  "creation_database (creation_env fl) (\<lambda>w. list_rows b_ID (fst w)) (\<lambda>_. list_rows b_ID [alive_container ''m1''])
     (\<lambda>w. list_rows mx_ID (snd w))"
proof -
  have "keeps_rows db_machines (\<lambda>w. list_rows mx_ID (snd w))"
    unfolding db_machines_def by (rule part_table_keeps) auto
  moreover have "inserts_apart db_mutexes (\<lambda>w. list_rows b_ID (fst w))"
    by (auto simp: inserts_apart_def db_mutexes_def rethink.defs part_table_def map_sum_Inr)
  moreover have "is_order (\<lambda>ks. ks)" by (simp add: is_order_def)
  ultimately show ?thesis
    by (simp add: creation_database_def creation_env_sel db_machines const_table db_mutexes db_mutexes_apart inserts_apart_def)
      (simp add: const_table_def)
qed

lemma creation_queue: "keeps_db (me_PushMachineAllocation (creation_env fl) i a)" "keeps_db (me_IPDeleteTask (creation_env fl) i a p)"
  by (simp_all add: creation_env_def)

text \<open>The updates of the only machine and the only address.\<close>

lemma update_db_machine:
  assumes "b_ID m = b_ID old" and "b_Changed m = b_Changed old" and "b_Changed m \<noteq> 0"
  shows "tbl_Update db_machines now m ([old], xs) =
    (Inr (m\<lparr>b_Changed := now, b_Generation := b_Generation m + 1\<rparr>),
     [m\<lparr>b_Changed := now, b_Generation := b_Generation m + 1\<rparr>], xs)"
  using assms
  by (simp add: tbl_Update_def storage_Update_def db_machines_def part_table_def base_table_def list_rethink_def list_rows_def
      list_without_def setChanged_def setGeneration_def Let_def)

lemma get_db_machine: "b_ID m = i \<Longrightarrow> tbl_Get db_machines i ([m], xs) = (Inr m, [m], xs)"
  by (simp add: tbl_Get_def storage_Get_def db_machines_def part_table_def base_table_def list_rethink_def list_rows_def)

lemma get_const: "tbl_Get (const_table b_ID [e]) (b_ID e) st = (Inr e, st)"
  by (simp add: tbl_Get_def storage_Get_def const_table_def list_rows_def)

lemma idle_machine_sel:
  "b_ID idle_machine = ''m1''" "b_Changed idle_machine = 1" "m_PartitionID idle_machine = ''part''" "m_SizeID idle_machine = ''s1''"
  "m_Allocation idle_machine = None" "m_Waiting idle_machine" "\<not> m_PreAllocated idle_machine" "m_RackID idle_machine = ''''"
  "hw_Disks (m_Hardware idle_machine) = []" "ms_Value (m_State idle_machine) = AvailableState"
  by (simp_all add: idle_machine_def machine_with_id_def zero_hardware_def)

lemma example_alloc_sel:
  "ip_env.ie_table (al_ip example_alloc) = base_table" "ip_env.ie_now (al_ip example_alloc) = 5"
  "ie_token (al_ip example_alloc) = Some (empty_Token\<lparr>t_User := ''alice''\<rparr>)" "ie_MachineID (al_ip example_alloc) = ''machine''"
  "al_uuid example_alloc = (\<lambda>n. Inr (itoa n))" "al_retry example_alloc = (\<lambda>f. f)" "al_pool_table example_alloc = list_rethink (\<lambda>v. v)"
  "ip_network (al_ip example_alloc) ''net'' = Inr (example_net None)"
  using example_ip_setting(4) [of None]
  by (simp_all add: example_alloc_def) (simp_all add: example_ip_env_def base_table_def ip_network_def)

lemma example_networks:
  "convertToMetalAllocationNetworks example_alloc (mcr_Networks (creation_request uuid)) part RoleMachine w =
     (Inr [\<lparr>an_network = example_net None, an_ips = [example_ip None]\<rparr>], w)"
  if "mw_ip w = example_ip_world None"
proof -
  have ns: "nw_Namespace (example_net None) = None" by (simp add: example_net_def)
  have "tbl_Get base_table (CreateNamespacedIPAddress None ''10.0.0.9'') [example_ip None] = (Inr (example_ip None), [example_ip None])"
    by (simp add: tbl_Get_def storage_Get_def base_table_def list_rethink_def list_rows_def example_ip_def CreateNamespacedIPAddress_def)
  then have "on_ip (on_ips (tbl_Get base_table (CreateNamespacedIPAddress None ''10.0.0.9''))) w = (Inr (example_ip None), w)"
    using that by (cases w) (simp add: on_ip_def on_ips_def example_ip_world_def)
  then show ?thesis
    by (simp add: convertToMetalAllocationNetworks_def creation_request_def bind_action_def example_alloc_sel ns)
qed

lemma example_tagged:
  assumes "mw_ip w = example_ip_world None"
  shows "\<exists>ip w'. tag_ips example_alloc ''m1'' [example_ip None] w = (Inr [ip], w') \<and> mw_db w' = mw_db w"
proof -
  have ip: "b_ID (AddMachineId k i (example_ip None)) = b_ID (example_ip None)" "b_Changed (AddMachineId k i (example_ip None)) = 5" for k i
    by (simp_all add: AddMachineId_def example_ip_def)
  have "tbl_Update base_table 5 (AddMachineId ''machine'' ''m1'' (example_ip None)) [example_ip None] = 
      (Inr ((AddMachineId ''machine'' ''m1'' (example_ip None))\<lparr>b_Changed := 5, b_Generation := b_Generation (AddMachineId ''machine'' ''m1'' (example_ip None)) + 1\<rparr>),
       (AddMachineId ''machine'' ''m1'' (example_ip None))\<lparr>b_Changed := 5, b_Generation := b_Generation (AddMachineId ''machine'' ''m1'' (example_ip None)) + 1\<rparr>
         # list_without b_ID (b_ID (example_ip None)) [example_ip None])"
    by (subst tbl_Update_row [where old = "example_ip None"]) (simp_all add: list_rows_def ip, simp add: example_ip_def)
  then show ?thesis
    using assms by (simp add: bind_action_def example_alloc_sel on_ip_def on_ips_def example_ip_world_def)
qed

lemma example_makeNetworks:
  assumes "mw_ip w = example_ip_world None" and "mw_pool w = [1]"
  shows "\<exists>mns ips w'. makeNetworks example_alloc ''m1'' project name
      [\<lparr>an_network = example_net None, an_ips = [example_ip None]\<rparr>] w = (Inr (mns, ips), w') \<and> mw_db w' = mw_db w"
proof -
  have asn: "on_asn_pool (acquireASN (al_retry example_alloc) (al_pool_table example_alloc)) w = (Inr (ASNBase + 1), w\<lparr>mw_pool := []\<rparr>)"
    using assms(2) by (simp add: on_asn_pool_def acquireASN_def AcquireRandomUniqueInteger_def genericAcquire_def
        example_alloc_sel list_rethink_def list_without_def ASNBase_def ASNMax_def)
  obtain ip w' where tag: "tag_ips example_alloc ''m1'' [example_ip None] (w\<lparr>mw_pool := []\<rparr>) = (Inr [ip], w')" "mw_db w' = mw_db w"
    using example_tagged [of "w\<lparr>mw_pool := []\<rparr>"] assms(1) by auto
  have "makeMachineNetwork example_alloc ''m1'' project name \<lparr>an_network = example_net None, an_ips = [example_ip None]\<rparr> (ASNBase + 1)
      (w\<lparr>mw_pool := []\<rparr>) = (Inr (machine_network (example_net None) [ip] (ASNBase + 1), [ip]), w')"
    using tag(1) by (simp add: makeMachineNetwork_def bind_action_def del: tag_ips.simps)
  then show ?thesis
    using asn tag(2) by (simp add: makeNetworks_def bind_action_def del: tag_ips.simps)
qed

lemma example_allocate_on:
  assumes db: "mw_db w = ([m], xs)" "b_ID m = ''m1''" "b_Changed m \<noteq> 0" "m_Allocation m = None"
    and w: "mw_ip w = example_ip_world None" "mw_pool w = [1]"
    and machine: "b_ID machine = ''m1''" "hw_Disks (m_Hardware machine) = []"
  shows "\<exists>m' st'. allocate_on (creation_env bare_layout) (creation_request uuid) creator ''part'' imageID bare_layout
      (RoleMachine, None, None) example_partition machine (w, ar) = (Inr m', st')"
proof -
  let ?w = "w\<lparr>mw_count := Suc (mw_count w)\<rparr>"
  have uuid: "fresh_uuid (al_uuid (me_alloc (creation_env bare_layout))) w = (Inr (itoa (mw_count w)), ?w)"
    by (simp add: fresh_uuid_def creation_env_sel example_alloc_sel)
  have layout: "layout_Matches bare_layout [] = Inr ()" by (simp add: layout_Matches_def required_devices_def bare_layout_def example_layout_def)
  have nets: "convertToMetalAllocationNetworks example_alloc (mcr_Networks (creation_request uuid)) ''part'' RoleMachine ?w =
     (Inr [\<lparr>an_network = example_net None, an_ips = [example_ip None]\<rparr>], ?w)"
    by (rule example_networks) (simp add: w)
  obtain mns ips w' where make: "makeNetworks example_alloc ''m1'' (mcr_Project (creation_request uuid)) (mcr_Name (creation_request uuid))
      [\<lparr>an_network = example_net None, an_ips = [example_ip None]\<rparr>] ?w = (Inr (mns, ips), w')" "mw_db w' = ([m], xs)"
    using example_makeNetworks [of ?w] w db(1) by fastforce
  let ?a = "new_allocation (creation_request uuid) 2 (itoa (mw_count w)) creator imageID bare_layout (RoleMachine, None, None) example_partition mns"
  let ?m = "addMachineTagsAndLabels (me_tags (creation_env bare_layout)) (\<lambda>ks. ks) (m\<lparr>m_Allocation := Some ?a, m_PreAllocated := False\<rparr>) ?a"
  have sel: "b_ID ?m = b_ID m" "b_Changed ?m = b_Changed m" by (simp_all add: addMachineTagsAndLabels_def Let_def)
  have "store_allocation (creation_env bare_layout) ''m1'' ?a w' =
      (Inr (?m\<lparr>b_Changed := 2, b_Generation := b_Generation ?m + 1\<rparr>), w'\<lparr>mw_db := ([?m\<lparr>b_Changed := 2, b_Generation := b_Generation ?m + 1\<rparr>], xs)\<rparr>)"
    using make(2) update_db_machine [OF sel, of 2 xs] sel db
    by (simp add: store_allocation_def get_machine_def update_machine_def on_db_def bind_action_def on_error_def creation_env_sel
        get_db_machine check_that_def)
  with uuid layout nets make(1) machine show ?thesis
    by (simp add: allocate_on_def bind_action_def on_error_def on_world_def set_result_def creation_env_sel)
qed

text \<open>Up to the choice of the machine.\<close>

lemma example_requested:
  "requested_machine (creation_env fl) (creation_request (Some ''m1'')) creation_world =
     (Inr (Some idle_machine, ''s1'', ''part''), creation_world)"
  "requested_machine (creation_env fl) (creation_request None) creation_world = (Inr (None, ''s1'', ''part''), creation_world)"
  "on_db (requested_image (creation_env fl) (mcr_Image (creation_request uuid))) w = (Inr ''ubuntu-24.4.1'', w)"
  "b_ID fl = ''default'' \<Longrightarrow>
     on_db (allocation_layout (creation_env fl) (mcr_FilesystemLayout (creation_request uuid)) sz img) w = (Inr fl, w)"
  "requested_role (creation_env fl) (creation_request uuid) st = (Inr (RoleMachine, None, None), st)"
  "on_db (tbl_Get (me_partitions (creation_env fl)) ''part'') w = (Inr example_partition, w)"
proof -
  show "requested_machine (creation_env fl) (creation_request (Some ''m1'')) creation_world =
     (Inr (Some idle_machine, ''s1'', ''part''), creation_world)"
    by (simp add: requested_machine_def creation_request_def get_machine_def bind_action_def on_db_def creation_env_sel
        creation_world_def get_db_machine idle_machine_sel)
  show "b_ID fl = ''default'' \<Longrightarrow>
     on_db (allocation_layout (creation_env fl) (mcr_FilesystemLayout (creation_request uuid)) sz img) w = (Inr fl, w)"
    using get_const [of fl "mw_db w"] by (simp add: allocation_layout_def creation_request_def on_db_def creation_env_sel)
  show "on_db (tbl_Get (me_partitions (creation_env fl)) ''part'') w = (Inr example_partition, w)"
    using get_const [of example_partition "mw_db w"] by (simp add: on_db_def creation_env_sel example_partition_def)
qed (simp_all add: requested_machine_def requested_image_def requested_role_def creation_request_def bind_action_def on_db_def
    creation_env_sel example_images_def pointer_SafeDeref_def)

lemma bare_layout_id: "b_ID bare_layout = ''default''" "b_ID example_layout = ''default''"
  by (simp_all add: bare_layout_def example_layout_def)

lemma creation_token: "ie_token (me_ip (creation_env fl)) = Some (empty_Token\<lparr>t_User := ''alice''\<rparr>)"
  by (simp add: creation_env_sel example_alloc_sel)

lemma example_created:
  "\<exists>m w'. machine_create (creation_env bare_layout) (creation_request (Some ''m1'')) creation_world = (Inr m, w')"
proof -
  have db: "mw_db creation_world = ([idle_machine], [])" "mw_ip creation_world = example_ip_world None" "mw_pool creation_world = [1]"
    by (simp_all add: creation_world_def)
  obtain m st where al: "allocate_on (creation_env bare_layout) (creation_request (Some ''m1'')) ''alice'' ''part'' ''ubuntu-24.4.1'' bare_layout
      (RoleMachine, None, None) example_partition idle_machine (creation_world, Some new_result) = (Inr m, st)"
    using example_allocate_on [OF db(1) _ _ _ db(2,3), of idle_machine] by (fastforce simp: idle_machine_sel)
  have "allocateMachine (creation_env bare_layout) (creation_request (Some ''m1'')) (creation_world, Some new_result) = (Inr m, st)"
    by (simp add: allocateMachine_def creation_token bind_action_def on_world_def al example_requested bare_layout_id)
  then show ?thesis by (cases st) (simp add: machine_create_def bind_action_def creation_env_sel)
qed

theorem created_machine_witness:
  "\<exists>m w' a asn. machine_create (creation_env bare_layout) (creation_request (Some ''m1'')) creation_world = (Inr m, w') \<and>
     list_rows b_ID (fst (mw_db w')) ''m1'' = Some m \<and>
     m_Allocation m = Some a \<and> ma_Project a = ''p1'' \<and> map mn_NetworkID (ma_MachineNetworks a) = [''net''] \<and>
     mn_ASN ` set (ma_MachineNetworks a) \<subseteq> {asn}"
proof -
  from example_created obtain m w' where c: "machine_create (creation_env bare_layout) (creation_request (Some ''m1'')) creation_world = (Inr m, w')"
    by blast
  from created_machine [OF creation_database_example creation_setting(3,4) creation_queue(1) c] obtain a asn more where
    "b_ID m = ''m1''" "list_rows b_ID (fst (mw_db w')) (b_ID m) = Some m"
    "m_Allocation m = Some a" "ma_Project a = mcr_Project (creation_request (Some ''m1''))"
    "map mn_NetworkID (ma_MachineNetworks a) = map man_Network (mcr_Networks (creation_request (Some ''m1''))) @ more"
    "length more = (if ma_Role a = RoleFirewall then 1 else 0)" "ma_Role a = RoleMachine"
    "mn_ASN ` set (ma_MachineNetworks a) \<subseteq> {asn}"
    by (auto simp: creation_request_def Let_def)
  with c show ?thesis by (auto simp: creation_request_def)
qed

lemma example_list_machines:
  "list_all (\<lambda>q. q idle_machine) qs \<Longrightarrow> tbl_List db_machines qs ([idle_machine], xs) = (Inr [idle_machine], [idle_machine], xs)"
  "\<not> list_all (\<lambda>q. q idle_machine) qs \<Longrightarrow> tbl_List db_machines qs ([idle_machine], xs) = (Inr [], [idle_machine], xs)"
  by (simp_all add: tbl_List_def storage_List_def db_machines_def part_table_def base_table_def list_rethink_def list_rows_def comp_def)

lemma example_chosen:
  "choose_machine (creation_env fl) ''part'' ''p1'' ''s1'' None RoleMachine ([idle_machine], xs) =
     (Inr (idle_machine\<lparr>m_PreAllocated := True, b_Changed := 2, b_Generation := b_Generation idle_machine + 1\<rparr>),
      [idle_machine\<lparr>m_PreAllocated := True, b_Changed := 2, b_Generation := b_Generation idle_machine + 1\<rparr>], xs)"
proof -
  let ?en = "me_enums (creation_env fl)"
  have cand: "MachineFilter ?en (candidates_query ''part'' ''s1'') idle_machine"
    by (simp add: MachineFilter_def candidates_query_def empty_machine_query_def machine_fields_def matches_field_def
      after_allocation_def state_and_after_def given_def ToUpper_def creation_env_sel idle_machine_sel)
  have proj: "\<not> MachineFilter ?en (project_query ''part'' ''s1'' ''p1'' 1) idle_machine"
    by (simp add: MachineFilter_def project_query_def empty_machine_query_def allocated_with_def idle_machine_sel)
  have ecs: "tbl_List (const_table b_ID [alive_container ''m1'']) [] st = (Inr [alive_container ''m1''], st)" for st
    by (simp add: tbl_List_def storage_List_def const_table_def list_rows_def)
  have alive: "alive_machines [alive_container ''m1''] [idle_machine] = [idle_machine]"
    by (simp add: alive_machines_def ProvisioningEventsByID_def alive_container_def idle_machine_sel)
  have res: "reservation_check no_reservations [idle_machine] ''part'' ''p1'' ''s1'' st = (Inr (), st)" for st
    by (simp add: reservation_check_def reservation_list_def bind_action_def no_reservations_def tbl_List_def storage_List_def const_table_def)
  have sel: "selectMachine (\<lambda>_. 0) (\<lambda>_ ks. ks) [idle_machine] [] [] = Inr idle_machine"
    by (simp add: selectMachine_def randomIndex_def spreadAcrossRacks_def electRacks_def complete_racks_def elect_step_def
      groupByRack_def groupByTags_def filter_groups_def getMachines_def intersect_def map_append_def map_get_def map_keys_def
      MaxInt_def has_key_def)
  have upd: "tbl_Update db_machines 2 (idle_machine\<lparr>m_PreAllocated := True\<rparr>) ([idle_machine], xs) =
      (Inr (idle_machine\<lparr>m_PreAllocated := True, b_Changed := 2, b_Generation := b_Generation idle_machine + 1\<rparr>),
      [idle_machine\<lparr>m_PreAllocated := True, b_Changed := 2, b_Generation := b_Generation idle_machine + 1\<rparr>], xs)"
    by (subst update_db_machine) (simp_all add: idle_machine_sel)
  show ?thesis
    using cand proj
    by (simp add: choose_machine_def bind_action_def creation_env_sel example_list_machines check_that_def on_error_def
        ecs alive res sel upd Let_def)
qed

lemma example_found:
  "findWaitingMachine (creation_env fl) ''part'' ''p1'' ''s1'' None RoleMachine ([idle_machine], []) =
     (Inr (idle_machine\<lparr>m_PreAllocated := True, b_Changed := 2, b_Generation := b_Generation idle_machine + 1\<rparr>),
      [idle_machine\<lparr>m_PreAllocated := True, b_Changed := 2, b_Generation := b_Generation idle_machine + 1\<rparr>], [])"
proof -
  have lock: "mutex_lock db_mutexes 2 ''part'' (10 * Second) (Inr []) ([idle_machine], []) =
      (Inr (), [idle_machine], [newMutexDoc 2 ''part'' (10 * Second)])"
    by (simp add: mutex_lock_def db_mutexes_def rethink.defs part_table_def list_rethink_def list_rows_def)
  have unlock: "mutex_unlock db_mutexes ''part'' (ms, [newMutexDoc 2 ''part'' (10 * Second)]) = (ms, [])" for ms
    by (simp add: mutex_unlock_def db_mutexes_def rethink.defs part_table_def list_rethink_def list_without_def newMutexDoc_def)
  show ?thesis
    by (simp add: findWaitingMachine_def bind_action_def on_error_def creation_env_sel lock example_chosen unlock)
qed

theorem waiting_machine_found_witness:
  "\<exists>m st'. findWaitingMachine (creation_env bare_layout) ''part'' ''p1'' ''s1'' None RoleMachine ([idle_machine], []) = (Inr m, st') \<and>
     m_PreAllocated m \<and> list_rows b_ID (fst st') (b_ID m) = Some m"
proof -
  let ?m = "idle_machine\<lparr>m_PreAllocated := True, b_Changed := 2, b_Generation := b_Generation idle_machine + 1\<rparr>"
  from waiting_machine_found [OF creation_database_example example_found] obtain m0 :: Machine and rows0 rows2 where
    m0: "?m = m0\<lparr>m_PreAllocated := True, b_Changed := me_now (creation_env bare_layout), b_Generation := b_Generation m0 + 1\<rparr>"
    and row: "rows2 = rows0(b_ID m0 \<mapsto> ?m)" "list_rows b_ID [?m] = rows2"
    unfolding Let_def fst_conv by blast
  from arg_cong [OF m0, of b_ID] have "b_ID m0 = b_ID idle_machine" by simp
  with row have "list_rows b_ID [?m] (b_ID idle_machine) = Some ?m" by simp
  with example_found [of bare_layout] show ?thesis by auto
qed

section \<open>An allocation that fails\<close>
















end
