(* ===== verification/MachineProps.thy ===== *)
theory MachineProps
  imports MachineRegistration MachineCreationProps
begin

text \<open>
  Theorems about the machine repository: what the task of a deleted machine releases and what it leaves
  alone, when decommissioning is refused, what registration and the reports of the boards may change, the
  conversion of firewall rules there and back, and the retries of the code, which never happen.
\<close>

section \<open>The task of a deleted machine\<close>

lemma allocation_filter:
  "MachineFilter en (allocation_query u) m \<longleftrightarrow> allocated_with (\<lambda>a. ma_UUID a = u) m"
  by (auto simp: MachineFilter_def allocation_query_def empty_machine_query_def empty_allocation_query_def
      machine_fields_def matches_field_def given_def after_allocation_def state_and_after_def allocated_with_def
      allocation_before_type_def allocation_after_type_def split: option.splits)

lemma find_allocated_ok:
  assumes "rethink_table (me_machines env) rows" and "find_allocated env u db = Inr m"
  shows "{m \<in> ran (rows db). allocated_with (\<lambda>a. ma_UUID a = u) m} = {m}"
proof -
  from assms(2) have "rt_Run (me_machines env) [MachineFilter (me_enums env) (allocation_query u)] db = Inr [m]"
    by (auto simp: find_allocated_def storage_Find_def split: sum.splits list.splits)
  from rethink_table.run [OF assms(1) this] show ?thesis by (auto simp: allocation_filter)
qed

lemma find_allocated_none:
  assumes "rethink_table (me_machines env) rows" and "find_allocated env u db = Inl err" and "IsNotFound err"
  shows "{m \<in> ran (rows db). allocated_with (\<lambda>a. ma_UUID a = u) m} = {}"
proof -
  from assms(2,3) have "rt_Run (me_machines env) [MachineFilter (me_enums env) (allocation_query u)] db = Inr []"
    by (auto simp: find_allocated_def storage_Find_def split: sum.splits list.splits)
  from rethink_table.run [OF assms(1) this] show ?thesis by (auto simp: allocation_filter)
qed

definition released :: "('d, 'a, 'n, 'p, 'i, 'q, 'h, 'v) machine_env \<Rightarrow> string \<Rightarrow> Machine \<Rightarrow> Machine" where
  "released env u m =
     (if allocated_with (\<lambda>a. ma_UUID a = u) m
      then m\<lparr>m_Allocation := None, m_PreAllocated := False, b_Changed := me_now env, b_Generation := b_Generation m + 1\<rparr>
      else m)"

text \<open>
  C10: When the task of a deleted machine has released the allocation it was made for, the machine with
  that allocation is neither allocated nor preallocated, and every other machine is as it was: a task that
  is repeated after the machine has been allocated again does not touch the new allocation.
\<close>

theorem released_allocation:
  assumes "rethink_table (me_machines (mp_env r)) rows" and "rt_key (me_machines (mp_env r)) = b_ID"
    and "releaseAllocationTask r payload w = (Inr (), w')"
  shows "rows (mw_db w') = map_option (released (mp_env r) (dp_AllocationUUID payload)) \<circ> rows (mw_db w)"
proof (cases "find_allocated (mp_env r) (dp_AllocationUUID payload) (mw_db w)")
  case (Inl err)
  with assms(3) have "w' = w" and nf: "IsNotFound err" by (auto simp: releaseAllocationTask_def split: if_splits)
  moreover from find_allocated_none [OF assms(1) Inl nf]
  have "\<not> allocated_with (\<lambda>a. ma_UUID a = dp_AllocationUUID payload) m" if "rows (mw_db w) i = Some m" for i m
    using that by (auto simp: ran_def)
  ultimately have "rows (mw_db w') i = map_option (released (mp_env r) (dp_AllocationUUID payload)) (rows (mw_db w) i)" for i
    by (cases "rows (mw_db w) i") (auto simp: released_def)
  then show ?thesis by (simp add: fun_eq_iff)
next
  case (Inr m)
  note only = find_allocated_ok [OF assms(1) Inr]
  then have "m \<in> ran (rows (mw_db w))" by blast
  then have row: "rows (mw_db w) (b_ID m) = Some m"
    using rethink_table.keyed [OF assms(1)] assms(2) by (auto simp: ran_def)
  from assms(3) Inr obtain m' where "update_machine (mp_env r) (m\<lparr>m_Allocation := None, m_PreAllocated := False\<rparr>) w = (Inr m', w')"
    by (auto simp: releaseAllocationTask_def bind_action_ok on_error_ok)
  from update_machine_ok [OF assms(1) this]
  have "rows (mw_db w') = (rows (mw_db w))(b_ID m \<mapsto> released (mp_env r) (dp_AllocationUUID payload) m)"
    using only by (auto simp: released_def)
  moreover have "released (mp_env r) (dp_AllocationUUID payload) x = x" if "rows (mw_db w) i = Some x" "i \<noteq> b_ID m" for i x
  proof -
    have "x \<in> ran (rows (mw_db w))" "x \<noteq> m"
      using that row rethink_table.keyed [OF assms(1) that(1)] assms(2) by (auto simp: ran_def)
    with only show ?thesis by (auto simp: released_def)
  qed
  ultimately have "rows (mw_db w') i = map_option (released (mp_env r) (dp_AllocationUUID payload)) (rows (mw_db w) i)" for i
    using row by (cases "rows (mw_db w) i") auto
  then show ?thesis by (simp add: fun_eq_iff)
qed

section \<open>Decommissioning\<close>

text \<open>
  Decommissioning a machine without the scope of its project, one that is not allocated or one that
  is locked fails before anything has changed.
\<close>

theorem decommission_refused:
  assumes "rethink_table (me_machines (mp_env r)) rows"
    and "\<forall>m a. rows (mw_db w) uuid = Some m \<longrightarrow> m_Allocation m = Some a \<longrightarrow>
      mp_scope r = Some (ma_Project a) \<longrightarrow> ms_Value (m_State m) = LockedState"
  shows "snd (Decommission r project uuid w) = w \<and> \<not> is_ok (fst (Decommission r project uuid w))"
proof (cases "mp_scope r = None")
  case True
  then show ?thesis by (simp add: Decommission_def Let_def)
next
  case False
  have reads: "reads_only (get_machine (mp_env r) uuid)" by (simp add: get_machine_def)
  show ?thesis
  proof (cases "get_machine (mp_env r) uuid w")
    case (Pair res w1)
    with reads have w1: "w1 = w" by (auto dest: reads_onlyD [where st = w])
    show ?thesis
    proof (cases res)
      case (Inl err)
      with Pair False w1 show ?thesis by (simp add: Decommission_def Let_def bind_action_def)
    next
      case (Inr m)
      with Pair get_machine_ok [OF assms(1)] have row: "rows (mw_db w) uuid = Some m" by blast
      show ?thesis
      proof (cases "machine_matchScope r m \<and> m_Allocation m \<noteq> None")
        case True
        with False assms(2) row have "ms_Value (m_State m) = LockedState"
          by (auto simp: machine_matchScope_def split: option.splits)
        with True False Pair w1 Inr show ?thesis
          by (auto simp: Decommission_def Let_def bind_action_def on_error_def validateDecommission_def check_that_def)
      next
        case nofit: False
        with False Pair w1 Inr show ?thesis
          by (auto simp: Decommission_def Let_def bind_action_def on_error_def validateDecommission_def check_that_def)
      qed
    qed
  qed
qed

section \<open>Retries\<close>

lemma update_never_conflicts: "fst (tbl_Update rt now e st) = Inl err \<Longrightarrow> \<not> IsConflict err"
  by (auto simp: tbl_Update_def storage_Update_def Let_def split: prod.splits sum.splits if_splits write_error.splits)

lemma list_never_conflicts: "fst (tbl_List rt qs st) = Inl err \<Longrightarrow> \<not> IsConflict err"
  by (auto simp: tbl_List_def storage_List_def split: sum.splits)

lemma vrf_loop_never_conflicts: "fst (set_vrf_loop env m vrf sws st) = Inl err \<Longrightarrow> \<not> IsConflict err"
proof (induction sws arbitrary: st)
  case (Cons sw sws)
  then show ?case
    using update_never_conflicts [of "se_switches env" "switch_env.se_now env" "SetVrfOfMachine m vrf sw" st]
    by (auto simp: bind_action_def split: prod.splits sum.splits)
qed simp

text \<open>
  The updates of switches and of the machine that registration and the end of an installation repeat
  when they fail with a conflict never do: the storage answers a write that lost against another one with
  an error of the kind aborted. So a lost update of a switch ends the operation at the first attempt.
\<close>

theorem lost_updates_not_retried:
  "(case fst (set_vrf r m vrf w) of Inl err \<Rightarrow> \<not> IsConflict err | Inr _ \<Rightarrow> True) \<and>
   (case fst (update_machine env m' w') of Inl err \<Rightarrow> \<not> IsConflict err | Inr _ \<Rightarrow> True)"
proof
  show "case fst (set_vrf r m vrf w) of Inl err \<Rightarrow> \<not> IsConflict err | Inr _ \<Rightarrow> True"
    using vrf_loop_never_conflicts [of "mp_switches r" m vrf] list_never_conflicts [of "se_switches (mp_switches r)"]
    by (auto simp: set_vrf_def on_db_def SetVrfAtSwitches_def SearchSwitchesConnectedToMachine_def bind_action_def Let_def
        split: prod.splits sum.splits) (metis fst_conv)+
  show "case fst (update_machine env m' w') of Inl err \<Rightarrow> \<not> IsConflict err | Inr _ \<Rightarrow> True"
    using update_never_conflicts [of "me_machines env" "me_now env" m' "mw_db w'"]
    by (auto simp: update_machine_def on_db_def Let_def split: prod.splits sum.splits)
qed

section \<open>Firewall rules\<close>

text \<open>What the enum package documents: reading the string of a value gives the value back.\<close>

definition protocol_strings :: "(ApiIPProtocol \<Rightarrow> string result) \<Rightarrow> machine_names \<Rightarrow> bool" where
  "protocol_strings GetStringValue mna \<longleftrightarrow>
     (\<forall>p s. GetStringValue p = Inr s \<longrightarrow> mna_Protocol mna (ToLower s) = Inr p)"

lemma protocol_back:
  assumes "protocol_strings GetStringValue mna" and "convert_protocol GetStringValue p = Inr q"
  shows "mna_Protocol mna (ToLower q) = Inr p"
proof -
  from assms(2) obtain s where s: "GetStringValue p = Inr s" and q: "ProtocolFromString s = Inr q"
    by (auto simp: convert_protocol_def bind_result_ok)
  have "ToLower ProtocolTCP = ''tcp''" "ToLower ProtocolUDP = ''udp''" by code_simp+
  with q have "ToLower q = ToLower s" by (auto simp: ProtocolFromString_def split: if_splits)
  with assms(1) s show ?thesis by (simp add: protocol_strings_def)
qed

lemma converted_back:
  assumes "\<And>x y. f x = Inr y \<Longrightarrow> g y = Inr x"
  shows "convert_rules f xs = Inr ys \<Longrightarrow> convert_rules g ys = Inr xs"
  by (induction xs arbitrary: ys) (auto simp: bind_result_ok assms)

lemma ports_back: "map (word_of_int \<circ> uint) (ps :: 32 word list) = ps"
  by (simp add: comp_def)

text \<open>
  C40: The rules of a firewall that a request specifies and that pass the validation are shown by the API
  as they were requested: converting them to the stored form and back gives the same rules.
\<close>

theorem firewall_rules_roundtrip:
  assumes "protocol_strings GetStringValue mna" and "convertFirewallRulesToInternal GetStringValue rules = Inr fw"
  shows "proto_rules mna (Some fw) = Inr (Some rules)"
proof -
  from assms(2) have eg: "convert_rules (convert_egress GetStringValue) (afr_Egress rules) = Inr (fw_Egress fw)"
    and ig: "convert_rules (convert_ingress GetStringValue) (afr_Ingress rules) = Inr (fw_Ingress fw)"
    by (auto simp: convertFirewallRulesToInternal_def bind_result_ok)
  have "proto_egress mna y = Inr x" if "convert_egress GetStringValue x = Inr y" for x y
    using that protocol_back [OF assms(1), of "aer_Protocol x"]
    by (auto simp: convert_egress_def proto_egress_def bind_result_ok Let_def ports_back)
  moreover have "proto_ingress mna y = Inr x" if "convert_ingress GetStringValue x = Inr y" for x y
    using that protocol_back [OF assms(1), of "air_Protocol x"]
    by (auto simp: convert_ingress_def proto_ingress_def bind_result_ok Let_def ports_back)
  ultimately show ?thesis
    using converted_back [OF _ eg, of "proto_egress mna"] converted_back [OF _ ig, of "proto_ingress mna"]
    by (simp add: proto_rules_def)
qed

section \<open>Reports of boards\<close>

text \<open>A machine that differs from another one in the data of its board at most.\<close>

definition same_but_board :: "Machine \<Rightarrow> Machine \<Rightarrow> bool" where
  "same_but_board m x \<longleftrightarrow>
     x = m\<lparr>m_IPMI := m_IPMI x, m_BIOS := m_BIOS x, m_LEDState := m_LEDState x, b_Changed := b_Changed x,
       b_Generation := b_Generation x\<rparr>"

lemma same_but_board_refl [simp]: "same_but_board m m"
  by (simp add: same_but_board_def)

lemma same_but_board_iff:
  "same_but_board m x \<longleftrightarrow>
     (\<exists>i b l c g. x = m\<lparr>m_IPMI := i, m_BIOS := b, m_LEDState := l, b_Changed := c, b_Generation := g\<rparr>)"
  unfolding same_but_board_def
proof
  assume "\<exists>i b l c g. x = m\<lparr>m_IPMI := i, m_BIOS := b, m_LEDState := l, b_Changed := c, b_Generation := g\<rparr>"
  then obtain i b l c g where x: "x = m\<lparr>m_IPMI := i, m_BIOS := b, m_LEDState := l, b_Changed := c, b_Generation := g\<rparr>"
    by blast
  show "x = m\<lparr>m_IPMI := m_IPMI x, m_BIOS := m_BIOS x, m_LEDState := m_LEDState x, b_Changed := b_Changed x,
       b_Generation := b_Generation x\<rparr>"
    unfolding x by simp
qed blast

lemma same_but_board_fields:
  "same_but_board m x \<Longrightarrow> b_ID x = b_ID m \<and> m_PartitionID x = m_PartitionID m"
  by (auto simp: same_but_board_iff)

lemma same_but_board_report:
  assumes "same_but_board m x"
  shows "same_but_board m (apply_report now rep x)" "same_but_board m (x\<lparr>b_Changed := c, b_Generation := g\<rparr>)"
proof -
  from assms obtain i b l c' g' where "x = m\<lparr>m_IPMI := i, m_BIOS := b, m_LEDState := l, b_Changed := c', b_Generation := g'\<rparr>"
    by (auto simp: same_but_board_iff)
  then show "same_but_board m (apply_report now rep x)" "same_but_board m (x\<lparr>b_Changed := c, b_Generation := g\<rparr>)"
    by (simp_all add: same_but_board_def apply_report_def Let_def)
qed

text \<open>Where the rows differ from those before, they are machines of the partition.\<close>

definition board_changes :: "string \<Rightarrow> (string \<rightharpoonup> Machine) \<Rightarrow> (string \<rightharpoonup> Machine) \<Rightarrow> bool" where
  "board_changes part before rows \<longleftrightarrow>
     (\<forall>i m. before i = Some m \<longrightarrow> (\<exists>x. rows i = Some x \<and> same_but_board m x \<and> (m_PartitionID m \<noteq> part \<longrightarrow> x = m)))"

definition known_machines :: "string \<Rightarrow> (string \<rightharpoonup> Machine) \<Rightarrow> (string, Machine) gomap \<Rightarrow> bool" where
  "known_machines part before machinesByID \<longleftrightarrow>
     (\<forall>i x. map_of machinesByID i = Some x \<longrightarrow>
        (\<exists>m. before i = Some m \<and> b_ID m = i \<and> same_but_board m x \<and> m_PartitionID m = part))"

lemma tbl_Create_rows:
  assumes "rethink_table rt rows" and "tbl_Create rt now newID e st = (res, st')"
  shows "rows st' = rows st \<or> (\<exists>k e'. rows st k = None \<and> rows st' = (rows st)(k \<mapsto> e'))"
proof (cases res)
  case (Inl err)
  with assms(2) have "st' = st" by (auto simp: tbl_Create_def split: sum.splits)
  then show ?thesis by simp
next
  case (Inr e')
  from tbl_Create_ok [OF assms(1) assms(2) [unfolded Inr]] show ?thesis by blast
qed

lemma board_changes_insert:
  "board_changes part before rs \<Longrightarrow> rs k = None \<Longrightarrow> board_changes part before (rs(k \<mapsto> e))"
  unfolding board_changes_def by (metis fun_upd_apply option.distinct(1))

lemma created_boards:
  assumes "rethink_table (me_machines env) rows"
  shows "create_reported env part known reports st = (res, st') \<Longrightarrow> board_changes p before (rows st) \<Longrightarrow>
    board_changes p before (rows st')"
proof (induction reports arbitrary: st res)
  case (Cons rep reports)
  show ?case
  proof (cases "has_key known (br_Uuid rep)")
    case True
    with Cons.prems Cons.IH show ?thesis by simp
  next
    case new: False
    show ?thesis
    proof (cases "br_Bmc rep = None \<or> br_LedState rep = None")
      case True
      with new Cons.prems show ?thesis by (auto split: option.splits)
    next
      case False
      then obtain bmc led where parts: "br_Bmc rep = Some bmc" "br_LedState rep = Some led" by auto
      obtain r st1 where create: "tbl_Create (me_machines env) (me_now env) (Inr (br_Uuid rep))
        (reported_machine (me_now env) part (br_Uuid rep) bmc led) st = (r, st1)" by fastforce
      from tbl_Create_rows [OF assms create] Cons.prems(2) have st1: "board_changes p before (rows st1)"
        using board_changes_insert by metis
      obtain res1 where "create_reported env part known reports st1 = (res1, st')"
        using Cons.prems(1) new parts create by (auto simp: bind_action_def split: sum.splits prod.splits)
      from Cons.IH [OF this st1] show ?thesis .
    qed
  qed
qed simp

lemma storage_Update_entity:
  assumes "storage_Update rt now e st = (e', res)"
  shows "e' = e \<or> e' = e\<lparr>b_Changed := now, b_Generation := b_Generation e + 1\<rparr>"
  using assms by (auto simp: storage_Update_def setChanged_def setGeneration_def Let_def split: if_splits)

lemma known_update:
  "known_machines part before known \<Longrightarrow> before i = Some m \<Longrightarrow> b_ID m = i \<Longrightarrow> same_but_board m x \<Longrightarrow>
     m_PartitionID m = part \<Longrightarrow> known_machines part before (AList.update i x known)"
  by (auto simp: known_machines_def update_conv')

lemma updated_boards:
  assumes "rethink_table (me_machines env) rows"
  shows "update_reported env part created known reports st = (res, st') \<Longrightarrow> known_machines part before known \<Longrightarrow>
    board_changes part before (rows st) \<Longrightarrow> board_changes part before (rows st')"
proof (induction reports arbitrary: st res known)
  case (Cons rep reports)
  show ?case
  proof (cases "map_of known (br_Uuid rep)")
    case None
    with Cons show ?thesis by simp
  next
    case (Some x)
    show ?thesis
    proof (cases "br_Uuid rep \<in> set created")
      case True
      with Some Cons show ?thesis by simp
    next
      case False
      from Some Cons.prems(2) obtain m where m: "before (br_Uuid rep) = Some m" "b_ID m = br_Uuid rep"
        "same_but_board m x" "m_PartitionID m = part" by (auto simp: known_machines_def)
      with same_but_board_fields have x: "b_ID x = br_Uuid rep" "m_PartitionID x = part" by metis+
      then have same: "(if part = '''' then x\<lparr>m_PartitionID := part\<rparr> else x) = x" by auto
      obtain y r where upd: "storage_Update (me_machines env) (me_now env) (apply_report (me_now env) rep x) st = (y, r)"
        by fastforce
      from storage_Update_entity [OF upd] same_but_board_report [OF m(3)] same_but_board_report [OF same_but_board_report(1) [OF m(3)]]
      have y: "same_but_board m y" by auto
      have known: "known_machines part before (AList.update (br_Uuid rep) y known)"
        by (rule known_update [OF Cons.prems(2) m(1,2) y m(4)])
      note step = Cons.prems(1) [unfolded update_reported.simps Some option.case if_not_P [OF False] same Let_def x(2)
          upd prod.case]
      show ?thesis
      proof (cases r)
        case (Inl err)
        with step known Cons.prems(3) Cons.IH show ?thesis by (auto split: if_splits)
      next
        case (Inr st1)
        from storage_Update_okD [OF assms upd [unfolded Inr]] have rows: "rows st1 = (rows st)(br_Uuid rep \<mapsto> y)"
          using x by (simp add: apply_report_def Let_def)
        with Cons.prems(3) m y have st1: "board_changes part before (rows st1)" by (auto simp: board_changes_def)
        obtain res1 where "update_reported env part created (AList.update (br_Uuid rep) y known) reports st1 = (res1, st')"
          using step Inr by (auto simp: bind_action_def split: sum.splits prod.splits)
        from Cons.IH [OF this known st1] show ?thesis .
      qed
    qed
  qed
qed simp

lemma partition_filter: "MachineFilter en (partition_query p) m \<Longrightarrow> m_PartitionID m = p"
  by (simp add: MachineFilter_def partition_query_def empty_machine_query_def machine_fields_def matches_field_def
      given_def)

lemma machines_by_id:
  "map_of (fold (\<lambda>m. AList.update (b_ID m) m) ms acc) i = Some x \<Longrightarrow> x \<in> set ms \<and> b_ID x = i \<or> map_of acc i = Some x"
  by (induction ms arbitrary: acc) (fastforce simp: update_conv' split: if_splits)+

text \<open>
  C12: Reports of the boards of a partition change nothing of a machine but the data of its board, its BIOS
  and its LED: not its allocation, hardware, size, state or place. A machine that is not in the partition
  is not changed at all; that includes a machine that has no partition yet, although the code means to
  give it the partition of the report.
\<close>

theorem reports_change_board_data:
  assumes machines: "rethink_table (me_machines env) rows" "rt_key (me_machines env) = b_ID"
    and partitions: "rethink_table (me_partitions env) parts" "rt_key (me_partitions env) = b_ID"
    and update: "UpdateBMCInfo env part reports db = (res, db')" and row: "rows db i = Some m"
  shows "\<exists>m'. rows db' i = Some m' \<and> same_but_board m m' \<and> (m_PartitionID m \<noteq> part \<longrightarrow> m' = m)"
proof -
  have start: "board_changes part (rows db) (rows db)" by (simp add: board_changes_def)
  have "board_changes part (rows db) (rows db')"
  proof (cases "db' = db")
    case False
    from update False obtain p ms created db1 where p: "tbl_Get (me_partitions env) part db = (Inr p, db)"
      and ms: "tbl_List (me_machines env) [MachineFilter (me_enums env) (partition_query (b_ID p))] db = (Inr ms, db)"
      and create: "create_reported env (b_ID p) (fold (\<lambda>m. AList.update (b_ID m) m) ms []) reports db = (created, db1)"
      and rest: "case created of Inl _ \<Rightarrow> db' = db1
        | Inr created \<Rightarrow> \<exists>r. update_reported env (b_ID p) created (fold (\<lambda>m. AList.update (b_ID m) m) ms []) reports db1 = (r, db')"
      by (auto simp: UpdateBMCInfo_def bind_action_def Let_def tbl_Get_def tbl_List_def split: if_splits sum.splits prod.splits)
    from tbl_Get_ok [OF partitions(1) p] rethink_table.keyed [OF partitions(1)] partitions(2) have part: "b_ID p = part"
      by fastforce
    have known: "known_machines part (rows db) (fold (\<lambda>m. AList.update (b_ID m) m) ms [])"
      unfolding known_machines_def
    proof (intro allI impI)
      fix i x assume "map_of (fold (\<lambda>m. AList.update (b_ID m) m) ms []) i = Some x"
      with machines_by_id have x: "x \<in> set ms" "b_ID x = i" by fastforce+
      from tbl_List_rows [OF machines ms x(1)] x(2) part partition_filter
      show "\<exists>m. rows db i = Some m \<and> b_ID m = i \<and> same_but_board m x \<and> m_PartitionID m = part" by fastforce
    qed
    from created_boards [OF machines(1) create start] have db1: "board_changes part (rows db) (rows db1)" .
    show ?thesis
    proof (cases created)
      case (Inr c)
      with rest part obtain r where "update_reported env part c (fold (\<lambda>m. AList.update (b_ID m) m) ms []) reports db1 = (r, db')"
        by auto
      from updated_boards [OF machines(1) this known db1] show ?thesis .
    qed (use rest db1 in simp)
  qed (use start in simp)
  with row show ?thesis by (simp add: board_changes_def)
qed

section \<open>Registration\<close>

lemma reads_store_Get:
  "reads_only (rp_get rp i) \<Longrightarrow> (\<And>e. reads_only (rp_convertToProto rp e)) \<Longrightarrow> reads_only (store_Get eu rp i)"
  by (auto simp: store_Get_def get_in_scope_def intro!: bind_reads)

lemma reads_ignore_missing: "reads_only a \<Longrightarrow> reads_only (ignore_missing a)"
  by (auto simp: reads_only_def ignore_missing_def split: prod.splits sum.splits) (metis snd_conv)+

lemma fsl_get_reads: "reads_only (fsl_get env i)"
  by (simp add: reads_only_def fsl_get_def)

lemma proto_allocation_reads: "reads_only (proto_allocation mr alloc)"
  by (auto simp: proto_allocation_def machine_layout_def Let_def fsl_operations_def image_operations_def
      intro!: bind_reads reads_store_Get fsl_get_reads split: option.split)

lemma conversion_reads: "reads_only (machine_convertToProto mr m)"
  by (auto simp: machine_convertToProto_def machine_size_def Let_def partition_operations_def partition_get_def
      size_operations_def intro!: bind_reads reads_store_Get reads_ignore_missing proto_allocation_reads split: option.split)

lemma leaves_get_or_none: "leaves rows (get_or_none rt i)"
  by (auto simp: leaves_def get_or_none_def split: sum.split)

lemma leaves_switch_get: "leaves rows (switch_get env i)"
  by (rule leaves_reads) (simp add: switch_get_def)

lemma remove_connections_leaves: "keeps_rows (se_switches env) rows \<Longrightarrow> leaves rows (remove_connections env uuid is)"
  by (induction "is") (auto intro!: leaves_bind leaves_on_error leaves_update leaves_switch_get)

lemma connecting_leaves:
  assumes "keeps_rows (se_switches env) rows"
  shows "leaves rows (ConnectMachineWithSwitches env c)"
  unfolding ConnectMachineWithSwitches_def Let_def
  by (auto intro!: leaves_bind leaves_on_error leaves_update leaves_switch_get leaves_get_or_none remove_connections_leaves assms
      leaves_reads [OF tbl_reads(3)] split: option.split prod.split)

text \<open>Inserting into another table leaves the rows alone.\<close>

lemma leaves_create: "inserts_apart rt rows \<Longrightarrow> leaves rows (tbl_Create rt now newID e)"
  by (auto simp: inserts_apart_def leaves_def tbl_Create_def storage_Create_def Let_def split: sum.splits write_error.splits)

lemma container_leaves: "inserts_apart (me_events env) rows \<Longrightarrow> leaves rows (ensure_container env i)"
  unfolding ensure_container_def
  by (auto simp: find_container_def intro!: leaves_bind leaves_create leaves_reads [OF reads_ignore_missing] split: option.split)

lemma size_reads: "reads_only (hardware_size env hw)"
proof -
  have "reads_only (FromHardware env hw)" by (auto simp: FromHardware_def intro!: bind_reads)
  then show ?thesis
    by (auto simp: reads_only_def hardware_size_def split: prod.split sum.split) (metis snd_conv)+
qed

text \<open>\<open>retry.Do\<close>: the action is repeated, each time with the state that the last attempt has left.\<close>

definition repeats :: "('c \<Rightarrow> ('s \<Rightarrow> 'r \<times> 's) \<Rightarrow> 's \<Rightarrow> 'r \<times> 's) \<Rightarrow> bool" where
  "repeats retry \<longleftrightarrow> (\<forall>c a s. \<exists>n. retry c a s = a (((\<lambda>s. snd (a s)) ^^ n) s))"

lemma repeated:
  assumes "repeats retry" and "P s" and "\<And>s. P s \<Longrightarrow> P (snd (a s))"
  shows "P (snd (retry c a s))"
proof -
  from assms(1) [unfolded repeats_def, rule_format, of c a s] obtain n
    where "retry c a s = a (((\<lambda>s. snd (a s)) ^^ n) s)" by blast
  moreover have "P (((\<lambda>s. snd (a s)) ^^ n) s)" using assms(2,3) by (induction n) auto
  ultimately show ?thesis using assms(3) by simp
qed

text \<open>What registration may change of a machine.\<close>

definition same_but_registered :: "Machine \<Rightarrow> Machine \<Rightarrow> bool" where
  "same_but_registered m x \<longleftrightarrow>
     x = m\<lparr>m_PartitionID := m_PartitionID x, m_SizeID := m_SizeID x, m_RackID := m_RackID x, m_RoomID := m_RoomID x,
       m_Hardware := m_Hardware x, m_BIOS := m_BIOS x, m_IPMI := m_IPMI x,
       m_State := (m_State m)\<lparr>ms_MetalHammerVersion := ms_MetalHammerVersion (m_State x)\<rparr>,
       b_Changed := b_Changed x, b_Generation := b_Generation x\<rparr>"

lemma same_but_registered_iff:
  "same_but_registered m x \<longleftrightarrow>
     (\<exists>p s ra ro h b i v c g. x = m\<lparr>m_PartitionID := p, m_SizeID := s, m_RackID := ra, m_RoomID := ro,
       m_Hardware := h, m_BIOS := b, m_IPMI := i, m_State := (m_State m)\<lparr>ms_MetalHammerVersion := v\<rparr>,
       b_Changed := c, b_Generation := g\<rparr>)"
  unfolding same_but_registered_def
proof (rule iffI)
  assume "\<exists>p s ra ro h b i v c g. x = m\<lparr>m_PartitionID := p, m_SizeID := s, m_RackID := ra, m_RoomID := ro,
       m_Hardware := h, m_BIOS := b, m_IPMI := i, m_State := (m_State m)\<lparr>ms_MetalHammerVersion := v\<rparr>,
       b_Changed := c, b_Generation := g\<rparr>"
  then show "x = m\<lparr>m_PartitionID := m_PartitionID x, m_SizeID := m_SizeID x, m_RackID := m_RackID x, m_RoomID := m_RoomID x,
       m_Hardware := m_Hardware x, m_BIOS := m_BIOS x, m_IPMI := m_IPMI x,
       m_State := (m_State m)\<lparr>ms_MetalHammerVersion := ms_MetalHammerVersion (m_State x)\<rparr>,
       b_Changed := b_Changed x, b_Generation := b_Generation x\<rparr>"
    by (elim exE) simp
qed blast

lemma same_but_registered_simps [simp]:
  "same_but_registered m m"
  "same_but_registered m (register_fields req hw bios ipmi sz m)"
  by (simp_all add: same_but_registered_def register_fields_def)

lemma same_but_registered_step:
  assumes "same_but_registered m x"
  shows "same_but_registered m (x\<lparr>b_Changed := c, b_Generation := g\<rparr>)"
    "same_but_registered m (x\<lparr>m_RackID := rack, m_RoomID := room\<rparr>)" "b_ID x = b_ID m"
proof -
  from assms obtain p s ra ro h b i v c' g' where x: "x = m\<lparr>m_PartitionID := p, m_SizeID := s, m_RackID := ra,
       m_RoomID := ro, m_Hardware := h, m_BIOS := b, m_IPMI := i,
       m_State := (m_State m)\<lparr>ms_MetalHammerVersion := v\<rparr>, b_Changed := c', b_Generation := g'\<rparr>"
    unfolding same_but_registered_iff by blast
  show "same_but_registered m (x\<lparr>b_Changed := c, b_Generation := g\<rparr>)"
    "same_but_registered m (x\<lparr>m_RackID := rack, m_RoomID := room\<rparr>)" "b_ID x = b_ID m"
    unfolding x by (simp_all add: same_but_registered_def)
qed

definition registration_keeps :: "string \<Rightarrow> (string \<rightharpoonup> Machine) \<Rightarrow> (string \<rightharpoonup> Machine) \<Rightarrow> bool" where
  "registration_keeps uuid before rs \<longleftrightarrow>
     (\<forall>i m. before i = Some m \<longrightarrow> (\<exists>x. rs i = Some x \<and> same_but_registered m x \<and> (i \<noteq> uuid \<longrightarrow> x = m)))"

definition registering :: "string \<Rightarrow> (string \<rightharpoonup> Machine) \<Rightarrow> Machine \<Rightarrow> bool" where
  "registering uuid before x \<longleftrightarrow> b_ID x = uuid \<and> (\<forall>m. before uuid = Some m \<longrightarrow> same_but_registered m x)"

lemma registration_keeps_update:
  "registration_keeps uuid before rs \<Longrightarrow> registering uuid before x \<Longrightarrow> registration_keeps uuid before (rs(uuid \<mapsto> x))"
  by (auto simp: registration_keeps_def registering_def)

lemma registering_step:
  assumes "registering uuid before x"
  shows "registering uuid before (x\<lparr>b_Changed := c, b_Generation := g\<rparr>)"
    "registering uuid before (x\<lparr>m_RackID := rack, m_RoomID := room\<rparr>)"
  using assms by (simp_all add: registering_def same_but_registered_step)

lemma connecting_keeps:
  assumes machines: "rethink_table (me_machines (mp_env r)) rows" and switches: "keeps_rows (se_switches (mp_switches r)) rows"
    and inv: "registration_keeps uuid before (rows (mw_db (fst s))) \<and> registering uuid before (snd s)"
    and step: "connect_registered r s = (res, s')"
  shows "registration_keeps uuid before (rows (mw_db (fst s'))) \<and> registering uuid before (snd s')"
proof -
  obtain w m where s: "s = (w, m)" by fastforce
  obtain c db1 where conv: "machine_convertToProto (mp_readers r) m (mw_db w) = (c, db1)" by fastforce
  with conversion_reads [of "mp_readers r" m] have db1: "db1 = mw_db w" by (auto dest: reads_onlyD [where st = "mw_db w"])
  show ?thesis
  proof (cases c)
    case (Inl err)
    with step inv conv db1 s show ?thesis
      by (auto simp: connect_registered_def bind_action_def on_registered_def on_db_def Let_def)
  next
    case (Inr machine)
    obtain con db2 where con: "ConnectMachineWithSwitches (mp_switches r) (connect_message machine) (mw_db w) = (con, db2)"
      by fastforce
    from leavesD [OF connecting_leaves [OF switches] con] have rows: "rows db2 = rows (mw_db w)" .
    show ?thesis
    proof (cases con)
      case (Inl err)
      with step inv conv con db1 s Inr rows show ?thesis
        by (auto simp: connect_registered_def bind_action_def on_registered_def on_db_def Let_def)
    next
      case con': (Inr rr)
      obtain rack room where rr: "rr = (rack, room)" by fastforce
      obtain m' upd where upd: "storage_Update (me_machines (mp_env r)) (me_now (mp_env r)) (m\<lparr>m_RackID := rack, m_RoomID := room\<rparr>) db2
        = (m', upd)" by fastforce
      from inv s have reg: "registering uuid before (m\<lparr>m_RackID := rack, m_RoomID := room\<rparr>)" by (simp add: registering_step)
      with storage_Update_entity [OF upd] registering_step(1) [OF this] have m': "registering uuid before m'" by auto
      show ?thesis
      proof (cases upd)
        case (Inl err)
        with step inv conv con con' db1 s Inr rows rr upd m' show ?thesis
          by (auto simp: connect_registered_def bind_action_def on_registered_def on_db_def Let_def)
      next
        case upd': (Inr db3)
        from storage_Update_okD [OF machines upd [unfolded upd']] reg have "rows db3 = (rows db2)(uuid \<mapsto> m')"
          by (auto simp: registering_def)
        with registration_keeps_update [OF _ m'] inv rows s have "registration_keeps uuid before (rows db3)" by simp
        with step inv conv con con' db1 s Inr rows rr upd upd' m' show ?thesis
          by (auto simp: connect_registered_def bind_action_def on_registered_def on_db_def Let_def)
      qed
    qed
  qed
qed

lemma found_or_created_keeps:
  assumes machines: "rethink_table (me_machines env) rows" "rt_key (me_machines env) = b_ID"
    and "found_or_created env uuid w = (res, w')" and uuid: "uuid \<noteq> ''''"
  shows "registration_keeps uuid (rows (mw_db w)) (rows (mw_db w')) \<and>
    (\<forall>m. res = Inr m \<longrightarrow> registering uuid (rows (mw_db w)) m \<and> (\<forall>m0. rows (mw_db w) uuid = Some m0 \<longrightarrow> m = m0))"
proof -
  have start: "registration_keeps uuid (rows (mw_db w)) (rows (mw_db w))" by (simp add: registration_keeps_def)
  have reads: "reads_only (get_machine env uuid)" by (simp add: get_machine_def)
  obtain g w1 where get: "get_machine env uuid w = (g, w1)" by fastforce
  with reads have w1: "w1 = w" by (auto dest: reads_onlyD [where st = w])
  show ?thesis
  proof (cases g)
    case (Inr m)
    with get_machine_ok [OF machines(1)] get have row: "rows (mw_db w) uuid = Some m" by blast
    with rethink_table.keyed [OF machines(1)] machines(2) have "b_ID m = uuid" by metis
    with assms(3) get w1 Inr row start show ?thesis
      by (auto simp: found_or_created_def bind_action_def ignore_missing_def registering_def)
  next
    case (Inl err)
    obtain c db1 where create: "tbl_Create (me_machines env) (me_now env) (Inr uuid) (machine_with_id uuid) (mw_db w) = (c, db1)"
      by fastforce
    show ?thesis
    proof (cases "IsNotFound err \<and> is_ok c")
      case False
      with create have "IsNotFound err \<Longrightarrow> db1 = mw_db w" by (auto simp: tbl_Create_def split: sum.splits)
      with False assms(3) get w1 Inl create start show ?thesis
        by (auto simp: found_or_created_def bind_action_def ignore_missing_def on_db_def Let_def split: sum.splits if_splits)
    next
      case True
      then obtain m where c: "c = Inr m" by (auto simp: is_ok_iff)
      from tbl_Create_ok [OF machines(1) create [unfolded c]] machines(2) uuid
      have m: "b_ID m = uuid" "rows (mw_db w) uuid = None" "rows db1 = (rows (mw_db w))(uuid \<mapsto> m)"
        by (auto simp: machine_with_id_def)
      with True assms(3) get w1 Inl create c show ?thesis
        by (auto simp: found_or_created_def bind_action_def ignore_missing_def on_db_def Let_def registering_def
            registration_keeps_def)
    qed
  qed
qed

lemma update_machine_failed: "update_machine env m w = (Inl err, w') \<Longrightarrow> mw_db w' = mw_db w"
  by (auto simp: update_machine_def on_db_def tbl_Update_def Let_def split: prod.splits sum.splits)

text \<open>
  C11: A registration, whether it succeeds or fails at whatever step, leaves every stored machine in the
  database: of the machine that registers, only the hardware, the board, the place, the size and the version
  of its installer may change, so that it keeps its allocation, its locks and its reservation for an
  allocation that runs; no other machine changes.
\<close>

theorem registration_keeps_machines:
  assumes machines: "rethink_table (me_machines (mp_env r)) rows" "rt_key (me_machines (mp_env r)) = b_ID"
    and events: "inserts_apart (me_events (mp_env r)) rows" and switches: "keeps_rows (se_switches (mp_switches r)) rows"
    and retry: "repeats retry"
    and reg: "machine_Register r retry req w = (res, w')" and row: "rows (mw_db w) i = Some m"
  shows "\<exists>x. rows (mw_db w') i = Some x \<and> same_but_registered m x \<and> (i \<noteq> rr_Uuid req \<longrightarrow> x = m)"
proof -
  let ?env = "mp_env r" and ?uuid = "rr_Uuid req" and ?before = "rows (mw_db w)"
  have start: "registration_keeps ?uuid ?before ?before" by (simp add: registration_keeps_def)
  have "registration_keeps ?uuid ?before (rows (mw_db w'))"
  proof (cases "?uuid = '''' \<or> rr_Hardware req = None \<or> rr_Bios req = None")
    case True
    with reg start show ?thesis by (auto simp: machine_Register_def Let_def split: option.splits if_splits)
  next
    case False
    then obtain hardware bios where parts: "rr_Hardware req = Some hardware" "rr_Bios req = Some bios" by auto
    let ?hw = "internal_hardware hardware" and ?ipmi = "registered_ipmi (me_now ?env) (rr_Bmc req) (rr_Fru req)"
    from reg False parts have step: "bind_action (found_or_created ?env ?uuid) (\<lambda>m.
        bind_action (on_db (hardware_size (mr_sizes (mp_readers r)) ?hw)) (\<lambda>sz.
        bind_action (update_machine ?env (register_fields req ?hw bios ?ipmi sz m)) (\<lambda>m.
        bind_action (on_db (ensure_container ?env (b_ID m))) (\<lambda>_ w.
        case retry IsConflict (connect_registered r) (w, m) of
          (Inl err, w, m) \<Rightarrow> (Inl err, w) | (Inr _, w, m) \<Rightarrow> (Inr m, w))))) w = (res, w')"
      by (simp add: machine_Register_def Let_def)
    obtain f w1 where found: "found_or_created ?env ?uuid w = (f, w1)" by fastforce
    have uuid: "?uuid \<noteq> ''''" using False by blast
    note found_ok = found_or_created_keeps [OF machines found uuid]
    show ?thesis
    proof (cases f)
      case (Inl err)
      with step found found_ok show ?thesis by (simp add: bind_action_def)
    next
      case (Inr m1)
      with found_ok have reg1: "registering ?uuid ?before m1" by blast
      obtain sz db2 where sz: "hardware_size (mr_sizes (mp_readers r)) ?hw (mw_db w1) = (sz, db2)" by fastforce
      with size_reads [of "mr_sizes (mp_readers r)" ?hw] have db2: "db2 = mw_db w1"
        by (auto dest: reads_onlyD [where st = "mw_db w1"])
      show ?thesis
      proof (cases sz)
        case (Inl err)
        with step found found_ok Inr sz db2 show ?thesis by (simp add: bind_action_def on_db_def)
      next
        case sz': (Inr s)
        obtain u w3 where upd: "update_machine ?env (register_fields req ?hw bios ?ipmi s m1) w1 = (u, w3)" by fastforce
        note step = step [unfolded bind_action_def found Inr sz sz' db2 on_db_def prod.case sum.case Let_def, simplified, unfolded upd]
        from found_ok Inr reg1 have reg2: "registering ?uuid ?before (register_fields req ?hw bios ?ipmi s m1)"
          by (auto simp: registering_def) (simp add: register_fields_def)
        show ?thesis
        proof (cases u)
          case (Inl err)
          with update_machine_failed upd have "mw_db w3 = mw_db w1" by blast
          with step Inl found_ok show ?thesis by simp
        next
          case u: (Inr m2)
          note updated = update_machine_ok [OF machines(1) upd [unfolded u]]
          with registering_step(1) [OF reg2] have reg3: "registering ?uuid ?before m2" by simp
          have keeps3: "registration_keeps ?uuid ?before (rows (mw_db w3))"
            using updated found_ok registration_keeps_update [OF _ reg3] reg2 by (simp add: registering_def)
          obtain k db4 where cont: "ensure_container ?env (b_ID m2) (mw_db w3) = (k, db4)" by fastforce
          with leavesD [OF container_leaves [OF events]] keeps3 have keeps4: "registration_keeps ?uuid ?before (rows db4)"
            by metis
          obtain r' w5 m5 where con: "retry IsConflict (connect_registered r) (w3\<lparr>mw_db := db4\<rparr>, m2) = (r', w5, m5)"
            by (metis prod.collapse)
          let ?P = "\<lambda>s. registration_keeps ?uuid ?before (rows (mw_db (fst s))) \<and> registering ?uuid ?before (snd s)"
          have "?P (snd (retry IsConflict (connect_registered r) (w3\<lparr>mw_db := db4\<rparr>, m2)))"
          proof (rule repeated [OF retry])
            show "?P (snd (connect_registered r s))" if "?P s" for s
              using connecting_keeps [OF machines(1) switches that] by (metis prod.collapse)
          qed (simp add: keeps4 reg3)
          then have "registration_keeps ?uuid ?before (rows (mw_db w5))" by (simp add: con)
          with step keeps4 show ?thesis by (auto simp: u cont con split: sum.splits)
        qed
      qed
    qed
  qed
  with row show ?thesis by (simp add: registration_keeps_def)
qed

section \<open>Examples\<close>

text \<open>The database of \<open>creation_env\<close>, with switches that are only read.\<close>

definition read_only_switches :: "example_db switch_env" where
  "read_only_switches = \<lparr>se_switches = const_table b_ID [], se_status = const_table b_ID [], se_machines = db_machines,
     se_networks = const_table b_ID [], se_ips = const_table b_ID [], se_partition = (\<lambda>_ _. Inr ()),
     se_enums = \<lparr>sen_ReplaceMode = (\<lambda>_. Inr ''operational''), sen_ReplaceMode_of = (\<lambda>_. Inr 1),
       sen_Vendor = (\<lambda>_. Inr ''SONiC''), sen_Vendor_of = (\<lambda>_. Inr 1), sen_PortStatus = (\<lambda>_. Inr ''up''),
       sen_PortStatus_of = (\<lambda>_. Inr 1), sen_BGPState = (\<lambda>_. Inr ''Idle''), sen_BGPState_of = (\<lambda>_. Inr 1),
       sen_UP = 1, sen_DOWN = 2\<rparr>,
     se_machine_enums = \<lparr>en_AllocationType = (\<lambda>_. Inr ''machine''), en_MachineState = (\<lambda>_. Inr '''')\<rparr>,
     se_IPSet = (\<lambda>ps. Inr ps), se_eu = plain_errorutil, se_now = 2, se_newID = Inr ''id''\<rparr>"

definition example_readers ::
  "(example_db, IP list, Network list, uint list, address_list, uint list, unit, unit) machine_readers" where
  "example_readers = \<lparr>mr_env = creation_env bare_layout,
     mr_partitions = \<lparr>pte_table = const_table b_ID [example_partition], pte_url = (\<lambda>_. Inr ()), pte_machines = (\<lambda>_. Inr 1),
       pte_networks = (\<lambda>_. Inr 0), pte_reservations = (\<lambda>_. Inr 0), pte_eu = plain_errorutil, pte_now = 2, pte_newID = Inr ''id''\<rparr>,
     mr_sizes = \<lparr>se_table = const_table b_ID [example_size], se_GetEnum = (\<lambda>_. Inr SIZE_CONSTRAINT_TYPE_CORES),
       se_machines = (\<lambda>_. Inr 0), se_reservations = (\<lambda>_. Inr 0), se_imageConstraints = (\<lambda>_. Inr 0), se_now = 2,
       se_newID = Inr ''id''\<rparr>,
     mr_layouts = \<lparr>fv_enums = example_fs_enums, fv_semver = semver.truncate (ie_semver example_images), fv_table = const_table b_ID [bare_layout],
       fv_machines = (\<lambda>_. Inr 0), fv_hardware = (\<lambda>_. Inr []), fv_eu = plain_errorutil, fv_now = 2, fv_newID = Inr ''id''\<rparr>,
     mr_names = \<lparr>mna_Protocol = (\<lambda>s. if s = ''tcp'' then Inr IP_PROTOCOL_TCP else Inr IP_PROTOCOL_UDP),
       mna_AllocationType = (\<lambda>_. Inr MACHINE_ALLOCATION_TYPE_MACHINE), mna_Liveliness = (\<lambda>_. Inr 1),
       mna_EventType = (\<lambda>_. Inr EVENT_TYPE_MACHINE_RECLAIM), mna_EventType_string = (\<lambda>_. Inr ''Machine Reclaim'')\<rparr>\<rparr>"

definition example_repo ::
  "string option \<Rightarrow> (example_db, IP list, Network list, uint list, address_list, uint list, unit, unit) machine_repo" where
  "example_repo scope = \<lparr>mp_readers = example_readers, mp_scope = scope, mp_fsm = table_fsm, mp_uuid_Parse = (\<lambda>_. Inr ()),
     mp_switches = read_only_switches, mp_ip_tasks = \<lparr>it_NewTask = (\<lambda>_ _ _. return ''task''), it_Watch = (\<lambda>_. return ())\<rparr>,
     mp_BMCCommand = (\<lambda>_. Inr ''''), mp_NewBMCTask = (\<lambda>_. return ''task''), mp_NewDeleteTask = (\<lambda>_. return ''task''),
     mp_Watch = (\<lambda>_. return ()), mp_retry = (\<lambda>_ a. a), mp_NewInternal = (\<lambda>e. e)\<rparr>"

lemma example_repo_sel:
  "mr_env example_readers = creation_env bare_layout" "mp_scope (example_repo scope) = scope"
  "mp_switches (example_repo scope) = read_only_switches" "mp_readers (example_repo scope) = example_readers"
  by (simp_all add: example_repo_def example_readers_def)

lemmas db_rows = creation_setting(1,2) [of bare_layout]

definition allocated_machine :: Machine where
  "allocated_machine = idle_machine\<lparr>m_Allocation := Some ((example_allocation ''p1'')\<lparr>ma_UUID := ''a1''\<rparr>),
     m_State := (m_State idle_machine)\<lparr>ms_Value := LockedState\<rparr>\<rparr>"

definition allocated_world :: "(example_db, IP list, address_list, uint list, unit) machine_world" where
  "allocated_world = creation_world\<lparr>mw_db := ([allocated_machine], [])\<rparr>"

lemma allocated_sel:
  "b_ID allocated_machine = ''m1''" "b_Changed allocated_machine = 1" "m_PartitionID allocated_machine = ''part''"
  "m_Allocation allocated_machine = Some ((example_allocation ''p1'')\<lparr>ma_UUID := ''a1''\<rparr>)"
  "ms_Value (m_State allocated_machine) = LockedState" "mw_db allocated_world = ([allocated_machine], [])"
  by (simp_all add: allocated_machine_def allocated_world_def idle_machine_sel)

lemma allocated_row: "list_rows b_ID [allocated_machine] i = (if i = ''m1'' then Some allocated_machine else None)"
  by (simp add: list_rows_def allocated_sel)

definition release_payload :: MachineDeletePayload where
  "release_payload = \<lparr>dp_UUID = ''m1'', dp_AllocationUUID = ''a1'', dp_Project = ''p1'', dp_Partition = ''part'',
     dp_RackID = '''', dp_MachineIpAllocationUUIDs = [], dp_HeadscaleNodeID = None\<rparr>"

theorem released_allocation_witness:
  "\<exists>w'. releaseAllocationTask (example_repo None) release_payload allocated_world = (Inr (), w') \<and>
     map_option m_Allocation (list_rows b_ID (fst (mw_db w')) ''m1'') = Some None"
proof -
  have find: "find_allocated (creation_env bare_layout) ''a1'' ([allocated_machine], []) = Inr allocated_machine"
    by (simp add: find_allocated_def storage_Find_def creation_env_sel db_machines_def part_table_def base_table_def
        list_rethink_def allocation_filter allocated_with_def allocated_sel allocated_row)
  obtain w' where w': "releaseAllocationTask (example_repo None) release_payload allocated_world = (Inr (), w')"
    by (simp add: releaseAllocationTask_def example_repo_sel release_payload_def allocated_sel find bind_action_def on_error_def
        update_machine_def on_db_def creation_env_sel Let_def
        update_db_machine [of "allocated_machine\<lparr>m_Allocation := None, m_PreAllocated := False\<rparr>" allocated_machine])
  have "(\<lambda>i. list_rows b_ID (fst (mw_db w')) i) = map_option (released (creation_env bare_layout) (dp_AllocationUUID release_payload)) \<circ>
      list_rows b_ID (fst (mw_db allocated_world))"
    using released_allocation [OF _ _ w', of "\<lambda>w. list_rows b_ID (fst w)"] db_rows by (simp add: example_repo_sel comp_def)
  then have "list_rows b_ID (fst (mw_db w')) ''m1'' = Some (released (creation_env bare_layout) ''a1'' allocated_machine)"
    by (simp add: fun_eq_iff allocated_sel allocated_row release_payload_def)
  with w' show ?thesis by (simp add: released_def allocated_with_def allocated_sel)
qed

text \<open>A machine of another project, and one that is locked.\<close>

theorem decommission_refused_witness:
  "\<not> is_ok (fst (Decommission (example_repo (Some ''p2'')) ''p2'' ''m1'' allocated_world)) \<and>
   snd (Decommission (example_repo (Some ''p1'')) ''p1'' ''m1'' allocated_world) = allocated_world"
  using decommission_refused [of "example_repo (Some ''p2'')" "\<lambda>w. list_rows b_ID (fst w)" allocated_world "''m1''" "''p2''"]
    decommission_refused [of "example_repo (Some ''p1'')" "\<lambda>w. list_rows b_ID (fst w)" allocated_world "''m1''" "''p1''"] db_rows
  by (simp add: example_repo_sel allocated_sel allocated_row example_allocation_def)

definition example_rules :: ApiFirewallRules where
  "example_rules = \<lparr>afr_Egress = [\<lparr>aer_Protocol = IP_PROTOCOL_TCP, aer_Ports = [80, 443], aer_To = [], aer_Comment = ''web''\<rparr>],
     afr_Ingress = [\<lparr>air_Protocol = IP_PROTOCOL_UDP, air_Ports = [53], air_To = [], air_From = [], air_Comment = ''dns''\<rparr>]\<rparr>"

definition protocol_string :: "ApiIPProtocol \<Rightarrow> string result" where
  "protocol_string p = (case p of IP_PROTOCOL_TCP \<Rightarrow> Inr ''tcp'' | IP_PROTOCOL_UDP \<Rightarrow> Inr ''udp'' | _ \<Rightarrow> Inl (Plain ''''))"

theorem firewall_rules_roundtrip_witness:
  "\<exists>fw. convertFirewallRulesToInternal protocol_string example_rules = Inr fw \<and>
     proto_rules (mr_names example_readers) (Some fw) = Inr (Some example_rules)"
proof -
  have "is_ok (convertFirewallRulesToInternal protocol_string example_rules)" by code_simp
  then obtain fw where fw: "convertFirewallRulesToInternal protocol_string example_rules = Inr fw" by (auto simp: is_ok_iff)
  have l: "ToLower ''tcp'' = ''tcp''" "ToLower ''udp'' = ''udp''" by code_simp+
  have "protocol_strings protocol_string (mr_names example_readers)"
    by (auto simp: protocol_strings_def protocol_string_def example_readers_def l split: ApiIPProtocol.splits)
  from firewall_rules_roundtrip [OF this fw] fw show ?thesis by blast
qed

definition example_report :: BMCReport where
  "example_report = \<lparr>br_Uuid = ''m1'', br_Bmc = Some \<lparr>abm_Address = ''10.0.0.1'', abm_Mac = '''', abm_User = '''',
     abm_Password = '''', abm_Interface = '''', abm_Version = '''', abm_PowerState = ''ON''\<rparr>, br_Bios = None, br_Fru = None,
     br_PowerMetric = None, br_PowerSupplies = [], br_LedState = None, br_UpdatedAt = None\<rparr>"

lemma example_report_applied:
  "fst (UpdateBMCInfo (creation_env bare_layout) ''part'' [example_report] ([allocated_machine], [])) = Inr ([''m1''], []) \<and>
   map_option (ipmi_Address \<circ> m_IPMI)
     (list_rows b_ID (fst (snd (UpdateBMCInfo (creation_env bare_layout) ''part'' [example_report] ([allocated_machine], [])))) ''m1'')
       = Some ''10.0.0.1''"
proof -
  have part: "tbl_Get (const_table b_ID [example_partition]) ''part'' st = (Inr example_partition, st)" for st :: example_db
    using get_const [of example_partition st] by (simp add: example_partition_def)
  have id: "b_ID example_partition = ''part''" by (simp add: example_partition_def)
  have filter: "MachineFilter en (partition_query ''part'') allocated_machine" for en
    by (simp add: MachineFilter_def partition_query_def empty_machine_query_def machine_fields_def matches_field_def given_def
        after_allocation_def state_and_after_def allocated_sel)
  have list: "tbl_List db_machines [MachineFilter en (partition_query ''part'')] ([allocated_machine], []) =
      (Inr [allocated_machine], ([allocated_machine], []))" for en
    by (simp add: tbl_List_def storage_List_def db_machines_def part_table_def base_table_def list_rethink_def filter allocated_row allocated_sel)
  have upd: "storage_Update db_machines now m ([allocated_machine], []) = (m\<lparr>b_Changed := now, b_Generation := b_Generation m + 1\<rparr>,
      Inr ([m\<lparr>b_Changed := now, b_Generation := b_Generation m + 1\<rparr>], []))"
    if "b_ID m = b_ID allocated_machine" "b_Changed m = b_Changed allocated_machine" for m now
    using that by (simp add: storage_Update_def db_machines_def part_table_def base_table_def list_rethink_def list_rows_def
        list_without_def setChanged_def setGeneration_def Let_def allocated_sel)
  show ?thesis
    by (simp add: UpdateBMCInfo_def bind_action_def creation_env_sel part list id has_key_def map_keys_def allocated_sel example_report_def
        Let_def upd apply_report_def report_bmc_def non_empty_def list_rows_def)
qed

theorem reports_change_board_data_witness:
  "\<exists>m'. list_rows b_ID (fst (snd (UpdateBMCInfo (creation_env bare_layout) ''part'' [example_report] ([allocated_machine], [])))) ''m1''
     = Some m' \<and> m_Allocation m' = m_Allocation allocated_machine \<and> ms_Value (m_State m') = LockedState \<and>
     ipmi_Address (m_IPMI m') = ''10.0.0.1''"
proof -
  let ?u = "UpdateBMCInfo (creation_env bare_layout) ''part'' [example_report] ([allocated_machine], [])"
  have parts: "rethink_table (me_partitions (creation_env bare_layout)) (\<lambda>_. list_rows b_ID [example_partition])"
    "rt_key (me_partitions (creation_env bare_layout)) = b_ID"
    by (simp_all add: creation_env_sel const_table) (simp add: const_table_def)
  obtain res db' where u: "?u = (res, db')" by (meson surj_pair)
  from reports_change_board_data [OF db_rows parts u, of "''m1''" allocated_machine]
  show ?thesis using example_report_applied by (auto simp: u allocated_row same_but_board_iff allocated_sel)
qed

definition example_registration :: RegisterRequest where
  "example_registration = \<lparr>rr_Uuid = ''m1'', rr_Hardware = Some \<lparr>amh_Memory = 1, amh_Disks = [], amh_Cpus = [], amh_Gpus = [],
       amh_Nics = []\<rparr>,
     rr_Bios = Some \<lparr>bios_Version = ''1'', bios_Vendor = '''', bios_Date = ''''\<rparr>, rr_Bmc = None, rr_Fru = None, rr_Tags = [],
     rr_MetalHammerVersion = ''v1'', rr_Partition = ''other''\<rparr>"

theorem registration_keeps_machines_witness:
  "\<exists>x. list_rows b_ID (fst (mw_db (snd (machine_Register (example_repo None) (\<lambda>_ a. a) example_registration allocated_world)))) ''m1''
     = Some x \<and> m_Allocation x = m_Allocation allocated_machine \<and> ms_Value (m_State x) = LockedState"
proof -
  obtain res w' where reg: "machine_Register (example_repo None) (\<lambda>_ a. a) example_registration allocated_world = (res, w')"
    by fastforce
  have retry: "repeats (\<lambda>_ a. a)"
    unfolding repeats_def by (intro allI exI [of _ 0]) simp
  have apart: "inserts_apart (me_events (mp_env (example_repo None))) (\<lambda>w. list_rows b_ID (fst w))"
    "keeps_rows (se_switches (mp_switches (example_repo None))) (\<lambda>w. list_rows b_ID (fst w))"
    by (simp_all add: example_repo_sel creation_env_sel read_only_switches_def inserts_apart_def keeps_rows_def const_table_def)
  have rows: "rethink_table (me_machines (mp_env (example_repo None))) (\<lambda>w. list_rows b_ID (fst w))"
    "rt_key (me_machines (mp_env (example_repo None))) = b_ID"
    using db_rows by (simp_all add: example_repo_sel)
  from registration_keeps_machines [OF rows apart retry reg, of "''m1''" allocated_machine]
  show ?thesis by (auto simp: reg allocated_row same_but_registered_iff allocated_sel)
qed

end
