(* ===== verification/RateLimiter.thy ===== *)
theory RateLimiter
  imports TokenRepository SwitchProps
begin

text \<open>
  The rate limiter, \<^verbatim>\<open>pkg/rate-limiter\<close>, over the redis server: the requests of a token or
  of an address are counted under a key of the current minute. Reading and incrementing the count are two
  steps, between which other requests may take theirs. The minute of the hour is an argument.
\<close>

section \<open>The code\<close>

definition halfHour :: duration where
  "halfHour = 30 * Minute"

definition errRatelimitReached :: go_error where
  "errRatelimitReached = Plain ''you have reached the per-minute API rate limit (limit: %d)''"

definition keyFromToken :: "Token \<Rightarrow> nat \<Rightarrow> string" where
  "keyFromToken t minute = ''ratelimiter_'' @ t_User t @ '':'' @ t_Uuid t @ '':'' @ itoa minute"

definition keyFromIP :: "string \<Rightarrow> nat \<Rightarrow> string" where
  "keyFromIP ip minute = ''ratelimiter_'' @ ip @ '':'' @ itoa minute"

text \<open>The two halves of \<open>limit\<close>.\<close>

definition limit_read :: "'st redis \<Rightarrow> string \<Rightarrow> int \<Rightarrow> 'st \<Rightarrow> unit result" where
  "limit_read r k maxRequestsPerMinute st =
     bind_result (r_Get r k st) (\<lambda>raw.
     case raw of
       None \<Rightarrow> Inr ()
     | Some raw \<Rightarrow>
         bind_result (map_error (Wrapped ''limit count is malformed: %w'') (Atoi raw)) (\<lambda>count.
         check_that (\<not> count > maxRequestsPerMinute) errRatelimitReached))"

definition limit_incr :: "'st redis \<Rightarrow> string \<Rightarrow> 'st \<Rightarrow> 'st result" where
  "limit_incr r k st =
     map_error (Wrapped ''unable to increment rate-limit count: %w'') (r_Exec r [CmdIncr k, CmdExpire k halfHour] st)"

definition limit :: "'st redis \<Rightarrow> string \<Rightarrow> int \<Rightarrow> 'st \<Rightarrow> bool result \<times> 'st" where
  "limit r k maxRequestsPerMinute st =
     (case bind_result (limit_read r k maxRequestsPerMinute st) (\<lambda>_. limit_incr r k st) of
        Inl err \<Rightarrow> (Inl err, st)
      | Inr st' \<Rightarrow> (Inr True, st'))"

text \<open>Tokens of admins have no limit.\<close>

definition CheckLimitTokenAccess :: "'st redis \<Rightarrow> Token \<Rightarrow> int \<Rightarrow> nat \<Rightarrow> 'st \<Rightarrow> bool result \<times> 'st" where
  "CheckLimitTokenAccess r t maxRequestsPerMinute minute st =
     (if IsAdminToken t then (Inr True, st) else limit r (keyFromToken t minute) maxRequestsPerMinute st)"

definition CheckLimitUnauthenticatedAccess :: "'st redis \<Rightarrow> string \<Rightarrow> int \<Rightarrow> nat \<Rightarrow> 'st \<Rightarrow> bool result \<times> 'st" where
  "CheckLimitUnauthenticatedAccess r ip maxRequestsPerMinute minute st =
     limit r (keyFromIP ip minute) maxRequestsPerMinute st"

text \<open>
  The interceptor. A request without a token is counted under the address in its headers; without one it
  is not counted. Only the error of the limit is reported as exhausted.
\<close>

definition extractClientIP :: "(string \<Rightarrow> string) \<Rightarrow> string option" where
  "extractClientIP header_Get =
     (let ip = header_Get ''X-Forwarded-For'' in
      if ip \<noteq> '''' then Some ip
      else
        let ip = header_Get ''X-Real-Ip'' in
        if ip \<noteq> '''' then Some ip else None)"

record limiter_config =
  lc_MaxRequestsPerMinuteToken :: int
  lc_MaxRequestsPerMinuteUnauthenticated :: int
  lc_NewResourceExhausted :: "go_error \<Rightarrow> go_error" \<comment> \<open>of \<open>errorutil\<close>\<close>
  lc_NewInternal :: "go_error \<Rightarrow> go_error"

definition ratelimit_WrapUnary ::
  "limiter_config \<Rightarrow> 'st redis \<Rightarrow> nat \<Rightarrow> ('st \<Rightarrow> 'x result \<times> 'st) \<Rightarrow> Token option \<Rightarrow> (string \<Rightarrow> string) \<Rightarrow>
   'st \<Rightarrow> 'x result \<times> 'st" where
  "ratelimit_WrapUnary cfg r minute next_handler t header_Get st =
     (let checked = (case t of
            Some t \<Rightarrow> Some (CheckLimitTokenAccess r t (lc_MaxRequestsPerMinuteToken cfg) minute st)
          | None \<Rightarrow>
              (case extractClientIP header_Get of
                 None \<Rightarrow> None
               | Some clientIP \<Rightarrow>
                   Some (CheckLimitUnauthenticatedAccess r clientIP (lc_MaxRequestsPerMinuteUnauthenticated cfg) minute st)))
      in case checked of
           None \<Rightarrow> next_handler st
         | Some (Inl err, st) \<Rightarrow>
             (Inl (if err = errRatelimitReached then lc_NewResourceExhausted cfg err else lc_NewInternal cfg err), st)
         | Some (Inr _, st) \<Rightarrow> next_handler st)"

section \<open>Requests at the same time\<close>

text \<open>
  At most \<open>c\<close> requests with the same key are between their two steps. The steps of other parts of the system
  do not write the key, which does not expire within its minute, and a failed
  transaction has no effect.
\<close>

record 'st limiter =
  lm_redis :: 'st
  lm_pending :: nat
  lm_allowed :: nat

inductive limiter_step :: "'st redis \<Rightarrow> ('st \<Rightarrow> (string \<rightharpoonup> string)) \<Rightarrow> string \<Rightarrow> int \<Rightarrow> nat \<Rightarrow> 'st limiter \<Rightarrow> 'st limiter \<Rightarrow> bool"
  for r :: "'st redis" and view :: "'st \<Rightarrow> (string \<rightharpoonup> string)" and k :: string and lim :: int and c :: nat where
  read: "limit_read r k lim (lm_redis s) = Inr () \<Longrightarrow> lm_pending s < c \<Longrightarrow>
    limiter_step r view k lim c s (s\<lparr>lm_pending := lm_pending s + 1\<rparr>)"
| incr: "lm_pending s > 0 \<Longrightarrow> limit_incr r k (lm_redis s) = Inr st \<Longrightarrow>
    limiter_step r view k lim c s \<lparr>lm_redis = st, lm_pending = lm_pending s - 1, lm_allowed = lm_allowed s + 1\<rparr>"
| failed: "lm_pending s > 0 \<Longrightarrow> limiter_step r view k lim c s (s\<lparr>lm_pending := lm_pending s - 1\<rparr>)"
| other: "view st k = view (lm_redis s) k \<Longrightarrow> limiter_step r view k lim c s (s\<lparr>lm_redis := st\<rparr>)"

inductive limiter_reachable :: "'st redis \<Rightarrow> ('st \<Rightarrow> (string \<rightharpoonup> string)) \<Rightarrow> string \<Rightarrow> int \<Rightarrow> nat \<Rightarrow> 'st limiter \<Rightarrow> bool"
  for r :: "'st redis" and view :: "'st \<Rightarrow> (string \<rightharpoonup> string)" and k :: string and lim :: int and c :: nat where
  initial: "view st k = None \<Longrightarrow> limiter_reachable r view k lim c \<lparr>lm_redis = st, lm_pending = 0, lm_allowed = 0\<rparr>"
| step: "limiter_reachable r view k lim c s \<Longrightarrow> limiter_step r view k lim c s s' \<Longrightarrow> limiter_reachable r view k lim c s'"

section \<open>The bound\<close>

lemma decimal_itoa: "decimal (itoa n) = Some n"
proof -
  let ?f = "\<lambda>c n. case n of None \<Rightarrow> None | Some n \<Rightarrow>
    if of_char c \<ge> (48::nat) \<and> of_char c \<le> (57::nat) then Some (10 * n + (of_char c - 48)) else None"
  have "fold ?f (itoa n) (Some 0) = Some n"
  proof (induction n rule: itoa.induct)
    case (1 n)
    show ?case
    proof (cases "n < 10")
      case True
      then show ?thesis by (subst itoa.simps) simp
    next
      case False
      with 1 have ih: "fold ?f (itoa (n div 10)) (Some 0) = Some (n div 10)" by blast
      from False show ?thesis by (subst itoa.simps) (simp add: ih)
    qed
  qed
  then show ?thesis by (simp add: decimal_def)
qed

definition counted :: "string option \<Rightarrow> nat \<Rightarrow> bool" where
  "counted v n \<longleftrightarrow> v = (if n = 0 then None else Some (itoa n))"

text \<open>A request that is let through has read the count and is one more in it.\<close>

lemma limit_steps:
  "limit r k n st = (Inr b, st') \<longleftrightarrow> b \<and> limit_read r k n st = Inr () \<and> limit_incr r k st = Inr st'"
  by (auto simp: limit_def bind_result_ok split: sum.splits)

context redis_server
begin

lemma limit_read_counted:
  assumes "limit_read r k lim st = Inr ()" and "counted (view st k) n" and "int n < 2 ^ 63" and "0 \<le> lim"
  shows "int n \<le> lim"
proof (cases n)
  case (Suc m)
  from assms(1) obtain v where v: "r_Get r k st = Inr v" by (auto simp: limit_read_def bind_result_ok)
  with get assms(2) Suc have "v = Some (itoa n)" by (auto simp: counted_def)
  moreover have "Atoi (itoa n) = Inr (int n)" using assms(3) by (intro Atoi_itoa) (simp flip: of_nat_less_iff)
  ultimately show ?thesis using assms(1) v by (simp add: limit_read_def check_that_def split: if_splits)
qed (use assms(4) in simp)

lemma limit_incr_counted:
  assumes "limit_incr r k st = Inr st'" and "counted (view st k) n"
  shows "counted (view st' k) (Suc n)"
proof -
  from assms(1) have "r_Exec r [CmdIncr k, CmdExpire k halfHour] st = Inr st'"
    by (auto simp: limit_incr_def map_error_def split: sum.splits)
  from exec [OF this] assms(2) show ?thesis by (auto simp: counted_def decimal_itoa)
qed

lemma limiter_invariant:
  "limiter_reachable r view k lim c s \<Longrightarrow> 0 \<le> lim \<Longrightarrow> lim + int c < 2 ^ 63 \<Longrightarrow>
     counted (view (lm_redis s) k) (lm_allowed s) \<and> lm_pending s \<le> c \<and>
     int (lm_allowed s) + int (lm_pending s) \<le> lim + int c"
proof (induction rule: limiter_reachable.induct)
  case (initial st)
  then show ?case by (simp add: counted_def)
next
  case (step s s')
  then have inv: "counted (view (lm_redis s) k) (lm_allowed s)" "lm_pending s \<le> c"
    "int (lm_allowed s) + int (lm_pending s) \<le> lim + int c" by simp_all
  from step.hyps(2) show ?case
  proof cases
    case read
    have "int (lm_allowed s) < 2 ^ 63" using inv(3) step.prems by linarith
    from limit_read_counted [OF read(2) inv(1) this step.prems(1)] inv read(3) show ?thesis
      by (simp add: read(1))
  next
    case (incr st)
    with inv limit_incr_counted [OF incr(3) inv(1)] show ?thesis by simp
  next
    case failed
    with inv show ?thesis by simp
  next
    case (other st)
    with inv show ?thesis by simp
  qed
qed

end

text \<open>
  C22: However the requests of a token or an address interleave, at most \<open>lim + c\<close> of them are allowed in a
  minute, where \<open>c\<close> is the number that runs at the same time: a single client gets one request more than
  the limit says, and every replica that checks at the same time may let another one pass. Requests of tokens with an
  admin role are not limited at all.
\<close>

theorem rate_limit_bound:
  assumes "redis_server r view" and "limiter_reachable r view k lim c s" and "0 \<le> lim" and "lim + int c < 2 ^ 63"
  shows "int (lm_allowed s) \<le> lim + int c"
  using redis_server.limiter_invariant [OF assms] by linarith

text \<open>One request after the other, with a limit of one: two are allowed, the third one is not.\<close>

theorem rate_limit_bound_witness:
  "\<exists>st1 st2. limit table_redis ''k'' 1 [] = (Inr True, st1) \<and> limit table_redis ''k'' 1 st1 = (Inr True, st2) \<and>
     fst (limit table_redis ''k'' 1 st2) = Inl errRatelimitReached \<and>
     limiter_reachable table_redis map_of ''k'' 1 1 \<lparr>lm_redis = st2, lm_pending = 0, lm_allowed = 2\<rparr> \<and>
     int (lm_allowed \<lparr>lm_redis = st2, lm_pending = 0, lm_allowed = 2\<rparr>) \<le> 1 + int 1"
proof -
  have i: "Atoi (itoa 1) = Inr 1" "Atoi (itoa 2) = Inr 2" using Atoi_itoa [of 1] Atoi_itoa [of 2] by simp_all
  let ?s = "\<lambda>st p a. \<lparr>lm_redis = st, lm_pending = p, lm_allowed = a\<rparr>"
  let ?t1 = "[(''k'', itoa 1)]" and ?t2 = "[(''k'', itoa 2)]"
  have rd: "limit_read table_redis ''k'' 1 [] = Inr ()" "limit_read table_redis ''k'' 1 ?t1 = Inr ()"
    "limit_read table_redis ''k'' 1 ?t2 = Inl errRatelimitReached"
    by (simp_all add: limit_read_def table_redis_def i [simplified] check_that_def del: itoa.simps)
  have inc: "limit_incr table_redis ''k'' [] = Inr ?t1" "limit_incr table_redis ''k'' ?t1 = Inr ?t2"
    by (simp_all add: limit_incr_def table_redis_def decimal_itoa del: itoa.simps flip: numeral_2_eq_2)
  have "limiter_reachable table_redis map_of ''k'' 1 1 (?s [] 0 0)" by (rule limiter_reachable.initial) simp
  moreover have "limiter_step table_redis map_of ''k'' 1 1 (?s [] 0 0) (?s [] 1 0)"
    using limiter_step.read [of table_redis "''k''" 1 "?s [] 0 0" 1 map_of] rd by simp
  moreover have "limiter_step table_redis map_of ''k'' 1 1 (?s [] 1 0) (?s ?t1 0 1)"
    using limiter_step.incr [of "?s [] 1 0" table_redis "''k''" ?t1 map_of 1 1] inc by simp
  moreover have "limiter_step table_redis map_of ''k'' 1 1 (?s ?t1 0 1) (?s ?t1 1 1)"
    using limiter_step.read [of table_redis "''k''" 1 "?s ?t1 0 1" 1 map_of] rd by simp
  moreover have "limiter_step table_redis map_of ''k'' 1 1 (?s ?t1 1 1) (?s ?t2 0 2)"
    using limiter_step.incr [of "?s ?t1 1 1" table_redis "''k''" ?t2 map_of 1 1] inc by (simp add: numeral_2_eq_2)
  ultimately have reach: "limiter_reachable table_redis map_of ''k'' 1 1 (?s ?t2 0 2)"
    by (meson limiter_reachable.step)
  have "int (lm_allowed (?s ?t2 0 2)) \<le> 1 + int 1"
    by (rule rate_limit_bound [OF redis_table.redis_server_axioms reach]) simp_all
  moreover have "limit table_redis ''k'' 1 [] = (Inr True, ?t1)" "limit table_redis ''k'' 1 ?t1 = (Inr True, ?t2)"
    "fst (limit table_redis ''k'' 1 ?t2) = Inl errRatelimitReached"
    unfolding limit_def rd inc by (simp_all add: bind_result_def inc del: One_nat_def)
  ultimately show ?thesis using reach by blast
qed

end
