(* ===== verification/Invites.thy ===== *)
theory Invites
  imports Redis
begin

text \<open>
  The stores of invitations to projects and tenants, \<^verbatim>\<open>pkg/invite/invite-store.go\<close>: an invitation is stored
  under its owner and under its secret. The two kinds share their operations, which are generic in Go; here
  they take the fields of the kind as a record. The JSON codec and the random numbers are arguments.
\<close>

section \<open>Invitations\<close>

text \<open>The messages of the API are opaque, with the fields that the stores read.\<close>

record 'e invite_message =
  ivm_Secret :: "'e \<Rightarrow> string"
  ivm_Owner :: "'e \<Rightarrow> string" \<comment> \<open>the project or the tenant the invitation is for\<close>
  ivm_ExpiresAt :: "'e \<Rightarrow> time option"
  ivm_Marshal :: "'e \<Rightarrow> string result"
  ivm_Unmarshal :: "string \<Rightarrow> 'e result"

record 'e invite_kind =
  iv_Secret :: "'e \<Rightarrow> string"
  iv_ExpiresAt :: "'e \<Rightarrow> time option"
  iv_key :: "'e \<Rightarrow> string"
  iv_Marshal :: "'e \<Rightarrow> string result"
  iv_Unmarshal :: "string \<Rightarrow> 'e result"

definition inviteSecretLength :: nat where
  "inviteSecretLength = 32"

definition inviteSecretLetters :: string where
  "inviteSecretLetters = ''0123456789ABCDEFGHIJKLMNOPQRSTUVWXYZabcdefghijklmnopqrstuvwxyz-''"

definition projectkey :: "string \<Rightarrow> string \<Rightarrow> string" where
  "projectkey project secret = ''invitestore_by_project_'' @ project @ '':'' @ secret"

definition tenantkey :: "string \<Rightarrow> string \<Rightarrow> string" where
  "tenantkey tenant secret = ''invitestore_by_tenant_'' @ tenant @ '':'' @ secret"

definition secretkey :: "string \<Rightarrow> string" where
  "secretkey secret = ''invitestore_by_secret_'' @ secret"

definition matchProject :: "string \<Rightarrow> string" where
  "matchProject projectId = ''invitestore_by_project_'' @ projectId @ '':'' @ ''*''"

definition matchTenant :: "string \<Rightarrow> string" where
  "matchTenant tenantId = ''invitestore_by_tenant_'' @ tenantId @ '':'' @ ''*''"

section \<open>Operations\<close>

definition ErrInviteNotFound :: go_error where
  "ErrInviteNotFound = Plain ''redis: nil''"

definition validateInviteSecret :: "string \<Rightarrow> unit result" where
  "validateInviteSecret s =
     bind_result (check_that (length s = inviteSecretLength) (Plain ''unexpected invite secret length'')) (\<lambda>_.
     check_each (\<lambda>letter. check_that (letter \<in> set inviteSecretLetters)
       (Plain ''invite secret contains unexpected characters: %s'')) s)"

definition stored_invite :: "'st redis \<Rightarrow> string \<Rightarrow> 'st \<Rightarrow> string result" where
  "stored_invite c k st =
     bind_result (r_Get c k st) (\<lambda>v. case v of None \<Rightarrow> Inl ErrInviteNotFound | Some encoded \<Rightarrow> Inr encoded)"

definition invite_get :: "'e invite_kind \<Rightarrow> 'st redis \<Rightarrow> string \<Rightarrow> 'st \<Rightarrow> 'e result" where
  "invite_get iv c secret st =
     bind_result (validateInviteSecret secret) (\<lambda>_.
     bind_result (stored_invite c (secretkey secret) st) (iv_Unmarshal iv))"

definition invite_delete :: "'e invite_kind \<Rightarrow> 'st redis \<Rightarrow> 'e \<Rightarrow> 'st \<Rightarrow> 'st result" where
  "invite_delete iv c i st =
     bind_result (validateInviteSecret (iv_Secret iv i)) (\<lambda>_.
     r_Exec c [CmdDel (secretkey (iv_Secret iv i)), CmdDel (iv_key iv i)] st)"

definition invite_set :: "'e invite_kind \<Rightarrow> 'st redis \<Rightarrow> time \<Rightarrow> 'e \<Rightarrow> 'st \<Rightarrow> 'st result" where
  "invite_set iv c now i st =
     (case iv_ExpiresAt iv i of
        None \<Rightarrow> Inl (Plain ''invite needs to have an expiration'')
      | Some t \<Rightarrow>
          bind_result (validateInviteSecret (iv_Secret iv i)) (\<lambda>_.
          bind_result (map_error (Wrapped ''unable to encode invite: %w'') (iv_Marshal iv i)) (\<lambda>encoded.
          r_Exec c [CmdSet (iv_key iv i) encoded (time_Sub t now),
            CmdSet (secretkey (iv_Secret iv i)) encoded (time_Sub t now)] st)))"

fun list_keys :: "'e invite_kind \<Rightarrow> 'st redis \<Rightarrow> string list \<Rightarrow> 'st \<Rightarrow> 'e list result" where
  "list_keys iv c [] st = Inr []"
| "list_keys iv c (k # ks) st =
     bind_result (stored_invite c k st) (\<lambda>encoded.
     bind_result (iv_Unmarshal iv encoded) (\<lambda>i.
     bind_result (list_keys iv c ks st) (\<lambda>is. Inr (i # is))))"

definition invite_list :: "'e invite_kind \<Rightarrow> 'st redis \<Rightarrow> string \<Rightarrow> 'st \<Rightarrow> 'e list result" where
  "invite_list iv c pat st = bind_result (r_Scan c pat st) (\<lambda>ks. list_keys iv c ks st)"

text \<open>The random numbers are below the number of letters.\<close>

fun secret_letters :: "(nat \<Rightarrow> nat result) \<Rightarrow> nat \<Rightarrow> nat \<Rightarrow> string result" where
  "secret_letters rand i 0 = Inr ''''"
| "secret_letters rand i (Suc n) =
     bind_result (map_error (Wrapped ''unable to generate invite secret: %w'') (rand i)) (\<lambda>num.
     bind_result (secret_letters rand (Suc i) n) (\<lambda>s. Inr ((inviteSecretLetters ! num) # s)))"

definition GenerateInviteSecret :: "(nat \<Rightarrow> nat result) \<Rightarrow> string result" where
  "GenerateInviteSecret rand = secret_letters rand 0 inviteSecretLength"

section \<open>The two stores\<close>

definition project_kind :: "'e invite_message \<Rightarrow> 'e invite_kind" where
  "project_kind m = \<lparr>iv_Secret = ivm_Secret m, iv_ExpiresAt = ivm_ExpiresAt m,
     iv_key = (\<lambda>i. projectkey (ivm_Owner m i) (ivm_Secret m i)), iv_Marshal = ivm_Marshal m, iv_Unmarshal = ivm_Unmarshal m\<rparr>"

definition tenant_kind :: "'e invite_message \<Rightarrow> 'e invite_kind" where
  "tenant_kind m = \<lparr>iv_Secret = ivm_Secret m, iv_ExpiresAt = ivm_ExpiresAt m,
     iv_key = (\<lambda>i. tenantkey (ivm_Owner m i) (ivm_Secret m i)), iv_Marshal = ivm_Marshal m, iv_Unmarshal = ivm_Unmarshal m\<rparr>"

definition ListProjectInvites :: "'e invite_message \<Rightarrow> 'st redis \<Rightarrow> string \<Rightarrow> 'st \<Rightarrow> 'e list result" where
  "ListProjectInvites m c projectid = invite_list (project_kind m) c (matchProject projectid)"

definition ListTenantInvites :: "'e invite_message \<Rightarrow> 'st redis \<Rightarrow> string \<Rightarrow> 'st \<Rightarrow> 'e list result" where
  "ListTenantInvites m c tenantID = invite_list (tenant_kind m) c (matchTenant tenantID)"

section \<open>Facts\<close>

lemma secret_letters_valid:
  assumes "\<And>i n. rand i = Inr n \<Longrightarrow> n < length inviteSecretLetters"
  shows "secret_letters rand i n = Inr s \<Longrightarrow> length s = n \<and> set s \<subseteq> set inviteSecretLetters"
proof (induction n arbitrary: i s)
  case (Suc n)
  from Suc.prems obtain num s' where num: "rand i = Inr num" and s': "secret_letters rand (Suc i) n = Inr s'"
    and s: "s = inviteSecretLetters ! num # s'"
    by (auto simp: bind_result_ok map_error_def split: sum.splits)
  from Suc.IH [OF s'] assms [OF num] show ?case by (simp add: s)
qed simp

text \<open>A generated secret passes the validation.\<close>

lemma generated_secret_valid:
  assumes "\<And>i n. rand i = Inr n \<Longrightarrow> n < length inviteSecretLetters" and "GenerateInviteSecret rand = Inr s"
  shows "validateInviteSecret s = Inr ()"
  using secret_letters_valid [of rand 0 inviteSecretLength s] assms(1) assms(2)
  by (auto simp: GenerateInviteSecret_def validateInviteSecret_def check_each_ok check_that_def bind_result_ok)

context redis_server
begin

lemma stored_invite_ok: "stored_invite r k st = Inr v \<Longrightarrow> view st k = Some v"
  using get [of k st] by (auto simp: stored_invite_def bind_result_ok split: option.splits)

text \<open>An invitation is found by its secret until it is deleted, and then by no means.\<close>

lemma invite_found:
  assumes "\<And>x. iv_Marshal iv i = Inr x \<Longrightarrow> iv_Unmarshal iv x = Inr i"
    and "invite_set iv r now i st = Inr st'" and "is_ok (r_Get r (secretkey (iv_Secret iv i)) st')"
  shows "invite_get iv r (iv_Secret iv i) st' = Inr i"
proof -
  from assms(2) obtain t x where v: "validateInviteSecret (iv_Secret iv i) = Inr ()" and x: "iv_Marshal iv i = Inr x"
    and e: "r_Exec r [CmdSet (iv_key iv i) x (time_Sub t now), CmdSet (secretkey (iv_Secret iv i)) x (time_Sub t now)] st = Inr st'"
    by (auto simp: invite_set_def bind_result_ok map_error_def split: option.splits sum.splits)
  from exec [OF e] have "view st' (secretkey (iv_Secret iv i)) = Some x" by simp
  with assms(3) get have "r_Get r (secretkey (iv_Secret iv i)) st' = Inr (Some x)" by (auto simp: is_ok_iff)
  with v x assms(1) show ?thesis by (simp add: invite_get_def stored_invite_def)
qed

lemma invite_gone:
  assumes "invite_delete iv r i st = Inr st'"
  shows "view st' (secretkey (iv_Secret iv i)) = None \<and> view st' (iv_key iv i) = None \<and>
    \<not> is_ok (invite_get iv r (iv_Secret iv i) st')"
proof -
  from assms have e: "r_Exec r [CmdDel (secretkey (iv_Secret iv i)), CmdDel (iv_key iv i)] st = Inr st'"
    by (auto simp: invite_delete_def bind_result_ok)
  from exec [OF e] have "view st' (secretkey (iv_Secret iv i)) = None" "view st' (iv_key iv i) = None" by simp_all
  with stored_invite_ok [of "secretkey (iv_Secret iv i)" st'] show ?thesis
    by (auto simp: invite_get_def bind_result_ok is_ok_iff)
qed

end

text \<open>
  C21: An invitation that has been stored is found by its secret then; right after it has been deleted, in whatever
  state, it is neither found by its secret nor left under its owner. The codec must decode what it has encoded of it.
\<close>

theorem invitation_found_until_deleted:
  assumes "redis_server r view" and "\<forall>x. iv_Marshal iv i = Inr x \<longrightarrow> iv_Unmarshal iv x = Inr i"
    and "invite_set iv r now i st = Inr st1" and "is_ok (r_Get r (secretkey (iv_Secret iv i)) st1)"
    and "invite_delete iv r i st2 = Inr st3"
  shows "invite_get iv r (iv_Secret iv i) st1 = Inr i \<and> \<not> is_ok (invite_get iv r (iv_Secret iv i) st3) \<and>
    view st3 (secretkey (iv_Secret iv i)) = None \<and> view st3 (iv_key iv i) = None"
  using redis_server.invite_found [OF assms(1) _ assms(3,4)] redis_server.invite_gone [OF assms(1,5)] assms(2) by blast

definition example_secret :: string where
  "example_secret = ''0123456789abcdef0123456789abcdef''"

text \<open>Messages that are their secret, encoded as it is.\<close>

definition example_invites :: "string invite_message" where
  "example_invites = \<lparr>ivm_Secret = (\<lambda>s. s), ivm_Owner = (\<lambda>_. ''p''), ivm_ExpiresAt = (\<lambda>_. Some 5),
     ivm_Marshal = Inr, ivm_Unmarshal = Inr\<rparr>"

theorem invitation_found_until_deleted_witness:
  "\<exists>st1 st2. invite_set (project_kind example_invites) table_redis 0 example_secret [] = Inr st1 \<and>
     invite_delete (project_kind example_invites) table_redis example_secret st1 = Inr st2 \<and>
     invite_get (project_kind example_invites) table_redis example_secret st1 = Inr example_secret \<and>
     \<not> is_ok (invite_get (project_kind example_invites) table_redis example_secret st2)"
proof -
  let ?iv = "project_kind example_invites"
  have sel: "iv_Secret ?iv example_secret = example_secret" "iv_ExpiresAt ?iv example_secret = Some 5"
    "iv_Marshal ?iv = Inr" "iv_Unmarshal ?iv = Inr"
    by (simp_all add: project_kind_def example_invites_def)
  have v: "validateInviteSecret example_secret = Inr ()"
    by (simp add: validateInviteSecret_def example_secret_def inviteSecretLength_def inviteSecretLetters_def check_that_def)
  obtain st1 where s: "invite_set ?iv table_redis 0 example_secret [] = Inr st1"
    by (simp add: invite_set_def sel v table_redis_def)
  obtain st2 where d: "invite_delete ?iv table_redis example_secret st1 = Inr st2"
    by (simp add: invite_delete_def sel v table_redis_def)
  have "is_ok (r_Get table_redis (secretkey (iv_Secret ?iv example_secret)) st1)" by (simp add: table_redis_def)
  with invitation_found_until_deleted [OF redis_table.redis_server_axioms _ s _ d] s d show ?thesis
    by (auto simp: sel)
qed

end
