(* ===== verification/Spec2Isabelle.thy ===== *)
theory Spec2Isabelle
  imports ProvisioningProps IssuesProps RackSpreading TokenRepositoryProps NetworkProps IpProps SizeProps SizeReservationProps FilesystemProps ImageProps
    SizeImageConstraints CapacityProps SwitchProps SwitchRepositoryProps MachineProps RateLimiter Invites
begin

text \<open>
  A model of the metal-apiserver, the API server of metal-stack, and theorems about it. The
  server stores the machines, networks, addresses, switches, sizes, images and partitions of data
  centers, records the events of machines, authorizes the requests of users and machines by their
  tokens, and hands out machines, addresses and numbers from pools. The definitions are
  translated from the Go code under \<^verbatim>\<open>src/pkg\<close> and keep its names; they compute, so concrete runs
  are evaluated in the witnesses.

  Conventions (theory \<open>Prelude\<close>). An error is a value of \<open>go_error\<close> with the kind \<^verbatim>\<open>errorutil\<close>
  gives it and the format string of the statement that makes it; a fallible function returns a
  \<open>result\<close>, a function that also changes state is a state transformer whose result may be an
  error. A panic is an error of its own. A Go map is an association list with distinct keys; where
  a loop over a map could give different results in different orders, the order is an argument. A
  \<open>time\<close> is a number of nanoseconds since Go's zero time, and the current time is an argument. A
  pointer through which a function changes its argument becomes a returned value. Code outside of
  the repository is an argument; what the code relies on is stated by the assumptions of a locale
  or of the theorem. Log messages, metrics and contexts are left out.

  The layers below the repositories:

  \<^item> Storage. \<open>Rethink\<close> is the interface of a table of the database, a record of functions with a
    locale for its laws and its instance on lists of rows. \<open>Storage\<close> (\<^verbatim>\<open>pkg/db/generic/storage.go\<close>)
    has the operations with optimistic locking on top of it: an update never overwrites one that
    the writer has not read (\<open>no_lost_update\<close>). \<open>IntegerPool\<close> (\<^verbatim>\<open>integer_pool.go\<close>, and
    \<^verbatim>\<open>pkg/repository/asn.go\<close>) has the pools of unique integers: no integer is held twice.
    \<open>SharedMutex\<close> (\<^verbatim>\<open>shared_mutex.go\<close>) has the mutexes of the replicas as a step relation, with
    mutual exclusion as long as locks are released in time, and a run in which a late release breaks it.
    \<open>TableActions\<close> lifts the storage to the actions that the repositories are made of.
  \<^item> \<open>Repository\<close> is the generic store of \<^verbatim>\<open>pkg/repository/store.go\<close> over a record of actions; its
    contract is a locale that the repositories with such a store interpret.
  \<^item> \<open>Redis\<close> is the interface of the redis server, \<open>Ipam\<close> that of the address management service,
    each a locale with an instance; \<open>Netip\<close> and \<open>Glob\<close> model what is used of Go's \<^verbatim>\<open>net/netip\<close> and
    \<^verbatim>\<open>path/filepath\<close>; \<open>Labels\<close> (\<^verbatim>\<open>pkg/repository/common.go\<close>, \<^verbatim>\<open>pkg/tags\<close>) patches labels and tags.

  Machines:

  \<^item> Provisioning. \<open>ProvisioningEvents\<close> (\<^verbatim>\<open>pkg/db/metal/provisioning-event.go\<close>) has the
    event history of a machine; \<open>FsmLibrary\<close> the interface of looplab/fsm as a locale;
    \<open>ProvisioningFSM\<close> (\<^verbatim>\<open>pkg/fsm\<close>) the states, the event table, the callbacks and
    \<open>HandleProvisioningEvent\<close>, and the core of \<open>SendEvent\<close> of \<^verbatim>\<open>pkg/repository/machine.go\<close>.
    \<open>ProvisioningProps\<close> proves when an event is accepted, that every reachable history is bounded,
    sorted and valid, except for the container that a registration has just stored, that its only Alive event is the one of the
    registration, what an event leaves in the history, and how the crash loop flag evolves; reachable
    histories are an inductive predicate that starts without a container or with that of a registration.
  \<^item> The entity and its issues. \<open>MachineData\<close> (\<^verbatim>\<open>pkg/db/metal/machine.go\<close>) has the data,
    \<open>MachineRules\<close> the rules of firewalls, LED states and networks of the same file, \<open>MachineQueries\<close>
    (\<^verbatim>\<open>pkg/db/queries/machine.go\<close>) the filter of queries. \<open>Issues\<close> (\<^verbatim>\<open>pkg/issues\<close>) has all issue types,
    their evaluation and \<open>Find\<close>; \<open>IssuesProps\<close>: \<open>Find\<close> reports exactly the included types that
    evaluate to true and respects its filters.
  \<^item> Allocation. \<open>MachineValidation\<close> (\<^verbatim>\<open>pkg/repository/machine-validation.go\<close>) checks a request;
    \<open>MachineCreation\<close> and \<open>MachineNetworks\<close> (\<^verbatim>\<open>machine-create.go\<close>) choose a waiting machine under the
    mutex of the partition, acquire networks, addresses, an ASN and a VPN key, store the allocation
    and roll back; \<open>RackSpreading\<close> (\<^verbatim>\<open>machine-rack-spreading.go\<close>) prefers the least occupied racks,
    for every order of every loop over a map. \<open>MachineCreationProps\<close>: the machine that is found was
    waiting, alive and free in the database as the others have left it when the mutex is taken; how the rows
    of the database differ after a creation, and that the created machine has what was requested; what a
    failed allocation and its rollback leave behind.
    \<open>Vpn\<close> (\<^verbatim>\<open>vpn.go\<close>) has the operations on the headscale server and the release of a machine's node.
  \<^item> The repository. \<open>MachineRepository\<close> (\<^verbatim>\<open>pkg/repository/machine.go\<close>) has the operations on stored
    machines and the tasks of a deleted one, \<open>MachineRegistration\<close> the registration and the reports of the
    boards, \<open>MachineConversion\<close> the message that the API shows. \<open>MachineProps\<close>: what a deletion task releases, what a
    registration and a report may change, the round trip of firewall rules, and that the retries of the code never happen.

  Networks and switches:

  \<^item> \<open>Networks\<close> (\<^verbatim>\<open>pkg/db/metal/network.go\<close>), \<open>NetworkValidation\<close> and \<open>NetworkRepository\<close>
    (\<^verbatim>\<open>network-validation.go\<close> and \<^verbatim>\<open>network.go\<close> of \<^verbatim>\<open>pkg/repository\<close>), with \<open>NetworkProps\<close>: networks
    without a parent do not overlap, a child takes what it promises from its parent, updates and
    deletions keep the address management in step.
  \<^item> \<open>IPs\<close> (\<^verbatim>\<open>pkg/db/metal/ip.go\<close>) and \<open>IpRepository\<close> (\<^verbatim>\<open>ip.go\<close>, \<^verbatim>\<open>ip-validation.go\<close>), with \<open>IpProps\<close>: what
    creating and deleting an address does to the table and to the address management, and that
    namespaced addresses are never given back.
  \<^item> \<open>Switches\<close> (\<^verbatim>\<open>pkg/db/metal/switch.go\<close>, \<^verbatim>\<open>nic.go\<close>), \<open>SwitchMessages\<close>, \<open>SwitchAdoption\<close>,
    \<open>SwitchRepository\<close> and \<open>SwitchRegistration\<close> (\<^verbatim>\<open>pkg/repository/switch.go\<close>, \<^verbatim>\<open>switch-validation.go\<close>):
    ports and their translation between operating systems, conversions, registering, replacing and
    migrating switches, and connecting machines. \<open>SwitchProps\<close> and \<open>SwitchRepositoryProps\<close> prove that
    setting a VRF touches a machine's ports only, that registering keeps the connected ports, and
    what the connections of a machine are once it has registered.

  Sizes, images and layouts:

  \<^item> \<open>Sizes\<close>, \<open>SizeRepository\<close>, \<open>SizeProps\<close> (\<^verbatim>\<open>size.go\<close>): sizes never overlap, a machine has at most one.
    \<open>SizeReservations\<close>, \<open>SizeReservationProps\<close> (\<^verbatim>\<open>size-reservation.go\<close>): an allocation that passes the check
    leaves enough machines for the open reservations. \<open>SizeImageConstraints\<close>
    (\<^verbatim>\<open>size-image-constraint.go\<close>): the images a size may run.
  \<^item> \<open>Images\<close>, \<open>ImageProps\<close> (\<^verbatim>\<open>image.go\<close>): the search for the most recent image of a version.
  \<^item> \<open>FilesystemData\<close>, \<open>Filesystems\<close>, \<open>FilesystemRepository\<close>, \<open>FilesystemProps\<close> (\<^verbatim>\<open>filesystem.go\<close>,
    \<^verbatim>\<open>filesystemlayout.go\<close>): the validation accepts exactly the well formed layouts.
  \<^item> \<open>Partitions\<close>, \<open>Capacity\<close>, \<open>CapacityProps\<close> (\<^verbatim>\<open>partition.go\<close>): the capacity of a partition in closed
    form, and its agreement with the check of reservations.

  Authorization:

  \<^item> \<open>Tokens\<close> has the token and the role types, \<open>Permissions\<close> (\<^verbatim>\<open>pkg/request\<close>) the
    permissions of a token and the check of a request, over the table of service permissions that
    the API package generates. \<open>PermissionsProps\<close> proves that a token without an admin role is
    bound to the memberships of its user, and that a user token follows them exactly.
  \<^item> \<open>TokenValidation\<close> (\<^verbatim>\<open>pkg/repository/token-validation.go\<close>), \<open>TokenStore\<close> (\<^verbatim>\<open>pkg/token\<close>) and
    \<open>TokenRepository\<close> (\<^verbatim>\<open>pkg/repository/token.go\<close>). The theories \<open>TokenValidationProps\<close>,
    \<open>TokenStoreProps\<close> and \<open>TokenRepositoryProps\<close> prove that compaction keeps the granted methods, that a
    validated request does not escalate, what the store gives back, the life time
    of tokens, and the bound on a created token; two theorems are about requests with wildcards that
    do escalate.
  \<^item> \<open>RateLimiter\<close> (\<^verbatim>\<open>pkg/rate-limiter\<close>): how many requests pass in a minute, over all interleavings of the
    replicas. \<open>Invites\<close> (\<^verbatim>\<open>pkg/invite\<close>): the stores of invitations, by owner and by secret.

  Bounds. Loops are structural recursion or folds, so no fuel is needed; two loops of the code wait
  for the database, and get what they observe as a finite list: the attempts to acquire an integer
  and the changes of a mutex that is locked, where the end of the list is the end of the context. A
  duration saturates at the ends of a signed 64 bit number; ASNs are words of 32 bits; counts of
  machines are compared with the largest Go int.

  Not modelled, as they hold no logic of their own: HTTP and gRPC plumbing and the handlers of
  \<^verbatim>\<open>pkg/service\<close>, which pass requests to the repositories; commands, flags and configuration; the
  database driver and its setup; certificates, JSON web tokens and OpenID Connect, which are calls
  of libraries; the queue of tasks, where a repository enqueues a task the task's effect is a
  definition of the component that handles it. Of \<^verbatim>\<open>pkg/repository\<close> these are left out: the
  stream of commands for the board management controllers of machines and their acknowledgement, and the request for issues,
  which selects machines and calls \<open>Find\<close>; projects and tenants, which are stored by the masterdata service; the
  audit and the component repositories, which read other services. Text is bytes: letter case is that of
  ASCII except in comments of rules, white space that of Unicode.
\<close>

end
